(* ===== verification/Prelude.thy ===== *)
theory Prelude
  imports Main "HOL-Library.Word" "HOL-Library.Monad_Syntax"
begin

text \<open>
  Shared vocabulary of the development: bytes and 32-bit words, the little-endian layout that
  \<^verbatim>\<open>memcpy\<close> of a \<^verbatim>\<open>uint32_t\<close> produces on the x86 hosts the programs are built for, C strings and
  \<^verbatim>\<open>strtok\<close>, \<^verbatim>\<open>recv\<close> with \<^verbatim>\<open>MSG_WAITALL\<close> on a byte stream, and \<^verbatim>\<open>memcpy\<close> into the middle of a
  buffer, together with the list lemmas the components share.

  Undefined behaviour of the C code (a wild pointer, a variable read before it is set, a loop
  that never ends) is the value \<open>None\<close> of an option type throughout.
\<close>

named_theorems frame_simps \<open>which state fields an operation leaves alone\<close>

named_theorems codec_simps \<open>encode and decode equations\<close>

type_synonym byte = "8 word"
type_synonym u16 = "16 word"
type_synonym u32 = "32 word"

section \<open>C integers\<close>

text \<open>The value of a \<^verbatim>\<open>uint32_t\<close> converted to \<^verbatim>\<open>int\<close>, and back.\<close>

definition to_int :: "u32 \<Rightarrow> int" where
  "to_int w = sint w"

definition of_cint :: "int \<Rightarrow> u32" where
  "of_cint i = word_of_int i"

lemma unat_u32_less [simp]: "unat (w :: u32) < 4294967296"
proof -
  have "unat w < 2 ^ LENGTH(32)" by (rule unsigned_less)
  then show ?thesis by simp
qed

lemma to_int_small:
  assumes "unat w < 2 ^ 31"
  shows "to_int w = int (unat w)"
proof -
  have u: "uint w = int (unat w)" by simp
  have "int (unat w) < int (2 ^ 31)" using assms by (simp only: of_nat_less_iff)
  then have "uint w < 2 ^ 31" unfolding u by simp
  moreover have "- (2 ^ 31) \<le> uint w" by (rule order_trans [of _ 0]) simp_all
  ultimately have "signed_take_bit 31 (uint w) = uint w"
    by (intro signed_take_bit_int_eq_self)
  then show ?thesis
    unfolding u by (simp add: to_int_def sint_uint)
qed

lemma of_cint_int [simp]: "of_cint (int n) = of_nat n"
  by (simp add: of_cint_def)

lemma unat_of_cint: "0 \<le> i \<Longrightarrow> i < 2 ^ 32 \<Longrightarrow> unat (of_cint i) = nat i"
  by (simp add: of_cint_def unat_eq_nat_uint uint_word_of_int take_bit_int_eq_self)

lemma unat_of_cint_pred: "0 < k \<Longrightarrow> k < 2 ^ 31 \<Longrightarrow> unat (of_cint (int k - 1)) = k - 1"
  using unat_of_cint [of "int k - 1"] by simp

section \<open>Little-endian 32-bit words\<close>

definition le32 :: "u32 \<Rightarrow> byte list" where
  "le32 w = [of_nat (unat w mod 256), of_nat (unat w div 256 mod 256),
             of_nat (unat w div 65536 mod 256), of_nat (unat w div 16777216 mod 256)]"

definition un_le32 :: "byte list \<Rightarrow> u32" where
  "un_le32 bs = of_nat (unat (bs ! 0) + 256 * unat (bs ! 1) + 65536 * unat (bs ! 2)
                        + 16777216 * unat (bs ! 3))"

lemma length_le32 [simp]: "length (le32 w) = 4"
  by (simp add: le32_def)

lemma unat_of_nat_byte: "n < 256 \<Longrightarrow> unat (of_nat n :: byte) = n"
  by (simp add: unat_of_nat)

lemma four_bytes:
  assumes "(v :: nat) < 4294967296"
  shows "v mod 256 + 256 * (v div 256 mod 256) + 65536 * (v div 65536 mod 256)
    + 16777216 * (v div 16777216 mod 256) = v"
proof -
  have d: "v div 65536 = v div 256 div 256" "v div 16777216 = v div 256 div 256 div 256"
    by (simp_all flip: div_mult2_eq)
  define a where "a = v div 256"
  define b where "b = a div 256"
  define c where "c = b div 256"
  have "c < 256" using assms by (simp add: a_def b_def c_def flip: div_mult2_eq)
  moreover have "v = v mod 256 + 256 * a" "a = a mod 256 + 256 * b" "b = b mod 256 + 256 * c"
    by (simp_all add: a_def b_def c_def)
  ultimately show ?thesis
    unfolding d by (simp flip: a_def b_def c_def)
qed

lemma un_le32_le32 [simp, codec_simps]: "un_le32 (le32 w) = w"
proof -
  have "un_le32 (le32 w) = of_nat (unat w mod 256 + 256 * (unat w div 256 mod 256)
      + 65536 * (unat w div 65536 mod 256) + 16777216 * (unat w div 16777216 mod 256))"
    by (simp add: un_le32_def le32_def unat_of_nat_byte)
  also have "\<dots> = of_nat (unat w)"
    by (simp only: four_bytes [OF unat_u32_less])
  also have "\<dots> = w" by simp
  finally show ?thesis .
qed

section \<open>C strings and strtok\<close>

text \<open>The bytes of a C string: everything before the first NUL.\<close>

definition cstr :: "byte list \<Rightarrow> byte list" where
  "cstr bs = takeWhile (\<lambda>b. b \<noteq> 0) bs"

text \<open>
  \<open>strtok_all d cur bs\<close> is the sequence of tokens that the calls \<^verbatim>\<open>strtok(s, d)\<close>,
  \<^verbatim>\<open>strtok(NULL, d)\<close>, \dots return on the string \<open>bs\<close>: the maximal non-empty runs without the
  delimiter. \<open>cur\<close> is the token being read, reversed.
\<close>

fun strtok_all :: "byte \<Rightarrow> byte list \<Rightarrow> byte list \<Rightarrow> byte list list" where
  "strtok_all d cur [] = (if cur = [] then [] else [rev cur])"
| "strtok_all d cur (b # bs) =
     (if b = d then (if cur = [] then [] else [rev cur]) @ strtok_all d [] bs
      else strtok_all d (b # cur) bs)"

definition strtok :: "byte \<Rightarrow> byte list \<Rightarrow> byte list list" where
  "strtok d bs = strtok_all d [] bs"

lemma strtok_all_run:
  "d \<notin> set xs \<Longrightarrow> strtok_all d cur (xs @ ys) = strtok_all d (rev xs @ cur) ys"
  by (induction xs arbitrary: cur) auto

lemma strtok_all_tokens:
  "t \<in> set (strtok_all d cur bs) \<Longrightarrow> d \<notin> set cur \<Longrightarrow>
     t \<noteq> [] \<and> d \<notin> set t \<and> set t \<subseteq> set cur \<union> set bs"
proof (induction d cur bs rule: strtok_all.induct)
  case (1 d cur)
  then show ?case by (auto split: if_splits)
next
  case (2 d cur b bs)
  show ?case
  proof (cases "b = d")
    case True
    with 2 show ?thesis by (auto split: if_splits)
  next
    case False
    with 2 show ?thesis by auto
  qed
qed

lemma strtok_token: "t \<in> set (strtok d bs) \<Longrightarrow> t \<noteq> [] \<and> d \<notin> set t \<and> set t \<subseteq> set bs"
  using strtok_all_tokens [of t d "[]" bs] by (simp add: strtok_def)

lemma strtok_Nil [simp]: "strtok d [] = []"
  by (simp add: strtok_def)

lemma strtok_delim [simp]: "strtok d (d # bs) = strtok d bs"
  by (simp add: strtok_def)

lemma strtok_cons_token:
  "d \<notin> set xs \<Longrightarrow> xs \<noteq> [] \<Longrightarrow> strtok d (xs @ d # ys) = xs # strtok d ys"
  by (simp add: strtok_def strtok_all_run)

lemma strtok_last_token: "d \<notin> set xs \<Longrightarrow> xs \<noteq> [] \<Longrightarrow> strtok d xs = [xs]"
  using strtok_all_run [of d xs "[]" "[]"] by (simp add: strtok_def)

lemma length_cstr_le: "length (cstr bs) \<le> length bs"
  by (simp add: cstr_def length_takeWhile_le)

lemma zero_not_in_cstr: "0 \<notin> set (cstr bs)"
  by (auto simp: cstr_def dest: set_takeWhileD)

lemma cstr_id: "0 \<notin> set bs \<Longrightarrow> cstr bs = bs"
  unfolding cstr_def by (induction bs) auto

lemma cstr_idem [simp]: "cstr (cstr bs) = cstr bs"
  by (simp add: cstr_id zero_not_in_cstr)

lemma cstr_terminated: "0 \<notin> set bs \<Longrightarrow> cstr (bs @ 0 # xs) = bs"
  unfolding cstr_def by (induction bs) auto

section \<open>recv\<close>

text \<open>
  \<^verbatim>\<open>recv(fd, buf, n, MSG_WAITALL)\<close> on the bytes still to come. It returns 0 at the end of the
  stream, and also when \<open>n\<close> is 0; the callers take both for a disconnection (\<open>Closed\<close>, with the
  bytes left). A peer that goes away in the middle of a message leaves part of the buffer
  unset (\<open>Partial\<close>).
\<close>

datatype 'a received = Closed "byte list" | Partial | Received 'a "byte list"

definition recv_waitall :: "nat \<Rightarrow> byte list \<Rightarrow> byte list received" where
  "recv_waitall n inp =
     (if n = 0 \<or> inp = [] then Closed inp
      else if length inp < n then Partial
      else Received (take n inp) (drop n inp))"

fun recv_bind :: "'a received \<Rightarrow> ('a \<Rightarrow> byte list \<Rightarrow> 'b received) \<Rightarrow> 'b received" where
  "recv_bind (Closed inp) f = Closed inp"
| "recv_bind Partial f = Partial"
| "recv_bind (Received x rest) f = f x rest"

definition recv_u32 :: "byte list \<Rightarrow> u32 received" where
  "recv_u32 inp = recv_bind (recv_waitall 4 inp) (\<lambda>bs rest. Received (un_le32 bs) rest)"

lemma recv_waitall_append [simp, codec_simps]:
  "n = length bs \<Longrightarrow> bs \<noteq> [] \<Longrightarrow> recv_waitall n (bs @ rest) = Received bs rest"
  by (simp add: recv_waitall_def)

lemma recv_waitall_exact: "n = length bs \<Longrightarrow> bs \<noteq> [] \<Longrightarrow> recv_waitall n bs = Received bs []"
  by (simp add: recv_waitall_def)

lemma recv_u32_le32 [simp, codec_simps]: "recv_u32 (le32 w @ rest) = Received w rest"
proof -
  have "le32 w \<noteq> []" by (simp add: le32_def)
  then show ?thesis by (simp add: recv_u32_def)
qed

lemma recv_waitall_shrinks:
  "recv_waitall n inp = Received bs rest \<Longrightarrow> length bs = n \<and> length rest < length inp"
  by (auto simp: recv_waitall_def split: if_splits)

section \<open>Buffers\<close>

text \<open>\<^verbatim>\<open>memcpy(dst + off, src, len)\<close> with the \<open>len\<close> bytes \<open>src\<close>, inside a buffer.\<close>

definition blit :: "'a list \<Rightarrow> nat \<Rightarrow> 'a list \<Rightarrow> 'a list" where
  "blit dst off src = take off dst @ src @ drop (off + length src) dst"

lemma length_blit: "off + length src \<le> length dst \<Longrightarrow> length (blit dst off src) = length dst"
  by (simp add: blit_def)

lemma blit_empty [simp]: "blit dst off [] = dst"
  by (simp add: blit_def)

lemma nth_blit:
  "off + length src \<le> length dst \<Longrightarrow> i < length dst \<Longrightarrow>
     blit dst off src ! i = (if i < off then dst ! i
                             else if i < off + length src then src ! (i - off) else dst ! i)"
  by (auto simp: blit_def nth_append nth_take)

lemma take_drop_blit:
  "off + length src \<le> length dst \<Longrightarrow> take (length src) (drop off (blit dst off src)) = src"
  by (simp add: blit_def)

text \<open>Splicing in two pieces, one after the other.\<close>

lemma blit_append:
  assumes "off + length a + length b \<le> length dst"
  shows "blit (blit dst off a) (off + length a) b = blit dst off (a @ b)"
proof -
  have "length (take off dst) = off" using assms by simp
  then show ?thesis
    by (simp add: blit_def ac_simps)
qed

lemma blit_left: "off + length src \<le> length a \<Longrightarrow> blit (a @ b) off src = blit a off src @ b"
  by (simp add: blit_def)

lemma blit_right: "blit (a @ b) (length a + off) src = a @ blit b off src"
  by (simp add: blit_def add.assoc)

section \<open>Lists\<close>

lemma find_upt_Some:
  "List.find P [i..<n] = Some k \<longleftrightarrow> i \<le> k \<and> k < n \<and> P k \<and> (\<forall>j. i \<le> j \<and> j < k \<longrightarrow> \<not> P j)"
proof (induction "n - i" arbitrary: i)
  case 0
  then show ?case by auto
next
  case (Suc m)
  then have less: "i < n" by simp
  have IH: "List.find P [Suc i..<n] = Some k \<longleftrightarrow>
      Suc i \<le> k \<and> k < n \<and> P k \<and> (\<forall>j. Suc i \<le> j \<and> j < k \<longrightarrow> \<not> P j)"
    using Suc by simp
  show ?case
    unfolding upt_conv_Cons [OF less]
    using IH less by (auto simp: Suc_le_eq) (metis le_neq_implies_less)+
qed

lemma find_upt_None: "List.find P [i..<n] = None \<longleftrightarrow> (\<forall>j. i \<le> j \<and> j < n \<longrightarrow> \<not> P j)"
  by (auto simp: find_None_iff)

lemma nth_take_drop: "i < length xs \<Longrightarrow> xs = take i xs @ xs ! i # drop (Suc i) xs"
  by (simp add: id_take_nth_drop)

end
