(* ===== verification/Osada_Disk.thy ===== *)
theory Osada_Disk
  imports Prelude
begin

text \<open>
  The OSADA disk image of \<^verbatim>\<open>pokedex-server\<close> as the server sees it after \<^verbatim>\<open>read_and_set\<close>: the
  structures of \<^verbatim>\<open>osada.h\<close>, the block layout computed from the header, the mapped regions (file
  table, mapping table, data blocks, bitmap) and the reader/writer locks of the file blocks.
  The bitmap is handled through \<^verbatim>\<open>bitarray.h\<close> of so-commons, which is not part of the
  repository: its operations are a parameter (\<open>bitarray_ops\<close>), its documented behaviour the
  locale \<open>bitarray\<close>.
\<close>

section \<open>Constants of osada.h\<close>

abbreviation (input) OSADA_ENOENT :: int where "OSADA_ENOENT \<equiv> 1"
abbreviation (input) OSADA_ISREG :: int where "OSADA_ISREG \<equiv> 2"
abbreviation (input) OSADA_ISDIR :: int where "OSADA_ISDIR \<equiv> 3"
abbreviation (input) OSADA_ENOTDIR :: int where "OSADA_ENOTDIR \<equiv> 4"
abbreviation (input) OSADA_ENOSPC :: int where "OSADA_ENOSPC \<equiv> 5"
abbreviation (input) OSADA_EMPTYDIR :: int where "OSADA_EMPTYDIR \<equiv> 6"
abbreviation (input) OSADA_NOTEMPTYDIR :: int where "OSADA_NOTEMPTYDIR \<equiv> 7"
abbreviation (input) OSADA_SEXE :: int where "OSADA_SEXE \<equiv> 8"
abbreviation (input) OSADA_ENAMETOOLONG :: int where "OSADA_ENAMETOOLONG \<equiv> 9"

abbreviation (input) OSADA_BLOCK_SIZE :: nat where "OSADA_BLOCK_SIZE \<equiv> 64"
abbreviation (input) OSADA_FILENAME_LENGTH :: nat where "OSADA_FILENAME_LENGTH \<equiv> 17"
abbreviation (input) FILE_TABLE_SIZE :: int where "FILE_TABLE_SIZE \<equiv> 1024"

definition FILE_BLOCKS_MOUNT :: nat where
  "FILE_BLOCKS_MOUNT = 2048"

definition ROOT :: int where
  "ROOT = 65535"

definition END_OF_FILE :: u32 where
  "END_OF_FILE = 4294967295"

lemma unat_END_OF_FILE [simp]: "unat END_OF_FILE = 4294967295"
  by (simp add: END_OF_FILE_def)

section \<open>Structures\<close>

datatype osada_file_state = DELETED | REGULAR | DIRECTORY

record osada_file =
  state :: osada_file_state
  fname :: "byte list"          \<comment> \<open>OSADA_FILENAME_LENGTH bytes\<close>
  parent_directory :: u16
  file_size :: u32
  lastmod :: u32
  first_block :: u32

record osada_header =
  magic_number :: "byte list"
  version :: byte
  fs_blocks :: u32
  bitmap_blocks :: u32
  allocations_table_offset :: u32
  data_blocks :: u32
  padding :: "byte list"

text \<open>The globals that \<^verbatim>\<open>read_and_set\<close> computes.\<close>

record geometry =
  HEADER_SIZE :: int
  BITMAP_SIZE :: int
  MAPPING_TABLE_SIZE :: int
  DATA_SIZE :: int
  HEADER_0 :: int
  HEADER_1 :: int
  BITMAP_0 :: int
  BITMAP_1 :: int
  FILE_TABLE_0 :: int
  FILE_TABLE_1 :: int
  MAPPING_TABLE_0 :: int
  MAPPING_TABLE_1 :: int
  DATA_0 :: int
  DATA_1 :: int
  BM_HEADER_0 :: int
  BM_HEADER_1 :: int
  BM_BITMAP_0 :: int
  BM_BITMAP_1 :: int
  BM_FILE_TABLE_0 :: int
  BM_FILE_TABLE_1 :: int
  BM_MAPPING_TABLE_0 :: int
  BM_MAPPING_TABLE_1 :: int
  BM_DATA_0 :: int
  BM_DATA_1 :: int

text \<open>
  \<^verbatim>\<open>BITMAP_SIZE\<close>, \<^verbatim>\<open>MAPPING_TABLE_SIZE\<close> and \<^verbatim>\<open>DATA_SIZE\<close> are computed with the unsigned
  32-bit \<^verbatim>\<open>fs_blocks\<close>, so the arithmetic is that of \<open>u32\<close>; the result is stored in an
  \<^verbatim>\<open>int\<close>. The rest is \<^verbatim>\<open>int\<close> arithmetic.
\<close>

definition read_and_set :: "osada_header \<Rightarrow> geometry" where
  "read_and_set hdr =
    (let header_size = 1;
         bitmap_size = to_int ((fs_blocks hdr div 8) div 64);
         mapping_size = to_int (1 + ((((fs_blocks hdr - of_cint header_size - of_cint bitmap_size
                          - of_cint FILE_TABLE_SIZE) * 4) - 1) div 64));
         data_size = to_int (fs_blocks hdr - of_cint header_size - of_cint bitmap_size
                          - of_cint FILE_TABLE_SIZE - of_cint mapping_size);
         bitmap_0 = 1;
         file_table_0 = bitmap_size + 1;
         mapping_0 = file_table_0 + FILE_TABLE_SIZE;
         data_0 = mapping_0 + mapping_size;
         bm_bitmap_0 = 0 + 1;
         bm_bitmap_1 = bm_bitmap_0 + (bitmap_size - 1);
         bm_file_table_0 = bm_bitmap_1 + 1;
         bm_file_table_1 = bm_file_table_0 + (FILE_TABLE_SIZE - 1);
         bm_mapping_0 = bm_file_table_1 + 1;
         bm_mapping_1 = bm_mapping_0 + (mapping_size - 1);
         bm_data_0 = bm_mapping_1 + 1
     in \<lparr>HEADER_SIZE = header_size, BITMAP_SIZE = bitmap_size,
         MAPPING_TABLE_SIZE = mapping_size, DATA_SIZE = data_size,
         HEADER_0 = 0, HEADER_1 = 0,
         BITMAP_0 = bitmap_0, BITMAP_1 = bitmap_0 + (bitmap_size - 1),
         FILE_TABLE_0 = file_table_0, FILE_TABLE_1 = file_table_0 + (FILE_TABLE_SIZE - 1),
         MAPPING_TABLE_0 = mapping_0, MAPPING_TABLE_1 = mapping_0 + (mapping_size - 1),
         DATA_0 = data_0, DATA_1 = data_0 + (data_size - 1),
         BM_HEADER_0 = 0, BM_HEADER_1 = 0,
         BM_BITMAP_0 = bm_bitmap_0, BM_BITMAP_1 = bm_bitmap_1,
         BM_FILE_TABLE_0 = bm_file_table_0, BM_FILE_TABLE_1 = bm_file_table_1,
         BM_MAPPING_TABLE_0 = bm_mapping_0, BM_MAPPING_TABLE_1 = bm_mapping_1,
         BM_DATA_0 = bm_data_0, BM_DATA_1 = bm_data_0 + (data_size - 1)\<rparr>)"

section \<open>Locks\<close>

text \<open>
  The calls on the reader/writer locks of the file blocks (\<^verbatim>\<open>semaphore\<close>) and on the allocation
  mutex \<^verbatim>\<open>m_lock\<close> are recorded in the order they are made.
\<close>

datatype lock_action = LOCK_READ | LOCK_WRITE | UNLOCK

datatype lock_event = Rwlock lock_action int | Mutex_lock | Mutex_unlock

section \<open>The server state\<close>

record 'bm osada =
  geo :: geometry
  ftable :: "osada_file list"
  maptab :: "u32 list"          \<comment> \<open>the mapping table, one entry per data block\<close>
  bmap :: 'bm
  dblocks :: "byte list list"   \<comment> \<open>data blocks, OSADA_BLOCK_SIZE bytes each\<close>
  trace :: "lock_event list"

text \<open>What a request sees of the outside: the bit array library, the clock
  (\<^verbatim>\<open>time(NULL)\<close>) and the bytes \<^verbatim>\<open>malloc\<close> leaves in a fresh \<^verbatim>\<open>osada_file\<close>.\<close>

record 'bm bitarray_ops =
  bitarray_test_bit :: "'bm \<Rightarrow> nat \<Rightarrow> bool"
  bitarray_set_bit :: "'bm \<Rightarrow> nat \<Rightarrow> 'bm"
  bitarray_clean_bit :: "'bm \<Rightarrow> nat \<Rightarrow> 'bm"

record 'bm env =
  bits :: "'bm bitarray_ops"
  now :: u32
  malloc_junk :: "byte list"

definition semaphore :: "lock_action \<Rightarrow> int \<Rightarrow> 'bm osada \<Rightarrow> 'bm osada" where
  "semaphore action pos s = s\<lparr>trace := trace s @ [Rwlock action pos]\<rparr>"

definition mutex_lock :: "'bm osada \<Rightarrow> 'bm osada" where
  "mutex_lock s = s\<lparr>trace := trace s @ [Mutex_lock]\<rparr>"

definition mutex_unlock :: "'bm osada \<Rightarrow> 'bm osada" where
  "mutex_unlock s = s\<lparr>trace := trace s @ [Mutex_unlock]\<rparr>"

text \<open>\<^verbatim>\<open>if (pb_pos != ROOT) semaphore(UNLOCK, pb_pos)\<close>, which every path loop repeats.\<close>

definition unlock_unless_root :: "int \<Rightarrow> 'bm osada \<Rightarrow> 'bm osada" where
  "unlock_unless_root pb s = (if pb \<noteq> ROOT then semaphore UNLOCK pb s else s)"

end
