(* ===== verification/Osada_Bitarray.thy ===== *)
theory Osada_Bitarray
  imports Osada_Disk
begin

text \<open>
  The contract of \<^verbatim>\<open>bitarray.h\<close> that the block allocator of \<^verbatim>\<open>pokedex-server\<close> relies on: setting or
  cleaning a bit inside the array changes that bit and no other, and never the size. The locale
  is interpreted on a byte array in \<^verbatim>\<open>MSB_FIRST\<close> order, the mode \<^verbatim>\<open>read_and_set\<close> asks for, which
  shows that the contract can be met by the bytes of the bitmap region; the instance serves the
  concrete examples.
\<close>

locale bitarray =
  fixes ops :: "'bm bitarray_ops"
    and nbits :: "'bm \<Rightarrow> nat"
  assumes test_set: "i < nbits b \<Longrightarrow> j < nbits b \<Longrightarrow>
      bitarray_test_bit ops (bitarray_set_bit ops b i) j \<longleftrightarrow> j = i \<or> bitarray_test_bit ops b j"
    and test_clean: "i < nbits b \<Longrightarrow> j < nbits b \<Longrightarrow>
      bitarray_test_bit ops (bitarray_clean_bit ops b i) j \<longleftrightarrow> j \<noteq> i \<and> bitarray_test_bit ops b j"
    and nbits_set: "i < nbits b \<Longrightarrow> nbits (bitarray_set_bit ops b i) = nbits b"
    and nbits_clean: "i < nbits b \<Longrightarrow> nbits (bitarray_clean_bit ops b i) = nbits b"
begin

lemmas bit_laws = test_set test_clean nbits_set nbits_clean

text \<open>The set of busy bits below a bound, the view the allocator lemmas use.\<close>

lemma busy_set:
  assumes "i < n" and "n \<le> nbits b"
  shows "{j. j < n \<and> bitarray_test_bit ops (bitarray_set_bit ops b i) j}
           = insert i {j. j < n \<and> bitarray_test_bit ops b j}"
  using assms by (auto simp: test_set)

lemma busy_clean:
  assumes "i < n" and "n \<le> nbits b"
  shows "{j. j < n \<and> bitarray_test_bit ops (bitarray_clean_bit ops b i) j}
           = {j. j < n \<and> bitarray_test_bit ops b j} - {i}"
  using assms by (auto simp: test_clean)

end

section \<open>A byte array in MSB_FIRST order\<close>

definition msb_test :: "byte list \<Rightarrow> nat \<Rightarrow> bool" where
  "msb_test bs i = bit (bs ! (i div 8)) (7 - i mod 8)"

definition msb_set :: "byte list \<Rightarrow> nat \<Rightarrow> byte list" where
  "msb_set bs i = bs[i div 8 := Bit_Operations.set_bit (7 - i mod 8) (bs ! (i div 8))]"

definition msb_clean :: "byte list \<Rightarrow> nat \<Rightarrow> byte list" where
  "msb_clean bs i = bs[i div 8 := unset_bit (7 - i mod 8) (bs ! (i div 8))]"

definition msb_ops :: "byte list bitarray_ops" where
  "msb_ops = \<lparr>bitarray_test_bit = msb_test, bitarray_set_bit = msb_set, bitarray_clean_bit = msb_clean\<rparr>"

lemma msb_index_eq:
  assumes "i div 8 = j div 8" and "7 - i mod 8 = 7 - j mod 8"
  shows "i = (j :: nat)"
proof -
  have "i mod 8 < 8" and "j mod 8 < 8" by simp_all
  with assms(2) have "i mod 8 = j mod 8" by linarith
  with assms(1) show ?thesis by (metis div_mult_mod_eq)
qed

lemma msb_test_set:
  assumes "i < 8 * length bs" and "j < 8 * length bs"
  shows "msb_test (msb_set bs i) j \<longleftrightarrow> j = i \<or> msb_test bs j"
proof (cases "i div 8 = j div 8")
  case True
  have "j div 8 < length bs" using assms by (simp add: less_mult_imp_div_less mult.commute)
  then show ?thesis
    using True msb_index_eq [OF True]
    by (auto simp: msb_test_def msb_set_def bit_set_bit_iff possible_bit_def)
next
  case False
  then show ?thesis by (auto simp: msb_test_def msb_set_def)
qed

lemma msb_test_clean:
  assumes "i < 8 * length bs" and "j < 8 * length bs"
  shows "msb_test (msb_clean bs i) j \<longleftrightarrow> j \<noteq> i \<and> msb_test bs j"
proof (cases "i div 8 = j div 8")
  case True
  have "j div 8 < length bs" using assms by (simp add: less_mult_imp_div_less mult.commute)
  then show ?thesis
    using True msb_index_eq [OF True]
    by (auto simp: msb_test_def msb_clean_def bit_unset_bit_iff)
next
  case False
  then show ?thesis by (auto simp: msb_test_def msb_clean_def)
qed

interpretation msb: bitarray msb_ops "\<lambda>bs. 8 * length bs"
proof unfold_locales
  fix bs :: "byte list" and i j :: nat
  assume "i < 8 * length bs" and "j < 8 * length bs"
  then show "bitarray_test_bit msb_ops (bitarray_set_bit msb_ops bs i) j
      \<longleftrightarrow> j = i \<or> bitarray_test_bit msb_ops bs j"
    and "bitarray_test_bit msb_ops (bitarray_clean_bit msb_ops bs i) j
      \<longleftrightarrow> j \<noteq> i \<and> bitarray_test_bit msb_ops bs j"
    by (simp_all add: msb_ops_def msb_test_set msb_test_clean)
qed (simp_all add: msb_ops_def msb_set_def msb_clean_def)

end
