(* ===== verification/Osada_Locks.thy ===== *)
theory Osada_Locks
  imports Osada_Disk
begin

text \<open>
  What the recorded lock calls of one thread do: \<open>replay\<close> runs a sequence of
  \<^verbatim>\<open>pthread_rwlock\<close> and \<^verbatim>\<open>pthread_mutex\<close> calls from the locks the thread holds. It is \<open>None\<close>
  where POSIX leaves the call undefined or the thread blocks on itself: a lock outside the
  \<^verbatim>\<open>locks\<close> array, an unlock of a lock that is not held, a second lock where the first excludes
  it. A request that leaves \<open>no_locks\<close> behind has released everything it took.
\<close>

datatype hold = Free | Readers nat | Writer

type_synonym held = "(int \<Rightarrow> hold) \<times> bool"

definition no_locks :: held where
  "no_locks = (\<lambda>_. Free, False)"

definition lock_index_ok :: "int \<Rightarrow> bool" where
  "lock_index_ok i \<longleftrightarrow> 0 \<le> i \<and> i < int FILE_BLOCKS_MOUNT"

fun rwlock_hold :: "lock_action \<Rightarrow> hold \<Rightarrow> hold option" where
  "rwlock_hold LOCK_READ Free = Some (Readers 1)"
| "rwlock_hold LOCK_READ (Readers n) = Some (Readers (Suc n))"
| "rwlock_hold LOCK_READ Writer = None"
| "rwlock_hold LOCK_WRITE Free = Some Writer"
| "rwlock_hold LOCK_WRITE _ = None"
| "rwlock_hold UNLOCK Free = None"
| "rwlock_hold UNLOCK (Readers n) = Some (if n \<le> 1 then Free else Readers (n - 1))"
| "rwlock_hold UNLOCK Writer = Some Free"

fun lock_step :: "lock_event \<Rightarrow> held \<Rightarrow> held option" where
  "lock_step (Rwlock a i) (h, m) =
     (if lock_index_ok i then map_option (\<lambda>x. (h(i := x), m)) (rwlock_hold a (h i)) else None)"
| "lock_step Mutex_lock (h, m) = (if m then None else Some (h, True))"
| "lock_step Mutex_unlock (h, m) = (if m then Some (h, False) else None)"

fun replay :: "lock_event list \<Rightarrow> held \<Rightarrow> held option" where
  "replay [] h = Some h"
| "replay (e # es) h = Option.bind (lock_step e h) (replay es)"

lemma replay_append: "replay (xs @ ys) h = Option.bind (replay xs h) (replay ys)"
proof (induction xs arbitrary: h)
  case (Cons e xs)
  then show ?case by (cases "lock_step e h") auto
qed simp

lemma replay_single: "replay [e] h = lock_step e h"
  by (cases "lock_step e h") simp_all

declare replay.simps(2) [simp del]

lemma replay_pair: "replay (d # e # es) h = Option.bind (replay [d, e] h) (replay es)"
  using replay_append [of "[d, e]" es h] by simp

text \<open>Holding after a lock call on a free lock.\<close>

fun acquired :: "lock_action \<Rightarrow> hold" where
  "acquired LOCK_READ = Readers 1"
| "acquired LOCK_WRITE = Writer"
| "acquired UNLOCK = Free"

lemma replay_acquire:
  "a \<noteq> UNLOCK \<Longrightarrow> lock_index_ok i \<Longrightarrow> h i = Free \<Longrightarrow>
     replay [Rwlock a i] (h, m) = Some (h(i := acquired a), m)"
  by (cases a) (simp_all add: replay_single)

lemma replay_release:
  "a \<noteq> UNLOCK \<Longrightarrow> lock_index_ok i \<Longrightarrow> h i = acquired a \<Longrightarrow>
     replay [Rwlock UNLOCK i] (h, m) = Some (h(i := Free), m)"
  by (cases a) (simp_all add: replay_single)

lemma replay_acquire_release:
  assumes "a \<noteq> UNLOCK" and "lock_index_ok i" and "h i = Free"
  shows "replay [Rwlock a i, Rwlock UNLOCK i] (h, m) = Some (h, m)"
  using assms by (cases a) (auto simp: replay.simps fun_upd_idem)

text \<open>
  Lock calls leave the disk alone: every operation on locks is \<open>add_calls\<close> of the calls made.
\<close>

definition add_calls :: "lock_event list \<Rightarrow> 'bm osada \<Rightarrow> 'bm osada" where
  "add_calls t s = s\<lparr>trace := trace s @ t\<rparr>"

lemma add_calls_simps [simp, frame_simps]:
  "ftable (add_calls t s) = ftable s" "maptab (add_calls t s) = maptab s"
  "bmap (add_calls t s) = bmap s" "dblocks (add_calls t s) = dblocks s"
  "geo (add_calls t s) = geo s" "trace (add_calls t s) = trace s @ t"
  by (simp_all add: add_calls_def)

lemma add_calls_Nil [simp]: "add_calls [] s = s"
  by (simp add: add_calls_def)

lemma add_calls_add [simp]: "add_calls u (add_calls t s) = add_calls (t @ u) s"
  by (simp add: add_calls_def)

definition unlock_calls :: "int \<Rightarrow> lock_event list" where
  "unlock_calls pb = (if pb \<noteq> ROOT then [Rwlock UNLOCK pb] else [])"

lemma lock_calls_eq:
  "semaphore a i s = add_calls [Rwlock a i] s"
  "mutex_lock s = add_calls [Mutex_lock] s"
  "mutex_unlock s = add_calls [Mutex_unlock] s"
  "unlock_unless_root pb s = add_calls (unlock_calls pb) s"
  by (simp_all add: add_calls_def semaphore_def mutex_lock_def mutex_unlock_def
      unlock_unless_root_def unlock_calls_def)

end
