(* ===== verification/Osada_Blocks.thy ===== *)
theory Osada_Blocks
  imports Osada_Bitarray Osada_Locks
begin

text \<open>
  The mapping table of \<^verbatim>\<open>pokedex-server.c\<close>: a file is a chain of data blocks that starts in
  \<^verbatim>\<open>first_block\<close> of its entry and goes on in the cell of each block, up to \<^verbatim>\<open>END_OF_FILE\<close>. The
  loops over \<^verbatim>\<open>aux_map_ptr\<close> that the handlers repeat are one definition each: allocate the
  first block, add blocks at the end, go forward some blocks, go to the end, release the
  rest. \<^verbatim>\<open>aux_map_ptr\<close> points to a \<open>cell\<close>; reading or writing a cell outside the tables is
  \<open>None\<close>. The lemmas give each loop its effect on chains and on the bitmap.
\<close>

section \<open>Cells and blocks\<close>

datatype cell = First_block nat | Map_entry nat

fun load :: "cell \<Rightarrow> 'bm osada \<Rightarrow> u32 option" where
  "load (First_block i) s = (if i < length (ftable s) then Some (first_block (ftable s ! i)) else None)"
| "load (Map_entry i) s = (if i < length (maptab s) then Some (maptab s ! i) else None)"

fun store :: "cell \<Rightarrow> u32 \<Rightarrow> 'bm osada \<Rightarrow> 'bm osada option" where
  "store (First_block i) v s =
     (if i < length (ftable s)
      then Some (s\<lparr>ftable := (ftable s)[i := (ftable s ! i)\<lparr>first_block := v\<rparr>]\<rparr>) else None)"
| "store (Map_entry i) v s =
     (if i < length (maptab s) then Some (s\<lparr>maptab := (maptab s)[i := v]\<rparr>) else None)"

text \<open>\<^verbatim>\<open>map_ptr + ( * aux_map_ptr)\<close>: the cell of the block a cell names.\<close>

definition follow :: "cell \<Rightarrow> 'bm osada \<Rightarrow> cell option" where
  "follow c s = map_option (\<lambda>b. Map_entry (unat b)) (load c s)"

definition set_busy :: "'bm env \<Rightarrow> nat \<Rightarrow> 'bm osada \<Rightarrow> 'bm osada" where
  "set_busy E b s = s\<lparr>bmap := bitarray_set_bit (bits E) (bmap s) b\<rparr>"

definition set_free :: "'bm env \<Rightarrow> nat \<Rightarrow> 'bm osada \<Rightarrow> 'bm osada" where
  "set_free E b s = s\<lparr>bmap := bitarray_clean_bit (bits E) (bmap s) b\<rparr>"

definition its_busy :: "'bm env \<Rightarrow> 'bm osada \<Rightarrow> nat \<Rightarrow> bool" where
  "its_busy E s b = bitarray_test_bit (bits E) (bmap s) b"

lemma store_other [simp, frame_simps]:
  assumes "store c v s = Some s'"
  shows "geo s' = geo s" "bmap s' = bmap s" "dblocks s' = dblocks s" "trace s' = trace s"
    "length (maptab s') = length (maptab s)" "length (ftable s') = length (ftable s)"
  using assms by (cases c; auto split: if_splits)+

lemma busy_other [simp, frame_simps]:
  "geo (set_busy E b s) = geo s" "dblocks (set_busy E b s) = dblocks s"
  "trace (set_busy E b s) = trace s" "maptab (set_busy E b s) = maptab s"
  "ftable (set_busy E b s) = ftable s" "load c (set_busy E b s) = load c s"
  "geo (set_free E b s) = geo s" "dblocks (set_free E b s) = dblocks s"
  "trace (set_free E b s) = trace s" "maptab (set_free E b s) = maptab s"
  "ftable (set_free E b s) = ftable s" "load c (set_free E b s) = load c s"
  by (cases c; simp add: set_busy_def set_free_def)+

lemma load_store:
  "store c v s = Some s' \<Longrightarrow> load d s' = (if d = c then Some v else load d s)"
  by (cases c; cases d) (auto split: if_splits)

lemma store_Some: "load c s = Some w \<Longrightarrow> \<exists>s'. store c v s = Some s'"
  by (cases c) (auto split: if_splits)

section \<open>The loops\<close>

text \<open>Assigning the first block of an empty file (\<^verbatim>\<open>osada_write\<close>). The result has the final
  \<^verbatim>\<open>free_db\<close>.\<close>

function alloc_first :: "'bm env \<Rightarrow> int \<Rightarrow> nat \<Rightarrow> 'bm osada \<Rightarrow> (int \<times> 'bm osada) option" where
  "alloc_first E free_db i s =
     (if free_db \<le> BM_DATA_1 (geo s) then
        let pos = free_db - BM_DATA_0 (geo s) in
        if \<not> its_busy E s (nat pos) then
          do {
            s1 \<leftarrow> store (First_block i) (of_cint pos) (set_busy E (nat pos) s);
            aux_map_ptr \<leftarrow> follow (First_block i) s1;
            s2 \<leftarrow> store aux_map_ptr END_OF_FILE s1;
            Some (free_db, s2)
          }
        else alloc_first E (free_db + 1) i s
      else Some (free_db, s))"
  by pat_completeness auto
termination
  by (relation "measure (\<lambda>(_, f, _, s). nat (BM_DATA_1 (geo s) + 1 - f))") auto

declare alloc_first.simps [simp del]

text \<open>
  Adding blocks at the end of the file: \<open>step\<close> is OSADA_BLOCK_SIZE in \<^verbatim>\<open>osada_write\<close>, which
  counts bytes, and 1 in \<^verbatim>\<open>osada_truncate\<close>, which counts blocks.
\<close>

function add_blocks :: "'bm env \<Rightarrow> int \<Rightarrow> int \<Rightarrow> int \<Rightarrow> cell \<Rightarrow> 'bm osada
    \<Rightarrow> (int \<times> 'bm osada) option" where
  "add_blocks E step need free_db aux_map_ptr s =
     (if need > 0 \<and> free_db \<le> BM_DATA_1 (geo s) then
        let pos = free_db - BM_DATA_0 (geo s) in
        if \<not> its_busy E s (nat pos) then
          do {
            s1 \<leftarrow> store aux_map_ptr (of_cint pos) (set_busy E (nat pos) s);
            aux_map_ptr' \<leftarrow> follow aux_map_ptr s1;
            s2 \<leftarrow> store aux_map_ptr' END_OF_FILE s1;
            add_blocks E step (need - step) (free_db + 1) aux_map_ptr' s2
          }
        else add_blocks E step need (free_db + 1) aux_map_ptr s
      else Some (free_db, s))"
  by pat_completeness auto
termination
  by (relation "measure (\<lambda>(_, _, _, f, _, s). nat (BM_DATA_1 (geo s) + 1 - f))") auto

declare add_blocks.simps [simp del]

text \<open>Going forward a number of blocks.\<close>

primrec skip_blocks :: "nat \<Rightarrow> cell \<Rightarrow> 'bm osada \<Rightarrow> cell option" where
  "skip_blocks 0 aux_map_ptr s = Some aux_map_ptr"
| "skip_blocks (Suc n) aux_map_ptr s = Option.bind (follow aux_map_ptr s) (\<lambda>c. skip_blocks n c s)"

text \<open>Going to the last cell, counting. The map of a damaged image may have a cycle.\<close>

partial_function (option) walk_to_end :: "cell \<Rightarrow> nat \<Rightarrow> 'bm osada \<Rightarrow> (cell \<times> nat) option" where
  "walk_to_end aux_map_ptr movs s =
     do {
       b \<leftarrow> load aux_map_ptr s;
       if b \<noteq> END_OF_FILE then walk_to_end (Map_entry (unat b)) (Suc movs) s
       else Some (aux_map_ptr, movs)
     }"

text \<open>
  Releasing the blocks after a cell. This loop ends on every image, a cyclic one included:
  each round ends one more cell.
\<close>

definition open_cells :: "'bm osada \<Rightarrow> nat" where
  "open_cells s = length (filter (\<lambda>b. b \<noteq> END_OF_FILE) (maptab s))
     + length (filter (\<lambda>f. first_block f \<noteq> END_OF_FILE) (ftable s))"

lemma filter_update_less:
  "i < length xs \<Longrightarrow> P (xs ! i) \<Longrightarrow> \<not> P y \<Longrightarrow>
     length (filter P (xs[i := y])) < length (filter P xs)"
  by (induction xs arbitrary: i) (auto split: nat.splits)

lemma open_cells_store:
  assumes "load c s = Some b" and "b \<noteq> END_OF_FILE" and "store c END_OF_FILE s = Some s'"
  shows "open_cells s' < open_cells s"
  using assms filter_update_less [of _ "maptab s" "\<lambda>b. b \<noteq> END_OF_FILE" END_OF_FILE]
    filter_update_less [of _ "ftable s" "\<lambda>f. first_block f \<noteq> END_OF_FILE"]
  by (cases c) (auto simp: open_cells_def split: if_splits)

function release_from :: "'bm env \<Rightarrow> cell \<Rightarrow> 'bm osada \<Rightarrow> 'bm osada option" where
  "release_from E aux_map_ptr s =
     do {
       aux \<leftarrow> load aux_map_ptr s;
       if aux \<noteq> END_OF_FILE then
         do {
           s1 \<leftarrow> store aux_map_ptr END_OF_FILE (set_free E (unat aux) s);
           release_from E (Map_entry (unat aux)) s1
         }
       else Some s
     }"
  by pat_completeness auto
termination
proof (relation "measure (\<lambda>(_, _, s). open_cells s)")
  fix E :: "'bm env" and c s b s1
  assume a: "load c s = Some b" "b \<noteq> END_OF_FILE"
    "store c END_OF_FILE (set_free E (unat b) s) = Some s1"
  have "open_cells s1 < open_cells (set_free E (unat b) s)"
    by (rule open_cells_store [OF _ a(2,3)]) (simp add: a(1))
  then show "((E, Map_entry (unat b), s1), (E, c, s)) \<in> measure (\<lambda>(_, _, s). open_cells s)"
    by (simp add: open_cells_def)
qed simp

declare release_from.simps [simp del]

text \<open>None of the loops takes or gives back a lock.\<close>

lemma alloc_first_trace: "alloc_first E free_db i s = Some (k, s') \<Longrightarrow> trace s' = trace s"
proof (induction E free_db i s rule: alloc_first.induct)
  case (1 E free_db i s)
  then show ?case
    by (auto simp: alloc_first.simps [of E free_db i s] Let_def bind_eq_Some_conv split: if_splits)
qed

lemma add_blocks_trace: "add_blocks E step need free_db c s = Some (k, s') \<Longrightarrow> trace s' = trace s"
proof (induction E step need free_db c s rule: add_blocks.induct)
  case (1 E step need free_db c s)
  note unfold = add_blocks.simps [of E step need free_db c s]
  show ?case
  proof (cases "need > 0 \<and> free_db \<le> BM_DATA_1 (geo s) \<and> \<not> its_busy E s (nat (free_db - BM_DATA_0 (geo s)))")
    case True
    then obtain s1 c' s2 where "store c (of_cint (free_db - BM_DATA_0 (geo s)))
          (set_busy E (nat (free_db - BM_DATA_0 (geo s))) s) = Some s1"
        and "follow c s1 = Some c'" and "store c' END_OF_FILE s1 = Some s2"
        and "add_blocks E step (need - step) (free_db + 1) c' s2 = Some (k, s')"
      using 1(3) unfolding unfold by (auto simp: Let_def bind_eq_Some_conv)
    with True 1(1) [OF _ refl] show ?thesis by simp
  next
    case False
    then show ?thesis using 1(2) [OF _ refl] 1(3) unfolding unfold
      by (auto simp: Let_def split: if_splits)
  qed
qed

lemma release_from_trace: "release_from E c s = Some s' \<Longrightarrow> trace s' = trace s"
proof (induction E c s rule: release_from.induct)
  case (1 E c s)
  then show ?case
    by (auto simp: release_from.simps [of E c s] bind_eq_Some_conv split: if_splits)
qed

section \<open>Chains\<close>

text \<open>\<open>chain_at s c bs\<close>: from cell \<open>c\<close> the blocks are \<open>bs\<close>, and then the file ends.\<close>

fun chain_at :: "'bm osada \<Rightarrow> cell \<Rightarrow> nat list \<Rightarrow> bool" where
  "chain_at s c [] \<longleftrightarrow> load c s = Some END_OF_FILE"
| "chain_at s c (b # bs) \<longleftrightarrow>
     (case load c s of None \<Rightarrow> False | Some v \<Rightarrow> v \<noteq> END_OF_FILE \<and> unat v = b)
     \<and> chain_at s (Map_entry b) bs"

definition cells :: "cell \<Rightarrow> nat list \<Rightarrow> cell list" where
  "cells c bs = c # map Map_entry bs"

definition tail_cell :: "cell \<Rightarrow> nat list \<Rightarrow> cell" where
  "tail_cell c bs = last (cells c bs)"

lemma cells_simps [simp]: "cells c [] = [c]" "cells c (b # bs) = c # cells (Map_entry b) bs"
  by (simp_all add: cells_def)

lemma set_cells: "set (cells c bs) = insert c (Map_entry ` set bs)"
  by (simp add: cells_def)

lemma tail_cell_simps [simp]:
  "tail_cell c [] = c" "tail_cell c (b # bs) = tail_cell (Map_entry b) bs"
  by (simp_all add: tail_cell_def cells_def)

lemma tail_in_cells: "tail_cell c bs \<in> set (cells c bs)"
  unfolding tail_cell_def by (rule last_in_set) (simp add: cells_def)

lemma tail_cell_append: "tail_cell c (xs @ ys) = tail_cell (tail_cell c xs) ys"
  by (induction xs arbitrary: c) simp_all

lemma chain_load_Cons:
  "chain_at s c (b # bs) \<longleftrightarrow> (\<exists>v. load c s = Some v \<and> v \<noteq> END_OF_FILE \<and> unat v = b)
     \<and> chain_at s (Map_entry b) bs"
  by (auto split: option.splits)

lemma chain_Cons_load:
  assumes "chain_at s c (b # bs)"
  obtains v where "load c s = Some v" and "v \<noteq> END_OF_FILE" and "b = unat v"
    and "chain_at s (Map_entry (unat v)) bs"
  using assms unfolding chain_load_Cons by blast

lemma chain_unique: "chain_at s c xs \<Longrightarrow> chain_at s c ys \<Longrightarrow> xs = ys"
proof (induction xs arbitrary: c ys)
  case Nil
  then show ?case by (cases ys) (auto split: option.splits)
next
  case (Cons b bs)
  then show ?case by (cases ys) (auto split: option.splits)
qed

lemma chain_drop: "chain_at s c (xs @ ys) \<Longrightarrow> chain_at s (tail_cell c xs) ys"
  by (induction xs arbitrary: c) auto

lemma chain_cells_distinct: "chain_at s c bs \<Longrightarrow> distinct (cells c bs)"
proof (induction bs arbitrary: c)
  case Nil
  then show ?case by simp
next
  case (Cons b bs)
  have "c \<notin> set (cells (Map_entry b) bs)"
  proof
    assume "c \<in> set (cells (Map_entry b) bs)"
    then obtain d where d: "c = Map_entry d" "d \<in> set (b # bs)" by (auto simp: cells_def)
    obtain us vs where split: "b # bs = us @ d # vs" using split_list [OF d(2)] by blast
    have "chain_at s (tail_cell c (us @ [d])) vs"
      using chain_drop [of s c "us @ [d]" vs] Cons.prems split by (simp del: chain_at.simps)
    then have "chain_at s c vs" using d(1) by (simp add: tail_cell_append)
    then have "vs = b # bs" using chain_unique Cons.prems by blast
    with split have "length vs = length us + Suc (length vs)" by (metis length_append length_Cons)
    then show False by simp
  qed
  with Cons show ?case by (auto split: option.splits)
qed

lemma chain_distinct: "chain_at s c bs \<Longrightarrow> distinct bs"
  using chain_cells_distinct [of s c bs] by (simp add: cells_def distinct_map)

lemma chain_frame:
  "(\<And>d. d \<in> set (cells c bs) \<Longrightarrow> load d s' = load d s) \<Longrightarrow> chain_at s' c bs = chain_at s c bs"
  by (induction bs arbitrary: c) auto

lemma chain_mapped: "chain_at s c bs \<Longrightarrow> b \<in> set bs \<Longrightarrow> b < length (maptab s)"
proof (induction bs arbitrary: c)
  case (Cons a bs)
  then have "chain_at s (Map_entry a) bs" by simp
  then have "load (Map_entry a) s \<noteq> None" by (cases bs) (auto simp del: load.simps split: option.splits)
  then have "a < length (maptab s)" by (simp split: if_splits)
  with Cons show ?case by auto
qed simp

text \<open>Joining two chains: the end of the first is overwritten with the head of the second.\<close>

lemma chain_prefix_link:
  assumes "chain_at s c xs"
    and "\<And>d. d \<in> set (cells c xs) \<Longrightarrow> d \<noteq> tail_cell c xs \<Longrightarrow> load d s' = load d s"
    and "chain_at s' (tail_cell c xs) ys"
  shows "chain_at s' c (xs @ ys)"
  using assms
proof (induction xs arbitrary: c)
  case Nil
  then show ?case by simp
next
  case (Cons b bs)
  have dist: "c \<notin> set (cells (Map_entry b) bs)"
    using chain_cells_distinct [OF Cons.prems(1)] by simp
  have "chain_at s' (Map_entry b) (bs @ ys)"
  proof (rule Cons.IH)
    show "chain_at s (Map_entry b) bs" using Cons.prems(1) by simp
    show "chain_at s' (tail_cell (Map_entry b) bs) ys" using Cons.prems(3) by simp
  qed (use Cons.prems(2) in auto)
  moreover have "load c s' = load c s"
    using Cons.prems(2) [of c] dist tail_in_cells [of "Map_entry b" bs] by auto
  ultimately show ?case using Cons.prems(1) by simp
qed

lemma chain_prefix_cut:
  assumes "chain_at s c (xs @ ys)"
    and "\<And>d. d \<in> set (cells c xs) \<Longrightarrow> d \<noteq> tail_cell c xs \<Longrightarrow> load d s' = load d s"
    and "load (tail_cell c xs) s' = Some END_OF_FILE"
  shows "chain_at s' c xs"
  using assms
proof (induction xs arbitrary: c)
  case Nil
  then show ?case by simp
next
  case (Cons b bs)
  have "distinct (cells c ((b # bs) @ ys))" by (rule chain_cells_distinct [OF Cons.prems(1)])
  then have dist: "c \<notin> set (cells (Map_entry b) bs)" by (auto simp: cells_def)
  have "chain_at s' (Map_entry b) bs"
  proof (rule Cons.IH)
    show "chain_at s (Map_entry b) (bs @ ys)" using Cons.prems(1) by simp
    show "load (tail_cell (Map_entry b) bs) s' = Some END_OF_FILE" using Cons.prems(3) by simp
  qed (use Cons.prems(2) in auto)
  moreover have "load c s' = load c s"
    using Cons.prems(2) [of c] dist tail_in_cells [of "Map_entry b" bs] by auto
  ultimately show ?case using Cons.prems(1) by simp
qed

section \<open>What the loops do\<close>

lemma skip_blocks_chain:
  "chain_at s c bs \<Longrightarrow> n \<le> length bs \<Longrightarrow> skip_blocks n c s = Some (tail_cell c (take n bs))"
proof (induction n arbitrary: c bs)
  case 0
  then show ?case by simp
next
  case (Suc n)
  then obtain b bs' where bs: "bs = b # bs'" by (cases bs) auto
  then have "follow c s = Some (Map_entry b)"
    using Suc.prems by (auto simp: follow_def split: option.splits)
  then show ?case using Suc.IH [of "Map_entry b" bs'] Suc.prems bs by simp
qed

lemma walk_to_end_chain:
  "chain_at s c bs \<Longrightarrow> walk_to_end c k s = Some (tail_cell c bs, k + length bs)"
proof (induction bs arbitrary: c k)
  case Nil
  then show ?case by (simp add: walk_to_end.simps [of c])
next
  case (Cons b bs)
  then show ?case
    by (auto simp: walk_to_end.simps [of c] split: option.splits)
qed

text \<open>The loops on the map change cells and nothing else of the tables.\<close>

definition links_only :: "'bm osada \<Rightarrow> 'bm osada \<Rightarrow> bool" where
  "links_only s s' \<longleftrightarrow> geo s' = geo s \<and> dblocks s' = dblocks s
     \<and> length (maptab s') = length (maptab s) \<and> length (ftable s') = length (ftable s)
     \<and> (\<forall>i < length (ftable s). ftable s' ! i = (ftable s ! i)\<lparr>first_block := first_block (ftable s' ! i)\<rparr>)"

lemma links_only_refl [simp]: "links_only s s"
  by (simp add: links_only_def)

lemma links_only_trans [trans]:
  assumes "links_only s1 s2" and "links_only s2 s3" shows "links_only s1 s3"
proof -
  have "ftable s3 ! i = (ftable s1 ! i)\<lparr>first_block := first_block (ftable s3 ! i)\<rparr>"
    if "i < length (ftable s1)" for i
  proof -
    have "ftable s2 ! i = (ftable s1 ! i)\<lparr>first_block := first_block (ftable s2 ! i)\<rparr>"
      and "ftable s3 ! i = (ftable s2 ! i)\<lparr>first_block := first_block (ftable s3 ! i)\<rparr>"
      using assms that by (auto simp: links_only_def)
    then show ?thesis by (metis osada_file.surjective osada_file.update_convs(6))
  qed
  then show ?thesis using assms by (auto simp: links_only_def)
qed

lemma links_only_store: "store c v s = Some s' \<Longrightarrow> links_only s s'"
  by (cases c) (auto simp: links_only_def nth_list_update split: if_splits)

lemma links_only_busy [simp]: "links_only s (set_busy E b s)" "links_only s (set_free E b s)"
  by (simp_all add: links_only_def)

lemma links_only_calls [simp]:
  "links_only (mutex_lock s) s' = links_only s s'" "links_only s (mutex_lock s') = links_only s s'"
  "links_only (mutex_unlock s) s' = links_only s s'" "links_only s (mutex_unlock s') = links_only s s'"
  by (simp_all add: links_only_def mutex_lock_def mutex_unlock_def)

text \<open>A step that marks a bit and then writes a cell.\<close>

lemma links_only_mark_store:
  "store c v (set_busy E b s) = Some s' \<Longrightarrow> links_only s s'"
  "store c v (set_free E b s) = Some s' \<Longrightarrow> links_only s s'"
  using links_only_store links_only_trans links_only_busy by blast+

section \<open>The bitmap\<close>

text \<open>The first-fit order: the free data blocks from \<open>k\<close> on.\<close>

definition free_blocks :: "'bm env \<Rightarrow> 'bm osada \<Rightarrow> nat \<Rightarrow> nat \<Rightarrow> nat list" where
  "free_blocks E s k n = filter (\<lambda>b. \<not> its_busy E s b) [k..<n]"

lemma free_blocks_simps [simp]:
  "free_blocks E s n n = []"
  "k < n \<Longrightarrow> free_blocks E s k n
     = (if its_busy E s k then free_blocks E s (Suc k) n else k # free_blocks E s (Suc k) n)"
  by (simp_all add: free_blocks_def upt_conv_Cons)

lemma set_free_blocks: "b \<in> set (free_blocks E s k n) \<longleftrightarrow> k \<le> b \<and> b < n \<and> \<not> its_busy E s b"
  by (auto simp: free_blocks_def)

lemma distinct_free_blocks: "distinct (free_blocks E s k n)"
  by (simp add: free_blocks_def)

lemma free_blocks_cong:
  "(\<And>b. k \<le> b \<Longrightarrow> b < n \<Longrightarrow> its_busy E s' b = its_busy E s b) \<Longrightarrow> free_blocks E s' k n = free_blocks E s k n"
  by (auto simp: free_blocks_def intro!: filter_cong)

text \<open>How many blocks a count-down by \<open>step\<close> takes, and where the search stops.\<close>

definition rounds :: "int \<Rightarrow> int \<Rightarrow> nat" where
  "rounds step need = nat ((need + step - 1) div step)"

lemma rounds_pos:
  assumes "0 < step" and "0 < need" shows "rounds step need = Suc (rounds step (need - step))"
proof -
  have "(need + step - 1) div step = (need - step + step - 1) div step + 1"
    using assms(1) div_add_self2 [of step "need - 1"] by (simp add: algebra_simps)
  moreover have "0 \<le> (need - step + step - 1) div step"
    using assms by (simp add: pos_imp_zdiv_nonneg_iff)
  ultimately show ?thesis by (simp add: rounds_def nat_add_distrib)
qed

lemma rounds_neg: "0 < step \<Longrightarrow> need \<le> 0 \<Longrightarrow> rounds step need = 0"
proof -
  assume "0 < step" and "need \<le> 0"
  then have "(need + step - 1) div step \<le> (step - 1) div step" by (intro zdiv_mono1) simp_all
  also have "\<dots> = 0" using \<open>0 < step\<close> by simp
  finally show ?thesis by (simp add: rounds_def)
qed

definition stop_at :: "nat \<Rightarrow> nat \<Rightarrow> nat \<Rightarrow> nat list \<Rightarrow> nat" where
  "stop_at k n q free = (if q = 0 then k else if q \<le> length free then Suc (free ! (q - 1)) else n)"

text \<open>A range of data blocks that the tables and the bitmap cover.\<close>

definition data_range :: "('bm \<Rightarrow> nat) \<Rightarrow> nat \<Rightarrow> 'bm osada \<Rightarrow> bool" where
  "data_range nbits n s \<longleftrightarrow> BM_DATA_1 (geo s) = BM_DATA_0 (geo s) + int n - 1
     \<and> n \<le> nbits (bmap s) \<and> n \<le> length (maptab s) \<and> n < 2 ^ 25"

lemma unat_of_nat_small: "k < 2 ^ 25 \<Longrightarrow> unat (of_nat k :: u32) = k"
  by (simp add: unat_of_nat)

lemma of_nat_not_EOF: "k < 2 ^ 25 \<Longrightarrow> (of_nat k :: u32) \<noteq> END_OF_FILE"
  using unat_of_nat_small [of k] by force

context bitarray
begin

lemma busy_set_busy:
  "bits E = ops \<Longrightarrow> b < nbits (bmap s) \<Longrightarrow> j < nbits (bmap s) \<Longrightarrow>
     its_busy E (set_busy E b s) j \<longleftrightarrow> j = b \<or> its_busy E s j"
  by (simp add: its_busy_def set_busy_def test_set)

lemma busy_set_free:
  "bits E = ops \<Longrightarrow> b < nbits (bmap s) \<Longrightarrow> j < nbits (bmap s) \<Longrightarrow>
     its_busy E (set_free E b s) j \<longleftrightarrow> j \<noteq> b \<and> its_busy E s j"
  by (simp add: its_busy_def set_free_def test_clean)

lemma nbits_marks:
  "bits E = ops \<Longrightarrow> b < nbits (bmap s) \<Longrightarrow> nbits (bmap (set_busy E b s)) = nbits (bmap s)"
  "bits E = ops \<Longrightarrow> b < nbits (bmap s) \<Longrightarrow> nbits (bmap (set_free E b s)) = nbits (bmap s)"
  by (simp_all add: set_busy_def set_free_def nbits_set nbits_clean)

lemma release_from_chain:
  assumes "chain_at s c bs" and "bits E = ops" and "\<forall>b \<in> set bs. b < nbits (bmap s)"
  shows "\<exists>s'. release_from E c s = Some s' \<and> links_only s s'
    \<and> (\<forall>d. load d s' = (if d \<in> set (cells c bs) then Some END_OF_FILE else load d s))
    \<and> nbits (bmap s') = nbits (bmap s)
    \<and> (\<forall>j < nbits (bmap s). its_busy E s' j \<longleftrightarrow> its_busy E s j \<and> j \<notin> set bs)"
  using assms
proof (induction bs arbitrary: c s)
  case Nil
  then show ?case by (auto simp: release_from.simps [of E c s])
next
  case (Cons b bs)
  obtain v where v: "load c s = Some v" "v \<noteq> END_OF_FILE" "unat v = b"
    using Cons.prems(1) by (auto split: option.splits)
  obtain s1 where s1: "store c END_OF_FILE (set_free E b s) = Some s1"
    using store_Some [of c "set_free E b s" v] v by auto
  have dist: "distinct (cells c (b # bs))" by (rule chain_cells_distinct [OF Cons.prems(1)])
  have b: "b < nbits (bmap s)" using Cons.prems(3) by simp
  have n1: "nbits (bmap s1) = nbits (bmap s)"
    using store_other(2) [OF s1] nbits_marks(2) [OF Cons.prems(2) b] by simp
  have load1: "load d s1 = (if d = c then Some END_OF_FILE else load d s)" for d
    using load_store [OF s1] by simp
  have "chain_at s1 (Map_entry b) bs = chain_at s (Map_entry b) bs"
    using dist by (intro chain_frame) (auto simp: load1)
  then have "chain_at s1 (Map_entry b) bs" using Cons.prems(1) by simp
  from Cons.IH [OF this Cons.prems(2)] Cons.prems(3) n1
  obtain s' where s': "release_from E (Map_entry b) s1 = Some s'" "links_only s1 s'"
      "\<And>d. load d s' = (if d \<in> set (cells (Map_entry b) bs) then Some END_OF_FILE else load d s1)"
      "nbits (bmap s') = nbits (bmap s)"
      "\<And>j. j < nbits (bmap s) \<Longrightarrow> its_busy E s' j \<longleftrightarrow> its_busy E s1 j \<and> j \<notin> set bs"
    by auto
  have "release_from E c s = Some s'"
    using v s1 s'(1) by (simp add: release_from.simps [of E c s])
  moreover have "links_only s s'"
    using links_only_mark_store(2) [OF s1] s'(2) by (rule links_only_trans)
  moreover have "its_busy E s1 j \<longleftrightarrow> its_busy E (set_free E b s) j" for j
    using store_other(2) [OF s1] by (simp add: its_busy_def)
  ultimately show ?case
    using s'(3-5) load1 busy_set_free [OF Cons.prems(2) b]
    by (intro exI [of _ s']) (auto simp: set_cells)
qed

text \<open>One block taken: its bit, the cell that leads to it and its own cell.\<close>

lemma take_block:
  assumes "bits E = ops" and "data_range nbits n s" and "k < n" and "load c s = Some w"
  obtains s1 s2 where "store c (of_nat k) (set_busy E k s) = Some s1"
    and "follow c s1 = Some (Map_entry k)"
    and "store (Map_entry k) END_OF_FILE s1 = Some s2"
    and "links_only s s2" and "data_range nbits n s2" and "nbits (bmap s2) = nbits (bmap s)"
    and "\<And>d. load d s2 = (if d = Map_entry k then Some END_OF_FILE
                          else if d = c then Some (of_nat k) else load d s)"
    and "\<And>j. j < nbits (bmap s) \<Longrightarrow> its_busy E s2 j \<longleftrightarrow> j = k \<or> its_busy E s j"
proof -
  have k: "k < 2 ^ 25" "k < nbits (bmap s)" "k < length (maptab s)"
    using assms(2,3) by (auto simp: data_range_def)
  obtain s1 where s1: "store c (of_nat k) (set_busy E k s) = Some s1"
    using store_Some [of c "set_busy E k s" w] assms(4) by auto
  have "length (maptab s1) = length (maptab s)" using store_other [OF s1] by simp
  then obtain s2 where s2: "store (Map_entry k) END_OF_FILE s1 = Some s2" using k by simp
  have links: "links_only s s2"
    using links_only_mark_store(1) [OF s1] links_only_store [OF s2] by (rule links_only_trans)
  have bm: "bmap s2 = bmap (set_busy E k s)" using store_other(2) [OF s1] store_other(2) [OF s2] by simp
  then have nb: "nbits (bmap s2) = nbits (bmap s)" using nbits_marks(1) [OF assms(1) k(2)] by simp
  show ?thesis
  proof
    show "store c (of_nat k) (set_busy E k s) = Some s1" by (rule s1)
    show "follow c s1 = Some (Map_entry k)"
      using load_store [OF s1, of c] k(1) by (simp add: follow_def unat_of_nat_small)
    show "store (Map_entry k) END_OF_FILE s1 = Some s2" by (rule s2)
    show "links_only s s2" by (rule links)
    show "data_range nbits n s2"
      using links nb assms(2) by (simp add: links_only_def data_range_def)
    show "nbits (bmap s2) = nbits (bmap s)" by (rule nb)
    show "load d s2 = (if d = Map_entry k then Some END_OF_FILE
        else if d = c then Some (of_nat k) else load d s)" for d
      using load_store [OF s1, of d] load_store [OF s2, of d] by simp
    show "its_busy E s2 j \<longleftrightarrow> j = k \<or> its_busy E s j" if "j < nbits (bmap s)" for j
      using busy_set_busy [OF assms(1) k(2) that] bm by (simp add: its_busy_def)
  qed
qed

text \<open>
  Adding blocks takes the first free ones in order, as many as are needed or as there are,
  and chains them after the cell \<open>c\<close>, the end of a file.
\<close>

lemma add_blocks_chain:
  assumes "bits E = ops" and "data_range nbits n s" and "load c s = Some END_OF_FILE"
    and "\<forall>b. c = Map_entry b \<longrightarrow> its_busy E s b" and "0 < step" and "k \<le> n"
    and "news = take (rounds step need) (free_blocks E s k n)"
  shows "\<exists>s'. add_blocks E step need (BM_DATA_0 (geo s) + int k) c s
        = Some (BM_DATA_0 (geo s) + int (stop_at k n (rounds step need) (free_blocks E s k n)), s')
      \<and> links_only s s' \<and> chain_at s' c news \<and> nbits (bmap s') = nbits (bmap s)
      \<and> (\<forall>d. d \<notin> set (cells c news) \<longrightarrow> load d s' = load d s)
      \<and> (\<forall>j < nbits (bmap s). its_busy E s' j \<longleftrightarrow> j \<in> set news \<or> its_busy E s j)"
  using assms(2-4,6,7)
proof (induction "n - k" arbitrary: k need c s news rule: less_induct)
  case less
  note step = add_blocks.simps [of E step need "BM_DATA_0 (geo s) + int k" c s]
  have last: "BM_DATA_1 (geo s) = BM_DATA_0 (geo s) + int n - 1"
    and nb: "n \<le> nbits (bmap s)"
    using less.prems(1) by (simp_all add: data_range_def)
  have next_db: "BM_DATA_0 (geo s) + int k + 1 = BM_DATA_0 (geo s) + int (Suc k)" by simp
  consider (stop) "need \<le> 0 \<or> k = n" | (busy) "0 < need" "k < n" "its_busy E s k"
    | (free) "0 < need" "k < n" "\<not> its_busy E s k"
    using less.prems(4) by linarith
  then show ?case
  proof cases
    case stop
    then have "\<not> (need > 0 \<and> BM_DATA_0 (geo s) + int k \<le> BM_DATA_1 (geo s))"
      using last by linarith
    then have "(need > 0 \<and> BM_DATA_0 (geo s) + int k \<le> BM_DATA_1 (geo s)) = False" by blast
    then have "add_blocks E step need (BM_DATA_0 (geo s) + int k) c s = Some (BM_DATA_0 (geo s) + int k, s)"
      by (simp only: step if_False)
    moreover have "stop_at k n (rounds step need) (free_blocks E s k n) = k" and "news = []"
      using stop rounds_neg [OF assms(5)] less.prems(5) by (auto simp: stop_at_def)
    ultimately show ?thesis using less.prems(2) by auto
  next
    case busy
    have "add_blocks E step need (BM_DATA_0 (geo s) + int k) c s
        = add_blocks E step need (BM_DATA_0 (geo s) + int (Suc k)) c s"
      unfolding step using busy last by (simp add: ac_simps)
    moreover have "stop_at (Suc k) n (rounds step need) f = stop_at k n (rounds step need) f" for f
      using rounds_pos [OF assms(5) busy(1)] by (simp add: stop_at_def)
    ultimately show ?thesis
      using less.hyps [of "Suc k" s c news need] less.prems busy by simp
  next
    case free
    obtain s1 s2 where s12: "store c (of_nat k) (set_busy E k s) = Some s1"
        "follow c s1 = Some (Map_entry k)" "store (Map_entry k) END_OF_FILE s1 = Some s2"
        "links_only s s2" "data_range nbits n s2" "nbits (bmap s2) = nbits (bmap s)"
      and load2: "\<And>d. load d s2 = (if d = Map_entry k then Some END_OF_FILE
                          else if d = c then Some (of_nat k) else load d s)"
      and busy2: "\<And>j. j < nbits (bmap s) \<Longrightarrow> its_busy E s2 j \<longleftrightarrow> j = k \<or> its_busy E s j"
      using take_block [OF assms(1) less.prems(1) free(2) less.prems(2)] by metis
    have geo2: "geo s2 = geo s" using s12(4) by (simp add: links_only_def)
    have add: "add_blocks E step need (BM_DATA_0 (geo s) + int k) c s
        = add_blocks E step (need - step) (BM_DATA_0 (geo s2) + int (Suc k)) (Map_entry k) s2"
      unfolding step using free last s12(1-3) by (simp add: geo2 ac_simps)
    have frees: "free_blocks E s2 (Suc k) n = free_blocks E s (Suc k) n"
      using busy2 nb by (intro free_blocks_cong) auto
    define news' where "news' = take (rounds step (need - step)) (free_blocks E s (Suc k) n)"
    have news: "news = k # news'"
      using rounds_pos [OF assms(5) free(1)] free less.prems(5) by (simp add: news'_def)
    have fresh: "j \<in> set news' \<Longrightarrow> k < j \<and> j < n \<and> \<not> its_busy E s j" for j
      by (auto simp: news'_def set_free_blocks dest!: in_set_takeD)
    have "\<exists>s'. add_blocks E step (need - step) (BM_DATA_0 (geo s2) + int (Suc k)) (Map_entry k) s2
        = Some (BM_DATA_0 (geo s2) + int (stop_at (Suc k) n (rounds step (need - step)) (free_blocks E s2 (Suc k) n)), s')
      \<and> links_only s2 s' \<and> chain_at s' (Map_entry k) news' \<and> nbits (bmap s') = nbits (bmap s2)
      \<and> (\<forall>d. d \<notin> set (cells (Map_entry k) news') \<longrightarrow> load d s' = load d s2)
      \<and> (\<forall>j < nbits (bmap s2). its_busy E s' j \<longleftrightarrow> j \<in> set news' \<or> its_busy E s2 j)"
      using less.hyps [of "Suc k" s2 "Map_entry k" news' "need - step"] free s12(5) load2
        busy2 nb frees by (simp add: news'_def)
    then obtain s' where s': "add_blocks E step (need - step) (BM_DATA_0 (geo s2) + int (Suc k)) (Map_entry k) s2
        = Some (BM_DATA_0 (geo s) + int (stop_at (Suc k) n (rounds step (need - step)) (free_blocks E s (Suc k) n)), s')"
      "links_only s2 s'" "chain_at s' (Map_entry k) news'" "nbits (bmap s') = nbits (bmap s)"
      "\<And>d. d \<notin> set (cells (Map_entry k) news') \<Longrightarrow> load d s' = load d s2"
      "\<And>j. j < nbits (bmap s) \<Longrightarrow> its_busy E s' j \<longleftrightarrow> j \<in> set news' \<or> its_busy E s2 j"
      using s12(6) geo2 frees by auto
    have "c \<notin> set (cells (Map_entry k) news')"
      using fresh less.prems(3) free(3) by (auto simp: set_cells)
    then have "load c s' = Some (of_nat k)"
      using s'(5) load2 by (simp add: set_cells)
    then have "chain_at s' c (k # news')"
      using s'(3) of_nat_not_EOF unat_of_nat_small less.prems(1) free(2)
      by (simp add: data_range_def)
    moreover have "links_only s s'" using s12(4) s'(2) by (rule links_only_trans)
    moreover have "stop_at (Suc k) n (rounds step (need - step)) (free_blocks E s (Suc k) n)
        = stop_at k n (rounds step need) (free_blocks E s k n)"
      using rounds_pos [OF assms(5) free(1)] free by (auto simp: stop_at_def nth_Cons')
    ultimately show ?thesis
      using add s' news busy2 load2 by (intro exI [of _ s']) (auto simp: set_cells)
  qed
qed

text \<open>The first block of an empty file is the first free one.\<close>

lemma alloc_first_chain:
  assumes "bits E = ops" and "data_range nbits n s" and "load (First_block i) s = Some END_OF_FILE"
    and "k \<le> n"
  shows "\<exists>s'. alloc_first E (BM_DATA_0 (geo s) + int k) i s
        = Some (BM_DATA_0 (geo s) + int (case free_blocks E s k n of [] \<Rightarrow> n | p # _ \<Rightarrow> p), s')
      \<and> links_only s s' \<and> chain_at s' (First_block i) (take 1 (free_blocks E s k n))
      \<and> nbits (bmap s') = nbits (bmap s)
      \<and> (\<forall>d. d \<notin> set (cells (First_block i) (take 1 (free_blocks E s k n))) \<longrightarrow> load d s' = load d s)
      \<and> (\<forall>j < nbits (bmap s). its_busy E s' j \<longleftrightarrow> j \<in> set (take 1 (free_blocks E s k n)) \<or> its_busy E s j)"
  using assms(4)
proof (induction "n - k" arbitrary: k rule: less_induct)
  case less
  note step = alloc_first.simps [of E "BM_DATA_0 (geo s) + int k" i s]
  have last: "BM_DATA_1 (geo s) = BM_DATA_0 (geo s) + int n - 1"
    using assms(2) by (simp add: data_range_def)
  consider (stop) "k = n" | (busy) "k < n" "its_busy E s k" | (free) "k < n" "\<not> its_busy E s k"
    using less.prems by linarith
  then show ?case
  proof cases
    case stop
    then show ?thesis unfolding step using last assms(3) by simp
  next
    case busy
    have "alloc_first E (BM_DATA_0 (geo s) + int k) i s
        = alloc_first E (BM_DATA_0 (geo s) + int (Suc k)) i s"
      unfolding step using busy last by (simp add: ac_simps)
    then show ?thesis using less.hyps [of "Suc k"] busy by simp
  next
    case free
    obtain s1 s2 where s12: "store (First_block i) (of_nat k) (set_busy E k s) = Some s1"
        "follow (First_block i) s1 = Some (Map_entry k)" "store (Map_entry k) END_OF_FILE s1 = Some s2"
        "links_only s s2" "data_range nbits n s2" "nbits (bmap s2) = nbits (bmap s)"
      and load2: "\<And>d. load d s2 = (if d = Map_entry k then Some END_OF_FILE
                          else if d = First_block i then Some (of_nat k) else load d s)"
      and busy2: "\<And>j. j < nbits (bmap s) \<Longrightarrow> its_busy E s2 j \<longleftrightarrow> j = k \<or> its_busy E s j"
      using take_block [OF assms(1,2) free(1) assms(3)] by metis
    have "alloc_first E (BM_DATA_0 (geo s) + int k) i s = Some (BM_DATA_0 (geo s) + int k, s2)"
      unfolding step using free last s12(1-3) by simp
    moreover have "(of_nat k :: u32) \<noteq> END_OF_FILE" and "unat (of_nat k :: u32) = k"
      using of_nat_not_EOF unat_of_nat_small assms(2) free(1) by (simp_all add: data_range_def)
    moreover have "load (First_block i) s2 = Some (of_nat k)"
      and "load (Map_entry k) s2 = Some END_OF_FILE"
        by (simp_all add: load2 del: load.simps)
    ultimately show ?thesis
      using free s12(4,6) load2 busy2 by (intro exI [of _ s2]) (simp del: load.simps)
  qed
qed

end

declare free_blocks_simps(2) [simp del]

section \<open>Data\<close>

text \<open>\<^verbatim>\<open>memcpy\<close> out of and into a data block, from byte \<open>off\<close> of block \<open>b\<close>.\<close>

definition read_block :: "nat \<Rightarrow> nat \<Rightarrow> nat \<Rightarrow> 'bm osada \<Rightarrow> byte list option" where
  "read_block b off len s =
     (if len = 0 then Some []
      else if b < length (dblocks s) then Some (take len (drop off (dblocks s ! b))) else None)"

definition write_block :: "nat \<Rightarrow> nat \<Rightarrow> byte list \<Rightarrow> 'bm osada \<Rightarrow> 'bm osada option" where
  "write_block b off bs s =
     (if bs = [] then Some s
      else if b < length (dblocks s)
      then Some (s\<lparr>dblocks := (dblocks s)[b := blit (dblocks s ! b) off bs]\<rparr>) else None)"

text \<open>The bytes of a chain of blocks, one block after the other.\<close>

definition chain_data :: "'bm osada \<Rightarrow> nat list \<Rightarrow> byte list" where
  "chain_data s bs = concat (map ((!) (dblocks s)) bs)"

definition blocks_ok :: "nat \<Rightarrow> 'bm osada \<Rightarrow> bool" where
  "blocks_ok n s \<longleftrightarrow> length (dblocks s) = n \<and> (\<forall>b < n. length (dblocks s ! b) = OSADA_BLOCK_SIZE)"

lemma chain_data_simps [simp]:
  "chain_data s [] = []" "chain_data s (b # bs) = (dblocks s ! b) @ chain_data s bs"
  "chain_data s (xs @ ys) = chain_data s xs @ chain_data s ys"
  by (simp_all add: chain_data_def)

lemma length_chain_data:
  "blocks_ok n s \<Longrightarrow> \<forall>b \<in> set bs. b < n \<Longrightarrow> length (chain_data s bs) = OSADA_BLOCK_SIZE * length bs"
  by (induction bs) (auto simp: blocks_ok_def)

lemma chain_data_cong:
  "(\<And>b. b \<in> set bs \<Longrightarrow> dblocks s' ! b = dblocks s ! b) \<Longrightarrow> chain_data s' bs = chain_data s bs"
  by (simp add: chain_data_def cong: map_cong)

end
