(* ===== verification/Osada_Table.thy ===== *)
theory Osada_Table
  imports Osada_Locks
begin

text \<open>
  The file table of \<^verbatim>\<open>pokedex-server.c\<close>: \<^verbatim>\<open>search_node\<close>, \<^verbatim>\<open>search_dir\<close>, \<^verbatim>\<open>get_free_file_block\<close>,
  \<^verbatim>\<open>create_dir\<close> and \<^verbatim>\<open>create_node\<close>, with the lock calls they make while they scan. The lemmas
  give each scan its meaning (the first matching entry), what it leaves locked, and state the
  table as a directory: a map from parent position and name to table position.
\<close>

section \<open>search_node and search_dir\<close>

text \<open>The name in an entry: up to OSADA_FILENAME_LENGTH bytes, or to the first NUL.\<close>

definition entry_name :: "osada_file \<Rightarrow> byte list" where
  "entry_name f = takeWhile (\<lambda>b. b \<noteq> 0) (take OSADA_FILENAME_LENGTH (fname f))"

definition node_matches :: "osada_file \<Rightarrow> byte list \<Rightarrow> int \<Rightarrow> bool" where
  "node_matches f node_name pb_pos \<longleftrightarrow>
     (state f = REGULAR \<or> state f = DIRECTORY)
       \<and> entry_name f = node_name \<and> int (unat (parent_directory f)) = pb_pos"

function search_from :: "nat \<Rightarrow> byte list \<Rightarrow> int \<Rightarrow> lock_action \<Rightarrow> int \<Rightarrow> 'bm osada
    \<Rightarrow> int \<times> 'bm osada" where
  "search_from file_block_number node_name pb_pos lock_type ignore_pos s =
     (if file_block_number \<le> FILE_BLOCKS_MOUNT - 1 then
        if int file_block_number \<noteq> pb_pos \<and> int file_block_number \<noteq> ignore_pos then
          let s1 = semaphore lock_type (int file_block_number) s in
          if node_matches (ftable s1 ! file_block_number) node_name pb_pos
          then (int file_block_number, s1)
          else search_from (Suc file_block_number) node_name pb_pos lock_type ignore_pos
                 (semaphore UNLOCK (int file_block_number) s1)
        else search_from (Suc file_block_number) node_name pb_pos lock_type ignore_pos s
      else (- OSADA_ENOENT, s))"
  by pat_completeness auto
termination
  by (relation "measure (\<lambda>(i, _). FILE_BLOCKS_MOUNT - i)") (auto simp: FILE_BLOCKS_MOUNT_def)

declare search_from.simps [simp del]

definition search_node :: "byte list \<Rightarrow> int \<Rightarrow> lock_action \<Rightarrow> int \<Rightarrow> 'bm osada \<Rightarrow> int \<times> 'bm osada" where
  "search_node node_name pb_pos lock_type ignore_pos s =
     search_from 0 node_name pb_pos lock_type ignore_pos s"

definition search_dir :: "byte list \<Rightarrow> int \<Rightarrow> lock_action \<Rightarrow> int \<Rightarrow> 'bm osada \<Rightarrow> int \<times> 'bm osada" where
  "search_dir dir_name pb_pos lock_type ignore_pos s =
     (let (node_pos, s1) = search_node dir_name pb_pos lock_type ignore_pos s in
      if node_pos = - OSADA_ENOENT then (- OSADA_ENOTDIR, s1)
      else if state (ftable s1 ! nat node_pos) = DIRECTORY then (node_pos, s1)
      else (- OSADA_ENOTDIR, semaphore UNLOCK node_pos s1))"

section \<open>Free entries and creation\<close>

function free_from :: "nat \<Rightarrow> int \<Rightarrow> 'bm osada \<Rightarrow> int \<times> 'bm osada" where
  "free_from file_block_number pb_pos s =
     (if file_block_number \<le> FILE_BLOCKS_MOUNT - 1 then
        if int file_block_number \<noteq> pb_pos then
          let s1 = semaphore LOCK_WRITE (int file_block_number) s in
          if state (ftable s1 ! file_block_number) = DELETED then (int file_block_number, s1)
          else free_from (Suc file_block_number) pb_pos
                 (semaphore UNLOCK (int file_block_number) s1)
        else free_from (Suc file_block_number) pb_pos s
      else (int file_block_number, s))"
  by pat_completeness auto
termination
  by (relation "measure (\<lambda>(i, _). FILE_BLOCKS_MOUNT - i)") (auto simp: FILE_BLOCKS_MOUNT_def)

declare free_from.simps [simp del]

definition get_free_file_block :: "int \<Rightarrow> 'bm osada \<Rightarrow> int \<times> 'bm osada" where
  "get_free_file_block pb_pos s = free_from 0 pb_pos s"

text \<open>The bytes of \<^verbatim>\<open>fname\<close> after a name of at most 17 bytes is copied over old contents.\<close>

definition fname_after :: "byte list \<Rightarrow> byte list \<Rightarrow> byte list" where
  "fname_after old name =
     (let copied = blit old 0 name in
      if length name < OSADA_FILENAME_LENGTH then copied[length name := 0] else copied)"

definition write_entry :: "nat \<Rightarrow> osada_file \<Rightarrow> 'bm osada \<Rightarrow> 'bm osada" where
  "write_entry i f s = s\<lparr>ftable := (ftable s)[i := f]\<rparr>"

definition create_dir :: "'bm env \<Rightarrow> byte list \<Rightarrow> int \<Rightarrow> 'bm osada \<Rightarrow> int \<times> 'bm osada" where
  "create_dir E dir_name pb_pos s =
     (let (file_block_number, s1) = get_free_file_block pb_pos s in
      if file_block_number > int FILE_BLOCKS_MOUNT - 1 then (- OSADA_ENOSPC, s1)
      else
        let o_file = \<lparr>state = DIRECTORY, fname = fname_after (malloc_junk E) dir_name,
                      parent_directory = word_of_int pb_pos, file_size = 0, lastmod = now E,
                      first_block = 0\<rparr>;
            s2 = write_entry (nat file_block_number) o_file s1
        in (file_block_number, semaphore UNLOCK file_block_number s2))"

definition create_node :: "'bm env \<Rightarrow> byte list \<Rightarrow> int \<Rightarrow> 'bm osada \<Rightarrow> int \<times> 'bm osada" where
  "create_node E node_name pb_pos s =
     (let (file_block_number, s1) = get_free_file_block pb_pos s in
      if file_block_number > int FILE_BLOCKS_MOUNT - 1 then (- OSADA_ENOSPC, s1)
      else
        let o_file = \<lparr>state = REGULAR, fname = fname_after (malloc_junk E) node_name,
                      parent_directory = word_of_int pb_pos, file_size = 0, lastmod = now E,
                      first_block = END_OF_FILE\<rparr>;
            s2 = write_entry (nat file_block_number) o_file s1
        in (file_block_number, semaphore UNLOCK file_block_number s2))"

section \<open>What the scans find\<close>

definition find_node :: "byte list \<Rightarrow> int \<Rightarrow> int \<Rightarrow> osada_file list \<Rightarrow> nat option" where
  "find_node name pb ign ft =
     List.find (\<lambda>i. int i \<noteq> pb \<and> int i \<noteq> ign \<and> node_matches (ft ! i) name pb) [0..<FILE_BLOCKS_MOUNT]"

definition find_free :: "int \<Rightarrow> osada_file list \<Rightarrow> nat option" where
  "find_free pb ft =
     List.find (\<lambda>i. int i \<noteq> pb \<and> state (ft ! i) = DELETED) [0..<FILE_BLOCKS_MOUNT]"

lemma FILE_BLOCKS_MOUNT_pos [simp]: "0 < FILE_BLOCKS_MOUNT"
  by (simp add: FILE_BLOCKS_MOUNT_def)

lemma le_mount [simp]: "i \<le> FILE_BLOCKS_MOUNT - Suc 0 \<longleftrightarrow> i < FILE_BLOCKS_MOUNT"
  by (auto simp: FILE_BLOCKS_MOUNT_def)

text \<open>
  Both scans are one loop: take the lock of each entry that is not skipped, keep it if the
  entry satisfies the test, release it otherwise.
\<close>

function scan_from :: "(osada_file \<Rightarrow> bool) \<Rightarrow> (nat \<Rightarrow> bool) \<Rightarrow> lock_action \<Rightarrow> nat \<Rightarrow> 'bm osada
    \<Rightarrow> nat option \<times> 'bm osada" where
  "scan_from P skip a i s =
     (if i < FILE_BLOCKS_MOUNT then
        if skip i then scan_from P skip a (Suc i) s
        else if P (ftable s ! i) then (Some i, semaphore a (int i) s)
        else scan_from P skip a (Suc i) (semaphore UNLOCK (int i) (semaphore a (int i) s))
      else (None, s))"
  by pat_completeness auto
termination
  by (relation "measure (\<lambda>(_, _, _, i, _). FILE_BLOCKS_MOUNT - i)") auto

declare scan_from.simps [simp del]

lemma search_from_scan:
  "search_from i name pb a ign s =
     (let (r, s') = scan_from (\<lambda>f. node_matches f name pb) (\<lambda>i. int i = pb \<or> int i = ign) a i s
      in (case r of None \<Rightarrow> - OSADA_ENOENT | Some k \<Rightarrow> int k, s'))"
proof (induction i name pb a ign s rule: search_from.induct)
  case (1 i name pb a ign s)
  then show ?case
    by (simp add: search_from.simps [of i]
        scan_from.simps [of "\<lambda>f. node_matches f name pb" "\<lambda>i. int i = pb \<or> int i = ign" a i s] Let_def lock_calls_eq)
qed

lemma free_from_scan:
  assumes "i \<le> FILE_BLOCKS_MOUNT"
  shows "free_from i pb s =
     (let (r, s') = scan_from (\<lambda>f. state f = DELETED) (\<lambda>i. int i = pb) LOCK_WRITE i s
      in (case r of None \<Rightarrow> int FILE_BLOCKS_MOUNT | Some k \<Rightarrow> int k, s'))"
  using assms
proof (induction i pb s rule: free_from.induct)
  case (1 i pb s)
  then show ?case
    by (simp add: free_from.simps [of i]
        scan_from.simps [of "\<lambda>f. state f = DELETED" "\<lambda>i. int i = pb" LOCK_WRITE i s] Let_def lock_calls_eq)
qed

text \<open>
  In closed form: the result is the first hit, and the state changes by the lock calls
  \<open>scan_calls\<close> only. A thread that holds no lock among the entries it scans ends holding the
  lock of the entry found and no other.
\<close>

function scan_calls :: "(osada_file \<Rightarrow> bool) \<Rightarrow> (nat \<Rightarrow> bool) \<Rightarrow> lock_action \<Rightarrow> nat
    \<Rightarrow> osada_file list \<Rightarrow> lock_event list" where
  "scan_calls P skip a i ft =
     (if i < FILE_BLOCKS_MOUNT then
        if skip i then scan_calls P skip a (Suc i) ft
        else if P (ft ! i) then [Rwlock a (int i)]
        else Rwlock a (int i) # Rwlock UNLOCK (int i) # scan_calls P skip a (Suc i) ft
      else [])"
  by pat_completeness auto
termination
  by (relation "measure (\<lambda>(_, _, _, i, _). FILE_BLOCKS_MOUNT - i)") auto

declare scan_calls.simps [simp del]

definition scan_holds :: "lock_action \<Rightarrow> nat option \<Rightarrow> (int \<Rightarrow> hold) \<Rightarrow> int \<Rightarrow> hold" where
  "scan_holds a r h = (case r of None \<Rightarrow> h | Some k \<Rightarrow> h(int k := acquired a))"

lemma scan_holds_simps [simp]:
  "scan_holds a None h = h" "scan_holds a (Some k) h = h(int k := acquired a)"
  by (simp_all add: scan_holds_def)

lemma scan_from_eq:
  "scan_from P skip a i s =
     (List.find (\<lambda>i. \<not> skip i \<and> P (ftable s ! i)) [i..<FILE_BLOCKS_MOUNT],
      add_calls (scan_calls P skip a i (ftable s)) s)"
proof (induction P skip a i s rule: scan_from.induct)
  case (1 P skip a i s)
  then show ?case
    by (simp add: scan_from.simps [of P skip a i s] scan_calls.simps [of P skip a i "ftable s"]
        upt_conv_Cons lock_calls_eq)
qed

lemma replay_scan_calls:
  assumes "a \<noteq> UNLOCK"
    and "\<And>j. i \<le> j \<Longrightarrow> j < FILE_BLOCKS_MOUNT \<Longrightarrow> \<not> skip j \<Longrightarrow> h (int j) = Free"
  shows "replay (scan_calls P skip a i ft) (h, m)
      = Some (scan_holds a (List.find (\<lambda>i. \<not> skip i \<and> P (ft ! i)) [i..<FILE_BLOCKS_MOUNT]) h, m)"
  using assms
proof (induction P skip a i ft rule: scan_calls.induct)
  case (1 P skip a i ft)
  note step = scan_calls.simps [of P skip a i ft]
  show ?case
  proof (cases "i < FILE_BLOCKS_MOUNT \<and> \<not> skip i")
    case False
    then show ?thesis using 1(1) 1(3,4) by (auto simp: step upt_conv_Cons)
  next
    case True
    then have ok: "lock_index_ok (int i)" and free: "h (int i) = Free"
      using 1(4) by (simp_all add: lock_index_ok_def)
    have pair: "replay (Rwlock a (int i) # Rwlock UNLOCK (int i) # t) (h, m) = replay t (h, m)" for t
      by (subst replay_pair) (simp add: replay_acquire_release [of a "int i" h m] 1(3) ok free)
    show ?thesis
      using True 1(2) 1(3,4) replay_acquire [of a "int i" h m] ok free
      by (auto simp: step upt_conv_Cons pair)
  qed
qed

section \<open>The functions of the code in closed form\<close>

definition int_result :: "int \<Rightarrow> nat option \<Rightarrow> int" where
  "int_result d r = (case r of None \<Rightarrow> d | Some k \<Rightarrow> int k)"

lemma int_result_simps [simp]: "int_result d None = d" "int_result d (Some k) = int k"
  by (simp_all add: int_result_def)

definition node_calls :: "byte list \<Rightarrow> int \<Rightarrow> lock_action \<Rightarrow> int \<Rightarrow> osada_file list \<Rightarrow> lock_event list" where
  "node_calls name pb a ign ft =
     scan_calls (\<lambda>f. node_matches f name pb) (\<lambda>i. int i = pb \<or> int i = ign) a 0 ft"

lemma search_node_eq:
  "search_node name pb a ign s =
     (int_result (- OSADA_ENOENT) (find_node name pb ign (ftable s)),
      add_calls (node_calls name pb a ign (ftable s)) s)"
  by (simp add: search_node_def search_from_scan scan_from_eq find_node_def node_calls_def
      int_result_def)

lemma replay_node_calls:
  assumes "a \<noteq> UNLOCK" and "\<And>j. j \<noteq> pb \<Longrightarrow> j \<noteq> ign \<Longrightarrow> h j = Free"
  shows "replay (node_calls name pb a ign ft) (h, m) = Some (scan_holds a (find_node name pb ign ft) h, m)"
  using replay_scan_calls [of a 0 "\<lambda>i. int i = pb \<or> int i = ign" h "\<lambda>f. node_matches f name pb" ft m]
    assms by (simp add: node_calls_def find_node_def)

lemma find_node_Some:
  "find_node name pb ign ft = Some k \<longleftrightarrow>
     k < FILE_BLOCKS_MOUNT \<and> int k \<noteq> pb \<and> int k \<noteq> ign \<and> node_matches (ft ! k) name pb
     \<and> (\<forall>j < k. int j \<noteq> pb \<longrightarrow> int j \<noteq> ign \<longrightarrow> \<not> node_matches (ft ! j) name pb)"
  unfolding find_node_def find_upt_Some by auto

lemma find_node_None:
  "find_node name pb ign ft = None \<longleftrightarrow>
     (\<forall>j < FILE_BLOCKS_MOUNT. int j \<noteq> pb \<longrightarrow> int j \<noteq> ign \<longrightarrow> \<not> node_matches (ft ! j) name pb)"
  unfolding find_node_def find_upt_None by auto

text \<open>What \<^verbatim>\<open>search_dir\<close> accepts: the first match, when it is a directory.\<close>

definition find_dir :: "byte list \<Rightarrow> int \<Rightarrow> int \<Rightarrow> osada_file list \<Rightarrow> nat option" where
  "find_dir name pb ign ft = (case find_node name pb ign ft of None \<Rightarrow> None
     | Some k \<Rightarrow> if state (ft ! k) = DIRECTORY then Some k else None)"

definition dir_calls :: "byte list \<Rightarrow> int \<Rightarrow> lock_action \<Rightarrow> int \<Rightarrow> osada_file list \<Rightarrow> lock_event list" where
  "dir_calls name pb a ign ft = node_calls name pb a ign ft @
     (case find_node name pb ign ft of None \<Rightarrow> []
      | Some k \<Rightarrow> if state (ft ! k) = DIRECTORY then [] else [Rwlock UNLOCK (int k)])"

lemma search_dir_eq:
  "search_dir name pb a ign s =
     (int_result (- OSADA_ENOTDIR) (find_dir name pb ign (ftable s)),
      add_calls (dir_calls name pb a ign (ftable s)) s)"
  by (auto simp: search_dir_def search_node_eq find_dir_def dir_calls_def lock_calls_eq
      split: option.splits)

lemma replay_dir_calls:
  assumes a: "a \<noteq> UNLOCK" and h: "\<And>j. j \<noteq> pb \<Longrightarrow> j \<noteq> ign \<Longrightarrow> h j = Free"
  shows "replay (dir_calls name pb a ign ft) (h, m) = Some (scan_holds a (find_dir name pb ign ft) h, m)"
proof (cases "find_node name pb ign ft")
  case None
  then show ?thesis
    by (simp add: dir_calls_def find_dir_def replay_append replay_node_calls [of a pb ign h name ft m, OF a h])
next
  case (Some k)
  then have "lock_index_ok (int k)" and "h (int k) = Free"
    using h by (auto simp: find_node_Some lock_index_ok_def)
  then have "replay [Rwlock UNLOCK (int k)] (h(int k := acquired a), m) = Some (h, m)"
    using replay_release [of a "int k" "h(int k := acquired a)" m] a by (simp add: fun_upd_idem)
  then show ?thesis
    using Some replay_node_calls [of a pb ign h name ft m, OF a h]
    by (simp add: dir_calls_def find_dir_def replay_append)
qed

definition free_calls :: "int \<Rightarrow> osada_file list \<Rightarrow> lock_event list" where
  "free_calls pb ft = scan_calls (\<lambda>f. state f = DELETED) (\<lambda>i. int i = pb) LOCK_WRITE 0 ft"

lemma get_free_file_block_eq:
  "get_free_file_block pb s =
     (int_result (int FILE_BLOCKS_MOUNT) (find_free pb (ftable s)), add_calls (free_calls pb (ftable s)) s)"
  by (simp add: get_free_file_block_def free_from_scan scan_from_eq find_free_def free_calls_def
      int_result_def)

lemma replay_free_calls:
  assumes "\<And>j. j \<noteq> pb \<Longrightarrow> h j = Free"
  shows "replay (free_calls pb ft) (h, m) = Some (scan_holds LOCK_WRITE (find_free pb ft) h, m)"
  using replay_scan_calls [of LOCK_WRITE 0 "\<lambda>i. int i = pb" h "\<lambda>f. state f = DELETED" ft m]
    assms by (simp add: free_calls_def find_free_def)

lemma find_free_Some:
  "find_free pb ft = Some k \<longleftrightarrow>
     k < FILE_BLOCKS_MOUNT \<and> int k \<noteq> pb \<and> state (ft ! k) = DELETED
     \<and> (\<forall>j < k. int j \<noteq> pb \<longrightarrow> state (ft ! j) \<noteq> DELETED)"
  unfolding find_free_def find_upt_Some by auto

lemma find_free_None:
  "find_free pb ft = None \<longleftrightarrow> (\<forall>j < FILE_BLOCKS_MOUNT. int j \<noteq> pb \<longrightarrow> state (ft ! j) \<noteq> DELETED)"
  unfolding find_free_def find_upt_None by auto

text \<open>The entry a creation writes; \<open>first\<close> is its first block.\<close>

definition new_entry :: "'bm env \<Rightarrow> osada_file_state \<Rightarrow> u32 \<Rightarrow> byte list \<Rightarrow> int \<Rightarrow> osada_file" where
  "new_entry E st first name pb =
     \<lparr>state = st, fname = fname_after (malloc_junk E) name, parent_directory = word_of_int pb,
      file_size = 0, lastmod = now E, first_block = first\<rparr>"

definition create_calls :: "int \<Rightarrow> osada_file list \<Rightarrow> lock_event list" where
  "create_calls pb ft = free_calls pb ft @
     (case find_free pb ft of None \<Rightarrow> [] | Some k \<Rightarrow> [Rwlock UNLOCK (int k)])"

lemma write_entry_add_calls: "write_entry i f (add_calls t s) = add_calls t (write_entry i f s)"
  by (simp add: write_entry_def add_calls_def)

lemma find_free_less: "find_free pb ft = Some k \<Longrightarrow> k < FILE_BLOCKS_MOUNT"
  by (simp add: find_free_Some)

lemma create_dir_eq:
  "create_dir E name pb s =
     (case find_free pb (ftable s) of
        None \<Rightarrow> (- OSADA_ENOSPC, add_calls (create_calls pb (ftable s)) s)
      | Some k \<Rightarrow> (int k, add_calls (create_calls pb (ftable s))
                     (write_entry k (new_entry E DIRECTORY 0 name pb) s)))"
  by (auto simp: create_dir_def get_free_file_block_eq create_calls_def new_entry_def lock_calls_eq
      write_entry_add_calls dest: find_free_less split: option.splits)

lemma create_node_eq:
  "create_node E name pb s =
     (case find_free pb (ftable s) of
        None \<Rightarrow> (- OSADA_ENOSPC, add_calls (create_calls pb (ftable s)) s)
      | Some k \<Rightarrow> (int k, add_calls (create_calls pb (ftable s))
                     (write_entry k (new_entry E REGULAR END_OF_FILE name pb) s)))"
  by (auto simp: create_node_def get_free_file_block_eq create_calls_def new_entry_def lock_calls_eq
      write_entry_add_calls dest: find_free_less split: option.splits)

lemma replay_create_calls:
  assumes h: "\<And>j. j \<noteq> pb \<Longrightarrow> h j = Free"
  shows "replay (create_calls pb ft) (h, m) = Some (h, m)"
proof (cases "find_free pb ft")
  case None
  then show ?thesis by (simp add: create_calls_def replay_append replay_free_calls [of pb h ft m, OF h])
next
  case (Some k)
  then have "lock_index_ok (int k)" and "h (int k) = Free"
    using h by (auto simp: find_free_Some lock_index_ok_def)
  then have "replay [Rwlock UNLOCK (int k)] (h(int k := acquired LOCK_WRITE), m) = Some (h, m)"
    using replay_release [of LOCK_WRITE "int k" "h(int k := acquired LOCK_WRITE)" m]
    by (simp add: fun_upd_idem)
  then show ?thesis
    using Some replay_free_calls [of pb h ft m, OF h]
    by (simp add: create_calls_def replay_append)
qed

end
