(* ===== verification/Commons.thy ===== *)
theory Commons
  imports Prelude "HOL-Library.Multiset"
begin

text \<open>
  The operations of \<^verbatim>\<open>t_list\<close> (so-commons, \<^verbatim>\<open>collections/list.h\<close>) that the modelled code calls.
  The library is not part of the repository: its operations are a parameter \<open>t_list_ops\<close> of the
  definitions that use them and the locale \<open>t_list\<close> states what the library documents.
  \<open>list_destroy_order\<close> is the order in which \<^verbatim>\<open>list_destroy_and_destroy_elements\<close> hands the
  elements to the destructor it is given.
\<close>

record ('l, 'a) t_list_ops =
  list_create :: 'l
  list_add :: "'l \<Rightarrow> 'a \<Rightarrow> 'l"
  list_get :: "'l \<Rightarrow> nat \<Rightarrow> 'a option"      \<comment> \<open>\<open>None\<close>: NULL, past the end\<close>
  list_size :: "'l \<Rightarrow> nat"
  list_destroy_order :: "'l \<Rightarrow> 'a list"

locale t_list =
  fixes L :: "('l, 'a, 'z) t_list_ops_scheme"
    and elems :: "'l \<Rightarrow> 'a list"
  assumes elems_create: "elems (list_create L) = []"
    and elems_add: "elems (list_add L l x) = elems l @ [x]"
    and get_eq: "list_get L l i = (if i < length (elems l) then Some (elems l ! i) else None)"
    and size_eq: "list_size L l = length (elems l)"
    and destroy_order: "list_destroy_order L l = elems l"
begin

lemmas t_list_laws = elems_create elems_add get_eq size_eq destroy_order

lemma elems_foldl: "elems (foldl (list_add L) l xs) = elems l @ xs"
  by (induction xs arbitrary: l) (simp_all add: elems_add)

lemma get_None: "list_get L l i = None \<longleftrightarrow> length (elems l) \<le> i"
  by (simp add: get_eq)

end

text \<open>The linked chain the library documents, seen as its sequence of elements.\<close>

definition hol_list :: "('a list, 'a) t_list_ops" where
  "hol_list = \<lparr>list_create = [], list_add = (\<lambda>l x. l @ [x]),
     list_get = (\<lambda>l i. if i < length l then Some (l ! i) else None),
     list_size = length, list_destroy_order = (\<lambda>l. l)\<rparr>"

interpretation hol_list: t_list hol_list "\<lambda>l. l"
  by unfold_locales (simp_all add: hol_list_def)

section \<open>Operations that take a closure\<close>

text \<open>
  The map server hands nested functions to the library. They read structures through pointers, so
  they may hit a dangling one: a closure is option-valued here, \<open>None\<close> when its run is undefined,
  and so is an operation that calls it. \<open>find_opt\<close> and \<open>remove_opt\<close> are what the library documents
  for the first element that satisfies a condition.
\<close>

fun find_opt :: "('a \<Rightarrow> bool option) \<Rightarrow> 'a list \<Rightarrow> 'a option option" where
  "find_opt P [] = Some None"
| "find_opt P (x # xs) = (case P x of None \<Rightarrow> None
     | Some b \<Rightarrow> if b then Some (Some x) else find_opt P xs)"

fun remove_opt :: "('a \<Rightarrow> bool option) \<Rightarrow> 'a list \<Rightarrow> ('a option \<times> 'a list) option" where
  "remove_opt P [] = Some (None, [])"
| "remove_opt P (x # xs) = (case P x of None \<Rightarrow> None
     | Some b \<Rightarrow> if b then Some (Some x, xs) else map_option (map_prod id (Cons x)) (remove_opt P xs))"

record ('l, 'a) t_list_more = "('l, 'a) t_list_ops" +
  list_remove :: "'l \<Rightarrow> nat \<Rightarrow> 'a option \<times> 'l"      \<comment> \<open>\<open>None\<close>: NULL, no such index\<close>
  list_find :: "'l \<Rightarrow> ('a \<Rightarrow> bool option) \<Rightarrow> 'a option option"
  list_remove_by_condition :: "'l \<Rightarrow> ('a \<Rightarrow> bool option) \<Rightarrow> ('a option \<times> 'l) option"
  list_sort :: "'l \<Rightarrow> ('a \<Rightarrow> 'a \<Rightarrow> bool option) \<Rightarrow> 'l option"
  list_add_all :: "'l \<Rightarrow> 'l \<Rightarrow> 'l"

locale t_list_more = t_list L elems
  for L :: "('l, 'a, 'z) t_list_more_scheme" and elems :: "'l \<Rightarrow> 'a list" +
  assumes remove_eq: "map_prod id elems (list_remove L l i)
      = (if i < length (elems l) then (Some (elems l ! i), take i (elems l) @ drop (Suc i) (elems l))
         else (None, elems l))"
    and find_eq: "list_find L l P = find_opt P (elems l)"
    and remove_by_eq: "map_option (map_prod id elems) (list_remove_by_condition L l P) = remove_opt P (elems l)"
    and sort_runs: "distinct (elems l) \<Longrightarrow>
        \<forall>x \<in> set (elems l). \<forall>y \<in> set (elems l). x \<noteq> y \<longrightarrow> cmp x y \<noteq> None \<Longrightarrow> list_sort L l cmp \<noteq> None"
    and sort_mset: "list_sort L l cmp = Some l' \<Longrightarrow> mset (elems l') = mset (elems l)"
    and sort_sorted: "list_sort L l cmp = Some l' \<Longrightarrow>
        \<forall>x \<in> set (elems l). \<forall>y \<in> set (elems l). cmp x y = Some ((key x :: int) < key y) \<Longrightarrow>
        sorted (map key (elems l'))"
    and add_all_eq: "elems (list_add_all L l l') = elems l @ elems l'"
begin

lemma remove_first_Nil: "elems l = [] \<Longrightarrow> \<exists>l'. list_remove L l 0 = (None, l') \<and> elems l' = []"
  using remove_eq [of l 0] by (cases "list_remove L l 0") simp

lemma remove_first_Cons: "elems l = x # xs \<Longrightarrow> \<exists>l'. list_remove L l 0 = (Some x, l') \<and> elems l' = xs"
  using remove_eq [of l 0] by (cases "list_remove L l 0") simp

lemma remove_by_Some:
  "remove_opt P (elems l) = Some (r, xs) \<Longrightarrow> \<exists>l'. list_remove_by_condition L l P = Some (r, l') \<and> elems l' = xs"
  using remove_by_eq [of l P] by (cases "list_remove_by_condition L l P") auto

end

fun insert_opt :: "('a \<Rightarrow> 'a \<Rightarrow> bool option) \<Rightarrow> 'a \<Rightarrow> 'a list \<Rightarrow> 'a list option" where
  "insert_opt cmp x [] = Some [x]"
| "insert_opt cmp x (y # ys) = (case cmp x y of None \<Rightarrow> None
     | Some b \<Rightarrow> if b then Some (x # y # ys) else map_option (Cons y) (insert_opt cmp x ys))"

fun sort_opt :: "('a \<Rightarrow> 'a \<Rightarrow> bool option) \<Rightarrow> 'a list \<Rightarrow> 'a list option" where
  "sort_opt cmp [] = Some []"
| "sort_opt cmp (x # xs) = Option.bind (sort_opt cmp xs) (insert_opt cmp x)"

lemma insert_opt_mset: "insert_opt cmp x xs = Some ys \<Longrightarrow> mset ys = add_mset x (mset xs)"
  by (induction cmp x xs arbitrary: ys rule: insert_opt.induct) (auto split: option.splits if_splits)

lemma sort_opt_mset: "sort_opt cmp xs = Some ys \<Longrightarrow> mset ys = mset xs"
  by (induction cmp xs arbitrary: ys rule: sort_opt.induct) (auto simp: bind_eq_Some_conv insert_opt_mset)

lemma insert_opt_runs: "\<forall>y \<in> set xs. cmp x y \<noteq> None \<Longrightarrow> insert_opt cmp x xs \<noteq> None"
  by (induction cmp x xs rule: insert_opt.induct) (auto split: option.splits)

lemma sort_opt_runs:
  "distinct xs \<Longrightarrow> \<forall>x \<in> set xs. \<forall>y \<in> set xs. x \<noteq> y \<longrightarrow> cmp x y \<noteq> None \<Longrightarrow> sort_opt cmp xs \<noteq> None"
proof (induction cmp xs rule: sort_opt.induct)
  case (2 cmp x xs)
  then obtain ys where ys: "sort_opt cmp xs = Some ys" by auto
  then have "set ys = set xs" by (metis sort_opt_mset set_mset_mset)
  then have "insert_opt cmp x ys \<noteq> None" using 2(2,3) by (intro insert_opt_runs) auto
  then show ?case using ys by simp
qed simp

lemma insert_opt_sorted:
  "insert_opt cmp x xs = Some ys \<Longrightarrow> \<forall>y \<in> set xs. cmp x y = Some ((key x :: int) < key y) \<Longrightarrow>
     sorted (map key xs) \<Longrightarrow> sorted (map key ys)"
proof (induction cmp x xs arbitrary: ys rule: insert_opt.induct)
  case (2 cmp x y zs)
  show ?case
  proof (cases "key x < key y")
    case True
    then show ?thesis using 2(2-4) by fastforce
  next
    case False
    then obtain ws where ws: "insert_opt cmp x zs = Some ws" "ys = y # ws" using 2(2,3) by auto
    have "sorted (map key ws)" using 2 ws False by simp
    moreover have "set ws = insert x (set zs)"
      using insert_opt_mset [OF ws(1)] by (metis set_mset_add_mset_insert set_mset_mset)
    ultimately show ?thesis using False 2(4) ws(2) by auto
  qed
qed simp

lemma sort_opt_sorted:
  "sort_opt cmp xs = Some ys \<Longrightarrow>
     \<forall>x \<in> set xs. \<forall>y \<in> set xs. cmp x y = Some ((key x :: int) < key y) \<Longrightarrow> sorted (map key ys)"
proof (induction cmp xs arbitrary: ys rule: sort_opt.induct)
  case (2 cmp x xs)
  then obtain zs where zs: "sort_opt cmp xs = Some zs" "insert_opt cmp x zs = Some ys"
    by (auto simp: bind_eq_Some_conv)
  have "set zs = set xs" using zs(1) by (metis sort_opt_mset set_mset_mset)
  then show ?case using 2 zs by (intro insert_opt_sorted [OF zs(2)]) auto
qed simp

definition hol_list_more :: "('a list, 'a) t_list_more" where
  "hol_list_more = t_list_ops.extend hol_list
     \<lparr>list_remove = (\<lambda>l i. if i < length l then (Some (l ! i), take i l @ drop (Suc i) l) else (None, l)),
      list_find = (\<lambda>l P. find_opt P l),
      list_remove_by_condition = (\<lambda>l P. remove_opt P l),
      list_sort = (\<lambda>l cmp. sort_opt cmp l),
      list_add_all = (\<lambda>l l'. l @ l')\<rparr>"

interpretation hol_list_more: t_list_more hol_list_more "\<lambda>l. l"
  by unfold_locales
    (simp_all add: hol_list_more_def t_list_ops.defs hol_list_def id_def map_prod.identity option.map_ident sort_opt_mset
       sort_opt_runs sort_opt_sorted del: not_None_eq)

section \<open>The two loops over a list\<close>

text \<open>
  \<open>primero\<close> is \<^verbatim>\<open>while (i < list_size(l) && acierto == 0)\<close> with a test on the element: the index and
  the first element from \<open>i\<close> on that passes. \<open>para_cada\<close> visits all of them.
\<close>

function primero :: "('l, 'a) t_list_more \<Rightarrow> 'l \<Rightarrow> ('a \<Rightarrow> bool option) \<Rightarrow> nat \<Rightarrow> (nat \<times> 'a) option option" where
  "primero L l P i =
     (if i < list_size L l then do {
        p \<leftarrow> list_get L l i;
        b \<leftarrow> P p;
        if b then Some (Some (i, p)) else primero L l P (Suc i)
      } else Some None)"
  by pat_completeness auto

termination primero
  by (relation "measure (\<lambda>(L, l, P, i). list_size L l - i)") auto

function para_cada :: "('l, 'a) t_list_more \<Rightarrow> 'l \<Rightarrow> ('a \<Rightarrow> 's \<Rightarrow> 's option) \<Rightarrow> nat \<Rightarrow> 's \<Rightarrow> 's option" where
  "para_cada L l f i s =
     (if i < list_size L l then do {
        p \<leftarrow> list_get L l i;
        s \<leftarrow> f p s;
        para_cada L l f (Suc i) s
      } else Some s)"
  by pat_completeness auto

termination para_cada
  by (relation "measure (\<lambda>(L, l, f, i, s). list_size L l - i)") auto

declare primero.simps [simp del] para_cada.simps [simp del]

text \<open>The element a search leaves in its variable: the one found, or the last one it looked at.\<close>

definition visitado :: "('l, 'a) t_list_more \<Rightarrow> 'l \<Rightarrow> (nat \<times> 'a) option \<Rightarrow> 'a option" where
  "visitado L l hit = (case hit of Some (_, p) \<Rightarrow> Some p | None \<Rightarrow>
     if list_size L l = 0 then None else list_get L l (list_size L l - 1))"

end
