(* ===== verification/Osada_Requests.thy ===== *)
theory Osada_Requests
  imports Osada_Table Commons
begin

text \<open>
  How a handler of \<^verbatim>\<open>pokedex-server.c\<close> takes its request from the socket and what it gives back:
  the bytes it writes, the new state and the input left. The receiving code at the head of each
  handler is one definition per message shape. \<open>on_request\<close> is the frame they share: a
  disconnection ends the handler without an answer, a message cut short leaves a buffer
  partly unset (\<open>None\<close>).
\<close>

definition recv_path :: "byte list \<Rightarrow> byte list received" where
  "recv_path inp = recv_bind (recv_u32 inp)
     (\<lambda>req_path_size rest. recv_bind (recv_waitall (unat req_path_size) rest)
        (\<lambda>path rest. Received (cstr path) rest))"

definition on_request :: "'a received \<Rightarrow> 'bm osada \<Rightarrow> ('a \<Rightarrow> (byte list \<times> 'bm osada) option)
    \<Rightarrow> (byte list \<times> 'bm osada \<times> byte list) option" where
  "on_request r s body =
     (case r of Closed rest \<Rightarrow> Some ([], s, rest)
      | Partial \<Rightarrow> None
      | Received x rest \<Rightarrow> map_option (\<lambda>(resp, s'). (resp, s', rest)) (body x))"

text \<open>A one-byte response.\<close>

definition resp_byte :: "int \<Rightarrow> byte list" where
  "resp_byte code = [word_of_int code]"

text \<open>\<^verbatim>\<open>'/'\<close> and \<^verbatim>\<open>','\<close>.\<close>

definition slash :: byte where "slash = 47"
definition comma :: byte where "comma = 44"

definition path_tokens :: "byte list \<Rightarrow> byte list list" where
  "path_tokens path = strtok slash path"

lemma recv_path_message:
  assumes "path \<noteq> []" and "length path < 2 ^ 32" and "0 \<notin> set path"
  shows "recv_path (le32 (of_nat (length path)) @ path @ rest) = Received path rest"
proof -
  have "unat (of_nat (length path) :: u32) = length path"
    using assms(2) by (simp add: unat_of_nat)
  then show ?thesis
    using assms by (simp add: recv_path_def cstr_id)
qed

lemma path_token: "t \<in> set (path_tokens (cstr p)) \<Longrightarrow> t \<noteq> [] \<and> slash \<notin> set t \<and> 0 \<notin> set t"
  using strtok_token [of t slash "cstr p"] zero_not_in_cstr [of p] by (auto simp: path_tokens_def)

section \<open>mkdir\<close>

fun mkdir_loop :: "'bm env \<Rightarrow> int \<Rightarrow> byte list list \<Rightarrow> 'bm osada \<Rightarrow> int \<times> 'bm osada" where
  "mkdir_loop E pb_pos [] s = (OSADA_ISDIR, s)"
| "mkdir_loop E pb_pos (dir # rest) s =
     (let (dir_pos, s1) = search_dir dir pb_pos LOCK_READ pb_pos s in
      if dir_pos = - OSADA_ENOTDIR then
        if length dir > OSADA_FILENAME_LENGTH then (OSADA_ENAMETOOLONG, unlock_unless_root pb_pos s1)
        else
          let (dir_pos, s2) = create_dir E dir pb_pos s1 in
          if pb_pos = - OSADA_ENOSPC then (OSADA_ENOSPC, unlock_unless_root pb_pos s2)
          else mkdir_loop E dir_pos rest (unlock_unless_root pb_pos s2)
      else mkdir_loop E dir_pos rest (unlock_unless_root pb_pos s1))"

definition osada_mkdir :: "'bm env \<Rightarrow> 'bm osada \<Rightarrow> byte list
    \<Rightarrow> (byte list \<times> 'bm osada \<times> byte list) option" where
  "osada_mkdir E s inp = on_request (recv_path inp) s (\<lambda>path.
     if path \<noteq> [slash] then
       let (code, s') = mkdir_loop E ROOT (path_tokens path) s in Some (resp_byte code, s')
     else Some (resp_byte OSADA_ISDIR, s))"

section \<open>readdir\<close>

text \<open>The path loop: \<open>Inl\<close> a response code, or \<open>Inr\<close> the position of the directory.\<close>

fun readdir_loop :: "int \<Rightarrow> byte list list \<Rightarrow> 'bm osada \<Rightarrow> (int + int) \<times> 'bm osada" where
  "readdir_loop pb_pos [] s = (Inr pb_pos, s)"
| "readdir_loop pb_pos (dir # rest) s =
     (let (dir_pos, s1) = search_dir dir pb_pos LOCK_READ pb_pos s in
      if dir_pos = - OSADA_ENOTDIR then (Inl OSADA_ENOTDIR, unlock_unless_root pb_pos s1)
      else readdir_loop dir_pos rest (unlock_unless_root pb_pos s1))"

function readdir_scan :: "('l, byte list) t_list_ops \<Rightarrow> ('k, int) t_list_ops \<Rightarrow> nat \<Rightarrow> int
    \<Rightarrow> 'l \<Rightarrow> 'k \<Rightarrow> 'bm osada \<Rightarrow> 'l \<times> 'k \<times> 'bm osada" where
  "readdir_scan L K file_block_number pb_pos node_list locked_blocks s =
     (if file_block_number \<le> FILE_BLOCKS_MOUNT - 1 then
        if int file_block_number \<noteq> pb_pos then
          let s1 = semaphore LOCK_READ (int file_block_number) s;
              f = ftable s1 ! file_block_number
          in if (state f = REGULAR \<or> state f = DIRECTORY) \<and> int (unat (parent_directory f)) = pb_pos
             then readdir_scan L K (Suc file_block_number) pb_pos
                    (list_add L node_list (entry_name f))
                    (list_add K locked_blocks (int file_block_number)) s1
             else readdir_scan L K (Suc file_block_number) pb_pos node_list locked_blocks
                    (semaphore UNLOCK (int file_block_number) s1)
        else readdir_scan L K (Suc file_block_number) pb_pos node_list locked_blocks s
      else (node_list, locked_blocks, s))"
  by pat_completeness auto
termination
  by (relation "measure (\<lambda>(_, _, i, _). FILE_BLOCKS_MOUNT - i)") (auto simp: FILE_BLOCKS_MOUNT_def)

declare readdir_scan.simps [simp del]

text \<open>The names, each followed by a comma: the loop that ends when \<^verbatim>\<open>list_get\<close> gives NULL.\<close>

partial_function (option) readdir_join :: "('l, byte list) t_list_ops \<Rightarrow> 'l \<Rightarrow> nat \<Rightarrow> byte list
    \<Rightarrow> byte list option" where
  "readdir_join L node_list index buffer =
     (case list_get L node_list index of
        None \<Rightarrow> Some buffer
      | Some node \<Rightarrow> readdir_join L node_list (Suc index) (buffer @ node @ [comma]))"

definition readdir_answer :: "('l, byte list) t_list_ops \<Rightarrow> ('k, int) t_list_ops \<Rightarrow> int \<Rightarrow> 'bm osada
    \<Rightarrow> (byte list \<times> 'bm osada) option" where
  "readdir_answer L K pb_pos s =
     (let (node_list, locked_blocks, s1) =
            readdir_scan L K 0 pb_pos (list_create L) (list_create K) s in
      if list_size L node_list > 0 then
        case readdir_join L node_list 0 [] of
          None \<Rightarrow> None
        | Some buffer \<Rightarrow>
            let s2 = fold (semaphore UNLOCK) (list_destroy_order K locked_blocks) s1;
                s3 = unlock_unless_root pb_pos s2;
                resp_size = length (cstr buffer) + 1
            in Some (resp_byte OSADA_NOTEMPTYDIR @ le32 (of_nat resp_size)
                       @ take resp_size (buffer @ [0]), s3)
      else Some (resp_byte OSADA_EMPTYDIR, unlock_unless_root pb_pos s1))"

definition osada_readdir :: "('l, byte list) t_list_ops \<Rightarrow> ('k, int) t_list_ops \<Rightarrow> 'bm osada \<Rightarrow> byte list
    \<Rightarrow> (byte list \<times> 'bm osada \<times> byte list) option" where
  "osada_readdir L K s inp = on_request (recv_path inp) s (\<lambda>path.
     if path \<noteq> [slash] then
       case readdir_loop ROOT (path_tokens path) s of
         (Inl code, s1) \<Rightarrow> Some (resp_byte code, s1)
       | (Inr pb_pos, s1) \<Rightarrow> readdir_answer L K pb_pos s1
     else readdir_answer L K ROOT s)"

section \<open>getattr\<close>

text \<open>The position found, \<open>None\<close> while the variable \<^verbatim>\<open>node_pos\<close> is not set.\<close>

fun getattr_loop :: "int \<Rightarrow> int option \<Rightarrow> byte list list \<Rightarrow> 'bm osada
    \<Rightarrow> (int + int option) \<times> 'bm osada" where
  "getattr_loop pb_pos node_pos [] s = (Inr node_pos, s)"
| "getattr_loop pb_pos node_pos (node # rest) s =
     (let (pos, s1) = search_node node pb_pos LOCK_READ pb_pos s in
      if pos = - OSADA_ENOENT then (Inl OSADA_ENOENT, unlock_unless_root pb_pos s1)
      else getattr_loop pos (Some pos) rest (unlock_unless_root pb_pos s1))"

definition getattr_answer :: "int \<Rightarrow> 'bm osada \<Rightarrow> (byte list \<times> 'bm osada) option" where
  "getattr_answer node_pos s =
     (let f = ftable s ! nat node_pos in
      case state f of
        DIRECTORY \<Rightarrow> Some (resp_byte OSADA_ISDIR @ le32 0 @ le32 (lastmod f), semaphore UNLOCK node_pos s)
      | REGULAR \<Rightarrow> Some (resp_byte OSADA_ISREG @ le32 (file_size f) @ le32 (lastmod f),
                         semaphore UNLOCK node_pos s)
      | DELETED \<Rightarrow> None)"

definition osada_getattr :: "'bm osada \<Rightarrow> byte list \<Rightarrow> (byte list \<times> 'bm osada \<times> byte list) option" where
  "osada_getattr s inp = on_request (recv_path inp) s (\<lambda>path.
     case getattr_loop ROOT None (path_tokens path) s of
       (Inl code, s1) \<Rightarrow> Some (resp_byte code, s1)
     | (Inr None, s1) \<Rightarrow> None
     | (Inr (Some node_pos), s1) \<Rightarrow> getattr_answer node_pos s1)"

section \<open>mknod\<close>

fun mknod_loop :: "'bm env \<Rightarrow> int \<Rightarrow> byte list list \<Rightarrow> 'bm osada \<Rightarrow> int \<times> 'bm osada" where
  "mknod_loop E pb_pos [] s = (OSADA_ISREG, s)"
| "mknod_loop E pb_pos (node # rest) s =
     (let (node_pos, s1) = search_dir node pb_pos LOCK_READ pb_pos s in
      if node_pos = - OSADA_ENOTDIR then
        case rest of
          [] \<Rightarrow>
            if length node > OSADA_FILENAME_LENGTH
            then (OSADA_ENAMETOOLONG, unlock_unless_root pb_pos s1)
            else
              let (node_pos, s2) = create_node E node pb_pos s1;
                  s3 = unlock_unless_root pb_pos s2
              in if node_pos = - OSADA_ENOSPC then (OSADA_ENOSPC, s3) else (OSADA_ISREG, s3)
        | _ # _ \<Rightarrow> (OSADA_ENOTDIR, unlock_unless_root pb_pos s1)
      else mknod_loop E node_pos rest (unlock_unless_root pb_pos s1))"

definition osada_mknod :: "'bm env \<Rightarrow> 'bm osada \<Rightarrow> byte list
    \<Rightarrow> (byte list \<times> 'bm osada \<times> byte list) option" where
  "osada_mknod E s inp = on_request (recv_path inp) s (\<lambda>path.
     let (code, s') = mknod_loop E ROOT (path_tokens path) s in Some (resp_byte code, s'))"

section \<open>rmdir\<close>

fun rmdir_loop :: "int \<Rightarrow> int option \<Rightarrow> byte list list \<Rightarrow> 'bm osada
    \<Rightarrow> (int + int option) \<times> 'bm osada" where
  "rmdir_loop pb_pos dir_pos [] s = (Inr dir_pos, s)"
| "rmdir_loop pb_pos dir_pos (dir # rest) s =
     (let lock_type = (if rest = [] then LOCK_WRITE else LOCK_READ);
          (pos, s1) = search_dir dir pb_pos lock_type pb_pos s in
      if pos = - OSADA_ENOTDIR then (Inl OSADA_ENOTDIR, unlock_unless_root pb_pos s1)
      else rmdir_loop pos (Some pos) rest (unlock_unless_root pb_pos s1))"

definition set_state :: "nat \<Rightarrow> osada_file_state \<Rightarrow> 'bm osada \<Rightarrow> 'bm osada" where
  "set_state i st s = write_entry i ((ftable s ! i)\<lparr>state := st\<rparr>) s"

definition osada_rmdir :: "'bm osada \<Rightarrow> byte list \<Rightarrow> (byte list \<times> 'bm osada \<times> byte list) option" where
  "osada_rmdir s inp = on_request (recv_path inp) s (\<lambda>path.
     if path \<noteq> [slash] then
       case rmdir_loop ROOT None (path_tokens path) s of
         (Inl code, s1) \<Rightarrow> Some (resp_byte code, s1)
       | (Inr None, s1) \<Rightarrow> None
       | (Inr (Some dir_pos), s1) \<Rightarrow>
           Some (resp_byte OSADA_SEXE, semaphore UNLOCK dir_pos (set_state (nat dir_pos) DELETED s1))
     else Some (resp_byte OSADA_SEXE, s))"

section \<open>rename\<close>

definition recv_rename :: "byte list \<Rightarrow> (byte list \<times> byte list) received" where
  "recv_rename inp = recv_bind (recv_path inp) (\<lambda>from rest.
     recv_bind (recv_path rest) (\<lambda>to rest. Received (from, to) rest))"

fun rename_from_loop :: "int \<Rightarrow> int option \<Rightarrow> byte list list \<Rightarrow> 'bm osada
    \<Rightarrow> (int + int option) \<times> 'bm osada" where
  "rename_from_loop pb_pos node_pos [] s = (Inr node_pos, s)"
| "rename_from_loop pb_pos node_pos (node # rest) s =
     (let (pos, s1) = search_dir node pb_pos LOCK_READ pb_pos s in
      if pos = - OSADA_ENOTDIR then
        case rest of
          [] \<Rightarrow>
            let (pos, s2) = search_node node pb_pos LOCK_WRITE pb_pos s1;
                s3 = unlock_unless_root pb_pos s2
            in if pos = - OSADA_ENOENT then (Inl OSADA_ENOENT, s3) else (Inr (Some pos), s3)
        | _ # _ \<Rightarrow> (Inl OSADA_ENOENT, unlock_unless_root pb_pos s1)
      else rename_from_loop pos (Some pos) rest (unlock_unless_root pb_pos s1))"

definition rename_entry :: "nat \<Rightarrow> int \<Rightarrow> byte list \<Rightarrow> 'bm osada \<Rightarrow> 'bm osada" where
  "rename_entry i pb_pos name s =
     (let f = ftable s ! i in
      write_entry i (f\<lparr>parent_directory := word_of_int pb_pos, fname := fname_after (fname f) name\<rparr>) s)"

text \<open>
  The loop on the destination. Its result is the response; the loop that runs to the end of
  the path, where every component is a directory, sends none.
\<close>

fun rename_to_loop :: "'bm env \<Rightarrow> int \<Rightarrow> int \<Rightarrow> byte list list \<Rightarrow> 'bm osada
    \<Rightarrow> (byte list \<times> 'bm osada) option" where
  "rename_to_loop E node_pos_from pb_pos [] s = Some ([], s)"
| "rename_to_loop E node_pos_from pb_pos (node # rest) s =
     (let (pos, s1) = search_dir node pb_pos LOCK_READ node_pos_from s in
      if pos = - OSADA_ENOTDIR then
        case rest of
          [] \<Rightarrow>
            let (pos, s2) = search_node node pb_pos LOCK_READ node_pos_from s1;
                s3 = unlock_unless_root pb_pos s2
            in if pos = - OSADA_ENOENT then
                 if length node > OSADA_FILENAME_LENGTH
                 then Some (resp_byte OSADA_ENAMETOOLONG, semaphore UNLOCK node_pos_from s3)
                 else Some (resp_byte OSADA_SEXE, semaphore UNLOCK node_pos_from
                              (rename_entry (nat node_pos_from) pb_pos node s3))
               else
                 let unlock_both = (\<lambda>s. semaphore UNLOCK pos (semaphore UNLOCK node_pos_from s));
                     i = nat node_pos_from;
                     f = ftable s3 ! i
                 in (case state (ftable s3 ! nat pos) of
                       DIRECTORY \<Rightarrow> Some (resp_byte OSADA_SEXE, unlock_both
                         (write_entry i (f\<lparr>parent_directory := word_of_int pb_pos, lastmod := now E\<rparr>) s3))
                     | REGULAR \<Rightarrow> Some (resp_byte OSADA_ISREG, unlock_both s3)
                     | DELETED \<Rightarrow> None)
        | _ # _ \<Rightarrow> Some (resp_byte OSADA_ENOENT, unlock_unless_root pb_pos s1)
      else rename_to_loop E node_pos_from pos rest (unlock_unless_root pb_pos s1))"

definition osada_rename :: "'bm env \<Rightarrow> 'bm osada \<Rightarrow> byte list
    \<Rightarrow> (byte list \<times> 'bm osada \<times> byte list) option" where
  "osada_rename E s inp = on_request (recv_rename inp) s (\<lambda>(from, to).
     case rename_from_loop ROOT None (path_tokens from) s of
       (Inl code, s1) \<Rightarrow> Some (resp_byte code, s1)
     | (Inr None, s1) \<Rightarrow>
         \<comment> \<open>\<^verbatim>\<open>node_pos_from\<close> is read unset as soon as the destination has a component\<close>
         if path_tokens to = [] then Some ([], s1) else None
     | (Inr (Some node_pos_from), s1) \<Rightarrow>
         rename_to_loop E node_pos_from ROOT (path_tokens to) s1)"

end
