(* ===== verification/Osada_Files.thy ===== *)
theory Osada_Files
  imports Osada_Blocks Osada_Requests "HOL-Library.Signed_Division"
begin

text \<open>
  The handlers of \<^verbatim>\<open>pokedex-server.c\<close> that work on the contents of a regular file:
  \<^verbatim>\<open>osada_write\<close>, \<^verbatim>\<open>osada_read\<close>, \<^verbatim>\<open>osada_truncate\<close> and \<^verbatim>\<open>osada_unlink\<close>. Each is split as the code is:
  the request, the search of the file (\<open>resolve_file\<close>, the same loop in \<^verbatim>\<open>osada_write\<close>,
  \<^verbatim>\<open>osada_truncate\<close> and \<^verbatim>\<open>osada_unlink\<close>), the work on the blocks, the response.
\<close>

section \<open>Requests\<close>

definition recv_write :: "byte list \<Rightarrow> (byte list \<times> u32 \<times> u32 \<times> byte list) received" where
  "recv_write inp = recv_bind (recv_path inp) (\<lambda>path rest.
     recv_bind (recv_u32 rest) (\<lambda>sz rest.
     recv_bind (recv_u32 rest) (\<lambda>offset rest.
     recv_bind (recv_waitall (unat sz) rest) (\<lambda>buffer rest.
       Received (path, sz, offset, buffer) rest))))"

definition recv_read :: "byte list \<Rightarrow> (byte list \<times> u32 \<times> u32) received" where
  "recv_read inp = recv_bind (recv_path inp) (\<lambda>path rest.
     recv_bind (recv_u32 rest) (\<lambda>sz rest.
     recv_bind (recv_u32 rest) (\<lambda>offset rest. Received (path, sz, offset) rest)))"

definition recv_truncate :: "byte list \<Rightarrow> (byte list \<times> u32) received" where
  "recv_truncate inp = recv_bind (recv_path inp) (\<lambda>path rest.
     recv_bind (recv_u32 rest) (\<lambda>new_size rest. Received (path, new_size) rest))"

section \<open>Finding the file\<close>

text \<open>A response code, or \<^verbatim>\<open>file_pos\<close> with its lock held for writing; \<open>None\<close> while it is not set.\<close>

fun resolve_file :: "int \<Rightarrow> byte list list \<Rightarrow> 'bm osada \<Rightarrow> (int + int option) \<times> 'bm osada" where
  "resolve_file pb_pos [] s = (Inr None, s)"
| "resolve_file pb_pos (node # rest) s =
     (let (dir_pos, s1) = search_dir node pb_pos LOCK_READ pb_pos s in
      if dir_pos = - OSADA_ENOTDIR then
        case rest of
          [] \<Rightarrow>
            let (file_pos, s2) = search_node node pb_pos LOCK_WRITE pb_pos s1;
                s3 = unlock_unless_root pb_pos s2
            in if file_pos = - OSADA_ENOENT then (Inl OSADA_ENOENT, s3) else (Inr (Some file_pos), s3)
        | _ # _ \<Rightarrow> (Inl OSADA_ENOENT, unlock_unless_root pb_pos s1)
      else resolve_file dir_pos rest (unlock_unless_root pb_pos s1))"

definition set_size :: "nat \<Rightarrow> u32 \<Rightarrow> 'bm osada \<Rightarrow> 'bm osada" where
  "set_size i sz s = write_entry i ((ftable s ! i)\<lparr>file_size := sz\<rparr>) s"

definition set_lastmod :: "nat \<Rightarrow> u32 \<Rightarrow> 'bm osada \<Rightarrow> 'bm osada" where
  "set_lastmod i t s = write_entry i ((ftable s ! i)\<lparr>lastmod := t\<rparr>) s"

text \<open>The blocks a size needs, and the release of all the blocks after the first \<open>blocks\<close>.\<close>

definition necessary_blocks :: "int \<Rightarrow> int" where
  "necessary_blocks sz =
     (let blocks = sz sdiv int OSADA_BLOCK_SIZE in
      if sz > 0 \<and> (blocks = 0 \<or> sz smod int OSADA_BLOCK_SIZE \<ge> 1) then blocks + 1 else blocks)"

definition release_after :: "'bm env \<Rightarrow> nat \<Rightarrow> int \<Rightarrow> 'bm osada \<Rightarrow> 'bm osada option" where
  "release_after E i blocks s =
     do {
       aux_map_ptr \<leftarrow> skip_blocks (nat blocks) (First_block i) s;
       s1 \<leftarrow> release_from E aux_map_ptr (mutex_lock s);
       Some (mutex_unlock s1)
     }"

section \<open>write\<close>

text \<open>Making room: \<open>False\<close> is the response OSADA_ENOSPC.\<close>

definition write_first_block :: "'bm env \<Rightarrow> nat \<Rightarrow> int \<Rightarrow> 'bm osada \<Rightarrow> (bool \<times> 'bm osada) option" where
  "write_first_block E i fsize s =
     (if first_block (ftable s ! i) = END_OF_FILE then
        do {
          (free_db, s1) \<leftarrow> alloc_first E (BM_DATA_0 (geo s)) i (mutex_lock s);
          let s2 = mutex_unlock s1;
          Some (if free_db > BM_DATA_1 (geo s) then (False, set_size i (of_cint fsize) s2) else (True, s2))
        }
      else Some (True, s))"

definition write_expand :: "'bm env \<Rightarrow> nat \<Rightarrow> u32 \<Rightarrow> u32 \<Rightarrow> 'bm osada \<Rightarrow> (bool \<times> 'bm osada) option" where
  "write_expand E i sz offset s =
     (let fsize = to_int (file_size (ftable s ! i));
          bytes_to_expand = to_int ((offset + sz) - of_cint fsize);
          s1 = set_size i (of_cint (fsize + bytes_to_expand)) s
      in do {
        (ok, s2) \<leftarrow> write_first_block E i fsize s1;
        if \<not> ok then Some (False, s2)
        else do {
          aux_map_ptr \<leftarrow> follow (First_block i) s2;
          (aux_map_ptr, movs) \<leftarrow> walk_to_end aux_map_ptr 0 s2;
          let last_free_byte_pos = fsize - int (movs * OSADA_BLOCK_SIZE);
          let bytes_availables_in_block = int OSADA_BLOCK_SIZE - last_free_byte_pos;
          (free_db, s3) \<leftarrow> add_blocks E (int OSADA_BLOCK_SIZE) (bytes_to_expand - bytes_availables_in_block)
                             (BM_DATA_0 (geo s)) aux_map_ptr (mutex_lock s2);
          let s4 = mutex_unlock s3;
          if free_db > BM_DATA_1 (geo s) then do {
            s5 \<leftarrow> release_after E i (necessary_blocks fsize) (set_size i (of_cint fsize) s4);
            Some (False, s5)
          } else Some (True, s4)
        }
      })"

text \<open>
  The copy loop. \<open>db\<close> is the block of \<^verbatim>\<open>aux_data_ptr\<close>; at the head of the loop
  \<^verbatim>\<open>bytes_availables_in_block\<close> is always OSADA_BLOCK_SIZE - offset.
\<close>

partial_function (option) write_loop :: "cell \<Rightarrow> nat \<Rightarrow> int \<Rightarrow> nat \<Rightarrow> nat \<Rightarrow> byte list \<Rightarrow> 'bm osada
    \<Rightarrow> 'bm osada option" where
  "write_loop aux_map_ptr db bytes_to_write offset buff_pos buffer s =
     (if bytes_to_write > 0 then
        let bytes_availables_in_block = int OSADA_BLOCK_SIZE - int offset;
            bytes_writing = (if bytes_to_write \<ge> bytes_availables_in_block
                             then bytes_availables_in_block else bytes_to_write)
        in do {
          s1 \<leftarrow> write_block db offset (take (nat bytes_writing) (drop buff_pos buffer)) s;
          b \<leftarrow> load aux_map_ptr s1;
          b' \<leftarrow> load (Map_entry (unat b)) s1;
          if b' = END_OF_FILE then Some s1
          else write_loop (Map_entry (unat b)) (unat b') (bytes_to_write - bytes_writing) 0
                 (buff_pos + nat bytes_writing) buffer s1
        }
      else Some s)"

definition write_bytes :: "nat \<Rightarrow> u32 \<Rightarrow> u32 \<Rightarrow> byte list \<Rightarrow> 'bm osada \<Rightarrow> 'bm osada option" where
  "write_bytes i sz offset buffer s =
     (let movs = unat offset div OSADA_BLOCK_SIZE in
      do {
        aux_map_ptr \<leftarrow> skip_blocks movs (First_block i) s;
        db \<leftarrow> load aux_map_ptr s;
        write_loop aux_map_ptr (unat db) (to_int sz) (unat offset - OSADA_BLOCK_SIZE * movs) 0 buffer s
      })"

definition write_node :: "'bm env \<Rightarrow> nat \<Rightarrow> u32 \<Rightarrow> u32 \<Rightarrow> byte list \<Rightarrow> 'bm osada
    \<Rightarrow> (int \<times> 'bm osada) option" where
  "write_node E i sz offset buffer s =
     (let s1 = set_lastmod i (now E) s;
          fsize = to_int (file_size (ftable s1 ! i))
      in do {
        (ok, s2) \<leftarrow> (if offset + sz > of_cint fsize then write_expand E i sz offset s1
                    else Some (True, s1));
        if ok then do {
          s3 \<leftarrow> write_bytes i sz offset buffer s2;
          Some (OSADA_SEXE, s3)
        } else Some (OSADA_ENOSPC, s2)
      })"

text \<open>What the three handlers on a resolved file share: the work, the unlock, the response byte.\<close>

definition on_file :: "byte list \<Rightarrow> 'bm osada \<Rightarrow> (nat \<Rightarrow> 'bm osada \<Rightarrow> (int \<times> 'bm osada) option)
    \<Rightarrow> (byte list \<times> 'bm osada) option" where
  "on_file path s body =
     (case resolve_file ROOT (path_tokens path) s of
        (Inl code, s1) \<Rightarrow> Some (resp_byte code, s1)
      | (Inr None, s1) \<Rightarrow> None
      | (Inr (Some file_pos), s1) \<Rightarrow>
          do {
            (code, s2) \<leftarrow> body (nat file_pos) s1;
            Some (resp_byte code, semaphore UNLOCK file_pos s2)
          })"

definition osada_write :: "'bm env \<Rightarrow> 'bm osada \<Rightarrow> byte list
    \<Rightarrow> (byte list \<times> 'bm osada \<times> byte list) option" where
  "osada_write E s inp = on_request (recv_write inp) s (\<lambda>(path, sz, offset, buffer).
     on_file path s (\<lambda>i. write_node E i sz offset buffer))"

section \<open>read\<close>

text \<open>The loop after the first block: what is still to be read, and the buffer.\<close>

function read_loop :: "cell \<Rightarrow> int \<Rightarrow> byte list \<Rightarrow> 'bm osada \<Rightarrow> (int \<times> byte list) option" where
  "read_loop aux_map_ptr bytes_to_read buff s =
     do {
       b \<leftarrow> load aux_map_ptr s;
       if b \<noteq> END_OF_FILE \<and> bytes_to_read > 0 then
         let bytes_reading = (if bytes_to_read \<ge> int OSADA_BLOCK_SIZE then int OSADA_BLOCK_SIZE
                              else bytes_to_read)
         in do {
           chunk \<leftarrow> read_block (unat b) 0 (nat bytes_reading) s;
           read_loop (Map_entry (unat b)) (bytes_to_read - bytes_reading) (buff @ chunk) s
         }
       else Some (bytes_to_read, buff)
     }"
  by pat_completeness auto
termination
  by (relation "measure (\<lambda>(_, k, _). nat k)") auto

declare read_loop.simps [simp del]

text \<open>
  The bytes sent back. \<open>None\<close> where the code sends bytes of the buffer it never set (the chain is
  shorter than the sz) or builds a response of a negative length.
\<close>

definition read_node :: "nat \<Rightarrow> u32 \<Rightarrow> u32 \<Rightarrow> 'bm osada \<Rightarrow> byte list option" where
  "read_node i sz offset s =
     (let fsize = to_int (file_size (ftable s ! i)) in
      if offset < of_cint (fsize - 1) then
        let sz = (if offset + sz > of_cint fsize then of_cint fsize - offset else sz);
            movs = unat offset div OSADA_BLOCK_SIZE;
            off = unat offset - OSADA_BLOCK_SIZE * movs;
            bytes_reading = (if OSADA_BLOCK_SIZE - off \<ge> unat sz then unat sz
                             else OSADA_BLOCK_SIZE - off)
        in do {
          aux_map_ptr \<leftarrow> skip_blocks movs (First_block i) s;
          b \<leftarrow> load aux_map_ptr s;
          chunk \<leftarrow> read_block (unat b) off bytes_reading s;
          (left, buff) \<leftarrow> read_loop (Map_entry (unat b)) (to_int (sz - of_nat bytes_reading)) chunk s;
          if to_int sz < 0 \<or> left > 0 then None else Some buff
        }
      else Some [])"

definition osada_read :: "'bm osada \<Rightarrow> byte list \<Rightarrow> (byte list \<times> 'bm osada \<times> byte list) option" where
  "osada_read s inp = on_request (recv_read inp) s (\<lambda>(path, sz, offset).
     case getattr_loop ROOT None (path_tokens path) s of
       (Inl code, s1) \<Rightarrow> Some (resp_byte code, s1)
     | (Inr None, s1) \<Rightarrow> None
     | (Inr (Some node_pos), s1) \<Rightarrow>
         do {
           buff \<leftarrow> read_node (nat node_pos) sz offset s1;
           Some (resp_byte OSADA_SEXE @ le32 (of_nat (length buff)) @ buff, semaphore UNLOCK node_pos s1)
         })"

section \<open>truncate and unlink\<close>

definition truncate_grow :: "'bm env \<Rightarrow> nat \<Rightarrow> int \<Rightarrow> int \<Rightarrow> cell \<Rightarrow> 'bm osada
    \<Rightarrow> (int \<times> 'bm osada) option" where
  "truncate_grow E i old_size blocks aux_map_ptr s =
     do {
       (free_db, s1) \<leftarrow> add_blocks E 1 blocks (BM_DATA_0 (geo s)) aux_map_ptr (mutex_lock s);
       let s2 = mutex_unlock s1;
       if free_db > BM_DATA_1 (geo s) then do {
         s3 \<leftarrow> release_after E i (necessary_blocks old_size) (set_size i (of_cint old_size) s2);
         Some (OSADA_ENOSPC, s3)
       } else Some (OSADA_SEXE, s2)
     }"

definition truncate_node :: "'bm env \<Rightarrow> nat \<Rightarrow> u32 \<Rightarrow> 'bm osada \<Rightarrow> (int \<times> 'bm osada) option" where
  "truncate_node E i new_size s =
     (let old_size = to_int (file_size (ftable s ! i));
          s1 = set_size i new_size s
      in if new_size \<noteq> of_cint old_size then do {
           (aux_map_ptr, current_blocks) \<leftarrow> walk_to_end (First_block i) 0 s1;
           let blocks = necessary_blocks (uint new_size);
           if new_size > of_cint old_size \<and> blocks > int current_blocks
           then truncate_grow E i old_size (blocks - int current_blocks) aux_map_ptr s1
           else if new_size < of_cint old_size \<and> blocks < int current_blocks then do {
             s2 \<leftarrow> release_after E i blocks s1;
             Some (OSADA_SEXE, s2)
           } else Some (OSADA_SEXE, s1)
         } else Some (OSADA_SEXE, s1))"

definition osada_truncate :: "'bm env \<Rightarrow> 'bm osada \<Rightarrow> byte list
    \<Rightarrow> (byte list \<times> 'bm osada \<times> byte list) option" where
  "osada_truncate E s inp = on_request (recv_truncate inp) s (\<lambda>(path, new_size).
     on_file path s (\<lambda>i. truncate_node E i new_size))"

definition unlink_node :: "'bm env \<Rightarrow> nat \<Rightarrow> 'bm osada \<Rightarrow> (int \<times> 'bm osada) option" where
  "unlink_node E i s =
     do {
       s1 \<leftarrow> release_from E (First_block i) (mutex_lock s);
       Some (OSADA_SEXE, set_state i DELETED (mutex_unlock s1))
     }"

definition osada_unlink :: "'bm env \<Rightarrow> 'bm osada \<Rightarrow> byte list
    \<Rightarrow> (byte list \<times> 'bm osada \<times> byte list) option" where
  "osada_unlink E s inp = on_request (recv_path inp) s (\<lambda>path.
     on_file path s (unlink_node E))"

end
