(* ===== verification/Osada_Invariant.thy ===== *)
theory Osada_Invariant
  imports Osada_Files
begin

text \<open>
  The consistency of an OSADA image: every regular file owns a chain of as many data blocks as
  its size needs, chains share no block, and the busy bits are exactly the blocks of the chains
  and a fixed set \<open>R\<close> of bits that were marked from the start (no block is lost). \<open>C i\<close> is the
  chain of entry \<open>i\<close>. The lemmas say what growing and releasing a chain do to an image in
  these terms; one of them, \<open>fs_inv_update\<close>, carries every operation on a file.
\<close>

definition nblocks :: "nat \<Rightarrow> nat" where
  "nblocks k = (k + 63) div 64"

definition fs_inv :: "'bm env \<Rightarrow> ('bm \<Rightarrow> nat) \<Rightarrow> nat \<Rightarrow> nat set \<Rightarrow> (nat \<Rightarrow> nat list) \<Rightarrow> 'bm osada \<Rightarrow> bool" where
  "fs_inv E nbits n R C s \<longleftrightarrow>
     data_range nbits n s \<and> blocks_ok n s \<and> length (ftable s) = FILE_BLOCKS_MOUNT
     \<and> (\<forall>i < FILE_BLOCKS_MOUNT. state (ftable s ! i) = REGULAR \<longrightarrow>
          chain_at s (First_block i) (C i) \<and> length (C i) = nblocks (unat (file_size (ftable s ! i))))
     \<and> (\<forall>i. i < FILE_BLOCKS_MOUNT \<and> state (ftable s ! i) = REGULAR \<or> C i = [])
     \<and> (\<forall>i. \<forall>b \<in> set (C i). b < n \<and> b \<notin> R)
     \<and> (\<forall>i j. i \<noteq> j \<longrightarrow> set (C i) \<inter> set (C j) = {})
     \<and> (\<forall>b < n. its_busy E s b \<longleftrightarrow> b \<in> R \<or> (\<exists>i. b \<in> set (C i)))"

text \<open>The contents of a file.\<close>

definition file_bytes :: "(nat \<Rightarrow> nat list) \<Rightarrow> nat \<Rightarrow> 'bm osada \<Rightarrow> byte list" where
  "file_bytes C i s = take (unat (file_size (ftable s ! i))) (chain_data s (C i))"

section \<open>Sizes\<close>

lemma nblocks_bounds: "64 * nblocks k \<le> k + 63" "k \<le> 64 * nblocks k"
proof -
  have "k + 63 = 64 * nblocks k + (k + 63) mod 64" unfolding nblocks_def by simp
  moreover have "(k + 63) mod 64 < 64" by simp
  ultimately show "64 * nblocks k \<le> k + 63" and "k \<le> 64 * nblocks k" by linarith+
qed

lemma nblocks_le_iff: "nblocks k \<le> m \<longleftrightarrow> k \<le> 64 * m"
proof
  assume "k \<le> 64 * m"
  then show "nblocks k \<le> m" using nblocks_bounds(1) [of k] by simp
qed (use nblocks_bounds(2) [of k] in linarith)

lemma nblocks_0 [simp]: "nblocks 0 = 0"
  by (simp add: nblocks_def)

lemma nblocks_eq_0 [simp]: "nblocks k = 0 \<longleftrightarrow> k = 0"
  using nblocks_le_iff [of k 0] by simp

lemma nblocks_pos [simp]: "0 < nblocks k \<longleftrightarrow> 0 < k"
  using nblocks_eq_0 [of k] by linarith

lemma nblocks_mono: "j \<le> k \<Longrightarrow> nblocks j \<le> nblocks k"
  using nblocks_le_iff [of j "nblocks k"] nblocks_bounds(2) [of k] by simp

lemma nblocks_div: "nblocks k = (if k mod 64 \<ge> 1 then k div 64 + 1 else k div 64)"
proof (rule antisym)
  have k: "k = 64 * (k div 64) + k mod 64" "k mod 64 < 64" by simp_all
  show "nblocks k \<le> (if k mod 64 \<ge> 1 then k div 64 + 1 else k div 64)"
    unfolding nblocks_le_iff using k by (cases "k mod 64") simp_all
  define q r where "q = k div 64" and "r = k mod 64"
  have "64 * q + r \<le> 64 * nblocks k" using k(1) nblocks_bounds(2) [of k] by (simp add: q_def r_def)
  then have "(if r \<ge> 1 then q + 1 else q) \<le> nblocks k" by (cases "r \<ge> 1") simp_all
  then show "(if k mod 64 \<ge> 1 then k div 64 + 1 else k div 64) \<le> nblocks k"
    by (simp only: q_def r_def)
qed

lemma necessary_blocks_nat: "necessary_blocks (int k) = int (nblocks k)"
proof -
  have "int k sdiv 64 = int (k div 64)" and "int k smod 64 = int (k mod 64)"
    by (cases "k = 0"; simp add: signed_divide_int_def signed_modulo_int_def zdiv_int zmod_int
        minus_div_mult_eq_mod)+
  moreover have "k mod 64 \<ge> 1" if "k > 0" "k div 64 = 0"
    using that by (metis One_nat_def Suc_leI div_less_iff_less_mult mod_less div_eq_0_iff zero_neq_numeral)
  moreover have "k > 0" if "k mod 64 \<ge> 1" using that by (cases k) simp_all
  ultimately show ?thesis
    by (auto simp: necessary_blocks_def Let_def nblocks_div)
qed

lemma rounds_bytes: "rounds 64 (int k - int (64 * m)) = nblocks k - m"
proof -
  have "(int k - int (64 * m) + 64 - 1) div 64 = ((int k + 63) + (- int m) * 64) div 64"
    by (simp add: algebra_simps)
  also have "\<dots> = - int m + (int k + 63) div 64" by (rule div_mult_self1) simp
  also have "\<dots> = int (nblocks k) - int m" by (simp add: nblocks_def zdiv_int)
  finally show ?thesis by (simp add: rounds_def nat_minus_as_int)
qed

lemma rounds_blocks [simp]: "rounds 1 (int k - int m) = k - m"
  by (simp add: rounds_def)

section \<open>Cells and entries\<close>

lemma load_entry [simp, frame_simps]:
  "load d (set_size i v s) = load d s" "load d (set_lastmod i t s) = load d s"
  "load d (set_state i st s) = load d s"
  "load d (mutex_lock s) = load d s" "load d (mutex_unlock s) = load d s"
  "load d (semaphore a p s) = load d s"
  by (cases d; cases "i < length (ftable s)";
      auto simp: set_size_def set_lastmod_def set_state_def write_entry_def nth_list_update
        mutex_lock_def mutex_unlock_def semaphore_def)+

lemma chain_at_entry [simp, frame_simps]:
  "chain_at (set_size i v s) c bs = chain_at s c bs"
  "chain_at (set_lastmod i t s) c bs = chain_at s c bs"
  "chain_at (set_state i st s) c bs = chain_at s c bs"
  "chain_at (mutex_lock s) c bs = chain_at s c bs"
  "chain_at (mutex_unlock s) c bs = chain_at s c bs"
  "chain_at (semaphore a p s) c bs = chain_at s c bs"
  by (rule chain_frame, simp)+

lemma mutex_simps [simp, frame_simps]:
  "ftable (mutex_lock s) = ftable s" "maptab (mutex_lock s) = maptab s" "bmap (mutex_lock s) = bmap s"
  "dblocks (mutex_lock s) = dblocks s" "geo (mutex_lock s) = geo s"
  "its_busy E (mutex_lock s) b = its_busy E s b" "trace (mutex_lock s) = trace s @ [Mutex_lock]"
  "ftable (mutex_unlock s) = ftable s" "maptab (mutex_unlock s) = maptab s"
  "bmap (mutex_unlock s) = bmap s"
  "dblocks (mutex_unlock s) = dblocks s" "geo (mutex_unlock s) = geo s"
  "its_busy E (mutex_unlock s) b = its_busy E s b" "trace (mutex_unlock s) = trace s @ [Mutex_unlock]"
  by (simp_all add: mutex_lock_def mutex_unlock_def its_busy_def)

lemma entry_simps [simp, frame_simps]:
  "maptab (set_size i v s) = maptab s" "bmap (set_size i v s) = bmap s"
  "dblocks (set_size i v s) = dblocks s" "geo (set_size i v s) = geo s"
  "trace (set_size i v s) = trace s" "its_busy E (set_size i v s) b = its_busy E s b"
  "length (ftable (set_size i v s)) = length (ftable s)"
  "maptab (set_lastmod i t s) = maptab s" "bmap (set_lastmod i t s) = bmap s"
  "dblocks (set_lastmod i t s) = dblocks s" "geo (set_lastmod i t s) = geo s"
  "trace (set_lastmod i t s) = trace s" "its_busy E (set_lastmod i t s) b = its_busy E s b"
  "length (ftable (set_lastmod i t s)) = length (ftable s)"
  "maptab (set_state i st s) = maptab s" "bmap (set_state i st s) = bmap s"
  "dblocks (set_state i st s) = dblocks s" "geo (set_state i st s) = geo s"
  "trace (set_state i st s) = trace s" "its_busy E (set_state i st s) b = its_busy E s b"
  "length (ftable (set_state i st s)) = length (ftable s)"
  by (simp_all add: set_size_def set_lastmod_def set_state_def write_entry_def its_busy_def)

lemma entry_nth:
  assumes "i < length (ftable s)"
  shows "ftable (set_size i v s) ! j = (if j = i then (ftable s ! i)\<lparr>file_size := v\<rparr> else ftable s ! j)"
    and "ftable (set_lastmod i t s) ! j = (if j = i then (ftable s ! i)\<lparr>lastmod := t\<rparr> else ftable s ! j)"
    and "ftable (set_state i st s) ! j = (if j = i then (ftable s ! i)\<lparr>state := st\<rparr> else ftable s ! j)"
  using assms by (simp_all add: set_size_def set_lastmod_def set_state_def write_entry_def nth_list_update)

section \<open>Growing and releasing\<close>

text \<open>\<open>grown\<close>: the free blocks \<open>news\<close> were chained after the end \<open>c\<close> of a file. \<open>released\<close>: the
  blocks \<open>olds\<close> after \<open>c\<close> were given back. \<open>regrown\<close>: what a file whose chain was \<open>olds\<close> looks
  like when it is \<open>news\<close>.\<close>

definition grown :: "'bm env \<Rightarrow> ('bm \<Rightarrow> nat) \<Rightarrow> cell \<Rightarrow> nat list \<Rightarrow> 'bm osada \<Rightarrow> 'bm osada \<Rightarrow> bool" where
  "grown E nbits c news s s' \<longleftrightarrow>
     links_only s s' \<and> chain_at s' c news \<and> nbits (bmap s') = nbits (bmap s)
     \<and> (\<forall>d. d \<notin> set (cells c news) \<longrightarrow> load d s' = load d s)
     \<and> (\<forall>j < nbits (bmap s). its_busy E s' j \<longleftrightarrow> j \<in> set news \<or> its_busy E s j)"

definition released :: "'bm env \<Rightarrow> ('bm \<Rightarrow> nat) \<Rightarrow> cell \<Rightarrow> nat list \<Rightarrow> 'bm osada \<Rightarrow> 'bm osada \<Rightarrow> bool" where
  "released E nbits c olds s s' \<longleftrightarrow>
     links_only s s' \<and> nbits (bmap s') = nbits (bmap s)
     \<and> (\<forall>d. load d s' = (if d \<in> set (cells c olds) then Some END_OF_FILE else load d s))
     \<and> (\<forall>j < nbits (bmap s). its_busy E s' j \<longleftrightarrow> its_busy E s j \<and> j \<notin> set olds)"

text \<open>Two growths of the same file.\<close>

lemma grown_trans:
  assumes g1: "grown E nbits c xs s s1" and g2: "grown E nbits (tail_cell c xs) ys s1 s2"
    and fresh: "\<forall>y \<in> set ys. y < nbits (bmap s) \<and> \<not> its_busy E s1 y \<and> c \<noteq> Map_entry y"
    and old: "\<forall>x \<in> set xs. x < nbits (bmap s)"
  shows "grown E nbits c (xs @ ys) s s2"
proof -
  have x_busy: "its_busy E s1 x" if "x \<in> set xs" for x
    using g1 old that by (simp add: grown_def)
  have "load d s2 = load d s1" if "d \<in> set (cells c xs)" "d \<noteq> tail_cell c xs" for d
  proof -
    have "d \<notin> set (cells (tail_cell c xs) ys)"
      using that fresh x_busy by (auto simp: set_cells)
    then show ?thesis using g2 by (simp add: grown_def)
  qed
  moreover have "chain_at s1 c xs" and "chain_at s2 (tail_cell c xs) ys"
    using g1 g2 by (simp_all add: grown_def)
  ultimately have "chain_at s2 c (xs @ ys)" by (intro chain_prefix_link)
  moreover have "load d s2 = load d s" if "d \<notin> set (cells c (xs @ ys))" for d
  proof -
    have "d \<notin> set (cells c xs)" and "d \<notin> set (cells (tail_cell c xs) ys)"
      using that tail_in_cells [of c xs] by (auto simp: set_cells)
    then show ?thesis using g1 g2 by (simp add: grown_def)
  qed
  ultimately show ?thesis
    using g1 g2 by (auto simp: grown_def intro: links_only_trans)
qed

text \<open>Growing and then releasing what was gained changes no cell that was in use.\<close>

lemma grown_released:
  assumes g: "grown E nbits c news s s1" and r: "released E nbits c news s1 s2"
    and c: "load c s = Some END_OF_FILE"
    and fresh: "\<forall>y \<in> set news. y < nbits (bmap s) \<and> \<not> its_busy E s y"
  shows "links_only s s2" and "nbits (bmap s2) = nbits (bmap s)"
    and "\<And>d. d \<notin> Map_entry ` set news \<Longrightarrow> load d s2 = load d s"
    and "\<And>j. j < nbits (bmap s) \<Longrightarrow> its_busy E s2 j = its_busy E s j"
proof -
  show "links_only s s2" using g r by (auto simp: grown_def released_def intro: links_only_trans)
  show "nbits (bmap s2) = nbits (bmap s)" using g r by (simp add: grown_def released_def)
  show "load d s2 = load d s" if "d \<notin> Map_entry ` set news" for d
    using g r c that by (cases "d = c") (auto simp: grown_def released_def set_cells)
  show "its_busy E s2 j = its_busy E s j" if "j < nbits (bmap s)" for j
    using g r fresh that by (auto simp: grown_def released_def)
qed

text \<open>The mutex calls around the loops do not matter to them.\<close>

lemma grown_calls [simp]:
  "grown E nbits c news (mutex_lock s) s' = grown E nbits c news s s'"
  "grown E nbits c news s (mutex_unlock s') = grown E nbits c news s s'"
  "released E nbits c news (mutex_lock s) s' = released E nbits c news s s'"
  "released E nbits c news s (mutex_unlock s') = released E nbits c news s s'"
  by (simp_all add: grown_def released_def)

lemma free_blocks_calls [simp]:
  "free_blocks E (mutex_lock s) k n = free_blocks E s k n"
  "free_blocks E (mutex_unlock s) k n = free_blocks E s k n"
  "free_blocks E (set_size i v s) k n = free_blocks E s k n"
  "free_blocks E (set_lastmod i t s) k n = free_blocks E s k n"
  by (simp_all add: free_blocks_def)

lemma data_range_calls [simp]:
  "data_range nbits n (mutex_lock s) = data_range nbits n s"
  "data_range nbits n (mutex_unlock s) = data_range nbits n s"
  "data_range nbits n (set_size i v s) = data_range nbits n s"
  "data_range nbits n (set_lastmod i t s) = data_range nbits n s"
  "data_range nbits n (set_state i st s) = data_range nbits n s"
  by (simp_all add: data_range_def)

lemma blocks_ok_cong: "dblocks s' = dblocks s \<Longrightarrow> blocks_ok n s' = blocks_ok n s"
  by (simp add: blocks_ok_def)

context bitarray
begin

lemma add_blocks_grown:
  assumes "bits E = ops" and "data_range nbits n s" and "load c s = Some END_OF_FILE"
    and "\<forall>b. c = Map_entry b \<longrightarrow> its_busy E s b" and "0 < step"
  obtains s' where "add_blocks E step need (BM_DATA_0 (geo s)) c s
        = Some (BM_DATA_0 (geo s) + int (stop_at 0 n (rounds step need) (free_blocks E s 0 n)), s')"
    and "grown E nbits c (take (rounds step need) (free_blocks E s 0 n)) s s'"
    and "trace s' = trace s"
proof -
  obtain s' where s': "add_blocks E step need (BM_DATA_0 (geo s)) c s
        = Some (BM_DATA_0 (geo s) + int (stop_at 0 n (rounds step need) (free_blocks E s 0 n)), s')"
      "grown E nbits c (take (rounds step need) (free_blocks E s 0 n)) s s'"
    using add_blocks_chain [OF assms(1-5) le0 refl, of need] unfolding grown_def by auto
  then show thesis using that add_blocks_trace by blast
qed

lemma alloc_first_grown:
  assumes "bits E = ops" and "data_range nbits n s" and "load (First_block i) s = Some END_OF_FILE"
  obtains s' where "alloc_first E (BM_DATA_0 (geo s)) i s
        = Some (BM_DATA_0 (geo s) + int (case free_blocks E s 0 n of [] \<Rightarrow> n | p # _ \<Rightarrow> p), s')"
    and "grown E nbits (First_block i) (take 1 (free_blocks E s 0 n)) s s'"
    and "trace s' = trace s"
proof -
  obtain s' where s': "alloc_first E (BM_DATA_0 (geo s)) i s
        = Some (BM_DATA_0 (geo s) + int (case free_blocks E s 0 n of [] \<Rightarrow> n | p # _ \<Rightarrow> p), s')"
      "grown E nbits (First_block i) (take 1 (free_blocks E s 0 n)) s s'"
    using alloc_first_chain [OF assms le0] unfolding grown_def by auto
  then show thesis using that alloc_first_trace by blast
qed

lemma release_from_released:
  assumes "chain_at s c bs" and "bits E = ops" and "\<forall>b \<in> set bs. b < nbits (bmap s)"
  obtains s' where "release_from E c s = Some s'" and "released E nbits c bs s s'"
    and "trace s' = trace s"
proof -
  obtain s' where s': "release_from E c s = Some s'" "released E nbits c bs s s'"
    using release_from_chain [OF assms] unfolding released_def by auto
  then show thesis using that release_from_trace by blast
qed

text \<open>Releasing everything after the first blocks of a chain.\<close>

lemma release_after_released:
  assumes "chain_at s (First_block i) (xs @ ys)" and "bits E = ops"
    and "\<forall>b \<in> set ys. b < nbits (bmap s)" and "blocks = int (length xs)"
  obtains s' where "release_after E i blocks s = Some s'"
    and "released E nbits (tail_cell (First_block i) xs) ys s s'"
    and "trace s' = trace s @ [Mutex_lock, Mutex_unlock]"
proof -
  let ?c = "tail_cell (First_block i) xs"
  have "skip_blocks (nat blocks) (First_block i) s = Some ?c"
    using skip_blocks_chain [OF assms(1), of "nat blocks"] assms(4) by simp
  moreover have "chain_at (mutex_lock s) ?c ys" using chain_drop [OF assms(1)] by simp
  then obtain s1 where "release_from E ?c (mutex_lock s) = Some s1"
      "released E nbits ?c ys (mutex_lock s) s1" "trace s1 = trace (mutex_lock s)"
    using release_from_released [of "mutex_lock s" ?c ys E] assms(2,3) by (metis mutex_simps(3))
  ultimately show thesis
    by (intro that [of "mutex_unlock s1"]) (simp_all add: release_after_def)
qed

end

section \<open>Updating one file\<close>

lemma fs_inv_update:
  assumes inv: "fs_inv E nbits n R C s" and i: "i < FILE_BLOCKS_MOUNT"
    and shape: "data_range nbits n s'" "blocks_ok n s'" "length (ftable s') = FILE_BLOCKS_MOUNT"
    and others: "\<And>j. j < FILE_BLOCKS_MOUNT \<Longrightarrow> j \<noteq> i \<Longrightarrow>
        state (ftable s' ! j) = state (ftable s ! j) \<and> file_size (ftable s' ! j) = file_size (ftable s ! j)"
    and loads: "\<And>d. d \<noteq> First_block i \<Longrightarrow> d \<notin> Map_entry ` T \<Longrightarrow> load d s' = load d s"
    and touched: "\<And>b j. b \<in> T \<Longrightarrow> j \<noteq> i \<Longrightarrow> b \<notin> set (C j)"
    and chain: "state (ftable s' ! i) = REGULAR \<Longrightarrow> chain_at s' (First_block i) xs
        \<and> length xs = nblocks (unat (file_size (ftable s' ! i)))"
    and gone: "state (ftable s' ! i) \<noteq> REGULAR \<Longrightarrow> xs = []"
    and mine: "\<And>b. b \<in> set xs \<Longrightarrow> b < n \<and> (b \<in> set (C i) \<or> \<not> its_busy E s b)"
    and busy: "\<And>b. b < n \<Longrightarrow> its_busy E s' b \<longleftrightarrow> b \<in> set xs \<or> its_busy E s b \<and> b \<notin> set (C i)"
  shows "fs_inv E nbits n R (C(i := xs)) s'"
proof -
  note I = inv [unfolded fs_inv_def]
  have taken: "b \<notin> R" "\<And>j. j \<noteq> i \<Longrightarrow> b \<notin> set (C j)" if "b \<in> set xs" for b
    using mine [OF that] I by blast+
  have regular: "chain_at s' (First_block j) ((C(i := xs)) j)
      \<and> length ((C(i := xs)) j) = nblocks (unat (file_size (ftable s' ! j)))"
    if "j < FILE_BLOCKS_MOUNT" "state (ftable s' ! j) = REGULAR" for j
  proof (cases "j = i")
    case True then show ?thesis using chain that by simp
  next
    case False
    have "chain_at s' (First_block j) (C j) = chain_at s (First_block j) (C j)"
    proof (rule chain_frame)
      fix d assume "d \<in> set (cells (First_block j) (C j))"
      then show "load d s' = load d s"
        using touched False by (intro loads) (auto simp: set_cells)
    qed
    then show ?thesis using False others that I by simp
  qed
  have "i < FILE_BLOCKS_MOUNT \<and> state (ftable s' ! i) = REGULAR \<or> xs = []" using gone i by blast
  then have empty: "j < FILE_BLOCKS_MOUNT \<and> state (ftable s' ! j) = REGULAR \<or> (C(i := xs)) j = []" for j
  proof (cases "j = i")
    case False
    have "j < FILE_BLOCKS_MOUNT \<and> state (ftable s ! j) = REGULAR \<or> C j = []" using I by blast
    then show ?thesis using False others [of j] by auto
  qed simp
  have own: "b < n \<and> b \<notin> R" if "b \<in> set ((C(i := xs)) j)" for b j
    using that mine taken I by (cases "j = i") auto
  have disj: "set ((C(i := xs)) j) \<inter> set ((C(i := xs)) k) = {}" if "j \<noteq> k" for j k
    using that taken I by (cases "j = i"; cases "k = i") auto
  have bits: "its_busy E s' b \<longleftrightarrow> b \<in> R \<or> (\<exists>j. b \<in> set ((C(i := xs)) j))" if b: "b < n" for b
  proof -
    have "its_busy E s b \<longleftrightarrow> b \<in> R \<or> (\<exists>j. b \<in> set (C j))" using I b by blast
    moreover have "b \<in> set (C i) \<Longrightarrow> b \<notin> R" and "b \<in> set (C i) \<Longrightarrow> j \<noteq> i \<Longrightarrow> b \<notin> set (C j)" for j
      using I by blast+
    ultimately show ?thesis
      unfolding busy [OF b] by (auto split: if_splits)
  qed
  show ?thesis
    unfolding fs_inv_def using shape regular empty own disj bits by blast
qed

end
