(* ===== verification/Osada_Contents.thy ===== *)
theory Osada_Contents
  imports Osada_Invariant
begin

text \<open>
  What \<^verbatim>\<open>osada_write\<close>, \<^verbatim>\<open>osada_read\<close>, \<^verbatim>\<open>osada_truncate\<close> and \<^verbatim>\<open>osada_unlink\<close> do to a consistent image:
  each keeps it consistent, changes one file and leaves every other file and entry alone, and
  has the effect on the contents that its name promises. The lemmas hold for every library that
  keeps the \<open>bitarray\<close> contract.
\<close>

section \<open>One file changes\<close>

definition only_file :: "nat \<Rightarrow> 'bm osada \<Rightarrow> 'bm osada \<Rightarrow> bool" where
  "only_file i s s' \<longleftrightarrow> geo s' = geo s \<and> length (maptab s') = length (maptab s)
     \<and> length (ftable s') = length (ftable s)
     \<and> (\<forall>j < length (ftable s). j \<noteq> i \<longrightarrow> ftable s' ! j = ftable s ! j)"

lemma only_file_refl [simp]: "only_file i s s"
  by (simp add: only_file_def)

lemma only_file_trans [trans]: "only_file i s1 s2 \<Longrightarrow> only_file i s2 s3 \<Longrightarrow> only_file i s1 s3"
  by (simp add: only_file_def)

lemma only_file_entry [simp]:
  "only_file i s (set_size i v s)" "only_file i s (set_lastmod i t s)" "only_file i s (set_state i st s)"
  by (simp_all add: only_file_def set_size_def set_lastmod_def set_state_def write_entry_def)

lemma only_file_calls [simp]:
  "only_file i (mutex_lock s) s' = only_file i s s'" "only_file i s (mutex_lock s') = only_file i s s'"
  "only_file i (mutex_unlock s) s' = only_file i s s'" "only_file i s (mutex_unlock s') = only_file i s s'"
  by (simp_all add: only_file_def)

lemma only_file_then:
  "only_file i s s' \<Longrightarrow> only_file i s (set_size i v s')"
  "only_file i s s' \<Longrightarrow> only_file i s (set_state i st s')"
  using only_file_trans only_file_entry by blast+

lemma links_onlyD:
  "links_only s s' \<Longrightarrow> j < length (ftable s) \<Longrightarrow>
     ftable s' ! j = (ftable s ! j)\<lparr>first_block := first_block (ftable s' ! j)\<rparr>"
  unfolding links_only_def by blast

lemma links_only_entry:
  assumes "links_only s s'" and "j < length (ftable s)"
    and "load (First_block j) s' = load (First_block j) s"
  shows "ftable s' ! j = ftable s ! j"
proof -
  have "ftable s' ! j = (ftable s ! j)\<lparr>first_block := first_block (ftable s' ! j)\<rparr>"
    and "length (ftable s') = length (ftable s)"
    using links_onlyD [OF assms(1,2)] assms(1) by (simp_all only: links_only_def)
  moreover have "first_block (ftable s' ! j) = first_block (ftable s ! j)"
    using assms(2,3) \<open>length (ftable s') = _\<close> by simp
  moreover have "(ftable s ! j)\<lparr>first_block := first_block (ftable s ! j)\<rparr> = ftable s ! j" by simp
  ultimately show ?thesis by metis
qed

lemma tail_cell_First: "tail_cell (First_block i) xs = First_block j \<longleftrightarrow> xs = [] \<and> i = j"
  by (cases xs rule: rev_cases) (auto simp: tail_cell_append)

lemma tail_cell_Map: "tail_cell (First_block i) xs = Map_entry b \<Longrightarrow> b \<in> set xs"
  by (cases xs rule: rev_cases) (auto simp: tail_cell_append)

lemma grown_only_file:
  assumes "grown E nbits (tail_cell (First_block i) xs) news s s'"
  shows "only_file i s s'" and "dblocks s' = dblocks s"
proof -
  have "ftable s' ! j = ftable s ! j" if "j < length (ftable s)" "j \<noteq> i" for j
  proof (rule links_only_entry)
    have "First_block j \<notin> set (cells (tail_cell (First_block i) xs) news)"
      using that tail_cell_First [of i xs j] by (auto simp: set_cells)
    then show "load (First_block j) s' = load (First_block j) s"
      using assms by (simp add: grown_def del: load.simps)
  qed (use assms that in \<open>auto simp: grown_def\<close>)
  then show "only_file i s s'" and "dblocks s' = dblocks s"
    using assms by (auto simp: grown_def links_only_def only_file_def)
qed

lemma released_only_file:
  assumes "released E nbits (tail_cell (First_block i) xs) olds s s'"
  shows "only_file i s s'" and "dblocks s' = dblocks s"
proof -
  have "ftable s' ! j = ftable s ! j" if "j < length (ftable s)" "j \<noteq> i" for j
  proof (rule links_only_entry)
    have "First_block j \<notin> set (cells (tail_cell (First_block i) xs) olds)"
      using that tail_cell_First [of i xs j] by (auto simp: set_cells)
    then show "load (First_block j) s' = load (First_block j) s"
      using assms by (simp add: released_def del: load.simps)
  qed (use assms that in \<open>auto simp: released_def\<close>)
  then show "only_file i s s'" and "dblocks s' = dblocks s"
    using assms by (auto simp: released_def links_only_def only_file_def)
qed

section \<open>Facts of a consistent image\<close>

lemma fs_inv_file:
  assumes "fs_inv E nbits n R C s" and "i < FILE_BLOCKS_MOUNT" and "state (ftable s ! i) = REGULAR"
  shows "chain_at s (First_block i) (C i)" and "length (C i) = nblocks (unat (file_size (ftable s ! i)))"
    and "i < length (ftable s)"
  using assms by (simp_all add: fs_inv_def)

lemma fs_inv_range:
  assumes "fs_inv E nbits n R C s"
  shows "data_range nbits n s" and "blocks_ok n s" and "length (ftable s) = FILE_BLOCKS_MOUNT"
    and "n \<le> nbits (bmap s)" and "n < 2 ^ 25"
  using assms by (simp_all add: fs_inv_def data_range_def)

lemma fs_inv_block:
  assumes "fs_inv E nbits n R C s" and "b \<in> set (C i)"
  shows "b < n" and "b \<notin> R" and "its_busy E s b" and "j \<noteq> i \<Longrightarrow> b \<notin> set (C j)"
  using assms unfolding fs_inv_def by blast+

lemma fs_inv_free:
  assumes "fs_inv E nbits n R C s" and "b \<in> set (free_blocks E s 0 n)"
  shows "b < n" and "\<not> its_busy E s b" and "b \<notin> set (C j)" and "b < nbits (bmap s)"
proof -
  show *: "b < n" "\<not> its_busy E s b" using assms(2) by (simp_all add: set_free_blocks)
  show "b \<notin> set (C j)" using fs_inv_block(3) [OF assms(1)] * by blast
  show "b < nbits (bmap s)" using * fs_inv_range(4) [OF assms(1)] by simp
qed

text \<open>Sizes stay far below the range of \<^verbatim>\<open>int\<close>.\<close>

lemma fs_inv_size:
  assumes "fs_inv E nbits n R C s" and "i < FILE_BLOCKS_MOUNT" and "state (ftable s ! i) = REGULAR"
  shows "length (C i) \<le> n" and "unat (file_size (ftable s ! i)) \<le> 64 * length (C i)"
    and "unat (file_size (ftable s ! i)) < 2 ^ 31"
proof -
  have "set (C i) \<subseteq> {..<n}" using fs_inv_block(1) [OF assms(1)] by auto
  moreover have "distinct (C i)" using chain_distinct [OF fs_inv_file(1) [OF assms]] .
  ultimately show *: "length (C i) \<le> n"
    using card_mono [of "{..<n}" "set (C i)"] by (simp add: distinct_card)
  show "unat (file_size (ftable s ! i)) \<le> 64 * length (C i)"
    using nblocks_bounds(2) fs_inv_file(2) [OF assms] by simp
  then show "unat (file_size (ftable s ! i)) < 2 ^ 31"
    using * fs_inv_range(5) [OF assms(1)] by simp
qed

text \<open>Changing the time of a file, or recording calls, does not touch consistency.\<close>

lemma fs_inv_lastmod [simp]: "fs_inv E nbits n R C (set_lastmod i t s) = fs_inv E nbits n R C s"
proof (cases "i < length (ftable s)")
  case True
  then have "state (ftable (set_lastmod i t s) ! j) = state (ftable s ! j)"
    and "file_size (ftable (set_lastmod i t s) ! j) = file_size (ftable s ! j)" for j
    by (simp_all add: entry_nth)
  then show ?thesis by (simp add: fs_inv_def blocks_ok_def)
qed (simp add: set_lastmod_def write_entry_def list_update_beyond)

lemma fs_inv_calls [simp]:
  "fs_inv E nbits n R C (add_calls t s) = fs_inv E nbits n R C s"
proof -
  have "load d (add_calls t s) = load d s" for d by (cases d) simp_all
  then have "chain_at (add_calls t s) c bs = chain_at s c bs" for c bs by (intro chain_frame) simp
  then show ?thesis by (simp add: fs_inv_def blocks_ok_def data_range_def its_busy_def)
qed

section \<open>Growing a file\<close>

lemma grow_inv:
  assumes inv: "fs_inv E nbits n R C s" and i: "i < FILE_BLOCKS_MOUNT" "state (ftable s ! i) = REGULAR"
    and g: "grown E nbits (tail_cell (First_block i) (C i)) news (set_size i v s) s'"
    and news: "set news \<subseteq> set (free_blocks E s 0 n)" and len: "length (C i @ news) = nblocks (unat v)"
  shows "fs_inv E nbits n R (C(i := C i @ news)) s'"
    and "ftable s' ! i = (ftable s ! i)\<lparr>file_size := v, first_block := first_block (ftable s' ! i)\<rparr>"
proof -
  let ?c = "tail_cell (First_block i) (C i)"
  note own = fs_inv_file [OF inv i]
  have only: "only_file i (set_size i v s) s'" and data: "dblocks s' = dblocks s"
    using grown_only_file [OF g] by simp_all
  have links: "links_only (set_size i v s) s'" using g by (simp add: grown_def)
  show entry: "ftable s' ! i = (ftable s ! i)\<lparr>file_size := v, first_block := first_block (ftable s' ! i)\<rparr>"
    using links_onlyD [OF links, of i] own(3) by (simp add: entry_nth)
  have others: "ftable s' ! j = ftable s ! j" if "j < FILE_BLOCKS_MOUNT" "j \<noteq> i" for j
    using only that fs_inv_range(3) [OF inv] own(3) by (simp add: only_file_def entry_nth)
  have tail: "?c = First_block i \<or> (\<exists>b \<in> set (C i). ?c = Map_entry b)"
    using tail_in_cells [of "First_block i" "C i"] by (auto simp: set_cells)
  have nb: "nbits (bmap s') = nbits (bmap s)" and chain: "chain_at s' ?c news"
    using g by (simp_all add: grown_def)
  have loads: "load d s' = load d s" if "d \<notin> set (cells ?c news)" for d
    using g that by (simp add: grown_def)
  have keep: "d \<notin> set (cells ?c news)" if "d \<in> set (cells (First_block i) (C i))" "d \<noteq> ?c" for d
    using that news fs_inv_free(3) [OF inv] by (auto simp: set_cells)
  have whole: "chain_at s' (First_block i) (C i @ news)"
    by (rule chain_prefix_link [OF own(1)]) (use keep loads chain in auto)
  have busy: "its_busy E s' b \<longleftrightarrow> b \<in> set news \<or> its_busy E s b" if "b < n" for b
    using g that fs_inv_range(4) [OF inv] by (simp add: grown_def)
  show "fs_inv E nbits n R (C(i := C i @ news)) s'"
  proof (rule fs_inv_update [OF inv i(1), where T = "set (C i) \<union> set news"])
    show "data_range nbits n s'"
      using links nb fs_inv_range(1) [OF inv] by (simp add: data_range_def links_only_def)
    show "blocks_ok n s'" using blocks_ok_cong [OF data] fs_inv_range(2) [OF inv] by simp
    show "length (ftable s') = FILE_BLOCKS_MOUNT"
      using links fs_inv_range(3) [OF inv] by (simp add: links_only_def)
    show "load d s' = load d s" if "d \<noteq> First_block i" "d \<notin> Map_entry ` (set (C i) \<union> set news)" for d
      using tail that by (intro loads) (auto simp: set_cells)
    show "b \<notin> set (C j)" if "b \<in> set (C i) \<union> set news" "j \<noteq> i" for b j
      using that news fs_inv_block(4) [OF inv] fs_inv_free(3) [OF inv] by blast
    show "chain_at s' (First_block i) (C i @ news)
        \<and> length (C i @ news) = nblocks (unat (file_size (ftable s' ! i)))"
      using whole len by (subst entry) simp
    show "b < n \<and> (b \<in> set (C i) \<or> \<not> its_busy E s b)" if "b \<in> set (C i @ news)" for b
      using that news fs_inv_free(1,2) [OF inv] fs_inv_block(1) [OF inv] by auto
    show "its_busy E s' b \<longleftrightarrow> b \<in> set (C i @ news) \<or> its_busy E s b \<and> b \<notin> set (C i)" if "b < n" for b
      using busy [OF that] fs_inv_block(3) [OF inv] by auto
    show "C i @ news = []" if "state (ftable s' ! i) \<noteq> REGULAR"
      using that i(2) by (subst (asm) entry) simp
  qed (use others in auto)
qed

text \<open>Taking blocks and giving them back: the image is as before, the file table to the bit.\<close>

lemma ftable_eqI:
  assumes "length ft = FILE_BLOCKS_MOUNT" and "length ft' = FILE_BLOCKS_MOUNT"
    and "\<And>j. j < FILE_BLOCKS_MOUNT \<Longrightarrow> ft' ! j = ft ! j"
  shows "ft' = ft"
  using assms by (intro nth_equalityI) simp_all

lemma entry_again:
  fixes f :: osada_file
  assumes "g = f\<lparr>file_size := v, first_block := p\<rparr>"
    and "h = g\<lparr>file_size := file_size f, first_block := q\<rparr>" and "q = first_block f"
  shows "h = f"
  using assms by simp

lemma rollback_inv:
  assumes inv: "fs_inv E nbits n R C s" and i: "i < FILE_BLOCKS_MOUNT" "state (ftable s ! i) = REGULAR"
    and g: "grown E nbits (tail_cell (First_block i) (C i)) news (set_size i v s) s1"
    and r: "released E nbits (tail_cell (First_block i) (C i)) news
              (set_size i (file_size (ftable s ! i)) s1) s2"
    and news: "set news \<subseteq> set (free_blocks E s 0 n)"
  shows "fs_inv E nbits n R C s2" and "ftable s2 = ftable s" and "dblocks s2 = dblocks s"
    and "only_file i s s2"
proof -
  let ?c = "tail_cell (First_block i) (C i)"
  note own = fs_inv_file [OF inv i]
  have only: "only_file i (set_size i v s) s1" "only_file i (set_size i (file_size (ftable s ! i)) s1) s2"
    using grown_only_file(1) [OF g] released_only_file(1) [OF r] .
  show data: "dblocks s2 = dblocks s"
    using grown_only_file(2) [OF g] released_only_file(2) [OF r] by simp
  have len: "length (ftable s1) = FILE_BLOCKS_MOUNT" "length (ftable s2) = FILE_BLOCKS_MOUNT"
    and maptab: "length (maptab s2) = length (maptab s)" and geo: "geo s2 = geo s"
    using only fs_inv_range(3) [OF inv] by (simp_all add: only_file_def)
  have end_s: "load ?c s = Some END_OF_FILE" using chain_drop [of s "First_block i" "C i" "[]"] own(1) by simp
  have loads: "load d s2 = load d s" if "d \<notin> Map_entry ` set news" for d
    using g r end_s that by (cases "d = ?c") (auto simp: grown_def released_def set_cells)
  have nb: "nbits (bmap s2) = nbits (bmap s)" using g r by (simp add: grown_def released_def)
  have busy: "its_busy E s2 b = its_busy E s b" if "b < n" for b
  proof -
    have "its_busy E s1 b \<longleftrightarrow> b \<in> set news \<or> its_busy E s b" and "nbits (bmap s1) = nbits (bmap s)"
      using g that fs_inv_range(4) [OF inv] by (simp_all add: grown_def)
    moreover have "its_busy E s2 b \<longleftrightarrow> its_busy E s1 b \<and> b \<notin> set news"
      using r that calculation(2) fs_inv_range(4) [OF inv] by (simp add: released_def)
    ultimately show ?thesis using news fs_inv_free(2) [OF inv, of b] by blast
  qed
  have "ftable s2 ! j = ftable s ! j" if j: "j < FILE_BLOCKS_MOUNT" for j
  proof (cases "j = i")
    case False
    then show ?thesis
      using only j len fs_inv_range(3) [OF inv] i by (simp add: only_file_def entry_nth)
  next
    case True
    have "ftable s1 ! i = (ftable s ! i)\<lparr>file_size := v, first_block := first_block (ftable s1 ! i)\<rparr>"
      using links_onlyD [of "set_size i v s" s1 i] g own(3) by (simp add: grown_def entry_nth)
    moreover have "ftable s2 ! i = (ftable s1 ! i)\<lparr>file_size := file_size (ftable s ! i),
        first_block := first_block (ftable s2 ! i)\<rparr>"
      using links_onlyD [of "set_size i (file_size (ftable s ! i)) s1" s2 i] r len i
      by (simp add: released_def entry_nth)
    moreover have "first_block (ftable s2 ! i) = first_block (ftable s ! i)"
      using loads [of "First_block i"] len own(3) i by auto
    ultimately show ?thesis using entry_again True by blast
  qed
  then show table: "ftable s2 = ftable s"
    using len fs_inv_range(3) [OF inv] by (intro ftable_eqI) simp_all
  then show "only_file i s s2" using geo maptab by (simp add: only_file_def)
  have "fs_inv E nbits n R (C(i := C i)) s2"
  proof (rule fs_inv_update [OF inv i(1), where T = "set news"])
    show "data_range nbits n s2"
      using nb maptab geo fs_inv_range(1) [OF inv] by (simp add: data_range_def)
    show "blocks_ok n s2" using blocks_ok_cong [OF data] fs_inv_range(2) [OF inv] by simp
    show "length (ftable s2) = FILE_BLOCKS_MOUNT" by (rule len)
    have "chain_at s2 (First_block i) (C i) = chain_at s (First_block i) (C i)"
    proof (rule chain_frame)
      fix d assume "d \<in> set (cells (First_block i) (C i))"
      then show "load d s2 = load d s"
        using news fs_inv_free(3) [OF inv] by (intro loads) (auto simp: set_cells)
    qed
    then show "chain_at s2 (First_block i) (C i)
        \<and> length (C i) = nblocks (unat (file_size (ftable s2 ! i)))"
      using own by (simp add: table)
    show "its_busy E s2 b \<longleftrightarrow> b \<in> set (C i) \<or> its_busy E s b \<and> b \<notin> set (C i)" if "b < n" for b
      using busy [OF that] fs_inv_block(3) [OF inv] by auto
  qed (use loads news fs_inv_free(3) [OF inv] fs_inv_block(1) [OF inv] i table in auto)
  then show "fs_inv E nbits n R C s2" by simp
qed

text \<open>Calls on the allocation mutex alone, which leave nothing locked.\<close>

definition mutex_pairs :: "lock_event list \<Rightarrow> bool" where
  "mutex_pairs t \<longleftrightarrow> (\<forall>h. replay t (h, False) = Some (h, False))"

lemma mutex_pairs_simps [simp]: "mutex_pairs []" "mutex_pairs [Mutex_lock, Mutex_unlock]"
  by (simp_all add: mutex_pairs_def replay.simps)

lemma mutex_pairs_append: "mutex_pairs t \<Longrightarrow> mutex_pairs u \<Longrightarrow> mutex_pairs (t @ u)"
  by (simp add: mutex_pairs_def replay_append)

lemma grown_refl: "load c s = Some END_OF_FILE \<Longrightarrow> grown E nbits c [] s s"
  by (simp add: grown_def)

lemma released_refl: "load c s = Some END_OF_FILE \<Longrightarrow> released E nbits c [] s s"
  by (simp add: released_def)

lemma grown_chain:
  assumes "chain_at s (First_block i) xs"
    and "grown E nbits (tail_cell (First_block i) xs) news s s'" and "set news \<inter> set xs = {}"
  shows "chain_at s' (First_block i) (xs @ news)"
proof (rule chain_prefix_link [OF assms(1)])
  show "chain_at s' (tail_cell (First_block i) xs) news" using assms(2) by (simp add: grown_def)
  fix d assume d: "d \<in> set (cells (First_block i) xs)" "d \<noteq> tail_cell (First_block i) xs"
  then have "d \<notin> set (cells (tail_cell (First_block i) xs) news)"
    using assms(3) by (auto simp: set_cells)
  then show "load d s' = load d s" using assms(2) by (simp add: grown_def)
qed

text \<open>The response is OSADA_ENOSPC when the search stops at the end of the bitmap. A search that
  still leaves a free block behind has not.\<close>

lemma stop_at_less:
  assumes "q < length (free_blocks E s 0 n)"
  shows "stop_at 0 n q (free_blocks E s 0 n) < n"
proof -
  let ?f = "free_blocks E s 0 n"
  have sorted: "sorted_wrt (<) ?f" by (simp add: free_blocks_def sorted_wrt_filter)
  have "?f ! q < n" using assms set_free_blocks [of "?f ! q" E s 0 n] nth_mem by blast
  moreover have "?f ! (q - 1) < ?f ! q" if "q \<noteq> 0"
    using sorted_wrt_nth_less [OF sorted, of "q - 1" q] assms that by simp
  ultimately show ?thesis using assms by (auto simp: stop_at_def)
qed

lemma stop_at_enough: "stop_at 0 n q f < n \<Longrightarrow> q \<le> length f"
  by (auto simp: stop_at_def split: if_splits)

text \<open>The first block: needed by an empty file only.\<close>

definition first_news :: "'bm env \<Rightarrow> nat list \<Rightarrow> nat \<Rightarrow> 'bm osada \<Rightarrow> nat list" where
  "first_news E xs n s = (if xs = [] then take 1 (free_blocks E s 0 n) else [])"

text \<open>The sizes of a request, as \<^verbatim>\<open>int\<close> and as \<^verbatim>\<open>uint32_t\<close>.\<close>

lemma unat_add_small:
  fixes a b :: u32
  assumes "unat a + unat b < 2 ^ 31" shows "unat (a + b) = unat a + unat b"
proof -
  have "unat a + unat b < 2 ^ LENGTH(32)" using assms by simp
  then show ?thesis by (rule unat_add_lem [THEN iffD1])
qed

lemma size_arith:
  fixes fs off sz :: u32
  assumes "unat fs \<le> unat off + unat sz" and "unat off + unat sz < 2 ^ 31"
  shows "to_int fs = int (unat fs)" and "of_cint (to_int fs) = fs"
    and "to_int (off + sz - fs) = int (unat off + unat sz) - int (unat fs)"
    and "of_cint (to_int fs + to_int (off + sz - fs)) = off + sz"
    and "off + sz > fs \<longleftrightarrow> unat off + unat sz > unat fs"
proof -
  have new: "unat (off + sz) = unat off + unat sz" using assms(2) by (rule unat_add_small)
  show f: "to_int fs = int (unat fs)" using assms by (intro to_int_small) simp
  show f': "of_cint (to_int fs) = fs" unfolding f of_cint_int by simp
  have "fs \<le> off + sz" using assms(1) new by (simp add: word_le_nat_alt)
  then have diff: "unat (off + sz - fs) = unat off + unat sz - unat fs"
    using new by (simp add: unat_sub)
  show g: "to_int (off + sz - fs) = int (unat off + unat sz) - int (unat fs)"
    using to_int_small [of "off + sz - fs"] diff assms by (simp add: of_nat_diff)
  have "to_int fs + to_int (off + sz - fs) = int (unat (off + sz))" unfolding f g new by simp
  then show "of_cint (to_int fs + to_int (off + sz - fs)) = off + sz"
    unfolding \<open>to_int fs + _ = _\<close> of_cint_int by simp
  show "off + sz > fs \<longleftrightarrow> unat off + unat sz > unat fs" using new by (simp add: word_less_nat_alt)
qed

context bitarray
begin

lemma write_first_block_grown:
  assumes E: "bits E = ops" and range: "data_range nbits n s"
    and chain: "chain_at s (First_block i) xs" and i: "i < length (ftable s)"
  obtains ok s' t where "write_first_block E i fsize s
        = Some (ok, if ok then s' else set_size i (of_cint fsize) s')"
    and "grown E nbits (tail_cell (First_block i) xs) (first_news E xs n s) s s'"
    and "ok \<longleftrightarrow> xs \<noteq> [] \<or> free_blocks E s 0 n \<noteq> []"
    and "trace s' = trace s @ t" and "mutex_pairs t"
proof (cases "xs = []")
  case False
  then have "first_block (ftable s ! i) \<noteq> END_OF_FILE"
    using chain i by (cases xs) auto
  then have "write_first_block E i fsize s = Some (True, s)" by (simp add: write_first_block_def)
  moreover have "grown E nbits (tail_cell (First_block i) xs) [] s s"
    using chain_drop [of s "First_block i" xs "[]"] chain by (simp add: grown_refl)
  ultimately show ?thesis using False that [of True s "[]"] by (auto simp: first_news_def)
next
  case True
  have eof: "load (First_block i) (mutex_lock s) = Some END_OF_FILE" using chain True by simp
  obtain s' where s': "alloc_first E (BM_DATA_0 (geo s)) i (mutex_lock s)
        = Some (BM_DATA_0 (geo s) + int (case free_blocks E s 0 n of [] \<Rightarrow> n | p # _ \<Rightarrow> p), s')"
      "grown E nbits (First_block i) (take 1 (free_blocks E s 0 n)) s s'"
      "trace s' = trace s @ [Mutex_lock]"
    using alloc_first_grown [OF E, of n "mutex_lock s" i] range eof by auto
  have last: "BM_DATA_1 (geo s) = BM_DATA_0 (geo s) + int n - 1" using range by (simp add: data_range_def)
  have stop: "BM_DATA_0 (geo s) + int (case free_blocks E s 0 n of [] \<Rightarrow> n | p # _ \<Rightarrow> p) > BM_DATA_1 (geo s)
      \<longleftrightarrow> free_blocks E s 0 n = []"
  proof (cases "free_blocks E s 0 n")
    case (Cons p ps)
    then have "p < n" using set_free_blocks [of p E s 0 n] by simp
    then show ?thesis using last Cons by simp
  qed (use last in simp)
  have first: "first_block (ftable s ! i) = END_OF_FILE" using chain True i by simp
  show ?thesis
    using s' True stop first
    by (intro that [of "free_blocks E s 0 n \<noteq> []" "mutex_unlock s'" "[Mutex_lock, Mutex_unlock]"])
      (auto simp: write_first_block_def first_news_def)
qed

text \<open>The loop that adds blocks to a file that has its first block, and the two ways it ends.\<close>

lemma extend_step:
  assumes E: "bits E = ops" and inv: "fs_inv E nbits n R C s"
    and i: "i < FILE_BLOCKS_MOUNT" "state (ftable s ! i) = REGULAR"
    and g: "grown E nbits (tail_cell (First_block i) (C i)) news1 (set_size i v s) s2"
    and news1: "news1 = take k (free_blocks E s 0 n)"
    and step: "0 < step" and q: "rounds step need = nblocks (unat v) - length (C i @ news1)"
    and some: "length (C i @ news1) \<le> nblocks (unat v)"
    and free2: "free_blocks E s2 0 n = drop k (free_blocks E s 0 n)" and k: "length news1 = k"
  defines "c2 \<equiv> tail_cell (First_block i) (C i @ news1)"
    and "stop \<equiv> stop_at 0 n (rounds step need) (free_blocks E s2 0 n)"
    and "want \<equiv> nblocks (unat v) - length (C i)"
  obtains s3 where "add_blocks E step need (BM_DATA_0 (geo s)) c2 (mutex_lock s2)
        = Some (BM_DATA_0 (geo s) + int stop, s3)"
    and "trace s3 = trace s2 @ [Mutex_lock]"
    and "stop < n \<longrightarrow> fs_inv E nbits n R (C(i := C i @ take want (free_blocks E s 0 n))) (mutex_unlock s3)
          \<and> only_file i s s3 \<and> dblocks s3 = dblocks s
          \<and> ftable s3 ! i = (ftable s ! i)\<lparr>file_size := v, first_block := first_block (ftable s3 ! i)\<rparr>
          \<and> want \<le> length (free_blocks E s 0 n)"
    and "\<not> stop < n \<longrightarrow> (\<exists>s5. release_after E i (int (length (C i)))
            (set_size i (file_size (ftable s ! i)) (mutex_unlock s3)) = Some s5
          \<and> fs_inv E nbits n R C s5 \<and> ftable s5 = ftable s \<and> dblocks s5 = dblocks s \<and> only_file i s s5
          \<and> trace s5 = trace s3 @ [Mutex_unlock, Mutex_lock, Mutex_unlock])"
proof -
  let ?F = "First_block i" and ?free = "free_blocks E s 0 n"
  let ?c = "tail_cell ?F (C i)"
  define news2 where "news2 = take (rounds step need) (free_blocks E s2 0 n)"
  note own = fs_inv_file [OF inv i]
  have nb2: "nbits (bmap s2) = nbits (bmap s)" and geo2: "geo s2 = geo s"
    using g grown_only_file(1) [OF g] by (simp_all add: grown_def only_file_def)
  have range2: "data_range nbits n (mutex_lock s2)"
    using nb2 g fs_inv_range(1) [OF inv] by (simp add: data_range_def grown_def links_only_def)
  have fresh1: "set news1 \<inter> set (C i) = {}"
    using news1 fs_inv_free(3) [OF inv] in_set_takeD by fast
  have busy2: "its_busy E s2 b \<longleftrightarrow> b \<in> set news1 \<or> its_busy E s b" if "b < nbits (bmap s)" for b
    using g that by (simp add: grown_def)
  have chain2: "chain_at s2 ?F (C i @ news1)" using grown_chain [OF _ g fresh1] own(1) by simp
  then have eof: "load c2 (mutex_lock s2) = Some END_OF_FILE"
    using chain_drop [of s2 ?F "C i @ news1" "[]"] by (simp add: c2_def)
  have in_use: "its_busy E s2 b" if "b \<in> set (C i @ news1)" for b
  proof -
    have "b < n"
      using that fs_inv_block(1) [OF inv] fs_inv_free(1) [OF inv] news1 by (auto dest: in_set_takeD)
    moreover have "b \<in> set news1 \<or> its_busy E s b" using that fs_inv_block(3) [OF inv] by auto
    ultimately show ?thesis using busy2 [of b] fs_inv_range(4) [OF inv] by simp
  qed
  have "\<forall>b. c2 = Map_entry b \<longrightarrow> its_busy E (mutex_lock s2) b"
    using tail_cell_Map in_use unfolding c2_def by fastforce
  then obtain s3 where s3: "add_blocks E step need (BM_DATA_0 (geo s)) c2 (mutex_lock s2)
        = Some (BM_DATA_0 (geo s) + int stop, s3)"
      "grown E nbits c2 news2 s2 s3" "trace s3 = trace s2 @ [Mutex_lock]"
    using add_blocks_grown [OF E range2 eof, of step need] step
    by (auto simp: geo2 news2_def stop_def)
  have free2': "b < n \<and> \<not> its_busy E s2 b" if "b \<in> set news2" for b
    using that set_free_blocks [of b E s2 0 n] by (auto simp: news2_def dest: in_set_takeD)
  have g3: "grown E nbits ?c (news1 @ news2) (set_size i v s) s3"
  proof (rule grown_trans [OF g])
    show "grown E nbits (tail_cell ?c news1) news2 s2 s3"
      using s3(2) by (simp add: c2_def tail_cell_append)
    show "\<forall>y\<in>set news2. y < nbits (bmap (set_size i v s)) \<and> \<not> its_busy E s2 y \<and> ?c \<noteq> Map_entry y"
      using free2' in_use tail_cell_Map [of i "C i"] fs_inv_range(4) [OF inv] by fastforce
    show "\<forall>x\<in>set news1. x < nbits (bmap (set_size i v s))"
      using news1 fs_inv_free(4) [OF inv] by (auto dest: in_set_takeD)
  qed
  have all: "news1 @ news2 = take want ?free"
    using q some k unfolding news2_def free2 news1 want_def
    by (simp add: take_add [symmetric] flip: add_diff_eq)
  have sub: "set (news1 @ news2) \<subseteq> set ?free" unfolding all by (rule set_take_subset)
  show ?thesis
  proof (rule that [OF s3(1,3)]; rule impI)
    assume "stop < n"
    then have "rounds step need \<le> length (free_blocks E s2 0 n)"
      unfolding stop_def by (rule stop_at_enough)
    then have len: "length (C i @ (news1 @ news2)) = nblocks (unat v)"
      using q some k by (simp add: news2_def)
    have "want \<le> length ?free" using len all k some by (simp add: want_def)
    moreover have "grown E nbits ?c (news1 @ news2) (set_size i v s) (mutex_unlock s3)" using g3 by simp
    note grow_inv [OF inv i this sub len] grown_only_file [OF g3]
    ultimately show "fs_inv E nbits n R (C(i := C i @ take want ?free)) (mutex_unlock s3)
          \<and> only_file i s s3 \<and> dblocks s3 = dblocks s
          \<and> ftable s3 ! i = (ftable s ! i)\<lparr>file_size := v, first_block := first_block (ftable s3 ! i)\<rparr>
          \<and> want \<le> length ?free"
      unfolding all using only_file_trans [OF only_file_entry(1)] by auto
  next
    let ?s4 = "set_size i (file_size (ftable s ! i)) (mutex_unlock s3)"
    have "chain_at s3 ?F (C i @ (news1 @ news2))"
      using grown_chain [OF _ g3] own(1) sub fs_inv_free(3) [OF inv] by fastforce
    then have "chain_at ?s4 ?F (C i @ (news1 @ news2))" by simp
    moreover have "\<forall>b\<in>set (news1 @ news2). b < nbits (bmap ?s4)"
      using sub fs_inv_free(4) [OF inv] g3 by (auto simp: grown_def)
    ultimately obtain s5 where s5: "release_after E i (int (length (C i))) ?s4 = Some s5"
        "released E nbits ?c (news1 @ news2) ?s4 s5" "trace s5 = trace ?s4 @ [Mutex_lock, Mutex_unlock]"
      using release_after_released [OF _ E, of ?s4 i "C i" "news1 @ news2"] by blast
    have "grown E nbits ?c (news1 @ news2) (set_size i v s) (mutex_unlock s3)" using g3 by simp
    then show "\<exists>s5. release_after E i (int (length (C i))) ?s4 = Some s5
          \<and> fs_inv E nbits n R C s5 \<and> ftable s5 = ftable s \<and> dblocks s5 = dblocks s \<and> only_file i s s5
          \<and> trace s5 = trace s3 @ [Mutex_unlock, Mutex_lock, Mutex_unlock]"
      using rollback_inv [OF inv i _ s5(2) sub] s5(1,3) by (intro exI [of _ s5]) simp
  qed
qed

lemma follow_walk:
  assumes "chain_at s c ys" and "ys \<noteq> []"
  shows "follow c s = Some (Map_entry (hd ys))"
    and "walk_to_end (Map_entry (hd ys)) 0 s = Some (tail_cell c ys, length ys - 1)"
proof -
  obtain y zs where ys: "ys = y # zs" using assms(2) by (cases ys) auto
  show "follow c s = Some (Map_entry (hd ys))"
    using assms(1) ys by (auto simp: follow_def split: option.splits)
  show "walk_to_end (Map_entry (hd ys)) 0 s = Some (tail_cell c ys, length ys - 1)"
    using walk_to_end_chain [of s "Map_entry y" zs 0] assms(1) ys by simp
qed

text \<open>After the first block is taken the free blocks are the others, in the same order.\<close>

lemma free_blocks_first_news:
  assumes "grown E nbits c (first_news E xs n s) s s'" and "n \<le> nbits (bmap s)"
  shows "free_blocks E s' 0 n = drop (length (first_news E xs n s)) (free_blocks E s 0 n)"
proof (cases "xs = [] \<and> free_blocks E s 0 n \<noteq> []")
  case True
  then obtain p ps where f: "free_blocks E s 0 n = p # ps" by (cases "free_blocks E s 0 n") auto
  then have "p \<notin> set ps" using distinct_free_blocks [of E s 0 n] by simp
  have "its_busy E s' b \<longleftrightarrow> b = p \<or> its_busy E s b" if "b < n" for b
    using assms that True f by (simp add: grown_def first_news_def)
  then have "free_blocks E s' 0 n = filter (\<lambda>b. b \<noteq> p) (free_blocks E s 0 n)"
    unfolding free_blocks_def filter_filter by (intro filter_cong) auto
  also have "\<dots> = ps" using f \<open>p \<notin> set ps\<close> by (auto simp: filter_id_conv)
  finally show ?thesis using True f by (simp add: first_news_def)
next
  case False
  then have "first_news E xs n s = []" by (auto simp: first_news_def)
  then show ?thesis using assms by (auto simp: grown_def intro!: free_blocks_cong)
qed

text \<open>
  Making room in a file for a write that ends after its end. The file gets the first free
  blocks it lacks; when the search reaches the end of the bitmap everything is taken back.
\<close>

lemma write_expand_inv:
  assumes E: "bits E = ops" and inv: "fs_inv E nbits n R C s" and n: "0 < n"
    and i: "i < FILE_BLOCKS_MOUNT" "state (ftable s ! i) = REGULAR"
    and more: "unat (file_size (ftable s ! i)) < unat off + unat sz"
    and small: "unat off + unat sz < 2 ^ 31"
  defines "want \<equiv> nblocks (unat off + unat sz) - length (C i)"
  obtains ok s' t where "write_expand E i sz off s = Some (ok, s')"
    and "trace s' = trace s @ t" and "mutex_pairs t" and "dblocks s' = dblocks s" and "only_file i s s'"
    and "ok \<longrightarrow> fs_inv E nbits n R (C(i := C i @ take want (free_blocks E s 0 n))) s'
          \<and> ftable s' ! i = (ftable s ! i)\<lparr>file_size := off + sz, first_block := first_block (ftable s' ! i)\<rparr>
          \<and> want \<le> length (free_blocks E s 0 n)"
    and "\<not> ok \<longrightarrow> fs_inv E nbits n R C s' \<and> ftable s' = ftable s"
    and "want < length (free_blocks E s 0 n) \<longrightarrow> ok"
proof -
  let ?f = "ftable s ! i" and ?F = "First_block i" and ?free = "free_blocks E s 0 n"
  let ?s1 = "set_size i (off + sz) s"
  note own = fs_inv_file [OF inv i]
  note ar = size_arith [OF less_imp_le [OF more] small]
  have new: "unat (off + sz) = unat off + unat sz" using small by (rule unat_add_small)
  have chain1: "chain_at ?s1 ?F (C i)" using own(1) by simp
  have range1: "data_range nbits n ?s1" using fs_inv_range(1) [OF inv] by simp
  obtain ok1 s2 t1 where ok1: "write_first_block E i (to_int (file_size ?f)) ?s1
        = Some (ok1, if ok1 then s2 else set_size i (of_cint (to_int (file_size ?f))) s2)"
      and g: "grown E nbits (tail_cell ?F (C i)) (first_news E (C i) n ?s1) ?s1 s2"
      and room: "ok1 \<longleftrightarrow> C i \<noteq> [] \<or> free_blocks E ?s1 0 n \<noteq> []"
      and t1: "trace s2 = trace ?s1 @ t1" "mutex_pairs t1"
    by (rule write_first_block_grown [OF E range1 chain1, of "to_int (file_size ?f)"]) (use own(3) in auto)
  note unfold = write_expand_def [of E i sz off s, unfolded Let_def ar(2), unfolded ar(4)] ar(2)
  define news1 where "news1 = first_news E (C i) n ?s1"
  define k where "k = length news1"
  have news1: "news1 = take k ?free"
    by (cases ?free) (simp_all add: news1_def k_def first_news_def)
  show ?thesis
  proof (cases ok1)
    case False
    then have "C i = []" and free: "?free = []" using room by simp_all
    let ?s3 = "set_size i (file_size ?f) s2"
    have g0: "grown E nbits (tail_cell ?F (C i)) [] ?s1 s2"
      using g \<open>C i = []\<close> free by (simp add: first_news_def)
    then have "load (tail_cell ?F (C i)) ?s3 = Some END_OF_FILE" by (simp add: grown_def)
    note r = rollback_inv [OF inv i g0 released_refl [OF this]]
    have "write_expand E i sz off s = Some (False, ?s3)" using ok1 False by (simp add: unfold)
    moreover have "0 < want" using own(2) \<open>C i = []\<close> more by (simp add: want_def)
    ultimately show ?thesis using r free t1 by (intro that [of False ?s3 t1]) simp_all
  next
    case True
    let ?ys = "C i @ news1"
    have fresh: "set news1 \<inter> set (C i) = {}"
      using news1 fs_inv_free(3) [OF inv] in_set_takeD by fast
    have chain2: "chain_at s2 ?F ?ys"
      using grown_chain [OF chain1 g] fresh by (simp add: news1_def)
    have ys: "?ys \<noteq> []" using True room by (auto simp: news1_def first_news_def)
    have len: "length ?ys \<le> nblocks (unat off + unat sz)"
    proof (cases "C i")
      case Nil
      then have "length news1 \<le> 1" by (simp add: news1_def first_news_def)
      moreover have "0 < nblocks (unat off + unat sz)" unfolding nblocks_pos using more by linarith
      ultimately show ?thesis unfolding Nil append_Nil by linarith
    next
      case Cons
      then show ?thesis using own(2) nblocks_mono [of "unat (file_size ?f)" "unat off + unat sz"] more
        by (simp add: news1_def first_news_def)
    qed
    define need where "need = int (unat off + unat sz) - int (64 * length ?ys)"
    have q: "rounds 64 need = nblocks (unat (off + sz)) - length ?ys"
      unfolding need_def new by (rule rounds_bytes)
    have free2: "free_blocks E s2 0 n = drop k ?free"
      using free_blocks_first_news [OF g] fs_inv_range(4) [OF inv] by (simp add: k_def news1_def)
    have geo2: "geo s2 = geo s" using grown_only_file(1) [OF g] by (simp add: only_file_def)
    let ?c2 = "tail_cell ?F ?ys"
    let ?stop = "stop_at 0 n (rounds 64 need) (free_blocks E s2 0 n)"
    have g1: "grown E nbits (tail_cell ?F (C i)) news1 ?s1 s2" using g by (simp add: news1_def)
    obtain s3 where s3: "add_blocks E 64 need (BM_DATA_0 (geo s)) ?c2 (mutex_lock s2)
          = Some (BM_DATA_0 (geo s) + int ?stop, s3)" "trace s3 = trace s2 @ [Mutex_lock]"
      and yes: "?stop < n \<longrightarrow> fs_inv E nbits n R (C(i := C i @ take want ?free)) (mutex_unlock s3)
          \<and> only_file i s s3 \<and> dblocks s3 = dblocks s
          \<and> ftable s3 ! i = ?f\<lparr>file_size := off + sz, first_block := first_block (ftable s3 ! i)\<rparr>
          \<and> want \<le> length ?free"
      and no: "\<not> ?stop < n \<longrightarrow> (\<exists>s5. release_after E i (int (length (C i)))
            (set_size i (file_size ?f) (mutex_unlock s3)) = Some s5
          \<and> fs_inv E nbits n R C s5 \<and> ftable s5 = ftable s \<and> dblocks s5 = dblocks s \<and> only_file i s s5
          \<and> trace s5 = trace s3 @ [Mutex_unlock, Mutex_lock, Mutex_unlock])"
      using extend_step [OF E inv i g1 news1 _ q _ free2] len
      unfolding new want_def k_def by auto
    have last: "BM_DATA_1 (geo s) = BM_DATA_0 (geo s) + int n - 1"
      using fs_inv_range(1) [OF inv] by (simp add: data_range_def)
    have nb: "necessary_blocks (int (unat (file_size ?f))) = int (length (C i))"
      by (simp only: necessary_blocks_nat own(2))
    have need: "to_int (off + sz - file_size ?f)
        - (64 - (int (unat (file_size ?f)) - int ((length ?ys - 1) * 64))) = need"
    proof -
      have "int ((length ?ys - 1) * 64) = 64 * int (length ?ys) - 64"
        using ys by (cases ?ys) (simp_all add: algebra_simps)
      then show ?thesis unfolding ar(3) need_def by simp
    qed
    have run: "write_expand E i sz off s =
        (if BM_DATA_0 (geo s) + int ?stop > BM_DATA_1 (geo s)
         then Option.bind (release_after E i (int (length (C i)))
               (set_size i (file_size ?f) (mutex_unlock s3))) (\<lambda>s5. Some (False, s5))
         else Some (True, mutex_unlock s3))"
      using ok1 True follow_walk [OF chain2 ys] s3(1) need
      by (simp add: unfold ar(1) nb [simplified])
    have enough: "?stop < n" if "want < length ?free"
    proof (rule stop_at_less)
      show "rounds 64 need < length (free_blocks E s2 0 n)"
        using that q len unfolding free2 new want_def by (simp add: k_def)
    qed
    show ?thesis
    proof (cases "?stop < n")
      case True
      then show ?thesis
        using run last yes s3(2) t1 mutex_pairs_append [OF t1(2) mutex_pairs_simps(2)]
        by (intro that [of True "mutex_unlock s3" "t1 @ [Mutex_lock, Mutex_unlock]"]) simp_all
    next
      case False
      obtain s5 where s5: "release_after E i (int (length (C i)))
            (set_size i (file_size ?f) (mutex_unlock s3)) = Some s5"
          "fs_inv E nbits n R C s5" "ftable s5 = ftable s" "dblocks s5 = dblocks s" "only_file i s s5"
          "trace s5 = trace s3 @ [Mutex_unlock, Mutex_lock, Mutex_unlock]"
        using no False by blast
      then show ?thesis
        using run last False s5 s3(2) t1 enough
          mutex_pairs_append [OF t1(2), of "[Mutex_lock, Mutex_unlock] @ [Mutex_lock, Mutex_unlock]"]
          mutex_pairs_append [OF mutex_pairs_simps(2) mutex_pairs_simps(2)]
        by (intro that [of False s5 "t1 @ [Mutex_lock, Mutex_unlock, Mutex_lock, Mutex_unlock]"])
          (auto simp: only_file_def)
    qed
  qed
qed

end

section \<open>Copying into the blocks\<close>

lemma blit_two:
  assumes "length a = 64" and "off < 64" and "off + length buf \<le> 64 + length b"
  shows "blit (a @ b) off buf
      = blit a off (take (64 - off) buf) @ blit b 0 (drop (64 - off) buf)"
proof (cases "length buf \<le> 64 - off")
  case True
  then show ?thesis using assms by (simp add: blit_left)
next
  case False
  define p q where "p = take (64 - off) buf" and "q = drop (64 - off) buf"
  have buf: "buf = p @ q" and p: "length p = 64 - off" using False by (simp_all add: p_def q_def)
  have "blit (a @ b) off (p @ q) = take off a @ p @ q @ drop (length q) b"
    using assms p by (simp add: blit_def)
  also have "\<dots> = blit a off p @ blit b 0 q" using assms p by (simp add: blit_def)
  finally show ?thesis by (simp add: buf p)
qed

text \<open>A copy changes the data blocks of the file and nothing else.\<close>

definition data_only :: "nat list \<Rightarrow> 'bm osada \<Rightarrow> 'bm osada \<Rightarrow> bool" where
  "data_only bs s s' \<longleftrightarrow> geo s' = geo s \<and> ftable s' = ftable s \<and> maptab s' = maptab s
     \<and> bmap s' = bmap s \<and> trace s' = trace s \<and> length (dblocks s') = length (dblocks s)
     \<and> (\<forall>b < length (dblocks s). length (dblocks s' ! b) = length (dblocks s ! b))
     \<and> (\<forall>b. b \<notin> set bs \<longrightarrow> dblocks s' ! b = dblocks s ! b)"

lemma data_only_refl [simp]: "data_only bs s s"
  by (simp add: data_only_def)

lemma data_only_fields:
  assumes "data_only bs s s'"
  shows "ftable s' = ftable s" "maptab s' = maptab s" "bmap s' = bmap s" "geo s' = geo s"
    "trace s' = trace s" "load d s' = load d s" "chain_at s' c xs = chain_at s c xs"
    "its_busy E s' b = its_busy E s b" "blocks_ok n s \<Longrightarrow> blocks_ok n s'"
proof -
  show "ftable s' = ftable s" "maptab s' = maptab s" "bmap s' = bmap s" "geo s' = geo s"
    "trace s' = trace s" using assms by (simp_all add: data_only_def)
  then show load: "load d s' = load d s" for d by (cases d) simp_all
  show "chain_at s' c xs = chain_at s c xs" by (rule chain_frame) (rule load)
  show "its_busy E s' b = its_busy E s b" using \<open>bmap s' = bmap s\<close> by (simp add: its_busy_def)
  show "blocks_ok n s \<Longrightarrow> blocks_ok n s'" using assms by (auto simp: data_only_def blocks_ok_def)
qed

lemma data_only_trans:
  assumes "data_only bs s s1" and "data_only cs s1 s2" and "set cs \<subseteq> set ds" and "set bs \<subseteq> set ds"
  shows "data_only ds s s2"
proof -
  have "dblocks s2 ! b = dblocks s ! b" if "b \<notin> set ds" for b
  proof -
    have "b \<notin> set bs" and "b \<notin> set cs" using that assms(3,4) by blast+
    then show ?thesis using assms(1,2) by (simp add: data_only_def)
  qed
  then show ?thesis using assms(1,2) by (simp add: data_only_def)
qed

lemma write_block_data_only:
  assumes "b < length (dblocks s)" and "off + length bs \<le> length (dblocks s ! b)"
  obtains s' where "write_block b off bs s = Some s'" and "data_only [b] s s'"
    and "dblocks s' ! b = blit (dblocks s ! b) off bs"
  using assms
  by (cases "bs = []")
    (auto simp: write_block_def data_only_def length_blit nth_list_update)

text \<open>One round of the copy loop.\<close>

lemma write_loop_step:
  assumes "load c s = Some v" and "load (Map_entry (unat v)) s = Some v'"
    and "write_block b off (take w (drop pos buffer)) s = Some s1" and "data_only [b] s s1"
    and "0 < len" and "w = min len (64 - off)" and "off < 64"
  shows "write_loop c b (int len) off pos buffer s
      = (if v' = END_OF_FILE then Some s1
         else write_loop (Map_entry (unat v)) (unat v') (int (len - w)) 0 (pos + w) buffer s1)"
proof -
  have w: "(if int len \<ge> int 64 - int off then int 64 - int off else int len) = int w"
    using assms(6,7) by auto
  have "load c s1 = Some v" and "load (Map_entry (unat v)) s1 = Some v'"
    using assms(1,2) by (simp_all only: data_only_fields(6) [OF assms(4)])
  moreover have "int len - int w = int (len - w)" using assms(6) by auto
  moreover have "(0 < int len) = True" using assms(5) by simp
  ultimately show ?thesis
    unfolding write_loop.simps [of c b "int len" off pos buffer s] Let_def w
    by (simp only: assms(3) if_True nat_int bind.bind_lunit)
qed

lemma write_loop_chain:
  assumes "chain_at s c (b # bs)" and "blocks_ok n s" and "\<forall>x \<in> set (b # bs). x < n"
    and "off < 64" and "off + (length buffer - pos) \<le> 64 * length (b # bs)"
  shows "\<exists>s'. write_loop c b (int (length buffer - pos)) off pos buffer s = Some s'
      \<and> data_only (b # bs) s s'
      \<and> chain_data s' (b # bs) = blit (chain_data s (b # bs)) off (drop pos buffer)"
  using assms
proof (induction bs arbitrary: c b s off pos)
  note assms = TrueI
  have first: "\<exists>s1. write_block b off (take (min (length buffer - pos) (64 - off)) (drop pos buffer)) s = Some s1
      \<and> data_only [b] s s1
      \<and> dblocks s1 ! b = blit (dblocks s ! b) off (take (64 - off) (drop pos buffer))"
    if "blocks_ok n s" "b < n" "off < 64" for s b off pos
  proof -
    have "off + length (take (64 - off) (drop pos buffer)) \<le> length (dblocks s ! b)"
      using that by (auto simp: blocks_ok_def)
    moreover have "take (min (length buffer - pos) (64 - off)) (drop pos buffer) = take (64 - off) (drop pos buffer)"
      by (simp add: min_def)
    ultimately show ?thesis
      using that write_block_data_only [of b s off "take (64 - off) (drop pos buffer)"]
      by (auto simp: blocks_ok_def)
  qed
  {
    case Nil
    show ?case
    proof (cases "length buffer - pos = 0")
      case True
      then show ?thesis by (auto simp: write_loop.simps [of c])
    next
      case False
      obtain v where v: "load c s = Some v" "load (Map_entry (unat v)) s = Some END_OF_FILE"
          and b: "b = unat v"
        using Nil.prems(1) by (rule chain_Cons_load) (simp only: chain_at.simps(1))
      obtain s1 where s1: "write_block b off (take (min (length buffer - pos) (64 - off)) (drop pos buffer)) s = Some s1"
          "data_only [b] s s1" "dblocks s1 ! b = blit (dblocks s ! b) off (take (64 - off) (drop pos buffer))"
        using first [of s b off pos] Nil.prems by auto
      have "write_loop c b (int (length buffer - pos)) off pos buffer s = Some s1"
        using write_loop_step [OF v s1(1,2) [unfolded b] neq0_conv [THEN iffD1, OF False] refl Nil.prems(4)]
        unfolding b by (simp only: refl if_True)
      then show ?thesis using s1 Nil.prems(5) by simp
    qed
  next
    case (Cons b' bs)
    show ?case
    proof (cases "length buffer - pos = 0")
      case True
      then show ?thesis by (auto simp: write_loop.simps [of c])
    next
      case False
      define w where "w = min (length buffer - pos) (64 - off)"
      obtain v v' where v: "load c s = Some v" "load (Map_entry (unat v)) s = Some v'"
          and b: "b = unat v" and v': "v' \<noteq> END_OF_FILE" "b' = unat v'"
        using Cons.prems(1) by (elim chain_Cons_load) blast
      have dist: "b \<notin> set (b' # bs)" using chain_distinct [OF Cons.prems(1)] by simp
      obtain s1 where s1: "write_block b off (take w (drop pos buffer)) s = Some s1"
          "data_only [b] s s1" "dblocks s1 ! b = blit (dblocks s ! b) off (take (64 - off) (drop pos buffer))"
        using first [of s b off pos] Cons.prems unfolding w_def by auto
      have "chain_at s1 (Map_entry b) (b' # bs)"
        using Cons.prems(1) by (simp add: data_only_fields(6,7) [OF s1(2)] del: load.simps)
      moreover have "blocks_ok n s1" using data_only_fields(9) [OF s1(2)] Cons.prems(2) by simp
      moreover have "0 + (length buffer - (pos + w)) \<le> 64 * length (b' # bs)"
        using Cons.prems(4,5) by (auto simp: w_def)
      ultimately obtain s' where s': "write_loop (Map_entry b) b' (int (length buffer - (pos + w))) 0 (pos + w) buffer s1 = Some s'"
          "data_only (b' # bs) s1 s'"
          "chain_data s' (b' # bs) = blit (chain_data s1 (b' # bs)) 0 (drop (pos + w) buffer)"
        using Cons.IH [of s1 "Map_entry b" b' 0 "pos + w"] Cons.prems(3) by auto
      have "write_loop c b (int (length buffer - pos)) off pos buffer s = Some s'"
        using write_loop_step [OF v s1(1,2) [unfolded b] neq0_conv [THEN iffD1, OF False] w_def Cons.prems(4)]
          v'(1) s'(1) unfolding b v'(2) by (simp only: if_False diff_diff_left)
      moreover have "data_only (b # b' # bs) s s'"
        by (rule data_only_trans [OF s1(2) s'(2)]) auto
      moreover have "chain_data s' (b # b' # bs) = blit (chain_data s (b # b' # bs)) off (drop pos buffer)"
      proof -
        have here: "dblocks s' ! b = dblocks s1 ! b" using s'(2) dist by (simp add: data_only_def)
        have rest: "chain_data s1 (b' # bs) = chain_data s (b' # bs)"
          using s1(2) dist by (intro chain_data_cong) (auto simp: data_only_def)
        have len: "length (dblocks s ! b) = 64" "length (chain_data s (b' # bs)) = 64 * length (b' # bs)"
          using Cons.prems(2,3) length_chain_data [of n s "b' # bs"] by (auto simp: blocks_ok_def)
        have "drop (pos + w) buffer = drop (64 - off) (drop pos buffer)"
          by (auto simp: w_def min_def add.commute)
        then show ?thesis
          using blit_two [OF len(1) Cons.prems(4), of "drop pos buffer" "chain_data s (b' # bs)"]
            Cons.prems(5) len(2) s'(3) s1(3) here rest
          by (simp add: chain_data_simps(2) [of _ b])
      qed
      ultimately show ?thesis by blast
    qed
  }
qed

lemma write_bytes_chain:
  assumes "chain_at s (First_block i) bs" and "blocks_ok n s" and "\<forall>x \<in> set bs. x < n"
    and "unat off + unat sz \<le> 64 * length bs" and "unat sz = length buffer" and "buffer \<noteq> []"
    and "unat sz < 2 ^ 31"
  obtains s' where "write_bytes i sz off buffer s = Some s'" and "data_only bs s s'"
    and "chain_data s' bs = blit (chain_data s bs) (unat off) buffer"
proof -
  define m where "m = unat off div 64"
  have off: "unat off = 64 * m + (unat off - 64 * m)" "unat off - 64 * m < 64"
    by (simp_all add: m_def minus_mult_div_eq_mod)
  have "0 < length buffer" using assms(6) by simp
  then have m: "m < length bs" using assms(4,5) off(1) by linarith
  obtain b cs where cut: "drop m bs = b # cs" using m by (cases "drop m bs") auto
  then have bs: "bs = take m bs @ b # cs" by (metis append_take_drop_id)
  let ?c = "tail_cell (First_block i) (take m bs)"
  have chain: "chain_at s ?c (b # cs)" using chain_drop assms(1) bs by metis
  then obtain v where v: "load ?c s = Some v" "b = unat v" by (rule chain_Cons_load)
  have skip: "skip_blocks m (First_block i) s = Some ?c"
    using skip_blocks_chain [OF assms(1), of m] m by simp
  have len: "length (take m bs) = m" using m by simp
  have tot: "length bs = m + length (b # cs)" using bs len by (metis length_append)
  have "unat off - 64 * m + (length buffer - 0) \<le> 64 * length (b # cs)"
    using assms(4,5) off(1) tot by linarith
  moreover have "\<forall>x\<in>set (b # cs). x < n" using assms(3) cut by (metis in_set_dropD)
  ultimately obtain s' where s': "write_loop ?c b (int (length buffer - 0)) (unat off - 64 * m) 0 buffer s = Some s'"
      "data_only (b # cs) s s'"
      "chain_data s' (b # cs) = blit (chain_data s (b # cs)) (unat off - 64 * m) (drop 0 buffer)"
    using write_loop_chain [OF chain assms(2) _ off(2), of buffer 0] by blast
  have "to_int sz = int (length buffer)" using to_int_small [OF assms(7)] assms(5) by simp
  then have run: "write_bytes i sz off buffer s = Some s'"
    using skip v s'(1) by (simp add: write_bytes_def Let_def flip: m_def)
  have only: "data_only bs s s'"
    using data_only_trans [OF data_only_refl [of bs] s'(2), of bs] bs by (metis order_refl set_append
        sup_ge2)
  have head: "chain_data s' (take m bs) = chain_data s (take m bs)"
  proof (rule chain_data_cong)
    fix x assume "x \<in> set (take m bs)"
    then have "x \<notin> set (b # cs)"
      using chain_distinct [OF assms(1)] by (subst (asm) bs) auto
    then show "dblocks s' ! x = dblocks s ! x" using s'(2) by (simp add: data_only_def)
  qed
  have hlen: "length (chain_data s (take m bs)) = 64 * m"
    using length_chain_data [OF assms(2), of "take m bs"] assms(3) len by (metis in_set_takeD)
  have "chain_data s' bs = chain_data s (take m bs) @ blit (chain_data s (b # cs)) (unat off - 64 * m) buffer"
    using head s'(3) by (subst bs) (simp only: chain_data_simps(3) drop_0)
  also have "\<dots> = blit (chain_data s (take m bs) @ chain_data s (b # cs)) (unat off) buffer"
    using off(1) hlen blit_right [of "chain_data s (take m bs)"] by metis
  also have "\<dots> = blit (chain_data s bs) (unat off) buffer"
    using arg_cong [OF bs, of "chain_data s"] by (simp only: chain_data_simps(3))
  finally show thesis using that run only by blast
qed

text \<open>Consistency does not depend on the contents.\<close>

lemma fs_inv_data_only:
  "data_only bs s s' \<Longrightarrow> fs_inv E nbits n R C s \<Longrightarrow> fs_inv E nbits n R C s'"
  using data_only_fields [of bs s s'] unfolding fs_inv_def data_range_def by simp

lemma length_file_bytes:
  assumes "fs_inv E nbits n R C s" and "i < FILE_BLOCKS_MOUNT" and "state (ftable s ! i) = REGULAR"
  shows "length (file_bytes C i s) = unat (file_size (ftable s ! i))"
    and "length (chain_data s (C i)) = 64 * length (C i)"
proof -
  show "length (chain_data s (C i)) = 64 * length (C i)"
    using length_chain_data fs_inv_range(2) [OF assms(1)] fs_inv_block(1) [OF assms(1)] by blast
  then show "length (file_bytes C i s) = unat (file_size (ftable s ! i))"
    using fs_inv_size(2) [OF assms] by (simp add: file_bytes_def)
qed

text \<open>
  What POSIX promises of \<^verbatim>\<open>write\<close>: \<open>pwrite old off buf\<close> is the file after \<open>buf\<close> was written at
  \<open>off\<close>, for an offset inside the file or at its end.
\<close>

definition pwrite :: "byte list \<Rightarrow> nat \<Rightarrow> byte list \<Rightarrow> byte list" where
  "pwrite old off buf = take off old @ buf @ drop (off + length buf) old"

lemma pwrite_take:
  assumes "k \<le> length d" and "off \<le> k" and "off + length buf \<le> length d"
  shows "take (max k (off + length buf)) (blit d off buf) = pwrite (take k d) off buf"
proof (cases "k \<le> off + length buf")
  case True
  then show ?thesis using assms by (simp add: blit_def pwrite_def max_def)
next
  case False
  then show ?thesis using assms by (simp add: blit_def pwrite_def max_def drop_take)
qed

text \<open>The blocks of another file are not the blocks of this one.\<close>

lemma file_bytes_other:
  assumes "fs_inv E nbits n R C s" and "fs_inv E nbits n R C' s'" and "C' j = C j" and "i \<noteq> j"
    and "only_file i s s'" and "\<And>b. b \<notin> set (C' i) \<Longrightarrow> dblocks s' ! b = dblocks s ! b"
  shows "file_bytes C' j s' = file_bytes C j s"
proof (cases "j < FILE_BLOCKS_MOUNT")
  case False
  then have "C j = []" using assms(1) unfolding fs_inv_def by blast
  then show ?thesis using assms(3) by (simp add: file_bytes_def)
next
  case True
  have "chain_data s' (C' j) = chain_data s (C j)"
    unfolding assms(3) using assms(4,6) fs_inv_block(4) [OF assms(2)] assms(3)
    by (intro chain_data_cong) metis
  then show ?thesis
    using True assms(4,5) fs_inv_range(3) [OF assms(1)] by (simp add: file_bytes_def only_file_def)
qed

text \<open>The copy, once there is room.\<close>

lemma write_bytes_inv:
  assumes inv: "fs_inv E nbits n R C s" and i: "i < FILE_BLOCKS_MOUNT" "state (ftable s ! i) = REGULAR"
    and len: "unat sz = length buffer" "buffer \<noteq> []"
    and room: "unat off + unat sz \<le> unat (file_size (ftable s ! i))"
  obtains s' where "write_bytes i sz off buffer s = Some s'" and "data_only (C i) s s'"
    and "chain_data s' (C i) = blit (chain_data s (C i)) (unat off) buffer"
proof (rule write_bytes_chain [of s i "C i" n off sz buffer])
  show "unat off + unat sz \<le> 64 * length (C i)" using room fs_inv_size(2) [OF inv i] by linarith
  show "unat sz < 2 ^ 31" using room fs_inv_size(3) [OF inv i] by linarith
  show "\<forall>x\<in>set (C i). x < n" using fs_inv_block(1) [OF inv] by blast
qed (use that len fs_inv_file(1) [OF inv i] fs_inv_range(2) [OF inv] in auto)

text \<open>
  The end of a successful write: from an image \<open>s2\<close> that is \<open>s\<close> with room made in file \<open>i\<close>, the
  copy leaves the contents that \<open>pwrite\<close> names.
\<close>

lemma write_copy_inv:
  assumes inv: "fs_inv E nbits n R C s" and i: "i < FILE_BLOCKS_MOUNT" "state (ftable s ! i) = REGULAR"
    and len: "unat sz = length buffer" "buffer \<noteq> []"
    and inv2: "fs_inv E nbits n R (C(i := C i @ extra)) s2"
    and s2: "dblocks s2 = dblocks s" "only_file i s s2"
    and f2: "state (ftable s2 ! i) = REGULAR"
      "unat (file_size (ftable s2 ! i)) = max (unat (file_size (ftable s ! i))) (unat off + unat sz)"
  obtains s3 where "write_bytes i sz off buffer s2 = Some s3" and "trace s3 = trace s2"
    and "only_file i s s3" and "ftable s3 = ftable s2"
    and "fs_inv E nbits n R (C(i := C i @ extra)) s3"
    and "\<And>j. j \<noteq> i \<Longrightarrow> file_bytes (C(i := C i @ extra)) j s3 = file_bytes C j s"
    and "unat off \<le> unat (file_size (ftable s ! i)) \<Longrightarrow>
          file_bytes (C(i := C i @ extra)) i s3 = pwrite (file_bytes C i s) (unat off) buffer"
proof -
  let ?C = "C(i := C i @ extra)" and ?old = "unat (file_size (ftable s ! i))"
  have "unat off + unat sz \<le> unat (file_size (ftable s2 ! i))" using f2(2) by simp
  then obtain s3 where s3: "write_bytes i sz off buffer s2 = Some s3" "data_only (?C i) s2 s3"
      "chain_data s3 (?C i) = blit (chain_data s2 (?C i)) (unat off) buffer"
    using write_bytes_inv [OF inv2 i(1) f2(1) len] by blast
  note same = data_only_fields [OF s3(2)]
  have inv3: "fs_inv E nbits n R ?C s3" by (rule fs_inv_data_only [OF s3(2) inv2])
  have only: "only_file i s s3" using s2(2) same by (simp add: only_file_def)
  have whole: "chain_data s2 xs = chain_data s xs" for xs
    using s2(1) by (intro chain_data_cong) simp
  show thesis
  proof (rule that [OF s3(1) same(5) only same(1) inv3])
    fix j assume "j \<noteq> i"
    then show "file_bytes ?C j s3 = file_bytes C j s"
      using file_bytes_other [OF inv inv3 _ _ only, of j] s3(2) s2(1) by (simp add: data_only_def)
  next
    assume off: "unat off \<le> ?old"
    have inside: "?old \<le> length (chain_data s (C i))"
      using length_file_bytes(2) [OF inv i] fs_inv_size(2) [OF inv i] by simp
    have "max ?old (unat off + unat sz) \<le> length (chain_data s2 (?C i))"
      using length_file_bytes(2) [OF inv2 i(1) f2(1)] fs_inv_size(2) [OF inv2 i(1) f2(1)] f2(2)
      by linarith
    then show "file_bytes ?C i s3 = pwrite (file_bytes C i s) (unat off) buffer"
      using pwrite_take [of ?old "chain_data s (?C i)" "unat off" buffer] off s3(3) same(1) f2(2) len(1)
        inside by (simp add: file_bytes_def whole)
  qed
qed

context bitarray
begin

lemma write_node_inv:
  assumes E: "bits E = ops" and inv: "fs_inv E nbits n R C s" and n: "0 < n"
    and i: "i < FILE_BLOCKS_MOUNT" "state (ftable s ! i) = REGULAR"
    and len: "unat sz = length buffer" "buffer \<noteq> []" and small: "unat off + unat sz < 2 ^ 31"
  defines "old \<equiv> unat (file_size (ftable s ! i))" and "new \<equiv> unat off + unat sz"
  obtains code s' t C' where "write_node E i sz off buffer s = Some (code, s')"
    and "trace s' = trace s @ t" and "mutex_pairs t" and "only_file i s s'"
    and "fs_inv E nbits n R C' s'"
    and "\<forall>j. j \<noteq> i \<longrightarrow> C' j = C j \<and> file_bytes C' j s' = file_bytes C j s"
    and "code = OSADA_SEXE \<and> state (ftable s' ! i) = REGULAR
          \<and> unat (file_size (ftable s' ! i)) = max old new
          \<and> (unat off \<le> old \<longrightarrow> file_bytes C' i s' = pwrite (file_bytes C i s) (unat off) buffer)
        \<or> code = OSADA_ENOSPC \<and> C' = C \<and> dblocks s' = dblocks s
          \<and> ftable s' = (ftable s)[i := (ftable s ! i)\<lparr>lastmod := now E\<rparr>]"
    and "nblocks new - nblocks old < length (free_blocks E s 0 n) \<longrightarrow> code = OSADA_SEXE"
proof -
  let ?f = "ftable s ! i" and ?free = "free_blocks E s 0 n"
  let ?s1 = "set_lastmod i (now E) s"
  note own = fs_inv_file [OF inv i]
  have inv1: "fs_inv E nbits n R C ?s1" using inv by simp
  have f1: "ftable ?s1 ! i = ?f\<lparr>lastmod := now E\<rparr>" using own(3) by (simp add: entry_nth)
  have i1: "state (ftable ?s1 ! i) = REGULAR" using f1 i by simp
  have same1: "file_bytes C j ?s1 = file_bytes C j s" for j
    using own(3) chain_data_cong [of _ ?s1 s] by (cases "j = i") (simp_all add: file_bytes_def entry_nth)
  have cfs: "of_cint (to_int (file_size ?f)) = file_size ?f"
    using to_int_small [OF fs_inv_size(3) [OF inv i]] by (simp only: of_cint_int) simp
  have new': "unat (off + sz) = new" using unat_add_small [OF small] by (simp add: new_def)
  have cond: "off + sz > file_size ?f \<longleftrightarrow> old < new" using new' by (simp add: word_less_nat_alt old_def)
  show thesis
  proof (cases "old < new")
    case False
    obtain s3 where s3: "write_bytes i sz off buffer ?s1 = Some s3" "trace s3 = trace ?s1"
        "only_file i ?s1 s3" "ftable s3 = ftable ?s1" "fs_inv E nbits n R (C(i := C i @ [])) s3"
        "\<And>j. j \<noteq> i \<Longrightarrow> file_bytes (C(i := C i @ [])) j s3 = file_bytes C j ?s1"
        "unat off \<le> unat (file_size (ftable ?s1 ! i)) \<Longrightarrow>
          file_bytes (C(i := C i @ [])) i s3 = pwrite (file_bytes C i ?s1) (unat off) buffer"
      using write_copy_inv [OF inv1 i(1) i1 len, of "[]" ?s1 off] inv1 i1 False f1
      by (auto simp: old_def new_def)
    have "write_node E i sz off buffer s = Some (OSADA_SEXE, s3)"
      using s3(1) cond False by (simp add: write_node_def Let_def f1 cfs)
    moreover have "only_file i s s3" using only_file_trans [OF only_file_entry(2) s3(3)] .
    ultimately show thesis
      using s3(2,4-7) i1 f1 False
      by (intro that [of OSADA_SEXE s3 "[]" C]) (auto simp: same1 old_def)
  next
    case True
    have more: "unat (file_size (ftable ?s1 ! i)) < unat off + unat sz"
      using True f1 by (simp add: old_def new_def)
    obtain ok s2 t where x: "write_expand E i sz off ?s1 = Some (ok, s2)"
      "trace s2 = trace ?s1 @ t" "mutex_pairs t" "dblocks s2 = dblocks ?s1" "only_file i ?s1 s2"
      and yes': "ok \<longrightarrow> fs_inv E nbits n R (C(i := C i @ take (nblocks (unat off + unat sz) - length (C i))
              (free_blocks E ?s1 0 n))) s2
          \<and> ftable s2 ! i = (ftable ?s1 ! i)\<lparr>file_size := off + sz, first_block := first_block (ftable s2 ! i)\<rparr>
          \<and> nblocks (unat off + unat sz) - length (C i) \<le> length (free_blocks E ?s1 0 n)"
      and no': "\<not> ok \<longrightarrow> fs_inv E nbits n R C s2 \<and> ftable s2 = ftable ?s1"
      and enough': "nblocks (unat off + unat sz) - length (C i) < length (free_blocks E ?s1 0 n) \<longrightarrow> ok"
      using write_expand_inv [OF E inv1 n i(1) i1 more small] by blast
    have no: "fs_inv E nbits n R C s2" "ftable s2 = ftable ?s1" if "\<not> ok" using no' that by simp_all
    have yes: "fs_inv E nbits n R (C(i := C i @ take (nblocks new - length (C i)) ?free)) s2"
      "ftable s2 ! i = (ftable ?s1 ! i)\<lparr>file_size := off + sz, first_block := first_block (ftable s2 ! i)\<rparr>"
      if ok using yes' that by (simp_all add: new_def)
    have enough: "nblocks new - length (C i) < length ?free \<Longrightarrow> ok" using enough' by (simp add: new_def)
    have only2: "only_file i s s2" using only_file_trans [OF only_file_entry(2) x(5)] .
    show thesis
    proof (cases ok)
      case False
      have "write_node E i sz off buffer s = Some (OSADA_ENOSPC, s2)"
        using x(1) cond True False by (simp add: write_node_def Let_def f1 cfs)
      moreover have "ftable s2 = (ftable s)[i := ?f\<lparr>lastmod := now E\<rparr>]"
        using no [OF False] by (simp add: set_lastmod_def write_entry_def)
      moreover have "file_bytes C j s2 = file_bytes C j s" if "j \<noteq> i" for j
        using that only2 x(4) no [OF False] file_bytes_other [OF inv no(1) [OF False] refl _ only2, of j] by simp
      ultimately show thesis
        using x no [OF False] enough False only2 own(2)
        by (intro that [of OSADA_ENOSPC s2 t C]) (auto simp: old_def)
    next
      case True': True
      let ?more = "take (nblocks new - length (C i)) ?free"
      have f2: "state (ftable s2 ! i) = REGULAR" "unat (file_size (ftable s2 ! i)) = max old new"
        using arg_cong [OF yes(2) [OF True'], of state] arg_cong [OF yes(2) [OF True'], of file_size]
          f1 i(2) new' True by simp_all
      obtain s3 where s3: "write_bytes i sz off buffer s2 = Some s3" "trace s3 = trace s2"
          "only_file i s s3" "ftable s3 = ftable s2" "fs_inv E nbits n R (C(i := C i @ ?more)) s3"
          "\<And>j. j \<noteq> i \<Longrightarrow> file_bytes (C(i := C i @ ?more)) j s3 = file_bytes C j s"
          "unat off \<le> old \<Longrightarrow>
            file_bytes (C(i := C i @ ?more)) i s3 = pwrite (file_bytes C i s) (unat off) buffer"
        using write_copy_inv [OF inv i len yes(1) [OF True'], of off] x(4) only2 f2
        by (auto simp: old_def new_def)
      have "write_node E i sz off buffer s = Some (OSADA_SEXE, s3)"
        using x(1) cond True True' s3(1) by (simp add: write_node_def Let_def f1 cfs)
      then show thesis
        using s3(2-7) x(2,3) f2 by (intro that [of OSADA_SEXE s3 t "C(i := C i @ ?more)"]) simp_all
    qed
  qed
qed

end

section \<open>Reading\<close>

lemma read_loop_chain:
  assumes "chain_at s c bs" and "blocks_ok n s" and "\<forall>x \<in> set bs. x < n" and "k \<le> 64 * length bs"
  shows "read_loop c (int k) acc s = Some (0, acc @ take k (chain_data s bs))"
  using assms
proof (induction bs arbitrary: c k acc)
  case Nil
  then show ?case by (simp add: read_loop.simps [of c] del: load.simps)
next
  case (Cons b bs)
  obtain v where v: "load c s = Some v" "v \<noteq> END_OF_FILE" "b = unat v"
      "chain_at s (Map_entry (unat v)) bs"
    using Cons.prems(1) by (rule chain_Cons_load)
  note step = read_loop.simps [of c "int k" acc s]
  show ?case
  proof (cases "k = 0")
    case True
    then show ?thesis using v(1) by (simp add: read_loop.simps [of c] del: load.simps)
  next
    case False
    define w where "w = min k 64"
    have w: "(if int k \<ge> int 64 then int 64 else int k) = int w" by (simp add: w_def)
    have blk: "length (dblocks s ! b) = 64" "b < length (dblocks s)"
      using Cons.prems(2,3) by (auto simp: blocks_ok_def)
    have chunk: "read_block b 0 w s = Some (take w (dblocks s ! b))"
      using blk(2) by (simp add: read_block_def)
    have "int k - int w = int (k - w)" by (simp add: w_def of_nat_diff)
    then have "read_loop c (int k) acc s
        = read_loop (Map_entry b) (int (k - w)) (acc @ take w (dblocks s ! b)) s"
      unfolding step v(1) bind.bind_lunit Let_def w
      using v(2) False chunk by (simp only: v(3) [symmetric] nat_int bind.bind_lunit of_nat_0_less_iff
          neq0_conv [symmetric] not_False_eq_True simp_thms if_True)
    also have "\<dots> = Some (0, (acc @ take w (dblocks s ! b)) @ take (k - w) (chain_data s bs))"
      using Cons.IH [of "Map_entry b" "k - w"] v(3,4) Cons.prems(2-4) by (simp add: w_def)
    also have "\<dots> = Some (0, acc @ take k (chain_data s (b # bs)))"
      using blk by (simp add: w_def min_def)
    finally show ?thesis .
  qed
qed

text \<open>
  A read that starts before the last byte gives the bytes asked for, as many as the file has.
\<close>

lemma read_node_inv:
  assumes inv: "fs_inv E nbits n R C s"
    and i: "i < FILE_BLOCKS_MOUNT" "state (ftable s ! i) = REGULAR"
    and before: "unat off + 1 < unat (file_size (ftable s ! i))" and small: "unat off + unat sz < 2 ^ 32"
  shows "read_node i sz off s = Some (take (unat sz) (drop (unat off) (file_bytes C i s)))"
proof -
  let ?f = "file_size (ftable s ! i)"
  define k where "k = unat ?f"
  define L where "L = min (unat sz) (k - unat off)"
  have k31: "k < 2 ^ 31" using fs_inv_size(3) [OF inv i] by (simp add: k_def)
  have fs: "to_int ?f = int k" using to_int_small k31 by (simp add: k_def)
  have cfs: "of_cint (int k) = ?f" unfolding k_def of_cint_int by simp
  have one: "unat (of_cint (int k - 1)) = k - 1"
    by (rule unat_of_cint_pred) (use k31 before in \<open>simp_all add: k_def\<close>)
  have cond: "off < of_cint (to_int ?f - 1)"
    using before unfolding fs word_less_nat_alt one by (simp add: k_def)
  have sum: "unat (off + sz) = unat off + unat sz"
    by (rule unat_add_lem [THEN iffD1]) (use small in simp)
  have "unat (?f - off) = k - unat off"
    using before by (simp add: unat_sub word_le_nat_alt k_def)
  then have size': "unat (if off + sz > of_cint (to_int ?f) then of_cint (to_int ?f) - off else sz) = L"
    using before sum unfolding fs cfs by (auto simp: word_less_nat_alt L_def k_def)
  define sz' where "sz' = (if off + sz > of_cint (to_int ?f) then of_cint (to_int ?f) - off else sz)"
  have sz': "unat sz' = L" using size' by (simp add: sz'_def)
  define m where "m = unat off div 64"
  define pos where "pos = unat off - 64 * m"
  have off: "unat off = 64 * m + pos" "pos < 64"
    by (simp_all add: m_def pos_def minus_mult_div_eq_mod)
  define r where "r = (if 64 - pos \<ge> L then L else 64 - pos)"
  have bound: "unat off + L \<le> k" using before by (simp add: L_def k_def)
  have len: "k \<le> 64 * length (C i)" using fs_inv_size(2) [OF inv i] by (simp add: k_def)
  then have m: "m < length (C i)" using before off(1) by (simp add: k_def)
  obtain b cs where cut: "drop m (C i) = b # cs" using m by (cases "drop m (C i)") auto
  then have bs: "C i = take m (C i) @ b # cs" by (metis append_take_drop_id)
  have tot: "length (C i) = m + Suc (length cs)"
    using arg_cong [OF cut, of length] m by simp
  let ?c = "tail_cell (First_block i) (take m (C i))"
  have chain: "chain_at s ?c (b # cs)" using chain_drop fs_inv_file(1) [OF inv i] bs by metis
  then obtain v where v: "load ?c s = Some v" "b = unat v" "chain_at s (Map_entry (unat v)) cs"
    by (rule chain_Cons_load)
  have in_n: "\<forall>x \<in> set (b # cs). x < n" using fs_inv_block(1) [OF inv] cut by (metis in_set_dropD)
  note ok = fs_inv_range(2) [OF inv]
  have blk: "length (dblocks s ! b) = 64" "b < length (dblocks s)"
    using ok in_n by (auto simp: blocks_ok_def)
  have skip: "skip_blocks m (First_block i) s = Some ?c"
    using skip_blocks_chain [OF fs_inv_file(1) [OF inv i], of m] m by simp
  have chunk: "read_block b pos r s = Some (take r (drop pos (dblocks s ! b)))"
    using blk by (simp add: read_block_def)
  have r: "r \<le> L" "L - r \<le> 64 * length cs" "r = min L (64 - pos)"
    using bound len off tot by (auto simp: r_def)
  have "unat (sz' - of_nat r) = L - r"
  proof -
    have "unat (of_nat r :: u32) = r" using r(1) bound k31 by (simp add: unat_of_nat)
    then show ?thesis using sz' r(1) by (simp add: unat_sub word_le_nat_alt)
  qed
  moreover have "L - r < 2 ^ 31" using bound k31 by linarith
  ultimately have left: "to_int (sz' - of_nat r) = int (L - r)"
    using to_int_small [of "sz' - of_nat r"] by (simp only:)
  have pos_sz: "to_int sz' = int L"
    using to_int_small [of sz'] bound k31 by (simp only: sz')
  have loop: "read_loop (Map_entry b) (int (L - r)) (take r (drop pos (dblocks s ! b))) s
      = Some (0, take r (drop pos (dblocks s ! b)) @ take (L - r) (chain_data s cs))"
    by (rule read_loop_chain [OF _ ok]) (use v in_n r in simp_all)
  have "read_node i sz off s
      = Some (take r (drop pos (dblocks s ! b)) @ take (L - r) (chain_data s cs))"
    using cond skip v(1) chunk loop left pos_sz
    unfolding read_node_def Let_def sz'_def [symmetric] m_def [symmetric] pos_def [symmetric] sz'
      r_def [symmetric] v(2) [symmetric] if_P [OF cond]
    by (simp add: v(2) [symmetric] del: load.simps)
  also have "take r (drop pos (dblocks s ! b)) @ take (L - r) (chain_data s cs)
      = take L (drop pos (chain_data s (b # cs)))"
    using blk off(2) r(3) by (auto simp: min_def)
  also have "\<dots> = take L (drop (unat off) (chain_data s (C i)))"
  proof -
    have "length (chain_data s (take m (C i))) = 64 * m"
      using length_chain_data [OF ok, of "take m (C i)"] fs_inv_block(1) [OF inv] m
      by (metis in_set_takeD length_take less_imp_le min.absorb2)
    moreover have "chain_data s (C i) = chain_data s (take m (C i)) @ chain_data s (b # cs)"
      using arg_cong [OF bs, of "chain_data s"] by (simp only: chain_data_simps(3))
    ultimately show ?thesis by (simp only: off(1)) simp
  qed
  also have "\<dots> = take (unat sz) (drop (unat off) (file_bytes C i s))"
    by (simp add: file_bytes_def drop_take L_def k_def min.commute)
  finally show ?thesis .
qed

text \<open>The last byte alone is never read; an empty file is followed into the void.\<close>

lemma read_node_last:
  assumes "unat (file_size (ftable s ! i)) < 2 ^ 31" and "0 < unat (file_size (ftable s ! i))"
    and "unat (file_size (ftable s ! i)) \<le> unat off + 1"
  shows "read_node i sz off s = Some []"
proof -
  let ?f = "file_size (ftable s ! i)"
  have "to_int ?f = int (unat ?f)" using assms(1) by (rule to_int_small)
  moreover have "unat (of_cint (int (unat ?f) - 1)) = unat ?f - 1"
    using assms(2,1) by (rule unat_of_cint_pred)
  ultimately have "\<not> off < of_cint (to_int ?f - 1)"
    using assms(3) unfolding word_less_nat_alt by simp
  then show ?thesis by (simp add: read_node_def Let_def)
qed

section \<open>Truncating and unlinking\<close>

lemma set_size_same: "i < length (ftable s) \<Longrightarrow> set_size i (file_size (ftable s ! i)) s = s"
  by (simp add: set_size_def write_entry_def)

text \<open>A size that needs the same number of blocks.\<close>

lemma fs_inv_set_size:
  assumes inv: "fs_inv E nbits n R C s" and i: "i < FILE_BLOCKS_MOUNT" "state (ftable s ! i) = REGULAR"
    and len: "nblocks (unat v) = length (C i)"
  shows "fs_inv E nbits n R C (set_size i v s)"
proof -
  note own = fs_inv_file [OF inv i]
  have "fs_inv E nbits n R (C(i := C i)) (set_size i v s)"
  proof (rule fs_inv_update [OF inv i(1), where T = "{}"])
    show "blocks_ok n (set_size i v s)" using fs_inv_range(2) [OF inv] by (simp add: blocks_ok_def)
    show "its_busy E (set_size i v s) b \<longleftrightarrow> b \<in> set (C i) \<or> its_busy E s b \<and> b \<notin> set (C i)"
      if "b < n" for b using fs_inv_block(3) [OF inv, of b i] by auto
  qed (use own i len fs_inv_range [OF inv] fs_inv_block(1) [OF inv] in \<open>auto simp: entry_nth\<close>)
  then show ?thesis by simp
qed

text \<open>
  Giving back the blocks after the first \<open>xs\<close>. \<open>s1\<close> is the image before the release, \<open>s'\<close> the
  one after it, whose entry \<open>i\<close> may have been rewritten.
\<close>

lemma release_inv:
  assumes inv: "fs_inv E nbits n R C s" and i: "i < FILE_BLOCKS_MOUNT" "state (ftable s ! i) = REGULAR"
    and split: "C i = xs @ ys"
    and r: "released E nbits (tail_cell (First_block i) xs) ys s1 s2"
    and s1: "\<And>d. load d s1 = load d s" "\<And>b. its_busy E s1 b = its_busy E s b" "bmap s1 = bmap s"
      "only_file i s s1" "dblocks s1 = dblocks s"
    and s': "\<And>d. load d s' = load d s2" "\<And>b. its_busy E s' b = its_busy E s2 b" "bmap s' = bmap s2"
      "only_file i s2 s'" "dblocks s' = dblocks s2"
    and size': "state (ftable s' ! i) = REGULAR \<Longrightarrow> length xs = nblocks (unat (file_size (ftable s' ! i)))"
    and gone: "state (ftable s' ! i) \<noteq> REGULAR \<Longrightarrow> xs = []"
  shows "fs_inv E nbits n R (C(i := xs)) s'" and "only_file i s s'" and "dblocks s' = dblocks s"
proof -
  let ?c = "tail_cell (First_block i) xs"
  note own = fs_inv_file [OF inv i]
  have only2: "only_file i s1 s2" "dblocks s2 = dblocks s1" by (rule released_only_file [OF r])+
  show only: "only_file i s s'" by (meson only2(1) only_file_trans s'(4) s1(4))
  show data: "dblocks s' = dblocks s" using only2(2) s'(5) s1(5) by simp
  have loads: "load d s' = (if d \<in> set (cells ?c ys) then Some END_OF_FILE else load d s)" for d
    using r by (simp add: released_def s'(1) s1(1))
  have busy: "its_busy E s' b \<longleftrightarrow> its_busy E s b \<and> b \<notin> set ys" if "b < n" for b
  proof -
    have "b < nbits (bmap s1)" using that fs_inv_range(4) [OF inv] s1(3) by simp
    then show ?thesis using r by (simp add: released_def s'(2) s1(2))
  qed
  have dist: "distinct (xs @ ys)" using chain_distinct [OF own(1)] split by simp
  have tail: "?c = First_block i \<or> (\<exists>b \<in> set xs. ?c = Map_entry b)"
    using tail_in_cells [of "First_block i" xs] by (auto simp: set_cells)
  have chain: "chain_at s' (First_block i) xs"
  proof (rule chain_prefix_cut)
    show "chain_at s (First_block i) (xs @ ys)" using own(1) split by simp
    show "load ?c s' = Some END_OF_FILE" by (simp add: loads set_cells)
    fix d assume "d \<in> set (cells (First_block i) xs)" "d \<noteq> ?c"
    then have "d \<notin> set (cells ?c ys)" using dist by (auto simp: set_cells)
    then show "load d s' = load d s" by (simp add: loads)
  qed
  show "fs_inv E nbits n R (C(i := xs)) s'"
  proof (rule fs_inv_update [OF inv i(1), where T = "set (C i)"])
    have "nbits (bmap s') = nbits (bmap s)" using r by (simp add: released_def s'(3) s1(3))
    then show "data_range nbits n s'"
      using only fs_inv_range(1) [OF inv] by (simp add: data_range_def only_file_def)
    show "blocks_ok n s'" using blocks_ok_cong [OF data] fs_inv_range(2) [OF inv] by simp
    show "load d s' = load d s" if "d \<noteq> First_block i" "d \<notin> Map_entry ` set (C i)" for d
    proof -
      have "d \<notin> set (cells ?c ys)" using that tail split by (auto simp: set_cells)
      then show ?thesis by (simp add: loads)
    qed
    show "b \<notin> set (C j)" if "b \<in> set (C i)" "j \<noteq> i" for b j
      using that fs_inv_block(4) [OF inv] by blast
    show "chain_at s' (First_block i) xs \<and> length xs = nblocks (unat (file_size (ftable s' ! i)))"
      if "state (ftable s' ! i) = REGULAR" using chain size' [OF that] by simp
    show "b < n \<and> (b \<in> set (C i) \<or> \<not> its_busy E s b)" if "b \<in> set xs" for b
      using that split fs_inv_block(1) [OF inv, of b i] by simp
    show "its_busy E s' b \<longleftrightarrow> b \<in> set xs \<or> its_busy E s b \<and> b \<notin> set (C i)" if "b < n" for b
      using busy [OF that] split dist fs_inv_block(3) [OF inv, of b i] by auto
  qed (use only fs_inv_range(3) [OF inv] gone in \<open>auto simp: only_file_def\<close>)
qed

context bitarray
begin

lemma unlink_node_inv:
  assumes E: "bits E = ops" and inv: "fs_inv E nbits n R C s"
    and i: "i < FILE_BLOCKS_MOUNT" "state (ftable s ! i) = REGULAR"
  obtains s' where "unlink_node E i s = Some (OSADA_SEXE, s')"
    and "trace s' = trace s @ [Mutex_lock, Mutex_unlock]" and "only_file i s s'"
    and "fs_inv E nbits n R (C(i := [])) s'" and "dblocks s' = dblocks s"
    and "state (ftable s' ! i) = DELETED"
proof -
  note own = fs_inv_file [OF inv i]
  have "\<forall>b\<in>set (C i). b < nbits (bmap (mutex_lock s))"
    using fs_inv_block(1) [OF inv] fs_inv_range(4) [OF inv] by fastforce
  moreover have "chain_at (mutex_lock s) (First_block i) (C i)" using own(1) by simp
  ultimately obtain s2 where s2: "release_from E (First_block i) (mutex_lock s) = Some s2"
      "released E nbits (First_block i) (C i) (mutex_lock s) s2" "trace s2 = trace (mutex_lock s)"
    using release_from_released [OF _ E] by metis
  let ?s' = "set_state i DELETED (mutex_unlock s2)"
  have "length (ftable s2) = length (ftable s)"
    using s2(2) by (simp add: released_def links_only_def)
  then have st: "state (ftable ?s' ! i) = DELETED" using own(3) by (simp add: entry_nth)
  have "released E nbits (tail_cell (First_block i) []) (C i) (mutex_lock s) s2" using s2(2) by simp
  note rel = release_inv [OF inv i _ this, of ?s']
  have "fs_inv E nbits n R (C(i := [])) ?s'" "only_file i s ?s'" "dblocks ?s' = dblocks s"
    by (rule rel; simp add: st only_file_then)+
  then show thesis
    using s2(1,3) st by (intro that [of ?s']) (simp_all add: unlink_node_def)
qed

text \<open>More blocks for a longer file: all of them, or none.\<close>

lemma truncate_grow_inv:
  assumes E: "bits E = ops" and inv: "fs_inv E nbits n R C s"
    and i: "i < FILE_BLOCKS_MOUNT" "state (ftable s ! i) = REGULAR"
    and some: "length (C i) < nblocks (unat v)"
  defines "want \<equiv> nblocks (unat v) - length (C i)"
  obtains code s' t where "truncate_grow E i (to_int (file_size (ftable s ! i)))
        (int (nblocks (unat v)) - int (length (C i))) (tail_cell (First_block i) (C i)) (set_size i v s)
      = Some (code, s')"
    and "trace s' = trace s @ t" and "mutex_pairs t" and "only_file i s s'" and "dblocks s' = dblocks s"
    and "code = OSADA_SEXE \<and> fs_inv E nbits n R (C(i := C i @ take want (free_blocks E s 0 n))) s'
          \<and> ftable s' ! i = (ftable s ! i)\<lparr>file_size := v, first_block := first_block (ftable s' ! i)\<rparr>
        \<or> code = OSADA_ENOSPC \<and> fs_inv E nbits n R C s' \<and> ftable s' = ftable s"
    and "code = OSADA_SEXE \<longleftrightarrow> stop_at 0 n want (free_blocks E s 0 n) < n"
proof -
  let ?f = "ftable s ! i" and ?s1 = "set_size i v s" and ?c = "tail_cell (First_block i) (C i)"
  note own = fs_inv_file [OF inv i]
  define need where "need = int (nblocks (unat v)) - int (length (C i))"
  let ?stop = "stop_at 0 n (rounds 1 need) (free_blocks E ?s1 0 n)"
  have "load ?c ?s1 = Some END_OF_FILE"
    using chain_drop [of s "First_block i" "C i" "[]"] own(1) by simp
  then have g: "grown E nbits ?c [] ?s1 ?s1" by (rule grown_refl)
  have q: "rounds 1 need = nblocks (unat v) - length (C i @ [])"
    unfolding need_def rounds_blocks by simp
  have pre: "length (C i @ []) \<le> nblocks (unat v)" using some by simp
  have take0: "[] = take 0 (free_blocks E s 0 n)"
    and drop0: "free_blocks E ?s1 0 n = drop 0 (free_blocks E s 0 n)" by simp_all
  obtain s3 where s3: "add_blocks E 1 need (BM_DATA_0 (geo s)) (tail_cell (First_block i) (C i @ [])) (mutex_lock ?s1)
        = Some (BM_DATA_0 (geo s) + int ?stop, s3)" "trace s3 = trace ?s1 @ [Mutex_lock]"
    and yes: "?stop < n \<longrightarrow> fs_inv E nbits n R (C(i := C i @ take (nblocks (unat v) - length (C i))
            (free_blocks E s 0 n))) (mutex_unlock s3)
          \<and> only_file i s s3 \<and> dblocks s3 = dblocks s
          \<and> ftable s3 ! i = ?f\<lparr>file_size := v, first_block := first_block (ftable s3 ! i)\<rparr>
          \<and> nblocks (unat v) - length (C i) \<le> length (free_blocks E s 0 n)"
    and no: "\<not> ?stop < n \<longrightarrow> (\<exists>s5. release_after E i (int (length (C i)))
            (set_size i (file_size ?f) (mutex_unlock s3)) = Some s5
          \<and> fs_inv E nbits n R C s5 \<and> ftable s5 = ftable s \<and> dblocks s5 = dblocks s \<and> only_file i s s5
          \<and> trace s5 = trace s3 @ [Mutex_unlock, Mutex_lock, Mutex_unlock])"
    using extend_step [OF E inv i g take0 zero_less_one q pre drop0 list.size(3)] by blast
  have last: "BM_DATA_1 (geo s) = BM_DATA_0 (geo s) + int n - 1"
    using fs_inv_range(1) [OF inv] by (simp add: data_range_def)
  have fs: "to_int (file_size ?f) = int (unat (file_size ?f))"
    by (rule to_int_small [OF fs_inv_size(3) [OF inv i]])
  have nb: "necessary_blocks (to_int (file_size ?f)) = int (length (C i))"
    and cfs: "of_cint (to_int (file_size ?f)) = file_size ?f"
    unfolding fs by (simp only: necessary_blocks_nat own(2), simp only: of_cint_int, simp)
  have run: "truncate_grow E i (to_int (file_size ?f)) need ?c ?s1
      = (if BM_DATA_0 (geo s) + int ?stop > BM_DATA_1 (geo s)
         then Option.bind (release_after E i (int (length (C i)))
               (set_size i (file_size ?f) (mutex_unlock s3))) (\<lambda>s5. Some (OSADA_ENOSPC, s5))
         else Some (OSADA_SEXE, mutex_unlock s3))"
    using s3(1) by (simp add: truncate_grow_def nb cfs)
  have stop: "?stop = stop_at 0 n want (free_blocks E s 0 n)" by (simp add: q want_def)
  show thesis
  proof (cases "?stop < n")
    case True
    then show thesis
      using that [of OSADA_SEXE "mutex_unlock s3" "[Mutex_lock, Mutex_unlock]"] run last yes s3(2) stop
      by (simp add: need_def want_def)
  next
    case False
    then obtain s5 where s5: "release_after E i (int (length (C i)))
            (set_size i (file_size ?f) (mutex_unlock s3)) = Some s5"
        "fs_inv E nbits n R C s5" "ftable s5 = ftable s" "dblocks s5 = dblocks s" "only_file i s s5"
        "trace s5 = trace s3 @ [Mutex_unlock, Mutex_lock, Mutex_unlock]"
      using no by blast
    then show thesis
      using that [of OSADA_ENOSPC s5 "[Mutex_lock, Mutex_unlock, Mutex_lock, Mutex_unlock]"] run last
        False s3(2) stop mutex_pairs_append [OF mutex_pairs_simps(2) mutex_pairs_simps(2)]
      by (simp add: need_def)
  qed
qed

text \<open>Fewer blocks for a shorter file.\<close>

lemma truncate_shrink_inv:
  assumes E: "bits E = ops" and inv: "fs_inv E nbits n R C s"
    and i: "i < FILE_BLOCKS_MOUNT" "state (ftable s ! i) = REGULAR"
    and less: "nblocks (unat v) \<le> length (C i)"
  obtains s' where "release_after E i (int (nblocks (unat v))) (set_size i v s) = Some s'"
    and "trace s' = trace s @ [Mutex_lock, Mutex_unlock]" and "only_file i s s'"
    and "dblocks s' = dblocks s" and "fs_inv E nbits n R (C(i := take (nblocks (unat v)) (C i))) s'"
    and "state (ftable s' ! i) = REGULAR" and "file_size (ftable s' ! i) = v"
proof -
  let ?k = "nblocks (unat v)" and ?s1 = "set_size i v s"
  note own = fs_inv_file [OF inv i]
  have split: "C i = take ?k (C i) @ drop ?k (C i)" by simp
  have "chain_at ?s1 (First_block i) (take ?k (C i) @ drop ?k (C i))" using own(1) by simp
  moreover have "\<forall>b\<in>set (drop ?k (C i)). b < nbits (bmap ?s1)"
    using fs_inv_block(1) [OF inv] fs_inv_range(4) [OF inv] by (fastforce dest: in_set_dropD)
  ultimately obtain s2 where s2: "release_after E i (int ?k) ?s1 = Some s2"
      "released E nbits (tail_cell (First_block i) (take ?k (C i))) (drop ?k (C i)) ?s1 s2"
      "trace s2 = trace ?s1 @ [Mutex_lock, Mutex_unlock]"
    using release_after_released [OF _ E, of ?s1 i "take ?k (C i)" "drop ?k (C i)" "int ?k"] less by auto
  have "links_only ?s1 s2" using s2(2) by (simp add: released_def)
  from links_onlyD [OF this, of i]
  have f2: "ftable s2 ! i = (ftable s ! i)\<lparr>file_size := v, first_block := first_block (ftable s2 ! i)\<rparr>"
    using own(3) by (simp add: entry_nth)
  have st: "state (ftable s2 ! i) = REGULAR" and sz: "file_size (ftable s2 ! i) = v"
    using arg_cong [OF f2, of state] arg_cong [OF f2, of file_size] i(2) by simp_all
  note rel = release_inv [OF inv i split s2(2), of s2]
  have "fs_inv E nbits n R (C(i := take ?k (C i))) s2" "only_file i s s2" "dblocks s2 = dblocks s"
    by (rule rel; use less in \<open>simp add: st sz\<close>)+
  then show thesis using that s2(1,3) st sz by simp
qed

lemma truncate_node_inv:
  assumes E: "bits E = ops" and inv: "fs_inv E nbits n R C s"
    and i: "i < FILE_BLOCKS_MOUNT" "state (ftable s ! i) = REGULAR"
  defines "old \<equiv> unat (file_size (ftable s ! i))"
  obtains code s' t C' where "truncate_node E i v s = Some (code, s')"
    and "trace s' = trace s @ t" and "mutex_pairs t" and "only_file i s s'" and "dblocks s' = dblocks s"
    and "fs_inv E nbits n R C' s'"
    and "\<forall>j. j \<noteq> i \<longrightarrow> C' j = C j"
    and "code = OSADA_SEXE \<and> state (ftable s' ! i) = REGULAR \<and> file_size (ftable s' ! i) = v
          \<and> (\<exists>news. C' i = take (nblocks (unat v)) (C i) @ news)
        \<or> code = OSADA_ENOSPC \<and> C' = C \<and> ftable s' = ftable s"
    and "code = OSADA_SEXE \<longleftrightarrow> nblocks (unat v) \<le> nblocks old
          \<or> stop_at 0 n (nblocks (unat v) - nblocks old) (free_blocks E s 0 n) < n"
proof -
  let ?f = "ftable s ! i" and ?s1 = "set_size i v s" and ?F = "First_block i"
  note own = fs_inv_file [OF inv i]
  have fs: "to_int (file_size ?f) = int old"
    unfolding old_def by (rule to_int_small [OF fs_inv_size(3) [OF inv i]])
  have cfs: "of_cint (to_int (file_size ?f)) = file_size ?f" unfolding fs of_cint_int old_def by simp
  have walk: "walk_to_end ?F 0 ?s1 = Some (tail_cell ?F (C i), length (C i))"
    using walk_to_end_chain [of ?s1 ?F "C i" 0] own(1) by simp
  have nb: "necessary_blocks (uint v) = int (nblocks (unat v))"
    using necessary_blocks_nat [of "unat v"] by simp
  have cmp: "v > file_size ?f \<longleftrightarrow> old < unat v" "v < file_size ?f \<longleftrightarrow> unat v < old"
    by (simp_all add: word_less_nat_alt old_def)
  have f1: "ftable ?s1 ! i = ?f\<lparr>file_size := v\<rparr>" using own(3) by (simp add: entry_nth)
  note unfold = truncate_node_def [of E i v s, unfolded Let_def cfs nb]
  note finish = that
  have keep: "nblocks (unat v) = length (C i) \<Longrightarrow> thesis"
    if run: "truncate_node E i v s = Some (OSADA_SEXE, ?s1)"
  proof -
    assume len: "nblocks (unat v) = length (C i)"
    show thesis
      using finish [of OSADA_SEXE ?s1 "[]" C] run fs_inv_set_size [OF inv i len] f1 i(2) len own(2)
      by (simp add: old_def)
  qed
  have "v = file_size ?f \<longleftrightarrow> unat v = old"
    using cmp by (cases v "file_size ?f" rule: linorder_cases) (auto simp: old_def)
  moreover have "unat v < old \<Longrightarrow> nblocks (unat v) \<le> length (C i)"
    and "old < unat v \<Longrightarrow> length (C i) \<le> nblocks (unat v)"
    unfolding own(2) old_def by (rule nblocks_mono, simp)+
  ultimately have "v = file_size ?f \<or> old < unat v \<and> length (C i) < nblocks (unat v)
      \<or> unat v < old \<and> nblocks (unat v) < length (C i)
      \<or> v \<noteq> file_size ?f \<and> nblocks (unat v) = length (C i)"
    by linarith
  then consider (same) "v = file_size ?f" | (grow) "old < unat v" "length (C i) < nblocks (unat v)"
    | (shrink) "unat v < old" "nblocks (unat v) < length (C i)"
    | (size) "v \<noteq> file_size ?f" "nblocks (unat v) = length (C i)"
    by blast
  then show thesis
  proof cases
    case same
    have "truncate_node E i v s = Some (OSADA_SEXE, ?s1)" unfolding unfold using same by simp
    then show thesis using own(2) same by (intro keep) simp_all
  next
    case size
    then show thesis using walk by (intro keep) (simp_all add: unfold)
  next
    case grow
    obtain code s' t where g: "truncate_grow E i (to_int (file_size ?f))
          (int (nblocks (unat v)) - int (length (C i))) (tail_cell ?F (C i)) ?s1 = Some (code, s')"
      "trace s' = trace s @ t" "mutex_pairs t" "only_file i s s'" "dblocks s' = dblocks s"
      "code = OSADA_SEXE
          \<and> fs_inv E nbits n R (C(i := C i @ take (nblocks (unat v) - length (C i)) (free_blocks E s 0 n))) s'
          \<and> ftable s' ! i = ?f\<lparr>file_size := v, first_block := first_block (ftable s' ! i)\<rparr>
        \<or> code = OSADA_ENOSPC \<and> fs_inv E nbits n R C s' \<and> ftable s' = ftable s"
      "code = OSADA_SEXE \<longleftrightarrow> stop_at 0 n (nblocks (unat v) - length (C i)) (free_blocks E s 0 n) < n"
      using truncate_grow_inv [OF E inv i grow(2)] by blast
    have run: "truncate_node E i v s = Some (code, s')"
    proof -
      have "v \<noteq> file_size ?f" "v > file_size ?f" using grow(1) cmp(1) by auto
      then show ?thesis unfolding unfold using walk g(1) grow(2) by simp
    qed
    have en: "code = OSADA_SEXE \<longleftrightarrow> nblocks (unat v) \<le> nblocks old
          \<or> stop_at 0 n (nblocks (unat v) - nblocks old) (free_blocks E s 0 n) < n"
      using g(7) grow(2) own(2) by (simp add: old_def)
    from g(6) show thesis
    proof (elim disjE conjE)
      assume a: "code = OSADA_SEXE" "ftable s' ! i = ?f\<lparr>file_size := v, first_block := first_block (ftable s' ! i)\<rparr>"
        "fs_inv E nbits n R (C(i := C i @ take (nblocks (unat v) - length (C i)) (free_blocks E s 0 n))) s'"
      show thesis
        using that [OF run g(2-5) a(3) _ _ en] a(1) grow(2) i(2)
          arg_cong [OF a(2), of state] arg_cong [OF a(2), of file_size] by simp
    next
      assume "code = OSADA_ENOSPC" "fs_inv E nbits n R C s'" "ftable s' = ftable s"
      then show thesis using that [OF run g(2-5) _ _ _ en, of C] by simp
    qed
  next
    case shrink
    obtain s' where s': "release_after E i (int (nblocks (unat v))) ?s1 = Some s'"
      "trace s' = trace s @ [Mutex_lock, Mutex_unlock]" "only_file i s s'" "dblocks s' = dblocks s"
      "fs_inv E nbits n R (C(i := take (nblocks (unat v)) (C i))) s'"
      "state (ftable s' ! i) = REGULAR" "file_size (ftable s' ! i) = v"
      using truncate_shrink_inv [OF E inv i, of v] shrink(2) by auto
    have "truncate_node E i v s = Some (OSADA_SEXE, s')"
    proof -
      have "v \<noteq> file_size ?f" "v < file_size ?f" "\<not> v > file_size ?f" using shrink(1) cmp by auto
      then show ?thesis unfolding unfold using walk s'(1) shrink(2) by simp
    qed
    then show thesis
      using that [of OSADA_SEXE s' "[Mutex_lock, Mutex_unlock]" "C(i := take (nblocks (unat v)) (C i))"]
        s'(2-7) shrink(2) own(2) by (simp add: old_def)
  qed
qed

end

end
