(* ===== verification/Osada_Paths.thy ===== *)
theory Osada_Paths
  imports Osada_Files
begin

text \<open>
  The path loops of the handlers, apart from their effects: what they find is a function of the
  file table (\<open>lookup_dir\<close>, \<open>lookup_node\<close>, \<open>lookup_file\<close>, \<open>lookup_victim\<close>), what they do to the
  state is a sequence of lock calls. Each loop walks hand over hand: it takes the lock of the
  next entry before it releases the one before, and ends holding the lock of its result only.
\<close>

section \<open>One step of a walk\<close>

text \<open>A thread that holds one lock, or none when it stands at the root.\<close>

definition at_lock :: "lock_action \<Rightarrow> int \<Rightarrow> int \<Rightarrow> hold" where
  "at_lock a p = (if p = ROOT then (\<lambda>_. Free) else (\<lambda>_. Free)(p := acquired a))"

definition table_pos :: "int \<Rightarrow> bool" where
  "table_pos p \<longleftrightarrow> p = ROOT \<or> lock_index_ok p"

lemma table_pos_ROOT [simp]: "table_pos ROOT"
  by (simp add: table_pos_def)

lemma at_lock_ROOT [simp]: "at_lock a ROOT = (\<lambda>_. Free)"
  by (simp add: at_lock_def)

lemma free_upd [simp]: "(\<lambda>_. Free)(p := Free) = (\<lambda>_. Free)"
  by auto

lemma at_lock_other: "j \<noteq> p \<Longrightarrow> at_lock a p j = Free"
  by (simp add: at_lock_def)

lemma find_node_pos: "find_node name pb ign ft = Some k \<Longrightarrow> lock_index_ok (int k) \<and> int k \<noteq> ROOT \<and> int k \<noteq> pb"
  by (auto simp: find_node_Some lock_index_ok_def FILE_BLOCKS_MOUNT_def ROOT_def)

lemma find_dir_node: "find_dir name pb ign ft = Some k \<Longrightarrow> find_node name pb ign ft = Some k"
  by (auto simp: find_dir_def split: option.splits if_splits)

lemmas find_dir_pos = find_node_pos [OF find_dir_node]

lemma table_pos_found: "find_node name pb ign ft = Some k \<Longrightarrow> table_pos (int k)"
  by (simp add: find_node_pos table_pos_def)

lemma replay_unlock:
  assumes "table_pos pb" and "b \<noteq> UNLOCK"
  shows "replay (unlock_calls pb) (at_lock b pb, m) = Some (\<lambda>_. Free, m)"
proof (cases "pb = ROOT")
  case True
  then show ?thesis by (simp add: unlock_calls_def at_lock_def)
next
  case False
  then have "replay [Rwlock UNLOCK pb] (at_lock b pb, m) = Some ((at_lock b pb)(pb := Free), m)"
    using assms by (intro replay_release) (auto simp: table_pos_def at_lock_def)
  then show ?thesis using False by (simp add: unlock_calls_def at_lock_def)
qed

lemma replay_hand_over:
  assumes pb: "table_pos pb" and k: "int k \<noteq> pb" "int k \<noteq> ROOT"
  shows "replay (unlock_calls pb) ((at_lock LOCK_READ pb)(int k := acquired a), m)
      = Some (at_lock a (int k), m)"
proof (cases "pb = ROOT")
  case True
  then show ?thesis using k by (simp add: unlock_calls_def at_lock_def)
next
  case False
  then have "replay [Rwlock UNLOCK pb] ((at_lock LOCK_READ pb)(int k := acquired a), m)
      = Some (((at_lock LOCK_READ pb)(int k := acquired a))(pb := Free), m)"
    using assms by (intro replay_release [of LOCK_READ]) (auto simp: table_pos_def at_lock_def)
  then show ?thesis using False k by (simp add: unlock_calls_def at_lock_def fun_upd_twist)
qed

lemma replay_step:
  assumes "table_pos pb" and "a \<noteq> UNLOCK"
  shows "find_node name pb pb ft = Some k \<Longrightarrow>
      replay (node_calls name pb a pb ft @ unlock_calls pb) (at_lock LOCK_READ pb, m) = Some (at_lock a (int k), m)"
    and "find_node name pb pb ft = None \<Longrightarrow>
      replay (node_calls name pb a pb ft @ unlock_calls pb) (at_lock LOCK_READ pb, m) = Some (\<lambda>_. Free, m)"
    and "find_dir name pb pb ft = Some k \<Longrightarrow>
      replay (dir_calls name pb a pb ft @ unlock_calls pb) (at_lock LOCK_READ pb, m) = Some (at_lock a (int k), m)"
    and "find_dir name pb pb ft = None \<Longrightarrow>
      replay (dir_calls name pb a pb ft) (at_lock LOCK_READ pb, m) = Some (at_lock LOCK_READ pb, m)"
proof -
  note node = replay_node_calls [of a pb pb "at_lock LOCK_READ pb" name ft m, OF assms(2) at_lock_other]
    and dir = replay_dir_calls [of a pb pb "at_lock LOCK_READ pb" name ft m, OF assms(2) at_lock_other]
  note over = replay_hand_over [OF assms(1)]
  show "find_node name pb pb ft = Some k \<Longrightarrow>
      replay (node_calls name pb a pb ft @ unlock_calls pb) (at_lock LOCK_READ pb, m) = Some (at_lock a (int k), m)"
    using node over [of k a m] find_node_pos [of name pb pb ft k] by (simp add: replay_append)
  show "find_node name pb pb ft = None \<Longrightarrow>
      replay (node_calls name pb a pb ft @ unlock_calls pb) (at_lock LOCK_READ pb, m) = Some (\<lambda>_. Free, m)"
    using node replay_unlock [OF assms(1), of LOCK_READ m] by (simp add: replay_append)
  show "find_dir name pb pb ft = Some k \<Longrightarrow>
      replay (dir_calls name pb a pb ft @ unlock_calls pb) (at_lock LOCK_READ pb, m) = Some (at_lock a (int k), m)"
    using dir over [of k a m] find_dir_pos [of name pb pb ft k] by (simp add: replay_append)
  show "find_dir name pb pb ft = None \<Longrightarrow>
      replay (dir_calls name pb a pb ft) (at_lock LOCK_READ pb, m) = Some (at_lock LOCK_READ pb, m)"
    using dir by simp
qed

lemma int_result_neg: "0 < d \<Longrightarrow> int_result (- d) r = - d \<longleftrightarrow> r = None"
  by (cases r) auto

section \<open>The loop of getattr and read\<close>

fun lookup_node :: "osada_file list \<Rightarrow> int \<Rightarrow> byte list list \<Rightarrow> int option" where
  "lookup_node ft pb [] = Some pb"
| "lookup_node ft pb (t # ts) =
     (case find_node t pb pb ft of None \<Rightarrow> None | Some k \<Rightarrow> lookup_node ft (int k) ts)"

fun getattr_calls :: "osada_file list \<Rightarrow> int \<Rightarrow> byte list list \<Rightarrow> lock_event list" where
  "getattr_calls ft pb [] = []"
| "getattr_calls ft pb (t # ts) = node_calls t pb LOCK_READ pb ft @ unlock_calls pb @
     (case find_node t pb pb ft of None \<Rightarrow> [] | Some k \<Rightarrow> getattr_calls ft (int k) ts)"

lemma getattr_loop_eq:
  "ts \<noteq> [] \<Longrightarrow> getattr_loop pb np ts s =
     ((case lookup_node (ftable s) pb ts of None \<Rightarrow> Inl OSADA_ENOENT | Some p \<Rightarrow> Inr (Some p)),
      add_calls (getattr_calls (ftable s) pb ts) s)"
proof (induction pb np ts s rule: getattr_loop.induct)
  case (2 pb np t ts s)
  show ?case
  proof (cases "find_node t pb pb (ftable s)")
    case None
    then show ?thesis by (simp add: search_node_eq lock_calls_eq)
  next
    case (Some k)
    then show ?thesis using "2.IH" by (cases "ts = []") (simp_all add: search_node_eq lock_calls_eq)
  qed
qed simp

lemma replay_getattr:
  "table_pos pb \<Longrightarrow> replay (getattr_calls ft pb ts) (at_lock LOCK_READ pb, m)
     = Some (case lookup_node ft pb ts of None \<Rightarrow> (\<lambda>_. Free) | Some p \<Rightarrow> at_lock LOCK_READ p, m)"
proof (induction ts arbitrary: pb)
  case (Cons t ts)
  note st = replay_step(1,2) [OF Cons.prems, of LOCK_READ t ft]
  show ?case
  proof (cases "find_node t pb pb ft")
    case None
    then show ?thesis using st(2) by simp
  next
    case (Some k)
    then show ?thesis
      using st(1) [OF _ Some] Cons.IH [OF table_pos_found [OF Some]]
      by (simp add: append_assoc [symmetric] replay_append del: append_assoc)
  qed
qed simp

lemma lookup_node_pos:
  "lookup_node ft pb ts = Some p \<Longrightarrow> ts \<noteq> [] \<Longrightarrow>
     \<exists>k name pb'. p = int k \<and> k < FILE_BLOCKS_MOUNT \<and> node_matches (ft ! k) name pb'"
proof (induction ts arbitrary: pb)
  case (Cons t ts)
  from Cons.prems(1) obtain k where k: "find_node t pb pb ft = Some k" "lookup_node ft (int k) ts = Some p"
    by (auto split: option.splits)
  show ?case
  proof (cases "ts = []")
    case True
    then show ?thesis using k by (auto simp: find_node_Some)
  next
    case False
    then show ?thesis using Cons.IH [OF k(2)] by blast
  qed
qed simp

section \<open>The loops that want directories\<close>

fun lookup_dir :: "osada_file list \<Rightarrow> int \<Rightarrow> byte list list \<Rightarrow> int option" where
  "lookup_dir ft pb [] = Some pb"
| "lookup_dir ft pb (t # ts) =
     (case find_dir t pb pb ft of None \<Rightarrow> None | Some k \<Rightarrow> lookup_dir ft (int k) ts)"

fun readdir_calls :: "osada_file list \<Rightarrow> int \<Rightarrow> byte list list \<Rightarrow> lock_event list" where
  "readdir_calls ft pb [] = []"
| "readdir_calls ft pb (t # ts) = dir_calls t pb LOCK_READ pb ft @ unlock_calls pb @
     (case find_dir t pb pb ft of None \<Rightarrow> [] | Some k \<Rightarrow> readdir_calls ft (int k) ts)"

lemma readdir_loop_eq:
  "readdir_loop pb ts s =
     ((case lookup_dir (ftable s) pb ts of None \<Rightarrow> Inl OSADA_ENOTDIR | Some p \<Rightarrow> Inr p),
      add_calls (readdir_calls (ftable s) pb ts) s)"
proof (induction pb ts s rule: readdir_loop.induct)
  case (2 pb t ts s)
  then show ?case
    by (cases "find_dir t pb pb (ftable s)") (simp_all add: search_dir_eq lock_calls_eq)
qed simp

lemma replay_readdir:
  "table_pos pb \<Longrightarrow> replay (readdir_calls ft pb ts) (at_lock LOCK_READ pb, m)
     = Some (case lookup_dir ft pb ts of None \<Rightarrow> (\<lambda>_. Free) | Some p \<Rightarrow> at_lock LOCK_READ p, m)"
proof (induction ts arbitrary: pb)
  case (Cons t ts)
  note st = replay_step(3,4) [OF Cons.prems, of LOCK_READ t ft]
  show ?case
  proof (cases "find_dir t pb pb ft")
    case None
    then show ?thesis
      using st(2) [OF _ None] replay_unlock [OF Cons.prems, of LOCK_READ m] by (simp add: replay_append)
  next
    case (Some k)
    then show ?thesis
      using st(1) [OF _ Some] Cons.IH [OF table_pos_found [OF find_dir_node [OF Some]]]
      by (simp add: append_assoc [symmetric] replay_append del: append_assoc)
  qed
qed simp

lemma lookup_dir_pos:
  "lookup_dir ft pb ts = Some p \<Longrightarrow> table_pos pb \<Longrightarrow> table_pos p"
proof (induction ts arbitrary: pb)
  case (Cons t ts)
  then show ?case using table_pos_found [OF find_dir_node] by (auto split: option.splits)
qed simp

text \<open>rmdir takes the last directory for writing.\<close>

fun rmdir_calls :: "osada_file list \<Rightarrow> int \<Rightarrow> byte list list \<Rightarrow> lock_event list" where
  "rmdir_calls ft pb [] = []"
| "rmdir_calls ft pb (t # ts) =
     dir_calls t pb (if ts = [] then LOCK_WRITE else LOCK_READ) pb ft @ unlock_calls pb @
     (case find_dir t pb pb ft of None \<Rightarrow> [] | Some k \<Rightarrow> rmdir_calls ft (int k) ts)"

lemma rmdir_loop_eq:
  "ts \<noteq> [] \<Longrightarrow> rmdir_loop pb np ts s =
     ((case lookup_dir (ftable s) pb ts of None \<Rightarrow> Inl OSADA_ENOTDIR | Some p \<Rightarrow> Inr (Some p)),
      add_calls (rmdir_calls (ftable s) pb ts) s)"
proof (induction pb np ts s rule: rmdir_loop.induct)
  case (2 pb np t ts s)
  show ?case
  proof (cases "find_dir t pb pb (ftable s)")
    case None
    then show ?thesis by (simp add: search_dir_eq lock_calls_eq)
  next
    case (Some k)
    then show ?thesis using "2.IH" by (cases "ts = []") (simp_all add: search_dir_eq lock_calls_eq)
  qed
qed simp

lemma replay_rmdir:
  "table_pos pb \<Longrightarrow> ts \<noteq> [] \<Longrightarrow> replay (rmdir_calls ft pb ts) (at_lock LOCK_READ pb, m)
     = Some (case lookup_dir ft pb ts of None \<Rightarrow> (\<lambda>_. Free) | Some p \<Rightarrow> at_lock LOCK_WRITE p, m)"
proof (induction ts arbitrary: pb)
  case (Cons t ts)
  let ?a = "if ts = [] then LOCK_WRITE else LOCK_READ"
  have a: "?a \<noteq> UNLOCK" by simp
  note st = replay_step(3,4) [OF Cons.prems(1) a, of t ft]
  show ?case
  proof (cases "find_dir t pb pb ft")
    case None
    then show ?thesis
      using st(2) [OF None] replay_unlock [OF Cons.prems(1), of LOCK_READ m] by (simp add: replay_append)
  next
    case (Some k)
    have "replay (rmdir_calls ft (int k) ts) (at_lock ?a (int k), m)
        = Some (case lookup_dir ft (int k) ts of None \<Rightarrow> (\<lambda>_. Free) | Some p \<Rightarrow> at_lock LOCK_WRITE p, m)"
      using Cons.IH [OF table_pos_found [OF find_dir_node [OF Some]]] by (cases "ts = []") simp_all
    then show ?thesis
      using st(1) [OF Some, of m] Some
      by (simp only: rmdir_calls.simps option.case replay_append bind_assoc lookup_dir.simps
          append_assoc [symmetric] bind.bind_lunit)
  qed
qed simp

section \<open>The loop of write, truncate and unlink\<close>

text \<open>A code, or the entry of the file; \<open>None\<close> when the whole path is directories.\<close>

fun lookup_file :: "osada_file list \<Rightarrow> int \<Rightarrow> byte list list \<Rightarrow> int + int option" where
  "lookup_file ft pb [] = Inr None"
| "lookup_file ft pb (t # ts) =
     (case find_dir t pb pb ft of
        Some k \<Rightarrow> lookup_file ft (int k) ts
      | None \<Rightarrow> (case (ts, find_node t pb pb ft) of
            ([], Some k) \<Rightarrow> Inr (Some (int k))
          | _ \<Rightarrow> Inl OSADA_ENOENT))"

fun resolve_calls :: "osada_file list \<Rightarrow> int \<Rightarrow> byte list list \<Rightarrow> lock_event list" where
  "resolve_calls ft pb [] = []"
| "resolve_calls ft pb (t # ts) = dir_calls t pb LOCK_READ pb ft @
     (case find_dir t pb pb ft of
        Some k \<Rightarrow> unlock_calls pb @ resolve_calls ft (int k) ts
      | None \<Rightarrow> (if ts = [] then node_calls t pb LOCK_WRITE pb ft else []) @ unlock_calls pb)"

lemma resolve_file_eq:
  "resolve_file pb ts s = (lookup_file (ftable s) pb ts, add_calls (resolve_calls (ftable s) pb ts) s)"
proof (induction pb ts s rule: resolve_file.induct)
  case (2 pb t ts s)
  show ?case
  proof (cases "find_dir t pb pb (ftable s)")
    case None
    then show ?thesis
      by (cases ts; cases "find_node t pb pb (ftable s)")
        (simp_all add: search_dir_eq search_node_eq lock_calls_eq)
  next
    case (Some k)
    then show ?thesis using "2.IH" by (simp add: search_dir_eq lock_calls_eq)
  qed
qed simp

lemma replay_resolve:
  "table_pos pb \<Longrightarrow> lookup_file ft pb ts \<noteq> Inr None \<Longrightarrow>
     replay (resolve_calls ft pb ts) (at_lock LOCK_READ pb, m)
     = Some (case lookup_file ft pb ts of Inr (Some p) \<Rightarrow> at_lock LOCK_WRITE p | _ \<Rightarrow> (\<lambda>_. Free), m)"
proof (induction ts arbitrary: pb)
  case (Cons t ts)
  note dir = replay_step(3,4) [OF Cons.prems(1), of LOCK_READ t ft]
  note node = replay_step(1,2) [OF Cons.prems(1), of LOCK_WRITE t ft]
  show ?case
  proof (cases "find_dir t pb pb ft")
    case None
    then show ?thesis
      using dir(2) [OF _ None] node replay_unlock [OF Cons.prems(1), of LOCK_READ m]
      by (cases ts; cases "find_node t pb pb ft") (simp_all add: replay_append)
  next
    case (Some k)
    then show ?thesis
      using dir(1) [OF _ Some] Cons.IH [OF table_pos_found [OF find_dir_node [OF Some]]] Cons.prems(2)
      by (simp add: append_assoc [symmetric] replay_append del: append_assoc)
  qed
qed simp

text \<open>What it finds is a regular file.\<close>

lemma lookup_file_regular:
  "lookup_file ft pb ts = Inr (Some p) \<Longrightarrow>
     \<exists>k. p = int k \<and> k < FILE_BLOCKS_MOUNT \<and> state (ft ! k) = REGULAR"
proof (induction ts arbitrary: pb)
  case (Cons t ts)
  show ?case
  proof (cases "find_dir t pb pb ft")
    case (Some k)
    then show ?thesis using Cons by simp
  next
    case None
    then obtain k where k: "find_node t pb pb ft = Some k" "p = int k"
      using Cons.prems by (auto split: list.splits option.splits)
    then have "state (ft ! k) \<noteq> DIRECTORY" using None by (auto simp: find_dir_def)
    then show ?thesis using k by (auto simp: find_node_Some node_matches_def)
  qed
qed simp

end
