(* ===== verification/Osada_Server.thy ===== *)
theory Osada_Server
  imports Osada_Contents Osada_Paths
begin

text \<open>
  \<^verbatim>\<open>process_request\<close>: the loop of a connection of \<^verbatim>\<open>pokedex-server\<close>, which reads an operation code,
  runs its handler and goes on until the client goes away. It ends because every round takes
  a byte from the stream and no handler puts one back. The lemmas lift what is known of the
  work on a file to whole handlers: response, locks, consistency of the image.
\<close>

section \<open>Handlers do not put bytes back\<close>

definition consumes :: "(byte list \<Rightarrow> 'a received) \<Rightarrow> bool" where
  "consumes f \<longleftrightarrow> (\<forall>inp. case f inp of Closed rest \<Rightarrow> length rest \<le> length inp
     | Partial \<Rightarrow> True | Received x rest \<Rightarrow> length rest \<le> length inp)"

lemma consumes_recv [simp]: "consumes (recv_waitall n)" "consumes recv_u32"
proof -
  show "consumes (recv_waitall n)" for n by (simp add: consumes_def recv_waitall_def)
  show "consumes recv_u32"
    by (simp add: consumes_def recv_u32_def recv_waitall_def)
qed

lemma consumes_bind:
  assumes "consumes f" and "\<And>x. consumes (g x)"
  shows "consumes (\<lambda>inp. recv_bind (f inp) g)"
  unfolding consumes_def
proof
  fix inp
  have f: "case f inp of Closed rest \<Rightarrow> length rest \<le> length inp
     | Partial \<Rightarrow> True | Received x rest \<Rightarrow> length rest \<le> length inp"
    using assms(1) by (simp add: consumes_def)
  show "case recv_bind (f inp) g of Closed rest \<Rightarrow> length rest \<le> length inp
     | Partial \<Rightarrow> True | Received x rest \<Rightarrow> length rest \<le> length inp"
  proof (cases "f inp")
    case (Received x rest)
    have "case g x rest of Closed r \<Rightarrow> length r \<le> length rest
     | Partial \<Rightarrow> True | Received x r \<Rightarrow> length r \<le> length rest"
      using assms(2) [of x] by (simp add: consumes_def)
    then show ?thesis using f Received by (auto split: received.splits)
  qed (use f in auto)
qed

lemma consumes_Received [simp]: "consumes (\<lambda>rest. Received x rest)"
  by (simp add: consumes_def)

lemma consumes_requests [simp]:
  "consumes recv_path" "consumes recv_rename" "consumes recv_write" "consumes recv_read"
  "consumes recv_truncate"
proof -
  show path: "consumes recv_path"
    unfolding recv_path_def by (intro consumes_bind) simp_all
  show "consumes recv_rename"
    unfolding recv_rename_def using path by (intro consumes_bind) simp_all
  show "consumes recv_write"
    unfolding recv_write_def using path by (intro consumes_bind) simp_all
  show "consumes recv_read"
    unfolding recv_read_def using path by (intro consumes_bind) simp_all
  show "consumes recv_truncate"
    unfolding recv_truncate_def using path by (intro consumes_bind) simp_all
qed

lemma on_request_rest:
  assumes "on_request (r inp) s body = Some (resp, s', rest)" and "consumes r"
  shows "length rest \<le> length inp"
proof -
  have "case r inp of Closed rest \<Rightarrow> length rest \<le> length inp
     | Partial \<Rightarrow> True | Received x rest \<Rightarrow> length rest \<le> length inp"
    using assms(2) by (simp add: consumes_def)
  then show ?thesis using assms(1) by (auto simp: on_request_def split: received.splits)
qed

section \<open>process_request\<close>

definition dispatch :: "'bm env \<Rightarrow> ('l, byte list) t_list_ops \<Rightarrow> ('k, int) t_list_ops \<Rightarrow> byte
    \<Rightarrow> 'bm osada \<Rightarrow> byte list \<Rightarrow> (byte list \<times> 'bm osada \<times> byte list) option" where
  "dispatch E L K op_code s inp =
     (if op_code = 1 then osada_mkdir E s inp
      else if op_code = 2 then osada_readdir L K s inp
      else if op_code = 3 then osada_getattr s inp
      else if op_code = 4 then osada_mknod E s inp
      else if op_code = 5 then osada_write E s inp
      else if op_code = 6 then osada_read s inp
      else if op_code = 7 then osada_truncate E s inp
      else if op_code = 8 then osada_unlink E s inp
      else if op_code = 9 then osada_rmdir s inp
      else if op_code = 10 then osada_rename E s inp
      else Some ([], s, inp))"

lemma dispatch_rest:
  "dispatch E L K op s inp = Some (resp, s', rest) \<Longrightarrow> length rest \<le> length inp"
  unfolding dispatch_def osada_mkdir_def osada_readdir_def osada_getattr_def osada_mknod_def
    osada_write_def osada_read_def osada_truncate_def osada_unlink_def osada_rmdir_def osada_rename_def
  by (auto split: if_splits elim: on_request_rest)

text \<open>Everything the server writes to the client until it goes away, and the image it leaves.\<close>

function process_request :: "'bm env \<Rightarrow> ('l, byte list) t_list_ops \<Rightarrow> ('k, int) t_list_ops
    \<Rightarrow> 'bm osada \<Rightarrow> byte list \<Rightarrow> (byte list \<times> 'bm osada) option" where
  "process_request E L K s inp =
     (case recv_waitall 1 inp of
        Closed _ \<Rightarrow> Some ([], s)
      | Partial \<Rightarrow> None
      | Received op_code rest \<Rightarrow>
          (case dispatch E L K (hd op_code) s rest of
             None \<Rightarrow> None
           | Some (resp, s', rest') \<Rightarrow>
               map_option (\<lambda>(out, s''). (resp @ out, s'')) (process_request E L K s' rest')))"
  by pat_completeness auto
termination
  by (relation "measure (\<lambda>(_, _, _, _, inp). length inp)")
    (auto dest!: dispatch_rest recv_waitall_shrinks)

declare process_request.simps [simp del]

lemma process_request_Nil [simp]: "process_request E L K s [] = Some ([], s)"
  by (simp add: process_request.simps [of E L K s "[]"] recv_waitall_def)

lemma process_request_one:
  assumes "dispatch E L K op s req = Some (resp, s', rest)"
  shows "process_request E L K s (op # req)
      = map_option (\<lambda>(out, s''). (resp @ out, s'')) (process_request E L K s' rest)"
  using assms by (simp add: process_request.simps [of E L K s "op # req"] recv_waitall_def)

section \<open>Locks\<close>

text \<open>A handler that leaves no lock behind.\<close>

definition releases_all :: "'bm osada \<Rightarrow> 'bm osada \<Rightarrow> bool" where
  "releases_all s s' \<longleftrightarrow> (\<exists>t. trace s' = trace s @ t \<and> replay t no_locks = Some no_locks)"

lemma releases_all_refl [simp]: "releases_all s s"
  by (auto simp: releases_all_def)

lemma releases_all_trans: "releases_all s1 s2 \<Longrightarrow> releases_all s2 s3 \<Longrightarrow> releases_all s1 s3"
  unfolding releases_all_def
proof (elim exE conjE)
  fix t u assume "trace s2 = trace s1 @ t" "replay t no_locks = Some no_locks"
    "trace s3 = trace s2 @ u" "replay u no_locks = Some no_locks"
  then show "\<exists>v. trace s3 = trace s1 @ v \<and> replay v no_locks = Some no_locks"
    by (intro exI [of _ "t @ u"]) (simp add: replay_append)
qed

lemma no_locks_at: "no_locks = (at_lock a ROOT, False)"
  by (simp add: no_locks_def)

lemma replay_unlock_at:
  "lock_index_ok p \<Longrightarrow> p \<noteq> ROOT \<Longrightarrow> a \<noteq> UNLOCK \<Longrightarrow>
     replay [Rwlock UNLOCK p] (at_lock a p, m) = Some (\<lambda>_. Free, m)"
  using replay_unlock [of p a m] by (simp add: unlock_calls_def table_pos_def)

lemma semaphore_trace [simp]: "trace (semaphore a p s) = trace s @ [Rwlock a p]"
  by (simp add: semaphore_def)

text \<open>A request on a resolved file releases everything when the work on the file only uses the mutex.\<close>

lemma on_file_found:
  assumes path: "lookup_file (ftable s) ROOT (path_tokens path) = Inr (Some (int i))"
    and body: "body i (add_calls (resolve_calls (ftable s) ROOT (path_tokens path)) s) = Some (code, s2)"
    and t: "trace s2 = trace (add_calls (resolve_calls (ftable s) ROOT (path_tokens path)) s) @ t"
      "mutex_pairs t"
  shows "on_file path s body = Some (resp_byte code, semaphore UNLOCK (int i) s2)"
    and "releases_all s (semaphore UNLOCK (int i) s2)"
proof -
  let ?calls = "resolve_calls (ftable s) ROOT (path_tokens path)"
  show "on_file path s body = Some (resp_byte code, semaphore UNLOCK (int i) s2)"
    using path body by (simp add: on_file_def resolve_file_eq)
  have i: "lock_index_ok (int i)" "int i \<noteq> ROOT"
    using lookup_file_regular [OF path] by (auto simp: lock_index_ok_def ROOT_def FILE_BLOCKS_MOUNT_def)
  have "replay ?calls no_locks = Some (at_lock LOCK_WRITE (int i), False)"
    using replay_resolve [of ROOT "ftable s" "path_tokens path" False] path by (simp add: no_locks_def)
  then have "replay (?calls @ t @ [Rwlock UNLOCK (int i)]) no_locks = Some no_locks"
    using t(2) replay_unlock_at [OF i, of LOCK_WRITE False]
    by (simp add: replay_append mutex_pairs_def no_locks_def)
  then show "releases_all s (semaphore UNLOCK (int i) s2)"
    using t(1) by (auto simp: releases_all_def)
qed

lemma on_file_missing:
  assumes "lookup_file (ftable s) ROOT (path_tokens path) = Inl code"
  obtains t where "on_file path s body = Some (resp_byte code, add_calls t s)"
    and "releases_all s (add_calls t s)"
proof -
  let ?calls = "resolve_calls (ftable s) ROOT (path_tokens path)"
  have "replay ?calls no_locks = Some no_locks"
    using replay_resolve [of ROOT "ftable s" "path_tokens path" False] assms by (simp add: no_locks_def)
  then show thesis
    using assms by (intro that [of ?calls]) (auto simp: on_file_def resolve_file_eq releases_all_def)
qed

end
