(* ===== verification/Osada_View.thy ===== *)
theory Osada_View
  imports Osada_Server
begin

text \<open>
  The image as its users see it: \<open>contents s i\<close> are the bytes of the regular file of entry \<open>i\<close>,
  computed from the tables, and \<open>fs_ok\<close> says that the image is consistent. The theorems about
  the handlers are stated with these two, without the chains.
\<close>

primrec follow_chain :: "nat \<Rightarrow> cell \<Rightarrow> 'bm osada \<Rightarrow> nat list option" where
  "follow_chain 0 c s = None"
| "follow_chain (Suc k) c s =
     do {
       b \<leftarrow> load c s;
       if b = END_OF_FILE then Some []
       else map_option ((#) (unat b)) (follow_chain k (Map_entry (unat b)) s)
     }"

definition chain_of :: "'bm osada \<Rightarrow> nat \<Rightarrow> nat list option" where
  "chain_of s i = follow_chain (Suc (length (maptab s))) (First_block i) s"

definition contents :: "'bm osada \<Rightarrow> nat \<Rightarrow> byte list option" where
  "contents s i =
     (if i < length (ftable s) \<and> state (ftable s ! i) = REGULAR
      then map_option (\<lambda>bs. take (unat (file_size (ftable s ! i))) (chain_data s bs)) (chain_of s i)
      else None)"

definition fs_ok :: "'bm env \<Rightarrow> ('bm \<Rightarrow> nat) \<Rightarrow> nat \<Rightarrow> nat set \<Rightarrow> 'bm osada \<Rightarrow> bool" where
  "fs_ok E nbits n R s \<longleftrightarrow> (\<exists>C. fs_inv E nbits n R C s)"

lemma follow_chain_eq: "chain_at s c bs \<Longrightarrow> length bs < k \<Longrightarrow> follow_chain k c s = Some bs"
proof (induction bs arbitrary: c k)
  case Nil
  then show ?case by (cases k) (simp_all del: load.simps)
next
  case (Cons b bs)
  obtain k' where k: "k = Suc k'" "length bs < k'" using Cons.prems(2) by (cases k) auto
  obtain v where v: "load c s = Some v" "v \<noteq> END_OF_FILE" "b = unat v"
      "chain_at s (Map_entry (unat v)) bs"
    using Cons.prems(1) by (rule chain_Cons_load)
  then show ?case using k Cons.IH [of "Map_entry b" k'] by (simp del: load.simps)
qed

lemma follow_chain_sound: "follow_chain k c s = Some bs \<Longrightarrow> chain_at s c bs"
proof (induction k arbitrary: c bs)
  case (Suc k)
  obtain b where b: "load c s = Some b" using Suc.prems by (cases "load c s") (simp_all del: load.simps)
  then show ?case
    using Suc by (auto simp del: load.simps split: if_splits)
qed simp

lemma chain_of_inv:
  assumes "fs_inv E nbits n R C s" and "i < FILE_BLOCKS_MOUNT" and "state (ftable s ! i) = REGULAR"
  shows "chain_of s i = Some (C i)"
proof -
  have "n \<le> length (maptab s)" using fs_inv_range(1) [OF assms(1)] by (simp add: data_range_def)
  then show ?thesis
    using follow_chain_eq [OF fs_inv_file(1) [OF assms]] fs_inv_size(1) [OF assms]
    by (simp add: chain_of_def del: follow_chain.simps)
qed

lemma contents_inv:
  assumes "fs_inv E nbits n R C s" and "i < FILE_BLOCKS_MOUNT" and "state (ftable s ! i) = REGULAR"
  shows "contents s i = Some (file_bytes C i s)"
  using chain_of_inv [OF assms] fs_inv_file(3) [OF assms] assms(3)
  by (simp add: contents_def file_bytes_def)

lemma contents_cong:
  assumes inv: "fs_inv E nbits n R C s" and inv': "fs_inv E nbits n R C' s'"
    and entry: "state (ftable s' ! j) = state (ftable s ! j)"
    and same: "file_bytes C' j s' = file_bytes C j s"
  shows "contents s' j = contents s j"
proof (cases "j < FILE_BLOCKS_MOUNT \<and> state (ftable s ! j) = REGULAR")
  case True
  then show ?thesis using contents_inv [OF inv] contents_inv [OF inv'] entry same by simp
next
  case False
  then show ?thesis
    using entry fs_inv_range(3) [OF inv] fs_inv_range(3) [OF inv'] by (auto simp: contents_def)
qed

lemma load_add_calls [simp]: "load d (add_calls t s) = load d s"
  by (cases d) simp_all

lemma follow_chain_cong:
  "(\<And>d. load d s' = load d s) \<Longrightarrow> follow_chain k c s' = follow_chain k c s"
proof (induction k arbitrary: c)
  case (Suc k)
  then show ?case by (cases "load c s") (simp_all del: load.simps)
qed simp

lemma contents_calls [simp]:
  "contents (add_calls t s) i = contents s i" "contents (semaphore a p s) i = contents s i"
proof -
  show *: "contents (add_calls t s) i = contents s i" for t
    using follow_chain_cong [of "add_calls t s" s]
    by (simp add: contents_def chain_of_def chain_data_def del: follow_chain.simps)
  show "contents (semaphore a p s) i = contents s i" unfolding lock_calls_eq by (rule *)
qed

lemma fs_ok_calls [simp]:
  "fs_ok E nbits n R (add_calls t s) = fs_ok E nbits n R s"
  "fs_ok E nbits n R (semaphore a p s) = fs_ok E nbits n R s"
  by (simp_all add: fs_ok_def lock_calls_eq)

lemma fs_ok_size:
  assumes "fs_ok E nbits n R s" and "i < FILE_BLOCKS_MOUNT" and "state (ftable s ! i) = REGULAR"
  obtains old where "contents s i = Some old" and "length old = unat (file_size (ftable s ! i))"
    and "length old < 2 ^ 31"
proof -
  from assms(1) obtain C where inv: "fs_inv E nbits n R C s" by (auto simp: fs_ok_def)
  note facts = contents_inv [OF inv assms(2,3)] length_file_bytes(1) [OF inv assms(2,3)]
    fs_inv_size(3) [OF inv assms(2,3)]
  then show thesis using that by metis
qed

text \<open>The free blocks, counted.\<close>

definition free_count :: "'bm env \<Rightarrow> nat \<Rightarrow> 'bm osada \<Rightarrow> nat" where
  "free_count E n s = length (free_blocks E s 0 n)"

lemma free_count_calls [simp]: "free_count E n (add_calls t s) = free_count E n s"
  by (simp add: free_count_def free_blocks_def its_busy_def)

section \<open>The work on a file\<close>

text \<open>Every other file and entry is as it was.\<close>

definition others_same :: "nat \<Rightarrow> 'bm osada \<Rightarrow> 'bm osada \<Rightarrow> bool" where
  "others_same i s s' \<longleftrightarrow> length (ftable s') = length (ftable s)
     \<and> (\<forall>j. j \<noteq> i \<longrightarrow> contents s' j = contents s j)
     \<and> (\<forall>j < length (ftable s). j \<noteq> i \<longrightarrow> ftable s' ! j = ftable s ! j)"

lemma others_same_calls [simp]:
  "others_same i (add_calls t s) s' = others_same i s s'"
  "others_same i s (semaphore a p s') = others_same i s s'"
  by (simp_all add: others_same_def) (simp add: lock_calls_eq)

lemma others_sameI:
  assumes inv: "fs_inv E nbits n R C s" and inv': "fs_inv E nbits n R C' s'"
    and only: "only_file i s s'" and data: "\<And>j. j \<noteq> i \<Longrightarrow> file_bytes C' j s' = file_bytes C j s"
  shows "others_same i s s'"
proof -
  have len: "length (ftable s') = length (ftable s)" using only by (simp add: only_file_def)
  have entry: "ftable s' ! j = ftable s ! j" if "j < length (ftable s)" "j \<noteq> i" for j
    using only that by (simp add: only_file_def)
  have "contents s' j = contents s j" if "j \<noteq> i" for j
  proof (cases "j < length (ftable s)")
    case True
    then show ?thesis
      using contents_cong [OF inv inv' _ data [OF that]] entry that by simp
  next
    case False
    then show ?thesis using len by (simp add: contents_def)
  qed
  then show ?thesis using len entry by (auto simp: others_same_def)
qed

lemma read_node_ok:
  assumes ok: "fs_ok E nbits n R s" and i: "i < FILE_BLOCKS_MOUNT" "state (ftable s ! i) = REGULAR"
    and old: "contents s i = Some old"
    and before: "unat off + 1 < length old" and small: "unat off + unat sz < 2 ^ 32"
  shows "read_node i sz off s = Some (take (unat sz) (drop (unat off) old))"
proof -
  obtain C where inv: "fs_inv E nbits n R C s" using ok by (auto simp: fs_ok_def)
  have "old = file_bytes C i s" "length old = unat (file_size (ftable s ! i))"
    using old contents_inv [OF inv i] length_file_bytes(1) [OF inv i] by simp_all
  then show ?thesis using read_node_inv [OF inv i _ small] before by simp
qed

end
