(* ===== verification/Osada_Effects.thy ===== *)
theory Osada_Effects
  imports Osada_View
begin

text \<open>
  What write, truncate and unlink do to a file, stated on contents and free blocks: the lemmas of
  \<open>Osada_Contents\<close> without the chains. \<open>conserved\<close> is the account of the blocks: what a file gains
  the free blocks lose, and the other way round.
\<close>

section \<open>The account of the blocks\<close>

text \<open>The blocks in use by entry \<open>i\<close>.\<close>

definition used_blocks :: "'bm osada \<Rightarrow> nat \<Rightarrow> nat" where
  "used_blocks s i = (case contents s i of None \<Rightarrow> 0 | Some data \<Rightarrow> nblocks (length data))"

definition conserved :: "'bm env \<Rightarrow> nat \<Rightarrow> nat \<Rightarrow> 'bm osada \<Rightarrow> 'bm osada \<Rightarrow> bool" where
  "conserved E n i s s' \<longleftrightarrow>
     free_count E n s' + used_blocks s' i = free_count E n s + used_blocks s i"

lemma used_blocks_inv:
  assumes inv: "fs_inv E nbits n R C s" and i: "i < FILE_BLOCKS_MOUNT"
  shows "used_blocks s i = length (C i)"
proof (cases "state (ftable s ! i) = REGULAR")
  case True
  then show ?thesis
    using contents_inv [OF inv i True] length_file_bytes(1) [OF inv i True] fs_inv_file(2) [OF inv i True]
    by (simp add: used_blocks_def)
next
  case False
  then show ?thesis using inv i by (auto simp: used_blocks_def contents_def fs_inv_def)
qed

lemma free_and_used:
  assumes inv: "fs_inv E nbits n R C s"
  shows "free_count E n s + length (C i) = card {b. b < n \<and> b \<notin> R \<and> (\<forall>j. j \<noteq> i \<longrightarrow> b \<notin> set (C j))}"
proof -
  let ?U = "{b. b < n \<and> b \<notin> R \<and> (\<forall>j. j \<noteq> i \<longrightarrow> b \<notin> set (C j))}"
  have F: "set (free_blocks E s 0 n) = ?U - set (C i)"
    using inv unfolding fs_inv_def by (auto simp: set_free_blocks)
  have sub: "set (C i) \<subseteq> ?U" using fs_inv_block [OF inv] by fastforce
  have dist: "distinct (C i)"
  proof (cases "i < FILE_BLOCKS_MOUNT \<and> state (ftable s ! i) = REGULAR")
    case True
    then show ?thesis using chain_distinct fs_inv_file(1) [OF inv] by blast
  next
    case False
    then show ?thesis using inv unfolding fs_inv_def by (metis distinct.simps(1))
  qed
  have "card (?U - set (C i)) + card (set (C i)) = card ?U"
    using card_Diff_subset [OF _ sub] card_mono [OF _ sub] by simp
  then show ?thesis
    using distinct_card [OF dist] distinct_card [OF distinct_free_blocks [of E s 0 n]]
    by (simp only: F free_count_def)
qed

lemma conservedI:
  assumes inv: "fs_inv E nbits n R C s" and inv': "fs_inv E nbits n R C' s'"
    and same: "\<And>j. j \<noteq> i \<Longrightarrow> C' j = C j" and i: "i < FILE_BLOCKS_MOUNT"
  shows "conserved E n i s s'"
proof -
  have "{b. b < n \<and> b \<notin> R \<and> (\<forall>j. j \<noteq> i \<longrightarrow> b \<notin> set (C' j))}
      = {b. b < n \<and> b \<notin> R \<and> (\<forall>j. j \<noteq> i \<longrightarrow> b \<notin> set (C j))}"
    using same by auto
  then show ?thesis
    using free_and_used [OF inv, of i] free_and_used [OF inv', of i]
    by (simp add: conserved_def used_blocks_inv [OF inv i] used_blocks_inv [OF inv' i])
qed

lemma conserved_calls [simp]:
  "conserved E n i (add_calls t s) s' = conserved E n i s s'"
  "conserved E n i s (semaphore a p s') = conserved E n i s s'"
  by (simp_all add: conserved_def used_blocks_def) (simp add: lock_calls_eq)

lemma semaphore_frame [simp]:
  "ftable (semaphore a p s) = ftable s" "free_count E n (semaphore a p s) = free_count E n s"
  by (simp_all add: lock_calls_eq)

text \<open>Where the search for a number of blocks stops: before the last block, or it did not find them there.\<close>

lemma stop_at_count:
  assumes "0 < n"
  shows "stop_at 0 n q (free_blocks E s 0 n) < n \<longleftrightarrow> q \<le> free_count E (n - 1) s"
proof -
  let ?F = "free_blocks E s 0 (n - 1)"
  have n: "[0..<n] = [0..<n - 1] @ [n - 1]" using assms by (cases n) simp_all
  have F: "free_blocks E s 0 n = ?F @ (if its_busy E s (n - 1) then [] else [n - 1])"
    by (simp add: free_blocks_def n)
  have less: "?F ! k < n - 1" if "k < length ?F" for k
    using nth_mem [OF that] by (simp add: set_free_blocks)
  show ?thesis
  proof (cases "q \<le> length ?F")
    case True
    then show ?thesis
      using assms less [of "q - 1"] by (cases "q = 0") (auto simp: stop_at_def F nth_append free_count_def)
  next
    case False
    then show ?thesis
      using assms by (auto simp: stop_at_def F nth_append free_count_def)
  qed
qed

section \<open>The operations\<close>

context bitarray
begin

lemma write_node_ok:
  assumes E: "bits E = ops" and ok: "fs_ok E nbits n R s" and n: "0 < n"
    and i: "i < FILE_BLOCKS_MOUNT" "state (ftable s ! i) = REGULAR" and old: "contents s i = Some old"
    and len: "unat sz = length buffer" "buffer \<noteq> []" and small: "unat off + unat sz < 2 ^ 31"
  obtains code s' t where "write_node E i sz off buffer s = Some (code, s')"
    and "trace s' = trace s @ t" and "mutex_pairs t" and "fs_ok E nbits n R s'" and "others_same i s s'"
    and "code = OSADA_SEXE \<and> state (ftable s' ! i) = REGULAR
          \<and> (\<exists>data. contents s' i = Some data \<and> length data = max (length old) (unat off + length buffer)
              \<and> (unat off \<le> length old \<longrightarrow> data = pwrite old (unat off) buffer))
        \<or> code = OSADA_ENOSPC \<and> contents s' i = Some old
          \<and> ftable s' = (ftable s)[i := (ftable s ! i)\<lparr>lastmod := now E\<rparr>]"
    and "nblocks (unat off + length buffer) - nblocks (length old) < free_count E n s \<longrightarrow> code = OSADA_SEXE"
    and "conserved E n i s s'"
proof -
  obtain C where inv: "fs_inv E nbits n R C s" using ok by (auto simp: fs_ok_def)
  have old': "old = file_bytes C i s" "length old = unat (file_size (ftable s ! i))"
    using old contents_inv [OF inv i] length_file_bytes(1) [OF inv i] by simp_all
  obtain code s' t C' where w: "write_node E i sz off buffer s = Some (code, s')"
    "trace s' = trace s @ t" "mutex_pairs t" "only_file i s s'" "fs_inv E nbits n R C' s'"
    "\<forall>j. j \<noteq> i \<longrightarrow> C' j = C j \<and> file_bytes C' j s' = file_bytes C j s"
    and d: "code = OSADA_SEXE \<and> state (ftable s' ! i) = REGULAR
          \<and> unat (file_size (ftable s' ! i)) = max (unat (file_size (ftable s ! i))) (unat off + unat sz)
          \<and> (unat off \<le> unat (file_size (ftable s ! i)) \<longrightarrow>
                file_bytes C' i s' = pwrite (file_bytes C i s) (unat off) buffer)
        \<or> code = OSADA_ENOSPC \<and> C' = C \<and> dblocks s' = dblocks s
          \<and> ftable s' = (ftable s)[i := (ftable s ! i)\<lparr>lastmod := now E\<rparr>]"
    and room: "nblocks (unat off + unat sz) - nblocks (unat (file_size (ftable s ! i)))
        < length (free_blocks E s 0 n) \<longrightarrow> code = OSADA_SEXE"
    using write_node_inv [OF E inv n i len small] by blast
  have ok': "fs_ok E nbits n R s'" using w(5) by (auto simp: fs_ok_def)
  have others: "others_same i s s'" using others_sameI [OF inv w(5,4)] w(6) by blast
  have cons: "conserved E n i s s'"
    by (rule conservedI [OF inv w(5) _ i(1)]) (use w(6) in blast)
  have room': "nblocks (unat off + length buffer) - nblocks (length old) < free_count E n s
      \<longrightarrow> code = OSADA_SEXE"
    using room old'(2) len(1) by (simp add: free_count_def)
  from d show thesis
  proof (elim disjE conjE)
    assume a: "code = OSADA_SEXE" "state (ftable s' ! i) = REGULAR"
      "unat (file_size (ftable s' ! i)) = max (unat (file_size (ftable s ! i))) (unat off + unat sz)"
      "unat off \<le> unat (file_size (ftable s ! i)) \<longrightarrow>
          file_bytes C' i s' = pwrite (file_bytes C i s) (unat off) buffer"
    then have "contents s' i = Some (file_bytes C' i s')"
      and "length (file_bytes C' i s') = max (length old) (unat off + length buffer)"
      using contents_inv [OF w(5) i(1) a(2)] length_file_bytes(1) [OF w(5) i(1) a(2)] old'(2) len(1)
      by simp_all
    then show thesis using that [OF w(1-3) ok' others _ room' cons] a old' by auto
  next
    assume b: "code = OSADA_ENOSPC" "C' = C" "dblocks s' = dblocks s"
      "ftable s' = (ftable s)[i := (ftable s ! i)\<lparr>lastmod := now E\<rparr>]"
    have "contents s' i = contents s i"
    proof (rule contents_cong [OF inv w(5)])
      show "state (ftable s' ! i) = state (ftable s ! i)" using b(4) fs_inv_file(3) [OF inv i] by simp
      show "file_bytes C' i s' = file_bytes C i s"
        using b fs_inv_file(3) [OF inv i] by (simp add: file_bytes_def chain_data_def)
    qed
    then show thesis using that [OF w(1-3) ok' others _ room' cons] b old by simp
  qed
qed


lemma truncate_node_ok:
  assumes E: "bits E = ops" and ok: "fs_ok E nbits n R s" and n: "0 < n"
    and i: "i < FILE_BLOCKS_MOUNT" "state (ftable s ! i) = REGULAR" and old: "contents s i = Some old"
  obtains code s' t where "truncate_node E i v s = Some (code, s')"
    and "trace s' = trace s @ t" and "mutex_pairs t" and "fs_ok E nbits n R s'" and "others_same i s s'"
    and "code = OSADA_SEXE \<and> (\<exists>data. contents s' i = Some data \<and> length data = unat v
            \<and> take (min (length old) (unat v)) data = take (min (length old) (unat v)) old)
        \<or> code = OSADA_ENOSPC \<and> contents s' i = Some old \<and> ftable s' = ftable s"
    and "code = OSADA_SEXE \<longleftrightarrow> nblocks (unat v) - nblocks (length old) \<le> free_count E (n - 1) s"
    and "conserved E n i s s'"
proof -
  obtain C where inv: "fs_inv E nbits n R C s" using ok by (auto simp: fs_ok_def)
  have old': "old = file_bytes C i s" "length old = unat (file_size (ftable s ! i))"
    using old contents_inv [OF inv i] length_file_bytes(1) [OF inv i] by simp_all
  obtain code s' t C' where w: "truncate_node E i v s = Some (code, s')"
      "trace s' = trace s @ t" "mutex_pairs t" "only_file i s s'" "dblocks s' = dblocks s"
      "fs_inv E nbits n R C' s'" "\<forall>j. j \<noteq> i \<longrightarrow> C' j = C j"
    and d: "code = OSADA_SEXE \<and> state (ftable s' ! i) = REGULAR \<and> file_size (ftable s' ! i) = v
          \<and> (\<exists>news. C' i = take (nblocks (unat v)) (C i) @ news)
        \<or> code = OSADA_ENOSPC \<and> C' = C \<and> ftable s' = ftable s"
    and cond: "code = OSADA_SEXE \<longleftrightarrow> nblocks (unat v) \<le> nblocks (unat (file_size (ftable s ! i)))
          \<or> stop_at 0 n (nblocks (unat v) - nblocks (unat (file_size (ftable s ! i)))) (free_blocks E s 0 n) < n"
    by (rule truncate_node_inv [OF E inv i, of v])
  have ok': "fs_ok E nbits n R s'" using w(6) by (auto simp: fs_ok_def)
  have cons: "conserved E n i s s'" by (rule conservedI [OF inv w(6) _ i(1)]) (use w(7) in blast)
  have same: "file_bytes C' j s' = file_bytes C j s" if "j \<noteq> i" for j
  proof -
    have "C' j = C j" using w(7) that by simp
    moreover have "ftable s' ! j = ftable s ! j" if "j < FILE_BLOCKS_MOUNT"
      using w(4) \<open>j \<noteq> i\<close> that fs_inv_range(3) [OF inv] by (simp add: only_file_def)
    moreover have "C j = []" if "\<not> j < FILE_BLOCKS_MOUNT" using inv that unfolding fs_inv_def by blast
    ultimately show ?thesis
      using w(5) by (cases "j < FILE_BLOCKS_MOUNT") (simp_all add: file_bytes_def chain_data_def)
  qed
  have others: "others_same i s s'" using others_sameI [OF inv w(6,4)] same by blast
  have cond': "code = OSADA_SEXE \<longleftrightarrow> nblocks (unat v) - nblocks (length old) \<le> free_count E (n - 1) s"
    using cond unfolding old'(2) [symmetric] stop_at_count [OF n] by auto
  from d show thesis
  proof (elim disjE conjE exE)
    fix news
    assume a: "code = OSADA_SEXE" "state (ftable s' ! i) = REGULAR" "file_size (ftable s' ! i) = v"
      "C' i = take (nblocks (unat v)) (C i) @ news"
    let ?k = "min (length old) (unat v)" and ?T = "take (nblocks (unat v)) (C i)"
    have data: "contents s' i = Some (file_bytes C' i s')" "length (file_bytes C' i s') = unat v"
      using contents_inv [OF w(6) i(1) a(2)] length_file_bytes(1) [OF w(6) i(1) a(2)] a(3) by simp_all
    have blocks: "blocks_ok n s" "\<forall>b\<in>set (C i). b < n"
      using fs_inv_range(2) [OF inv] fs_inv_block(1) [OF inv] by blast+
    then have T: "length (chain_data s ?T) = 64 * length ?T"
      using length_chain_data [of n s ?T] in_set_takeD by fastforce
    have "?k \<le> 64 * length ?T"
      using nblocks_bounds(2) [of "unat v"] nblocks_bounds(2) [of "length old"] fs_inv_file(2) [OF inv i] old'(2)
      by (auto simp: min_def)
    then have "take ?k (chain_data s (C i)) = take ?k (chain_data s ?T)"
      using T chain_data_simps(3) [of s ?T "drop (nblocks (unat v)) (C i)"] by simp
    moreover have "take ?k (chain_data s' (C' i)) = take ?k (chain_data s ?T)"
      using T \<open>?k \<le> 64 * length ?T\<close> chain_data_cong [of ?T s' s] w(5) by (simp add: a(4))
    ultimately have "take ?k (file_bytes C' i s') = take ?k old"
      using a(3) old' by (simp add: file_bytes_def min.commute)
    then show thesis using that [OF w(1-3) ok' others _ cond' cons] a(1) data by blast
  next
    assume b: "code = OSADA_ENOSPC" "C' = C" "ftable s' = ftable s"
    then have "contents s' i = contents s i"
      using contents_cong [OF inv w(6), of i] w(5) by (simp add: file_bytes_def chain_data_def)
    then show thesis using that [OF w(1-3) ok' others _ cond' cons] b old by simp
  qed
qed

lemma unlink_node_ok:
  assumes E: "bits E = ops" and ok: "fs_ok E nbits n R s"
    and i: "i < FILE_BLOCKS_MOUNT" "state (ftable s ! i) = REGULAR"
  obtains s' where "unlink_node E i s = Some (OSADA_SEXE, s')"
    and "trace s' = trace s @ [Mutex_lock, Mutex_unlock]" and "fs_ok E nbits n R s'"
    and "others_same i s s'" and "contents s' i = None" and "state (ftable s' ! i) = DELETED"
    and "conserved E n i s s'"
proof -
  obtain C where inv: "fs_inv E nbits n R C s" using ok by (auto simp: fs_ok_def)
  obtain s' where w: "unlink_node E i s = Some (OSADA_SEXE, s')"
      "trace s' = trace s @ [Mutex_lock, Mutex_unlock]" "only_file i s s'"
      "fs_inv E nbits n R (C(i := [])) s'" "dblocks s' = dblocks s" "state (ftable s' ! i) = DELETED"
    by (rule unlink_node_inv [OF E inv i])
  have "file_bytes (C(i := [])) j s' = file_bytes C j s" if "j \<noteq> i" for j
  proof (cases "j < FILE_BLOCKS_MOUNT")
    case True
    then have "ftable s' ! j = ftable s ! j"
      using w(3) that fs_inv_range(3) [OF inv] by (simp add: only_file_def)
    then show ?thesis using w(5) that by (simp add: file_bytes_def chain_data_def)
  next
    case False
    then have "C j = []" using inv unfolding fs_inv_def by blast
    then show ?thesis using that by (simp add: file_bytes_def)
  qed
  then have "others_same i s s'" using others_sameI [OF inv w(4,3)] by blast
  moreover have "conserved E n i s s'" by (rule conservedI [OF inv w(4) _ i(1)]) simp
  moreover have "contents s' i = None" using w(6) by (simp add: contents_def)
  moreover have "fs_ok E nbits n R s'" using w(4) by (auto simp: fs_ok_def)
  ultimately show thesis using that w by blast
qed

end

end
