(* ===== verification/Osada_Layout.thy ===== *)
theory Osada_Layout
  imports Osada_Disk
begin

text \<open>
  The layout \<^verbatim>\<open>read_and_set\<close> computes: the regions of the image lie one after the other, fill it,
  and the mapping table and the bitmap have an entry for every data block.
\<close>

lemma of_cint_nat: "of_cint (int k) = of_nat k"
  by simp

lemma unat_diff_nat: "unat w = a \<Longrightarrow> k \<le> a \<Longrightarrow> k < 2 ^ 32 \<Longrightarrow> unat (w - (of_nat k :: u32)) = a - k"
  by (subst unat_sub) (simp_all add: word_le_nat_alt unat_of_nat)

lemma to_int_nat: "unat w = a \<Longrightarrow> a < 2 ^ 31 \<Longrightarrow> to_int w = int a"
  using to_int_small [of w] by simp

lemma div_bounds: "0 < d \<Longrightarrow> d * (k div d) \<le> k" "0 < d \<Longrightarrow> k < d * (k div d) + (d :: nat)"
  using mod_less_divisor [of d k] mult_div_mod_eq [of d k] by linarith+

definition bitmap_count :: "nat \<Rightarrow> nat" where
  "bitmap_count N = N div 512"

definition mapping_count :: "nat \<Rightarrow> nat" where
  "mapping_count N = 1 + ((N - 1 - bitmap_count N - 1024) * 4 - 1) div 64"

definition data_count :: "nat \<Rightarrow> nat" where
  "data_count N = N - 1 - bitmap_count N - 1024 - mapping_count N"

lemma layout_counts:
  assumes N: "1029 \<le> N" "N < 2 ^ 30"
  shows "N = 1 + bitmap_count N + 1024 + mapping_count N + data_count N"
    and "0 < bitmap_count N" and "0 < mapping_count N" and "0 < data_count N"
    and "data_count N * 4 \<le> mapping_count N * 64" and "data_count N \<le> bitmap_count N * 512"
proof -
  define B where "B = bitmap_count N"
  define X where "X = N - 1 - B - 1024"
  define q where "q = (X * 4 - 1) div 64"
  have B: "512 * B \<le> N" "N < 512 * B + 512"
    unfolding B_def bitmap_count_def by (rule div_bounds, simp)+
  have X: "X = N - 1025 - B" "2 \<le> X" "N = 1025 + B + X"
    using B N by (simp_all add: X_def)
  have q: "64 * q \<le> X * 4 - 1" "X * 4 - 1 < 64 * q + 64"
    unfolding q_def by (rule div_bounds, simp)+
  have M: "mapping_count N = 1 + q" by (simp add: mapping_count_def q_def X_def B_def)
  have D: "data_count N = X - (1 + q)" unfolding data_count_def M X_def B_def ..
  show "N = 1 + bitmap_count N + 1024 + mapping_count N + data_count N"
    using X q unfolding M D B_def [symmetric] by linarith
  show "0 < bitmap_count N" using B N unfolding B_def [symmetric] by linarith
  show "0 < mapping_count N" unfolding M by simp
  show "0 < data_count N" unfolding D using q X by linarith
  show "data_count N * 4 \<le> mapping_count N * 64" 
  proof -
    have "(X - (1 + q)) * 4 \<le> X * 4" by simp
    also have "\<dots> \<le> (1 + q) * 64" using q(2) by simp
    finally show ?thesis unfolding M D .
  qed
  show "data_count N \<le> bitmap_count N * 512" unfolding D B_def [symmetric] using B X by linarith
qed

lemma read_and_set_sizes:
  assumes N: "unat (fs_blocks hdr) = N" "1029 \<le> N" "N < 2 ^ 30"
  shows "BITMAP_SIZE (read_and_set hdr) = int (bitmap_count N)"
    and "MAPPING_TABLE_SIZE (read_and_set hdr) = int (mapping_count N)"
    and "DATA_SIZE (read_and_set hdr) = int (data_count N)"
proof -
  let ?w = "fs_blocks hdr"
  note counts = layout_counts [OF N(2,3)]
  have "unat ((?w div 8) div 64) = N div 8 div 64" using N(1) by (simp add: unat_div)
  then have b: "unat ((?w div 8) div 64) = bitmap_count N"
    by (simp add: bitmap_count_def div_mult2_eq [of N 8 64, simplified])
  have B: "to_int ((?w div 8) div 64) = int (bitmap_count N)"
    by (rule to_int_nat [OF b]) (use counts(1) N(3) in simp)
  define X where "X = N - 1 - bitmap_count N - 1024"
  have X: "2 \<le> X" "X < 2 ^ 30" using counts(1,3,4) N(3) by (simp_all add: X_def)
  let ?x = "?w - of_nat 1 - of_nat (bitmap_count N) - of_nat 1024 :: u32"
  have x: "unat ?x = X"
    unfolding X_def using counts(1) N
    by (intro unat_diff_nat) simp_all
  have x4: "unat (?x * 4) = X * 4"
  proof -
    have "unat (?x * 4) = unat ?x * unat (4 :: u32)"
      by (rule unat_mult_lem [THEN iffD1]) (use x X(2) in simp)
    then show ?thesis using x by simp
  qed
  have "unat (?x * 4 - of_nat 1) = X * 4 - 1" by (rule unat_diff_nat [OF x4]) (use X in simp_all)
  then have "unat ((?x * 4 - 1) div 64) = (X * 4 - 1) div 64" by (simp add: unat_div)
  moreover have "Suc ((X * 4 - 1) div 64) = mapping_count N" by (simp add: mapping_count_def X_def)
  moreover have "mapping_count N < 2 ^ 31" using counts(1) N(3) by simp
  ultimately have m: "unat (1 + (?x * 4 - 1) div 64) = mapping_count N"
    using unat_add_lem [of "1 :: u32" "(?x * 4 - 1) div 64"] by simp
  have M: "to_int (1 + (?x * 4 - 1) div 64) = int (mapping_count N)"
    by (rule to_int_nat [OF m]) fact
  have "unat (?x - of_nat (mapping_count N)) = X - mapping_count N"
    by (rule unat_diff_nat [OF x]) (use counts(1) N(3) in \<open>simp_all add: X_def\<close>)
  then have d: "unat (?x - of_nat (mapping_count N)) = data_count N"
    by (simp add: X_def data_count_def)
  have D: "to_int (?x - of_nat (mapping_count N)) = int (data_count N)"
    by (rule to_int_nat [OF d]) (use counts(1) N(3) in simp)
  have one: "of_cint 1 = of_nat 1" "of_cint FILE_TABLE_SIZE = of_nat 1024"
    using of_cint_int [of 1] of_cint_int [of 1024] by simp_all
  show "BITMAP_SIZE (read_and_set hdr) = int (bitmap_count N)"
    unfolding read_and_set_def Let_def geometry.simps by (rule B)
  show "MAPPING_TABLE_SIZE (read_and_set hdr) = int (mapping_count N)"
    unfolding read_and_set_def Let_def geometry.simps B of_cint_int one by (rule M)
  show "DATA_SIZE (read_and_set hdr) = int (data_count N)"
    unfolding read_and_set_def Let_def geometry.simps B of_cint_int one M by (rule D)
qed

text \<open>How the bounds follow from the sizes, whatever they are.\<close>

lemma read_and_set_bounds:
  fixes hdr defines "g \<equiv> read_and_set hdr"
  shows "HEADER_0 g = 0" "HEADER_1 g = 0" "BITMAP_0 g = 1" "BITMAP_1 g = BITMAP_SIZE g"
    "FILE_TABLE_0 g = BITMAP_SIZE g + 1" "FILE_TABLE_1 g = BITMAP_SIZE g + 1024"
    "MAPPING_TABLE_0 g = BITMAP_SIZE g + 1025"
    "MAPPING_TABLE_1 g = BITMAP_SIZE g + 1024 + MAPPING_TABLE_SIZE g"
    "DATA_0 g = BITMAP_SIZE g + 1025 + MAPPING_TABLE_SIZE g"
    "DATA_1 g = BITMAP_SIZE g + 1024 + MAPPING_TABLE_SIZE g + DATA_SIZE g"
    "BM_DATA_0 g = DATA_0 g" "BM_DATA_1 g = DATA_1 g"
  unfolding g_def read_and_set_def Let_def by simp_all

end
