(* ===== verification/Osada_Names.thy ===== *)
theory Osada_Names
  imports Osada_Paths Osada_Invariant
begin

text \<open>
  The work on the contents of a file leaves the directory tree alone: \<open>names\<close> is the state, name
  and parent of every entry, and every loop of \<^verbatim>\<open>osada_write\<close> and \<^verbatim>\<open>osada_truncate\<close> keeps it,
  on any image at all. A path means the same before and after.
\<close>

definition entry_id :: "osada_file \<Rightarrow> osada_file_state \<times> byte list \<times> u16" where
  "entry_id f = (state f, fname f, parent_directory f)"

definition names :: "'bm osada \<Rightarrow> (osada_file_state \<times> byte list \<times> u16) list" where
  "names s = map entry_id (ftable s)"

lemma names_update:
  "entry_id f = entry_id (ft ! i) \<Longrightarrow> map entry_id (ft[i := f]) = map entry_id ft"
  by (cases "i < length ft") (simp_all add: map_update list_update_beyond,
      metis length_map list_update_id nth_map)

lemma names_entry: "entry_id f = entry_id (ftable s ! i) \<Longrightarrow> names (write_entry i f s) = names s"
  by (simp add: names_def write_entry_def names_update)

lemma names_simps [simp]:
  "names (set_size i v s) = names s" "names (set_lastmod i t s) = names s"
  "names (set_busy E b s) = names s" "names (set_free E b s) = names s"
  "names (mutex_lock s) = names s" "names (mutex_unlock s) = names s"
  "names (add_calls calls s) = names s" "names (semaphore a p s) = names s"
  unfolding set_size_def set_lastmod_def
  by (simp_all add: names_entry entry_id_def, simp_all add: names_def lock_calls_eq)

text \<open>Taking a step off a computation that returned something.\<close>

lemma bind_SomeE: "Option.bind x f = Some y \<Longrightarrow> (\<And>a. x = Some a \<Longrightarrow> f a = Some y \<Longrightarrow> P) \<Longrightarrow> P"
  by (cases x) simp_all

lemma if_eqE: "(if b then x else y) = z \<Longrightarrow> (x = z \<Longrightarrow> P) \<Longrightarrow> (y = z \<Longrightarrow> P) \<Longrightarrow> P"
  by (cases b) simp_all

lemma pair_eqE: "(case p of (a, b) \<Rightarrow> f a b) = z \<Longrightarrow> (\<And>a b. p = (a, b) \<Longrightarrow> f a b = z \<Longrightarrow> P) \<Longrightarrow> P"
  by (cases p) simp

lemmas peel = bind_SomeE if_eqE pair_eqE

text \<open>The loops are followed with a relation, unfolded at the end of each proof.\<close>

definition same_names :: "'bm osada \<Rightarrow> 'bm osada \<Rightarrow> bool" where
  "same_names s s' \<longleftrightarrow> names s' = names s"

lemma same_names_store: "store c v s = Some s' \<Longrightarrow> same_names s s'"
proof (cases c)
  case (First_block i)
  moreover assume "store c v s = Some s'"
  ultimately have "s' = write_entry i ((ftable s ! i)\<lparr>first_block := v\<rparr>) s"
    by (simp add: write_entry_def split: if_splits)
  then show ?thesis by (simp add: same_names_def names_entry entry_id_def)
qed (auto simp: same_names_def names_def split: if_splits)

lemma same_names_write_block: "write_block b off bs s = Some s' \<Longrightarrow> same_names s s'"
  by (auto simp: write_block_def same_names_def names_def split: if_splits)

section \<open>The loops\<close>

lemma alloc_first_names: "alloc_first E free_db i s = Some (k, s') \<Longrightarrow> same_names s s'"
proof (induction E free_db i s rule: alloc_first.induct)
  case (1 E free_db i s)
  then show ?case
    by (auto simp: alloc_first.simps [of E free_db i s] Let_def bind_eq_Some_conv
        simp del: store.simps load.simps split: if_splits dest!: same_names_store)
      (simp_all add: same_names_def)
qed

lemma add_blocks_names: "add_blocks E step need free_db c s = Some (k, s') \<Longrightarrow> same_names s s'"
proof (induction E step need free_db c s rule: add_blocks.induct)
  case (1 E step need free_db c s)
  note unfold = add_blocks.simps [of E step need free_db c s]
  let ?p = "free_db - BM_DATA_0 (geo s)"
  show ?case
  proof (cases "need > 0 \<and> free_db \<le> BM_DATA_1 (geo s) \<and> \<not> its_busy E s (nat ?p)")
    case True
    then obtain s1 c' s2 where st: "store c (of_cint ?p) (set_busy E (nat ?p) s) = Some s1"
        "follow c s1 = Some c'" "store c' END_OF_FILE s1 = Some s2"
        "add_blocks E step (need - step) (free_db + 1) c' s2 = Some (k, s')"
      using 1(3) unfolding unfold by (auto simp: Let_def bind_eq_Some_conv simp del: store.simps)
    moreover from this True have "same_names s2 s'" using 1(1) [OF _ refl] by simp
    ultimately show ?thesis
      using same_names_store [OF st(1)] same_names_store [OF st(3)] by (simp add: same_names_def)
  next
    case False
    then show ?thesis using 1(2) [OF _ refl] 1(3) unfolding unfold
      by (auto simp: Let_def same_names_def split: if_splits)
  qed
qed

lemma release_from_names: "release_from E c s = Some s' \<Longrightarrow> same_names s s'"
proof (induction E c s rule: release_from.induct)
  case (1 E c s)
  note unfold = release_from.simps [of E c s]
  obtain aux where aux: "load c s = Some aux" using 1(2) unfolding unfold by (cases "load c s") simp_all
  show ?case
  proof (cases "aux = END_OF_FILE")
    case True
    then show ?thesis using 1(2) aux unfolding unfold by (simp add: same_names_def)
  next
    case False
    then obtain s1 where s1: "store c END_OF_FILE (set_free E (unat aux) s) = Some s1"
        "release_from E (Map_entry (unat aux)) s1 = Some s'"
      using 1(2) aux unfolding unfold by (auto simp: bind_eq_Some_conv simp del: store.simps)
    then show ?thesis
      using 1(1) [OF aux False s1(1)] same_names_store [OF s1(1)] by (simp add: same_names_def)
  qed
qed

lemma release_after_names: "release_after E i blocks s = Some s' \<Longrightarrow> same_names s s'"
  by (auto simp: release_after_def bind_eq_Some_conv dest!: release_from_names) (simp add: same_names_def)

lemma write_loop_names: "write_loop c db k off pos buffer s = Some s' \<Longrightarrow> same_names s s'"
proof (erule write_loop.raw_induct [rotated])
  fix rec c db k off pos and buffer :: "byte list" and s s' :: "'a osada"
  assume IH: "\<And>c db k off pos buffer s s'. rec c db k off pos buffer s = Some s' \<Longrightarrow> same_names s s'"
    and run: "(if k > 0 then let bytes_availables_in_block = int 64 - int off;
            bytes_writing = (if k \<ge> bytes_availables_in_block then bytes_availables_in_block else k)
        in do {
          s1 \<leftarrow> write_block db off (take (nat bytes_writing) (drop pos buffer)) s;
          b \<leftarrow> load c s1;
          b' \<leftarrow> load (Map_entry (unat b)) s1;
          if b' = END_OF_FILE then Some s1
          else rec (Map_entry (unat b)) (unat b') (k - bytes_writing) 0
                 (pos + nat bytes_writing) buffer s1
        } else Some s) = Some s'"
  show "same_names s s'"
  proof (cases "k > 0")
    case False
    then show ?thesis using run by (simp add: same_names_def)
  next
    case True
    with run obtain s1 b b' where s1: "write_block db off
          (take (nat (if k \<ge> 64 - int off then 64 - int off else k)) (drop pos buffer)) s = Some s1"
        "load c s1 = Some b" "load (Map_entry (unat b)) s1 = Some b'"
      by (auto simp: Let_def bind_eq_Some_conv simp del: load.simps)
    have "same_names s1 s'"
    proof (cases "b' = END_OF_FILE")
      case True
      then show ?thesis using run \<open>k > 0\<close> s1 by (simp add: same_names_def del: load.simps)
    next
      case False
      then show ?thesis using run \<open>k > 0\<close> s1 by (intro IH) (simp add: Let_def del: load.simps)
    qed
    then show ?thesis using same_names_write_block [OF s1(1)] by (simp add: same_names_def)
  qed
qed

lemma write_first_block_names: "write_first_block E i fsize s = Some (ok, s') \<Longrightarrow> same_names s s'"
  unfolding write_first_block_def Let_def
  by (elim peel; clarsimp split: if_splits; (drule alloc_first_names)?; simp add: same_names_def)

lemma write_expand_names: "write_expand E i sz off s = Some (ok, s') \<Longrightarrow> same_names s s'"
  unfolding write_expand_def Let_def
  by (elim peel; clarsimp; (drule write_first_block_names add_blocks_names release_after_names)+;
      simp add: same_names_def)

lemma write_node_names: "write_node E i sz off buffer s = Some (code, s') \<Longrightarrow> same_names s s'"
  unfolding write_node_def write_bytes_def Let_def
  by (elim peel; clarsimp; ((drule write_expand_names write_loop_names)+)?; simp add: same_names_def)

lemma truncate_node_names: "truncate_node E i v s = Some (code, s') \<Longrightarrow> same_names s s'"
  unfolding truncate_node_def truncate_grow_def Let_def
  by (elim peel; clarsimp; ((drule add_blocks_names release_after_names)+)?; simp add: same_names_def)

section \<open>Paths\<close>

lemma nth_beyond: "length xs \<le> j \<Longrightarrow> xs ! j = [] ! (j - length xs)"
  by (induction xs arbitrary: j) (auto simp: nth_Cons split: nat.split)

lemma names_entry_id:
  assumes "names s' = names s"
  shows "entry_id (ftable s' ! j) = entry_id (ftable s ! j)"
proof -
  have len: "length (ftable s') = length (ftable s)"
    using arg_cong [OF assms, of length] by (simp add: names_def)
  show ?thesis
  proof (cases "j < length (ftable s)")
    case True
    then show ?thesis using arg_cong [OF assms, of "\<lambda>xs. xs ! j"] len by (simp add: names_def)
  next
    case False
    then show ?thesis using nth_beyond [of "ftable s" j] nth_beyond [of "ftable s'" j] len by simp
  qed
qed

lemma names_fields:
  assumes "names s' = names s"
  shows "state (ftable s' ! j) = state (ftable s ! j)"
    and "node_matches (ftable s' ! j) name pb = node_matches (ftable s ! j) name pb"
  using names_entry_id [OF assms, of j] by (simp_all add: entry_id_def node_matches_def entry_name_def)

lemma find_node_names:
  assumes "names s' = names s"
  shows "find_node name pb ign (ftable s') = find_node name pb ign (ftable s)"
  unfolding find_node_def names_fields(2) [OF assms] ..

lemma find_dir_names:
  assumes "names s' = names s"
  shows "find_dir name pb ign (ftable s') = find_dir name pb ign (ftable s)"
  unfolding find_dir_def find_node_names [OF assms] names_fields(1) [OF assms] ..

lemma lookup_names:
  assumes "names s' = names s"
  shows "lookup_node (ftable s') pb ts = lookup_node (ftable s) pb ts"
    and "lookup_dir (ftable s') pb ts = lookup_dir (ftable s) pb ts"
    and "lookup_file (ftable s') pb ts = lookup_file (ftable s) pb ts"
  by (induction ts arbitrary: pb)
    (simp_all add: find_node_names [OF assms] find_dir_names [OF assms] split: option.split list.split)

text \<open>A file found for writing is found by getattr and read.\<close>

lemma lookup_file_node: "lookup_file ft pb ts = Inr (Some p) \<Longrightarrow> lookup_node ft pb ts = Some p"
proof (induction ts arbitrary: pb)
  case (Cons t ts)
  show ?case
  proof (cases "find_dir t pb pb ft")
    case None
    then show ?thesis using Cons.prems by (auto split: list.splits option.splits)
  next
    case (Some k)
    then show ?thesis using Cons find_dir_node [OF Some] by simp
  qed
qed simp

end
