(* ===== verification/Osada_Sample.thy ===== *)
theory Osada_Sample
  imports Osada_Effects Osada_Layout Osada_Names
begin

text \<open>
  A small consistent image for the concrete examples: 1100 blocks, a directory \<open>d\<close> in entry 0 and
  in it a regular file \<open>f\<close> of 70 bytes in entry 1, whose blocks are 3 and 5. The bit array is the
  byte array of \<open>Osada_Bitarray\<close>.
\<close>

definition sample_header :: osada_header where
  "sample_header = \<lparr>magic_number = [79, 83, 65, 68, 65, 70, 83], version = 1, fs_blocks = 1100,
     bitmap_blocks = 2, allocations_table_offset = 1027, data_blocks = 68, padding = replicate 40 0\<rparr>"

definition sample_env :: "byte list env" where
  "sample_env = \<lparr>bits = msb_ops, now = 1000, malloc_junk = replicate 17 0\<rparr>"

definition blank_entry :: osada_file where
  "blank_entry = \<lparr>state = DELETED, fname = replicate 17 0, parent_directory = 0, file_size = 0,
     lastmod = 0, first_block = 0\<rparr>"

definition sample_dir :: osada_file where
  "sample_dir = \<lparr>state = DIRECTORY, fname = 100 # replicate 16 0, parent_directory = 65535,
     file_size = 0, lastmod = 7, first_block = 0\<rparr>"

definition sample_file :: osada_file where
  "sample_file = \<lparr>state = REGULAR, fname = 102 # replicate 16 0, parent_directory = 0,
     file_size = 70, lastmod = 9, first_block = 3\<rparr>"

definition sample_table :: "osada_file list" where
  "sample_table = [sample_dir, sample_file] @ replicate 2046 blank_entry"

definition sample :: "byte list osada" where
  "sample = \<lparr>geo = read_and_set sample_header, ftable = sample_table,
     maptab = (replicate 80 0)[3 := 5, 5 := END_OF_FILE], bmap = 20 # replicate 127 0,
     dblocks = map (\<lambda>b. replicate 64 (of_nat b)) [0..<68], trace = []\<rparr>"

text \<open>The path \<^verbatim>\<open>/d/f\<close>.\<close>

definition sample_path :: "byte list" where
  "sample_path = [47, 100, 47, 102]"

abbreviation bits_of :: "byte list \<Rightarrow> nat" where
  "bits_of bs \<equiv> 8 * length bs"

lemma bits_sample_env [simp]: "bits sample_env = msb_ops"
  by (simp add: sample_env_def)

lemma bitarray_sample: "bitarray (bits sample_env) bits_of"
  using msb.bitarray_axioms by simp

section \<open>Consistency\<close>

lemma sample_geometry: "BM_DATA_0 (geo sample) = 1032" "BM_DATA_1 (geo sample) = 1099"
proof -
  have N: "unat (fs_blocks sample_header) = 1100" "(1029::nat) \<le> 1100" "(1100 :: nat) < 2 ^ 30"
    by (simp_all add: sample_header_def)
  show "BM_DATA_0 (geo sample) = 1032" "BM_DATA_1 (geo sample) = 1099"
    using read_and_set_sizes [OF N]
    by (simp_all add: sample_def read_and_set_bounds bitmap_count_def mapping_count_def data_count_def)
qed

lemma sample_nth:
  "length (ftable sample) = 2048" "ftable sample ! 0 = sample_dir" "ftable sample ! 1 = sample_file"
  "ftable sample ! Suc 0 = sample_file"
  by (simp_all add: sample_def sample_table_def)

lemma sample_nth_blank: "2 \<le> j \<Longrightarrow> j < 2048 \<Longrightarrow> ftable sample ! j = blank_entry"
  by (auto simp: sample_def sample_table_def nth_append)

lemma sample_state: "j < 2048 \<Longrightarrow> state (ftable sample ! j) = REGULAR \<longleftrightarrow> j = 1"
proof -
  assume j: "j < 2048"
  consider "j = 0" | "j = 1" | "2 \<le> j" by linarith
  then show ?thesis
    using sample_nth sample_nth_blank [of j] j
    by cases (simp_all add: sample_dir_def sample_file_def blank_entry_def)
qed

lemma sample_busy:
  assumes "b < 68"
  shows "its_busy sample_env sample b \<longleftrightarrow> b = 3 \<or> b = 5"
proof (cases "b < 8")
  case True
  then have "b \<in> {0, 1, 2, 3, 4, 5, 6, 7}" by auto
  then show ?thesis
    by (auto simp: its_busy_def sample_def msb_ops_def msb_test_def bit_numeral_rec)
next
  case False
  then have "0 < b div 8" "b div 8 < 128" using assms by auto
  then show ?thesis using False assms
    by (auto simp: its_busy_def sample_def msb_ops_def msb_test_def nth_Cons split: nat.split)
qed

definition sample_chains :: "nat \<Rightarrow> nat list" where
  "sample_chains = (\<lambda>_. [])(1 := [3, 5])"

lemma sample_inv: "fs_inv sample_env bits_of 68 {} sample_chains sample"
proof -
  have range: "data_range bits_of 68 sample"
    by (simp add: data_range_def sample_geometry) (simp add: sample_def)
  have blocks: "blocks_ok 68 sample"
    by (simp add: blocks_ok_def sample_def)
  have maps: "maptab sample ! 3 = 5" "maptab sample ! 5 = END_OF_FILE" "length (maptab sample) = 80"
    by (simp_all add: sample_def)
  have neq: "(3 :: u32) \<noteq> END_OF_FILE" "(5 :: u32) \<noteq> END_OF_FILE" by (simp_all add: END_OF_FILE_def)
  have chain: "chain_at sample (First_block 1) [3, 5]"
    using maps neq sample_nth by (simp add: sample_file_def)
  have size: "nblocks (unat (file_size (ftable sample ! 1))) = 2"
    using sample_nth by (simp add: sample_file_def nblocks_def)
  show ?thesis
    unfolding fs_inv_def
    using range blocks chain size sample_nth(1) sample_state sample_busy
    by (auto simp: FILE_BLOCKS_MOUNT_def sample_chains_def)
qed

lemma sample_ok: "fs_ok sample_env bits_of 68 {} sample"
  using sample_inv by (auto simp: fs_ok_def)

lemma sample_contents: "contents sample 1 = Some (replicate 64 3 @ replicate 6 5)"
proof -
  have "contents sample 1 = Some (file_bytes sample_chains 1 sample)"
    by (rule contents_inv [OF sample_inv])
      (simp_all add: FILE_BLOCKS_MOUNT_def sample_nth sample_file_def)
  also have "file_bytes sample_chains 1 sample = replicate 64 3 @ replicate 6 5"
    by (simp add: file_bytes_def sample_nth sample_file_def sample_chains_def) (simp add: sample_def)
  finally show ?thesis .
qed

section \<open>Paths\<close>

text \<open>A search only looks at the two entries in use.\<close>

lemma find_append:
  "List.find P (xs @ ys) = (case List.find P xs of None \<Rightarrow> List.find P ys | Some x \<Rightarrow> Some x)"
  by (induction xs) simp_all

lemma upt_mount: "[0..<FILE_BLOCKS_MOUNT] = [0, 1] @ [2..<2048]"
proof -
  have "[0..<2048] = 0 # [Suc 0..<2048]" "[Suc 0..<2048] = Suc 0 # [Suc (Suc 0)..<2048]"
    by (rule upt_conv_Cons, simp)+
  then show ?thesis
    by (simp only: FILE_BLOCKS_MOUNT_def numeral_2_eq_2 One_nat_def append_Cons append_Nil)
qed

lemma find_node_sample:
  "find_node name pb ign (ftable sample) =
     List.find (\<lambda>i. int i \<noteq> pb \<and> int i \<noteq> ign \<and> node_matches (ftable sample ! i) name pb) [0, 1]"
proof -
  let ?P = "\<lambda>i. int i \<noteq> pb \<and> int i \<noteq> ign \<and> node_matches (ftable sample ! i) name pb"
  have rest: "List.find ?P [2..<2048] = None"
    unfolding find_None_iff set_upt
    by (auto simp: node_matches_def sample_nth_blank blank_entry_def)
  have "find_node name pb ign (ftable sample) = List.find ?P ([0, 1] @ [2..<2048])"
    unfolding find_node_def upt_mount ..
  also have "\<dots> = List.find ?P [0, 1]"
    unfolding find_append rest by (cases "List.find ?P [0, 1]") (simp_all only: option.case)
  finally show ?thesis .
qed

lemma sample_matches:
  "node_matches (ftable sample ! 0) name pb \<longleftrightarrow> name = [100] \<and> pb = ROOT"
  "node_matches (ftable sample ! Suc 0) name pb \<longleftrightarrow> name = [102] \<and> pb = 0"
  by (auto simp: node_matches_def sample_nth sample_dir_def sample_file_def entry_name_def ROOT_def)

lemma sample_states:
  "state (ftable sample ! 0) = DIRECTORY" "state (ftable sample ! Suc 0) = REGULAR"
  by (simp_all add: sample_nth sample_dir_def sample_file_def)

lemma sample_find_dir:
  "find_dir name pb ign (ftable sample) =
     (if name = [100] \<and> pb = ROOT \<and> ign \<noteq> 0 then Some 0 else None)"
  using sample_states by (auto simp: find_dir_def find_node_sample sample_matches ROOT_def)

lemma sample_tokens: "path_tokens sample_path = [[100], [102]]"
  by (simp add: path_tokens_def strtok_def sample_path_def slash_def)

lemma sample_lookup:
  "lookup_file (ftable sample) ROOT (path_tokens sample_path) = Inr (Some 1)"
  "lookup_node (ftable sample) ROOT (path_tokens sample_path) = Some 1"
proof -
  show "lookup_file (ftable sample) ROOT (path_tokens sample_path) = Inr (Some 1)"
    by (simp add: sample_tokens sample_find_dir find_node_sample sample_matches) (simp add: ROOT_def)
  then show "lookup_node (ftable sample) ROOT (path_tokens sample_path) = Some 1"
    by (rule lookup_file_node)
qed

end
