(* ===== verification/Osada_Correct.thy ===== *)
theory Osada_Correct
  imports Osada_Sample
begin

text \<open>
  The properties of the OSADA server that are stated at the level of a whole request: response,
  contents of the file, the other files, consistency of the image and locks, for the requests
  that work on the contents of a file.
\<close>

section \<open>What a received request looks like\<close>

lemma recv_bind_Received:
  "recv_bind r f = Received x rest \<longleftrightarrow> (\<exists>y rest1. r = Received y rest1 \<and> f y rest1 = Received x rest)"
  by (cases r) auto

lemma recv_write_length:
  "recv_write inp = Received (path, sz, off, buf) rest \<Longrightarrow> unat sz = length buf \<and> buf \<noteq> []"
  by (auto simp: recv_write_def recv_bind_Received recv_waitall_def split: if_splits)

lemma recv_write_message:
  assumes "path \<noteq> []" "length path < 2 ^ 32" "0 \<notin> set path" and "buf \<noteq> []" "length buf < 2 ^ 32"
  shows "recv_write (le32 (of_nat (length path)) @ path @ le32 (of_nat (length buf)) @ le32 off @ buf @ rest)
    = Received (path, of_nat (length buf), off, buf) rest"
  using recv_path_message [OF assms(1-3)] assms(4,5) by (simp add: recv_write_def unat_of_nat)

lemma recv_read_message:
  assumes "path \<noteq> []" "length path < 2 ^ 32" "0 \<notin> set path"
  shows "recv_read (le32 (of_nat (length path)) @ path @ le32 sz @ le32 off @ rest) = Received (path, sz, off) rest"
  using recv_path_message [OF assms] by (simp add: recv_read_def)

lemma recv_truncate_message:
  assumes "path \<noteq> []" "length path < 2 ^ 32" "0 \<notin> set path"
  shows "recv_truncate (le32 (of_nat (length path)) @ path @ le32 sz @ rest) = Received (path, sz) rest"
  using recv_path_message [OF assms] by (simp add: recv_truncate_def)

lemma recv_rename_message:
  assumes "from \<noteq> []" "length from < 2 ^ 32" "0 \<notin> set from" and "to \<noteq> []" "length to < 2 ^ 32" "0 \<notin> set to"
  shows "recv_rename (le32 (of_nat (length from)) @ from @ le32 (of_nat (length to)) @ to @ rest)
    = Received (from, to) rest"
  using recv_path_message [OF assms(1-3)] recv_path_message [OF assms(4-6)] by (simp add: recv_rename_def)

lemma on_request_Received: "r = Received x rest \<Longrightarrow>
    on_request r s body = map_option (\<lambda>(resp, s'). (resp, s', rest)) (body x)"
  by (simp add: on_request_def)

text \<open>A handler that runs on a resolved file.\<close>

lemma lookup_file_index:
  assumes "lookup_file ft pb ts = Inr (Some (int i))"
  shows "i < FILE_BLOCKS_MOUNT" and "state (ft ! i) = REGULAR"
  using lookup_file_regular [OF assms] by auto

section \<open>write\<close>

lemma osada_write_run:
  assumes bits: "bitarray (bits E) nbits" and ok: "fs_ok E nbits n R s" and n: "0 < n"
    and inp: "recv_write inp = Received (path, sz, off, buf) rest"
    and found: "lookup_file (ftable s) ROOT (path_tokens path) = Inr (Some (int i))"
    and old: "contents s i = Some old" and small: "unat off + length buf < 2 ^ 31"
  shows "\<exists>code s'. osada_write E s inp = Some (resp_byte code, s', rest)
     \<and> fs_ok E nbits n R s' \<and> releases_all s s' \<and> others_same i s s' \<and> names s' = names s
     \<and> conserved E n i s s'
     \<and> (code = OSADA_SEXE \<and> (\<exists>data. contents s' i = Some data
            \<and> length data = max (length old) (unat off + length buf)
            \<and> (unat off \<le> length old \<longrightarrow> data = pwrite old (unat off) buf))
        \<or> code = OSADA_ENOSPC \<and> contents s' i = Some old)
     \<and> (nblocks (unat off + length buf) - nblocks (length old) < free_count E n s \<longrightarrow> code = OSADA_SEXE)"
proof -
  let ?s1 = "add_calls (resolve_calls (ftable s) ROOT (path_tokens path)) s"
  let ?body = "\<lambda>i. write_node E i sz off buf"
  have len: "unat sz = length buf" "buf \<noteq> []" using recv_write_length [OF inp] by simp_all
  note i = lookup_file_index [OF found]
  have at1: "fs_ok E nbits n R ?s1" "state (ftable ?s1 ! i) = REGULAR" "contents ?s1 i = Some old"
    "unat off + unat sz < 2 ^ 31"
    using ok i old len small by simp_all
  obtain code s2 t where w: "write_node E i sz off buf ?s1 = Some (code, s2)"
    "trace s2 = trace ?s1 @ t" "mutex_pairs t" "fs_ok E nbits n R s2" "others_same i ?s1 s2"
    and c: "code = OSADA_SEXE \<and> state (ftable s2 ! i) = REGULAR
          \<and> (\<exists>data. contents s2 i = Some data \<and> length data = max (length old) (unat off + length buf)
              \<and> (unat off \<le> length old \<longrightarrow> data = pwrite old (unat off) buf))
        \<or> code = OSADA_ENOSPC \<and> contents s2 i = Some old
          \<and> ftable s2 = (ftable ?s1)[i := (ftable ?s1 ! i)\<lparr>lastmod := now E\<rparr>]"
    and room: "nblocks (unat off + length buf) - nblocks (length old) < free_count E n ?s1 \<longrightarrow> code = OSADA_SEXE"
    and cons: "conserved E n i ?s1 s2"
    by (rule bitarray.write_node_ok [OF bits refl at1(1) n i(1) at1(2,3) len at1(4)])
  have "osada_write E s inp = Some (resp_byte code, semaphore UNLOCK (int i) s2, rest)"
    using on_file_found(1) [where body = ?body, OF found w(1-3)] inp by (simp add: osada_write_def on_request_Received)
  moreover have "releases_all s (semaphore UNLOCK (int i) s2)" 
    by (rule on_file_found(2) [where body = ?body, OF found w(1-3)])
  moreover have "names s2 = names s" using write_node_names [OF w(1)] by (simp add: same_names_def)
  ultimately show ?thesis
    using w(4,5) c room cons by (intro exI [of _ code] exI [of _ "semaphore UNLOCK (int i) s2"]) auto
qed

text \<open>
  C1: A write request on a regular file of a consistent image is answered, either with
  OSADA_SEXE, and then the file has grown to the written end and holds what POSIX promises of a
  write inside it or at its end, or with OSADA_ENOSPC, and then its contents are unchanged. In
  both cases the image stays consistent, no other file and no name changes and every lock is
  released; the blocks the file gained are the ones that are no longer free; with more free
  blocks than the write needs, the answer is OSADA_SEXE.
\<close>

theorem osada_write_correct:
  assumes "bitarray (bits E) nbits" and "fs_ok E nbits n R s" and "0 < n"
    and "recv_write inp = Received (path, sz, off, buf) rest"
    and "lookup_file (ftable s) ROOT (path_tokens path) = Inr (Some (int i))"
    and "contents s i = Some old" and "unat off + length buf < 2 ^ 31"
  shows "\<exists>code s'. osada_write E s inp = Some (resp_byte code, s', rest)
     \<and> fs_ok E nbits n R s' \<and> releases_all s s' \<and> others_same i s s' \<and> names s' = names s
     \<and> conserved E n i s s'
     \<and> (code = OSADA_SEXE \<and> (\<exists>data. contents s' i = Some data
            \<and> length data = max (length old) (unat off + length buf)
            \<and> (unat off \<le> length old \<longrightarrow> data = pwrite old (unat off) buf))
        \<or> code = OSADA_ENOSPC \<and> contents s' i = Some old)
     \<and> (nblocks (unat off + length buf) - nblocks (length old) < free_count E n s \<longrightarrow> code = OSADA_SEXE)"
  using assms by (rule osada_write_run)

definition sample_write :: "byte list" where
  "sample_write = le32 4 @ sample_path @ le32 3 @ le32 70 @ [1, 2, 3]"

lemma sample_path_ok: "sample_path \<noteq> []" "length sample_path < 2 ^ 32" "0 \<notin> set sample_path"
  "of_nat (length sample_path) = (4 :: u32)" "length sample_path = 4"
  by (simp_all add: sample_path_def)

lemma recv_sample_write: "recv_write sample_write = Received (sample_path, 3, 70, [1, 2, 3]) []"
  using recv_write_message [OF sample_path_ok(1-3), of "[1, 2, 3]" 70 "[]"] sample_path_ok(4)
  by (simp add: sample_write_def)

lemma sample_free: "0 < free_count sample_env 68 sample"
proof -
  have "0 \<in> set (free_blocks sample_env sample 0 68)" using sample_busy [of 0] by (simp add: set_free_blocks)
  then show ?thesis by (auto simp: free_count_def)
qed

lemma sample_lookup_nat:
  "lookup_file (ftable sample) ROOT (path_tokens sample_path) = Inr (Some (int 1))"
  using sample_lookup(1) by simp

lemma osada_write_correct_witness:
  "\<exists>s'. osada_write sample_env sample sample_write = Some (resp_byte OSADA_SEXE, s', [])
     \<and> contents s' 1 = Some (replicate 64 3 @ replicate 6 5 @ [1, 2, 3])
     \<and> fs_ok sample_env bits_of 68 {} s' \<and> releases_all sample s'"
proof -
  have "nblocks 73 - nblocks 70 = 0" by (simp add: nblocks_def)
  with osada_write_correct [OF bitarray_sample sample_ok _ recv_sample_write sample_lookup_nat sample_contents]
  show ?thesis using sample_free by (auto simp: pwrite_def)
qed


section \<open>read\<close>

lemma contents_entry: "contents s i = Some old \<Longrightarrow> i < length (ftable s) \<and> state (ftable s ! i) = REGULAR"
  by (auto simp: contents_def split: if_splits)

lemma fs_ok_length: "fs_ok E nbits n R s \<Longrightarrow> length (ftable s) = FILE_BLOCKS_MOUNT"
  by (auto simp: fs_ok_def dest: fs_inv_range(3))

text \<open>Lock calls do not change what is read.\<close>

lemma skip_blocks_calls [simp]: "skip_blocks k c (add_calls t s) = skip_blocks k c s"
  by (induction k arbitrary: c) (simp_all add: follow_def)

lemma read_block_calls [simp]: "read_block b k l (add_calls t s) = read_block b k l s"
  by (simp add: read_block_def)

lemma read_loop_calls [simp]: "read_loop c k buff (add_calls t s) = read_loop c k buff s"
proof (induction c k buff s rule: read_loop.induct)
  case (1 c k buff s)
  note step = read_loop.simps [of c k buff]
  show ?case
  proof (cases "load c s")
    case None
    then show ?thesis by (simp add: step del: load.simps)
  next
    case (Some b)
    let ?r = "if k \<ge> int OSADA_BLOCK_SIZE then int OSADA_BLOCK_SIZE else k"
    show ?thesis
    proof (cases "b \<noteq> END_OF_FILE \<and> k > 0")
      case True
      then show ?thesis
        using 1 [OF Some True refl]
        by (cases "read_block (unat b) 0 (nat ?r) s") (simp_all add: step Some Let_def del: load.simps)
    next
      case False
      then show ?thesis by (auto simp: step Some Let_def simp del: load.simps)
    qed
  qed
qed

lemma read_node_calls [simp]: "read_node i sz off (add_calls t s) = read_node i sz off s"
  by (simp add: read_node_def Let_def del: load.simps)

text \<open>A read of a file that is found: the answer is that of \<open>read_node\<close> and every lock is released.\<close>

lemma osada_read_found:
  assumes inp: "recv_read inp = Received (path, sz, off) rest"
    and found: "lookup_node (ftable s) ROOT (path_tokens path) = Some (int i)" and i: "i < FILE_BLOCKS_MOUNT"
  obtains t where "osada_read s inp = map_option
      (\<lambda>buff. (resp_byte OSADA_SEXE @ le32 (of_nat (length buff)) @ buff, add_calls t s, rest)) (read_node i sz off s)"
    and "releases_all s (add_calls t s)"
proof -
  let ?calls = "getattr_calls (ftable s) ROOT (path_tokens path)"
  let ?t = "?calls @ [Rwlock UNLOCK (int i)]"
  have ne: "path_tokens path \<noteq> []" using found i by (auto simp: ROOT_def FILE_BLOCKS_MOUNT_def)
  have "lock_index_ok (int i)" "int i \<noteq> ROOT"
    using i by (simp_all add: lock_index_ok_def ROOT_def FILE_BLOCKS_MOUNT_def)
  then have "replay ?t no_locks = Some no_locks"
    using replay_getattr [of ROOT "ftable s" "path_tokens path" False] found
      replay_unlock_at [of "int i" LOCK_READ False] by (simp add: no_locks_def replay_append)
  then have "releases_all s (add_calls ?t s)" by (auto simp: releases_all_def)
  moreover have "osada_read s inp = map_option
      (\<lambda>buff. (resp_byte OSADA_SEXE @ le32 (of_nat (length buff)) @ buff, add_calls ?t s, rest)) (read_node i sz off s)"
    using inp getattr_loop_eq [OF ne, of ROOT None s] found
    by (cases "read_node i sz off s") (simp_all add: osada_read_def on_request_Received lock_calls_eq)
  ultimately show thesis using that by blast
qed

lemma osada_read_run:
  assumes ok: "fs_ok E nbits n R s" and inp: "recv_read inp = Received (path, sz, off) rest"
    and found: "lookup_node (ftable s) ROOT (path_tokens path) = Some (int i)"
    and old: "contents s i = Some old" and before: "unat off + 1 < length old"
    and small: "unat off + unat sz < 2 ^ 32"
  shows "\<exists>t. let data = take (unat sz) (drop (unat off) old) in
     osada_read s inp = Some (resp_byte OSADA_SEXE @ le32 (of_nat (length data)) @ data, add_calls t s, rest)
     \<and> releases_all s (add_calls t s)"
proof -
  have i: "i < FILE_BLOCKS_MOUNT" "state (ftable s ! i) = REGULAR"
    using contents_entry [OF old] fs_ok_length [OF ok] by simp_all
  obtain t where t: "osada_read s inp = map_option
      (\<lambda>buff. (resp_byte OSADA_SEXE @ le32 (of_nat (length buff)) @ buff, add_calls t s, rest)) (read_node i sz off s)"
    "releases_all s (add_calls t s)" by (rule osada_read_found [OF inp found i(1)])
  then show ?thesis
    unfolding read_node_ok [OF ok i old before small] by (intro exI [of _ t]) (simp add: Let_def)
qed

text \<open>
  C2: A read that starts before the last byte of a file is answered with exactly the bytes of the
  file from the offset on, as many as asked for or as there are; nothing changes and every lock
  is released.
\<close>

theorem osada_read_correct:
  assumes "fs_ok E nbits n R s" and "recv_read inp = Received (path, sz, off) rest"
    and "lookup_node (ftable s) ROOT (path_tokens path) = Some (int i)"
    and "contents s i = Some old" and "unat off + 1 < length old"
    and "unat off + unat sz < 2 ^ 32"
  shows "\<exists>t. let data = take (unat sz) (drop (unat off) old) in
     osada_read s inp = Some (resp_byte OSADA_SEXE @ le32 (of_nat (length data)) @ data, add_calls t s, rest)
     \<and> releases_all s (add_calls t s)"
  using assms by (rule osada_read_run)

definition sample_read :: "byte list" where
  "sample_read = le32 4 @ sample_path @ le32 10 @ le32 62"

lemma recv_sample_read: "recv_read sample_read = Received (sample_path, 10, 62) []"
  using recv_read_message [OF sample_path_ok(1-3), of 10 62 "[]"] sample_path_ok(4) by (simp add: sample_read_def)

lemma sample_lookup_int: "lookup_node (ftable sample) ROOT (path_tokens sample_path) = Some (int 1)"
  using sample_lookup(2) by simp

lemma osada_read_correct_witness:
  "\<exists>t. osada_read sample sample_read
      = Some ([8, 8, 0, 0, 0] @ replicate 2 3 @ replicate 6 5, add_calls t sample, [])
     \<and> releases_all sample (add_calls t sample)"
  using osada_read_correct [OF sample_ok recv_sample_read sample_lookup_int sample_contents]
  by (auto simp: Let_def le32_def resp_byte_def)

text \<open>
  C3: The end of a file is out of reach: a read from its last byte on (or of a file of one byte)
  is answered with no bytes, and a read at offset 0 of an empty file follows the end mark as if it
  were a block, past the mapping table.
\<close>

theorem osada_read_end:
  assumes ok: "fs_ok E nbits n R s" and inp: "recv_read inp = Received (path, sz, off) rest"
    and found: "lookup_node (ftable s) ROOT (path_tokens path) = Some (int i)"
    and old: "contents s i = Some old"
  shows "(old \<noteq> [] \<and> length old \<le> unat off + 1 \<longrightarrow>
      (\<exists>t. osada_read s inp = Some (resp_byte OSADA_SEXE @ le32 0, add_calls t s, rest)))
    \<and> (old = [] \<and> off = 0 \<and> length (maptab s) \<le> unat END_OF_FILE \<longrightarrow> osada_read s inp = None)"
proof (intro conjI impI; (elim conjE)?)
  have i: "i < FILE_BLOCKS_MOUNT" "state (ftable s ! i) = REGULAR"
    using contents_entry [OF old] fs_ok_length [OF ok] by simp_all
  obtain t where t: "osada_read s inp = map_option
      (\<lambda>buff. (resp_byte OSADA_SEXE @ le32 (of_nat (length buff)) @ buff, add_calls t s, rest)) (read_node i sz off s)"
    by (rule osada_read_found [OF inp found i(1)])
  obtain old' where "contents s i = Some old'" "length old' = unat (file_size (ftable s ! i))"
      "length old' < 2 ^ 31" by (rule fs_ok_size [OF ok i])
  then have size: "length old = unat (file_size (ftable s ! i))" "length old < 2 ^ 31" using old by simp_all
  {
    assume "old \<noteq> []" and "length old \<le> unat off + 1"
    then have "read_node i sz off s = Some []"
      using read_node_last [of s i off sz, folded size(1)] size(2) by simp
    then show "\<exists>t. osada_read s inp = Some (resp_byte OSADA_SEXE @ le32 0, add_calls t s, rest)"
      using t by auto
  }
  assume a: "old = []" "off = 0" "length (maptab s) \<le> unat END_OF_FILE"
  obtain C where inv: "fs_inv E nbits n R C s" using ok by (auto simp: fs_ok_def)
  have "C i = []" using fs_inv_file(2) [OF inv i] size a(1) by simp
  then have first: "load (First_block i) s = Some END_OF_FILE" using fs_inv_file(1) [OF inv i] by simp
  have fsize: "file_size (ftable s ! i) = 0" using size a(1) by (simp add: unat_eq_0)
  have lt: "(0 :: u32) < of_cint (- 1)" by (simp add: of_cint_def word_gt_0)
  have "load (Map_entry (unat END_OF_FILE)) s = None" using a(3) by simp
  then have "read_loop (Map_entry (unat END_OF_FILE)) k chunk s = None" for k chunk
    by (simp add: read_loop.simps [of "Map_entry (unat END_OF_FILE)" k chunk s] del: load.simps unat_END_OF_FILE)
  moreover have "to_int 0 = 0" by (simp add: to_int_def)
  moreover have "Option.bind x (\<lambda>y. None) = (None :: byte list option)" for x :: "byte list option"
    by (cases x) simp_all
  ultimately have "read_node i sz off s = None"
    using first lt
    by (simp only: read_node_def fsize a(2) Let_def diff_0 if_True unsigned_0 div_0 skip_blocks.simps
        bind.bind_lunit bind.bind_lzero)
  then show "osada_read s inp = None" using t by simp
qed

lemma osada_read_end_witness:
  "\<exists>t. osada_read sample (le32 4 @ sample_path @ le32 1 @ le32 69)
      = Some (resp_byte OSADA_SEXE @ le32 0, add_calls t sample, [])"
proof -
  have "recv_read (le32 4 @ sample_path @ le32 1 @ le32 69) = Received (sample_path, 1, 69) []"
    using recv_read_message [OF sample_path_ok(1-3), of 1 69 "[]"] sample_path_ok(4) by simp
  from osada_read_end [OF sample_ok this sample_lookup_int sample_contents] show ?thesis by simp
qed

section \<open>truncate\<close>

text \<open>
  C4: A truncate request keeps the bytes up to the smaller of the two sizes and leaves a file of
  exactly the size asked for, or answers OSADA_ENOSPC and changes nothing. It is refused exactly
  when the extra blocks it needs are more than the free blocks before the last data block: the
  last data block itself is never counted, because the search that takes it ends past BM_DATA_1.
\<close>

theorem osada_truncate_correct:
  assumes bits: "bitarray (bits E) nbits" and ok: "fs_ok E nbits n R s" and n: "0 < n"
    and inp: "recv_truncate inp = Received (path, v) rest"
    and found: "lookup_file (ftable s) ROOT (path_tokens path) = Inr (Some (int i))"
    and old: "contents s i = Some old"
  shows "\<exists>code s'. osada_truncate E s inp = Some (resp_byte code, s', rest)
     \<and> fs_ok E nbits n R s' \<and> releases_all s s' \<and> others_same i s s' \<and> names s' = names s
     \<and> conserved E n i s s'
     \<and> (code = OSADA_SEXE \<and> (\<exists>data. contents s' i = Some data \<and> length data = unat v
            \<and> take (min (length old) (unat v)) data = take (min (length old) (unat v)) old)
        \<or> code = OSADA_ENOSPC \<and> contents s' i = Some old)
     \<and> (code = OSADA_SEXE \<longleftrightarrow> nblocks (unat v) - nblocks (length old) \<le> free_count E (n - 1) s)"
proof -
  let ?s1 = "add_calls (resolve_calls (ftable s) ROOT (path_tokens path)) s"
  let ?body = "\<lambda>i. truncate_node E i v"
  note i = lookup_file_index [OF found]
  have at1: "fs_ok E nbits n R ?s1" "state (ftable ?s1 ! i) = REGULAR" "contents ?s1 i = Some old"
    using ok i old by simp_all
  obtain code s2 t where w: "truncate_node E i v ?s1 = Some (code, s2)"
    "trace s2 = trace ?s1 @ t" "mutex_pairs t" "fs_ok E nbits n R s2" "others_same i ?s1 s2"
    and c: "code = OSADA_SEXE \<and> (\<exists>data. contents s2 i = Some data \<and> length data = unat v
            \<and> take (min (length old) (unat v)) data = take (min (length old) (unat v)) old)
        \<or> code = OSADA_ENOSPC \<and> contents s2 i = Some old \<and> ftable s2 = ftable ?s1"
    and room: "code = OSADA_SEXE \<longleftrightarrow> nblocks (unat v) - nblocks (length old) \<le> free_count E (n - 1) ?s1"
    and cons: "conserved E n i ?s1 s2"
    by (rule bitarray.truncate_node_ok [OF bits refl at1(1) n i(1) at1(2,3)])
  have "osada_truncate E s inp = Some (resp_byte code, semaphore UNLOCK (int i) s2, rest)"
    using on_file_found(1) [where body = ?body, OF found w(1-3)] inp
    by (simp add: osada_truncate_def on_request_Received)
  moreover have "releases_all s (semaphore UNLOCK (int i) s2)"
    by (rule on_file_found(2) [where body = ?body, OF found w(1-3)])
  moreover have "names s2 = names s" using truncate_node_names [OF w(1)] by (simp add: same_names_def)
  ultimately show ?thesis
    using w(4,5) c room cons by (intro exI [of _ code] exI [of _ "semaphore UNLOCK (int i) s2"]) auto
qed

lemma osada_truncate_correct_witness:
  "\<exists>s'. osada_truncate sample_env sample (le32 4 @ sample_path @ le32 10) = Some (resp_byte OSADA_SEXE, s', [])
     \<and> contents s' 1 = Some (replicate 10 3) \<and> fs_ok sample_env bits_of 68 {} s'"
proof -
  have inp: "recv_truncate (le32 4 @ sample_path @ le32 10) = Received (sample_path, 10) []"
    using recv_truncate_message [OF sample_path_ok(1-3), of 10 "[]"] sample_path_ok(4) by simp
  have "nblocks 10 - nblocks 70 = 0" by (simp add: nblocks_def)
  with osada_truncate_correct [OF bitarray_sample sample_ok _ inp sample_lookup_nat sample_contents]
  show ?thesis by auto
qed

section \<open>unlink\<close>

lemma osada_unlink_run:
  assumes bits: "bitarray (bits E) nbits" and ok: "fs_ok E nbits n R s"
    and inp: "recv_path inp = Received path rest"
    and found: "lookup_file (ftable s) ROOT (path_tokens path) = Inr (Some (int i))"
    and old: "contents s i = Some old"
  shows "\<exists>s'. osada_unlink E s inp = Some (resp_byte OSADA_SEXE, s', rest)
     \<and> fs_ok E nbits n R s' \<and> releases_all s s' \<and> others_same i s s'
     \<and> state (ftable s' ! i) = DELETED
     \<and> free_count E n s' = free_count E n s + nblocks (length old)"
proof -
  let ?s1 = "add_calls (resolve_calls (ftable s) ROOT (path_tokens path)) s"
  note i = lookup_file_index [OF found]
  have at1: "fs_ok E nbits n R ?s1" "state (ftable ?s1 ! i) = REGULAR"
    using ok i by simp_all
  obtain s2 where w: "unlink_node E i ?s1 = Some (OSADA_SEXE, s2)"
    "trace s2 = trace ?s1 @ [Mutex_lock, Mutex_unlock]"
    and c: "fs_ok E nbits n R s2" "others_same i ?s1 s2" "contents s2 i = None"
      "state (ftable s2 ! i) = DELETED" "conserved E n i ?s1 s2"
    by (rule bitarray.unlink_node_ok [OF bits refl at1(1) i(1) at1(2)])
  note f = on_file_found [where body = "unlink_node E", OF found w mutex_pairs_simps(2)]
  have "osada_unlink E s inp = Some (resp_byte OSADA_SEXE, semaphore UNLOCK (int i) s2, rest)"
    using f(1) inp by (simp add: osada_unlink_def on_request_Received)
  moreover have "free_count E n s2 = free_count E n s + nblocks (length old)"
    using c(3,5) old by (simp add: conserved_def used_blocks_def)
  ultimately show ?thesis
    using c f(2) by (intro exI [of _ "semaphore UNLOCK (int i) s2"]) simp
qed

text \<open>
  C5: Unlinking a file gives back exactly the blocks it used: the free blocks grow by the number
  its size needs, no other file changes and the image stays consistent.
\<close>

theorem osada_unlink_correct:
  assumes "bitarray (bits E) nbits" and "fs_ok E nbits n R s"
    and "recv_path inp = Received path rest"
    and "lookup_file (ftable s) ROOT (path_tokens path) = Inr (Some (int i))"
    and "contents s i = Some old"
  shows "\<exists>s'. osada_unlink E s inp = Some (resp_byte OSADA_SEXE, s', rest)
     \<and> fs_ok E nbits n R s' \<and> releases_all s s' \<and> others_same i s s'
     \<and> state (ftable s' ! i) = DELETED
     \<and> free_count E n s' = free_count E n s + nblocks (length old)"
  using assms by (rule osada_unlink_run)

lemma osada_unlink_correct_witness:
  "\<exists>s'. osada_unlink sample_env sample (le32 4 @ sample_path) = Some (resp_byte OSADA_SEXE, s', [])
     \<and> free_count sample_env 68 s' = free_count sample_env 68 sample + 2"
proof -
  have inp: "recv_path (le32 4 @ sample_path) = Received sample_path []"
    using recv_path_message [OF sample_path_ok(1-3), of "[]"] sample_path_ok(4) by simp
  have "nblocks 70 = 2" by (simp add: nblocks_def)
  with osada_unlink_correct [OF bitarray_sample sample_ok inp sample_lookup_nat sample_contents]
  show ?thesis by auto
qed

text \<open>Releasing blocks never takes an end mark away.\<close>

lemma release_from_keeps_end:
  "release_from E d s = Some s' \<Longrightarrow> load c s = Some END_OF_FILE \<Longrightarrow> load c s' = Some END_OF_FILE"
proof (induction E d s rule: release_from.induct)
  case (1 E d s)
  note step = release_from.simps [of E d s]
  obtain aux where aux: "load d s = Some aux" using 1(2) by (cases "load d s") (simp_all add: step)
  show ?case
  proof (cases "aux = END_OF_FILE")
    case True
    then show ?thesis using 1(2,3) aux by (simp add: step)
  next
    case False
    then obtain s1 where s1: "store d END_OF_FILE (set_free E (unat aux) s) = Some s1"
        "release_from E (Map_entry (unat aux)) s1 = Some s'"
      using 1(2) aux by (auto simp: step bind_eq_Some_conv simp del: store.simps load.simps)
    then show ?thesis
      using 1(1) [OF aux False s1(1)] 1(3) load_store [OF s1(1), of c] by simp
  qed
qed

definition cells_in_range :: "'bm osada \<Rightarrow> bool" where
  "cells_in_range s \<longleftrightarrow> (\<forall>c b. load c s = Some b \<longrightarrow> b = END_OF_FILE \<or> unat b < length (maptab s))"

text \<open>
  C6: Giving back blocks ends on every image whose cells point into the mapping table, a damaged one
  with cycles or shared blocks included: from any cell that exists \<open>release_from\<close> returns, and that
  cell is an end mark afterwards.
\<close>

theorem release_from_returns:
  assumes "cells_in_range s" and "load c s \<noteq> None"
  shows "\<exists>s'. release_from E c s = Some s' \<and> load c s' = Some END_OF_FILE"
  using assms
proof (induction E c s rule: release_from.induct)
  case (1 E c s)
  note step = release_from.simps [of E c s]
  obtain aux where aux: "load c s = Some aux" using 1(3) by auto
  show ?case
  proof (cases "aux = END_OF_FILE")
    case True
    then show ?thesis using aux by (simp add: step)
  next
    case False
    have "load c (set_free E (unat aux) s) = Some aux" using aux by simp
    then obtain s1 where s1: "store c END_OF_FILE (set_free E (unat aux) s) = Some s1"
      using store_Some by blast
    have loads: "load d s1 = (if d = c then Some END_OF_FILE else load d s)" for d
      using load_store [OF s1, of d] by simp
    have len: "length (maptab s1) = length (maptab s)" using store_other(5) [OF s1] by simp
    have "cells_in_range s1" using 1(2) by (auto simp: cells_in_range_def loads len simp del: load.simps)
    moreover have "unat aux < length (maptab s1)"
      using 1(2) aux False unfolding cells_in_range_def len by blast
    then have "load (Map_entry (unat aux)) s1 \<noteq> None" by simp
    ultimately obtain s' where s': "release_from E (Map_entry (unat aux)) s1 = Some s'"
      using 1(1) [OF aux False s1] by blast
    have "load c s' = Some END_OF_FILE" by (rule release_from_keeps_end [OF s']) (simp add: loads)
    then show ?thesis using aux False s1 s' by (simp add: step del: store.simps load.simps)
  qed
qed

text \<open>A damaged image: blocks 0 and 1 form a cycle.\<close>

definition cyclic_image :: "byte list osada" where
  "cyclic_image = sample\<lparr>maptab := [1, 0]\<rparr>\<lparr>ftable := []\<rparr>"

lemma release_from_returns_witness:
  "\<exists>s'. release_from sample_env (Map_entry 0) cyclic_image = Some s' \<and> load (Map_entry 0) s' = Some END_OF_FILE"
proof (rule release_from_returns)
  show "cells_in_range cyclic_image"
    unfolding cells_in_range_def
  proof (intro allI impI)
    fix c b assume "load c cyclic_image = Some b"
    then show "b = END_OF_FILE \<or> unat b < length (maptab cyclic_image)"
      by (cases c) (auto simp: cyclic_image_def less_Suc_eq split: if_splits)
  qed
qed (simp add: cyclic_image_def)

section \<open>The layout of the image\<close>

text \<open>
  C13: For an image of 1029 to 2^30 blocks, read_and_set puts header, bitmap, file table, mapping table
  and data one right after the other, from block 0 to the last block; every region has a block;
  the mapping table has a cell and the bitmap a bit for each data block; and the positions of the
  data blocks in the bitmap (BM_DATA) are those in the image.
\<close>

theorem read_and_set_layout:
  assumes N: "unat (fs_blocks hdr) = N" "1029 \<le> N" "N < 2 ^ 30"
  shows "let g = read_and_set hdr in
     HEADER_0 g = 0 \<and> BITMAP_0 g = HEADER_1 g + 1 \<and> FILE_TABLE_0 g = BITMAP_1 g + 1
     \<and> MAPPING_TABLE_0 g = FILE_TABLE_1 g + 1 \<and> DATA_0 g = MAPPING_TABLE_1 g + 1 \<and> DATA_1 g = int N - 1
     \<and> 0 < BITMAP_SIZE g \<and> 0 < MAPPING_TABLE_SIZE g \<and> 0 < DATA_SIZE g
     \<and> DATA_SIZE g * 4 \<le> MAPPING_TABLE_SIZE g * 64 \<and> DATA_SIZE g \<le> BITMAP_SIZE g * 512
     \<and> BM_DATA_0 g = DATA_0 g \<and> BM_DATA_1 g = DATA_1 g"
proof -
  note counts = layout_counts [OF N(2,3)]
  have "int N = 1 + int (bitmap_count N) + 1024 + int (mapping_count N) + int (data_count N)"
    using arg_cong [OF counts(1), of int] by simp
  moreover have "int (data_count N) * 4 \<le> int (mapping_count N) * 64" "int (data_count N) \<le> int (bitmap_count N) * 512"
    using counts(5,6) by linarith+
  ultimately show ?thesis
    using counts(2-4) by (simp add: Let_def read_and_set_bounds read_and_set_sizes [OF N])
qed

lemma read_and_set_layout_witness:
  "DATA_1 (read_and_set sample_header) = 1099 \<and> 0 < DATA_SIZE (read_and_set sample_header)"
  using read_and_set_layout [of sample_header 1100] by (simp add: sample_header_def Let_def)

end
