(* ===== verification/Osada_Tree.thy ===== *)
theory Osada_Tree
  imports Osada_Effects Osada_Names
begin

text \<open>
  The handlers that work on the directory tree: mkdir, mknod, rmdir and rename only write table
  entries. \<open>fs_ok_write_entry\<close> says which entries may be written without harm; the rest follows the
  path loops: over directories that exist they are the loop of readdir, and what they do after
  the last one is stated case by case.
\<close>

section \<open>Writing one entry\<close>

definition harmless :: "osada_file \<Rightarrow> osada_file \<Rightarrow> bool" where
  "harmless old new \<longleftrightarrow>
     (if state old = REGULAR
      then state new = REGULAR \<and> file_size new = file_size old \<and> first_block new = first_block old
      else state new = REGULAR \<longrightarrow> file_size new = 0 \<and> first_block new = END_OF_FILE)"

lemma write_entry_simps [simp]:
  "maptab (write_entry i f s) = maptab s" "bmap (write_entry i f s) = bmap s"
  "dblocks (write_entry i f s) = dblocks s" "geo (write_entry i f s) = geo s"
  "trace (write_entry i f s) = trace s" "its_busy E (write_entry i f s) b = its_busy E s b"
  "ftable (write_entry i f s) = (ftable s)[i := f]" "free_count E n (write_entry i f s) = free_count E n s"
  by (simp_all add: write_entry_def its_busy_def free_count_def free_blocks_def)

lemma fs_inv_write_entry:
  assumes inv: "fs_inv E nbits n R C s" and ok: "harmless (ftable s ! i) f"
  shows "fs_inv E nbits n R C (write_entry i f s)"
proof (cases "i < FILE_BLOCKS_MOUNT")
  case False
  then have "write_entry i f s = s"
    using fs_inv_range(3) [OF inv] by (simp add: write_entry_def list_update_beyond)
  then show ?thesis using inv by simp
next
  case True
  let ?s' = "write_entry i f s"
  have len: "i < length (ftable s)" using True fs_inv_range(3) [OF inv] by simp
  have empty: "C i = []" if "state (ftable s ! i) \<noteq> REGULAR"
    using inv that unfolding fs_inv_def by blast
  have loads: "load d ?s' = load d s" if "d \<noteq> First_block i" for d
    using that by (cases d) auto
  have "fs_inv E nbits n R (C(i := C i)) ?s'"
  proof (rule fs_inv_update [OF inv True, where T = "{}"])
    show "chain_at ?s' (First_block i) (C i) \<and> length (C i) = nblocks (unat (file_size (ftable ?s' ! i)))"
      if reg: "state (ftable ?s' ! i) = REGULAR"
    proof (cases "state (ftable s ! i) = REGULAR")
      case old: True
      then have f: "first_block f = first_block (ftable s ! i)" "file_size f = file_size (ftable s ! i)"
        using ok by (simp_all add: harmless_def)
      have "load d ?s' = load d s" for d
        using loads [of d] f(1) len by (cases "d = First_block i") auto
      then have "chain_at ?s' (First_block i) (C i) = chain_at s (First_block i) (C i)"
        by (intro chain_frame) simp
      then show ?thesis using fs_inv_file(1,2) [OF inv True old] f(2) len by simp
    next
      case new: False
      then have "file_size f = 0" "first_block f = END_OF_FILE"
        using ok reg len by (simp_all add: harmless_def)
      then show ?thesis using empty [OF new] len by simp
    qed
    show "C i = []" if "state (ftable ?s' ! i) \<noteq> REGULAR"
      using ok that len empty by (auto simp: harmless_def split: if_splits)
    show "its_busy E ?s' b \<longleftrightarrow> b \<in> set (C i) \<or> its_busy E s b \<and> b \<notin> set (C i)" if "b < n" for b
      using fs_inv_block(3) [OF inv, of b i] by auto
    show "data_range nbits n ?s'" "blocks_ok n ?s'"
      using fs_inv_range(1,2) [OF inv] by (simp_all add: data_range_def blocks_ok_def)
  qed (use loads fs_inv_range [OF inv] fs_inv_block(1) [OF inv] in auto)
  then show ?thesis by simp
qed

lemma fs_ok_write_entry:
  "fs_ok E nbits n R s \<Longrightarrow> harmless (ftable s ! i) f \<Longrightarrow> fs_ok E nbits n R (write_entry i f s)"
  unfolding fs_ok_def using fs_inv_write_entry by blast

lemma contents_write_entry:
  assumes inv: "fs_ok E nbits n R s" and ok: "harmless (ftable s ! i) f"
  shows "contents (write_entry i f s) j =
     (if j = i \<and> i < length (ftable s) \<and> state f = REGULAR \<and> state (ftable s ! i) \<noteq> REGULAR then Some []
      else contents s j)"
proof -
  obtain C where inv: "fs_inv E nbits n R C s" using inv by (auto simp: fs_ok_def)
  note inv' = fs_inv_write_entry [OF inv ok]
  have len: "length (ftable s) = FILE_BLOCKS_MOUNT" by (rule fs_inv_range(3) [OF inv])
  show ?thesis
  proof (cases "j = i \<and> i < length (ftable s) \<and> state f = REGULAR \<and> state (ftable s ! i) \<noteq> REGULAR")
    case True
    then have st: "state (ftable (write_entry i f s) ! j) = REGULAR" "file_size f = 0"
      using ok by (simp_all add: harmless_def)
    then have "contents (write_entry i f s) j = Some (file_bytes C j (write_entry i f s))"
      using contents_inv [OF inv', of j] True len by simp
    then show ?thesis using True st by (simp add: file_bytes_def)
  next
    case False
    have "contents (write_entry i f s) j = contents s j"
    proof (cases "j < length (ftable s)")
      case True
      have st: "state (ftable (write_entry i f s) ! j) = REGULAR \<longleftrightarrow> state (ftable s ! j) = REGULAR"
        using False ok True by (cases "j = i") (auto simp: harmless_def split: if_splits)
      have sz: "state (ftable s ! j) = REGULAR \<Longrightarrow>
          file_size (ftable (write_entry i f s) ! j) = file_size (ftable s ! j)"
        using ok True by (cases "j = i") (auto simp: harmless_def)
      show ?thesis
      proof (cases "state (ftable s ! j) = REGULAR")
        case reg: True
        then show ?thesis
          using contents_inv [OF inv, of j] contents_inv [OF inv', of j] st sz True len
          by (simp add: file_bytes_def chain_data_def)
      next
        case reg: False
        then show ?thesis using st by (simp add: contents_def)
      qed
    qed (simp add: contents_def)
    then show ?thesis unfolding if_not_P [OF False] .
  qed
qed

lemma harmless_new: "state old = DELETED \<Longrightarrow> harmless old (new_entry E st first name pb)
    \<longleftrightarrow> st \<noteq> REGULAR \<or> first = END_OF_FILE"
  by (auto simp: harmless_def new_entry_def)

lemma harmless_rename:
  "harmless old (old\<lparr>parent_directory := p, fname := x\<rparr>)" "harmless old (old\<lparr>parent_directory := p, lastmod := t\<rparr>)"
  by (simp_all add: harmless_def)

section \<open>A new name\<close>

lemma entry_name_new:
  assumes "length (malloc_junk E) = 17" and "0 \<notin> set name" and "length name \<le> 17"
  shows "entry_name (new_entry E st first name pb) = name"
proof -
  have t: "takeWhile (\<lambda>b. b \<noteq> 0) (name @ 0 # xs) = name" for xs
    using assms(2) cstr_terminated [of name xs] by (simp add: cstr_def)
  show ?thesis
  proof (cases "length name < 17")
    case True
    then obtain y ys where ys: "drop (length name) (malloc_junk E) = y # ys"
      using assms(1) by (cases "drop (length name) (malloc_junk E)") auto
    have "length (name @ 0 # ys) = 17" using ys assms(1) True by (metis append_take_drop_id length_append
          length_Cons length_drop add_diff_inverse_nat less_imp_le_nat not_less)
    then have "take 17 (name @ 0 # ys) = name @ 0 # ys" by simp
    then show ?thesis
      using True ys t by (simp add: entry_name_def new_entry_def fname_after_def blit_def list_update_append)
  next
    case False
    then show ?thesis
      using assms cstr_id [of name] by (simp add: entry_name_def new_entry_def fname_after_def blit_def cstr_def)
  qed
qed

lemma node_matches_new:
  assumes "length (malloc_junk E) = 17" and "0 \<notin> set name" and "length name \<le> 17"
    and "st \<noteq> DELETED" and "table_pos p"
  shows "node_matches (new_entry E st first name p) t pb \<longleftrightarrow> t = name \<and> pb = p"
proof -
  have "0 \<le> p \<and> p < 65536"
    using assms(5) by (auto simp: table_pos_def lock_index_ok_def ROOT_def FILE_BLOCKS_MOUNT_def)
  then have "uint (word_of_int p :: u16) = p" by (simp add: uint_word_of_int take_bit_int_eq_self)
  then have "int (unat (word_of_int p :: u16)) = p" by simp
  then show ?thesis
    using assms(4) entry_name_new [OF assms(1-3), of st first p]
    by (cases st) (auto simp: node_matches_def, auto simp: new_entry_def)
qed

text \<open>Searches after a free entry was filled.\<close>

lemma find_node_filled_other:
  assumes "\<not> node_matches (ft ! k) t pb" and "\<not> node_matches f t pb"
  shows "find_node t pb ign (ft[k := f]) = find_node t pb ign ft"
proof -
  have "node_matches (ft[k := f] ! i) t pb = node_matches (ft ! i) t pb" for i
    using assms by (cases "i = k"; cases "k < length ft") (simp_all add: list_update_beyond)
  then show ?thesis by (simp add: find_node_def)
qed

lemma find_node_filled:
  assumes "find_node t pb ign ft = None" and "node_matches f t pb" and "int k \<noteq> pb" "int k \<noteq> ign"
    and "k < FILE_BLOCKS_MOUNT" and "length ft = FILE_BLOCKS_MOUNT"
  shows "find_node t pb ign (ft[k := f]) = Some k"
  using assms unfolding find_node_Some find_node_None by (auto simp: nth_list_update)

lemma find_dir_filled_other:
  assumes "state (ft ! k) = DELETED" and "\<not> node_matches f t pb"
  shows "find_dir t pb ign (ft[k := f]) = find_dir t pb ign ft"
proof -
  have "\<not> node_matches (ft ! k) t pb" using assms(1) by (simp add: node_matches_def)
  note same = find_node_filled_other [OF this assms(2)]
  show ?thesis
  proof (cases "find_node t pb ign ft")
    case None
    then show ?thesis by (simp add: find_dir_def same)
  next
    case (Some a)
    then have "a \<noteq> k" using assms(1) by (auto simp: find_node_Some node_matches_def)
    then show ?thesis using Some by (simp add: find_dir_def same)
  qed
qed

lemma lookup_dir_filled:
  assumes k: "state (ft ! k) = DELETED" and new: "find_node name p p ft = None"
    and f: "\<And>t pb. node_matches f t pb \<longleftrightarrow> t = name \<and> pb = p"
  shows "lookup_dir ft pb ds = Some q \<Longrightarrow> lookup_dir (ft[k := f]) pb ds = Some q"
proof (induction ds arbitrary: pb)
  case (Cons t ds)
  then obtain j where j: "find_dir t pb pb ft = Some j" "lookup_dir ft (int j) ds = Some q"
    by (auto split: option.splits)
  have "\<not> node_matches f t pb"
    using find_dir_node [OF j(1)] new unfolding f by auto
  then show ?case using j Cons.IH find_dir_filled_other [OF k] by simp
qed simp

lemma lookup_node_dirs:
  "lookup_dir ft pb ds = Some p \<Longrightarrow> lookup_node ft pb (ds @ ts) = lookup_node ft p ts"
proof (induction ds arbitrary: pb)
  case (Cons t ds)
  then obtain j where "find_dir t pb pb ft = Some j" "lookup_dir ft (int j) ds = Some p"
    by (auto split: option.splits)
  then show ?case using Cons.IH find_dir_node by (simp split: option.split)
qed simp

lemma lookup_dir_append:
  "lookup_dir ft pb ds = Some p \<Longrightarrow> lookup_dir ft pb (ds @ ts) = lookup_dir ft p ts"
  by (induction ds arbitrary: pb) (auto split: option.splits)

lemma lookup_dir_last:
  "lookup_dir ft pb ts = Some p \<Longrightarrow> ts \<noteq> [] \<Longrightarrow>
     p \<noteq> ROOT \<and> lock_index_ok p \<and> state (ft ! nat p) = DIRECTORY"
proof (induction ts arbitrary: pb)
  case (Cons t ts)
  then obtain j where j: "find_dir t pb pb ft = Some j" "lookup_dir ft (int j) ts = Some p"
    by (auto split: option.splits)
  show ?case
  proof (cases "ts = []")
    case True
    then show ?thesis
      using j find_dir_pos [OF j(1)] by (auto simp: find_dir_def split: option.splits if_splits)
  next
    case False
    then show ?thesis using Cons.IH [OF j(2)] by simp
  qed
qed simp

section \<open>Walking down directories that exist\<close>

lemma mknod_loop_dirs:
  "lookup_dir (ftable s) pb ds = Some p \<Longrightarrow>
     mknod_loop E pb (ds @ ts) s = mknod_loop E p ts (add_calls (readdir_calls (ftable s) pb ds) s)"
proof (induction ds arbitrary: pb s)
  case (Cons t ds)
  then obtain j where j: "find_dir t pb pb (ftable s) = Some j" "lookup_dir (ftable s) (int j) ds = Some p"
    by (auto split: option.splits)
  then show ?case
    using Cons.IH [of "add_calls (dir_calls t pb LOCK_READ pb (ftable s) @ unlock_calls pb) s" "int j"]
    by (simp add: search_dir_eq lock_calls_eq)
qed simp

lemma mkdir_loop_dirs:
  "lookup_dir (ftable s) pb ds = Some p \<Longrightarrow>
     mkdir_loop E pb (ds @ ts) s = mkdir_loop E p ts (add_calls (readdir_calls (ftable s) pb ds) s)"
proof (induction ds arbitrary: pb s)
  case (Cons t ds)
  then obtain j where j: "find_dir t pb pb (ftable s) = Some j" "lookup_dir (ftable s) (int j) ds = Some p"
    by (auto split: option.splits)
  then show ?case
    using Cons.IH [of "add_calls (dir_calls t pb LOCK_READ pb (ftable s) @ unlock_calls pb) s" "int j"]
    by (simp add: search_dir_eq lock_calls_eq)
qed simp

lemma find_dir_no_node: "find_node t pb ign ft = None \<Longrightarrow> find_dir t pb ign ft = None"
  by (simp add: find_dir_def)

end
