(* ===== verification/Osada_Tree_Correct.thy ===== *)
theory Osada_Tree_Correct
  imports Osada_Correct Osada_Tree
begin

text \<open>
  The properties of the requests on the directory tree, again from the bytes received to the
  bytes sent: getattr, mknod, mkdir and rmdir.
\<close>

section \<open>getattr\<close>

definition attributes :: "osada_file \<Rightarrow> byte list" where
  "attributes f = (if state f = DIRECTORY then resp_byte OSADA_ISDIR @ le32 0 @ le32 (lastmod f)
     else resp_byte OSADA_ISREG @ le32 (file_size f) @ le32 (lastmod f))"

text \<open>
  C7: On any image and for any path with a component, getattr answers OSADA_ENOENT or the attributes of
  the entry the path leads to, and leaves nothing locked and nothing changed.
\<close>

theorem osada_getattr_correct:
  assumes inp: "recv_path inp = Received path rest" and ne: "path_tokens path \<noteq> []"
  shows "\<exists>t. releases_all s (add_calls t s) \<and> osada_getattr s inp =
     Some (case lookup_node (ftable s) ROOT (path_tokens path) of
         None \<Rightarrow> resp_byte OSADA_ENOENT
       | Some p \<Rightarrow> attributes (ftable s ! nat p), add_calls t s, rest)"
proof (cases "lookup_node (ftable s) ROOT (path_tokens path)")
  case None
  let ?t = "getattr_calls (ftable s) ROOT (path_tokens path)"
  have "replay ?t no_locks = Some no_locks"
    using replay_getattr [of ROOT "ftable s" "path_tokens path" False] None by (simp add: no_locks_def)
  then show ?thesis
    using None inp getattr_loop_eq [OF ne, of ROOT None s]
    by (intro exI [of _ ?t]) (auto simp: releases_all_def osada_getattr_def on_request_Received)
next
  case (Some p)
  let ?calls = "getattr_calls (ftable s) ROOT (path_tokens path)"
  let ?t = "?calls @ [Rwlock UNLOCK p]"
  obtain k name pb where k: "p = int k" "k < FILE_BLOCKS_MOUNT" "node_matches (ftable s ! k) name pb"
    using lookup_node_pos [OF Some ne] by blast
  then have p: "lock_index_ok p" "p \<noteq> ROOT"
    by (auto simp: lock_index_ok_def ROOT_def FILE_BLOCKS_MOUNT_def)
  then have "replay ?t no_locks = Some no_locks"
    using replay_getattr [of ROOT "ftable s" "path_tokens path" False] Some
      replay_unlock_at [OF p, of LOCK_READ False] by (simp add: no_locks_def replay_append)
  moreover have "getattr_answer p (add_calls ?calls s) = Some (attributes (ftable s ! nat p), add_calls ?t s)"
    using k(1,3) by (cases "state (ftable s ! k)")
      (auto simp: getattr_answer_def attributes_def lock_calls_eq node_matches_def Let_def)
  ultimately show ?thesis
    using Some inp getattr_loop_eq [OF ne, of ROOT None s]
    by (intro exI [of _ ?t]) (auto simp: releases_all_def osada_getattr_def on_request_Received)
qed

lemma recv_sample_path: "recv_path (le32 4 @ sample_path) = Received sample_path []"
  using recv_path_message [OF sample_path_ok(1-3), of "[]"] sample_path_ok(4) by simp

lemma osada_getattr_correct_witness:
  "\<exists>t. osada_getattr sample (le32 4 @ sample_path) = Some (2 # le32 70 @ le32 9, add_calls t sample, [])"
  using osada_getattr_correct [OF recv_sample_path, of sample] sample_lookup(2) sample_nth(3)
  by (auto simp: sample_tokens attributes_def sample_file_def resp_byte_def)

section \<open>Creating a file\<close>

declare mknod_loop.simps [simp del] mkdir_loop.simps [simp del]

lemma mknod_last:
  assumes "find_dir name p p (ftable s) = None"
  shows "mknod_loop E p [name] s =
     (if length name > 17
      then (OSADA_ENAMETOOLONG, add_calls (dir_calls name p LOCK_READ p (ftable s) @ unlock_calls p) s)
      else let t = dir_calls name p LOCK_READ p (ftable s) @ create_calls p (ftable s) @ unlock_calls p in
        (case find_free p (ftable s) of
           None \<Rightarrow> (OSADA_ENOSPC, add_calls t s)
         | Some k \<Rightarrow> (OSADA_ISREG, add_calls t (write_entry k (new_entry E REGULAR END_OF_FILE name p) s))))"
  using assms
  by (simp add: mknod_loop.simps search_dir_eq create_node_eq lock_calls_eq write_entry_add_calls Let_def
      split: option.split)

lemma replay_create:
  assumes p: "table_pos p" and none: "find_dir name p p ft = None"
  shows "replay (dir_calls name p LOCK_READ p ft @ unlock_calls p) (at_lock LOCK_READ p, m) = Some (\<lambda>_. Free, m)"
    and "replay (dir_calls name p LOCK_READ p ft @ create_calls p ft @ unlock_calls p) (at_lock LOCK_READ p, m)
      = Some (\<lambda>_. Free, m)"
proof -
  have "replay (dir_calls name p LOCK_READ p ft) (at_lock LOCK_READ p, m) = Some (at_lock LOCK_READ p, m)"
    using replay_step(4) [OF p, of LOCK_READ] none by simp
  moreover have "replay (create_calls p ft) (at_lock LOCK_READ p, m) = Some (at_lock LOCK_READ p, m)"
    by (rule replay_create_calls) (simp add: at_lock_other)
  moreover have "replay (unlock_calls p) (at_lock LOCK_READ p, m) = Some (\<lambda>_. Free, m)"
    by (rule replay_unlock [OF p]) simp
  ultimately show "replay (dir_calls name p LOCK_READ p ft @ unlock_calls p) (at_lock LOCK_READ p, m) = Some (\<lambda>_. Free, m)"
    and "replay (dir_calls name p LOCK_READ p ft @ create_calls p ft @ unlock_calls p) (at_lock LOCK_READ p, m)
      = Some (\<lambda>_. Free, m)"
    by (simp_all add: replay_append)
qed

lemma replay_down:
  assumes "lookup_dir ft ROOT ds = Some p"
  shows "replay (readdir_calls ft ROOT ds) no_locks = Some (at_lock LOCK_READ p, False)"
  using replay_readdir [of ROOT ft ds False] assms by (simp add: no_locks_def)

lemma add_calls_write_entry [simp]: "write_entry i f (add_calls t s) = add_calls t (write_entry i f s)"
  by (rule write_entry_add_calls)

lemma find_free_state: "find_free p ft = Some k \<Longrightarrow> state (ft ! k) = DELETED \<and> int k \<noteq> p \<and> k < FILE_BLOCKS_MOUNT"
  by (simp add: find_free_Some)

lemma names_calls_contents: "names (add_calls t s) = names s" "others_same k s (add_calls t s')= others_same k s s'"
  by (simp_all add: others_same_def)

lemma others_same_entry:
  assumes "fs_ok E nbits n R s" and "harmless (ftable s ! k) f"
  shows "others_same k s (write_entry k f s)"
  using contents_write_entry [OF assms] by (simp add: others_same_def)

text \<open>A token of a received path has no NUL.\<close>

lemma recv_path_token:
  "recv_path inp = Received path rest \<Longrightarrow> t \<in> set (path_tokens path) \<Longrightarrow> t \<noteq> [] \<and> slash \<notin> set t \<and> 0 \<notin> set t"
  using path_token by (auto simp: recv_path_def recv_bind_Received)

text \<open>
  C8: mknod of a name that its directory does not have: refused with OSADA_ENAMETOOLONG past 17 bytes,
  with OSADA_ENOSPC when no entry is free, and then nothing changes; otherwise exactly one entry
  is filled, it is an empty file, and the path now leads to it. The image stays consistent and
  every lock is released.
\<close>

theorem osada_mknod_correct:
  assumes ok: "fs_ok E nbits n R s" and junk: "length (malloc_junk E) = 17"
    and inp: "recv_path inp = Received path rest" and path: "path_tokens path = ds @ [name]"
    and dir: "lookup_dir (ftable s) ROOT ds = Some p" and new: "find_node name p p (ftable s) = None"
  shows "\<exists>s'. osada_mknod E s inp = Some (resp_byte
         (if 17 < length name then OSADA_ENAMETOOLONG
          else if find_free p (ftable s) = None then OSADA_ENOSPC else OSADA_ISREG), s', rest)
     \<and> fs_ok E nbits n R s' \<and> releases_all s s'
     \<and> (if 17 < length name \<or> find_free p (ftable s) = None
        then ftable s' = ftable s \<and> (\<forall>j. contents s' j = contents s j)
        else \<exists>k. find_free p (ftable s) = Some k \<and> contents s' k = Some [] \<and> others_same k s s'
           \<and> lookup_node (ftable s') ROOT (path_tokens path) = Some (int k))"
proof -
  let ?down = "readdir_calls (ftable s) ROOT ds"
  let ?s1 = "add_calls ?down s"
  have p: "table_pos p" by (rule lookup_dir_pos [OF dir]) simp
  have nodir: "find_dir name p p (ftable s) = None" by (rule find_dir_no_node [OF new])
  note rel = replay_create [OF p nodir, of False]
  have loop: "mknod_loop E ROOT (path_tokens path) s = mknod_loop E p [name] ?s1"
    unfolding path by (rule mknod_loop_dirs [OF dir])
  note last = mknod_last [of name p ?s1 E, unfolded add_calls_simps, OF nodir, unfolded Let_def]
  have run: "osada_mknod E s inp = Some (resp_byte code, s', rest)"
    if "mknod_loop E p [name] ?s1 = (code, s')" for code s'
    using inp that by (simp add: osada_mknod_def on_request_Received loop)
  let ?code = "if 17 < length name then OSADA_ENAMETOOLONG
    else if find_free p (ftable s) = None then OSADA_ENOSPC else OSADA_ISREG"
  let ?t = "?down @ (if 17 < length name then dir_calls name p LOCK_READ p (ftable s) @ unlock_calls p
    else dir_calls name p LOCK_READ p (ftable s) @ create_calls p (ftable s) @ unlock_calls p)"
  have t: "replay ?t no_locks = Some no_locks"
    using replay_down [OF dir] rel by (subst replay_append) (simp add: no_locks_def)
  show ?thesis
  proof (cases "17 < length name \<or> find_free p (ftable s) = None")
    case True
    have "mknod_loop E p [name] ?s1 = (?code, add_calls ?t s)"
      unfolding last using True by (auto split: option.split)
    moreover have "releases_all s (add_calls ?t s)" using t by (auto simp: releases_all_def)
    ultimately show ?thesis using run True ok by (intro exI [of _ "add_calls ?t s"]) auto
  next
    case False
    then obtain k where k: "find_free p (ftable s) = Some k" and short: "length name \<le> 17" by auto
    let ?f = "new_entry E REGULAR END_OF_FILE name p"
    let ?s2 = "write_entry k ?f s"
    note free = find_free_state [OF k]
    have harmless: "harmless (ftable s ! k) ?f" using free by (simp add: harmless_new)
    have nul: "0 \<notin> set name" using recv_path_token [OF inp, of name] path by simp
    have matches: "node_matches ?f t pb \<longleftrightarrow> t = name \<and> pb = p" for t pb
      by (rule node_matches_new [OF junk nul short _ p]) simp
    have len: "length (ftable s) = FILE_BLOCKS_MOUNT" by (rule fs_ok_length [OF ok])
    have m: "mknod_loop E p [name] ?s1 = (?code, add_calls ?t ?s2)"
      unfolding last using short k by simp
    have "lookup_dir (ftable ?s2) ROOT ds = Some p"
      using lookup_dir_filled [OF _ new matches dir] free by simp
    moreover have "find_node name p p (ftable ?s2) = Some k"
      using find_node_filled [OF new, of ?f k] matches free len by simp
    ultimately have "lookup_node (ftable ?s2) ROOT (path_tokens path) = Some (int k)"
      unfolding path by (simp add: lookup_node_dirs)
    moreover have "releases_all s (add_calls ?t ?s2)" using t by (auto simp: releases_all_def)
    moreover have "contents ?s2 k = Some []"
      using contents_write_entry [OF ok harmless, of k] free len by (simp add: new_entry_def)
    moreover have "fs_ok E nbits n R ?s2" by (rule fs_ok_write_entry [OF ok harmless])
    moreover have "others_same k s ?s2" by (rule others_same_entry [OF ok harmless])
    ultimately show ?thesis
      using run [OF m] short k by (intro exI [of _ "add_calls ?t ?s2"]) (simp add: names_calls_contents)
  qed
qed

text \<open>A path in the root directory of the example, \<^verbatim>\<open>/n\<close>, and its message.\<close>

definition root_path :: "byte list" where
  "root_path = [47, 110]"

lemma recv_root_path: "recv_path (le32 2 @ root_path) = Received root_path []"
  using recv_path_message [of root_path "[]"] by (simp add: root_path_def)

lemma root_tokens: "path_tokens root_path = [] @ [[110]]"
  by (simp add: path_tokens_def strtok_def root_path_def slash_def)

lemma sample_root_new: "find_node [110] ROOT ROOT (ftable sample) = None"
  by (simp add: find_node_sample sample_matches)

lemma sample_find_free: "find_free ROOT (ftable sample) = Some 2"
  unfolding find_free_Some using sample_states
  by (auto simp: FILE_BLOCKS_MOUNT_def ROOT_def sample_nth_blank blank_entry_def less_2_cases_iff)

lemma junk_sample: "length (malloc_junk sample_env) = 17"
  by (simp add: sample_env_def)

lemma osada_mknod_correct_witness:
  "\<exists>s'. osada_mknod sample_env sample (le32 2 @ root_path) = Some (resp_byte OSADA_ISREG, s', [])
     \<and> contents s' 2 = Some [] \<and> lookup_node (ftable s') ROOT (path_tokens root_path) = Some 2"
proof -
  have "lookup_dir (ftable sample) ROOT [] = Some ROOT" by simp
  from osada_mknod_correct [OF sample_ok junk_sample recv_root_path root_tokens this sample_root_new]
  show ?thesis by (auto simp: sample_find_free)
qed

text \<open>
  Mknod does not look for a file of the same name: on a path that leads to a regular file it
  answers OSADA_ISREG as for a new one and fills a second entry with the same name and parent.
\<close>

theorem osada_mknod_duplicates:
  assumes ok: "fs_ok E nbits n R s" and junk: "length (malloc_junk E) = 17"
    and inp: "recv_path inp = Received path rest" and path: "path_tokens path = ds @ [name]"
    and dir: "lookup_dir (ftable s) ROOT ds = Some p"
    and old: "find_node name p p (ftable s) = Some j" "state (ftable s ! j) = REGULAR"
    and k: "find_free p (ftable s) = Some k"
  shows "\<exists>s'. osada_mknod E s inp = Some (resp_byte OSADA_ISREG, s', rest) \<and> j \<noteq> k
     \<and> node_matches (ftable s' ! j) name p \<and> node_matches (ftable s' ! k) name p"
proof -
  let ?down = "readdir_calls (ftable s) ROOT ds"
  let ?s1 = "add_calls ?down s" and ?f = "new_entry E REGULAR END_OF_FILE name p"
  have p: "table_pos p" by (rule lookup_dir_pos [OF dir]) simp
  have nodir: "find_dir name p p (ftable s) = None" using old by (simp add: find_dir_def)
  note last = mknod_last [of name p ?s1 E, unfolded add_calls_simps, OF nodir, unfolded Let_def]
  have loop: "mknod_loop E ROOT (path_tokens path) s = mknod_loop E p [name] ?s1"
    unfolding path by (rule mknod_loop_dirs [OF dir])
  have j: "node_matches (ftable s ! j) name p" using old(1) by (simp add: find_node_Some)
  then have short: "length name \<le> 17"
    using length_takeWhile_le [of "\<lambda>b. b \<noteq> 0" "take 17 (fname (ftable s ! j))"]
    by (auto simp: node_matches_def entry_name_def)
  have nul: "0 \<notin> set name" using recv_path_token [OF inp, of name] path by simp
  note free = find_free_state [OF k]
  have ne: "j \<noteq> k" using free old(2) by auto
  have "osada_mknod E s inp = Some (resp_byte OSADA_ISREG, add_calls (?down @ dir_calls name p LOCK_READ p (ftable s)
      @ create_calls p (ftable s) @ unlock_calls p) (write_entry k ?f s), rest)"
    using inp short k by (simp add: osada_mknod_def on_request_Received loop last)
  moreover have "node_matches ?f name p" using node_matches_new [OF junk nul short _ p] by simp
  ultimately show ?thesis
    using ne j free fs_ok_length [OF ok] by (auto simp: nth_list_update)
qed

text \<open>The path \<^verbatim>\<open>/d/f\<close> leads to entry 1; entry 2 is free.\<close>

lemma sample_in_dir:
  "lookup_dir (ftable sample) ROOT [[100]] = Some 0" "path_tokens sample_path = [[100]] @ [[102]]"
  "find_node [102] 0 0 (ftable sample) = Some 1" "find_free 0 (ftable sample) = Some 2"
proof -
  show "lookup_dir (ftable sample) ROOT [[100]] = Some 0"
    by (simp add: sample_find_dir) (simp add: ROOT_def)
  show "find_node [102] 0 0 (ftable sample) = Some 1"
    by (simp add: find_node_sample sample_matches)
  show "find_free 0 (ftable sample) = Some 2"
    unfolding find_free_Some using sample_states
    by (auto simp: FILE_BLOCKS_MOUNT_def sample_nth_blank blank_entry_def less_2_cases_iff)
qed (simp add: sample_tokens)

lemma osada_mknod_duplicates_witness:
  "\<exists>s'. osada_mknod sample_env sample (le32 4 @ sample_path) = Some (resp_byte OSADA_ISREG, s', [])
     \<and> node_matches (ftable s' ! 1) [102] 0 \<and> node_matches (ftable s' ! 2) [102] 0"
  using osada_mknod_duplicates [OF sample_ok junk_sample recv_sample_path sample_in_dir(2,1,3) _ sample_in_dir(4)]
    sample_nth(3) by (auto simp: sample_file_def)

section \<open>Creating a directory\<close>

lemma mkdir_last:
  assumes "find_dir name p p (ftable s) = None" and "table_pos p"
  shows "mkdir_loop E p [name] s =
     (if length name > 17
      then (OSADA_ENAMETOOLONG, add_calls (dir_calls name p LOCK_READ p (ftable s) @ unlock_calls p) s)
      else (OSADA_ISDIR, add_calls (dir_calls name p LOCK_READ p (ftable s) @ create_calls p (ftable s) @ unlock_calls p)
        (case find_free p (ftable s) of
           None \<Rightarrow> s
         | Some k \<Rightarrow> write_entry k (new_entry E DIRECTORY 0 name p) s)))"
proof -
  have "p \<noteq> - 5" using assms(2) by (auto simp: table_pos_def lock_index_ok_def ROOT_def)
  then show ?thesis
    using assms(1)
    by (simp add: mkdir_loop.simps search_dir_eq create_dir_eq lock_calls_eq write_entry_add_calls Let_def
        split: option.split)
qed

lemma path_tokens_slash: "path_tokens [slash] = []"
  by (simp add: path_tokens_def)

lemma osada_mkdir_run:
  assumes "recv_path inp = Received path rest" and "path_tokens path \<noteq> []"
  shows "osada_mkdir E s inp =
     (let (code, s') = mkdir_loop E ROOT (path_tokens path) s in Some (resp_byte code, s', rest))"
  using assms by (auto simp: osada_mkdir_def on_request_Received path_tokens_slash split: prod.splits)

text \<open>
  C9: mkdir of a name its directory does not have: refused with OSADA_ENAMETOOLONG past 17 bytes;
  otherwise, when an entry is free, exactly one is filled and the path leads to a new
  directory. When none is free nothing is created and the answer is still OSADA_ISDIR: the test
  for OSADA_ENOSPC looks at the parent instead of the result.
\<close>

theorem osada_mkdir_correct:
  assumes ok: "fs_ok E nbits n R s" and junk: "length (malloc_junk E) = 17"
    and inp: "recv_path inp = Received path rest" and path: "path_tokens path = ds @ [name]"
    and dir: "lookup_dir (ftable s) ROOT ds = Some p" and new: "find_node name p p (ftable s) = None"
  shows "\<exists>s'. osada_mkdir E s inp = Some (resp_byte
         (if 17 < length name then OSADA_ENAMETOOLONG else OSADA_ISDIR), s', rest)
     \<and> fs_ok E nbits n R s' \<and> releases_all s s' \<and> (\<forall>j. contents s' j = contents s j)
     \<and> (if 17 < length name \<or> find_free p (ftable s) = None then ftable s' = ftable s
        else \<exists>k. find_free p (ftable s) = Some k \<and> others_same k s s'
           \<and> lookup_dir (ftable s') ROOT (path_tokens path) = Some (int k))"
proof -
  let ?down = "readdir_calls (ftable s) ROOT ds"
  let ?s1 = "add_calls ?down s"
  have p: "table_pos p" by (rule lookup_dir_pos [OF dir]) simp
  have nodir: "find_dir name p p (ftable s) = None" by (rule find_dir_no_node [OF new])
  note rel = replay_create [OF p nodir, of False]
  have loop: "mkdir_loop E ROOT (path_tokens path) s = mkdir_loop E p [name] ?s1"
    unfolding path by (rule mkdir_loop_dirs [OF dir])
  note last = mkdir_last [of name p ?s1 E, unfolded add_calls_simps, OF nodir p]
  let ?code = "if 17 < length name then OSADA_ENAMETOOLONG else OSADA_ISDIR"
  let ?t = "?down @ (if 17 < length name then dir_calls name p LOCK_READ p (ftable s) @ unlock_calls p
    else dir_calls name p LOCK_READ p (ftable s) @ create_calls p (ftable s) @ unlock_calls p)"
  have run: "osada_mkdir E s inp = Some (resp_byte code, s', rest)"
    if "mkdir_loop E p [name] ?s1 = (code, s')" for code s'
    using that osada_mkdir_run [OF inp, of E s] by (simp add: loop [unfolded path] path)
  have t: "replay ?t no_locks = Some no_locks"
    using replay_down [OF dir] rel by (subst replay_append) (simp add: no_locks_def)
  show ?thesis
  proof (cases "17 < length name \<or> find_free p (ftable s) = None")
    case True
    have "mkdir_loop E p [name] ?s1 = (?code, add_calls ?t s)"
      unfolding last using True by (auto split: option.split)
    moreover have "releases_all s (add_calls ?t s)" using t by (auto simp: releases_all_def)
    ultimately show ?thesis using run True ok by (intro exI [of _ "add_calls ?t s"]) auto
  next
    case False
    then obtain k where k: "find_free p (ftable s) = Some k" and short: "length name \<le> 17" by auto
    let ?f = "new_entry E DIRECTORY 0 name p"
    let ?s2 = "write_entry k ?f s"
    note free = find_free_state [OF k]
    have harmless: "harmless (ftable s ! k) ?f" using free by (simp add: harmless_new)
    have nul: "0 \<notin> set name" using recv_path_token [OF inp, of name] path by simp
    have matches: "node_matches ?f t pb \<longleftrightarrow> t = name \<and> pb = p" for t pb
      by (rule node_matches_new [OF junk nul short _ p]) simp
    have len: "length (ftable s) = FILE_BLOCKS_MOUNT" by (rule fs_ok_length [OF ok])
    have m: "mkdir_loop E p [name] ?s1 = (?code, add_calls ?t ?s2)"
      unfolding last using short k by simp
    have "lookup_dir (ftable ?s2) ROOT ds = Some p"
      using lookup_dir_filled [OF _ new matches dir] free by simp
    moreover have "find_dir name p p (ftable ?s2) = Some k"
      using find_node_filled [OF new, of ?f k] matches free len by (simp add: find_dir_def) (simp add: new_entry_def)
    ultimately have "lookup_dir (ftable ?s2) ROOT (path_tokens path) = Some (int k)"
      unfolding path by (simp add: lookup_dir_append)
    moreover have "releases_all s (add_calls ?t ?s2)" using t by (auto simp: releases_all_def)
    moreover have "contents ?s2 j = contents s j" for j
      using contents_write_entry [OF ok harmless, of j] by (simp add: new_entry_def)
    moreover have "fs_ok E nbits n R ?s2" by (rule fs_ok_write_entry [OF ok harmless])
    moreover have "others_same k s ?s2" by (rule others_same_entry [OF ok harmless])
    ultimately show ?thesis
      using run [OF m] short k by (intro exI [of _ "add_calls ?t ?s2"]) (simp add: names_calls_contents)
  qed
qed

lemma osada_mkdir_correct_witness:
  "\<exists>s'. osada_mkdir sample_env sample (le32 2 @ root_path) = Some (resp_byte OSADA_ISDIR, s', [])
     \<and> lookup_dir (ftable s') ROOT (path_tokens root_path) = Some 2"
proof -
  have "lookup_dir (ftable sample) ROOT [] = Some ROOT" by simp
  from osada_mkdir_correct [OF sample_ok junk_sample recv_root_path root_tokens this sample_root_new]
  show ?thesis by (auto simp: sample_find_free)
qed

text \<open>
  Mkdir on a path that is already there answers OSADA_ISDIR and forgets the lock of the
  directory: the thread that served the request still holds it for reading.
\<close>

theorem osada_mkdir_leaks_lock:
  assumes inp: "recv_path inp = Received path rest" and ne: "path_tokens path \<noteq> []"
    and dir: "lookup_dir (ftable s) ROOT (path_tokens path) = Some p"
  shows "\<exists>t. osada_mkdir E s inp = Some (resp_byte OSADA_ISDIR, add_calls t s, rest)
     \<and> replay t no_locks = Some (at_lock LOCK_READ p, False)"
proof -
  have "mkdir_loop E ROOT (path_tokens path @ []) s
      = (OSADA_ISDIR, add_calls (readdir_calls (ftable s) ROOT (path_tokens path)) s)"
    unfolding mkdir_loop_dirs [OF dir] by (simp add: mkdir_loop.simps)
  then show ?thesis
    using osada_mkdir_run [OF inp ne, of E s] replay_down [OF dir] by auto
qed

lemma osada_mkdir_leaks_lock_witness:
  "\<exists>t. osada_mkdir sample_env sample (le32 2 @ [47, 100]) = Some (resp_byte OSADA_ISDIR, add_calls t sample, [])
     \<and> replay t no_locks = Some (at_lock LOCK_READ 0, False)"
proof -
  have inp: "recv_path (le32 2 @ [47, 100]) = Received [47, 100] []"
    using recv_path_message [of "[47, 100]" "[]"] by simp
  have tok: "path_tokens [47, 100] = [[100]]" by (simp add: path_tokens_def strtok_def slash_def)
  show ?thesis using osada_mkdir_leaks_lock [OF inp, unfolded tok, OF _ sample_in_dir(1)] by simp
qed

section \<open>Removing a directory\<close>

text \<open>
  C10: rmdir of a directory marks its entry as deleted and does nothing else: there is no test that
  it is empty, so the files in it keep their entries and their blocks. The image stays consistent
  and every lock is released.
\<close>

theorem osada_rmdir_correct:
  assumes ok: "fs_ok E nbits n R s"
    and inp: "recv_path inp = Received path rest" and ne: "path_tokens path \<noteq> []"
    and dir: "lookup_dir (ftable s) ROOT (path_tokens path) = Some (int i)"
  shows "\<exists>s'. osada_rmdir s inp = Some (resp_byte OSADA_SEXE, s', rest)
     \<and> fs_ok E nbits n R s' \<and> releases_all s s' \<and> (\<forall>j. contents s' j = contents s j)
     \<and> free_count E n s' = free_count E n s
     \<and> ftable s' = (ftable s)[i := (ftable s ! i)\<lparr>state := DELETED\<rparr>]"
proof -
  let ?calls = "rmdir_calls (ftable s) ROOT (path_tokens path)"
  let ?f = "(ftable s ! i)\<lparr>state := DELETED\<rparr>"
  let ?s2 = "add_calls (?calls @ [Rwlock UNLOCK (int i)]) (write_entry i ?f s)"
  have d: "state (ftable s ! i) = DIRECTORY" "lock_index_ok (int i)" "int i \<noteq> ROOT"
    using lookup_dir_last [OF dir ne] by (auto simp: lock_index_ok_def ROOT_def FILE_BLOCKS_MOUNT_def)
  then have harmless: "harmless (ftable s ! i) ?f" by (simp add: harmless_def)
  have "path \<noteq> [slash]" using ne path_tokens_slash by auto
  then have "osada_rmdir s inp = Some (resp_byte OSADA_SEXE, ?s2, rest)"
    using inp rmdir_loop_eq [OF ne, of ROOT None s] dir
    by (simp add: osada_rmdir_def on_request_Received lock_calls_eq set_state_def)
  moreover have "replay (?calls @ [Rwlock UNLOCK (int i)]) no_locks = Some no_locks"
    using replay_rmdir [of ROOT "path_tokens path" "ftable s" False] ne dir
      replay_unlock_at [OF d(2,3), of LOCK_WRITE False] by (simp add: no_locks_def replay_append)
  then have "releases_all s ?s2" by (auto simp: releases_all_def)
  moreover have "contents (write_entry i ?f s) j = contents s j" for j
    using contents_write_entry [OF ok harmless, of j] by simp
  ultimately show ?thesis
    using fs_ok_write_entry [OF ok harmless] by (intro exI [of _ ?s2]) simp
qed

lemma osada_rmdir_correct_witness:
  "\<exists>s'. osada_rmdir sample (le32 2 @ [47, 100]) = Some (resp_byte OSADA_SEXE, s', [])
     \<and> contents s' 1 = Some (replicate 64 3 @ replicate 6 5)"
proof -
  have inp: "recv_path (le32 2 @ [47, 100]) = Received [47, 100] []"
    using recv_path_message [of "[47, 100]" "[]"] by simp
  have tok: "path_tokens [47, 100] = [[100]]" by (simp add: path_tokens_def strtok_def slash_def)
  have dir: "lookup_dir (ftable sample) ROOT [[100]] = Some (int 0)" using sample_in_dir(1) by simp
  show ?thesis using osada_rmdir_correct [OF sample_ok inp, unfolded tok, OF _ dir] sample_contents by auto
qed

end
