(* ===== verification/Osada_Listing.thy ===== *)
theory Osada_Listing
  imports Osada_Tree_Correct
begin

text \<open>
  readdir: the scan that collects the names of a directory while it keeps the children locked, the
  loop that joins the names, and the answer. The lists are those of so-commons, through the locale
  \<open>t_list\<close>.
\<close>

section \<open>The scan in closed form\<close>

definition child_of :: "int \<Rightarrow> osada_file \<Rightarrow> bool" where
  "child_of pb f \<longleftrightarrow> (state f = REGULAR \<or> state f = DIRECTORY) \<and> int (unat (parent_directory f)) = pb"

definition children :: "osada_file list \<Rightarrow> int \<Rightarrow> nat \<Rightarrow> nat list" where
  "children ft pb i = filter (\<lambda>j. int j \<noteq> pb \<and> child_of pb (ft ! j)) [i..<FILE_BLOCKS_MOUNT]"

definition scan_events :: "osada_file list \<Rightarrow> int \<Rightarrow> nat \<Rightarrow> lock_event list" where
  "scan_events ft pb j =
     (if int j = pb then []
      else Rwlock LOCK_READ (int j) # (if child_of pb (ft ! j) then [] else [Rwlock UNLOCK (int j)]))"

lemma children_step:
  "i < FILE_BLOCKS_MOUNT \<Longrightarrow> children ft pb i =
     (if int i \<noteq> pb \<and> child_of pb (ft ! i) then [i] else []) @ children ft pb (Suc i)"
  by (simp add: children_def upt_conv_Cons)

lemma children_end: "\<not> i < FILE_BLOCKS_MOUNT \<Longrightarrow> children ft pb i = []"
  by (simp add: children_def)

lemma readdir_scan_eq:
  "readdir_scan L K i pb nl lb s =
     (foldl (list_add L) nl (map (\<lambda>j. entry_name (ftable s ! j)) (children (ftable s) pb i)),
      foldl (list_add K) lb (map int (children (ftable s) pb i)),
      add_calls (concat (map (scan_events (ftable s) pb) [i..<FILE_BLOCKS_MOUNT])) s)"
proof (induction "FILE_BLOCKS_MOUNT - i" arbitrary: i nl lb s)
  case 0
  then show ?case by (simp add: readdir_scan.simps [of L K i] children_end)
next
  case (Suc m)
  then have i: "i < FILE_BLOCKS_MOUNT" and m: "m = FILE_BLOCKS_MOUNT - Suc i" by simp_all
  note IH = Suc.hyps(1) [OF m]
  show ?case
    using i
    by (simp add: readdir_scan.simps [of L K i] IH children_step [OF i] upt_conv_Cons [OF i]
        scan_events_def child_of_def lock_calls_eq Let_def)
qed

section \<open>The locks of the scan\<close>

definition holding :: "(int \<Rightarrow> hold) \<Rightarrow> nat set \<Rightarrow> int \<Rightarrow> hold" where
  "holding h J = (\<lambda>p. if p \<in> int ` J then Readers 1 else h p)"

lemma holding_empty [simp]: "holding h {} = h"
  by (simp add: holding_def)

lemma holding_insert: "holding h (insert j J) = (holding h J)(int j := Readers 1)"
  by (auto simp: holding_def)

lemma replay_scan_events:
  assumes "\<forall>j \<in> set js. j < FILE_BLOCKS_MOUNT \<and> (int j \<noteq> pb \<longrightarrow> h (int j) = Free)"
    and "distinct js" and "set js \<inter> J = {}"
  shows "replay (concat (map (scan_events ft pb) js)) (holding h J, m)
    = Some (holding h (J \<union> {j \<in> set js. int j \<noteq> pb \<and> child_of pb (ft ! j)}), m)"
  using assms
proof (induction js arbitrary: J)
  case (Cons j js)
  have ok: "lock_index_ok (int j)" using Cons.prems(1) by (simp add: lock_index_ok_def)
  have J: "j \<notin> J" "set js \<inter> insert j J = {}" "set js \<inter> J = {}" using Cons.prems(2,3) by auto
  have free: "holding h J (int j) = Free" if "int j \<noteq> pb"
    using that Cons.prems(1) J(1) by (auto simp: holding_def)
  have prem: "\<forall>j \<in> set js. j < FILE_BLOCKS_MOUNT \<and> (int j \<noteq> pb \<longrightarrow> h (int j) = Free)" "distinct js"
    using Cons.prems(1,2) by auto
  show ?case
  proof (cases "int j \<noteq> pb \<and> child_of pb (ft ! j)")
    case True
    then have "replay (scan_events ft pb j) (holding h J, m) = Some (holding h (insert j J), m)"
      using replay_acquire [of LOCK_READ "int j" "holding h J" m] ok free by (simp add: scan_events_def holding_insert)
    moreover have "insert j J \<union> {k \<in> set js. int k \<noteq> pb \<and> child_of pb (ft ! k)}
        = J \<union> {k \<in> set (j # js). int k \<noteq> pb \<and> child_of pb (ft ! k)}"
      using True by auto
    ultimately show ?thesis
      using Cons.IH [OF prem J(2)] by (simp add: replay_append)
  next
    case False
    then have "replay (scan_events ft pb j) (holding h J, m) = Some (holding h J, m)"
      using replay_acquire_release [of LOCK_READ "int j" "holding h J" m] ok free by (auto simp: scan_events_def)
    moreover have "{k \<in> set js. int k \<noteq> pb \<and> child_of pb (ft ! k)}
        = {k \<in> set (j # js). int k \<noteq> pb \<and> child_of pb (ft ! k)}"
      using False by auto
    ultimately show ?thesis
      using Cons.IH [OF prem J(3)] by (simp add: replay_append)
  qed
qed simp

lemma replay_unlock_children:
  assumes "\<forall>j \<in> set js. j < FILE_BLOCKS_MOUNT \<and> h (int j) = Free" and "distinct js"
  shows "replay (map (\<lambda>j. Rwlock UNLOCK (int j)) js) (holding h (set js), m) = Some (h, m)"
  using assms
proof (induction js)
  case (Cons j js)
  have ok: "lock_index_ok (int j)" using Cons.prems(1) by (simp add: lock_index_ok_def)
  have "replay [Rwlock UNLOCK (int j)] (holding h (set (j # js)), m)
      = Some ((holding h (set (j # js)))(int j := Free), m)"
    by (rule replay_release [of LOCK_READ]) (simp_all add: ok holding_def)
  moreover have "(holding h (set (j # js)))(int j := Free) = holding h (set js)"
    using Cons.prems by (intro ext) (auto simp: holding_def)
  ultimately show ?case
    using Cons replay_append [of "[Rwlock UNLOCK (int j)]" "map (\<lambda>j. Rwlock UNLOCK (int j)) js"] by simp
qed simp

section \<open>The names joined\<close>

definition joined :: "byte list list \<Rightarrow> byte list" where
  "joined ns = concat (map (\<lambda>n. n @ [comma]) ns)"

lemma readdir_join_eq:
  assumes L: "t_list L elems"
  shows "i \<le> length (elems l) \<Longrightarrow> readdir_join L l i buffer = Some (buffer @ joined (drop i (elems l)))"
proof (induction "length (elems l) - i" arbitrary: i buffer)
  case 0
  then have i: "i = length (elems l)" by simp
  show ?case unfolding i by (simp add: readdir_join.simps [of L l "length (elems l)"] t_list.get_eq [OF L] joined_def)
next
  case (Suc m)
  then have "i < length (elems l)" by simp
  then show ?case
    using Suc.hyps(1) [of "Suc i" "buffer @ elems l ! i @ [comma]"] Suc.hyps(2) Cons_nth_drop_Suc [of i "elems l"]
    by (simp add: readdir_join.simps [of L l i] t_list.get_eq [OF L] joined_def flip: Cons_nth_drop_Suc)
qed

lemma cstr_joined: "\<forall>n \<in> set ns. 0 \<notin> set n \<Longrightarrow> cstr (joined ns) = joined ns"
  by (rule cstr_id) (auto simp: joined_def comma_def)

lemma fold_unlock: "fold (semaphore UNLOCK) (map int js) s = add_calls (map (\<lambda>j. Rwlock UNLOCK (int j)) js) s"
  by (induction js arbitrary: s) (simp_all add: lock_calls_eq)

definition listing :: "osada_file list \<Rightarrow> int \<Rightarrow> byte list" where
  "listing ft pb =
     (let ns = map (\<lambda>j. entry_name (ft ! j)) (children ft pb 0) in
      if ns = [] then resp_byte OSADA_EMPTYDIR
      else resp_byte OSADA_NOTEMPTYDIR @ le32 (of_nat (length (joined ns) + 1)) @ joined ns @ [0])"

lemma readdir_answer_correct:
  assumes L: "t_list L elemsL" and K: "t_list K elemsK" and pb: "table_pos pb"
  obtains t where "readdir_answer L K pb s = Some (listing (ftable s) pb, add_calls t s)"
    and "replay t (at_lock LOCK_READ pb, False) = Some no_locks"
proof -
  let ?js = "children (ftable s) pb 0"
  let ?names = "map (\<lambda>j. entry_name (ftable s ! j)) ?js"
  let ?nl = "foldl (list_add L) (list_create L) ?names"
  let ?lb = "foldl (list_add K) (list_create K) (map int ?js)"
  let ?scan = "concat (map (scan_events (ftable s) pb) [0..<FILE_BLOCKS_MOUNT])"
  let ?t = "?scan @ map (\<lambda>j. Rwlock UNLOCK (int j)) ?js @ unlock_calls pb"
  note laws = t_list.elems_foldl [OF L] t_list.elems_create [OF L] t_list.size_eq [OF L]
    t_list.elems_foldl [OF K] t_list.elems_create [OF K] t_list.destroy_order [OF K]
  have elems: "elemsL ?nl = ?names" "list_destroy_order K ?lb = map int ?js" "list_size L ?nl = length ?names"
    by (simp_all add: laws)
  have join: "readdir_join L ?nl 0 [] = Some (joined ?names)"
    using readdir_join_eq [OF L, of 0 ?nl "[]"] by (simp add: elems)
  have nul: "\<forall>n \<in> set ?names. 0 \<notin> set n" by (auto simp: entry_name_def dest: set_takeWhileD)
  have J: "{j \<in> set [0..<FILE_BLOCKS_MOUNT]. int j \<noteq> pb \<and> child_of pb (ftable s ! j)} = set ?js"
    by (auto simp: children_def)
  have "replay ?scan (at_lock LOCK_READ pb, False) = Some (holding (at_lock LOCK_READ pb) (set ?js), False)"
    using replay_scan_events [of "[0..<FILE_BLOCKS_MOUNT]" pb "at_lock LOCK_READ pb" "{}" "ftable s" False] J
    by (simp add: at_lock_other)
  moreover have "replay (map (\<lambda>j. Rwlock UNLOCK (int j)) ?js) (holding (at_lock LOCK_READ pb) (set ?js), False)
      = Some (at_lock LOCK_READ pb, False)"
    by (rule replay_unlock_children) (auto simp: children_def at_lock_other)
  moreover have "replay (unlock_calls pb) (at_lock LOCK_READ pb, False) = Some (\<lambda>_. Free, False)"
    by (rule replay_unlock [OF pb]) simp
  ultimately have "replay ?t (at_lock LOCK_READ pb, False) = Some no_locks"
    by (simp add: replay_append no_locks_def)
  moreover have "readdir_answer L K pb s = Some (listing (ftable s) pb, add_calls ?t s)"
    using join elems cstr_joined [OF nul]
    by (simp add: readdir_answer_def readdir_scan_eq fold_unlock lock_calls_eq listing_def Let_def)
  ultimately show thesis using that by blast
qed

text \<open>
  C11: readdir answers OSADA_ENOTDIR when the path does not lead through directories only, OSADA_EMPTYDIR
  for an empty one, and otherwise the names of exactly the entries whose parent it is, in table
  order, each followed by a comma, and a NUL. It keeps all of them locked while it reads them,
  and leaves nothing locked and nothing changed.
\<close>

theorem osada_readdir_correct:
  assumes L: "t_list L elemsL" and K: "t_list K elemsK"
    and inp: "recv_path inp = Received path rest" and path: "path = [slash] \<or> path_tokens path \<noteq> []"
  shows "\<exists>t. releases_all s (add_calls t s) \<and> osada_readdir L K s inp =
     Some (case lookup_dir (ftable s) ROOT (path_tokens path) of
         None \<Rightarrow> resp_byte OSADA_ENOTDIR
       | Some p \<Rightarrow> listing (ftable s) p, add_calls t s, rest)"
proof -
  let ?down = "readdir_calls (ftable s) ROOT (path_tokens path)"
  have root: "path = [slash] \<Longrightarrow> path_tokens path = []" by (simp add: path_tokens_slash)
  have run: "osada_readdir L K s inp = map_option (\<lambda>(resp, s'). (resp, s', rest))
      (case lookup_dir (ftable s) ROOT (path_tokens path) of
         None \<Rightarrow> Some (resp_byte OSADA_ENOTDIR, add_calls ?down s)
       | Some p \<Rightarrow> readdir_answer L K p (add_calls ?down s))"
    using inp root by (auto simp: osada_readdir_def on_request_Received readdir_loop_eq split: option.split)
  show ?thesis
  proof (cases "lookup_dir (ftable s) ROOT (path_tokens path)")
    case None
    have "replay ?down no_locks = Some no_locks"
      using replay_readdir [of ROOT "ftable s" "path_tokens path" False] None by (simp add: no_locks_def)
    then show ?thesis using run None by (auto simp: releases_all_def)
  next
    case (Some p)
    have p: "table_pos p" by (rule lookup_dir_pos [OF Some]) simp
    obtain t where t: "readdir_answer L K p (add_calls ?down s)
          = Some (listing (ftable (add_calls ?down s)) p, add_calls t (add_calls ?down s))"
        "replay t (at_lock LOCK_READ p, False) = Some no_locks"
      by (rule readdir_answer_correct [OF L K p])
    then have "releases_all s (add_calls (?down @ t) s)"
      using replay_down [OF Some] by (auto simp: releases_all_def replay_append)
    then show ?thesis using run Some t(1) by auto
  qed
qed

lemma sample_listing: "listing (ftable sample) 0 = 7 # le32 3 @ [102, 44, 0]"
proof -
  have "[0..<FILE_BLOCKS_MOUNT] = [0, 1] @ [2..<2048]"
    by (rule upt_mount)
  moreover have "filter (\<lambda>j. int j \<noteq> 0 \<and> child_of 0 (ftable sample ! j)) [2..<2048] = []"
    unfolding filter_empty_conv set_upt by (auto simp: child_of_def sample_nth_blank blank_entry_def)
  ultimately have "children (ftable sample) 0 0 = filter (\<lambda>j. int j \<noteq> 0 \<and> child_of 0 (ftable sample ! j)) [0, 1]"
    by (simp only: children_def filter_append append_Nil2)
  then have "children (ftable sample) 0 0 = [1]"
    by (simp add: child_of_def sample_nth sample_file_def)
  then show ?thesis
    using sample_nth(3)
    by (simp add: listing_def joined_def comma_def resp_byte_def sample_file_def entry_name_def)
qed

lemma osada_readdir_correct_witness:
  "\<exists>t. osada_readdir hol_list hol_list sample (le32 2 @ [47, 100])
     = Some (7 # le32 3 @ [102, 44, 0], add_calls t sample, [])"
proof -
  have inp: "recv_path (le32 2 @ [47, 100]) = Received [47, 100] []"
    using recv_path_message [of "[47, 100]" "[]"] by simp
  have tok: "path_tokens [47, 100] = [[100]]" by (simp add: path_tokens_def strtok_def slash_def)
  show ?thesis
    using osada_readdir_correct [OF hol_list.t_list_axioms hol_list.t_list_axioms inp, of sample]
      sample_in_dir(1) sample_listing by (auto simp: tok)
qed

end
