(* ===== verification/Osada_Connection.thy ===== *)
theory Osada_Connection
  imports Osada_Listing
begin

text \<open>
  Whole connections. No request on any input damages a consistent image, apart from a write whose
  end does not fit an \<^verbatim>\<open>int\<close>; \<open>served\<close> is the relation of the images a server goes through while it
  answers requests of any number of connections, one request after the other, and \<open>fs_ok\<close> is an
  invariant of it.
\<close>

section \<open>Every handler keeps the image consistent\<close>

declare mknod_loop.simps [simp] mkdir_loop.simps [simp]

lemma create_dir_ok:
  assumes "fs_ok E nbits n R s" and "create_dir E name pb s = (k, s')"
  shows "fs_ok E nbits n R s'"
proof (cases "find_free pb (ftable s)")
  case None
  then show ?thesis using assms by (auto simp: create_dir_eq)
next
  case (Some j)
  then have "harmless (ftable s ! j) (new_entry E DIRECTORY 0 name pb)"
    using find_free_state [OF Some] by (simp add: harmless_new)
  then show ?thesis using assms Some fs_ok_write_entry by (auto simp: create_dir_eq)
qed

lemma create_node_ok:
  assumes "fs_ok E nbits n R s" and "create_node E name pb s = (k, s')"
  shows "fs_ok E nbits n R s'"
proof (cases "find_free pb (ftable s)")
  case None
  then show ?thesis using assms by (auto simp: create_node_eq)
next
  case (Some j)
  then have "harmless (ftable s ! j) (new_entry E REGULAR END_OF_FILE name pb)"
    using find_free_state [OF Some] by (simp add: harmless_new)
  then show ?thesis using assms Some fs_ok_write_entry by (auto simp: create_node_eq)
qed

lemma search_dir_state: "search_dir name pb a ign s = (k, s') \<Longrightarrow> \<exists>t. s' = add_calls t s"
  by (auto simp: search_dir_eq)

lemma search_node_state: "search_node name pb a ign s = (k, s') \<Longrightarrow> \<exists>t. s' = add_calls t s"
  by (auto simp: search_node_eq)

lemma fs_ok_search [simp]:
  "search_dir name pb a ign s = (k, s') \<Longrightarrow> fs_ok E nbits n R s' = fs_ok E nbits n R s"
  "search_node name pb a ign s = (k, s') \<Longrightarrow> fs_ok E nbits n R s' = fs_ok E nbits n R s"
  by (auto dest!: search_dir_state search_node_state)

lemma fs_ok_unlock [simp]: "fs_ok E nbits n R (unlock_unless_root pb s) = fs_ok E nbits n R s"
  by (simp add: lock_calls_eq)

lemma mkdir_loop_ok:
  "fs_ok E nbits n R s \<Longrightarrow> mkdir_loop E pb ts s = (code, s') \<Longrightarrow> fs_ok E nbits n R s'"
proof (induction E pb ts s rule: mkdir_loop.induct)
  case (2 E pb dir rest s)
  obtain pos s1 where s1: "search_dir dir pb LOCK_READ pb s = (pos, s1)" by fastforce
  obtain k s2 where s2: "create_dir E dir pb s1 = (k, s2)" by fastforce
  have ok1: "fs_ok E nbits n R s1" using 2(3) s1 by simp
  have ok2: "fs_ok E nbits n R s2" by (rule create_dir_ok [OF ok1 s2])
  show ?case
  proof (cases "pos = - OSADA_ENOTDIR")
    case True
    then show ?thesis
      using 2(1) [OF s1 [symmetric] refl True _ s2 [symmetric] refl] 2(4) s1 s2 ok1 ok2
      by (auto split: if_splits)
  next
    case False
    then show ?thesis using 2(2) [OF s1 [symmetric] refl False] 2(4) s1 ok1 by simp
  qed
qed simp

lemma mknod_loop_ok:
  "fs_ok E nbits n R s \<Longrightarrow> mknod_loop E pb ts s = (code, s') \<Longrightarrow> fs_ok E nbits n R s'"
proof (induction E pb ts s rule: mknod_loop.induct)
  case (2 E pb node rest s)
  obtain pos s1 where s1: "search_dir node pb LOCK_READ pb s = (pos, s1)" by fastforce
  obtain k s2 where s2: "create_node E node pb s1 = (k, s2)" by fastforce
  have ok1: "fs_ok E nbits n R s1" using 2(2) s1 by simp
  have ok2: "fs_ok E nbits n R s2" by (rule create_node_ok [OF ok1 s2])
  show ?case
  proof (cases "pos = - OSADA_ENOTDIR")
    case True
    then show ?thesis using 2(3) s1 s2 ok1 ok2 by (auto simp: Let_def split: if_splits list.splits)
  next
    case False
    then show ?thesis using 2(1) [OF s1 [symmetric] refl False] 2(3) s1 ok1 by simp
  qed
qed simp

lemma rename_from_loop_ok:
  "fs_ok E nbits n R s \<Longrightarrow> rename_from_loop pb np ts s = (r, s') \<Longrightarrow> fs_ok E nbits n R s'"
proof (induction pb np ts s rule: rename_from_loop.induct)
  case (2 pb np node rest s)
  obtain pos s1 where s1: "search_dir node pb LOCK_READ pb s = (pos, s1)" by fastforce
  obtain k s2 where s2: "search_node node pb LOCK_WRITE pb s1 = (k, s2)" by fastforce
  have ok: "fs_ok E nbits n R s1" "fs_ok E nbits n R s2" using 2(2) s1 s2 by simp_all
  show ?case
  proof (cases "pos = - OSADA_ENOTDIR")
    case True
    then show ?thesis using 2(3) s1 s2 ok by (auto simp: Let_def split: if_splits list.splits)
  next
    case False
    then show ?thesis using 2(1) [OF s1 [symmetric] refl False] 2(3) s1 ok by simp
  qed
qed simp

lemma rename_to_loop_ok:
  "fs_ok E nbits n R s \<Longrightarrow> rename_to_loop E from pb ts s = Some (r, s') \<Longrightarrow> fs_ok E nbits n R s'"
proof (induction E "from" pb ts s rule: rename_to_loop.induct)
  case (2 E "from" pb node rest s)
  obtain pos s1 where s1: "search_dir node pb LOCK_READ from s = (pos, s1)" by fastforce
  obtain k s2 where s2: "search_node node pb LOCK_READ from s1 = (k, s2)" by fastforce
  have ok: "fs_ok E nbits n R s1" "fs_ok E nbits n R s2" using 2(2) s1 s2 by simp_all
  let ?i = "nat from" and ?s3 = "unlock_unless_root pb s2"
  have f: "ftable ?s3 = ftable s2" by (simp add: lock_calls_eq)
  have ok3: "fs_ok E nbits n R ?s3" using ok(2) by simp
  have w: "fs_ok E nbits n R (rename_entry ?i pb node ?s3)"
    "fs_ok E nbits n R (write_entry ?i ((ftable ?s3 ! ?i)\<lparr>parent_directory := word_of_int pb, lastmod := now E\<rparr>) ?s3)"
    unfolding rename_entry_def Let_def by (rule fs_ok_write_entry [OF ok3], rule harmless_rename)+
  show ?case
  proof (cases "pos = - OSADA_ENOTDIR")
    case True
    then show ?thesis
      using 2(3) s1 s2 ok w by (auto simp: Let_def split: if_splits list.splits osada_file_state.splits)
  next
    case False
    then show ?thesis using 2(1) [OF s1 [symmetric] refl False] 2(3) s1 ok by simp
  qed
qed simp

lemma rmdir_loop_result:
  "rmdir_loop pb np ts s = (r, s') \<Longrightarrow> (\<exists>t. s' = add_calls t s)
     \<and> (\<forall>p. r = Inr (Some p) \<longrightarrow> np = Some p \<and> ts = [] \<or> state (ftable s ! nat p) = DIRECTORY)"
proof (induction pb np ts s rule: rmdir_loop.induct)
  case (1 pb np s)
  then show ?case by (auto intro: exI [of _ "[]"])
next
  case (2 pb np dir rest s)
  let ?a = "if rest = [] then LOCK_WRITE else LOCK_READ"
  obtain pos s1 where s1: "search_dir dir pb ?a pb s = (pos, s1)" by fastforce
  obtain t where t: "s1 = add_calls t s" using search_dir_state [OF s1] by blast
  show ?case
  proof (cases "pos = - OSADA_ENOTDIR")
    case True
    then show ?thesis using 2(2) s1 t by (auto simp: lock_calls_eq)
  next
    case False
    have "state (ftable s ! nat pos) = DIRECTORY"
      using s1 False by (auto simp: search_dir_eq find_dir_def split: option.splits if_splits)
    then show ?thesis
      using 2(1) [OF refl s1 [symmetric] refl False] 2(2) s1 t False by (auto simp: lock_calls_eq Let_def)
  qed
qed

section \<open>One request\<close>

text \<open>A write that fits: its end is below \<^verbatim>\<open>INT_MAX\<close>.\<close>

definition fits :: "byte \<Rightarrow> byte list \<Rightarrow> bool" where
  "fits op inp \<longleftrightarrow> (op = 5 \<longrightarrow> (case recv_write inp of
       Received (path, sz, off, buf) rest \<Rightarrow> unat off + unat sz < 2 ^ 31 | _ \<Rightarrow> True))"

lemma on_request_SomeD:
  "on_request r s body = Some (resp, s', rest) \<Longrightarrow>
     s' = s \<or> (\<exists>x. r = Received x rest \<and> body x = Some (resp, s'))"
  by (auto simp: on_request_def split: received.splits)

lemma on_file_ok:
  assumes run: "on_file path s body = Some (resp, s')" and ok: "fs_ok E nbits n R s"
    and body: "\<And>i s code s'. fs_ok E nbits n R s \<Longrightarrow> i < FILE_BLOCKS_MOUNT \<Longrightarrow> state (ftable s ! i) = REGULAR
      \<Longrightarrow> body i s = Some (code, s') \<Longrightarrow> fs_ok E nbits n R s'"
  shows "fs_ok E nbits n R s'"
proof -
  let ?calls = "resolve_calls (ftable s) ROOT (path_tokens path)"
  consider code where "lookup_file (ftable s) ROOT (path_tokens path) = Inl code"
    | "lookup_file (ftable s) ROOT (path_tokens path) = Inr None"
    | p where "lookup_file (ftable s) ROOT (path_tokens path) = Inr (Some p)"
    by (metis option.exhaust sum.exhaust)
  then show ?thesis
  proof cases
    case 1
    then show ?thesis using run ok by (auto simp: on_file_def resolve_file_eq)
  next
    case 2
    then show ?thesis using run by (simp add: on_file_def resolve_file_eq)
  next
    case 3
    then obtain i where i: "p = int i" "i < FILE_BLOCKS_MOUNT" "state (ftable s ! i) = REGULAR"
      using lookup_file_regular by blast
    obtain code s2 where s2: "body i (add_calls ?calls s) = Some (code, s2)" "s' = semaphore UNLOCK p s2"
      using run 3 i(1) by (auto simp: on_file_def resolve_file_eq bind_eq_Some_conv)
    have "fs_ok E nbits n R s2" by (rule body [OF _ i(2) _ s2(1)]) (simp_all add: ok i(3))
    then show ?thesis using s2(2) by simp
  qed
qed

lemma file_handlers_ok:
  assumes bits: "bitarray (bits E) nbits" and n: "0 < n" and ok: "fs_ok E nbits n R s"
  shows "osada_write E s inp = Some (resp, s', rest) \<Longrightarrow> fits 5 inp \<Longrightarrow> fs_ok E nbits n R s'"
    and "osada_truncate E s inp = Some (resp, s', rest) \<Longrightarrow> fs_ok E nbits n R s'"
    and "osada_unlink E s inp = Some (resp, s', rest) \<Longrightarrow> fs_ok E nbits n R s'"
proof -
  show "fs_ok E nbits n R s'" if run: "osada_write E s inp = Some (resp, s', rest)" and "fits 5 inp"
    using on_request_SomeD [OF run [unfolded osada_write_def]]
  proof (elim disjE exE conjE)
    fix x assume x: "recv_write inp = Received x rest"
      and body: "(case x of (path, sz, offset, buffer) \<Rightarrow> on_file path s (\<lambda>i. write_node E i sz offset buffer))
        = Some (resp, s')"
    obtain path sz off buf where xx: "x = (path, sz, off, buf)" by (cases x)
    have small: "unat off + unat sz < 2 ^ 31" using \<open>fits 5 inp\<close> x xx by (simp add: fits_def)
    have len: "unat sz = length buf" "buf \<noteq> []" using recv_write_length x xx by blast+
    show ?thesis
    proof (rule on_file_ok [OF _ ok])
      show "on_file path s (\<lambda>i. write_node E i sz off buf) = Some (resp, s')" using body xx by simp
      fix i s code s'
      assume a: "fs_ok E nbits n R s" "i < FILE_BLOCKS_MOUNT" "state (ftable s ! i) = REGULAR"
        "write_node E i sz off buf s = Some (code, s')"
      obtain old where "contents s i = Some old" by (rule fs_ok_size [OF a(1-3)])
      then obtain code' s2 where "write_node E i sz off buf s = Some (code', s2)" "fs_ok E nbits n R s2"
        using bitarray.write_node_ok [OF bits refl a(1) n a(2,3) _ len small] by metis
      then show "fs_ok E nbits n R s'" using a(4) by simp
    qed
  qed (simp add: ok)
  show "fs_ok E nbits n R s'" if run: "osada_truncate E s inp = Some (resp, s', rest)"
    using on_request_SomeD [OF run [unfolded osada_truncate_def]]
  proof (elim disjE exE conjE)
    fix x assume "(case x of (path, v) \<Rightarrow> on_file path s (\<lambda>i. truncate_node E i v)) = Some (resp, s')"
    then obtain path v where body: "on_file path s (\<lambda>i. truncate_node E i v) = Some (resp, s')" by (cases x) simp
    show ?thesis
    proof (rule on_file_ok [OF body ok])
      fix i s code s'
      assume a: "fs_ok E nbits n R s" "i < FILE_BLOCKS_MOUNT" "state (ftable s ! i) = REGULAR"
        "truncate_node E i v s = Some (code, s')"
      obtain old where "contents s i = Some old" by (rule fs_ok_size [OF a(1-3)])
      then obtain code' s2 where "truncate_node E i v s = Some (code', s2)" "fs_ok E nbits n R s2"
        using bitarray.truncate_node_ok [OF bits refl a(1) n a(2,3)] by metis
      then show "fs_ok E nbits n R s'" using a(4) by simp
    qed
  qed (simp add: ok)
  show "fs_ok E nbits n R s'" if run: "osada_unlink E s inp = Some (resp, s', rest)"
    using on_request_SomeD [OF run [unfolded osada_unlink_def]]
  proof (elim disjE exE conjE)
    fix path assume body: "on_file path s (unlink_node E) = Some (resp, s')"
    show ?thesis
    proof (rule on_file_ok [OF body ok])
      fix i s code s'
      assume a: "fs_ok E nbits n R s" "i < FILE_BLOCKS_MOUNT" "state (ftable s ! i) = REGULAR"
        "unlink_node E i s = Some (code, s')"
      obtain s2 where "unlink_node E i s = Some (OSADA_SEXE, s2)" "fs_ok E nbits n R s2"
        using bitarray.unlink_node_ok [OF bits refl a(1-3)] by metis
      then show "fs_ok E nbits n R s'" using a(4) by simp
    qed
  qed (simp add: ok)
qed

text \<open>The handlers that only read.\<close>

definition calls_only :: "'bm osada \<Rightarrow> 'bm osada \<Rightarrow> bool" where
  "calls_only s s' \<longleftrightarrow> (\<exists>t. s' = add_calls t s)"

lemma calls_only_simps [simp]: "calls_only s s" "calls_only s (add_calls t s)"
  unfolding calls_only_def by (metis add_calls_Nil, blast)

lemma calls_only_add: "calls_only s s1 \<Longrightarrow> calls_only s (add_calls t s1)"
  by (auto simp: calls_only_def)

lemma calls_only_trans: "calls_only s s1 \<Longrightarrow> calls_only s1 s2 \<Longrightarrow> calls_only s s2"
  by (auto simp: calls_only_def)

lemma calls_only_from: "calls_only (add_calls t s) s' \<Longrightarrow> calls_only s s'"
  by (auto simp: calls_only_def)

lemma getattr_loop_state:
  assumes "getattr_loop pb np ts s = (r, s')"
  shows "calls_only s s'"
proof (cases "ts = []")
  case True
  then show ?thesis using assms by simp
next
  case False
  then show ?thesis using assms by (auto simp: getattr_loop_eq)
qed

lemma getattr_state:
  "osada_getattr s inp = Some (resp, s', rest) \<Longrightarrow> calls_only s s'"
  by (auto simp: osada_getattr_def getattr_answer_def lock_calls_eq Let_def
      split: prod.splits sum.splits option.splits osada_file_state.splits
      dest!: on_request_SomeD getattr_loop_state intro: calls_only_add)

lemma read_state: "osada_read s inp = Some (resp, s', rest) \<Longrightarrow> calls_only s s'"
  by (auto simp: osada_read_def lock_calls_eq Let_def bind_eq_Some_conv
      split: prod.splits sum.splits option.splits
      dest!: on_request_SomeD getattr_loop_state intro: calls_only_add)

lemma fold_unlock_ints: "calls_only s (fold (semaphore UNLOCK) ps s)"
proof (induction ps arbitrary: s)
  case (Cons p ps)
  have "calls_only s (semaphore UNLOCK p s)" by (simp add: lock_calls_eq)
  then show ?case using Cons [of "semaphore UNLOCK p s"] calls_only_trans by simp
qed simp

lemma readdir_answer_state:
  assumes "readdir_answer L K p s = Some (resp, s')"
  shows "calls_only s s'"
proof -
  let ?s1 = "add_calls (concat (map (scan_events (ftable s) p) [0..<FILE_BLOCKS_MOUNT])) s"
  have "\<exists>ps. s' = unlock_unless_root p (fold (semaphore UNLOCK) ps ?s1) \<or> s' = unlock_unless_root p ?s1"
    using assms by (auto simp: readdir_answer_def readdir_scan_eq Let_def split: if_splits option.splits)
  moreover have "calls_only s (unlock_unless_root p (fold (semaphore UNLOCK) ps ?s1))" for ps
    unfolding lock_calls_eq(4) by (rule calls_only_add, rule calls_only_trans [OF _ fold_unlock_ints]) simp
  moreover have "calls_only s (unlock_unless_root p ?s1)"
    unfolding lock_calls_eq(4) by (rule calls_only_add) simp
  ultimately show ?thesis by auto
qed

lemma readdir_state: "osada_readdir L K s inp = Some (resp, s', rest) \<Longrightarrow> calls_only s s'"
  by (auto simp: osada_readdir_def readdir_loop_eq split: prod.splits sum.splits option.splits if_splits
      dest!: on_request_SomeD readdir_answer_state intro: calls_only_from)

lemma tree_handlers_ok:
  assumes ok: "fs_ok E nbits n R s"
  shows "osada_mkdir E s inp = Some (resp, s', rest) \<Longrightarrow> fs_ok E nbits n R s'"
    and "osada_mknod E s inp = Some (resp, s', rest) \<Longrightarrow> fs_ok E nbits n R s'"
    and "osada_rmdir s inp = Some (resp, s', rest) \<Longrightarrow> fs_ok E nbits n R s'"
    and "osada_rename E s inp = Some (resp, s', rest) \<Longrightarrow> fs_ok E nbits n R s'"
proof -
  show "osada_mkdir E s inp = Some (resp, s', rest) \<Longrightarrow> fs_ok E nbits n R s'"
    using ok mkdir_loop_ok [OF ok]
    by (auto simp: osada_mkdir_def split: prod.splits if_splits dest!: on_request_SomeD)
  show "osada_mknod E s inp = Some (resp, s', rest) \<Longrightarrow> fs_ok E nbits n R s'"
    using ok mknod_loop_ok [OF ok]
    by (auto simp: osada_mknod_def split: prod.splits if_splits dest!: on_request_SomeD)
  have set: "fs_ok E nbits n R (set_state (nat p) DELETED s1)"
    if "rmdir_loop ROOT None ts s = (Inr (Some p), s1)" for ts p s1
  proof -
    note run = that
    obtain t where "s1 = add_calls t s" "state (ftable s ! nat p) = DIRECTORY"
      using rmdir_loop_result [of ROOT None ts s "Inr (Some p)" s1] run by auto
    moreover have "harmless (ftable s ! nat p) ((ftable s ! nat p)\<lparr>state := DELETED\<rparr>)"
      using calculation by (simp add: harmless_def)
    ultimately show ?thesis using fs_ok_write_entry [OF ok] by (simp add: set_state_def)
  qed
  have keep: "fs_ok E nbits n R s1" if "rmdir_loop ROOT None ts s = (r, s1)" for ts r s1
    using rmdir_loop_result [OF that] ok by auto
  show "osada_rmdir s inp = Some (resp, s', rest) \<Longrightarrow> fs_ok E nbits n R s'"
    using ok set keep
    by (auto simp: osada_rmdir_def split: prod.splits if_splits sum.splits option.splits dest!: on_request_SomeD)
  show "osada_rename E s inp = Some (resp, s', rest) \<Longrightarrow> fs_ok E nbits n R s'"
    using ok
    by (auto simp: osada_rename_def split: prod.splits if_splits sum.splits option.splits
        dest!: on_request_SomeD intro: rename_from_loop_ok [OF ok] rename_to_loop_ok [OF rename_from_loop_ok [OF ok]])
qed

lemma dispatch_ok:
  assumes bits: "bitarray (bits E) nbits" and n: "0 < n" and ok: "fs_ok E nbits n R s"
    and run: "dispatch E L K op s inp = Some (resp, s', rest)" and fits: "fits op inp"
  shows "fs_ok E nbits n R s'"
proof -
  note files = file_handlers_ok [OF bits n ok] and tree = tree_handlers_ok [OF ok]
  have quiet: "calls_only s s' \<Longrightarrow> fs_ok E nbits n R s'" using ok by (auto simp: calls_only_def)
  show ?thesis
    using run fits ok files tree quiet [OF getattr_state] quiet [OF read_state] quiet [OF readdir_state]
    unfolding dispatch_def by (auto split: if_splits)
qed

section \<open>The server\<close>

text \<open>
  The images of a server: each request, of whatever connection, is answered on the image the one
  before left. Requests of different connections that run at the same time are kept apart by
  the entry locks; they are taken one at a time here.
\<close>

inductive served :: "'bm env \<Rightarrow> ('l, byte list) t_list_ops \<Rightarrow> ('k, int) t_list_ops
    \<Rightarrow> 'bm osada \<Rightarrow> 'bm osada \<Rightarrow> bool" for E L K s where
  start: "served E L K s s"
| request: "served E L K s s1 \<Longrightarrow> fits op inp \<Longrightarrow> dispatch E L K op s1 inp = Some (resp, s2, rest)
    \<Longrightarrow> served E L K s s2"

text \<open>
  C12: Consistency is an invariant of the server: from a consistent image, whatever requests arrive
  on whatever connections, in any order and with any contents (a write past \<^verbatim>\<open>INT_MAX\<close> apart),
  every image it goes through is consistent, with the same set of blocks marked from the start.
\<close>

theorem served_consistent:
  assumes "bitarray (bits E) nbits" and "0 < n" and "fs_ok E nbits n R s" and "served E L K s s'"
  shows "fs_ok E nbits n R s'"
  using assms(4)
proof (induction rule: served.induct)
  case start
  then show ?case by (rule assms(3))
next
  case (request s1 op inp resp s2 rest)
  then show ?case using dispatch_ok [OF assms(1,2)] by blast
qed

lemma served_consistent_witness:
  "\<exists>s'. served sample_env hol_list hol_list sample s' \<and> contents s' 1 = None
     \<and> fs_ok sample_env bits_of 68 {} s'"
proof -
  obtain s' where s': "osada_unlink sample_env sample (le32 4 @ sample_path) = Some (resp_byte OSADA_SEXE, s', [])"
      "state (ftable s' ! 1) = DELETED"
    using osada_unlink_run [OF bitarray_sample sample_ok recv_sample_path sample_lookup_nat sample_contents]
    by auto
  have d: "dispatch sample_env hol_list hol_list 8 sample (le32 4 @ sample_path)
      = Some (resp_byte OSADA_SEXE, s', [])"
    using s'(1) by (simp add: dispatch_def)
  have fit: "fits 8 (le32 4 @ sample_path)" by (simp add: fits_def)
  have sv: "served sample_env hol_list hol_list sample s'"
    by (rule served.request [OF served.start fit d])
  moreover have "contents s' 1 = None" using s'(2) by (simp add: contents_def)
  moreover have "fs_ok sample_env bits_of 68 {} s'"
    by (rule served_consistent [OF bitarray_sample _ sample_ok sv]) simp
  ultimately show ?thesis by blast
qed

end
