(* ===== verification/Pokedex_Client.thy ===== *)
theory Pokedex_Client
  imports Prelude
begin

text \<open>
  The FUSE callbacks of \<^verbatim>\<open>pokedex-client.c\<close>. Each builds a message, sends it, and reads the answer
  field by field with \<^verbatim>\<open>recv\<close> and \<^verbatim>\<open>MSG_WAITALL\<close>. The other end of the socket is a parameter
  \<open>serve\<close>: what it answers to a message and how its state changes; \<open>None\<close> when it goes away
  instead. A callback that waits for bytes that never come, or that reads memory it did not set,
  is \<open>None\<close>.
\<close>

section \<open>The socket\<close>

record 's conn =
  pending :: "byte list"        \<comment> \<open>answered and not yet read\<close>
  peer :: "'s option"           \<comment> \<open>\<open>None\<close>: disconnected\<close>

type_synonym 's serve = "byte list \<Rightarrow> 's \<Rightarrow> (byte list \<times> 's) option"

definition send_msg :: "'s serve \<Rightarrow> byte list \<Rightarrow> 's conn \<Rightarrow> 's conn" where
  "send_msg serve msg c =
     (case peer c of
        None \<Rightarrow> c
      | Some s \<Rightarrow> (case serve msg s of
            None \<Rightarrow> c\<lparr>peer := None\<rparr>
          | Some (resp, s') \<Rightarrow> c\<lparr>pending := pending c @ resp, peer := Some s'\<rparr>))"

abbreviation (input) EIO :: int where "EIO \<equiv> 5"
abbreviation (input) ENOENT :: int where "ENOENT \<equiv> 2"
abbreviation (input) ENOTDIR :: int where "ENOTDIR \<equiv> 20"
abbreviation (input) EINVAL :: int where "EINVAL \<equiv> 22"
abbreviation (input) ENOSPC :: int where "ENOSPC \<equiv> 28"

text \<open>
  A \<^verbatim>\<open>recv\<close> with the test that follows each of them: nothing received is \<^verbatim>\<open>-EIO\<close>, with the output
  \<open>out\<close> the callback has produced so far.
\<close>

definition recv_or_eio :: "nat \<Rightarrow> 'o \<Rightarrow> 's conn \<Rightarrow> (byte list \<Rightarrow> 's conn \<Rightarrow> (int \<times> 'o \<times> 's conn) option)
    \<Rightarrow> (int \<times> 'o \<times> 's conn) option" where
  "recv_or_eio n out c f =
     (if n = 0 then Some (- EIO, out, c)
      else if n \<le> length (pending c) then f (take n (pending c)) (c\<lparr>pending := drop n (pending c)\<rparr>)
      else if peer c = None \<and> pending c = [] then Some (- EIO, out, c)
      else None)"

text \<open>The messages: an operation code and a path, and for some more fields.\<close>

definition path_field :: "byte list \<Rightarrow> byte list" where
  "path_field path = le32 (of_nat (length path)) @ path"

section \<open>Directories\<close>

definition pk_mkdir :: "'s serve \<Rightarrow> byte list \<Rightarrow> 's conn \<Rightarrow> (int \<times> unit \<times> 's conn) option" where
  "pk_mkdir serve path c =
     recv_or_eio 1 () (send_msg serve (1 # path_field path) c) (\<lambda>resp c.
       let resp_code = unat (hd resp) in
       if resp_code = 5 then Some (- ENOSPC, (), c)
       else if resp_code = 9 then Some (- EINVAL, (), c)
       else Some (0, (), c))"

text \<open>The tokens of a buffer; without a NUL in it \<^verbatim>\<open>strtok\<close> leaves it.\<close>

definition buffer_tokens :: "byte list \<Rightarrow> byte list list option" where
  "buffer_tokens resp = (if 0 \<in> set resp then Some (strtok 44 (cstr resp)) else None)"

text \<open>The names handed to \<^verbatim>\<open>filler\<close>, in order.\<close>

definition pk_readdir :: "'s serve \<Rightarrow> byte list \<Rightarrow> 's conn \<Rightarrow> (int \<times> byte list list \<times> 's conn) option" where
  "pk_readdir serve path c =
     (let dots = [[46], [46, 46]] in
      recv_or_eio 1 dots (send_msg serve (2 # path_field path) c) (\<lambda>resp c.
        let resp_code = unat (hd resp) in
        if resp_code = 4 then Some (- ENOTDIR, dots, c)
        else if resp_code = 7 then
          recv_or_eio 4 dots c (\<lambda>resp_size c.
          recv_or_eio (unat (un_le32 resp_size)) dots c (\<lambda>resp c.
            case buffer_tokens resp of
              None \<Rightarrow> None
            | Some dirs \<Rightarrow> Some (0, dots @ filter (\<lambda>dir. length dir > 0) dirs, c)))
        else Some (0, dots, c)))"

definition pk_rmdir :: "'s serve \<Rightarrow> byte list \<Rightarrow> 's conn \<Rightarrow> (int \<times> unit \<times> 's conn) option" where
  "pk_rmdir serve path c =
     recv_or_eio 1 () (send_msg serve (9 # path_field path) c) (\<lambda>resp c.
       if unat (hd resp) = 4 then Some (- ENOTDIR, (), c) else Some (0, (), c))"

section \<open>Attributes\<close>

record stat =
  st_mode :: nat
  st_nlink :: nat
  st_size :: nat

definition no_stat :: stat where
  "no_stat = \<lparr>st_mode = 0, st_nlink = 0, st_size = 0\<rparr>"

text \<open>\<^verbatim>\<open>S_IFDIR | 0755\<close> and \<^verbatim>\<open>S_IFREG | 0755\<close>.\<close>

definition dir_mode :: nat where "dir_mode = 16877"
definition reg_mode :: nat where "reg_mode = 33261"

definition pk_getattr :: "'s serve \<Rightarrow> byte list \<Rightarrow> 's conn \<Rightarrow> (int \<times> stat \<times> 's conn) option" where
  "pk_getattr serve path c =
     (if path = [47] then Some (0, no_stat\<lparr>st_mode := dir_mode, st_nlink := 2\<rparr>, c)
      else if length path > 0 then
        recv_or_eio 1 no_stat (send_msg serve (3 # path_field path) c) (\<lambda>resp c.
          let resp_code = unat (hd resp) in
          if resp_code = 1 then Some (- ENOENT, no_stat, c)
          else
            recv_or_eio 4 no_stat c (\<lambda>file_size c.
            recv_or_eio 4 no_stat c (\<lambda>lastmod c.
              if resp_code = 3 then Some (0, no_stat\<lparr>st_mode := dir_mode, st_nlink := 2\<rparr>, c)
              else if resp_code = 2 then
                Some (0, no_stat\<lparr>st_mode := reg_mode, st_nlink := 2, st_size := unat (un_le32 file_size)\<rparr>, c)
              else Some (0, no_stat, c))))
      else Some (- ENOENT, no_stat, c))"

definition pk_open :: "'s serve \<Rightarrow> byte list \<Rightarrow> 's conn \<Rightarrow> (int \<times> unit \<times> 's conn) option" where
  "pk_open serve path c =
     recv_or_eio 1 () (send_msg serve (3 # path_field path) c) (\<lambda>resp c.
       let resp_code = unat (hd resp) in
       if resp_code = 1 then Some (- ENOENT, (), c)
       else
         recv_or_eio 4 () c (\<lambda>file_size c.
         recv_or_eio 4 () c (\<lambda>lastmod c.
           if resp_code \<noteq> 2 then Some (- ENOENT, (), c) else Some (0, (), c))))"

section \<open>Files\<close>

definition pk_mknod :: "'s serve \<Rightarrow> byte list \<Rightarrow> 's conn \<Rightarrow> (int \<times> unit \<times> 's conn) option" where
  "pk_mknod serve path c =
     recv_or_eio 1 () (send_msg serve (4 # path_field path) c) (\<lambda>resp c.
       let resp_code = unat (hd resp) in
       if resp_code = 5 then Some (- ENOSPC, (), c)
       else if resp_code = 9 then Some (- EINVAL, (), c)
       else if resp_code = 4 then Some (- ENOTDIR, (), c)
       else Some (0, (), c))"

text \<open>\<^verbatim>\<open>off_t\<close> is an \<open>int\<close> and \<^verbatim>\<open>size_t\<close> a \<open>nat\<close> here; both are cut to \<^verbatim>\<open>uint32_t\<close>.\<close>

definition pk_truncate :: "'s serve \<Rightarrow> byte list \<Rightarrow> int \<Rightarrow> 's conn \<Rightarrow> (int \<times> unit \<times> 's conn) option" where
  "pk_truncate serve path offset c =
     recv_or_eio 1 () (send_msg serve (7 # path_field path @ le32 (of_cint offset)) c) (\<lambda>resp c.
       let resp_code = unat (hd resp) in
       if resp_code = 1 then Some (- ENOENT, (), c)
       else if resp_code = 5 then Some (- ENOSPC, (), c)
       else Some (0, (), c))"

text \<open>The output is what is copied to \<^verbatim>\<open>buf\<close>, which has room for \<open>sz\<close> bytes.\<close>

definition pk_read :: "'s serve \<Rightarrow> byte list \<Rightarrow> nat \<Rightarrow> int \<Rightarrow> 's conn \<Rightarrow> (int \<times> byte list \<times> 's conn) option" where
  "pk_read serve path sz offset c =
     recv_or_eio 1 [] (send_msg serve (6 # path_field path @ le32 (of_nat sz) @ le32 (of_cint offset)) c)
       (\<lambda>resp c.
       if unat (hd resp) = 1 then Some (- ENOENT, [], c)
       else
         recv_or_eio 4 [] c (\<lambda>bytes_transferred c.
           let n = un_le32 bytes_transferred in
           if n > 0 then recv_or_eio (unat n) [] c (\<lambda>file_content c.
             if unat n \<le> sz then Some (to_int n, file_content, c) else None)
           else Some (to_int n, [], c)))"

definition pk_write :: "'s serve \<Rightarrow> byte list \<Rightarrow> byte list \<Rightarrow> nat \<Rightarrow> int \<Rightarrow> 's conn
    \<Rightarrow> (int \<times> unit \<times> 's conn) option" where
  "pk_write serve path buf sz offset c =
     (let req_size = of_nat sz :: u32 in
      recv_or_eio 1 ()
        (send_msg serve (5 # path_field path @ le32 req_size @ le32 (of_cint offset) @ take (unat req_size) buf) c)
        (\<lambda>resp c. if unat (hd resp) = 8 then Some (to_int req_size, (), c) else Some (0, (), c)))"

definition pk_unlink :: "'s serve \<Rightarrow> byte list \<Rightarrow> 's conn \<Rightarrow> (int \<times> unit \<times> 's conn) option" where
  "pk_unlink serve path c =
     recv_or_eio 1 () (send_msg serve (8 # path_field path) c) (\<lambda>resp c.
       if unat (hd resp) = 1 then Some (- ENOENT, (), c) else Some (0, (), c))"

definition pk_rename :: "'s serve \<Rightarrow> byte list \<Rightarrow> byte list \<Rightarrow> 's conn \<Rightarrow> (int \<times> unit \<times> 's conn) option" where
  "pk_rename serve from to c =
     recv_or_eio 1 () (send_msg serve (10 # path_field from @ path_field to) c) (\<lambda>resp c.
       let resp_code = unat (hd resp) in
       if resp_code = 1 then Some (- ENOENT, (), c)
       else if resp_code = 5 then Some (- ENOSPC, (), c)
       else if resp_code = 9 then Some (- EINVAL, (), c)
       else Some (0, (), c))"

section \<open>A connection that is in step\<close>

text \<open>Nothing is pending; the peer is in state \<open>s\<close>.\<close>

definition in_step :: "'s \<Rightarrow> 's conn" where
  "in_step s = \<lparr>pending = [], peer = Some s\<rparr>"

lemma send_in_step [simp]:
  "serve msg s = Some (resp, s') \<Longrightarrow> send_msg serve msg (in_step s) = \<lparr>pending = resp, peer = Some s'\<rparr>"
  by (simp add: send_msg_def in_step_def)

lemma recv_or_eio_prefix [simp]:
  "n = length bs \<Longrightarrow> bs \<noteq> [] \<Longrightarrow>
     recv_or_eio n out \<lparr>pending = bs @ rest, peer = p\<rparr> f = f bs \<lparr>pending = rest, peer = p\<rparr>"
  by (simp add: recv_or_eio_def)

lemma recv_or_eio_one [simp]:
  "recv_or_eio 1 out \<lparr>pending = b # rest, peer = p\<rparr> f = f [b] \<lparr>pending = rest, peer = p\<rparr>"
  "recv_or_eio (Suc 0) out \<lparr>pending = b # rest, peer = p\<rparr> f = f [b] \<lparr>pending = rest, peer = p\<rparr>"
  by (simp_all add: recv_or_eio_def)

lemma recv_or_eio_u32 [simp]:
  "recv_or_eio 4 out \<lparr>pending = le32 w @ rest, peer = p\<rparr> f = f (le32 w) \<lparr>pending = rest, peer = p\<rparr>"
  "recv_or_eio 4 out \<lparr>pending = le32 w, peer = p\<rparr> f = f (le32 w) \<lparr>pending = [], peer = p\<rparr>"
  by (simp_all add: recv_or_eio_def)

lemma recv_or_eio_all:
  "n = length bs \<Longrightarrow> bs \<noteq> [] \<Longrightarrow>
     recv_or_eio n out \<lparr>pending = bs, peer = p\<rparr> f = f bs \<lparr>pending = [], peer = p\<rparr>"
  by (simp add: recv_or_eio_def)

text \<open>A server that answers nothing: the callback waits for ever.\<close>

lemma recv_or_eio_silent: "0 < n \<Longrightarrow> recv_or_eio n out \<lparr>pending = [], peer = Some s\<rparr> f = None"
  by (simp add: recv_or_eio_def)

end
