(* ===== verification/Pokedex_System.thy ===== *)
theory Pokedex_System
  imports Osada_Connection Pokedex_Client
begin

text \<open>
  Client and server together: the peer of the client is \<^verbatim>\<open>process_request\<close> on an OSADA image. What
  a FUSE callback returns is stated in terms of the image alone.
\<close>

definition osada_peer :: "'bm env \<Rightarrow> ('l, byte list) t_list_ops \<Rightarrow> ('k, int) t_list_ops \<Rightarrow> 'bm osada serve" where
  "osada_peer E L K msg s = process_request E L K s msg"

lemma osada_peer_answer:
  assumes "dispatch E L K op s req = Some (resp, s', [])"
  shows "osada_peer E L K (op # req) s = Some (resp, s')"
  using process_request_one [OF assms] by (simp add: osada_peer_def)

lemma in_step_conn: "\<lparr>pending = [], peer = Some s\<rparr> = in_step s"
  by (simp add: in_step_def)

text \<open>A path FUSE hands over: a C string that is not empty.\<close>

definition fuse_path :: "byte list \<Rightarrow> bool" where
  "fuse_path path \<longleftrightarrow> path \<noteq> [] \<and> length path < 2 ^ 32 \<and> 0 \<notin> set path"

lemma recv_path_field: "fuse_path path \<Longrightarrow> recv_path (path_field path @ rest) = Received path rest"
  using recv_path_message [of path rest] by (simp add: fuse_path_def path_field_def)

lemma recv_path_field_Nil: "fuse_path path \<Longrightarrow> recv_path (path_field path) = Received path []"
  using recv_path_field [of path "[]"] by simp

lemma to_int_of_nat: "k < 2 ^ 31 \<Longrightarrow> to_int (of_nat k) = int k"
  using to_int_small [of "of_nat k"] by (simp add: unat_of_nat)

section \<open>write and read\<close>

lemma pk_write_runs:
  assumes bits: "bitarray (bits E) nbits" and ok: "fs_ok E nbits n R s" and n: "0 < n"
    and path: "fuse_path path"
    and found: "lookup_file (ftable s) ROOT (path_tokens path) = Inr (Some (int i))"
    and old: "contents s i = Some old" and buf: "buf \<noteq> []" "off + length buf < 2 ^ 31" "off \<le> length old"
    and room: "nblocks (off + length buf) - nblocks (length old) < free_count E n s"
  obtains s' where "pk_write (osada_peer E L K) path buf (length buf) (int off) (in_step s)
      = Some (int (length buf), (), in_step s')"
    and "fs_ok E nbits n R s'" and "contents s' i = Some (pwrite old off buf)"
    and "others_same i s s'" and "names s' = names s"
proof -
  let ?inp = "path_field path @ le32 (of_nat (length buf)) @ le32 (of_nat off) @ buf"
  have small: "length buf < 2 ^ 32" "off < 2 ^ 32" using buf(2) by simp_all
  have inp: "recv_write ?inp = Received (path, of_nat (length buf), of_nat off, buf) []"
    using recv_write_message [of path buf "of_nat off" "[]"] path buf small
    by (simp add: fuse_path_def path_field_def)
  have off: "unat (of_nat off :: u32) = off" "unat (of_nat (length buf) :: u32) = length buf"
    using small by (simp_all add: unat_of_nat)
  have fit: "unat (of_nat off :: u32) + length buf < 2 ^ 31" using buf(2) off by simp
  obtain code s' where w: "osada_write E s ?inp = Some (resp_byte code, s', [])"
      "fs_ok E nbits n R s'" "others_same i s s'" "names s' = names s"
    and c: "code = OSADA_SEXE \<and> (\<exists>data. contents s' i = Some data
            \<and> length data = max (length old) (unat (of_nat off :: u32) + length buf)
            \<and> (unat (of_nat off :: u32) \<le> length old \<longrightarrow> data = pwrite old (unat (of_nat off :: u32)) buf))
        \<or> code = OSADA_ENOSPC \<and> contents s' i = Some old"
    and r: "nblocks (unat (of_nat off :: u32) + length buf) - nblocks (length old) < free_count E n s
      \<longrightarrow> code = OSADA_SEXE"
    using osada_write_run [OF bits ok n inp found old fit] by blast
  have code: "code = OSADA_SEXE" using r room off by simp
  have "dispatch E L K 5 s ?inp = Some ([8], s', [])" using w(1) code by (simp add: dispatch_def resp_byte_def)
  from osada_peer_answer [OF this]
  have "pk_write (osada_peer E L K) path buf (length buf) (int off) (in_step s)
      = Some (int (length buf), (), in_step s')"
    using off to_int_of_nat [of "length buf"] buf(2)
    by (simp add: pk_write_def Let_def in_step_conn)
  moreover have "contents s' i = Some (pwrite old off buf)" using c code off buf(3) by auto
  ultimately show thesis using that w by blast
qed

lemma pk_read_answer:
  assumes d: "dispatch E L K 6 s (path_field path @ le32 (of_nat sz) @ le32 (of_cint offset))
      = Some (8 # le32 (of_nat (length data)) @ data, s', [])"
    and len: "length data < 2 ^ 31" "length data \<le> sz"
  shows "pk_read (osada_peer E L K) path sz offset (in_step s) = Some (int (length data), data, in_step s')"
proof (cases "data = []")
  case True
  then show ?thesis
    using osada_peer_answer [OF d] by (simp add: pk_read_def in_step_conn to_int_def)
next
  case False
  have un: "unat (of_nat (length data) :: u32) = length data" using len(1) by (simp add: unat_of_nat)
  then have "(0 :: u32) < of_nat (length data)" using False by (simp add: word_less_nat_alt)
  then show ?thesis
    using osada_peer_answer [OF d] False un to_int_of_nat [OF len(1)] len(2)
    by (simp add: pk_read_def Let_def in_step_conn recv_or_eio_all)
qed

lemma pk_read_runs:
  assumes ok: "fs_ok E nbits n R s" and path: "fuse_path path"
    and found: "lookup_node (ftable s) ROOT (path_tokens path) = Some (int i)"
    and old: "contents s i = Some old" and before: "off + 1 < length old" and small: "off + sz < 2 ^ 32"
  obtains s' where "pk_read (osada_peer E L K) path sz (int off) (in_step s)
      = Some (int (length (take sz (drop off old))), take sz (drop off old), in_step s')"
proof -
  let ?inp = "path_field path @ le32 (of_nat sz) @ le32 (of_nat off)"
  let ?data = "take sz (drop off old)"
  have inp: "recv_read ?inp = Received (path, of_nat sz, of_nat off) []"
    using recv_read_message [of path "of_nat sz" "of_nat off" "[]"] path by (simp add: fuse_path_def path_field_def)
  have u: "unat (of_nat off :: u32) = off" "unat (of_nat sz :: u32) = sz"
    using small by (simp_all add: unat_of_nat)
  obtain t where t: "osada_read s ?inp
      = Some (resp_byte OSADA_SEXE @ le32 (of_nat (length ?data)) @ ?data, add_calls t s, [])"
    using osada_read_run [OF ok inp found old] before small u by auto
  have i: "i < FILE_BLOCKS_MOUNT" "state (ftable s ! i) = REGULAR"
    using contents_entry [OF old] fs_ok_length [OF ok] by simp_all
  have "length old < 2 ^ 31" using fs_ok_size [OF ok i] old by (metis option.inject)
  then have len: "length ?data < 2 ^ 31" "length ?data \<le> sz" by simp_all
  have "dispatch E L K 6 s (path_field path @ le32 (of_nat sz) @ le32 (of_cint (int off)))
      = Some (8 # le32 (of_nat (length ?data)) @ ?data, add_calls t s, [])"
    using t by (simp add: dispatch_def resp_byte_def)
  from pk_read_answer [OF this len]
  have "pk_read (osada_peer E L K) path sz (int off) (in_step s)
      = Some (int (length ?data), ?data, in_step (add_calls t s))" .
  then show thesis using that by blast
qed

text \<open>
  C14: What \<^verbatim>\<open>pk_write\<close> wrote is what \<^verbatim>\<open>pk_read\<close> returns. Over the wire and through the chains of
  blocks: a write inside a file or at its end, with enough free blocks, returns its size, and a
  read that starts before the last byte of the file then returns the bytes of the old contents
  overwritten with the buffer. The connection stays in step after both.
\<close>

theorem pk_write_then_read:
  assumes bits: "bitarray (bits E) nbits" and ok: "fs_ok E nbits n R s" and n: "0 < n"
    and path: "fuse_path path"
    and found: "lookup_file (ftable s) ROOT (path_tokens path) = Inr (Some (int i))"
    and old: "contents s i = Some old" and buf: "buf \<noteq> []" "off + length buf < 2 ^ 31" "off \<le> length old"
    and room: "nblocks (off + length buf) - nblocks (length old) < free_count E n s"
    and read: "roff + 1 < max (length old) (off + length buf)" "roff + rsz < 2 ^ 32"
  shows "\<exists>s' s''. pk_write (osada_peer E L K) path buf (length buf) (int off) (in_step s)
        = Some (int (length buf), (), in_step s')
     \<and> (let data = take rsz (drop roff (pwrite old off buf)) in
        pk_read (osada_peer E L K) path rsz (int roff) (in_step s')
          = Some (int (length data), data, in_step s''))"
proof -
  obtain s' where w: "pk_write (osada_peer E L K) path buf (length buf) (int off) (in_step s)
      = Some (int (length buf), (), in_step s')"
    "fs_ok E nbits n R s'" "contents s' i = Some (pwrite old off buf)" "names s' = names s"
    by (rule pk_write_runs [OF bits ok n path found old buf room])
  have "lookup_node (ftable s') ROOT (path_tokens path) = Some (int i)"
    using lookup_file_node [OF found] lookup_names(1) [OF w(4)] by simp
  moreover have "length (pwrite old off buf) = max (length old) (off + length buf)"
    using buf(3) by (simp add: pwrite_def)
  then have "roff + 1 < length (pwrite old off buf)" using read(1) by simp
  ultimately obtain s'' where "pk_read (osada_peer E L K) path rsz (int roff) (in_step s')
      = Some (int (length (take rsz (drop roff (pwrite old off buf)))),
          take rsz (drop roff (pwrite old off buf)), in_step s'')"
    by (rule pk_read_runs [OF w(2) path _ w(3) _ read(2)])
  then show ?thesis using w(1) by (auto simp: Let_def)
qed

lemma fuse_sample: "fuse_path sample_path"
  by (simp add: fuse_path_def sample_path_def)

lemma pk_write_then_read_witness:
  "\<exists>s' s''. pk_write (osada_peer sample_env hol_list hol_list) sample_path [1, 2, 3] 3 70 (in_step sample)
        = Some (3, (), in_step s')
     \<and> pk_read (osada_peer sample_env hol_list hol_list) sample_path 4 69 (in_step s')
        = Some (4, [5, 1, 2, 3], in_step s'')"
proof -
  let ?old = "replicate 64 3 @ replicate 6 (5 :: byte)"
  have new: "take 4 (drop 69 (pwrite ?old 70 [1, 2, 3])) = [5, 1, 2, 3]"
    by (simp add: pwrite_def)
  have "nblocks 73 - nblocks 70 = 0" by (simp add: nblocks_def)
  then have room: "nblocks (70 + length [1, 2, 3 :: byte]) - nblocks (length ?old) < free_count sample_env 68 sample"
    using sample_free by simp
  have "\<exists>s' s''. pk_write (osada_peer sample_env hol_list hol_list) sample_path [1, 2, 3]
        (length [1, 2, 3 :: byte]) (int 70) (in_step sample) = Some (int (length [1, 2, 3 :: byte]), (), in_step s')
     \<and> (let data = take 4 (drop 69 (pwrite ?old 70 [1, 2, 3])) in
        pk_read (osada_peer sample_env hol_list hol_list) sample_path 4 (int 69) (in_step s')
          = Some (int (length data), data, in_step s''))"
    by (rule pk_write_then_read [OF bitarray_sample sample_ok _ fuse_sample sample_lookup_nat sample_contents _ _ _ room])
      simp_all
  then show ?thesis unfolding new by (simp add: Let_def numeral_3_eq_3)
qed

end
