(* ===== verification/Osada_Rename.thy ===== *)
theory Osada_Rename
  imports Osada_Tree_Correct
begin

text \<open>
  rename: the search of the source (the loop of \<open>resolve_file\<close> for a file), the walk to the
  destination while the source stays locked for writing, and the update of the entry.
\<close>

section \<open>The source\<close>

lemma rename_from_file:
  "lookup_file (ftable s) pb ts = Inr (Some q) \<Longrightarrow>
     rename_from_loop pb np ts s = (Inr (Some q), add_calls (resolve_calls (ftable s) pb ts) s)"
proof (induction pb np ts s rule: rename_from_loop.induct)
  case (2 pb np t ts s)
  show ?case
  proof (cases "find_dir t pb pb (ftable s)")
    case None
    then show ?thesis
      using 2(2) by (cases ts; cases "find_node t pb pb (ftable s)")
        (simp_all add: search_dir_eq search_node_eq lock_calls_eq)
  next
    case (Some k)
    then show ?thesis using 2 by (simp add: search_dir_eq lock_calls_eq)
  qed
qed simp

section \<open>The destination\<close>

text \<open>The directories on the way, found past the source entry.\<close>

fun lookup_to :: "osada_file list \<Rightarrow> int \<Rightarrow> int \<Rightarrow> byte list list \<Rightarrow> int option" where
  "lookup_to ft from pb [] = Some pb"
| "lookup_to ft from pb (t # ts) =
     (case find_dir t pb from ft of None \<Rightarrow> None | Some k \<Rightarrow> lookup_to ft from (int k) ts)"

fun to_calls :: "osada_file list \<Rightarrow> int \<Rightarrow> int \<Rightarrow> byte list list \<Rightarrow> lock_event list" where
  "to_calls ft from pb [] = []"
| "to_calls ft from pb (t # ts) = dir_calls t pb LOCK_READ from ft @ unlock_calls pb @
     (case find_dir t pb from ft of None \<Rightarrow> [] | Some k \<Rightarrow> to_calls ft from (int k) ts)"

lemma rename_to_dirs:
  "lookup_to (ftable s) from pb ds = Some p \<Longrightarrow>
     rename_to_loop E from pb (ds @ ts) s
       = rename_to_loop E from p ts (add_calls (to_calls (ftable s) from pb ds) s)"
proof (induction ds arbitrary: pb s)
  case (Cons t ds)
  then obtain j where j: "find_dir t pb from (ftable s) = Some j" "lookup_to (ftable s) from (int j) ds = Some p"
    by (auto split: option.splits)
  then show ?case
    using Cons.IH [of "add_calls (dir_calls t pb LOCK_READ from (ftable s) @ unlock_calls pb) s" "int j"]
    by (simp add: search_dir_eq lock_calls_eq)
qed simp

text \<open>Two locks: the source for writing, and where the walk stands for reading.\<close>

definition two_locks :: "int \<Rightarrow> int \<Rightarrow> int \<Rightarrow> hold" where
  "two_locks from pb = (at_lock LOCK_READ pb)(from := Writer)"

lemma two_locks_other: "j \<noteq> pb \<Longrightarrow> j \<noteq> from \<Longrightarrow> two_locks from pb j = Free"
  by (simp add: two_locks_def at_lock_other)

lemma two_locks_root [simp]: "from \<noteq> ROOT \<Longrightarrow> two_locks from ROOT = at_lock LOCK_WRITE from"
  by (simp add: two_locks_def at_lock_def)

lemma replay_two_unlock:
  assumes "table_pos pb" and "from \<noteq> pb" and "from \<noteq> ROOT"
  shows "replay (unlock_calls pb) (two_locks from pb, m) = Some (at_lock LOCK_WRITE from, m)"
proof (cases "pb = ROOT")
  case True
  then show ?thesis using assms(3) by (simp add: unlock_calls_def)
next
  case False
  then have "replay [Rwlock UNLOCK pb] (two_locks from pb, m) = Some ((two_locks from pb)(pb := Free), m)"
    using assms by (intro replay_release [of LOCK_READ]) (auto simp: table_pos_def two_locks_def at_lock_def)
  moreover have "(two_locks from pb)(pb := Free) = at_lock LOCK_WRITE from"
    using False assms by (auto simp: two_locks_def at_lock_def)
  ultimately show ?thesis using False by (simp add: unlock_calls_def)
qed

lemma replay_two_step:
  assumes pb: "table_pos pb" and src: "from \<noteq> pb" "from \<noteq> ROOT" and k: "find_dir t pb from ft = Some k"
  shows "replay (dir_calls t pb LOCK_READ from ft @ unlock_calls pb) (two_locks from pb, m)
      = Some (two_locks from (int k), m)"
proof -
  have kk: "int k \<noteq> pb" "int k \<noteq> from" "int k \<noteq> ROOT"
    using find_dir_node [OF k] by (auto simp: find_node_Some FILE_BLOCKS_MOUNT_def ROOT_def)
  have dir: "replay (dir_calls t pb LOCK_READ from ft) (two_locks from pb, m)
      = Some ((two_locks from pb)(int k := Readers 1), m)"
    using replay_dir_calls [of LOCK_READ pb "from" "two_locks from pb" t ft m] k two_locks_other by simp
  show ?thesis
  proof (cases "pb = ROOT")
    case True
    then show ?thesis using dir kk src
      by (simp add: replay_append unlock_calls_def two_locks_def at_lock_def fun_upd_twist)
  next
    case False
    let ?h = "(two_locks from pb)(int k := Readers 1)"
    have "replay [Rwlock UNLOCK pb] (?h, m) = Some (?h(pb := Free), m)"
      using pb False src(1) kk(1)
      by (intro replay_release [of LOCK_READ]) (auto simp: table_pos_def two_locks_def at_lock_def)
    moreover have "?h(pb := Free) = two_locks from (int k)"
      using False src kk by (auto simp: two_locks_def at_lock_def fun_eq_iff)
    ultimately show ?thesis using dir False by (simp add: replay_append unlock_calls_def)
  qed
qed

lemma replay_to_calls:
  assumes "from \<noteq> ROOT"
  shows "lookup_to ft from pb ds = Some p \<Longrightarrow> table_pos pb \<Longrightarrow> from \<noteq> pb \<Longrightarrow>
     replay (to_calls ft from pb ds) (two_locks from pb, m) = Some (two_locks from p, m) \<and> table_pos p \<and> from \<noteq> p"
proof (induction ds arbitrary: pb)
  case (Cons t ds)
  then obtain j where j: "find_dir t pb from ft = Some j" "lookup_to ft from (int j) ds = Some p"
    by (auto split: option.splits)
  have pos: "table_pos (int j)" "from \<noteq> int j"
    using find_dir_node [OF j(1)] table_pos_found [OF find_dir_node [OF j(1)]] by (auto simp: find_node_Some)
  show ?case
    using replay_two_step [OF Cons.prems(2,3) assms j(1), of m] Cons.IH [OF j(2) pos] j(1)
    by (simp add: append_assoc [symmetric] replay_append del: append_assoc)
qed simp

section \<open>The whole request\<close>

lemma replay_chain: "replay a x = Some y \<Longrightarrow> replay (a @ b) x = replay b y"
  by (simp add: replay_append)

lemma replay_missing:
  assumes src: "from \<noteq> ROOT" and pb: "table_pos pb" "from \<noteq> pb" and none: "find_node t pb from ft = None"
  shows "replay (dir_calls t pb LOCK_READ from ft @ node_calls t pb LOCK_READ from ft @ unlock_calls pb)
      (two_locks from pb, m) = Some (at_lock LOCK_WRITE from, m)"
  using replay_dir_calls [of LOCK_READ pb "from" "two_locks from pb" t ft m] none two_locks_other
    find_dir_no_node [OF none] replay_node_calls [of LOCK_READ pb "from" "two_locks from pb" t ft m]
    replay_two_unlock [OF pb src]
  by (simp add: replay_append)

text \<open>
  C15: Renaming a file to a name that the destination directory does not have: the entry of the file
  gets the new name and parent (or the name is refused with OSADA_ENAMETOOLONG and nothing
  changes); no contents and no other entry change, the image stays consistent and every lock is
  released.
\<close>

theorem osada_rename_correct:
  assumes ok: "fs_ok E nbits n R s" and inp: "recv_rename inp = Received (from, to) rest"
    and found: "lookup_file (ftable s) ROOT (path_tokens from) = Inr (Some (int i))"
    and to: "path_tokens to = ds @ [name]" and dir: "lookup_to (ftable s) (int i) ROOT ds = Some p"
    and new: "find_node name p (int i) (ftable s) = None"
  shows "\<exists>s'. osada_rename E s inp = Some (resp_byte
         (if 17 < length name then OSADA_ENAMETOOLONG else OSADA_SEXE), s', rest)
     \<and> fs_ok E nbits n R s' \<and> releases_all s s' \<and> (\<forall>j. contents s' j = contents s j)
     \<and> ftable s' = (if 17 < length name then ftable s
          else (ftable s)[i := (ftable s ! i)\<lparr>parent_directory := word_of_int p,
                  fname := fname_after (fname (ftable s ! i)) name\<rparr>])"
proof -
  let ?c1 = "resolve_calls (ftable s) ROOT (path_tokens from)"
  let ?c2 = "to_calls (ftable s) (int i) ROOT ds"
  let ?c3 = "dir_calls name p LOCK_READ (int i) (ftable s) @ node_calls name p LOCK_READ (int i) (ftable s)
    @ unlock_calls p"
  let ?t = "?c1 @ ?c2 @ ?c3 @ [Rwlock UNLOCK (int i)]"
  let ?f = "(ftable s ! i)\<lparr>parent_directory := word_of_int p, fname := fname_after (fname (ftable s ! i)) name\<rparr>"
  let ?s2 = "if 17 < length name then s else write_entry i ?f s"
  note i = lookup_file_index [OF found]
  have ii: "lock_index_ok (int i)" "int i \<noteq> ROOT"
    using i by (simp_all add: lock_index_ok_def ROOT_def FILE_BLOCKS_MOUNT_def)
  have harmless: "harmless (ftable s ! i) ?f" by (rule harmless_rename)
  have nodir: "find_dir name p (int i) (ftable s) = None" by (rule find_dir_no_node [OF new])
  have r1: "replay ?c1 no_locks = Some (two_locks (int i) ROOT, False)"
    using replay_resolve [of ROOT "ftable s" "path_tokens from" False] found ii(2)
    by (simp add: no_locks_def)
  note r2 = replay_to_calls [OF ii(2) dir table_pos_ROOT ii(2), of False]
  have r3: "replay ?c3 (two_locks (int i) p, False) = Some (at_lock LOCK_WRITE (int i), False)"
    by (rule replay_missing [OF ii(2) _ _ new]) (simp_all add: r2)
  have r4: "replay [Rwlock UNLOCK (int i)] (at_lock LOCK_WRITE (int i), False) = Some no_locks"
    using replay_unlock_at [OF ii, of LOCK_WRITE False] by (simp add: no_locks_def)
  have t: "replay ?t no_locks = Some no_locks"
    unfolding replay_chain [OF r1] replay_chain [OF conjunct1 [OF r2]] replay_chain [OF r3] by (rule r4)
  have "rename_to_loop E (int i) ROOT (path_tokens to) (add_calls ?c1 s)
      = Some (resp_byte (if 17 < length name then OSADA_ENAMETOOLONG else OSADA_SEXE), add_calls ?t ?s2)"
    using dir new nodir
    by (simp add: to rename_to_dirs search_dir_eq search_node_eq lock_calls_eq rename_entry_def
        write_entry_add_calls Let_def)
  then have "osada_rename E s inp = Some (resp_byte
      (if 17 < length name then OSADA_ENAMETOOLONG else OSADA_SEXE), add_calls ?t ?s2, rest)"
    using inp rename_from_file [OF found, of None] by (simp add: osada_rename_def on_request_Received)
  moreover have "releases_all s (add_calls ?t ?s2)" using t by (auto simp: releases_all_def)
  moreover have "fs_ok E nbits n R ?s2" using fs_ok_write_entry [OF ok harmless] ok by simp
  moreover have "contents ?s2 j = contents s j" for j
    using contents_write_entry [OF ok harmless, of j] i(2) by simp
  ultimately show ?thesis by (intro exI [of _ "add_calls ?t ?s2"]) simp
qed

lemma osada_rename_correct_witness:
  "\<exists>s'. osada_rename sample_env sample (le32 4 @ sample_path @ le32 2 @ root_path)
      = Some (resp_byte OSADA_SEXE, s', [])
     \<and> contents s' 1 = Some (replicate 64 3 @ replicate 6 5)"
proof -
  have inp: "recv_rename (le32 4 @ sample_path @ le32 2 @ root_path) = Received (sample_path, root_path) []"
    using recv_rename_message [OF sample_path_ok(1-3), of root_path "[]"] sample_path_ok(4)
    by (simp add: root_path_def)
  have dir: "lookup_to (ftable sample) (int 1) ROOT [] = Some ROOT" by simp
  have new: "find_node [110] ROOT (int 1) (ftable sample) = None"
    by (simp add: find_node_sample sample_matches)
  show ?thesis
    using osada_rename_correct [OF sample_ok inp sample_lookup_nat root_tokens dir new] sample_contents by auto
qed

text \<open>
  Renaming onto a path of existing directories sends no answer at all and keeps two locks: the
  source for writing and the destination for reading.
\<close>

theorem osada_rename_silent:
  assumes inp: "recv_rename inp = Received (from, to) rest"
    and found: "lookup_file (ftable s) ROOT (path_tokens from) = Inr (Some (int i))"
    and dir: "lookup_to (ftable s) (int i) ROOT (path_tokens to) = Some p"
  shows "\<exists>t. osada_rename E s inp = Some ([], add_calls t s, rest)
     \<and> replay t no_locks = Some (two_locks (int i) p, False)"
proof -
  let ?c1 = "resolve_calls (ftable s) ROOT (path_tokens from)"
  let ?c2 = "to_calls (ftable s) (int i) ROOT (path_tokens to)"
  note i = lookup_file_index [OF found]
  have ii: "int i \<noteq> ROOT" using i by (simp add: ROOT_def FILE_BLOCKS_MOUNT_def)
  have "replay ?c1 no_locks = Some (two_locks (int i) ROOT, False)"
    using replay_resolve [of ROOT "ftable s" "path_tokens from" False] found ii
    by (simp add: no_locks_def)
  moreover have "replay ?c2 (two_locks (int i) ROOT, False) = Some (two_locks (int i) p, False)"
    using replay_to_calls [OF ii dir table_pos_ROOT ii, of False] by simp
  ultimately have "replay (?c1 @ ?c2) no_locks = Some (two_locks (int i) p, False)" by (simp add: replay_append)
  moreover have "rename_to_loop E (int i) ROOT (path_tokens to @ []) (add_calls ?c1 s)
      = Some ([], add_calls (?c1 @ ?c2) s)"
    using dir by (subst rename_to_dirs) simp_all
  then have "osada_rename E s inp = Some ([], add_calls (?c1 @ ?c2) s, rest)"
    using inp rename_from_file [OF found, of None] by (simp add: osada_rename_def on_request_Received)
  ultimately show ?thesis by blast
qed

lemma osada_rename_silent_witness:
  "\<exists>t. osada_rename sample_env sample (le32 4 @ sample_path @ le32 2 @ [47, 100]) = Some ([], add_calls t sample, [])
     \<and> replay t no_locks = Some (two_locks 1 0, False)"
proof -
  have inp: "recv_rename (le32 4 @ sample_path @ le32 2 @ [47, 100]) = Received (sample_path, [47, 100]) []"
    using recv_rename_message [OF sample_path_ok(1-3), of "[47, 100]" "[]"] sample_path_ok(4) by simp
  have tok: "path_tokens [47, 100] = [[100]]" by (simp add: path_tokens_def strtok_def slash_def)
  have dir: "lookup_to (ftable sample) (int 1) ROOT (path_tokens [47, 100]) = Some 0"
    by (simp add: tok sample_find_dir)
  show ?thesis using osada_rename_silent [OF inp sample_lookup_nat dir] by simp
qed

end
