(* ===== verification/Mapa_State.thy ===== *)
theory Mapa_State
  imports Commons
begin

text \<open>
  The data of the map server (\<^verbatim>\<open>mapas/nivel-test.h\<close>) and what its functions share: the structures
  behind pointers, the queues of trainers, the sockets, the calls to the threads library and to the
  drawing library, the string comparison of \<^verbatim>\<open>bibliotecaCharMander.c\<close> and the paths.

  A \<^verbatim>\<open>t_list\<close> is a value of the list library (parameter \<open>L\<close>, theory \<open>Commons\<close>) whose elements are
  addresses. Reading through an address that is not allocated, reading a variable that was not
  set, and \<^verbatim>\<open>exit(1)\<close> give \<open>None\<close>.
\<close>

type_synonym ptr = nat

record t_infoPokemon =
  pk_nombre :: "byte list"
  id_pokenest :: byte
  species :: "byte list"      \<comment> \<open>of the \<^verbatim>\<open>t_pokemon\<close> it points to\<close>
  level :: int

record 'l PokeNest =
  nest_id :: byte
  nest_posx :: byte
  nest_posy :: byte
  cantidad :: byte            \<comment> \<open>a (signed) \<^verbatim>\<open>char\<close>\<close>
  listaPokemons :: 'l

record 'l t_entrenador =
  ent_nombre :: "byte list"
  posx :: int
  posy :: int
  ent_id :: int               \<comment> \<open>its socket\<close>
  simbolo :: byte
  pokenest_buscada :: byte    \<comment> \<open>0: NULL\<close>
  cantDeadlocks :: int
  ultimo_pokemon :: int
  pokemons :: 'l

text \<open>Calls whose order matters outside this process: locks, messages, the drawing, the fd set.\<close>

datatype mutex = Cola_listos | Cola_bloqueados | Turno_desbloqueo | Lista_entrenador
  | Lista_pokenest | Deadlock_ejecutando

datatype map_call = Mutex_lock mutex | Mutex_unlock mutex | Sem_post_dibujo
  | Send_to int "byte list" | Fd_set int | Fd_clr int
  | CrearPersonaje byte int int | MoverPersonaje byte int int | BorrarItem byte
  | RestarRecurso byte | SumarRecurso byte | CrearCaja byte byte byte byte

record 'l mapa =
  entrenadores :: 'l
  colaListos :: 'l
  colaBloqueados :: 'l
  listaPokenests :: 'l
  ents :: "ptr \<Rightarrow> 'l t_entrenador option"
  nests :: "ptr \<Rightarrow> 'l PokeNest option"
  infos :: "ptr \<Rightarrow> t_infoPokemon option"
  next_ptr :: ptr                      \<comment> \<open>the address the next \<^verbatim>\<open>malloc\<close> of a trainer returns\<close>
  streams :: "int \<Rightarrow> byte list"        \<comment> \<open>what each socket still has to deliver\<close>
  calls :: "map_call list"
  set_fd_max :: int
  algoritmo :: "byte list"
  quantum :: int
  batalla :: int
  ruta_mapa :: "byte list"
  nombre_mapa :: "byte list"

definition emit :: "map_call list \<Rightarrow> 'l mapa \<Rightarrow> 'l mapa" where
  "emit cs s = s\<lparr>calls := calls s @ cs\<rparr>"

definition upd_ent :: "ptr \<Rightarrow> ('l t_entrenador \<Rightarrow> 'l t_entrenador) \<Rightarrow> 'l mapa \<Rightarrow> 'l mapa" where
  "upd_ent p f s = s\<lparr>ents := (ents s)(p := map_option f (ents s p))\<rparr>"

definition upd_nest :: "ptr \<Rightarrow> ('l PokeNest \<Rightarrow> 'l PokeNest) \<Rightarrow> 'l mapa \<Rightarrow> 'l mapa" where
  "upd_nest p f s = s\<lparr>nests := (nests s)(p := map_option f (nests s p))\<rparr>"

section \<open>Strings\<close>

definition ascii :: "string \<Rightarrow> byte list" where
  "ascii cs = map (\<lambda>c. of_nat (of_char c)) cs"

text \<open>The sign of \<^verbatim>\<open>strcmp\<close>: bytes compared as unsigned, a prefix first.\<close>

fun strcmp :: "byte list \<Rightarrow> byte list \<Rightarrow> int" where
  "strcmp [] [] = 0"
| "strcmp [] (b # bs) = -1"
| "strcmp (a # as) [] = 1"
| "strcmp (a # as) (b # bs) = (if a = b then strcmp as bs else if a < b then -1 else 1)"

text \<open>
  \<^verbatim>\<open>comparar_strings\<close>: the loop over two strings of the same length compares \<^verbatim>\<open>char\<close>s, which are
  signed; on equal strings it falls off the end without a value (\<open>None\<close>).
\<close>

fun comparar_loop :: "byte list \<Rightarrow> byte list \<Rightarrow> int option" where
  "comparar_loop (a # as) (b # bs) =
     (if a = b then comparar_loop as bs else if sint a < sint b then Some 1 else Some 0)"
| "comparar_loop _ _ = None"

definition comparar_strings :: "byte list \<Rightarrow> byte list \<Rightarrow> int option" where
  "comparar_strings string1 string2 =
     (if length string1 \<noteq> length string2 then Some (strcmp string1 string2)
      else comparar_loop string1 string2)"

section \<open>Paths\<close>

definition getRutaMapa :: "byte list \<Rightarrow> byte list" where
  "getRutaMapa nombreMapa = ascii ''Mapas/'' @ nombreMapa"

definition getRutaPokenests :: "'l mapa \<Rightarrow> byte list" where
  "getRutaPokenests s = ruta_mapa s @ ascii ''/PokeNests''"

definition getRutaPokemon :: "byte list \<Rightarrow> byte list \<Rightarrow> byte list" where
  "getRutaPokemon rutaPokenests pokemon = rutaPokenests @ ascii ''/'' @ pokemon"

section \<open>Operation codes and results\<close>

definition OC_MENSAJE :: byte where "OC_MENSAJE = 0"
definition OC_UBICAR_POKENEST :: byte where "OC_UBICAR_POKENEST = 1"
definition OC_UBICAR_ENTRENADOR :: byte where "OC_UBICAR_ENTRENADOR = 2"
definition OC_AVANZAR_POSICION :: byte where "OC_AVANZAR_POSICION = 3"
definition OC_ATRAPAR_POKEMON :: byte where "OC_ATRAPAR_POKEMON = 4"
definition OC_UBICACION_POKENEST :: byte where "OC_UBICACION_POKENEST = 5"
definition OC_UBICACION_ENTRENADOR :: byte where "OC_UBICACION_ENTRENADOR = 6"
definition OC_OBTENER_MEDALLA :: byte where "OC_OBTENER_MEDALLA = 7"
definition OC_MEDALLA :: byte where "OC_MEDALLA = 8"
definition OC_VICTIMA_DEADLOCK :: byte where "OC_VICTIMA_DEADLOCK = 10"
definition OC_ATRAPAR_ULTIMO_POKEMON :: byte where "OC_ATRAPAR_ULTIMO_POKEMON = 11"
definition OC_OBTENER_CANTIDAD_DEADLOCK :: byte where "OC_OBTENER_CANTIDAD_DEADLOCK = 12"
definition OC_CANTIDAD_DEADLOCK :: byte where "OC_CANTIDAD_DEADLOCK = 13"
definition OC_POKEMON :: byte where "OC_POKEMON = 14"
definition OC_PERDIO_BATALLA :: byte where "OC_PERDIO_BATALLA = 15"
definition OC_GANO_BATALLA :: byte where "OC_GANO_BATALLA = 16"
definition OC_POKEMON_BATALLA :: byte where "OC_POKEMON_BATALLA = 17"

lemmas OC_defs = OC_MENSAJE_def OC_UBICAR_POKENEST_def OC_UBICAR_ENTRENADOR_def OC_AVANZAR_POSICION_def
  OC_ATRAPAR_POKEMON_def OC_UBICACION_POKENEST_def OC_UBICACION_ENTRENADOR_def OC_OBTENER_MEDALLA_def
  OC_MEDALLA_def OC_VICTIMA_DEADLOCK_def OC_ATRAPAR_ULTIMO_POKEMON_def OC_OBTENER_CANTIDAD_DEADLOCK_def
  OC_CANTIDAD_DEADLOCK_def OC_POKEMON_def OC_PERDIO_BATALLA_def OC_GANO_BATALLA_def OC_POKEMON_BATALLA_def

definition MOVE_UP :: byte where "MOVE_UP = 72"
definition MOVE_RIGHT :: byte where "MOVE_RIGHT = 77"
definition MOVE_DOWN :: byte where "MOVE_DOWN = 80"
definition MOVE_LEFT :: byte where "MOVE_LEFT = 75"

lemmas MOVE_defs = MOVE_UP_def MOVE_RIGHT_def MOVE_DOWN_def MOVE_LEFT_def

definition TURNO_NORMAL :: int where "TURNO_NORMAL = 1"
definition DESCONEXION :: int where "DESCONEXION = -1"
definition CAPTURO_POKEMON :: int where "CAPTURO_POKEMON = 2"
definition NO_ENCONTRO_POKEMON :: int where "NO_ENCONTRO_POKEMON = -2"

lemmas respuesta_defs = TURNO_NORMAL_def DESCONEXION_def CAPTURO_POKEMON_def NO_ENCONTRO_POKEMON_def

section \<open>Receiving\<close>

text \<open>
  \<^verbatim>\<open>recv(fd, buf, n, 0)\<close>: what the socket has, up to \<open>n\<close> bytes; no bytes mean that the peer is gone
  (or that \<open>n\<close> is 0).
\<close>

definition recv_fd :: "int \<Rightarrow> nat \<Rightarrow> 'l mapa \<Rightarrow> byte list \<times> 'l mapa" where
  "recv_fd fd n s = (take n (streams s fd), s\<lparr>streams := (streams s)(fd := drop n (streams s fd))\<rparr>)"

text \<open>
  \<^verbatim>\<open>connection_recv\<close> of the map: what it returns, and the operation code and the message, each
  \<open>None\<close> when the caller's variable is left as it was. A message read as a string ends with a NUL
  at \<^verbatim>\<open>message_size\<close>, behind all its bytes when all of them came.
\<close>

definition con_coordenadas :: "byte \<Rightarrow> bool" where
  "con_coordenadas oc \<longleftrightarrow> oc \<in> {OC_UBICACION_POKENEST, OC_UBICACION_ENTRENADOR}"

definition con_texto :: "byte \<Rightarrow> bool" where
  "con_texto oc \<longleftrightarrow> oc \<in> {OC_UBICAR_POKENEST, OC_UBICAR_ENTRENADOR, OC_AVANZAR_POSICION,
     OC_CANTIDAD_DEADLOCK, OC_ATRAPAR_POKEMON, OC_OBTENER_MEDALLA, OC_MEDALLA, OC_POKEMON, OC_MENSAJE}"

definition connection_recv :: "int \<Rightarrow> 'l mapa \<Rightarrow> (int \<times> byte option \<times> byte list option) \<times> 'l mapa" where
  "connection_recv fd s =
     (let (op, s) = recv_fd fd 1 s in
      if op = [] then ((0, None, None), s)
      else let operation_code = hd op; (sz, s) = recv_fd fd 1 s in
        if sz = [] then ((0, Some operation_code, None), s)
        else let message_size = unat (hd sz) in
          if con_coordenadas operation_code then
            let (coor, s) = recv_fd fd message_size s in
            if coor = [] then ((0, Some operation_code, None), s)
            else ((2 + int (length coor), Some operation_code, Some coor), s)
          else if con_texto operation_code then
            if message_size = 0 then ((3, Some operation_code, Some [0]), s)
            else let (buffer, s) = recv_fd fd message_size s in
              if buffer = [] then ((0, Some operation_code, None), s)
              else ((2 + int (length buffer), Some operation_code,
                  Some (if length buffer = message_size then buffer @ [0] else buffer)), s)
          else ((3, Some operation_code, None), s))"

text \<open>The first byte of a message, and a message as a string; \<open>None\<close> past what was written.\<close>

definition msg_char :: "byte list option \<Rightarrow> byte option" where
  "msg_char m = (case m of Some (b # bs) \<Rightarrow> Some b | _ \<Rightarrow> None)"

definition msg_string :: "byte list option \<Rightarrow> byte list option" where
  "msg_string m = (case m of None \<Rightarrow> None | Some bs \<Rightarrow> if 0 \<in> set bs then Some (cstr bs) else None)"

end
