(* ===== verification/Mapa_Solicitudes.thy ===== *)
theory Mapa_Solicitudes
  imports Mapa_State
begin

text \<open>
  \<^verbatim>\<open>mapas/solicitudes.c\<close>: the requests of a trainer and the answers of the map.
\<close>

section \<open>Searching\<close>

definition buscarPokenest :: "('l, ptr) t_list_more \<Rightarrow> byte \<Rightarrow> 'l mapa \<Rightarrow> ptr option option" where
  "buscarPokenest L buscado s =
     list_find L (listaPokenests s) (\<lambda>p. map_option (\<lambda>pokenest. nest_id pokenest = buscado) (nests s p))"

definition pokemon_de_menor_nombre :: "'l mapa \<Rightarrow> ptr \<Rightarrow> ptr \<Rightarrow> bool option" where
  "pokemon_de_menor_nombre s p q = do {
     i \<leftarrow> infos s p;
     j \<leftarrow> infos s q;
     v \<leftarrow> comparar_strings (pk_nombre i) (pk_nombre j);
     Some (v \<noteq> 0)
   }"

text \<open>\<^verbatim>\<open>buscarPrimerPokemon\<close> sorts the list it is given in place and takes the first element out.\<close>

definition buscarPrimerPokemon :: "('l, ptr) t_list_more \<Rightarrow> 'l \<Rightarrow> 'l mapa \<Rightarrow> (ptr option \<times> 'l) option" where
  "buscarPrimerPokemon L listaDePokemons s = do {
     l \<leftarrow> list_sort L listaDePokemons (pokemon_de_menor_nombre s);
     Some (list_remove L l 0)
   }"

section \<open>Messages\<close>

text \<open>The length is sent in one byte; as many bytes of the path follow.\<close>

definition packet :: "byte \<Rightarrow> byte list \<Rightarrow> byte list" where
  "packet oc m = (let tamanio = of_nat (length m) :: byte in [oc, tamanio] @ take (unat tamanio) m)"

definition notificar_captura_pokemon :: "ptr \<Rightarrow> ptr \<Rightarrow> 'l mapa \<Rightarrow> 'l mapa option" where
  "notificar_captura_pokemon infopokemon entrenador s = do {
     i \<leftarrow> infos s infopokemon;
     e \<leftarrow> ents s entrenador;
     let rutaPokemon = getRutaPokemon (getRutaPokenests s) (species i) @ ascii ''/'' @ pk_nombre i;
     let s = emit [Send_to (ent_id e) (packet OC_POKEMON rutaPokemon)] s;
     Some (upd_ent entrenador (\<lambda>e. e\<lparr>pokenest_buscada := 0\<rparr>) s)
   }"

definition enviar_ruta_medalla :: "int \<Rightarrow> 'l mapa \<Rightarrow> 'l mapa" where
  "enviar_ruta_medalla socket s =
     (let ruta_medalla = getRutaMapa (nombre_mapa s) @ ascii ''/medalla-'' @ nombre_mapa s @ ascii ''.jpg''
      in emit [Send_to socket (packet OC_MEDALLA ruta_medalla)] s)"

text \<open>
  The handshake with a new trainer; the result is its symbol and its name. The size byte of the
  second message is the size of a pointer, \<open>sizeof_ptr\<close>, not of the two bytes that follow.
\<close>

definition handshake :: "byte \<Rightarrow> int \<Rightarrow> 'l mapa \<Rightarrow> ((byte \<times> byte list) \<times> 'l mapa) option" where
  "handshake sizeof_ptr socketCliente s =
     (let ((_, operation_code, m), s) = connection_recv socketCliente s in do {
      simbolo \<leftarrow> msg_char m;
      oc \<leftarrow> operation_code;
      if oc \<noteq> OC_UBICAR_ENTRENADOR then None
      else let s = emit [Send_to socketCliente [OC_UBICACION_ENTRENADOR, sizeof_ptr, 1, 1]] s;
               ((_, operation_code, buffer), s) = connection_recv socketCliente s
        in if operation_code \<noteq> Some OC_OBTENER_MEDALLA then None
           else let s = enviar_ruta_medalla socketCliente s;
                    ((_, _, m), s) = connection_recv socketCliente s
             in do {
               nombre \<leftarrow> msg_string m;
               if buffer = None then None else Some ((simbolo, nombre), s)
             }
     })"

section \<open>atenderSolicitud\<close>

definition ubicar_pokenest :: "('l, ptr) t_list_more \<Rightarrow> ptr \<Rightarrow> byte list option \<Rightarrow> 'l mapa \<Rightarrow> (int \<times> 'l mapa) option" where
  "ubicar_pokenest L entrenador buffer s = do {
     pokenest_id \<leftarrow> msg_char buffer;
     found \<leftarrow> buscarPokenest L pokenest_id s;
     p \<leftarrow> found;
     pokenest \<leftarrow> nests s p;
     e \<leftarrow> ents s entrenador;
     let s = emit [Send_to (ent_id e) [OC_UBICACION_POKENEST, 2, nest_posx pokenest, nest_posy pokenest]] s;
     Some (TURNO_NORMAL, upd_ent entrenador (\<lambda>e. e\<lparr>pokenest_buscada := pokenest_id\<rparr>) s)
   }"

definition mover :: "byte \<Rightarrow> 'l t_entrenador \<Rightarrow> 'l t_entrenador" where
  "mover movimiento e =
     (if movimiento = MOVE_UP then e\<lparr>posy := posy e - 1\<rparr>
      else if movimiento = MOVE_DOWN then e\<lparr>posy := posy e + 1\<rparr>
      else if movimiento = MOVE_RIGHT then e\<lparr>posx := posx e + 1\<rparr>
      else if movimiento = MOVE_LEFT then e\<lparr>posx := posx e - 1\<rparr>
      else e)"

definition avanzar_posicion :: "ptr \<Rightarrow> byte list option \<Rightarrow> 'l mapa \<Rightarrow> (int \<times> 'l mapa) option" where
  "avanzar_posicion entrenador buffer s = do {
     movimiento \<leftarrow> msg_char buffer;
     e0 \<leftarrow> ents s entrenador;
     let e = mover movimiento e0;
     let s = upd_ent entrenador (mover movimiento) s;
     Some (TURNO_NORMAL,
       emit [Send_to (ent_id e) [OC_AVANZAR_POSICION, 2, word_of_int (posx e), word_of_int (posy e)],
             MoverPersonaje (simbolo e) (posx e) (posy e)] s)
   }"

text \<open>
  What \<^verbatim>\<open>OC_ATRAPAR_POKEMON\<close> and \<^verbatim>\<open>OC_ATRAPAR_ULTIMO_POKEMON\<close> have in common: the first pokemon of the
  nest goes to the trainer; the pokemon, or \<open>None\<close> when the nest is empty.
\<close>

definition capturar :: "('l, ptr) t_list_more \<Rightarrow> ptr \<Rightarrow> ptr \<Rightarrow> ptr \<Rightarrow> 'l mapa \<Rightarrow> 'l mapa option" where
  "capturar L entrenador pokenest infopokemon s = do {
     e \<leftarrow> ents s entrenador;
     let s = upd_ent entrenador (\<lambda>e. e\<lparr>pokemons := list_add L (pokemons e) infopokemon\<rparr>) s;
     let s = emit [Mutex_lock Lista_pokenest] s;
     let s = upd_nest pokenest (\<lambda>n. n\<lparr>cantidad := cantidad n - 1\<rparr>) s;
     let s = emit [Mutex_unlock Lista_pokenest] s;
     s \<leftarrow> notificar_captura_pokemon infopokemon entrenador s;
     i \<leftarrow> infos s infopokemon;
     Some (emit [RestarRecurso (id_pokenest i)] s)
   }"

definition tomar_pokemon :: "('l, ptr) t_list_more \<Rightarrow> ptr \<Rightarrow> byte list option \<Rightarrow> 'l mapa \<Rightarrow> (ptr option \<times> 'l mapa) option" where
  "tomar_pokemon L entrenador buffer s = do {
     pokenest_id \<leftarrow> msg_char buffer;
     found \<leftarrow> buscarPokenest L pokenest_id s;
     p \<leftarrow> found;
     pokenest \<leftarrow> nests s p;
     (primero, lista) \<leftarrow> buscarPrimerPokemon L (listaPokemons pokenest) s;
     let s = upd_nest p (\<lambda>n. n\<lparr>listaPokemons := lista\<rparr>) s;
     case primero of
       None \<Rightarrow> Some (None, s)
     | Some infopokemon \<Rightarrow> map_option (Pair (Some infopokemon)) (capturar L entrenador p infopokemon s)
   }"

definition atrapar_pokemon :: "('l, ptr) t_list_more \<Rightarrow> ptr \<Rightarrow> byte list option \<Rightarrow> 'l mapa \<Rightarrow> (int \<times> 'l mapa) option" where
  "atrapar_pokemon L entrenador buffer s = do {
     (infopokemon, s) \<leftarrow> tomar_pokemon L entrenador buffer s;
     Some (if infopokemon = None then (NO_ENCONTRO_POKEMON, s) else (CAPTURO_POKEMON, s))
   }"

definition atrapar_ultimo_pokemon :: "('l, ptr) t_list_more \<Rightarrow> ptr \<Rightarrow> byte list option \<Rightarrow> 'l mapa \<Rightarrow> (int \<times> 'l mapa) option" where
  "atrapar_ultimo_pokemon L entrenador buffer s = do {
     (infopokemon, s) \<leftarrow> tomar_pokemon L entrenador buffer s;
     e \<leftarrow> ents s entrenador;
     if infopokemon = None
     then Some (NO_ENCONTRO_POKEMON, upd_ent entrenador (\<lambda>e. e\<lparr>ultimo_pokemon := 1\<rparr>) s)
     else let ((_, operation_code, _), s) = connection_recv (ent_id e) s in
       if operation_code \<noteq> Some OC_OBTENER_CANTIDAD_DEADLOCK then None else Some (DESCONEXION, s)
   }"

text \<open>
  In the default case the buffer is freed, which is undefined when \<^verbatim>\<open>connection_recv\<close> did not set it.
\<close>

definition responder :: "('l, ptr) t_list_more \<Rightarrow> ptr \<Rightarrow> byte \<Rightarrow> byte list option \<Rightarrow> 'l mapa \<Rightarrow> (int \<times> 'l mapa) option" where
  "responder L entrenador oc buffer s =
     (if oc = OC_UBICAR_POKENEST then ubicar_pokenest L entrenador buffer s
      else if oc = OC_AVANZAR_POSICION then avanzar_posicion entrenador buffer s
      else if oc = OC_ATRAPAR_POKEMON then atrapar_pokemon L entrenador buffer s
      else if oc = OC_ATRAPAR_ULTIMO_POKEMON then atrapar_ultimo_pokemon L entrenador buffer s
      else if buffer = None then None
      else Some (TURNO_NORMAL, s))"

definition atenderSolicitud :: "('l, ptr) t_list_more \<Rightarrow> ptr \<Rightarrow> 'l mapa \<Rightarrow> (int \<times> 'l mapa) option" where
  "atenderSolicitud L entrenador s = do {
     e \<leftarrow> ents s entrenador;
     let ((recibido, operation_code, buffer), s) = connection_recv (ent_id e) s;
     if recibido = 0 then Some (DESCONEXION, s)
     else do {
       oc \<leftarrow> operation_code;
       responder L entrenador oc buffer s
     }
   }"

end
