(* ===== verification/Mapa_Invariant.thy ===== *)
theory Mapa_Invariant
  imports Mapa_Solicitudes
begin

text \<open>
  Who has which pokemon. \<open>total\<close> counts every pokemon over the nests and the trainers; \<open>mapa_ok\<close>
  says that no pokemon has two owners, that each nest counts its own and that the pokemons that
  are out have a nest to go back to.
\<close>

definition ent_mset :: "('l \<Rightarrow> ptr list) \<Rightarrow> 'l mapa \<Rightarrow> ptr \<Rightarrow> ptr multiset" where
  "ent_mset elems s p = (case ents s p of None \<Rightarrow> {#} | Some e \<Rightarrow> mset (elems (pokemons e)))"

definition nest_mset :: "('l \<Rightarrow> ptr list) \<Rightarrow> 'l mapa \<Rightarrow> ptr \<Rightarrow> ptr multiset" where
  "nest_mset elems s p = (case nests s p of None \<Rightarrow> {#} | Some n \<Rightarrow> mset (elems (listaPokemons n)))"

definition ents_total :: "('l \<Rightarrow> ptr list) \<Rightarrow> 'l mapa \<Rightarrow> ptr multiset" where
  "ents_total elems s = (\<Sum>p \<in> dom (ents s). ent_mset elems s p)"

definition nests_total :: "('l \<Rightarrow> ptr list) \<Rightarrow> 'l mapa \<Rightarrow> ptr multiset" where
  "nests_total elems s = (\<Sum>p \<in> dom (nests s). nest_mset elems s p)"

definition total :: "('l \<Rightarrow> ptr list) \<Rightarrow> 'l mapa \<Rightarrow> ptr multiset" where
  "total elems s = ents_total elems s + nests_total elems s"

definition nest_ok :: "('l \<Rightarrow> ptr list) \<Rightarrow> 'l mapa \<Rightarrow> 'l PokeNest \<Rightarrow> bool" where
  "nest_ok elems s n \<longleftrightarrow> cantidad n = of_nat (length (elems (listaPokemons n)))
     \<and> (\<forall>i \<in> set (elems (listaPokemons n)). \<exists>x. infos s i = Some x \<and> id_pokenest x = nest_id n)"

definition ent_ok :: "('l \<Rightarrow> ptr list) \<Rightarrow> 'l mapa \<Rightarrow> 'l t_entrenador \<Rightarrow> bool" where
  "ent_ok elems s e \<longleftrightarrow> ultimo_pokemon e = 0 \<and> set (elems (pokemons e)) \<subseteq> dom (infos s)"

text \<open>What never changes: the pokemons, their nests and the nests' identifiers.\<close>

definition fixed_ok :: "('l \<Rightarrow> ptr list) \<Rightarrow> 'l mapa \<Rightarrow> bool" where
  "fixed_ok elems s \<longleftrightarrow> set (elems (listaPokenests s)) \<subseteq> dom (nests s)
     \<and> (\<forall>i x. infos s i = Some x \<longrightarrow>
         (\<exists>p n. p \<in> set (elems (listaPokenests s)) \<and> nests s p = Some n \<and> nest_id n = id_pokenest x))
     \<and> (\<forall>i j x y. infos s i = Some x \<longrightarrow> infos s j = Some y \<longrightarrow> i \<noteq> j \<longrightarrow>
         id_pokenest x = id_pokenest y \<longrightarrow> pk_nombre x \<noteq> pk_nombre y)"

definition mapa_ok :: "('l \<Rightarrow> ptr list) \<Rightarrow> 'l mapa \<Rightarrow> bool" where
  "mapa_ok elems s \<longleftrightarrow> finite (dom (ents s)) \<and> finite (dom (nests s)) \<and> fixed_ok elems s
     \<and> (\<forall>p n. nests s p = Some n \<longrightarrow> nest_ok elems s n)
     \<and> (\<forall>p e. ents s p = Some e \<longrightarrow> ent_ok elems s e)
     \<and> (\<forall>i. count (total elems s) i \<le> 1)"

section \<open>Updates\<close>

lemma ents_upd [simp]:
  "ents (upd_ent p f s) = (ents s)(p := map_option f (ents s p))"
  "nests (upd_ent p f s) = nests s" "infos (upd_ent p f s) = infos s"
  "listaPokenests (upd_ent p f s) = listaPokenests s" "colaListos (upd_ent p f s) = colaListos s"
  "colaBloqueados (upd_ent p f s) = colaBloqueados s" "streams (upd_ent p f s) = streams s"
  "calls (upd_ent p f s) = calls s" "entrenadores (upd_ent p f s) = entrenadores s"
  "next_ptr (upd_ent p f s) = next_ptr s" "quantum (upd_ent p f s) = quantum s" "algoritmo (upd_ent p f s) = algoritmo s" "batalla (upd_ent p f s) = batalla s"
  "ruta_mapa (upd_ent p f s) = ruta_mapa s" "nombre_mapa (upd_ent p f s) = nombre_mapa s"
  by (simp_all add: upd_ent_def)

lemma nests_upd [simp]:
  "nests (upd_nest p f s) = (nests s)(p := map_option f (nests s p))"
  "ents (upd_nest p f s) = ents s" "infos (upd_nest p f s) = infos s"
  "listaPokenests (upd_nest p f s) = listaPokenests s" "colaListos (upd_nest p f s) = colaListos s"
  "colaBloqueados (upd_nest p f s) = colaBloqueados s" "streams (upd_nest p f s) = streams s"
  "calls (upd_nest p f s) = calls s" "entrenadores (upd_nest p f s) = entrenadores s"
  "next_ptr (upd_nest p f s) = next_ptr s" "quantum (upd_nest p f s) = quantum s" "algoritmo (upd_nest p f s) = algoritmo s" "batalla (upd_nest p f s) = batalla s"
  "ruta_mapa (upd_nest p f s) = ruta_mapa s" "nombre_mapa (upd_nest p f s) = nombre_mapa s"
  by (simp_all add: upd_nest_def)

lemma emit_fields [simp]:
  "ents (emit cs s) = ents s" "nests (emit cs s) = nests s" "infos (emit cs s) = infos s"
  "listaPokenests (emit cs s) = listaPokenests s" "colaListos (emit cs s) = colaListos s"
  "colaBloqueados (emit cs s) = colaBloqueados s" "streams (emit cs s) = streams s"
  "calls (emit cs s) = calls s @ cs" "entrenadores (emit cs s) = entrenadores s"
  "next_ptr (emit cs s) = next_ptr s" "quantum (emit cs s) = quantum s" "algoritmo (emit cs s) = algoritmo s" "batalla (emit cs s) = batalla s"
  "ruta_mapa (emit cs s) = ruta_mapa s" "nombre_mapa (emit cs s) = nombre_mapa s"
  by (simp_all add: emit_def)

lemma ents_total_upd:
  assumes "finite (dom (ents s))" and "ents s p = Some e"
  shows "ents_total elems (upd_ent p f s) + mset (elems (pokemons e))
    = ents_total elems s + mset (elems (pokemons (f e)))"
proof -
  let ?s = "upd_ent p f s"
  have d: "dom (ents ?s) = dom (ents s)" "p \<in> dom (ents s)" using assms(2) by (auto split: if_splits)
  have "(\<Sum>q \<in> dom (ents s) - {p}. ent_mset elems ?s q) = (\<Sum>q \<in> dom (ents s) - {p}. ent_mset elems s q)"
    by (rule sum.cong) (simp_all add: ent_mset_def)
  then show ?thesis
    unfolding ents_total_def d(1)
    using sum.remove [OF assms(1) d(2), of "ent_mset elems ?s"] sum.remove [OF assms(1) d(2), of "ent_mset elems s"]
      assms(2) by (simp add: ent_mset_def ac_simps)
qed

lemma nests_total_upd:
  assumes "finite (dom (nests s))" and "nests s p = Some n"
  shows "nests_total elems (upd_nest p f s) + mset (elems (listaPokemons n))
    = nests_total elems s + mset (elems (listaPokemons (f n)))"
proof -
  let ?s = "upd_nest p f s"
  have d: "dom (nests ?s) = dom (nests s)" "p \<in> dom (nests s)" using assms(2) by (auto split: if_splits)
  have "(\<Sum>q \<in> dom (nests s) - {p}. nest_mset elems ?s q) = (\<Sum>q \<in> dom (nests s) - {p}. nest_mset elems s q)"
    by (rule sum.cong) (simp_all add: nest_mset_def)
  then show ?thesis
    unfolding nests_total_def d(1)
    using sum.remove [OF assms(1) d(2), of "nest_mset elems ?s"] sum.remove [OF assms(1) d(2), of "nest_mset elems s"]
      assms(2) by (simp add: nest_mset_def ac_simps)
qed

lemma total_cong:
  "ents s' = ents s \<Longrightarrow> nests s' = nests s \<Longrightarrow> total elems s' = total elems s"
  by (simp add: total_def ents_total_def nests_total_def ent_mset_def nest_mset_def)

lemma mapa_ok_cong:
  assumes "ents s' = ents s" "nests s' = nests s" "infos s' = infos s" "listaPokenests s' = listaPokenests s"
  shows "mapa_ok elems s' = mapa_ok elems s"
  unfolding mapa_ok_def nest_ok_def ent_ok_def fixed_ok_def assms total_cong [OF assms(1,2)] by (rule refl)

text \<open>The step every operation makes: the invariant and the pokemons stay.\<close>

definition keeps :: "('l \<Rightarrow> ptr list) \<Rightarrow> 'l mapa \<Rightarrow> 'l mapa \<Rightarrow> bool" where
  "keeps elems s s' \<longleftrightarrow> (mapa_ok elems s \<longrightarrow> mapa_ok elems s' \<and> total elems s' = total elems s)
     \<and> infos s' = infos s \<and> listaPokenests s' = listaPokenests s"

lemma keeps_refl [simp]: "keeps elems s s"
  by (simp add: keeps_def)

lemma keeps_trans [trans]: "keeps elems s s' \<Longrightarrow> keeps elems s' s'' \<Longrightarrow> keeps elems s s''"
  by (simp add: keeps_def)

lemma keeps_cong:
  "ents s' = ents s \<Longrightarrow> nests s' = nests s \<Longrightarrow> infos s' = infos s \<Longrightarrow> listaPokenests s' = listaPokenests s \<Longrightarrow>
     keeps elems s s'"
  using mapa_ok_cong [of s' s elems] total_cong [of s' s elems] by (simp add: keeps_def)

lemma keeps_emit [simp]: "keeps elems s (emit cs s)"
  by (rule keeps_cong) simp_all

lemma fixed_ok_step:
  assumes "fixed_ok elems s" and "infos s' = infos s" and "listaPokenests s' = listaPokenests s"
    and nest: "\<And>p. map_option nest_id (nests s' p) = map_option nest_id (nests s p)"
  shows "fixed_ok elems s'"
proof -
  have 1: "p \<in> dom (nests s') \<longleftrightarrow> p \<in> dom (nests s)" for p
    using nest [of p] by (cases "nests s p"; cases "nests s' p") auto
  have 2: "(\<exists>n. nests s' p = Some n \<and> nest_id n = c) \<longleftrightarrow> (\<exists>n. nests s p = Some n \<and> nest_id n = c)" for p c
    using nest [of p] by (cases "nests s p"; cases "nests s' p") auto
  show ?thesis
    using assms(1) 1 2 unfolding fixed_ok_def assms(2,3) by (simp add: subset_iff)
qed

lemma mapa_ok_parts:
  assumes "mapa_ok elems s"
  shows "finite (dom (ents s))" "finite (dom (nests s))" "nests s p = Some n \<Longrightarrow> nest_ok elems s n"
    "ents s p = Some e \<Longrightarrow> ent_ok elems s e" "count (total elems s) i \<le> 1" "fixed_ok elems s"
  using assms by (auto simp: mapa_ok_def)

lemma mapa_ok_step:
  assumes ok: "mapa_ok elems s" and "infos s' = infos s" and "listaPokenests s' = listaPokenests s"
    and "dom (ents s') \<subseteq> dom (ents s)"
    and nest: "\<And>p. map_option nest_id (nests s' p) = map_option nest_id (nests s p)"
    and "\<And>p n. nests s' p = Some n \<Longrightarrow> nest_ok elems s' n" and "\<And>p e. ents s' p = Some e \<Longrightarrow> ent_ok elems s' e"
    and "total elems s' = total elems s"
  shows "mapa_ok elems s'"
proof -
  have "dom (nests s') = dom (nests s)"
  proof (rule set_eqI)
    fix p show "p \<in> dom (nests s') \<longleftrightarrow> p \<in> dom (nests s)"
      using nest [of p] by (cases "nests s p"; cases "nests s' p") auto
  qed
  moreover have "fixed_ok elems s'" by (rule fixed_ok_step [OF mapa_ok_parts(6) [OF ok] assms(2,3) nest])
  moreover have "finite (dom (ents s'))" by (rule finite_subset [OF assms(4) mapa_ok_parts(1) [OF ok]])
  ultimately show ?thesis using ok assms(6-8) by (simp add: mapa_ok_def)
qed

lemma nest_ok_infos: "infos s' = infos s \<Longrightarrow> nest_ok elems s' = nest_ok elems s"
  by (intro ext) (simp only: nest_ok_def)

lemma ent_ok_infos: "infos s' = infos s \<Longrightarrow> ent_ok elems s' = ent_ok elems s"
  by (intro ext) (simp only: ent_ok_def)

text \<open>A field of a trainer that is not its pokemons.\<close>

lemma keeps_ent:
  assumes "\<And>e. pokemons (f e) = pokemons e" and "\<And>e. ultimo_pokemon (f e) = ultimo_pokemon e"
  shows "keeps elems s (upd_ent p f s)"
proof -
  let ?s = "upd_ent p f s"
  have "ent_mset elems ?s q = ent_mset elems s q" for q
    by (cases "ents s p") (auto simp: ent_mset_def assms(1))
  moreover have "dom (ents ?s) = dom (ents s)" by (auto split: if_splits)
  ultimately have t: "total elems ?s = total elems s"
    by (simp add: total_def ents_total_def nests_total_def nest_mset_def)
  have "mapa_ok elems ?s" if ok: "mapa_ok elems s"
  proof (rule mapa_ok_step [OF ok _ _ _ _ _ _ t])
    fix q e assume e: "ents ?s q = Some e"
    have f: "ent_ok elems s (f x) = ent_ok elems s x" for x by (simp add: ent_ok_def assms)
    show "ent_ok elems ?s e"
      using e mapa_ok_parts(4) [OF ok] by (auto simp: ent_ok_infos [of ?s s] f split: if_splits)
  qed (use mapa_ok_parts(3) [OF ok] in \<open>auto simp: nest_ok_infos [of ?s s] split: if_splits\<close>)
  then show ?thesis using t by (simp add: keeps_def)
qed

text \<open>A pokemon moves: out of a nest, from one trainer to another, back into its nest.\<close>

lemma keeps_take:
  assumes n: "nests s p = Some n" and e: "ents s q = Some e"
    and out: "mset (elems (listaPokemons n)) = add_mset i (mset (elems l'))"
    and into: "elems l'' = elems (pokemons e) @ [i]"
  shows "keeps elems s (upd_ent q (\<lambda>e. e\<lparr>pokemons := l''\<rparr>)
      (upd_nest p (\<lambda>n. n\<lparr>cantidad := cantidad n - 1, listaPokemons := l'\<rparr>) s))"
proof -
  let ?g = "\<lambda>n. n\<lparr>cantidad := cantidad n - 1, listaPokemons := l'\<rparr>"
  let ?s1 = "upd_nest p ?g s"
  let ?s = "upd_ent q (\<lambda>e. e\<lparr>pokemons := l''\<rparr>) ?s1"
  have "mapa_ok elems ?s \<and> total elems ?s = total elems s" if ok: "mapa_ok elems s"
  proof -
    note fin = mapa_ok_parts(1,2) [OF ok]
    have "nests_total elems ?s1 + mset (elems (listaPokemons n)) = nests_total elems s + mset (elems l')"
      using nests_total_upd [OF fin(2) n, of elems ?g] by simp
    moreover have "ents_total elems ?s + mset (elems (pokemons e)) = ents_total elems ?s1 + mset (elems l'')"
      using ents_total_upd [of ?s1 q e elems "\<lambda>e. e\<lparr>pokemons := l''\<rparr>"] fin(1) e by simp
    moreover have "ents_total elems ?s1 = ents_total elems s" "nests_total elems ?s = nests_total elems ?s1"
      by (simp_all add: ents_total_def ent_mset_def nests_total_def nest_mset_def)
    ultimately have t: "total elems ?s = total elems s" by (simp add: total_def out into)
    have set: "set (elems (listaPokemons n)) = insert i (set (elems l'))"
      using out by (metis set_mset_add_mset_insert set_mset_mset)
    have len: "length (elems (listaPokemons n)) = Suc (length (elems l'))"
      using out by (metis size_add_mset size_mset)
    have nok: "nest_ok elems s n" by (rule mapa_ok_parts(3) [OF ok n])
    then have new: "nest_ok elems s (?g n)" using set len by (simp add: nest_ok_def)
    have "i \<in> dom (infos s)" using nok set by (auto simp: nest_ok_def)
    then have enew: "ent_ok elems s (e\<lparr>pokemons := l''\<rparr>)"
      using mapa_ok_parts(4) [OF ok e] into by (simp add: ent_ok_def)
    have "mapa_ok elems ?s"
    proof (rule mapa_ok_step [OF ok _ _ _ _ _ _ t])
      fix r m assume "nests ?s r = Some m"
      then show "nest_ok elems ?s m"
        using new n mapa_ok_parts(3) [OF ok] by (auto simp: nest_ok_infos [of ?s s] split: if_splits)
    next
      fix r m assume "ents ?s r = Some m"
      then show "ent_ok elems ?s m"
        using enew e mapa_ok_parts(4) [OF ok] by (auto simp: ent_ok_infos [of ?s s] split: if_splits)
    qed (use n in \<open>auto split: if_splits\<close>)
    then show ?thesis using t ..
  qed
  then show ?thesis by (simp add: keeps_def)
qed

lemma keeps_nest_list:
  assumes n: "nests s p = Some n" and l: "elems l' = elems (listaPokemons n)"
  shows "keeps elems s (upd_nest p (\<lambda>n. n\<lparr>listaPokemons := l'\<rparr>) s)"
proof -
  let ?s = "upd_nest p (\<lambda>n. n\<lparr>listaPokemons := l'\<rparr>) s"
  have "nest_mset elems ?s q = nest_mset elems s q" for q by (simp add: nest_mset_def n l)
  moreover have "dom (nests ?s) = dom (nests s)" by (auto split: if_splits)
  ultimately have t: "total elems ?s = total elems s"
    by (simp add: total_def ents_total_def nests_total_def ent_mset_def)
  have "mapa_ok elems ?s" if ok: "mapa_ok elems s"
  proof (rule mapa_ok_step [OF ok _ _ _ _ _ _ t])
    fix q m assume "nests ?s q = Some m"
    then show "nest_ok elems ?s m"
      using mapa_ok_parts(3) [OF ok, of q] mapa_ok_parts(3) [OF ok n] n l
      by (auto simp: nest_ok_infos [of ?s s] nest_ok_def split: if_splits)
  next
    fix q e assume "ents ?s q = Some e"
    then show "ent_ok elems ?s e" using mapa_ok_parts(4) [OF ok] by (simp add: ent_ok_infos [of ?s s])
  qed (use n in \<open>auto split: if_splits\<close>)
  then show ?thesis using t by (simp add: keeps_def)
qed

lemma keeps_give:
  assumes e: "ents s p = Some e" and b: "ents s q = Some b" and pq: "p \<noteq> q"
    and out: "elems (pokemons e) = i # elems l" and into: "elems l' = elems (pokemons b) @ [i]"
  shows "keeps elems s (upd_ent q (\<lambda>e. e\<lparr>pokemons := l'\<rparr>) (upd_ent p (\<lambda>e. e\<lparr>pokemons := l\<rparr>) s))"
proof -
  let ?s1 = "upd_ent p (\<lambda>e. e\<lparr>pokemons := l\<rparr>) s"
  let ?s = "upd_ent q (\<lambda>e. e\<lparr>pokemons := l'\<rparr>) ?s1"
  have "mapa_ok elems ?s \<and> total elems ?s = total elems s" if ok: "mapa_ok elems s"
  proof -
    note fin = mapa_ok_parts(1) [OF ok]
    have "dom (ents ?s1) = dom (ents s)" by (auto split: if_splits)
    then have "ents_total elems ?s + mset (elems (pokemons b)) = ents_total elems ?s1 + mset (elems l')"
      using ents_total_upd [of ?s1 q b elems "\<lambda>e. e\<lparr>pokemons := l'\<rparr>"] fin b pq by simp
    moreover have "ents_total elems ?s1 + mset (elems (pokemons e)) = ents_total elems s + mset (elems l)"
      using ents_total_upd [OF fin e, of elems "\<lambda>e. e\<lparr>pokemons := l\<rparr>"] by simp
    moreover have "nests_total elems ?s = nests_total elems s"
      by (simp add: nests_total_def nest_mset_def)
    ultimately have t: "total elems ?s = total elems s" by (simp add: total_def out into)
    have e1: "ent_ok elems s (e\<lparr>pokemons := l\<rparr>)" and i: "i \<in> dom (infos s)"
      using mapa_ok_parts(4) [OF ok e] by (simp_all add: ent_ok_def out)
    have b1: "ent_ok elems s (b\<lparr>pokemons := l'\<rparr>)"
      using mapa_ok_parts(4) [OF ok b] i by (simp add: ent_ok_def into)
    have "mapa_ok elems ?s"
    proof (rule mapa_ok_step [OF ok _ _ _ _ _ _ t])
      fix r m assume "ents ?s r = Some m"
      then show "ent_ok elems ?s m"
        using e1 b1 e b mapa_ok_parts(4) [OF ok] by (auto simp: ent_ok_infos [of ?s s] split: if_splits)
    next
      fix r m assume "nests ?s r = Some m"
      then show "nest_ok elems ?s m" using mapa_ok_parts(3) [OF ok] by (simp add: nest_ok_infos [of ?s s])
    qed (auto split: if_splits)
    then show ?thesis using t ..
  qed
  then show ?thesis by (simp add: keeps_def)
qed

lemma keeps_return:
  assumes e: "ents s p = Some e" and n: "nests s q = Some n"
    and i: "infos s i = Some x" "id_pokenest x = nest_id n"
    and out: "elems (pokemons e) = i # elems l" and into: "elems l' = elems (listaPokemons n) @ [i]"
  shows "keeps elems s (upd_nest q (\<lambda>n. n\<lparr>cantidad := cantidad n + 1, listaPokemons := l'\<rparr>)
      (upd_ent p (\<lambda>e. e\<lparr>pokemons := l\<rparr>) s))"
proof -
  let ?g = "\<lambda>n. n\<lparr>cantidad := cantidad n + 1, listaPokemons := l'\<rparr>"
  let ?s1 = "upd_ent p (\<lambda>e. e\<lparr>pokemons := l\<rparr>) s"
  let ?s = "upd_nest q ?g ?s1"
  have "mapa_ok elems ?s \<and> total elems ?s = total elems s" if ok: "mapa_ok elems s"
  proof -
    note fin = mapa_ok_parts(1,2) [OF ok]
    have "nests_total elems ?s + mset (elems (listaPokemons n)) = nests_total elems ?s1 + mset (elems l')"
      using nests_total_upd [of ?s1 q n elems ?g] fin(2) n by simp
    moreover have "ents_total elems ?s1 + mset (elems (pokemons e)) = ents_total elems s + mset (elems l)"
      using ents_total_upd [OF fin(1) e, of elems "\<lambda>e. e\<lparr>pokemons := l\<rparr>"] by simp
    moreover have "ents_total elems ?s = ents_total elems ?s1" "nests_total elems ?s1 = nests_total elems s"
      by (simp_all add: ents_total_def ent_mset_def nests_total_def nest_mset_def)
    ultimately have t: "total elems ?s = total elems s" by (simp add: total_def out into)
    have e1: "ent_ok elems s (e\<lparr>pokemons := l\<rparr>)"
      using mapa_ok_parts(4) [OF ok e] by (simp add: ent_ok_def out)
    have n1: "nest_ok elems s (?g n)"
      using mapa_ok_parts(3) [OF ok n] i by (auto simp: nest_ok_def into)
    have "mapa_ok elems ?s"
    proof (rule mapa_ok_step [OF ok _ _ _ _ _ _ t])
      fix r m assume "ents ?s r = Some m"
      then show "ent_ok elems ?s m"
        using e1 e mapa_ok_parts(4) [OF ok] by (auto simp: ent_ok_infos [of ?s s] split: if_splits)
    next
      fix r m assume "nests ?s r = Some m"
      then show "nest_ok elems ?s m"
        using n1 n mapa_ok_parts(3) [OF ok] by (auto simp: nest_ok_infos [of ?s s] split: if_splits)
    qed (use n in \<open>auto split: if_splits\<close>)
    then show ?thesis using t ..
  qed
  then show ?thesis by (simp add: keeps_def)
qed

text \<open>A trainer without pokemons is freed.\<close>

lemma keeps_free:
  assumes "ents s p = Some e" and "elems (pokemons e) = []"
  shows "keeps elems s (s\<lparr>ents := (ents s)(p := None)\<rparr>)"
proof -
  let ?s = "s\<lparr>ents := (ents s)(p := None)\<rparr>"
  have "mapa_ok elems ?s \<and> total elems ?s = total elems s" if ok: "mapa_ok elems s"
  proof -
    have p: "p \<in> dom (ents s)" using assms(1) by auto
    have "(\<Sum>q \<in> dom (ents s) - {p}. ent_mset elems ?s q) = (\<Sum>q \<in> dom (ents s) - {p}. ent_mset elems s q)"
      by (rule sum.cong) (simp_all add: ent_mset_def)
    moreover have "dom (ents ?s) = dom (ents s) - {p}" by auto
    ultimately have "ents_total elems ?s = ents_total elems s"
      using sum.remove [OF mapa_ok_parts(1) [OF ok] p, of "ent_mset elems s"] assms
      by (simp add: ents_total_def ent_mset_def)
    then have t: "total elems ?s = total elems s"
      by (simp add: total_def nests_total_def nest_mset_def)
    have "mapa_ok elems ?s"
    proof (rule mapa_ok_step [OF ok _ _ _ _ _ _ t])
      fix r m assume "ents ?s r = Some m"
      then show "ent_ok elems ?s m"
        using mapa_ok_parts(4) [OF ok] by (auto simp: ent_ok_infos [of ?s s] split: if_splits)
    next
      fix r m assume "nests ?s r = Some m"
      then show "nest_ok elems ?s m" using mapa_ok_parts(3) [OF ok] by (simp add: nest_ok_infos [of ?s s])
    qed auto
    then show ?thesis using t ..
  qed
  then show ?thesis by (simp add: keeps_def)
qed

end
