(* ===== verification/Mapa_Requests.thy ===== *)
theory Mapa_Requests
  imports Mapa_Invariant
begin

text \<open>
  What a request of a trainer does to the map: only this trainer and the nests change, the queues do
  not, no pokemon is lost or duplicated.
\<close>

section \<open>Frames\<close>

text \<open>Everything but trainer \<open>p\<close> and the contents of the nests stays.\<close>

definition frame :: "ptr \<Rightarrow> 'l mapa \<Rightarrow> 'l mapa \<Rightarrow> bool" where
  "frame p s s' \<longleftrightarrow> colaListos s' = colaListos s \<and> colaBloqueados s' = colaBloqueados s
     \<and> entrenadores s' = entrenadores s \<and> next_ptr s' = next_ptr s \<and> quantum s' = quantum s
     \<and> dom (ents s') = dom (ents s) \<and> (\<forall>q. q \<noteq> p \<longrightarrow> ents s' q = ents s q)
     \<and> map_option (\<lambda>e. (ent_id e, simbolo e, ent_nombre e)) (ents s' p)
         = map_option (\<lambda>e. (ent_id e, simbolo e, ent_nombre e)) (ents s p)"

lemma frame_refl [simp]: "frame p s s"
  by (simp add: frame_def)

lemma frame_trans: "frame p s s' \<Longrightarrow> frame p s' s'' \<Longrightarrow> frame p s s''"
  by (simp add: frame_def)

lemma frame_emit [simp]: "frame p s (emit cs s)"
  by (simp add: frame_def)

lemma frame_nest [simp]: "frame p s (upd_nest q f s)"
  by (simp add: frame_def)

lemma frame_ent:
  "(\<And>e. ent_id (f e) = ent_id e \<and> simbolo (f e) = simbolo e \<and> ent_nombre (f e) = ent_nombre e) \<Longrightarrow>
     frame p s (upd_ent p f s)"
  by (auto simp: frame_def option.map_comp comp_def split: if_splits)

lemma recv_fd_fields:
  "recv_fd fd n s = (bs, s') \<Longrightarrow> frame p s s' \<and> keeps elems s s' \<and> ents s' = ents s
     \<and> length (streams s' fd) + length bs = length (streams s fd)"
  by (auto simp: recv_fd_def frame_def intro!: keeps_cong)

lemma connection_recv_streams: "\<exists>t. snd (connection_recv fd s) = s\<lparr>streams := t\<rparr>"
  by (auto simp: connection_recv_def recv_fd_def Let_def)

lemma connection_recv_fields:
  assumes "connection_recv fd s = (r, s')"
  shows "frame p s s' \<and> keeps elems s s' \<and> ents s' = ents s \<and> nests s' = nests s \<and> infos s' = infos s
    \<and> listaPokenests s' = listaPokenests s \<and> calls s' = calls s"
proof -
  obtain t where "s' = s\<lparr>streams := t\<rparr>" using connection_recv_streams [of fd s] assms by auto
  then show ?thesis by (auto simp: frame_def intro!: keeps_cong)
qed

section \<open>Each request\<close>

lemma mover_fields [simp]:
  "pokemons (mover m e) = pokemons e" "ultimo_pokemon (mover m e) = ultimo_pokemon e"
  "ent_id (mover m e) = ent_id e" "simbolo (mover m e) = simbolo e" "ent_nombre (mover m e) = ent_nombre e"
  by (simp_all add: mover_def)

lemma ubicar_pokenest_keeps:
  assumes "ubicar_pokenest L p buffer s = Some (r, s')"
  shows "keeps elems s s' \<and> frame p s s' \<and> r = TURNO_NORMAL"
proof -
  obtain id cs where s': "s' = upd_ent p (\<lambda>e. e\<lparr>pokenest_buscada := id\<rparr>) (emit cs s)" and r: "r = TURNO_NORMAL"
    using assms by (auto simp: ubicar_pokenest_def bind_eq_Some_conv)
  have "keeps elems (emit cs s) s'" "frame p (emit cs s) s'"
    unfolding s' by (rule keeps_ent, simp_all) (rule frame_ent, simp)
  then show ?thesis using r keeps_trans [OF keeps_emit] frame_trans [OF frame_emit] by blast
qed

lemma avanzar_posicion_keeps:
  assumes "avanzar_posicion p buffer s = Some (r, s')"
  shows "keeps elems s s' \<and> frame p s s' \<and> r = TURNO_NORMAL"
proof -
  obtain m cs where s': "s' = emit cs (upd_ent p (mover m) s)" and r: "r = TURNO_NORMAL"
    using assms by (auto simp: avanzar_posicion_def bind_eq_Some_conv Let_def)
  have "keeps elems s (upd_ent p (mover m) s)" "frame p s (upd_ent p (mover m) s)"
    by (rule keeps_ent, simp_all) (rule frame_ent, simp)
  then show ?thesis unfolding s' using r keeps_trans [OF _ keeps_emit] frame_trans [OF _ frame_emit] by blast
qed

lemma notificar_form:
  "notificar_captura_pokemon i p s = Some s' \<Longrightarrow>
     \<exists>cs. s' = upd_ent p (\<lambda>e. e\<lparr>pokenest_buscada := 0\<rparr>) (emit cs s)"
  by (auto simp: notificar_captura_pokemon_def bind_eq_Some_conv Let_def)

lemma notificar_keeps:
  assumes "notificar_captura_pokemon i p s = Some s'"
  shows "keeps elems s s' \<and> frame p s s'"
proof -
  obtain cs where s': "s' = upd_ent p (\<lambda>e. e\<lparr>pokenest_buscada := 0\<rparr>) (emit cs s)"
    using notificar_form [OF assms] by blast
  have "keeps elems (emit cs s) s'" "frame p (emit cs s) s'"
    unfolding s' by (rule keeps_ent, simp_all) (rule frame_ent, simp)
  then show ?thesis using keeps_trans [OF keeps_emit] frame_trans [OF frame_emit] by blast
qed

text \<open>The lists of the map server: any implementation of the list library over addresses.\<close>

locale map_lists = t_list_more L elems for L :: "('l, ptr) t_list_more" and elems :: "'l \<Rightarrow> ptr list"
begin

lemma buscarPrimerPokemon_takes:
  assumes "buscarPrimerPokemon L l s = Some (r, l')"
  shows "case r of None \<Rightarrow> elems l = [] \<and> elems l' = []
    | Some i \<Rightarrow> mset (elems l) = add_mset i (mset (elems l'))"
proof -
  obtain k where k: "list_sort L l (pokemon_de_menor_nombre s) = Some k" "list_remove L k 0 = (r, l')"
    using assms by (auto simp: buscarPrimerPokemon_def bind_eq_Some_conv)
  have m: "mset (elems k) = mset (elems l)" by (rule sort_mset [OF k(1)])
  show ?thesis
  proof (cases "elems k")
    case Nil
    then show ?thesis using remove_first_Nil [OF Nil] m k(2) by auto
  next
    case (Cons i ks)
    then show ?thesis using remove_first_Cons [OF Cons] m k(2) by auto
  qed
qed

lemma tomar_pokemon_keeps:
  assumes "tomar_pokemon L p buffer s = Some (r, s')"
  shows "keeps elems s s' \<and> frame p s s'"
proof -
  obtain q n r0 l where n: "nests s q = Some n"
    and l: "buscarPrimerPokemon L (listaPokemons n) s = Some (r0, l)"
    and rest: "(case r0 of
       None \<Rightarrow> Some (None, upd_nest q (\<lambda>n. n\<lparr>listaPokemons := l\<rparr>) s)
     | Some i \<Rightarrow> map_option (Pair (Some i)) (capturar L p q i (upd_nest q (\<lambda>n. n\<lparr>listaPokemons := l\<rparr>) s)))
       = Some (r, s')"
    using assms by (auto simp: tomar_pokemon_def bind_eq_Some_conv Let_def split: prod.splits)
  show ?thesis
  proof (cases r0)
    case None
    then have s': "s' = upd_nest q (\<lambda>n. n\<lparr>listaPokemons := l\<rparr>) s" using rest by simp
    have "elems l = elems (listaPokemons n)" using buscarPrimerPokemon_takes [OF l] None by simp
    then show ?thesis using keeps_nest_list [OF n] unfolding s' by simp
  next
    case (Some i)
    let ?s1 = "emit [Mutex_unlock Lista_pokenest] (upd_nest q (\<lambda>n. n\<lparr>cantidad := cantidad n - 1\<rparr>) (emit [Mutex_lock Lista_pokenest]
         (upd_ent p (\<lambda>e. e\<lparr>pokemons := list_add L (pokemons e) i\<rparr>)
           (upd_nest q (\<lambda>n. n\<lparr>listaPokemons := l\<rparr>) s))))"
    obtain e s1 where e: "ents s p = Some e" and s1: "notificar_captura_pokemon i p ?s1 = Some s1"
      and s': "\<exists>cs. s' = emit cs s1"
      using rest Some by (auto simp: capturar_def bind_eq_Some_conv Let_def)
    let ?s2 = "upd_ent p (\<lambda>e'. e'\<lparr>pokemons := list_add L (pokemons e) i\<rparr>)
        (upd_nest q (\<lambda>n. n\<lparr>cantidad := cantidad n - 1, listaPokemons := l\<rparr>) s)"
    have "keeps elems s ?s2"
      using buscarPrimerPokemon_takes [OF l] Some by (intro keeps_take [OF n e]) (simp_all add: elems_add)
    also have "keeps elems ?s2 ?s1" using e n by (intro keeps_cong) (auto simp: fun_eq_iff)
    also have "keeps elems ?s1 s1" using notificar_keeps [OF s1] ..
    also have "keeps elems s1 s'" using s' by auto
    finally have "keeps elems s s'" .
    moreover have "frame p s (upd_ent p (\<lambda>e. e\<lparr>pokemons := list_add L (pokemons e) i\<rparr>)
           (upd_nest q (\<lambda>n. n\<lparr>listaPokemons := l\<rparr>) s))"
      by (rule frame_trans [OF frame_nest frame_ent]) simp
    then have "frame p s ?s1" by (intro frame_trans [OF _ frame_emit] frame_trans [OF _ frame_nest]) assumption
    moreover obtain cs where "s' = emit cs s1" using s' by blast
    ultimately have "frame p s s'"
      using frame_trans [OF frame_trans [OF _ conjunct2 [OF notificar_keeps [OF s1]]], of s s'] by simp
    then show ?thesis using \<open>keeps elems s s'\<close> by simp
  qed
qed

text \<open>A request keeps the invariant; the last-pokemon request never returns.\<close>

lemma responder_keeps:
  assumes "responder L p oc b s = Some (r, s')" and "oc = OC_ATRAPAR_ULTIMO_POKEMON \<Longrightarrow> b = None"
  shows "keeps elems s s' \<and> frame p s s'
    \<and> r \<in> {TURNO_NORMAL, CAPTURO_POKEMON, NO_ENCONTRO_POKEMON}"
  using assms ubicar_pokenest_keeps [of L p b s r s' elems] avanzar_posicion_keeps [of p b s r s' elems]
    tomar_pokemon_keeps [of p b s]
  by (auto simp: responder_def bind_eq_Some_conv atrapar_pokemon_def atrapar_ultimo_pokemon_def
      tomar_pokemon_def [of _ _ None] msg_char_def split: if_splits)

lemma connection_recv_ultimo:
  "connection_recv fd s = ((r, Some OC_ATRAPAR_ULTIMO_POKEMON, b), s') \<Longrightarrow> b = None"
  by (auto simp: connection_recv_def Let_def con_coordenadas_def con_texto_def OC_defs
      split: prod.splits if_splits)

lemma atenderSolicitud_parts:
  assumes "atenderSolicitud L p s = Some (r, s')"
  obtains e rr oc b s1 where "ents s p = Some e" and "connection_recv (ent_id e) s = ((rr, oc, b), s1)"
    and "rr = 0 \<and> r = DESCONEXION \<and> s' = s1
      \<or> rr \<noteq> 0 \<and> (\<exists>c. oc = Some c \<and> responder L p c b s1 = Some (r, s'))"
proof -
  obtain e where e: "ents s p = Some e" using assms by (auto simp: atenderSolicitud_def bind_eq_Some_conv)
  obtain rr oc b s1 where c: "connection_recv (ent_id e) s = ((rr, oc, b), s1)"
    by (cases "connection_recv (ent_id e) s") auto
  then show thesis using that [OF e c] assms e by (auto simp: atenderSolicitud_def bind_eq_Some_conv split: if_splits)
qed

lemma atenderSolicitud_keeps:
  assumes "atenderSolicitud L p s = Some (r, s')"
  shows "keeps elems s s' \<and> frame p s s'
    \<and> r \<in> {TURNO_NORMAL, DESCONEXION, CAPTURO_POKEMON, NO_ENCONTRO_POKEMON}"
proof -
  obtain e rr oc b s1 where e: "ents s p = Some e" and c: "connection_recv (ent_id e) s = ((rr, oc, b), s1)"
    and rest: "rr = 0 \<and> r = DESCONEXION \<and> s' = s1
      \<or> rr \<noteq> 0 \<and> (\<exists>c. oc = Some c \<and> responder L p c b s1 = Some (r, s'))"
    by (rule atenderSolicitud_parts [OF assms])
  note c1 = connection_recv_fields [OF c, of p elems]
  show ?thesis
  proof (cases "rr = 0")
    case True
    then show ?thesis using rest c1 by simp
  next
    case False
    then obtain k where k: "oc = Some k" "responder L p k b s1 = Some (r, s')" using rest by blast
    have "keeps elems s1 s' \<and> frame p s1 s' \<and> r \<in> {TURNO_NORMAL, CAPTURO_POKEMON, NO_ENCONTRO_POKEMON}"
      using responder_keeps [OF k(2)] connection_recv_ultimo c k(1) by blast
    then show ?thesis using c1 keeps_trans frame_trans by blast
  qed
qed

end

end
