(* ===== verification/Mapa_Planificacion.thy ===== *)
theory Mapa_Planificacion
  imports Mapa_Solicitudes
begin

text \<open>
  \<^verbatim>\<open>mapas/planificacion.c\<close> and the trainers' part of \<^verbatim>\<open>mapas/nivel-test.c\<close>: blocking and unblocking
  trainers, taking one apart and handing on its pokemons, the two scheduling algorithms. A
  \<^verbatim>\<open>t_queue\<close> is the list behind it: push adds at the end, pop removes index 0.
\<close>

section \<open>Trainers and queues\<close>

definition crearEntrenador :: "('l, ptr) t_list_more \<Rightarrow> int \<Rightarrow> byte \<Rightarrow> byte list \<Rightarrow> 'l mapa \<Rightarrow> ptr \<times> 'l mapa" where
  "crearEntrenador L file_descriptor sim nombre s =
     (let p = next_ptr s in
      (p, s\<lparr>next_ptr := Suc p,
            ents := (ents s)(p \<mapsto> \<lparr>ent_nombre = nombre, posx = 1, posy = 1, ent_id = file_descriptor,
              simbolo = sim, pokenest_buscada = 0, cantDeadlocks = 0, ultimo_pokemon = 0,
              pokemons = list_create L\<rparr>)\<rparr>))"

text \<open>The log of a queue reads the name of every trainer in it.\<close>

definition informar_contenido_cola :: "('l, ptr) t_list_more \<Rightarrow> 'l \<Rightarrow> 'l mapa \<Rightarrow> 'l mapa option" where
  "informar_contenido_cola L cola s =
     (if list_all (\<lambda>i. case list_get L cola i of None \<Rightarrow> False | Some p \<Rightarrow> ents s p \<noteq> None) [0..<list_size L cola]
      then Some s else None)"

definition mismo_id :: "int \<Rightarrow> 'l mapa \<Rightarrow> ptr \<Rightarrow> bool option" where
  "mismo_id socket s p = map_option (\<lambda>e. ent_id e = socket) (ents s p)"

text \<open>\<^verbatim>\<open>buscarEntrenador\<close> finds a trainer by its socket and takes it out of the list.\<close>

definition buscarEntrenador :: "('l, ptr) t_list_more \<Rightarrow> int \<Rightarrow> 'l \<Rightarrow> 'l mapa \<Rightarrow> (ptr option \<times> 'l) option" where
  "buscarEntrenador L socket lista s = do {
     encontrado \<leftarrow> list_find L lista (mismo_id socket s);
     (_, lista) \<leftarrow> list_remove_by_condition L lista (mismo_id socket s);
     Some (encontrado, lista)
   }"

definition bloquearEntrenador :: "('l, ptr) t_list_more \<Rightarrow> ptr \<Rightarrow> 'l mapa \<Rightarrow> 'l mapa option" where
  "bloquearEntrenador L entrenador s = do {
     let s = emit [Mutex_lock Cola_bloqueados] s;
     let s = s\<lparr>colaBloqueados := list_add L (colaBloqueados s) entrenador\<rparr>;
     e \<leftarrow> ents s entrenador;
     let s = emit [Fd_set (ent_id e)] s;
     let s = s\<lparr>set_fd_max := max (ent_id e) (set_fd_max s)\<rparr>;
     s \<leftarrow> informar_contenido_cola L (colaBloqueados s) s;
     Some (emit [Mutex_unlock Cola_bloqueados] s)
   }"

definition desbloquearEntrenador :: "('l, ptr) t_list_more \<Rightarrow> ptr \<Rightarrow> 'l mapa \<Rightarrow> 'l mapa option" where
  "desbloquearEntrenador L entrenador s = do {
     e \<leftarrow> ents s entrenador;
     (found, cola) \<leftarrow> buscarEntrenador L (ent_id e) (colaBloqueados s) s;
     trainer \<leftarrow> found;
     let s = s\<lparr>colaBloqueados := cola, colaListos := list_add L (colaListos s) trainer\<rparr>;
     let s = emit [Fd_clr (ent_id e)] s;
     informar_contenido_cola L (colaListos s) s
   }"

text \<open>
  \<^verbatim>\<open>liberarEntrenador\<close>: every trainer of the map's list with the same symbol is removed (the index
  moves on after a removal), then the structure is freed. The loop makes at most as many rounds as
  the list has elements, \<open>n\<close>.
\<close>

fun borrar_de_entrenadores :: "('l, ptr) t_list_more \<Rightarrow> byte \<Rightarrow> nat \<Rightarrow> nat \<Rightarrow> 'l mapa \<Rightarrow> 'l mapa option" where
  "borrar_de_entrenadores L sim 0 i s = Some s"
| "borrar_de_entrenadores L sim (Suc n) i s =
     (if i < list_size L (entrenadores s) then do {
        entr \<leftarrow> list_get L (entrenadores s) i;
        e \<leftarrow> ents s entr;
        borrar_de_entrenadores L sim n (Suc i)
          (if simbolo e = sim
           then emit [Mutex_lock Lista_entrenador, Mutex_unlock Lista_entrenador]
                  (s\<lparr>entrenadores := snd (list_remove L (entrenadores s) i)\<rparr>)
           else s)
      } else Some s)"

definition liberarEntrenador :: "('l, ptr) t_list_more \<Rightarrow> ptr \<Rightarrow> 'l mapa \<Rightarrow> 'l mapa option" where
  "liberarEntrenador L entrenador s = do {
     e \<leftarrow> ents s entrenador;
     s \<leftarrow> borrar_de_entrenadores L (simbolo e) (list_size L (entrenadores s)) 0 s;
     let s = emit [BorrarItem (simbolo e)] s;
     Some (s\<lparr>ents := (ents s)(entrenador := None)\<rparr>)
   }"

section \<open>liberarRecursos2\<close>

text \<open>A pokemon that nobody waits for goes back to its nest.\<close>

definition devolver :: "('l, ptr) t_list_more \<Rightarrow> ptr \<Rightarrow> 'l mapa \<Rightarrow> 'l mapa option" where
  "devolver L infoPokemon s = do {
     i \<leftarrow> infos s infoPokemon;
     found \<leftarrow> buscarPokenest L (id_pokenest i) s;
     p \<leftarrow> found;
     n \<leftarrow> nests s p;
     let s = upd_nest p (\<lambda>n. n\<lparr>listaPokemons := list_add L (listaPokemons n) infoPokemon\<rparr>) s;
     let s = upd_nest p (\<lambda>n. n\<lparr>cantidad := cantidad n + 1\<rparr>) s;
     Some (emit [SumarRecurso (id_pokenest i)] s)
   }"

text \<open>
  The trainer is taken apart pokemon by pokemon (\<open>liberarRecursos2\<close>); each is offered to the blocked
  trainers in order (\<open>ofrecer\<close>, from index \<open>i\<close>; the result says whether one took it). A blocked
  trainer that got its last pokemon is taken apart in turn, in the middle of the loop. The first
  argument bounds the depth of the calls.
\<close>

fun liberarRecursos2 :: "nat \<Rightarrow> ('l, ptr) t_list_more \<Rightarrow> ptr \<Rightarrow> 'l mapa \<Rightarrow> 'l mapa option"
  and ofrecer :: "nat \<Rightarrow> ('l, ptr) t_list_more \<Rightarrow> ptr \<Rightarrow> nat \<Rightarrow> 'l mapa \<Rightarrow> (bool \<times> 'l mapa) option" where
  "liberarRecursos2 0 L entrenadorLiberado s = None"
| "liberarRecursos2 (Suc k) L entrenadorLiberado s = do {
     e \<leftarrow> ents s entrenadorLiberado;
     case list_remove L (pokemons e) 0 of
       (None, _) \<Rightarrow> liberarEntrenador L entrenadorLiberado s
     | (Some infoPokemon, l) \<Rightarrow> do {
         let s = upd_ent entrenadorLiberado (\<lambda>e. e\<lparr>pokemons := l\<rparr>) s;
         (pokemon_asignado, s) \<leftarrow> ofrecer k L infoPokemon 0 s;
         s \<leftarrow> (if pokemon_asignado then Some s else devolver L infoPokemon s);
         liberarRecursos2 k L entrenadorLiberado s
       }
   }"
| "ofrecer 0 L infoPokemon i s = None"
| "ofrecer (Suc k) L infoPokemon i s =
     (if i < list_size L (colaBloqueados s) then do {
        b \<leftarrow> list_get L (colaBloqueados s) i;
        e \<leftarrow> ents s b;
        info \<leftarrow> infos s infoPokemon;
        if pokenest_buscada e = id_pokenest info then do {
          let s = upd_ent b (\<lambda>e. e\<lparr>pokemons := list_add L (pokemons e) infoPokemon\<rparr>) s;
          s \<leftarrow> notificar_captura_pokemon infoPokemon b s;
          if ultimo_pokemon e \<noteq> 0 then do {
            let ((_, operation_code, _), s) = connection_recv (ent_id e) s;
            oc \<leftarrow> operation_code;
            if oc \<noteq> OC_OBTENER_CANTIDAD_DEADLOCK then None
            else do {
              s \<leftarrow> liberarRecursos2 k L b s;
              ofrecer k L infoPokemon (Suc i) (emit [Sem_post_dibujo] s)
            }
          } else do {
            s \<leftarrow> desbloquearEntrenador L b s;
            Some (True, s)
          }
        } else ofrecer k L infoPokemon (Suc i) s
      } else Some (False, s))"

text \<open>How every caller takes a trainer apart: both mutexes held.\<close>

definition liberar_con_mutex :: "nat \<Rightarrow> ('l, ptr) t_list_more \<Rightarrow> ptr \<Rightarrow> 'l mapa \<Rightarrow> 'l mapa option" where
  "liberar_con_mutex k L entrenador s =
     map_option (emit [Mutex_unlock Cola_bloqueados, Mutex_unlock Turno_desbloqueo])
       (liberarRecursos2 k L entrenador (emit [Mutex_lock Turno_desbloqueo, Mutex_lock Cola_bloqueados] s))"

definition desconectar :: "nat \<Rightarrow> ('l, ptr) t_list_more \<Rightarrow> ptr \<Rightarrow> 'l mapa \<Rightarrow> 'l mapa option" where
  "desconectar k L entrenador s = map_option (emit [Sem_post_dibujo]) (liberar_con_mutex k L entrenador s)"

section \<open>Round robin\<close>

text \<open>The quantum; \<open>None\<close> as answer is the variable that was never set.\<close>

fun quantum_RR :: "('l, ptr) t_list_more \<Rightarrow> ptr \<Rightarrow> nat \<Rightarrow> int option \<Rightarrow> 'l mapa \<Rightarrow> (int option \<times> 'l mapa) option" where
  "quantum_RR L entrenador 0 respuesta s = Some (respuesta, s)"
| "quantum_RR L entrenador (Suc q) respuesta s = do {
     (r, s) \<leftarrow> atenderSolicitud L entrenador s;
     let s = emit [Sem_post_dibujo] s;
     if r \<noteq> TURNO_NORMAL then Some (Some r, s) else quantum_RR L entrenador q (Some r) s
   }"

definition volver_a_listos :: "('l, ptr) t_list_more \<Rightarrow> bool \<Rightarrow> ptr \<Rightarrow> 'l mapa \<Rightarrow> 'l mapa option" where
  "volver_a_listos L informar entrenador s = do {
     let s = emit [Mutex_lock Cola_listos] s;
     let s = s\<lparr>colaListos := list_add L (colaListos s) entrenador\<rparr>;
     s \<leftarrow> (if informar then informar_contenido_cola L (colaListos s) s else Some s);
     Some (emit [Mutex_unlock Cola_listos] s)
   }"

definition fin_rafaga_RR :: "nat \<Rightarrow> ('l, ptr) t_list_more \<Rightarrow> ptr \<Rightarrow> int \<Rightarrow> 'l mapa \<Rightarrow> 'l mapa option" where
  "fin_rafaga_RR k L entrenador respuesta s =
     (if respuesta = DESCONEXION then desconectar k L entrenador s
      else if respuesta = NO_ENCONTRO_POKEMON then bloquearEntrenador L entrenador s
      else volver_a_listos L True entrenador s)"

definition ejecutarRafagaRR :: "nat \<Rightarrow> ('l, ptr) t_list_more \<Rightarrow> 'l mapa \<Rightarrow> 'l mapa option" where
  "ejecutarRafagaRR k L s =
     (case list_remove L (colaListos s) 0 of
       (None, _) \<Rightarrow> Some s
     | (Some entrenador, cola) \<Rightarrow> do {
         let s = (emit [Mutex_lock Cola_listos] s)\<lparr>colaListos := cola\<rparr>;
         e \<leftarrow> ents s entrenador;
         s \<leftarrow> informar_contenido_cola L (colaListos s) s;
         let s = emit [Mutex_unlock Cola_listos] s;
         (respuesta, s) \<leftarrow> quantum_RR L entrenador (nat (quantum s)) None s;
         r \<leftarrow> respuesta;
         fin_rafaga_RR k L entrenador r s
       })"

section \<open>Shortest remaining distance first\<close>

definition buscarEntrenadorSinDistanciaDefinida :: "('l, ptr) t_list_more \<Rightarrow> 'l mapa \<Rightarrow> (ptr option \<times> 'l) option" where
  "buscarEntrenadorSinDistanciaDefinida L s =
     list_remove_by_condition L (colaListos s) (\<lambda>p. map_option (\<lambda>e. pokenest_buscada e = 0) (ents s p))"

text \<open>The distance of a trainer to the nest it looks for; coordinates of a nest are signed chars.\<close>

definition distancia :: "('l, ptr) t_list_more \<Rightarrow> 'l mapa \<Rightarrow> ptr \<Rightarrow> int option" where
  "distancia L s p = do {
     e \<leftarrow> ents s p;
     found \<leftarrow> buscarPokenest L (pokenest_buscada e) s;
     q \<leftarrow> found;
     pokenest \<leftarrow> nests s q;
     Some (\<bar>sint (nest_posx pokenest) - posx e\<bar> + \<bar>sint (nest_posy pokenest) - posy e\<bar>)
   }"

definition menor_distancia_a_pokenest :: "('l, ptr) t_list_more \<Rightarrow> 'l mapa \<Rightarrow> ptr \<Rightarrow> ptr \<Rightarrow> bool option" where
  "menor_distancia_a_pokenest L s p q = do {
     dist1 \<leftarrow> distancia L s p;
     dist2 \<leftarrow> distancia L s q;
     Some (dist1 < dist2)
   }"

definition buscarEntrenadorConMenorDistancia :: "('l, ptr) t_list_more \<Rightarrow> 'l mapa \<Rightarrow> (ptr option \<times> 'l) option" where
  "buscarEntrenadorConMenorDistancia L s = do {
     listaAux \<leftarrow> list_sort L (list_add_all L (list_create L) (colaListos s)) (menor_distancia_a_pokenest L s);
     entrenador \<leftarrow> list_get L listaAux 0;
     e \<leftarrow> ents s entrenador;
     buscarEntrenador L (ent_id e) (colaListos s) s
   }"

text \<open>The burst runs until something other than a plain turn comes.\<close>

partial_function (option) rafaga_SRDF :: "('l, ptr) t_list_more \<Rightarrow> ptr \<Rightarrow> 'l mapa \<Rightarrow> (int \<times> 'l mapa) option" where
  "rafaga_SRDF L entrenador s = do {
     (respuesta, s) \<leftarrow> atenderSolicitud L entrenador s;
     if respuesta = TURNO_NORMAL then rafaga_SRDF L entrenador (emit [Sem_post_dibujo] s)
     else Some (respuesta, emit [Sem_post_dibujo] s)
   }"

definition ejecutarRafagaSRDF :: "nat \<Rightarrow> ('l, ptr) t_list_more \<Rightarrow> 'l mapa \<Rightarrow> 'l mapa option" where
  "ejecutarRafagaSRDF k L s = do {
     (sin_distancia, cola) \<leftarrow> buscarEntrenadorSinDistanciaDefinida L s;
     case sin_distancia of
       Some entrenador \<Rightarrow> do {
         e \<leftarrow> ents s entrenador;
         (respuesta, s) \<leftarrow> atenderSolicitud L entrenador (s\<lparr>colaListos := cola\<rparr>);
         if respuesta = DESCONEXION then desconectar k L entrenador s
         else if respuesta = NO_ENCONTRO_POKEMON then bloquearEntrenador L entrenador s
         else volver_a_listos L False entrenador s
       }
     | None \<Rightarrow>
         if list_size L (colaListos s) = 0 then Some s
         else do {
           (found, cola) \<leftarrow> buscarEntrenadorConMenorDistancia L s;
           entrenador \<leftarrow> found;
           (respuesta, s) \<leftarrow> rafaga_SRDF L entrenador (s\<lparr>colaListos := cola\<rparr>);
           if respuesta = NO_ENCONTRO_POKEMON then bloquearEntrenador L entrenador s
           else if respuesta = DESCONEXION then desconectar k L entrenador s
           else if respuesta = CAPTURO_POKEMON then volver_a_listos L False entrenador s
           else Some s
         }
   }"

text \<open>One round of the planner's loop.\<close>

definition planificar :: "nat \<Rightarrow> ('l, ptr) t_list_more \<Rightarrow> 'l mapa \<Rightarrow> 'l mapa option" where
  "planificar k L s =
     (if algoritmo s = ascii ''RR'' then ejecutarRafagaRR k L s else ejecutarRafagaSRDF k L s)"

section \<open>The select loop\<close>

text \<open>A new connection, accepted on socket \<open>fd\<close>.\<close>

definition nueva_conexion :: "('l, ptr) t_list_more \<Rightarrow> byte \<Rightarrow> int \<Rightarrow> 'l mapa \<Rightarrow> 'l mapa option" where
  "nueva_conexion L sizeof_ptr fd s = do {
     ((sim, nombre), s) \<leftarrow> handshake sizeof_ptr fd s;
     let (p, s) = crearEntrenador L fd sim nombre s;
     let s = emit [CrearPersonaje sim 1 1] s;
     let s = s\<lparr>entrenadores := list_add L (entrenadores s) p\<rparr>;
     let s = emit [Sem_post_dibujo, Mutex_lock Cola_listos] s;
     let s = s\<lparr>colaListos := list_add L (colaListos s) p\<rparr>;
     s \<leftarrow> informar_contenido_cola L (colaListos s) s;
     Some (emit [Mutex_unlock Cola_listos] s)
   }"

text \<open>
  Something readable on the socket \<open>a\<close> of a trainer. The trainer is taken out of the queue of the
  blocked before the code knows whether it went away.
\<close>

definition evento_bloqueado :: "nat \<Rightarrow> ('l, ptr) t_list_more \<Rightarrow> int \<Rightarrow> 'l mapa \<Rightarrow> 'l mapa option" where
  "evento_bloqueado k L a s = do {
     let s = emit [Mutex_lock Deadlock_ejecutando, Mutex_lock Turno_desbloqueo] s;
     (encontrado, cola) \<leftarrow> buscarEntrenador L a (colaBloqueados s) s;
     let s = emit [Mutex_unlock Turno_desbloqueo, Mutex_unlock Deadlock_ejecutando] (s\<lparr>colaBloqueados := cola\<rparr>);
     case encontrado of
       None \<Rightarrow> Some s
     | Some entrenador \<Rightarrow>
         let (buf, s) = recv_fd a 512 s in
         if buf = [] then do {
           e \<leftarrow> ents s entrenador;
           desconectar k L entrenador (emit [Fd_clr (ent_id e)] s)
         } else Some s
   }"

end
