(* ===== verification/Mapa_Liberar.thy ===== *)
theory Mapa_Liberar
  imports Mapa_Requests Mapa_Planificacion
begin

text \<open>
  Taking a trainer apart: \<^verbatim>\<open>liberarRecursos2\<close> hands each pokemon to the first blocked trainer that waits
  for it, or back to its nest. Nothing gets lost, the trainers that got one are ready again.
\<close>

text \<open>The queues: trainers that exist, none twice, each with its own socket.\<close>

definition colas_ok :: "('l \<Rightarrow> ptr list) \<Rightarrow> 'l mapa \<Rightarrow> bool" where
  "colas_ok elems s \<longleftrightarrow> distinct (elems (colaListos s) @ elems (colaBloqueados s))
     \<and> set (elems (colaListos s)) \<subseteq> dom (ents s) \<and> set (elems (colaBloqueados s)) \<subseteq> dom (ents s)
     \<and> set (elems (entrenadores s)) \<subseteq> dom (ents s)
     \<and> inj_on (\<lambda>p. map_option ent_id (ents s p)) (dom (ents s))"

text \<open>Does \<open>q\<close> wait for a pokemon of the nest \<open>c\<close>?\<close>

definition espera :: "'l mapa \<Rightarrow> byte \<Rightarrow> ptr \<Rightarrow> bool" where
  "espera s c q \<longleftrightarrow> (\<exists>e. ents s q = Some e \<and> pokenest_buscada e = c)"

text \<open>The result of taking \<open>p\<close> apart: the trainers \<open>us\<close> got one of its pokemons and are ready.\<close>

definition repartido :: "('l \<Rightarrow> ptr list) \<Rightarrow> ptr \<Rightarrow> ptr list \<Rightarrow> 'l mapa \<Rightarrow> ptr list \<Rightarrow> 'l mapa \<Rightarrow> bool" where
  "repartido elems p ps s us s' \<longleftrightarrow> keeps elems s s' \<and> ents s' p = None \<and> streams s' = streams s
     \<and> dom (ents s') = dom (ents s) - {p}
     \<and> elems (colaListos s') = elems (colaListos s) @ us
     \<and> mset (elems (colaBloqueados s)) = mset us + mset (elems (colaBloqueados s'))
     \<and> (\<forall>u \<in> set us. \<exists>i \<in> set ps. \<exists>x. infos s i = Some x \<and> espera s (id_pokenest x) u)
     \<and> (\<forall>q \<in> set (elems (colaBloqueados s')). ents s' q = ents s q)
     \<and> (\<forall>q \<in> set (elems (colaBloqueados s')). \<forall>r n. nests s r = Some n \<longrightarrow> espera s' (nest_id n) q \<longrightarrow>
           nests s' r = Some n)"

text \<open>The blocked trainer \<open>b\<close> got the pokemon \<open>i\<close> and is ready.\<close>

definition entregado :: "('l, ptr) t_list_more \<Rightarrow> ('l \<Rightarrow> ptr list) \<Rightarrow> ptr \<Rightarrow> ptr \<Rightarrow> 'l mapa \<Rightarrow> 'l mapa \<Rightarrow> bool" where
  "entregado L elems i b s s' \<longleftrightarrow>
     (\<exists>e. ents s b = Some e
        \<and> ents s' = (ents s)(b \<mapsto> e\<lparr>pokemons := list_add L (pokemons e) i, pokenest_buscada := 0\<rparr>))
     \<and> nests s' = nests s \<and> infos s' = infos s \<and> listaPokenests s' = listaPokenests s
     \<and> entrenadores s' = entrenadores s \<and> streams s' = streams s
     \<and> elems (colaListos s') = elems (colaListos s) @ [b]
     \<and> elems (colaBloqueados s') = remove1 b (elems (colaBloqueados s)) \<and> colas_ok elems s'"

lemma repartido_step:
  assumes keeps: "keeps elems s s2" and "streams s2 = streams s" and "dom (ents s2) = dom (ents s)"
    and "elems (colaListos s2) = elems (colaListos s) @ ws"
    and "mset (elems (colaBloqueados s)) = mset ws + mset (elems (colaBloqueados s2))"
    and ws: "infos s i = Some x" "\<forall>u \<in> set ws. espera s (id_pokenest x) u"
    and same: "\<forall>q \<in> set (elems (colaBloqueados s2)). ents s2 q = ents s q"
    and nest: "\<forall>q \<in> set (elems (colaBloqueados s2)). \<forall>r n. nests s r = Some n \<longrightarrow> espera s (nest_id n) q \<longrightarrow>
           nests s2 r = Some n"
    and rest: "repartido elems p ps s2 us s'"
  shows "repartido elems p (i # ps) s (ws @ us) s'"
proof -
  have b: "mset (elems (colaBloqueados s2)) = mset us + mset (elems (colaBloqueados s'))"
    using rest by (simp add: repartido_def)
  have sub: "set us \<subseteq> set (elems (colaBloqueados s2))"
    "set (elems (colaBloqueados s')) \<subseteq> set (elems (colaBloqueados s2))"
    using arg_cong [OF b, of set_mset] by auto
  have esp: "espera s2 c q = espera s c q" if "q \<in> set (elems (colaBloqueados s2))" for c q
    using same that by (simp add: espera_def)
  have same': "ents s' q = ents s q" if "q \<in> set (elems (colaBloqueados s'))" for q
    using rest same sub that by (auto simp: repartido_def)
  have "nests s' r = Some n" if q: "q \<in> set (elems (colaBloqueados s'))" and n: "nests s r = Some n"
    and e: "espera s' (nest_id n) q" for q r n
  proof -
    have "espera s (nest_id n) q" using e same' [OF q] by (simp add: espera_def)
    then have "nests s2 r = Some n" using nest q n sub(2) by blast
    then show ?thesis using rest q e by (simp add: repartido_def)
  qed
  moreover have "\<exists>j \<in> set (i # ps). \<exists>x. infos s j = Some x \<and> espera s (id_pokenest x) u" if u: "u \<in> set (ws @ us)" for u
  proof (cases "u \<in> set ws")
    case True
    then show ?thesis using ws by auto
  next
    case False
    then have "u \<in> set us" using u by simp
    then obtain j y where "j \<in> set ps" "infos s2 j = Some y" "espera s2 (id_pokenest y) u"
      using rest unfolding repartido_def by blast
    moreover have "infos s2 = infos s" using keeps by (simp add: keeps_def)
    ultimately show ?thesis using esp sub(1) \<open>u \<in> set us\<close> by auto
  qed
  ultimately show ?thesis
    using rest keeps_trans [OF keeps, of s'] same' assms(2-5) by (simp add: repartido_def add.assoc)
qed

lemma mismo_id_eq:
  assumes "inj_on (\<lambda>p. map_option ent_id (ents s p)) (dom (ents s))" and "ents s b = Some e" and "q \<in> dom (ents s)"
  shows "mismo_id (ent_id e) s q = Some (q = b)"
proof -
  obtain f where f: "ents s q = Some f" using assms(3) by blast
  have "ent_id f = ent_id e \<longleftrightarrow> q = b"
    using inj_onD [OF assms(1), of q b] assms(2,3) f by auto
  then show ?thesis by (simp add: mismo_id_def f)
qed

lemma find_opt_mem: "(\<And>q. q \<in> set xs \<Longrightarrow> P q = Some (q = b)) \<Longrightarrow>
    find_opt P xs = Some (if b \<in> set xs then Some b else None)"
  by (induction xs) auto

lemma remove_opt_mem: "(\<And>q. q \<in> set xs \<Longrightarrow> P q = Some (q = b)) \<Longrightarrow>
    remove_opt P xs = Some (if b \<in> set xs then Some b else None, remove1 b xs)"
  by (induction xs) auto

context map_lists
begin

lemma informar_ok:
  assumes "set (elems cola) \<subseteq> dom (ents s)"
  shows "informar_contenido_cola L cola s = Some s"
proof -
  have "case list_get L cola i of None \<Rightarrow> False | Some p \<Rightarrow> ents s p \<noteq> None" if "i < length (elems cola)" for i
  proof -
    have "elems cola ! i \<in> dom (ents s)" using assms nth_mem [OF that] by blast
    then show ?thesis using that by (auto simp: get_eq)
  qed
  then show ?thesis by (simp add: informar_contenido_cola_def list_all_iff size_eq)
qed

lemma buscarEntrenador_ok:
  assumes "set (elems l) \<subseteq> dom (ents s)" and inj: "inj_on (\<lambda>p. map_option ent_id (ents s p)) (dom (ents s))"
    and b: "ents s b = Some e"
  obtains l' where "buscarEntrenador L (ent_id e) l s = Some (if b \<in> set (elems l) then Some b else None, l')"
    and "elems l' = remove1 b (elems l)"
proof -
  have P: "mismo_id (ent_id e) s q = Some (q = b)" if "q \<in> set (elems l)" for q
    using mismo_id_eq [OF inj b] that assms(1) by blast
  obtain l' where "list_remove_by_condition L l (mismo_id (ent_id e) s)
      = Some (if b \<in> set (elems l) then Some b else None, l')" and l': "elems l' = remove1 b (elems l)"
    using remove_by_Some [OF remove_opt_mem [OF P]] by blast
  then have "buscarEntrenador L (ent_id e) l s = Some (if b \<in> set (elems l) then Some b else None, l')"
    by (simp add: buscarEntrenador_def find_eq find_opt_mem [OF P])
  then show thesis using l' by (rule that)
qed

text \<open>A blocked trainer becomes ready.\<close>

lemma desbloquear_ok:
  assumes ok: "colas_ok elems s" and b: "b \<in> set (elems (colaBloqueados s))"
  obtains cl cb cs where "desbloquearEntrenador L b s
      = Some (emit cs (s\<lparr>colaBloqueados := cb, colaListos := cl\<rparr>))"
    and "elems cl = elems (colaListos s) @ [b]" and "elems cb = remove1 b (elems (colaBloqueados s))"
proof -
  obtain e where e: "ents s b = Some e" using ok b by (auto simp: colas_ok_def)
  obtain cb where cb: "buscarEntrenador L (ent_id e) (colaBloqueados s) s = Some (Some b, cb)"
      "elems cb = remove1 b (elems (colaBloqueados s))"
    using buscarEntrenador_ok [of "colaBloqueados s" s b e] ok b e by (auto simp: colas_ok_def)
  let ?cl = "list_add L (colaListos s) b"
  have cl: "elems ?cl = elems (colaListos s) @ [b]" by (simp add: elems_add)
  let ?s = "emit [Fd_clr (ent_id e)] (s\<lparr>colaBloqueados := cb, colaListos := ?cl\<rparr>)"
  have "informar_contenido_cola L ?cl ?s = Some ?s"
    using ok e by (intro informar_ok) (auto simp: cl colas_ok_def)
  then have "desbloquearEntrenador L b s = Some ?s" by (simp add: desbloquearEntrenador_def e cb)
  then show thesis using cl cb(2) by (rule that)
qed

lemma colas_ok_move:
  assumes ok: "colas_ok elems s" and b: "b \<in> set (elems (colaBloqueados s))"
    and "elems (colaListos s') = elems (colaListos s) @ [b]"
    and "elems (colaBloqueados s') = remove1 b (elems (colaBloqueados s))"
    and "entrenadores s' = entrenadores s" "\<And>q. map_option ent_id (ents s' q) = map_option ent_id (ents s q)"
  shows "colas_ok elems s'"
proof -
  have d: "dom (ents s') = dom (ents s)"
  proof (rule set_eqI)
    fix q show "q \<in> dom (ents s') \<longleftrightarrow> q \<in> dom (ents s)"
      using assms(6) [of q] by (cases "ents s q"; cases "ents s' q") auto
  qed
  have "set (remove1 b (elems (colaBloqueados s))) = set (elems (colaBloqueados s)) - {b}"
    using ok by (simp add: colas_ok_def)
  then show ?thesis using ok b unfolding colas_ok_def assms(3-6) d by auto
qed

text \<open>What it means that trainer \<open>b\<close> got the pokemon \<open>i\<close> while it was blocked.\<close>

lemma ofrecer_one:
  assumes ok: "colas_ok elems s" and b: "b \<in> set (elems (colaBloqueados s))" and e: "ents s b = Some e"
    and i: "infos s i = Some x"
  obtains s1 s' where "notificar_captura_pokemon i b
        (upd_ent b (\<lambda>e. e\<lparr>pokemons := list_add L (pokemons e) i\<rparr>) s) = Some s1"
    and "desbloquearEntrenador L b s1 = Some s'"
    and "entregado L elems i b s s'"
proof -
  let ?s0 = "upd_ent b (\<lambda>e. e\<lparr>pokemons := list_add L (pokemons e) i\<rparr>) s"
  obtain s1 where s1: "notificar_captura_pokemon i b ?s0 = Some s1"
    using e i by (simp add: notificar_captura_pokemon_def Let_def)
  then obtain cs where cs: "s1 = upd_ent b (\<lambda>e. e\<lparr>pokenest_buscada := 0\<rparr>) (emit cs ?s0)"
    using notificar_form by blast
  have ents: "ents s1 = (ents s)(b \<mapsto> e\<lparr>pokemons := list_add L (pokemons e) i, pokenest_buscada := 0\<rparr>)"
    using e by (simp add: cs)
  have ids: "map_option ent_id (ents s1 q) = map_option ent_id (ents s q)" for q using e by (simp add: ents)
  have d: "dom (ents s1) = dom (ents s)" using e by (auto simp: ents)
  have ok1: "colas_ok elems s1" using ok unfolding colas_ok_def ids d by (simp add: cs)
  have b1: "b \<in> set (elems (colaBloqueados s1))" using b by (simp add: cs)
  obtain cl cb ds where s': "desbloquearEntrenador L b s1
      = Some (emit ds (s1\<lparr>colaBloqueados := cb, colaListos := cl\<rparr>))"
    and q: "elems cl = elems (colaListos s1) @ [b]" "elems cb = remove1 b (elems (colaBloqueados s1))"
    by (rule desbloquear_ok [OF ok1 b1])
  have "colas_ok elems (emit ds (s1\<lparr>colaBloqueados := cb, colaListos := cl\<rparr>))"
    using q by (intro colas_ok_move [OF ok1 b1]) simp_all
  then show thesis by (intro that [OF s1 s']) (use e ents q in \<open>simp add: entregado_def cs\<close>)
qed

lemma ofrecer_runs:
  assumes ok: "colas_ok elems s" and ult: "\<forall>q e. ents s q = Some e \<longrightarrow> ultimo_pokemon e = 0"
    and i: "infos s i = Some x"
  shows "length (elems (colaBloqueados s)) < k + j \<Longrightarrow> j \<le> length (elems (colaBloqueados s)) \<Longrightarrow>
    (\<forall>b \<in> set (drop j (elems (colaBloqueados s))). \<not> espera s (id_pokenest x) b) \<and> ofrecer k L i j s = Some (False, s)
    \<or> (\<exists>b s'. b \<in> set (drop j (elems (colaBloqueados s))) \<and> espera s (id_pokenest x) b
       \<and> ofrecer k L i j s = Some (True, s') \<and> entregado L elems i b s s')"
proof (induction k arbitrary: j)
  case 0
  then show ?case by simp
next
  case (Suc k)
  show ?case
  proof (cases "j < length (elems (colaBloqueados s))")
    case False
    then show ?thesis using Suc.prems by (simp add: size_eq)
  next
    case True
    let ?b = "elems (colaBloqueados s) ! j"
    have mem: "?b \<in> set (elems (colaBloqueados s))" using True by simp
    then obtain e where e: "ents s ?b = Some e" using ok by (auto simp: colas_ok_def)
    have get: "list_get L (colaBloqueados s) j = Some ?b" "j < list_size L (colaBloqueados s)"
      using True by (simp_all add: get_eq size_eq)
    have dr: "drop j (elems (colaBloqueados s)) = ?b # drop (Suc j) (elems (colaBloqueados s))"
      by (rule Cons_nth_drop_Suc [OF True, symmetric])
    show ?thesis
    proof (cases "pokenest_buscada e = id_pokenest x")
      case False
      then have "ofrecer (Suc k) L i j s = ofrecer k L i (Suc j) s" using get e i by simp
      moreover have "\<not> espera s (id_pokenest x) ?b" using e False by (simp add: espera_def)
      moreover have "length (elems (colaBloqueados s)) < k + Suc j" "Suc j \<le> length (elems (colaBloqueados s))"
        using Suc.prems True by simp_all
      ultimately show ?thesis using Suc.IH [of "Suc j"] unfolding dr by auto
    next
      case True
      obtain s1 s' where s1: "notificar_captura_pokemon i ?b
            (upd_ent ?b (\<lambda>e. e\<lparr>pokemons := list_add L (pokemons e) i\<rparr>) s) = Some s1"
          "desbloquearEntrenador L ?b s1 = Some s'"
        and s': "entregado L elems i ?b s s'"
        by (rule ofrecer_one [OF ok mem e i])
      have "ofrecer (Suc k) L i j s = Some (True, s')" using get e i True s1 ult by simp
      moreover have "espera s (id_pokenest x) ?b" using e True by (simp add: espera_def)
      ultimately show ?thesis using s' unfolding dr
        by (intro disjI2 exI [of _ ?b] exI [of _ s']) simp
    qed
  qed
qed

lemma buscarPokenest_ok:
  assumes fixed: "fixed_ok elems s" and "p \<in> set (elems (listaPokenests s))" "nests s p = Some n" "nest_id n = c"
  obtains q m where "buscarPokenest L c s = Some (Some q)" and "q \<in> set (elems (listaPokenests s))"
    and "nests s q = Some m" and "nest_id m = c"
proof -
  let ?P = "\<lambda>p. map_option (\<lambda>n. nest_id n = c) (nests s p)"
  have run: "set xs \<subseteq> dom (nests s) \<Longrightarrow> p \<in> set xs \<Longrightarrow>
      \<exists>q m. find_opt ?P xs = Some (Some q) \<and> q \<in> set xs \<and> nests s q = Some m \<and> nest_id m = c" for xs
    using assms(3,4) by (induction xs) auto
  have "set (elems (listaPokenests s)) \<subseteq> dom (nests s)" using fixed by (simp add: fixed_ok_def)
  then obtain q m where "find_opt ?P (elems (listaPokenests s)) = Some (Some q)" "q \<in> set (elems (listaPokenests s))"
      "nests s q = Some m" "nest_id m = c"
    using run [OF _ assms(2)] by blast
  then show thesis using that by (simp add: buscarPokenest_def find_eq)
qed

lemma borrar_ok:
  assumes "set (elems (entrenadores s)) \<subseteq> dom (ents s)"
  shows "\<exists>cs l. borrar_de_entrenadores L sim n i s = Some (emit cs (s\<lparr>entrenadores := l\<rparr>))
    \<and> set (elems l) \<subseteq> set (elems (entrenadores s))"
  using assms
proof (induction n arbitrary: i s)
  case 0
  then show ?case by (intro exI [of _ "[]"] exI [of _ "entrenadores s"]) (simp add: emit_def)
next
  case (Suc n)
  show ?case
  proof (cases "i < length (elems (entrenadores s))")
    case False
    then show ?thesis
      by (intro exI [of _ "[]"] exI [of _ "entrenadores s"]) (simp add: emit_def size_eq)
  next
    case True
    obtain e where e: "ents s (elems (entrenadores s) ! i) = Some e" using Suc.prems nth_mem [OF True] by auto
    let ?l = "snd (list_remove L (entrenadores s) i)"
    let ?c = "[Mutex_lock Lista_entrenador, Mutex_unlock Lista_entrenador]"
    have "elems ?l = take i (elems (entrenadores s)) @ drop (Suc i) (elems (entrenadores s))"
      using remove_eq [of "entrenadores s" i] True by (cases "list_remove L (entrenadores s) i") simp
    then have l: "set (elems ?l) \<subseteq> set (elems (entrenadores s))"
      by (auto dest: in_set_takeD in_set_dropD)
    let ?s = "emit ?c (s\<lparr>entrenadores := ?l\<rparr>)"
    show ?thesis
    proof (cases "simbolo e = sim")
      case sim: True
      have "set (elems (entrenadores ?s)) \<subseteq> dom (ents ?s)" using l Suc.prems by auto
      then obtain cs l' where "borrar_de_entrenadores L sim n (Suc i) ?s = Some (emit cs (?s\<lparr>entrenadores := l'\<rparr>))"
          "set (elems l') \<subseteq> set (elems ?l)"
        using Suc.IH [of ?s "Suc i"] by auto
      then show ?thesis using True e sim l
        by (intro exI [of _ "?c @ cs"] exI [of _ l']) (auto simp: get_eq size_eq emit_def)
    next
      case False
      then show ?thesis using Suc True e by (simp add: get_eq size_eq)
    qed
  qed
qed

lemma liberarEntrenador_ok:
  assumes "colas_ok elems s" and e: "ents s p = Some e" and "elems (pokemons e) = []"
  obtains s' where "liberarEntrenador L p s = Some s'" and "keeps elems s s'"
    and "ents s' = (ents s)(p := None)" "nests s' = nests s" "colaListos s' = colaListos s"
    and "colaBloqueados s' = colaBloqueados s" "streams s' = streams s"
    and "set (elems (entrenadores s')) \<subseteq> set (elems (entrenadores s))"
proof -
  obtain cs l where b: "borrar_de_entrenadores L (simbolo e) (list_size L (entrenadores s)) 0 s
      = Some (emit cs (s\<lparr>entrenadores := l\<rparr>))" and l: "set (elems l) \<subseteq> set (elems (entrenadores s))"
    using borrar_ok [of s "simbolo e" "list_size L (entrenadores s)" 0] assms(1) unfolding colas_ok_def by blast
  let ?s1 = "s\<lparr>ents := (ents s)(p := None)\<rparr>"
  let ?s = "emit [BorrarItem (simbolo e)] (emit cs (s\<lparr>entrenadores := l\<rparr>))"
  have "keeps elems s ?s1" by (rule keeps_free [where elems = elems, OF assms(2,3)])
  also have "keeps elems ?s1 (?s\<lparr>ents := (ents ?s)(p := None)\<rparr>)" by (rule keeps_cong) (simp_all add: emit_def)
  finally have "keeps elems s (?s\<lparr>ents := (ents ?s)(p := None)\<rparr>)" .
  then show thesis using l b e
    by (intro that [of "?s\<lparr>ents := (ents ?s)(p := None)\<rparr>"]) (simp_all add: liberarEntrenador_def emit_def)
qed

lemma devolver_ok:
  assumes ok: "mapa_ok elems s" and e: "ents s p = Some e" and out: "elems (pokemons e) = i # elems l"
    and i: "infos s i = Some x"
  obtains q n s' where "devolver L i (upd_ent p (\<lambda>e. e\<lparr>pokemons := l\<rparr>) s) = Some s'" and "keeps elems s s'"
    and "nests s q = Some n" "nest_id n = id_pokenest x"
    and "\<And>r. r \<noteq> q \<Longrightarrow> nests s' r = nests s r"
    and "ents s' = (ents s)(p \<mapsto> e\<lparr>pokemons := l\<rparr>)" "colaListos s' = colaListos s"
    and "colaBloqueados s' = colaBloqueados s" "streams s' = streams s" "entrenadores s' = entrenadores s"
proof -
  let ?s1 = "upd_ent p (\<lambda>e. e\<lparr>pokemons := l\<rparr>) s"
  obtain r n0 where r: "r \<in> set (elems (listaPokenests ?s1))" "nests ?s1 r = Some n0" "nest_id n0 = id_pokenest x"
    using mapa_ok_parts(6) [OF ok] i unfolding fixed_ok_def ents_upd by blast
  have fixed: "fixed_ok elems ?s1"
    by (rule fixed_ok_step [OF mapa_ok_parts(6) [OF ok]]) simp_all
  obtain q n where q0: "buscarPokenest L (id_pokenest x) ?s1 = Some (Some q)"
      "q \<in> set (elems (listaPokenests ?s1))" "nests ?s1 q = Some n" "nest_id n = id_pokenest x"
    by (rule buscarPokenest_ok [OF fixed r])
  then have q: "buscarPokenest L (id_pokenest x) ?s1 = Some (Some q)" "nests s q = Some n" "nest_id n = id_pokenest x"
    by simp_all
  let ?l = "list_add L (listaPokemons n) i"
  let ?s2 = "upd_nest q (\<lambda>n. n\<lparr>cantidad := cantidad n + 1, listaPokemons := ?l\<rparr>) ?s1"
  let ?s = "emit [SumarRecurso (id_pokenest x)] (upd_nest q (\<lambda>n. n\<lparr>cantidad := cantidad n + 1\<rparr>)
     (upd_nest q (\<lambda>n. n\<lparr>listaPokemons := list_add L (listaPokemons n) i\<rparr>) ?s1))"
  have "keeps elems s ?s2"
    by (rule keeps_return [OF e q(2) i q(3) [symmetric] out]) (simp add: elems_add)
  also have "keeps elems ?s2 ?s" using q(2) by (intro keeps_cong) (auto simp: fun_eq_iff)
  finally have "keeps elems s ?s" .
  moreover have "devolver L i ?s1 = Some ?s" using i q(1,2) by (simp add: devolver_def)
  ultimately show thesis using q e by (intro that [of ?s q n]) simp_all
qed

lemma liberarRecursos2_runs:
  assumes "mapa_ok elems s" and "colas_ok elems s" and "ents s p = Some e"
    and "p \<notin> set (elems (colaBloqueados s))"
    and "length (elems (pokemons e)) + length (elems (colaBloqueados s)) + 2 \<le> k"
  shows "\<exists>s' us. liberarRecursos2 k L p s = Some s' \<and> repartido elems p (elems (pokemons e)) s us s'"
  using assms
proof (induction "elems (pokemons e)" arbitrary: s e k)
  case Nil
  then obtain k' where k: "k = Suc k'" by (cases k) auto
  obtain l where "list_remove L (pokemons e) 0 = (None, l)" using remove_first_Nil Nil.hyps by metis
  moreover obtain s' where s': "liberarEntrenador L p s = Some s'" "keeps elems s s'"
      "ents s' = (ents s)(p := None)" "nests s' = nests s" "colaListos s' = colaListos s"
      "colaBloqueados s' = colaBloqueados s" "streams s' = streams s"
      "set (elems (entrenadores s')) \<subseteq> set (elems (entrenadores s))"
    by (rule liberarEntrenador_ok [OF Nil.prems(2,3) Nil.hyps [symmetric]])
  moreover have "repartido elems p (elems (pokemons e)) s [] s'"
    using s' Nil.prems(4) by (auto simp: repartido_def)
  ultimately show ?case using Nil.prems(3) k by auto
next
  case (Cons i ps)
  then obtain k' where k: "k = Suc k'" by (cases k) auto
  have le: "length ps + length (elems (colaBloqueados s)) + 2 \<le> k'"
    using Cons.prems(5) arg_cong [OF Cons.hyps(2), of length] k by simp
  obtain l where l: "list_remove L (pokemons e) 0 = (Some i, l)" "elems l = ps"
    using remove_first_Cons Cons.hyps(2) by metis
  obtain x where x: "infos s i = Some x"
    using mapa_ok_parts(4) [OF Cons.prems(1,3)] Cons.hyps(2) by (auto simp: ent_ok_def) (metis domD list.set_intros(1) subsetD)
  let ?s1 = "upd_ent p (\<lambda>e. e\<lparr>pokemons := l\<rparr>) s"
  let ?e = "e\<lparr>pokemons := l\<rparr>"
  have e1: "ents ?s1 p = Some ?e" using Cons.prems(3) by simp
  have ids: "map_option ent_id (ents ?s1 q) = map_option ent_id (ents s q)" for q using Cons.prems(3) by simp
  have d: "dom (ents ?s1) = dom (ents s)" by (auto split: if_splits)
  have ok1: "colas_ok elems ?s1" using Cons.prems(2) unfolding colas_ok_def ids d by simp
  have "ultimo_pokemon f = 0" if "ents ?s1 q = Some f" for q f
    using that mapa_ok_parts(4) [OF Cons.prems(1)] Cons.prems(3) by (auto simp: ent_ok_def split: if_splits)
  then have ult: "\<forall>q f. ents ?s1 q = Some f \<longrightarrow> ultimo_pokemon f = 0" by blast
  have esp: "espera ?s1 c q = espera s c q" for c q using Cons.prems(3) by (simp add: espera_def)
  have run: "liberarRecursos2 k L p s = do {
         (pokemon_asignado, s) \<leftarrow> ofrecer k' L i 0 ?s1;
         s \<leftarrow> (if pokemon_asignado then Some s else devolver L i s);
         liberarRecursos2 k' L p s }"
    using Cons.prems(3) l(1) by (simp add: k)
  note q = ofrecer_runs [where i = i and x = x and k = k' and j = 0, OF ok1 ult]
  have "length (elems (colaBloqueados ?s1)) < k'" using le by simp
  then consider (nobody) "\<forall>b \<in> set (elems (colaBloqueados s)). \<not> espera s (id_pokenest x) b"
      "ofrecer k' L i 0 ?s1 = Some (False, ?s1)"
    | (given) b s2 where "b \<in> set (elems (colaBloqueados s))" "espera s (id_pokenest x) b"
      "ofrecer k' L i 0 ?s1 = Some (True, s2)" "entregado L elems i b ?s1 s2"
    using q x unfolding esp ents_upd drop0 add_0_right using le0 by blast
  then show ?case
  proof cases
    case nobody
    obtain r n s2 where s2: "devolver L i ?s1 = Some s2" "keeps elems s s2"
      "nests s r = Some n" "nest_id n = id_pokenest x" "\<And>r'. r' \<noteq> r \<Longrightarrow> nests s2 r' = nests s r'"
      "ents s2 = (ents s)(p \<mapsto> ?e)" "colaListos s2 = colaListos s"
      "colaBloqueados s2 = colaBloqueados s" "streams s2 = streams s" "entrenadores s2 = entrenadores s"
      using devolver_ok [OF Cons.prems(1,3) _ x, of l] Cons.hyps(2) l(2) by metis
    have "colas_ok elems s2" using ok1 Cons.prems(3) by (simp add: colas_ok_def s2)
    moreover have "mapa_ok elems s2" using s2(2) Cons.prems(1) by (simp add: keeps_def)
    moreover have "ents s2 p = Some ?e" "p \<notin> set (elems (colaBloqueados s2))" using Cons.prems(4) by (simp_all add: s2)
    ultimately obtain s' us where s': "liberarRecursos2 k' L p s2 = Some s'" "repartido elems p ps s2 us s'"
      using Cons.hyps(1) [of ?e s2 k'] l(2) le by (auto simp: s2)
    have "repartido elems p (i # ps) s ([] @ us) s'"
    proof (rule repartido_step [OF s2(2) _ _ _ _ x _ _ _ s'(2)])
      show "\<forall>q \<in> set (elems (colaBloqueados s2)). \<forall>r n. nests s r = Some n \<longrightarrow> espera s (nest_id n) q \<longrightarrow>
           nests s2 r = Some n"
        using nobody(1) s2(3-5,8) by (metis option.inject)
    qed (use Cons.prems(3,4) in \<open>auto simp: s2\<close>)
    then show ?thesis using run nobody(2) s2(1) s'(1) Cons.hyps(2) by (intro exI [of _ s'] exI [of _ us]) simp
  next
    case (given b s2)
    have bp: "p \<noteq> b" using given(1) Cons.prems(4) by auto
    obtain f where f: "ents s b = Some f"
      and s2: "ents s2 = (ents ?s1)(b \<mapsto> f\<lparr>pokemons := list_add L (pokemons f) i, pokenest_buscada := 0\<rparr>)"
      "nests s2 = nests s" "infos s2 = infos s" "listaPokenests s2 = listaPokenests s" "streams s2 = streams s"
      "elems (colaListos s2) = elems (colaListos s) @ [b]"
      "elems (colaBloqueados s2) = remove1 b (elems (colaBloqueados s))" "colas_ok elems s2"
      using given(4) bp by (auto simp: entregado_def)
    have "keeps elems s (upd_ent b (\<lambda>e. e\<lparr>pokemons := list_add L (pokemons f) i\<rparr>) ?s1)" (is "keeps _ _ ?t")
      using Cons.hyps(2) l(2) by (intro keeps_give [OF Cons.prems(3) f bp]) (simp_all add: elems_add)
    also have "keeps elems ?t (upd_ent b (\<lambda>e. e\<lparr>pokenest_buscada := 0\<rparr>) ?t)" by (rule keeps_ent) simp_all
    also have "keeps elems (upd_ent b (\<lambda>e. e\<lparr>pokenest_buscada := 0\<rparr>) ?t) s2"
      using f bp s2 by (intro keeps_cong) (auto simp: fun_eq_iff)
    finally have keeps: "keeps elems s s2" .
    moreover have "ents s2 p = Some ?e" using s2(1) e1 bp by simp
    moreover have sub: "set (elems (colaBloqueados s2)) \<subseteq> set (elems (colaBloqueados s)) - {b}"
      using Cons.prems(2) s2(7) by (auto simp: colas_ok_def)
    moreover have "length (elems (colaBloqueados s2)) \<le> length (elems (colaBloqueados s))"
      using given(1) s2(7) by (simp add: length_remove1)
    ultimately obtain s' us where s': "liberarRecursos2 k' L p s2 = Some s'" "repartido elems p ps s2 us s'"
      using Cons.hyps(1) [of ?e s2 k'] l(2) le s2(8) Cons.prems(1,4) by (auto simp: keeps_def)
    have "repartido elems p (i # ps) s ([b] @ us) s'"
    proof (rule repartido_step [OF keeps _ _ _ _ x _ _ _ s'(2)])
      show "\<forall>q \<in> set (elems (colaBloqueados s2)). ents s2 q = ents s q"
        using sub Cons.prems(4) s2(1) by auto
      show "dom (ents s2) = dom (ents s)" using s2(1) Cons.prems(3) f by auto
    qed (use given(1,2) s2 in auto)
    then show ?thesis using run given(3) s'(1) Cons.hyps(2) by (intro exI [of _ s'] exI [of _ "b # us"]) simp
  qed
qed

end

end
