(* ===== verification/Mapa_Scheduler.thy ===== *)
theory Mapa_Scheduler
  imports Mapa_Liberar
begin

text \<open>
  The planner: where a trainer is after its burst, whom the shortest-distance algorithm picks, and a
  burst of moves.
\<close>

lemma colas_ok_frame:
  assumes "colas_ok elems s" and "frame p s s'"
  shows "colas_ok elems s'"
proof -
  have "map_option ent_id (ents s' q) = map_option ent_id (ents s q)" for q
  proof (cases "q = p")
    case True
    then show ?thesis
      using assms(2) by (cases "ents s p"; cases "ents s' p") (auto simp: frame_def)
  qed (use assms(2) in \<open>simp add: frame_def\<close>)
  then show ?thesis using assms by (simp add: colas_ok_def frame_def)
qed

text \<open>Where the trainer \<open>p\<close> is after a turn that answered \<open>r\<close>; \<open>ready\<close> were the others.\<close>

definition turno_hecho :: "('l \<Rightarrow> ptr list) \<Rightarrow> ptr \<Rightarrow> int \<Rightarrow> ptr list \<Rightarrow> 'l mapa \<Rightarrow> 'l mapa \<Rightarrow> bool" where
  "turno_hecho el p r ready s s' \<longleftrightarrow>
     (if r = DESCONEXION then ents s' p = None
        \<and> (\<exists>us. el (colaListos s') = ready @ us \<and> mset (el (colaBloqueados s)) = mset us + mset (el (colaBloqueados s')))
      else if r = NO_ENCONTRO_POKEMON then el (colaListos s') = ready \<and> el (colaBloqueados s') = el (colaBloqueados s) @ [p]
      else el (colaListos s') = ready @ [p] \<and> el (colaBloqueados s') = el (colaBloqueados s))"

context map_lists
begin

lemma quantum_RR_keeps:
  "quantum_RR L p q r s = Some (r', s') \<Longrightarrow> keeps elems s s' \<and> frame p s s'
     \<and> (r' = r \<or> r' \<in> Some ` {TURNO_NORMAL, DESCONEXION, CAPTURO_POKEMON, NO_ENCONTRO_POKEMON})"
proof (induction q arbitrary: r s)
  case (Suc q)
  then obtain a s1 where a: "atenderSolicitud L p s = Some (a, s1)"
    and rest: "(if a \<noteq> TURNO_NORMAL then Some (Some a, emit [Sem_post_dibujo] s1)
      else quantum_RR L p q (Some a) (emit [Sem_post_dibujo] s1)) = Some (r', s')"
    by (auto simp: bind_eq_Some_conv Let_def)
  let ?s1 = "emit [Sem_post_dibujo] s1"
  have one: "keeps elems s ?s1 \<and> frame p s ?s1"
    using atenderSolicitud_keeps [OF a] keeps_trans [OF _ keeps_emit] frame_trans [OF _ frame_emit] by blast
  show ?case
  proof (cases "a = TURNO_NORMAL")
    case True
    then have "keeps elems ?s1 s' \<and> frame p ?s1 s'
        \<and> (r' = Some a \<or> r' \<in> Some ` {TURNO_NORMAL, DESCONEXION, CAPTURO_POKEMON, NO_ENCONTRO_POKEMON})"
      using rest by (intro Suc.IH) simp
    then show ?thesis using one True keeps_trans frame_trans by blast
  next
    case False
    then show ?thesis using rest one atenderSolicitud_keeps [OF a] by auto
  qed
qed simp

lemma volver_a_listos_runs:
  assumes "colas_ok elems s" and "p \<in> dom (ents s)"
  obtains s' where "volver_a_listos L b p s = Some s'" and "keeps elems s s'"
    and "elems (colaListos s') = elems (colaListos s) @ [p]" and "colaBloqueados s' = colaBloqueados s"
    and "ents s' = ents s"
proof -
  let ?s = "(emit [Mutex_lock Cola_listos] s)\<lparr>colaListos := list_add L (colaListos s) p\<rparr>"
  have "informar_contenido_cola L (colaListos ?s) ?s = Some ?s"
    using assms by (intro informar_ok) (auto simp: elems_add colas_ok_def)
  then have "volver_a_listos L b p s = Some (emit [Mutex_unlock Cola_listos] ?s)"
    by (simp add: volver_a_listos_def Let_def)
  then show thesis by (rule that) (auto simp: elems_add intro!: keeps_cong)
qed

lemma bloquear_runs:
  assumes "colas_ok elems s" and "ents s p = Some e"
  obtains s' where "bloquearEntrenador L p s = Some s'" and "keeps elems s s'"
    and "elems (colaBloqueados s') = elems (colaBloqueados s) @ [p]" and "colaListos s' = colaListos s"
    and "ents s' = ents s"
proof -
  let ?s = "(emit [Fd_set (ent_id e)] ((emit [Mutex_lock Cola_bloqueados] s)
     \<lparr>colaBloqueados := list_add L (colaBloqueados s) p\<rparr>))\<lparr>set_fd_max := max (ent_id e) (set_fd_max s)\<rparr>"
  have "informar_contenido_cola L (colaBloqueados ?s) ?s = Some ?s"
    using assms by (intro informar_ok) (auto simp: elems_add colas_ok_def)
  then have "bloquearEntrenador L p s = Some (emit [Mutex_unlock Cola_bloqueados] ?s)"
    using assms(2) by (simp add: bloquearEntrenador_def Let_def emit_def)
  then show thesis by (rule that) (auto simp: elems_add intro!: keeps_cong)
qed

lemma ent_size_le:
  assumes "mapa_ok elems s" and "ents s p = Some e"
  shows "length (elems (pokemons e)) \<le> size (total elems s)"
proof -
  have "ents_total elems s = ent_mset elems s p + (\<Sum>q \<in> dom (ents s) - {p}. ent_mset elems s q)"
    using sum.remove [OF mapa_ok_parts(1) [OF assms(1)], of p "ent_mset elems s"] assms(2)
    by (auto simp: ents_total_def)
  then show ?thesis using assms(2) by (simp add: total_def ent_mset_def)
qed

lemma desconectar_runs:
  assumes ok: "mapa_ok elems s" "colas_ok elems s" and e: "ents s p = Some e"
    and "p \<notin> set (elems (colaBloqueados s))"
    and k: "size (total elems s) + length (elems (colaBloqueados s)) + 2 \<le> k"
  obtains s' us where "desconectar k L p s = Some s'" and "repartido elems p (elems (pokemons e)) s us s'"
proof -
  let ?s = "emit [Mutex_lock Turno_desbloqueo, Mutex_lock Cola_bloqueados] s"
  have "mapa_ok elems ?s" "colas_ok elems ?s"
    using ok mapa_ok_cong [of ?s s elems] by (simp_all add: colas_ok_def)
  then obtain s' us where s': "liberarRecursos2 k L p ?s = Some s'" "repartido elems p (elems (pokemons e)) ?s us s'"
    using liberarRecursos2_runs [of ?s p e k] e k ent_size_le [OF ok(1) e] assms(4) by auto
  let ?t = "emit [Sem_post_dibujo] (emit [Mutex_unlock Cola_bloqueados, Mutex_unlock Turno_desbloqueo] s')"
  have "keeps elems s ?s" by simp
  also have "keeps elems ?s s'" using s'(2) by (simp add: repartido_def)
  also have "keeps elems s' (emit [Mutex_unlock Cola_bloqueados, Mutex_unlock Turno_desbloqueo] s')" by simp
  also have "keeps elems (emit [Mutex_unlock Cola_bloqueados, Mutex_unlock Turno_desbloqueo] s') ?t" by simp
  finally have "keeps elems s ?t" .
  then have "repartido elems p (elems (pokemons e)) s us ?t"
    using s'(2) by (simp add: repartido_def espera_def)
  then show thesis using s'(1) by (intro that [of ?t us]) (simp_all add: desconectar_def liberar_con_mutex_def)
qed

lemma fin_turno:
  assumes ok: "mapa_ok elems s" "colas_ok elems s" and p: "p \<in> dom (ents s)" "p \<notin> set (elems (colaBloqueados s))"
    and k: "size (total elems s) + length (elems (colaBloqueados s)) + 2 \<le> k"
  shows "\<exists>s'. fin_rafaga_RR k L p r s = Some s' \<and> keeps elems s s' \<and> turno_hecho elems p r (elems (colaListos s)) s s'"
proof -
  obtain e where e: "ents s p = Some e" using p(1) by blast
  consider "r = DESCONEXION" | "r \<noteq> DESCONEXION" "r = NO_ENCONTRO_POKEMON"
    | "r \<noteq> DESCONEXION" "r \<noteq> NO_ENCONTRO_POKEMON" by blast
  then show ?thesis
  proof cases
    case 1
    obtain s' us where s': "desconectar k L p s = Some s'" "repartido elems p (elems (pokemons e)) s us s'"
      by (rule desconectar_runs [OF ok e p(2) k])
    then show ?thesis using 1
      by (intro exI [of _ s']) (auto simp: fin_rafaga_RR_def turno_hecho_def repartido_def)
  next
    case 2
    obtain s' where "bloquearEntrenador L p s = Some s'" "keeps elems s s'"
      "elems (colaBloqueados s') = elems (colaBloqueados s) @ [p]" "colaListos s' = colaListos s" "ents s' = ents s"
      by (rule bloquear_runs [OF ok(2) e])
    then show ?thesis using 2 by (auto simp: fin_rafaga_RR_def turno_hecho_def)
  next
    case 3
    obtain s' where "volver_a_listos L True p s = Some s'" "keeps elems s s'"
      "elems (colaListos s') = elems (colaListos s) @ [p]" "colaBloqueados s' = colaBloqueados s" "ents s' = ents s"
      by (rule volver_a_listos_runs [OF ok(2) p(1)])
    then show ?thesis using 3 by (auto simp: fin_rafaga_RR_def turno_hecho_def)
  qed
qed

text \<open>The head of the queue is taken out before its turn.\<close>

lemma colas_ok_pop:
  assumes "colas_ok elems s" and "elems (colaListos s) = p # ps" and "elems cola = ps"
  shows "colas_ok elems (emit cs (s\<lparr>colaListos := cola\<rparr>))"
  using assms by (simp add: colas_ok_def)

lemma rafaga_RR_runs:
  assumes ok: "mapa_ok elems s" "colas_ok elems s" and q: "elems (colaListos s) = p # ps"
    and k: "size (total elems s) + length (elems (colaBloqueados s)) + 2 \<le> k"
    and turn: "\<And>cola. elems cola = ps \<Longrightarrow> \<exists>s1. quantum_RR L p (nat (quantum s)) None
      (emit [Mutex_lock Cola_listos, Mutex_unlock Cola_listos] (s\<lparr>colaListos := cola\<rparr>)) = Some (Some r, s1)"
  shows "\<exists>s'. ejecutarRafagaRR k L s = Some s' \<and> keeps elems s s' \<and> turno_hecho elems p r ps s s'"
proof -
  obtain cola where cola: "list_remove L (colaListos s) 0 = (Some p, cola)" "elems cola = ps"
    using remove_first_Cons [OF q] by blast
  let ?s0 = "emit [Mutex_lock Cola_listos, Mutex_unlock Cola_listos] (s\<lparr>colaListos := cola\<rparr>)"
  obtain s1 where s1: "quantum_RR L p (nat (quantum s)) None ?s0 = Some (Some r, s1)" using turn cola(2) by blast
  obtain e where e: "ents s p = Some e" using ok(2) q by (auto simp: colas_ok_def)
  have k0: "keeps elems s ?s0" by (rule keeps_cong) simp_all
  have ok0: "colas_ok elems ?s0" by (rule colas_ok_pop [OF ok(2) q cola(2)])
  have pb: "p \<notin> set (elems (colaBloqueados s))" using ok(2) q by (simp add: colas_ok_def)
  have q1: "keeps elems ?s0 s1" "frame p ?s0 s1" using quantum_RR_keeps [OF s1] by blast+
  have m1: "mapa_ok elems s1" and t1: "total elems s1 = total elems s"
    using ok(1) keeps_trans [OF k0 q1(1)] by (simp_all add: keeps_def)
  have f: "colaListos s1 = cola" "colaBloqueados s1 = colaBloqueados s" "p \<in> dom (ents s1)"
    using q1(2) e by (simp_all add: frame_def) (metis domI)
  obtain s' where s': "fin_rafaga_RR k L p r s1 = Some s'" "keeps elems s1 s'" "turno_hecho elems p r ps s1 s'"
    using fin_turno [OF m1 colas_ok_frame [OF ok0 q1(2)] f(3), of k r] pb k cola(2) by (auto simp: f t1)
  have "set (elems cola) \<subseteq> dom (ents s)" using ok(2) q cola(2) by (simp add: colas_ok_def)
  then have "informar_contenido_cola L cola ((emit [Mutex_lock Cola_listos] s)\<lparr>colaListos := cola\<rparr>)
      = Some ((emit [Mutex_lock Cola_listos] s)\<lparr>colaListos := cola\<rparr>)" by (intro informar_ok) simp
  then have "ejecutarRafagaRR k L s = Some s'"
    using cola(1) e s1 s'(1) by (simp add: ejecutarRafagaRR_def emit_def)
  moreover have "turno_hecho elems p r ps s s'" using s'(3) unfolding turno_hecho_def f(2) .
  ultimately show ?thesis using keeps_trans [OF keeps_trans [OF k0 q1(1)] s'(2)] by blast
qed

section \<open>Shortest distance\<close>

lemma menor_distancia_picks:
  assumes ok: "colas_ok elems s" and some: "elems (colaListos s) \<noteq> []"
    and d: "\<And>q. q \<in> set (elems (colaListos s)) \<Longrightarrow> distancia L s q = Some (d q)"
  shows "\<exists>p cola. buscarEntrenadorConMenorDistancia L s = Some (Some p, cola)
     \<and> p \<in> set (elems (colaListos s)) \<and> elems cola = remove1 p (elems (colaListos s))
     \<and> (\<forall>q \<in> set (elems (colaListos s)). d p \<le> d q)"
proof -
  let ?l = "list_add_all L (list_create L) (colaListos s)"
  have l: "elems ?l = elems (colaListos s)" by (simp add: add_all_eq elems_create)
  have cmp: "menor_distancia_a_pokenest L s x y = Some (d x < d y)"
    if "x \<in> set (elems (colaListos s))" "y \<in> set (elems (colaListos s))" for x y
    using d that by (simp add: menor_distancia_a_pokenest_def)
  have "distinct (elems ?l)" using ok by (simp add: l colas_ok_def)
  then have "list_sort L ?l (menor_distancia_a_pokenest L s) \<noteq> None"
    using cmp by (intro sort_runs) (simp_all add: l)
  then obtain aux where aux: "list_sort L ?l (menor_distancia_a_pokenest L s) = Some aux" by blast
  have sorted: "sorted (map d (elems aux))" by (rule sort_sorted [OF aux]) (simp add: l cmp)
  have "mset (elems aux) = mset (elems (colaListos s))" using sort_mset [OF aux] by (simp add: l)
  then have set: "set (elems aux) = set (elems (colaListos s))" by (rule mset_eq_setD)
  then obtain p rest where p: "elems aux = p # rest" using some by (cases "elems aux") auto
  have mem: "p \<in> set (elems (colaListos s))" using set p by auto
  then obtain e where e: "ents s p = Some e" using ok by (auto simp: colas_ok_def)
  obtain cola where cola: "buscarEntrenador L (ent_id e) (colaListos s) s = Some (Some p, cola)"
      "elems cola = remove1 p (elems (colaListos s))"
    using buscarEntrenador_ok [of "colaListos s" s p e] ok e mem by (auto simp: colas_ok_def)
  have "\<forall>q \<in> set (elems (colaListos s)). d p \<le> d q" using sorted p set [symmetric] by simp
  moreover have "list_get L aux 0 = Some p" using p by (simp add: get_eq)
  then have "buscarEntrenadorConMenorDistancia L s = Some (Some p, cola)"
    using aux e cola(1) by (simp add: buscarEntrenadorConMenorDistancia_def)
  ultimately show ?thesis using mem cola(2) by blast
qed

end

section \<open>A burst of moves\<close>

lemma connection_recv_move:
  assumes "streams s fd = OC_AVANZAR_POSICION # 1 # m # rest"
  shows "connection_recv fd s = ((3, Some OC_AVANZAR_POSICION, Some [m, 0]), s\<lparr>streams := (streams s)(fd := rest)\<rparr>)"
  using assms
  by (simp add: connection_recv_def recv_fd_def con_coordenadas_def con_texto_def OC_defs)

lemma connection_recv_end:
  assumes "streams s fd = []"
  shows "connection_recv fd s = ((0, None, None), s\<lparr>streams := (streams s)(fd := [])\<rparr>)"
  using assms by (simp add: connection_recv_def recv_fd_def)

text \<open>The requests of a trainer that walks.\<close>

definition move_requests :: "byte list \<Rightarrow> byte list" where
  "move_requests ms = concat (map (\<lambda>m. [OC_AVANZAR_POSICION, 1, m]) ms)"

lemma atenderSolicitud_move:
  assumes "ents s p = Some e" and "streams s (ent_id e) = OC_AVANZAR_POSICION # 1 # m # rest"
  shows "\<exists>s'. atenderSolicitud L p s = Some (TURNO_NORMAL, s') \<and> ents s' = (ents s)(p \<mapsto> mover m e)
    \<and> streams s' = (streams s)(ent_id e := rest)
    \<and> calls s' = calls s @ [Send_to (ent_id e) [OC_AVANZAR_POSICION, 2, word_of_int (posx (mover m e)), word_of_int (posy (mover m e))],
        MoverPersonaje (simbolo e) (posx (mover m e)) (posy (mover m e))]"
  using assms(1) connection_recv_move [OF assms(2)]
  by (simp add: atenderSolicitud_def responder_def OC_UBICAR_POKENEST_def OC_AVANZAR_POSICION_def
      avanzar_posicion_def msg_char_def mover_def Let_def)

lemma rafaga_walks:
  "ents s p = Some e \<Longrightarrow> streams s (ent_id e) = move_requests ms \<Longrightarrow>
     \<exists>s'. rafaga_SRDF L p s = Some (DESCONEXION, s') \<and> ents s' p = Some (fold mover ms e)"
proof (induction ms arbitrary: s e)
  case Nil
  then have "atenderSolicitud L p s = Some (DESCONEXION, s\<lparr>streams := (streams s)(ent_id e := [])\<rparr>)"
    using connection_recv_end [of s "ent_id e"] by (simp add: atenderSolicitud_def move_requests_def)
  then show ?case
    using Nil by (subst rafaga_SRDF.simps) (simp add: respuesta_defs)
next
  case (Cons m ms)
  obtain s1 where s1: "atenderSolicitud L p s = Some (TURNO_NORMAL, s1)" "ents s1 = (ents s)(p \<mapsto> mover m e)"
      "streams s1 = (streams s)(ent_id e := move_requests ms)"
    using atenderSolicitud_move [of s p e m "move_requests ms" L] Cons.prems by (auto simp: move_requests_def)
  then obtain s' where "rafaga_SRDF L p (emit [Sem_post_dibujo] s1) = Some (DESCONEXION, s')"
      "ents s' p = Some (fold mover ms (mover m e))"
    using Cons.IH [of "emit [Sem_post_dibujo] s1" "mover m e"] by auto
  then show ?case using s1(1) by (subst rafaga_SRDF.simps) simp
qed

end
