(* ===== verification/Mapa_Capture.thy ===== *)
theory Mapa_Capture
  imports Mapa_Scheduler
begin

text \<open>
  The order of names, and a capture that succeeds: in a consistent map the sort of a nest never
  compares equal names, so the request always gets an answer.
\<close>

section \<open>comparar_strings\<close>

lemma strcmp_zero: "strcmp a b = 0 \<longleftrightarrow> a = b"
  by (induction a b rule: strcmp.induct) auto

lemma comparar_loop_eq: "length a = length b \<Longrightarrow> comparar_loop a b = None \<longleftrightarrow> a = b"
  by (induction a b rule: list_induct2) auto

lemma sint_byte_inj: "sint (a :: byte) = sint b \<longleftrightarrow> a = b"
  by (simp flip: word_eq_iff_signed)

lemma comparar_loop_lexord:
  "length a = length b \<Longrightarrow> a \<noteq> b \<Longrightarrow>
     comparar_loop a b = Some (if (a, b) \<in> lexord {(x, y). sint x < sint y} then 1 else 0)"
proof (induction a b rule: list_induct2)
  case (Cons x xs y ys)
  then show ?case by (cases "x = y") (auto simp: sint_byte_inj)
qed simp

lemma comparar_strings_defined: "a \<noteq> b \<Longrightarrow> comparar_strings a b \<noteq> None"
  using comparar_loop_eq [of a b] by (auto simp: comparar_strings_def simp del: not_None_eq)

section \<open>Capturing\<close>

lemma count_nest_le:
  assumes "mapa_ok elems s" and "nests s q = Some n"
  shows "mset (elems (listaPokemons n)) \<subseteq># total elems s"
proof -
  have "nests_total elems s = nest_mset elems s q + (\<Sum>r \<in> dom (nests s) - {q}. nest_mset elems s r)"
    using sum.remove [OF mapa_ok_parts(2) [OF assms(1)], of q "nest_mset elems s"] assms(2)
    by (auto simp: nests_total_def)
  then show ?thesis using assms(2) by (simp add: total_def nest_mset_def)
qed

lemma nest_distinct:
  assumes ok: "mapa_ok elems s" and n: "nests s q = Some n"
  shows "distinct (elems (listaPokemons n))"
proof -
  have "count (mset (elems (listaPokemons n))) i = (if i \<in> set (elems (listaPokemons n)) then 1 else 0)" for i
  proof -
    have "count (mset (elems (listaPokemons n))) i \<le> 1"
      using mset_subset_eq_count [OF count_nest_le [OF ok n], of i] mapa_ok_parts(5) [OF ok, of i] by linarith
    moreover have "0 < count (mset (elems (listaPokemons n))) i \<longleftrightarrow> i \<in> set (elems (listaPokemons n))"
      by (simp only: count_greater_zero_iff set_mset_mset)
    ultimately show ?thesis by (auto simp: le_Suc_eq)
  qed
  then show ?thesis by (simp add: distinct_count_atmost_1)
qed

lemma nest_names:
  assumes ok: "mapa_ok elems s" and n: "nests s q = Some n"
    and ij: "i \<in> set (elems (listaPokemons n))" "j \<in> set (elems (listaPokemons n))" "i \<noteq> j"
  shows "pokemon_de_menor_nombre s i j \<noteq> None"
proof -
  obtain x y where xy: "infos s i = Some x" "infos s j = Some y" "id_pokenest x = id_pokenest y"
    using mapa_ok_parts(3) [OF ok n] ij unfolding nest_ok_def by metis
  then have "pk_nombre x \<noteq> pk_nombre y"
    using mapa_ok_parts(6) [OF ok] ij(3) unfolding fixed_ok_def by blast
  then obtain v where "comparar_strings (pk_nombre x) (pk_nombre y) = Some v"
    using comparar_strings_defined by blast
  then show ?thesis using xy(1,2) by (simp add: pokemon_de_menor_nombre_def)
qed

context map_lists
begin

lemma buscarPrimerPokemon_runs:
  assumes ok: "mapa_ok elems s" and n: "nests s q = Some n"
  obtains r l' where "buscarPrimerPokemon L (listaPokemons n) s = Some (r, l')"
    and "r = None \<longleftrightarrow> elems (listaPokemons n) = []"
proof -
  have "list_sort L (listaPokemons n) (pokemon_de_menor_nombre s) \<noteq> None"
    using nest_distinct [OF ok n] nest_names [OF ok n] by (intro sort_runs) auto
  then obtain l where "list_sort L (listaPokemons n) (pokemon_de_menor_nombre s) = Some l" by blast
  then have run: "buscarPrimerPokemon L (listaPokemons n) s = Some (list_remove L l 0)"
    by (simp add: buscarPrimerPokemon_def)
  obtain r l' where rl: "list_remove L l 0 = (r, l')" by fastforce
  have "r = None \<longleftrightarrow> elems (listaPokemons n) = []"
    using buscarPrimerPokemon_takes [of "listaPokemons n" s r l'] run rl
    by (cases r) auto
  then show thesis using that run rl by simp
qed

lemma tomar_pokemon_runs:
  assumes ok: "mapa_ok elems s" and e: "ents s p = Some e"
    and q: "buscarPokenest L c s = Some (Some q)" "nests s q = Some n"
  shows "\<exists>r s'. tomar_pokemon L p (Some (c # cs)) s = Some (r, s')
    \<and> (if elems (listaPokemons n) = [] then r = None \<and> ents s' = ents s
       else \<exists>i n' e'. r = Some i \<and> i \<in> set (elems (listaPokemons n)) \<and> ents s' p = Some e' \<and> nests s' q = Some n'
         \<and> elems (pokemons e') = elems (pokemons e) @ [i] \<and> pokenest_buscada e' = 0
         \<and> mset (elems (listaPokemons n)) = add_mset i (mset (elems (listaPokemons n')))
         \<and> cantidad n' = cantidad n - 1)"
proof -
  obtain r l' where r: "buscarPrimerPokemon L (listaPokemons n) s = Some (r, l')"
      "r = None \<longleftrightarrow> elems (listaPokemons n) = []"
    by (rule buscarPrimerPokemon_runs [OF ok q(2)])
  note takes = buscarPrimerPokemon_takes [OF r(1)]
  show ?thesis
  proof (cases r)
    case None
    then show ?thesis using r q by (simp add: tomar_pokemon_def msg_char_def)
  next
    case (Some i)
    then have ms: "mset (elems (listaPokemons n)) = add_mset i (mset (elems l'))" using takes by simp
    then have i: "i \<in> set (elems (listaPokemons n))" by (metis set_mset_mset union_single_eq_member)
    then obtain x where x: "infos s i = Some x" using mapa_ok_parts(3) [OF ok q(2)] by (auto simp: nest_ok_def)
    let ?s1 = "upd_nest q (\<lambda>n. n\<lparr>listaPokemons := l'\<rparr>) s"
    obtain s' where s': "capturar L p q i ?s1 = Some s'"
        "ents s' p = Some (e\<lparr>pokemons := list_add L (pokemons e) i, pokenest_buscada := 0\<rparr>)"
        "nests s' q = Some (n\<lparr>listaPokemons := l', cantidad := cantidad n - 1\<rparr>)"
      using e x q(2) by (simp add: capturar_def notificar_captura_pokemon_def Let_def)
    have "tomar_pokemon L p (Some (c # cs)) s = Some (Some i, s')"
      using q r(1) Some s'(1) by (simp add: tomar_pokemon_def msg_char_def Let_def)
    then show ?thesis using s'(2,3) ms i Some r(2) by (auto simp: elems_add)
  qed
qed

end

end
