(* ===== verification/Mapa_Deadlock.thy ===== *)
theory Mapa_Deadlock
  imports Mapa_Planificacion
begin

text \<open>
  \<^verbatim>\<open>mapas/deteccionDeadlock.c\<close>: one round of the detector. It copies the trainers, builds the matrices
  of the pokemons they have and ask for, looks for trainers that cannot be served, and lets the ones
  in a deadlock fight; the loser of the last fight is taken apart. The battle and the comparison of
  names without regard to case are library calls (parameters). The logs are left out. The code lets a
  copy share the list of pokemons with the trainer it copies; here it has the same list as a value.
\<close>

section \<open>The copies\<close>

definition lista_ptrs :: "('l, ptr) t_list_more \<Rightarrow> 'l \<Rightarrow> ptr list option" where
  "lista_ptrs L l = those (map (list_get L l) [0..<list_size L l])"

fun duplicar_entrenadores :: "ptr list \<Rightarrow> 'l mapa \<Rightarrow> (ptr list \<times> 'l mapa) option" where
  "duplicar_entrenadores [] s = Some ([], s)"
| "duplicar_entrenadores (p # ps) s = do {
     e \<leftarrow> ents s p;
     let e_nuevo = next_ptr s;
     (qs, s) \<leftarrow> duplicar_entrenadores ps (s\<lparr>next_ptr := Suc e_nuevo, ents := (ents s)(e_nuevo \<mapsto> e)\<rparr>);
     Some (e_nuevo # qs, s)
   }"

definition duplicar_lista :: "('l, ptr) t_list_more \<Rightarrow> 'l mapa \<Rightarrow> (ptr list \<times> 'l mapa) option" where
  "duplicar_lista L s = do {
     ps \<leftarrow> lista_ptrs L (entrenadores s);
     duplicar_entrenadores ps s
   }"

text \<open>The copies are freed; freeing one that is gone already is undefined.\<close>

fun liberar_copias :: "ptr list \<Rightarrow> 'l mapa \<Rightarrow> 'l mapa option" where
  "liberar_copias [] s = Some s"
| "liberar_copias (p # ps) s = do {
     _ \<leftarrow> ents s p;
     liberar_copias ps (s\<lparr>ents := (ents s)(p := None)\<rparr>)
   }"

section \<open>The matrices\<close>

record deteccion =
  pokemonsDisponibles :: "int list"
  matrizUtilizados :: "int list list"
  matrizPedidos :: "int list list"
  atendido :: "bool list"
  hayDeadlock :: bool
  tieneUnPedido :: bool

definition contar_pokemons :: "('l, ptr) t_list_more \<Rightarrow> 'l t_entrenador \<Rightarrow> 'l PokeNest \<Rightarrow> 'l mapa \<Rightarrow> int option" where
  "contar_pokemons L e n s = do {
     ps \<leftarrow> lista_ptrs L (pokemons e);
     is \<leftarrow> those (map (infos s) ps);
     Some (int (length (filter (\<lambda>i. id_pokenest i = nest_id n) is)))
   }"

definition matrices :: "('l, ptr) t_list_more \<Rightarrow> ptr list \<Rightarrow> 'l mapa \<Rightarrow> deteccion option" where
  "matrices L copias s = do {
     ps \<leftarrow> lista_ptrs L (listaPokenests s);
     ns \<leftarrow> those (map (nests s) ps);
     es \<leftarrow> those (map (ents s) copias);
     utilizados \<leftarrow> those (map (\<lambda>e. those (map (\<lambda>n. contar_pokemons L e n s) ns)) es);
     Some \<lparr>pokemonsDisponibles = map (\<lambda>n. sint (cantidad n)) ns,
           matrizUtilizados = utilizados,
           matrizPedidos = map (\<lambda>e. map (\<lambda>n. if nest_id n = pokenest_buscada e then 1 else 0) ns) es,
           atendido = replicate (length es) False,
           hayDeadlock = False, tieneUnPedido = False\<rparr>
   }"

section \<open>The search\<close>

text \<open>
  One trainer in one pass. When no request is found in its row, the column index has run off the
  end (\<open>np\<close>); the flag \<^verbatim>\<open>tieneUnPedido\<close> is never set back, so it may still be set then.
\<close>

definition atender_uno :: "nat \<Rightarrow> nat \<Rightarrow> deteccion \<Rightarrow> deteccion option" where
  "atender_uno np i d =
     (let pedido = List.find (\<lambda>j. matrizPedidos d ! i ! j \<noteq> 0) [0..<np];
          tiene = (tieneUnPedido d \<or> pedido \<noteq> None)
      in if tiene then
           (case pedido of
              None \<Rightarrow> None
            | Some j \<Rightarrow>
                let d = d\<lparr>tieneUnPedido := True\<rparr> in
                if 0 < pokemonsDisponibles d ! j
                then Some (d\<lparr>matrizUtilizados := (matrizUtilizados d)[i := (matrizUtilizados d ! i)[j := matrizUtilizados d ! i ! j + 1]],
                     pokemonsDisponibles := (pokemonsDisponibles d)[j := pokemonsDisponibles d ! j - 1],
                     matrizPedidos := (matrizPedidos d)[i := (matrizPedidos d ! i)[j := 0]],
                     atendido := (atendido d)[i := True],
                     hayDeadlock := False\<rparr>)
                else Some d)
         else Some (d\<lparr>pokemonsDisponibles := map (\<lambda>j. pokemonsDisponibles d ! j + matrizUtilizados d ! i ! j) [0..<np],
                matrizUtilizados := (matrizUtilizados d)[i := replicate np 0],
                atendido := (if 0 < np then (atendido d)[i := True] else atendido d)\<rparr>))"

fun pasada :: "nat \<Rightarrow> nat list \<Rightarrow> deteccion \<Rightarrow> deteccion option" where
  "pasada np [] d = Some d"
| "pasada np (i # is) d = Option.bind (atender_uno np i d) (pasada np is)"

definition hayAlguienParaAtender :: "deteccion \<Rightarrow> bool" where
  "hayAlguienParaAtender d = list_ex Not (atendido d)"

definition vuelta :: "nat \<Rightarrow> nat \<Rightarrow> deteccion \<Rightarrow> deteccion option" where
  "vuelta ne np d = pasada np [0..<ne] (if 2 \<le> ne then d\<lparr>hayDeadlock := True\<rparr> else d)"

partial_function (option) buscar_deadlock :: "nat \<Rightarrow> nat \<Rightarrow> deteccion \<Rightarrow> deteccion option" where
  "buscar_deadlock ne np d =
     (if \<not> hayDeadlock d \<and> hayAlguienParaAtender d
      then Option.bind (vuelta ne np d) (buscar_deadlock ne np) else Some d)"

section \<open>Who is in the deadlock\<close>

fun filtrar :: "('a \<Rightarrow> bool option) \<Rightarrow> 'a list \<Rightarrow> 'a list option" where
  "filtrar P [] = Some []"
| "filtrar P (x # xs) = do { b \<leftarrow> P x; ys \<leftarrow> filtrar P xs; Some (if b then x # ys else ys) }"

fun todos :: "('a \<Rightarrow> bool option) \<Rightarrow> 'a list \<Rightarrow> bool option" where
  "todos P [] = Some True"
| "todos P (x # xs) = do { b \<leftarrow> P x; if b then todos P xs else Some False }"

definition no_atendidos :: "ptr list \<Rightarrow> deteccion \<Rightarrow> ptr list" where
  "no_atendidos copias d = map fst (filter (\<lambda>(p, a). \<not> a) (zip copias (atendido d)))"

definition retieneAlgunObjetivo :: "('l, ptr) t_list_more \<Rightarrow> byte list \<Rightarrow> 'l mapa \<Rightarrow> ptr \<Rightarrow> bool option" where
  "retieneAlgunObjetivo L listaDeObjetivos s p = do {
     e \<leftarrow> ents s p;
     ps \<leftarrow> lista_ptrs L (pokemons e);
     is \<leftarrow> those (map (infos s) ps);
     Some (list_ex (\<lambda>i. id_pokenest i \<in> set listaDeObjetivos) is)
   }"

definition deadlockeados :: "('l, ptr) t_list_more \<Rightarrow> ptr list \<Rightarrow> deteccion \<Rightarrow> 'l mapa \<Rightarrow> ptr list option" where
  "deadlockeados L copias d s = do {
     es \<leftarrow> those (map (ents s) (no_atendidos copias d));
     filtrar (retieneAlgunObjetivo L (map pokenest_buscada es) s) (no_atendidos copias d)
   }"

definition estaBloqueado :: "('l, ptr) t_list_more \<Rightarrow> 'l mapa \<Rightarrow> ptr \<Rightarrow> bool option" where
  "estaBloqueado L s p = do {
     e \<leftarrow> ents s p;
     ps \<leftarrow> lista_ptrs L (colaBloqueados s);
     found \<leftarrow> find_opt (\<lambda>q. map_option (\<lambda>b. simbolo b = simbolo e) (ents s q)) ps;
     Some (found \<noteq> None)
   }"

fun contarDeadlock :: "ptr list \<Rightarrow> 'l mapa \<Rightarrow> 'l mapa" where
  "contarDeadlock [] s = s"
| "contarDeadlock (p # ps) s = contarDeadlock ps (upd_ent p (\<lambda>e. e\<lparr>cantDeadlocks := cantDeadlocks e + 1\<rparr>) s)"

section \<open>The battles\<close>

definition enviar_oc :: "int \<Rightarrow> byte \<Rightarrow> 'l mapa \<Rightarrow> 'l mapa" where
  "enviar_oc socket oc_send s = emit [Send_to socket [oc_send, 0]] s"

definition buscar_pokemon_de_entrenador :: "('l, ptr) t_list_more \<Rightarrow> (byte list \<Rightarrow> byte list \<Rightarrow> bool) \<Rightarrow>
    'l t_entrenador \<Rightarrow> byte list \<Rightarrow> 'l mapa \<Rightarrow> t_infoPokemon option" where
  "buscar_pokemon_de_entrenador L equals_ignore_case e nombre_pokemon s = do {
     found \<leftarrow> list_find L (pokemons e)
       (\<lambda>i. map_option (\<lambda>x. equals_ignore_case (pk_nombre x) nombre_pokemon) (infos s i));
     infoPoke \<leftarrow> found;
     infos s infoPoke
   }"

definition elegir_pokemon :: "('l, ptr) t_list_more \<Rightarrow> (byte list \<Rightarrow> byte list \<Rightarrow> bool) \<Rightarrow> ptr \<Rightarrow> 'l mapa \<Rightarrow>
    (t_infoPokemon \<times> 'l mapa) option" where
  "elegir_pokemon L equals_ignore_case p s = do {
     e \<leftarrow> ents s p;
     let s = enviar_oc (ent_id e) OC_POKEMON_BATALLA s;
     let ((_, _, m), s) = connection_recv (ent_id e) s;
     nombrePokemon \<leftarrow> msg_string m;
     i \<leftarrow> buscar_pokemon_de_entrenador L equals_ignore_case e nombrePokemon s;
     Some (i, s)
   }"

text \<open>\<open>pkmn_battle i j\<close> says whether the first of the two pokemons is the loser.\<close>

definition mandarAPelear :: "('l, ptr) t_list_more \<Rightarrow> (byte list \<Rightarrow> byte list \<Rightarrow> bool) \<Rightarrow>
    (t_infoPokemon \<Rightarrow> t_infoPokemon \<Rightarrow> bool) \<Rightarrow> ptr \<Rightarrow> ptr \<Rightarrow> 'l mapa \<Rightarrow> (ptr \<times> 'l mapa) option" where
  "mandarAPelear L equals_ignore_case pkmn_battle entrenador1 entrenador2 s = do {
     (pok1, s) \<leftarrow> elegir_pokemon L equals_ignore_case entrenador1 s;
     (pok2, s) \<leftarrow> elegir_pokemon L equals_ignore_case entrenador2 s;
     e1 \<leftarrow> ents s entrenador1;
     e2 \<leftarrow> ents s entrenador2;
     if pkmn_battle pok1 pok2
     then Some (entrenador1, enviar_oc (ent_id e1) OC_PERDIO_BATALLA (enviar_oc (ent_id e2) OC_GANO_BATALLA s))
     else Some (entrenador2, enviar_oc (ent_id e2) OC_PERDIO_BATALLA (enviar_oc (ent_id e1) OC_GANO_BATALLA s))
   }"

fun pelear :: "('l, ptr) t_list_more \<Rightarrow> (byte list \<Rightarrow> byte list \<Rightarrow> bool) \<Rightarrow>
    (t_infoPokemon \<Rightarrow> t_infoPokemon \<Rightarrow> bool) \<Rightarrow> ptr \<Rightarrow> ptr list \<Rightarrow> 'l mapa \<Rightarrow> (ptr \<times> 'l mapa) option" where
  "pelear L eqi battle entrenador1 [] s = Some (entrenador1, s)"
| "pelear L eqi battle entrenador1 (entrenador2 # ps) s = do {
     (loser, s) \<leftarrow> mandarAPelear L eqi battle entrenador1 entrenador2 s;
     pelear L eqi battle loser ps s
   }"

definition matarEntrenador :: "nat \<Rightarrow> ('l, ptr) t_list_more \<Rightarrow> ptr \<Rightarrow> 'l mapa \<Rightarrow> 'l mapa option" where
  "matarEntrenador k L entrenador s = do {
     e \<leftarrow> ents s entrenador;
     let s = emit [Send_to (ent_id e) [OC_VICTIMA_DEADLOCK], Send_to (ent_id e) [0], Fd_clr (ent_id e),
                   Mutex_lock Turno_desbloqueo, Mutex_lock Cola_bloqueados] s;
     (_, cola) \<leftarrow> buscarEntrenador L (ent_id e) (colaBloqueados s) s;
     s \<leftarrow> liberarRecursos2 k L entrenador (s\<lparr>colaBloqueados := cola\<rparr>);
     Some (emit [Mutex_unlock Cola_bloqueados, Mutex_unlock Turno_desbloqueo] s)
   }"

section \<open>One round\<close>

definition resolver :: "nat \<Rightarrow> ('l, ptr) t_list_more \<Rightarrow> (byte list \<Rightarrow> byte list \<Rightarrow> bool) \<Rightarrow>
    (t_infoPokemon \<Rightarrow> t_infoPokemon \<Rightarrow> bool) \<Rightarrow> ptr list \<Rightarrow> 'l mapa \<Rightarrow> 'l mapa option" where
  "resolver k L eqi battle ds s =
     (case ds of
        entrenador1 # entrenador2 # ps \<Rightarrow> do {
          coinciden \<leftarrow> todos (estaBloqueado L s) ds;
          let s = contarDeadlock ds s;
          if batalla s \<noteq> 0 \<and> coinciden then do {
            let s = emit [Mutex_lock Deadlock_ejecutando] s;
            (loser, s) \<leftarrow> pelear L eqi battle entrenador1 (entrenador2 # ps) s;
            s \<leftarrow> matarEntrenador k L loser s;
            Some (emit [Mutex_unlock Deadlock_ejecutando] s)
          } else Some s
        }
      | _ \<Rightarrow> Some s)"

definition detectarDeadlock :: "nat \<Rightarrow> ('l, ptr) t_list_more \<Rightarrow> (byte list \<Rightarrow> byte list \<Rightarrow> bool) \<Rightarrow>
    (t_infoPokemon \<Rightarrow> t_infoPokemon \<Rightarrow> bool) \<Rightarrow> 'l mapa \<Rightarrow> 'l mapa option" where
  "detectarDeadlock k L eqi battle s = do {
     (copias, s) \<leftarrow> duplicar_lista L s;
     d \<leftarrow> matrices L copias s;
     d \<leftarrow> buscar_deadlock (length copias) (length (pokemonsDisponibles d)) d;
     ds \<leftarrow> deadlockeados L copias d s;
     s \<leftarrow> resolver k L eqi battle ds s;
     liberar_copias copias s
   }"

end
