(* ===== verification/Mapa_Detector.thy ===== *)
theory Mapa_Detector
  imports Mapa_Deadlock
begin

text \<open>
  What the search of the deadlock detector finds when every trainer asks for a pokemon: the exact
  outcome of the loop, including the runs that leave the array of the available pokemons and the
  runs that never end.
\<close>

section \<open>Trainers that all ask\<close>

text \<open>The trainers asked one after the other: who gets what they ask for.\<close>

fun reparto :: "int list \<Rightarrow> nat list \<Rightarrow> bool list" where
  "reparto disp [] = []"
| "reparto disp (r # rs) = (if 0 < disp ! r then True # reparto (disp[r := disp ! r - 1]) rs
     else False # reparto disp rs)"

definition pide :: "nat \<Rightarrow> nat \<Rightarrow> int list" where
  "pide np r = (replicate np 0)[r := 1]"

text \<open>The start: \<open>rs\<close> are the columns that the trainers ask for.\<close>

definition piden :: "nat \<Rightarrow> int list \<Rightarrow> int list list \<Rightarrow> nat list \<Rightarrow> deteccion" where
  "piden np disp utiliz rs = \<lparr>pokemonsDisponibles = disp, matrizUtilizados = utiliz,
     matrizPedidos = map (pide np) rs, atendido = replicate (length rs) False,
     hayDeadlock = False, tieneUnPedido = False\<rparr>"

lemma length_reparto [simp]: "length (reparto disp rs) = length rs"
  by (induction disp rs rule: reparto.induct) auto

lemma find_pide: "r < np \<Longrightarrow> List.find (\<lambda>j. pide np r ! j \<noteq> 0) [0..<np] = Some r"
  by (auto simp: find_upt_Some pide_def nth_list_update)

lemma pide_done [simp]: "(pide np r)[r := 0] = replicate np 0"
  by (cases "r < np") (simp_all add: pide_def list_update_same_conv list_update_beyond)

lemma find_zero: "List.find (\<lambda>j. (replicate np (0 :: int)) ! j \<noteq> 0) [0..<np] = None"
  by (simp add: find_upt_None)

definition fila_final :: "nat \<Rightarrow> bool \<Rightarrow> nat \<Rightarrow> int list" where
  "fila_final np a r = (if a then replicate np 0 else pide np r)"

lemma atender_uno_pide:
  assumes "r < np" and "length P = i" and "length A = i"
  shows "atender_uno np i \<lparr>pokemonsDisponibles = disp, matrizUtilizados = u, matrizPedidos = P @ pide np r # Q,
       atendido = A @ False # B, hayDeadlock = h, tieneUnPedido = t\<rparr>
    = Some (if 0 < disp ! r
        then \<lparr>pokemonsDisponibles = disp[r := disp ! r - 1],
               matrizUtilizados = u[i := (u ! i)[r := u ! i ! r + 1]], matrizPedidos = P @ replicate np 0 # Q,
               atendido = A @ True # B, hayDeadlock = False, tieneUnPedido = True\<rparr>
        else \<lparr>pokemonsDisponibles = disp, matrizUtilizados = u, matrizPedidos = P @ pide np r # Q,
               atendido = A @ False # B, hayDeadlock = h, tieneUnPedido = True\<rparr>)"
proof -
  have "(P @ pide np r # Q) ! i = pide np r" using assms(2) by (simp add: nth_append)
  moreover have "(A @ False # B)[i := True] = A @ True # B" "(P @ pide np r # Q)[i := row] = P @ row # Q" for row
    using assms(2,3) by (simp_all add: list_update_append)
  ultimately show ?thesis
    using find_pide [OF assms(1)] unfolding atender_uno_def Let_def by simp
qed

text \<open>One pass over the trainers that are left, behind the ones that had their turn.\<close>

lemma pasada_piden:
  assumes "\<forall>r \<in> set rs. r < np" and "length P = i" and "length A = i"
  shows "\<exists>disp' u'. pasada np [i..<i + length rs]
      \<lparr>pokemonsDisponibles = disp, matrizUtilizados = u, matrizPedidos = P @ map (pide np) rs,
       atendido = A @ replicate (length rs) False, hayDeadlock = h, tieneUnPedido = t\<rparr>
    = Some \<lparr>pokemonsDisponibles = disp', matrizUtilizados = u',
       matrizPedidos = P @ map2 (fila_final np) (reparto disp rs) rs,
       atendido = A @ reparto disp rs,
       hayDeadlock = (h \<and> True \<notin> set (reparto disp rs)), tieneUnPedido = (t \<or> rs \<noteq> [])\<rparr>"
  using assms
proof (induction rs arbitrary: i P A disp u h t)
  case Nil
  then show ?case by simp
next
  case (Cons r rs)
  define ks where "ks = [Suc i..<Suc i + length rs]"
  have upt: "[i..<i + length (r # rs)] = i # ks"
    using upt_conv_Cons [of i "i + length (r # rs)"] by (simp add: ks_def)
  have step: "atender_uno np i \<lparr>pokemonsDisponibles = disp, matrizUtilizados = u,
       matrizPedidos = P @ map (pide np) (r # rs), atendido = A @ replicate (length (r # rs)) False,
       hayDeadlock = h, tieneUnPedido = t\<rparr>
    = Some (if 0 < disp ! r
        then \<lparr>pokemonsDisponibles = disp[r := disp ! r - 1],
               matrizUtilizados = u[i := (u ! i)[r := u ! i ! r + 1]],
               matrizPedidos = (P @ [replicate np 0]) @ map (pide np) rs,
               atendido = (A @ [True]) @ replicate (length rs) False, hayDeadlock = False, tieneUnPedido = True\<rparr>
        else \<lparr>pokemonsDisponibles = disp, matrizUtilizados = u, matrizPedidos = (P @ [pide np r]) @ map (pide np) rs,
               atendido = (A @ [False]) @ replicate (length rs) False, hayDeadlock = h, tieneUnPedido = True\<rparr>)"
    using atender_uno_pide [of r np P i A] Cons.prems by simp
  show ?case
  proof (cases "0 < disp ! r")
    case True
    let ?disp = "disp[r := disp ! r - 1]"
    have "\<exists>d' u'. pasada np [Suc i..<Suc i + length rs]
      \<lparr>pokemonsDisponibles = ?disp, matrizUtilizados = u[i := (u ! i)[r := u ! i ! r + 1]],
       matrizPedidos = (P @ [replicate np 0]) @ map (pide np) rs,
       atendido = (A @ [True]) @ replicate (length rs) False, hayDeadlock = False, tieneUnPedido = True\<rparr>
      = Some \<lparr>pokemonsDisponibles = d', matrizUtilizados = u',
       matrizPedidos = (P @ [replicate np 0]) @ map2 (fila_final np) (reparto ?disp rs) rs,
       atendido = (A @ [True]) @ reparto ?disp rs,
       hayDeadlock = (False \<and> True \<notin> set (reparto ?disp rs)), tieneUnPedido = (True \<or> rs \<noteq> [])\<rparr>"
      by (rule Cons.IH) (use Cons.prems in auto)
    then show ?thesis
      unfolding upt pasada.simps step if_P [OF True] bind.bind_lunit ks_def [symmetric]
      by (simp add: True fila_final_def [of _ True])
  next
    case False
    have "\<exists>d' u'. pasada np [Suc i..<Suc i + length rs]
      \<lparr>pokemonsDisponibles = disp, matrizUtilizados = u, matrizPedidos = (P @ [pide np r]) @ map (pide np) rs,
       atendido = (A @ [False]) @ replicate (length rs) False, hayDeadlock = h, tieneUnPedido = True\<rparr>
      = Some \<lparr>pokemonsDisponibles = d', matrizUtilizados = u',
       matrizPedidos = (P @ [pide np r]) @ map2 (fila_final np) (reparto disp rs) rs,
       atendido = (A @ [False]) @ reparto disp rs,
       hayDeadlock = (h \<and> True \<notin> set (reparto disp rs)), tieneUnPedido = (True \<or> rs \<noteq> [])\<rparr>"
      by (rule Cons.IH) (use Cons.prems in auto)
    then show ?thesis
      unfolding upt pasada.simps step if_not_P [OF False] bind.bind_lunit ks_def [symmetric]
      by (simp add: False fila_final_def [of _ False])
  qed
qed

text \<open>With the flag set, a row without a request ends the pass in a read past the array.\<close>

lemma atender_uno_None:
  "tieneUnPedido d \<Longrightarrow> \<forall>j < np. matrizPedidos d ! i ! j = 0 \<Longrightarrow> atender_uno np i d = None"
proof -
  assume t: "tieneUnPedido d" and z: "\<forall>j < np. matrizPedidos d ! i ! j = 0"
  have "List.find (\<lambda>j. matrizPedidos d ! i ! j \<noteq> 0) [0..<np] = None" using z by (simp add: find_upt_None)
  then show ?thesis using t by (simp add: atender_uno_def)
qed

lemma atender_uno_flag:
  assumes "atender_uno np k d = Some d'" and "tieneUnPedido d" and "i \<noteq> k"
  shows "tieneUnPedido d' \<and> matrizPedidos d' ! i = matrizPedidos d ! i"
  using assms by (auto simp: atender_uno_def Let_def split: option.splits if_splits)

lemma pasada_past_end:
  assumes "i \<in> set is" and "tieneUnPedido d" and "\<forall>j < np. matrizPedidos d ! i ! j = 0"
  shows "pasada np is d = None"
  using assms
proof (induction "is" arbitrary: d)
  case (Cons k ks)
  show ?case
  proof (cases "k = i")
    case True
    then show ?thesis using Cons.prems by (simp add: atender_uno_None)
  next
    case False
    show ?thesis
    proof (cases "atender_uno np k d")
      case (Some d')
      then show ?thesis
        using atender_uno_flag [OF Some Cons.prems(2), of i] False Cons by auto
    qed simp
  qed
qed simp

text \<open>The first trainer without a request is where it happens: the pass up to there is defined.\<close>

lemma pasada_hasta:
  assumes "tieneUnPedido d" and "distinct is" and "\<forall>k \<in> set is. \<exists>j < np. matrizPedidos d ! k ! j \<noteq> 0"
  shows "\<exists>d'. pasada np is d = Some d' \<and> tieneUnPedido d'
    \<and> (\<forall>i. i \<notin> set is \<longrightarrow> matrizPedidos d' ! i = matrizPedidos d ! i)"
  using assms
proof (induction "is" arbitrary: d)
  case (Cons k ks)
  have "List.find (\<lambda>j. matrizPedidos d ! k ! j \<noteq> 0) [0..<np] \<noteq> None"
    using Cons.prems(3) by (auto simp: find_upt_None)
  then have "atender_uno np k d \<noteq> None" by (auto simp: atender_uno_def Let_def)
  then obtain d1 where d1: "atender_uno np k d = Some d1" by blast
  have other: "tieneUnPedido d1 \<and> matrizPedidos d1 ! i = matrizPedidos d ! i" if "i \<noteq> k" for i
    using atender_uno_flag [OF d1 Cons.prems(1) that] .
  have t: "tieneUnPedido d1" using other [of "Suc k"] by simp
  have "\<forall>l \<in> set ks. matrizPedidos d1 ! l = matrizPedidos d ! l" using other Cons.prems(2) by fastforce
  then have "\<forall>l \<in> set ks. \<exists>j < np. matrizPedidos d1 ! l ! j \<noteq> 0" using Cons.prems(3) by simp
  from Cons.IH [OF t _ this] Cons.prems(2) obtain d' where d': "pasada np ks d1 = Some d'" "tieneUnPedido d'"
      "\<forall>i. i \<notin> set ks \<longrightarrow> matrizPedidos d' ! i = matrizPedidos d1 ! i" by auto
  then show ?case using d1 other by simp
qed simp

section \<open>The whole search\<close>

lemma vuelta_piden:
  assumes "\<forall>r \<in> set rs. r < np" and "2 \<le> length rs"
  obtains d' u' where "vuelta (length rs) np (piden np disp u rs)
    = Some \<lparr>pokemonsDisponibles = d', matrizUtilizados = u',
       matrizPedidos = map2 (fila_final np) (reparto disp rs) rs, atendido = reparto disp rs,
       hayDeadlock = (True \<notin> set (reparto disp rs)), tieneUnPedido = True\<rparr>"
proof -
  have "rs \<noteq> []" using assms(2) by auto
  then show thesis
    using pasada_piden [OF assms(1), of "[]" 0 "[]" disp u True False] assms(2) that
    by (auto simp: vuelta_def piden_def simp del: upt_Suc)
qed

lemma buscar_piden_stuck:
  assumes "\<forall>r \<in> set rs. r < np" and "2 \<le> length rs" and "set (reparto disp rs) = {False}"
  shows "\<exists>d. buscar_deadlock (length rs) np (piden np disp u rs) = Some d \<and> atendido d = replicate (length rs) False"
proof -
  obtain d' u' where v: "vuelta (length rs) np (piden np disp u rs)
    = Some \<lparr>pokemonsDisponibles = d', matrizUtilizados = u',
       matrizPedidos = map2 (fila_final np) (reparto disp rs) rs, atendido = reparto disp rs,
       hayDeadlock = (True \<notin> set (reparto disp rs)), tieneUnPedido = True\<rparr>"
    by (rule vuelta_piden [OF assms(1,2)])
  have "hayAlguienParaAtender (piden np disp u rs)" "\<not> hayDeadlock (piden np disp u rs)"
    using assms(2) by (auto simp: hayAlguienParaAtender_def piden_def list_ex_iff)
  moreover have "reparto disp rs = replicate (length rs) False"
    using assms(3) by (intro replicate_eqI) auto
  ultimately show ?thesis
    using v assms(3) by (simp add: buscar_deadlock.simps [of _ _ "piden np disp u rs"] buscar_deadlock.simps)
qed

lemma buscar_piden_all:
  assumes "\<forall>r \<in> set rs. r < np" and "2 \<le> length rs" and "set (reparto disp rs) = {True}"
  shows "\<exists>d. buscar_deadlock (length rs) np (piden np disp u rs) = Some d \<and> atendido d = replicate (length rs) True"
proof -
  obtain d' u' where v: "vuelta (length rs) np (piden np disp u rs)
    = Some \<lparr>pokemonsDisponibles = d', matrizUtilizados = u',
       matrizPedidos = map2 (fila_final np) (reparto disp rs) rs, atendido = reparto disp rs,
       hayDeadlock = (True \<notin> set (reparto disp rs)), tieneUnPedido = True\<rparr>"
    by (rule vuelta_piden [OF assms(1,2)])
  have "hayAlguienParaAtender (piden np disp u rs)" "\<not> hayDeadlock (piden np disp u rs)"
    using assms(2) by (auto simp: hayAlguienParaAtender_def piden_def list_ex_iff)
  moreover have "reparto disp rs = replicate (length rs) True"
    using assms(3) by (intro replicate_eqI) auto
  ultimately show ?thesis
    using v assms(3)
    by (simp add: buscar_deadlock.simps [of _ _ "piden np disp u rs"] buscar_deadlock.simps
        hayAlguienParaAtender_def list_ex_iff)
qed

lemma buscar_piden_past_end:
  assumes "\<forall>r \<in> set rs. r < np" and "2 \<le> length rs"
    and served: "True \<in> set (reparto disp rs)" and left: "False \<in> set (reparto disp rs)"
  shows "buscar_deadlock (length rs) np (piden np disp u rs) = None
    \<and> (\<exists>d1 i d2. vuelta (length rs) np (piden np disp u rs) = Some d1 \<and> atendido d1 = reparto disp rs
        \<and> \<not> hayDeadlock d1 \<and> hayAlguienParaAtender d1 \<and> i < length rs
        \<and> pasada np [0..<i] (d1\<lparr>hayDeadlock := True\<rparr>) = Some d2
        \<and> tieneUnPedido d2 \<and> (\<forall>j < np. matrizPedidos d2 ! i ! j = 0))"
proof -
  obtain d' u' where v: "vuelta (length rs) np (piden np disp u rs)
    = Some \<lparr>pokemonsDisponibles = d', matrizUtilizados = u',
       matrizPedidos = map2 (fila_final np) (reparto disp rs) rs, atendido = reparto disp rs,
       hayDeadlock = (True \<notin> set (reparto disp rs)), tieneUnPedido = True\<rparr>" (is "_ = Some ?d")
    by (rule vuelta_piden [OF assms(1,2)])
  obtain i where i: "i < length rs" "reparto disp rs ! i" using served by (auto simp: in_set_conv_nth)
  have "pasada np [0..<length rs] (?d\<lparr>hayDeadlock := True\<rparr>) = None"
    using i by (intro pasada_past_end [of i]) (simp_all add: fila_final_def)
  then have "vuelta (length rs) np ?d = None" using assms(2) by (simp add: vuelta_def)
  moreover have "\<not> hayDeadlock ?d" "hayAlguienParaAtender ?d"
    using served left by (auto simp: hayAlguienParaAtender_def list_ex_iff)
  ultimately have d: "buscar_deadlock (length rs) np ?d = None"
    by (subst buscar_deadlock.simps) simp
  have "hayAlguienParaAtender (piden np disp u rs)" "\<not> hayDeadlock (piden np disp u rs)"
    using assms(2) by (auto simp: hayAlguienParaAtender_def piden_def list_ex_iff)
  then have "buscar_deadlock (length rs) np (piden np disp u rs) = None"
    using v d by (subst buscar_deadlock.simps) simp
  moreover have "\<exists>i d2. i < length rs \<and> pasada np [0..<i] (?d\<lparr>hayDeadlock := True\<rparr>) = Some d2
      \<and> tieneUnPedido d2 \<and> (\<forall>j < np. matrizPedidos d2 ! i ! j = 0)"
  proof -
    define m where "m = (LEAST i. i < length rs \<and> reparto disp rs ! i)"
    have m: "m < length rs" "reparto disp rs ! m"
      using LeastI [of "\<lambda>i. i < length rs \<and> reparto disp rs ! i" i] i by (simp_all add: m_def)
    have "\<not> reparto disp rs ! k" if "k < m" for k
      using not_less_Least [of k "\<lambda>i. i < length rs \<and> reparto disp rs ! i"] that m(1) by (simp add: m_def)
    then have fila: "rs ! k < np \<and> matrizPedidos (?d\<lparr>hayDeadlock := True\<rparr>) ! k ! (rs ! k) \<noteq> 0" if "k < m" for k
      using that m(1) assms(1) by (simp add: fila_final_def pide_def)
    have "\<forall>k \<in> set [0..<m]. \<exists>j < np. matrizPedidos (?d\<lparr>hayDeadlock := True\<rparr>) ! k ! j \<noteq> 0"
      by (intro ballI exI [of _ "rs ! _"], rule fila) simp
    from pasada_hasta [OF _ _ this] obtain d2 where "pasada np [0..<m] (?d\<lparr>hayDeadlock := True\<rparr>) = Some d2" "tieneUnPedido d2"
        "matrizPedidos d2 ! m = matrizPedidos ?d ! m" by auto
    then show ?thesis using m by (intro exI [of _ m] exI [of _ d2]) (simp add: fila_final_def)
  qed
  moreover have "\<not> hayDeadlock ?d" "hayAlguienParaAtender ?d"
    using served left by (auto simp: hayAlguienParaAtender_def list_ex_iff)
  ultimately show ?thesis
    using v by (intro conjI) (assumption, rule exI [of _ ?d], auto)
qed

text \<open>The matrices of the round are of this form when every trainer looks for one nest.\<close>

lemma those_length: "those xs = Some ys \<Longrightarrow> length ys = length xs"
  by (induction xs arbitrary: ys) (auto split: option.splits)

lemma matrices_piden:
  assumes "matrices L copias s = Some d" and "matrizPedidos d = map (pide np) rs"
  shows "d = piden np (pokemonsDisponibles d) (matrizUtilizados d) rs \<and> length copias = length rs"
proof -
  obtain es where es: "those (map (ents s) copias) = Some es" "atendido d = replicate (length es) False"
      "hayDeadlock d = False" "tieneUnPedido d = False" "length (matrizPedidos d) = length es"
    using assms(1) by (auto simp: matrices_def bind_eq_Some_conv)
  moreover have "length es = length rs" using es(5) assms(2) by simp
  ultimately show ?thesis using those_length [OF es(1)] assms(2) by (simp add: piden_def)
qed

section \<open>A trainer alone\<close>

text \<open>One trainer that asks for a pokemon nobody has left: the search turns for ever.\<close>

lemma vuelta_solo:
  assumes "r < np" and "disp ! r \<le> 0"
  shows "vuelta 1 np \<lparr>pokemonsDisponibles = disp, matrizUtilizados = u, matrizPedidos = [pide np r],
      atendido = [False], hayDeadlock = False, tieneUnPedido = t\<rparr>
    = Some \<lparr>pokemonsDisponibles = disp, matrizUtilizados = u, matrizPedidos = [pide np r],
      atendido = [False], hayDeadlock = False, tieneUnPedido = True\<rparr>"
  using atender_uno_pide [OF assms(1), of "[]" 0 "[]" disp u "[]" "[]" False t] assms(2)
  by (simp add: vuelta_def)

lemma buscar_solo:
  assumes "r < np" and "disp ! r \<le> 0"
  shows "buscar_deadlock 1 np (piden np disp u [r]) = None"
proof (rule ccontr)
  assume "buscar_deadlock 1 np (piden np disp u [r]) \<noteq> None"
  then obtain y where y: "buscar_deadlock 1 np (piden np disp u [r]) = Some y" by blast
  have N: "1 = (1 :: nat) \<longrightarrow> np = np \<longrightarrow> (\<forall>t. piden np disp u [r] \<noteq> solo t)"
    if solo: "solo = (\<lambda>t. \<lparr>pokemonsDisponibles = disp, matrizUtilizados = u, matrizPedidos = [pide np r],
      atendido = [False], hayDeadlock = False, tieneUnPedido = t\<rparr>)" for solo
    using y
  proof (rule buscar_deadlock.raw_induct [rotated, where P = "\<lambda>ne np' d y. ne = 1 \<longrightarrow> np' = np \<longrightarrow> (\<forall>t. d \<noteq> solo t)"])
    fix f ne np' d y
    assume IH: "\<And>ne np' d y. f ne np' d = Some y \<Longrightarrow> ne = 1 \<longrightarrow> np' = np \<longrightarrow> (\<forall>t. d \<noteq> solo t)"
      and run: "(if \<not> hayDeadlock d \<and> hayAlguienParaAtender d then Option.bind (vuelta ne np' d) (f ne np')
        else Some d) = Some y"
    show "ne = 1 \<longrightarrow> np' = np \<longrightarrow> (\<forall>t. d \<noteq> solo t)"
    proof (intro impI allI notI)
      fix t assume d: "ne = 1" "np' = np" "d = solo t"
      then have "vuelta 1 np d = Some (solo True)" using vuelta_solo [OF assms, of u t] by (simp add: solo)
      moreover have "\<not> hayDeadlock d" "hayAlguienParaAtender d" by (simp_all add: d solo hayAlguienParaAtender_def)
      ultimately have "f 1 np (solo True) = Some y" using run d by simp
      then show False using IH by blast
    qed
  qed
  show False using N [OF refl] by (force simp: piden_def)
qed

text \<open>The rounds one after the other: each is defined and the condition of the loop holds again.\<close>

lemma solo_rondas:
  assumes "r < np" and "disp ! r \<le> 0"
  shows "\<exists>ronda. ronda 0 = piden np disp u [r] \<and> (\<forall>k. \<not> hayDeadlock (ronda k) \<and> hayAlguienParaAtender (ronda k)
    \<and> atendido (ronda k) = [False] \<and> pokemonsDisponibles (ronda k) = disp \<and> matrizPedidos (ronda k) = [pide np r]
    \<and> vuelta 1 np (ronda k) = Some (ronda (Suc k)))"
proof -
  define ronda where "ronda k = (piden np disp u [r])\<lparr>tieneUnPedido := 0 < k\<rparr>" for k :: nat
  have "vuelta 1 np (ronda k) = Some (ronda (Suc k))" for k
    using vuelta_solo [OF assms, of u "0 < k"] by (simp add: ronda_def piden_def)
  moreover have "ronda 0 = piden np disp u [r]" by (simp add: ronda_def piden_def)
  ultimately show ?thesis
    by (intro exI [of _ ronda]) (simp add: ronda_def piden_def hayAlguienParaAtender_def)
qed

end
