(* ===== verification/Mapa_Sample.thy ===== *)
theory Mapa_Sample
  imports Mapa_Scheduler Mapa_Detector
begin

text \<open>
  Concrete maps for the witnesses: one nest, a ready trainer that has two pokemons of it and a
  blocked trainer that waits for one; and two trainers in a deadlock.
\<close>

definition poke :: "byte list \<Rightarrow> byte \<Rightarrow> t_infoPokemon" where
  "poke nombre c = \<lparr>pk_nombre = nombre, id_pokenest = c, species = [80], level = 5\<rparr>"

definition trainer :: "int \<Rightarrow> byte \<Rightarrow> byte \<Rightarrow> ptr list \<Rightarrow> ptr list t_entrenador" where
  "trainer fd sim busca ps = \<lparr>ent_nombre = [sim], posx = 1, posy = 1, ent_id = fd, simbolo = sim,
     pokenest_buscada = busca, cantDeadlocks = 0, ultimo_pokemon = 0, pokemons = ps\<rparr>"

definition nest :: "byte \<Rightarrow> ptr list \<Rightarrow> ptr list PokeNest" where
  "nest c ps = \<lparr>nest_id = c, nest_posx = 5, nest_posy = 3, cantidad = of_nat (length ps), listaPokemons = ps\<rparr>"

lemmas sample_simps = poke_def trainer_def nest_def

definition mapa1 :: "(int \<Rightarrow> byte list) \<Rightarrow> ptr list mapa" where
  "mapa1 inp = \<lparr>entrenadores = [1, 2], colaListos = [1], colaBloqueados = [2], listaPokenests = [10, 11],
     ents = [1 \<mapsto> trainer 4 65 0 [100, 101], 2 \<mapsto> trainer 5 66 80 []],
     nests = [10 \<mapsto> nest 80 [], 11 \<mapsto> nest 81 [102]],
     infos = [100 \<mapsto> poke [49] 80, 101 \<mapsto> poke [50] 80, 102 \<mapsto> poke [49] 81], next_ptr = 1000,
     streams = inp, calls = [], set_fd_max = 5, algoritmo = [], quantum = 2, batalla = 1,
     ruta_mapa = [77], nombre_mapa = [77]\<rparr>"

lemma dom_mapa1 [simp]: "dom (ents (mapa1 inp)) = {1, 2}" "dom (nests (mapa1 inp)) = {10, 11}"
  "dom (infos (mapa1 inp)) = {100, 101, 102}"
  by (auto simp: mapa1_def)

lemma total_mapa1: "total (\<lambda>l. l) (mapa1 inp) = {#100, 101, 102#}"
  by (simp add: total_def ents_total_def nests_total_def ent_mset_def nest_mset_def)
    (simp add: mapa1_def sample_simps)

lemma mapa1_fixed: "fixed_ok (\<lambda>l. l) (mapa1 inp)"
  by (simp add: fixed_ok_def) (auto simp: mapa1_def sample_simps split: if_splits, rule exI [of _ 11], simp)

lemma mapa1_ok: "mapa_ok (\<lambda>l. l) (mapa1 inp)"
proof -
  have "nest_ok (\<lambda>l. l) (mapa1 inp) n" if "nests (mapa1 inp) p = Some n" for p n
    using that by (auto simp: nest_ok_def mapa1_def sample_simps split: if_splits)
  moreover have "ent_ok (\<lambda>l. l) (mapa1 inp) e" if "ents (mapa1 inp) p = Some e" for p e
    using that unfolding ent_ok_def dom_mapa1 by (auto simp: mapa1_def sample_simps split: if_splits)
  ultimately show ?thesis by (auto simp: mapa_ok_def mapa1_fixed total_mapa1)
qed

lemma mapa1_colas: "colas_ok (\<lambda>l. l) (mapa1 inp)"
  by (simp add: colas_ok_def) (simp add: mapa1_def sample_simps inj_on_def)

interpretation ml: map_lists hol_list_more "\<lambda>l. l"
  by (unfold_locales)

lemma ml: "map_lists hol_list_more (\<lambda>l :: ptr list. l)"
  by (rule ml.map_lists_axioms)

text \<open>Two trainers, each with what the other looks for, both blocked.\<close>

definition mapa2 :: "ptr list mapa" where
  "mapa2 = \<lparr>entrenadores = [1, 2], colaListos = [], colaBloqueados = [1, 2], listaPokenests = [10, 11],
     ents = [1 \<mapsto> trainer 4 65 81 [100], 2 \<mapsto> trainer 5 66 80 [101]],
     nests = [10 \<mapsto> nest 80 [], 11 \<mapsto> nest 81 []],
     infos = [100 \<mapsto> poke [49] 80, 101 \<mapsto> poke [50] 81], next_ptr = 1000,
     streams = (\<lambda>_. []), calls = [], set_fd_max = 5, algoritmo = [], quantum = 2, batalla = 1,
     ruta_mapa = [77], nombre_mapa = [77]\<rparr>"

definition mapa2_copied :: "ptr list mapa" where
  "mapa2_copied = mapa2\<lparr>next_ptr := 1002, ents := (ents mapa2)(1000 \<mapsto> trainer 4 65 81 [100], 1001 \<mapsto> trainer 5 66 80 [101])\<rparr>"

lemmas hol_more_simps = hol_list_more_def t_list_ops.defs hol_list_def

lemma lista_ptrs_hol: "lista_ptrs hol_list_more l = Some l"
proof -
  have "map (list_get hol_list_more l) [0..<length l] = map Some l"
    by (rule nth_equalityI) (simp_all add: hol_more_simps)
  moreover have "those (map Some l) = Some l" by (induction l) auto
  ultimately show ?thesis by (simp add: lista_ptrs_def hol_list_more.size_eq)
qed

lemma mapa2_copies: "duplicar_lista hol_list_more mapa2 = Some ([1000, 1001], mapa2_copied)"
  by (simp add: duplicar_lista_def lista_ptrs_hol mapa2_copied_def) (simp add: mapa2_def)

lemma mapa2_matrices:
  "matrices hol_list_more [1000, 1001] mapa2_copied = Some (piden 2 [0, 0] [[1, 0], [0, 1]] [1, 0])"
  by (simp add: matrices_def lista_ptrs_hol contar_pokemons_def mapa2_copied_def piden_def)
    (simp add: mapa2_def sample_simps lista_ptrs_hol pide_def numeral_2_eq_2)

lemma mapa2_detected:
  assumes "atendido d = [False, False]"
  shows "deadlockeados hol_list_more [1000, 1001] d mapa2_copied = Some [1000, 1001]"
  using assms
  by (simp add: deadlockeados_def no_atendidos_def mapa2_copied_def retieneAlgunObjetivo_def lista_ptrs_hol)
    (simp add: mapa2_def sample_simps)

lemma mapa2_blocked: "todos (estaBloqueado hol_list_more mapa2_copied) [1000, 1001] = Some True"
proof -
  have ptrs: "lista_ptrs hol_list_more (colaBloqueados mapa2_copied) = Some [1, 2]"
    by (simp add: lista_ptrs_hol mapa2_copied_def mapa2_def)
  have e: "ents mapa2_copied 1000 = Some (trainer 4 65 81 [100])" "ents mapa2_copied 1001 = Some (trainer 5 66 80 [101])"
    "ents mapa2_copied 1 = Some (trainer 4 65 81 [100])" "ents mapa2_copied 2 = Some (trainer 5 66 80 [101])"
    by (simp_all add: mapa2_copied_def mapa2_def)
  have "estaBloqueado hol_list_more mapa2_copied 1000 = Some True"
    using e unfolding estaBloqueado_def ptrs by (simp add: trainer_def)
  moreover have "estaBloqueado hol_list_more mapa2_copied 1001 = Some True"
    using e unfolding estaBloqueado_def ptrs by (simp add: trainer_def)
  ultimately show ?thesis by simp
qed

end
