(* ===== verification/Mapa_Correct.thy ===== *)
theory Mapa_Correct
  imports Mapa_Capture Mapa_Sample
begin

text \<open>
  The properties of the map server: requests, taking a trainer apart, the two scheduling algorithms,
  the deadlock detector, the string comparison.
\<close>

section \<open>Requests\<close>

text \<open>
  C17: A request that the map answers keeps every pokemon with exactly one owner, every nest's counter
  equal to what it has, the queues as they are and the other trainers untouched; the answer is one
  of the four turn results.
\<close>

theorem atenderSolicitud_conserves:
  assumes lists: "map_lists L elems" and ok: "mapa_ok elems s" and run: "atenderSolicitud L p s = Some (r, s')"
  shows "mapa_ok elems s' \<and> total elems s' = total elems s
    \<and> colaListos s' = colaListos s \<and> colaBloqueados s' = colaBloqueados s
    \<and> (\<forall>q. q \<noteq> p \<longrightarrow> ents s' q = ents s q)
    \<and> r \<in> {TURNO_NORMAL, DESCONEXION, CAPTURO_POKEMON, NO_ENCONTRO_POKEMON}"
  using map_lists.atenderSolicitud_keeps [OF lists run] ok by (simp add: keeps_def frame_def)

lemma mapa1_locate:
  "\<exists>s'. atenderSolicitud hol_list_more 1 (mapa1 ((\<lambda>_. [])(4 := [1, 1, 81]))) = Some (TURNO_NORMAL, s')"
  by (simp add: mapa1_def atenderSolicitud_def connection_recv_def recv_fd_def con_coordenadas_def con_texto_def
      OC_defs responder_def ubicar_pokenest_def msg_char_def buscarPokenest_def hol_more_simps sample_simps
      Let_def)

lemma atenderSolicitud_conserves_witness:
  "\<exists>s'. atenderSolicitud hol_list_more 1 (mapa1 ((\<lambda>_. [])(4 := [1, 1, 81]))) = Some (TURNO_NORMAL, s')
     \<and> mapa_ok (\<lambda>l. l) s' \<and> total (\<lambda>l. l) s' = {#100, 101, 102#}"
proof -
  obtain s' where s': "atenderSolicitud hol_list_more 1 (mapa1 ((\<lambda>_. [])(4 := [1, 1, 81]))) = Some (TURNO_NORMAL, s')"
    using mapa1_locate by blast
  show ?thesis using atenderSolicitud_conserves [OF ml mapa1_ok s'] s' by (simp add: total_mapa1)
qed

text \<open>
  C18: A request to capture, at a nest the map has: when the nest has pokemons the trainer gets one of
  them, the last in its list, the nest loses it and counts one less, the trainer looks for nothing any
  more; when the nest is empty the answer is NO_ENCONTRO_POKEMON and nobody's pokemons change. The
  request always returns: no two names in a nest are equal, so the sort never runs into the missing
  result of the comparison.
\<close>

theorem atrapar_pokemon_correct:
  assumes lists: "map_lists L elems" and ok: "mapa_ok elems s" and e: "ents s p = Some e"
    and q: "buscarPokenest L c s = Some (Some q)" "nests s q = Some n"
  shows "\<exists>r s'. atrapar_pokemon L p (Some (c # cs)) s = Some (r, s')
    \<and> (if elems (listaPokemons n) = [] then r = NO_ENCONTRO_POKEMON \<and> ents s' = ents s
       else \<exists>i n' e'. r = CAPTURO_POKEMON \<and> i \<in> set (elems (listaPokemons n)) \<and> ents s' p = Some e' \<and> nests s' q = Some n'
         \<and> elems (pokemons e') = elems (pokemons e) @ [i] \<and> pokenest_buscada e' = 0
         \<and> mset (elems (listaPokemons n)) = add_mset i (mset (elems (listaPokemons n')))
         \<and> cantidad n' = cantidad n - 1)"
proof -
  obtain r s' where r: "tomar_pokemon L p (Some (c # cs)) s = Some (r, s')"
    and post: "if elems (listaPokemons n) = [] then r = None \<and> ents s' = ents s
       else \<exists>i n' e'. r = Some i \<and> i \<in> set (elems (listaPokemons n)) \<and> ents s' p = Some e' \<and> nests s' q = Some n'
         \<and> elems (pokemons e') = elems (pokemons e) @ [i] \<and> pokenest_buscada e' = 0
         \<and> mset (elems (listaPokemons n)) = add_mset i (mset (elems (listaPokemons n')))
         \<and> cantidad n' = cantidad n - 1"
    using map_lists.tomar_pokemon_runs [OF lists ok e q] by blast
  then show ?thesis by (cases "elems (listaPokemons n) = []") (auto simp: atrapar_pokemon_def)
qed

lemma mapa1_nests: "buscarPokenest hol_list_more 81 (mapa1 inp) = Some (Some 11)"
  "nests (mapa1 inp) 11 = Some (nest 81 [102])" "ents (mapa1 inp) 1 = Some (trainer 4 65 0 [100, 101])"
  "ents (mapa1 inp) 2 = Some (trainer 5 66 80 [])"
  by (simp_all add: mapa1_def buscarPokenest_def hol_more_simps sample_simps)

lemma atrapar_pokemon_correct_witness:
  "\<exists>s' e'. atrapar_pokemon hol_list_more 1 (Some [81, 0]) (mapa1 (\<lambda>_. [])) = Some (CAPTURO_POKEMON, s')
     \<and> ents s' 1 = Some e' \<and> pokemons e' = [100, 101, 102]"
  using atrapar_pokemon_correct [OF ml mapa1_ok [of "\<lambda>_. []"] mapa1_nests(3,1,2), of "[0]"]
  by (auto simp: nest_def trainer_def)

text \<open>
  The receive of the map has no case for OC_ATRAPAR_ULTIMO_POKEMON (nor for any other code outside
  its two groups), so the handler goes on with a message pointer nobody set: the request of a trainer
  for the last pokemon of its list is undefined, whatever follows in the stream.
\<close>

theorem ultimo_pokemon_undefined:
  assumes e: "ents s p = Some e" and inp: "streams s (ent_id e) = oc # n # rest"
    and oc: "\<not> con_coordenadas oc" "\<not> con_texto oc"
  shows "atenderSolicitud L p s = None"
proof -
  have "connection_recv (ent_id e) s
      = ((3, Some oc, None), s\<lparr>streams := (streams s)(ent_id e := rest)\<rparr>)"
    using inp oc by (simp add: connection_recv_def recv_fd_def)
  moreover have "oc \<noteq> OC_UBICAR_POKENEST" "oc \<noteq> OC_AVANZAR_POSICION" "oc \<noteq> OC_ATRAPAR_POKEMON"
    using oc(2) by (auto simp: con_texto_def)
  ultimately show ?thesis
    using e by (simp add: atenderSolicitud_def responder_def atrapar_ultimo_pokemon_def tomar_pokemon_def msg_char_def)
qed

lemma ultimo_pokemon_undefined_witness:
  "atenderSolicitud hol_list_more 1 (mapa1 (\<lambda>_. [OC_ATRAPAR_ULTIMO_POKEMON, 1, 81])) = None"
proof -
  have "streams (mapa1 (\<lambda>_. [OC_ATRAPAR_ULTIMO_POKEMON, 1, 81])) (ent_id (trainer 4 65 0 [100, 101]))
      = OC_ATRAPAR_ULTIMO_POKEMON # 1 # [81]" by (simp add: mapa1_def)
  then show ?thesis
    by (rule ultimo_pokemon_undefined [OF mapa1_nests(3)])
      (simp_all add: con_coordenadas_def con_texto_def OC_defs)
qed

section \<open>Taking a trainer apart\<close>

text \<open>
  C19: With room for the calls, liberarRecursos2 returns: the trainer is gone, no pokemon is lost or
  duplicated, the trainers that became ready are blocked ones that waited for a pokemon the trainer
  had, the rest of the blocked is as it was, and where one of them still waits for a nest, that nest
  got nothing back.
\<close>

theorem liberarRecursos2_correct:
  assumes lists: "map_lists L elems" and ok: "mapa_ok elems s" "colas_ok elems s" and e: "ents s p = Some e"
    and out: "p \<notin> set (elems (colaBloqueados s))"
    and k: "length (elems (pokemons e)) + length (elems (colaBloqueados s)) + 2 \<le> k"
  shows "\<exists>s' us. liberarRecursos2 k L p s = Some s'
    \<and> mapa_ok elems s' \<and> total elems s' = total elems s \<and> dom (ents s') = dom (ents s) - {p}
    \<and> elems (colaListos s') = elems (colaListos s) @ us
    \<and> mset (elems (colaBloqueados s)) = mset us + mset (elems (colaBloqueados s'))
    \<and> (\<forall>u \<in> set us. \<exists>i \<in> set (elems (pokemons e)). \<exists>x. infos s i = Some x \<and> espera s (id_pokenest x) u)
    \<and> (\<forall>q \<in> set (elems (colaBloqueados s')). ents s' q = ents s q)
    \<and> (\<forall>q \<in> set (elems (colaBloqueados s')). \<forall>r n. nests s r = Some n \<longrightarrow> espera s' (nest_id n) q \<longrightarrow>
          nests s' r = Some n)"
proof -
  obtain s' us where s': "liberarRecursos2 k L p s = Some s'" "repartido elems p (elems (pokemons e)) s us s'"
    using map_lists.liberarRecursos2_runs [OF lists ok e out k] by blast
  then show ?thesis using ok(1) by (intro exI [of _ s'] exI [of _ us]) (simp add: repartido_def keeps_def)
qed

lemma liberarRecursos2_correct_witness:
  "\<exists>s'. liberarRecursos2 5 hol_list_more 1 (mapa1 (\<lambda>_. [])) = Some s' \<and> dom (ents s') = {2}
     \<and> total (\<lambda>l. l) s' = {#100, 101, 102#}"
proof -
  let ?s = "mapa1 (\<lambda>_. [])"
  have q: "1 \<notin> set (colaBloqueados ?s)"
    "length (pokemons (trainer 4 65 0 [100, 101])) + length (colaBloqueados ?s) + 2 \<le> 5"
    by (simp_all add: mapa1_def trainer_def)
  obtain s' where "liberarRecursos2 5 hol_list_more 1 ?s = Some s'"
      "total (\<lambda>l. l) s' = total (\<lambda>l. l) ?s" "dom (ents s') = dom (ents ?s) - {1}"
    using liberarRecursos2_correct [OF ml mapa1_ok mapa1_colas mapa1_nests(3) q] by blast
  then show ?thesis by (auto simp: total_mapa1)
qed

section \<open>Scheduling\<close>

text \<open>
  C20: A round-robin burst whose requests have an answer always ends, and puts the trainer at the head
  of the queue where the answer says: at the end of the ready queue after its quantum or a capture,
  at the end of the blocked queue when its nest was empty, nowhere when it left, its pokemons given
  to blocked trainers that then follow in the ready queue. Pokemons are conserved.
\<close>

theorem ejecutarRafagaRR_correct:
  assumes lists: "map_lists L elems" and ok: "mapa_ok elems s" "colas_ok elems s"
    and q: "elems (colaListos s) = p # ps"
    and k: "size (total elems s) + length (elems (colaBloqueados s)) + 2 \<le> k"
    and turn: "\<And>cola. elems cola = ps \<Longrightarrow> \<exists>s1. quantum_RR L p (nat (quantum s)) None
      (emit [Mutex_lock Cola_listos, Mutex_unlock Cola_listos] (s\<lparr>colaListos := cola\<rparr>)) = Some (Some r, s1)"
  shows "\<exists>s'. ejecutarRafagaRR k L s = Some s' \<and> mapa_ok elems s' \<and> total elems s' = total elems s
    \<and> turno_hecho elems p r ps s s'"
  using map_lists.rafaga_RR_runs [OF lists ok q k turn] ok(1) by (auto simp: keeps_def)

lemma ejecutarRafagaRR_correct_witness:
  "\<exists>s'. ejecutarRafagaRR 6 hol_list_more (mapa1 ((\<lambda>_. [])(4 := [3, 1, 77, 3, 1, 80]))) = Some s'
     \<and> colaListos s' = [1] \<and> colaBloqueados s' = [2]"
proof -
  let ?s = "mapa1 ((\<lambda>_. [])(4 := [3, 1, 77, 3, 1, 80]))"
  have turn: "\<exists>s1. quantum_RR hol_list_more 1 (nat (quantum ?s)) None
      (emit [Mutex_lock Cola_listos, Mutex_unlock Cola_listos] (?s\<lparr>colaListos := cola\<rparr>)) = Some (Some TURNO_NORMAL, s1)"
    if "cola = []" for cola
  proof -
    let ?s0 = "emit [Mutex_lock Cola_listos, Mutex_unlock Cola_listos] (?s\<lparr>colaListos := cola\<rparr>)"
    obtain s1 where s1: "atenderSolicitud hol_list_more 1 ?s0 = Some (TURNO_NORMAL, s1)"
        "ents s1 = (ents ?s0)(1 \<mapsto> mover 77 (trainer 4 65 0 [100, 101]))" "streams s1 = (streams ?s0)(4 := [3, 1, 80])"
      using atenderSolicitud_move [of ?s0 1 "trainer 4 65 0 [100, 101]" 77 "[3, 1, 80]" hol_list_more] mapa1_nests(3)
      by (auto simp: mapa1_def trainer_def OC_defs)
    let ?s1 = "emit [Sem_post_dibujo] s1"
    obtain s2 where s2: "atenderSolicitud hol_list_more 1 ?s1 = Some (TURNO_NORMAL, s2)"
      using atenderSolicitud_move [of ?s1 1 "mover 77 (trainer 4 65 0 [100, 101])" 80 "[]" hol_list_more] s1(2,3)
      by (auto simp: trainer_def OC_defs)
    have "quantum ?s = 2" by (simp add: mapa1_def)
    then show ?thesis using s1(1) s2 by (simp add: numeral_2_eq_2)
  qed
  have q: "colaListos ?s = 1 # []" by (simp add: mapa1_def)
  have "size (total (\<lambda>l. l) ?s) + length (colaBloqueados ?s) + 2 \<le> 6" by (simp add: total_mapa1) (simp add: mapa1_def)
  from ejecutarRafagaRR_correct [OF ml mapa1_ok mapa1_colas q this turn]
  show ?thesis by (auto simp: turno_hecho_def respuesta_defs) (simp add: mapa1_def)
qed

end
