(* ===== verification/Mapa_Detector_Correct.thy ===== *)
theory Mapa_Detector_Correct
  imports Mapa_Capture Mapa_Sample
begin

text \<open>
  The properties of the shortest-distance planner, of the select loop, of the string comparison and of
  the deadlock detector.
\<close>

section \<open>Shortest distance\<close>

text \<open>The moves that take a trainer to a nest: the coordinates of a nest are signed bytes.\<close>

definition en_nido :: "'l PokeNest \<Rightarrow> 'l t_entrenador \<Rightarrow> bool" where
  "en_nido n e \<longleftrightarrow> posx e = sint (nest_posx n) \<and> posy e = sint (nest_posy n)"

definition lejania :: "'l PokeNest \<Rightarrow> 'l t_entrenador \<Rightarrow> int" where
  "lejania n e = \<bar>posx e - sint (nest_posx n)\<bar> + \<bar>posy e - sint (nest_posy n)\<bar>"

lemma lejania_mover: "lejania n e \<le> lejania n (mover m e) + 1"
  by (auto simp: lejania_def mover_def)

lemma lejania_moves: "en_nido n (fold mover ms e) \<Longrightarrow> lejania n e \<le> int (length ms)"
proof (induction ms arbitrary: e)
  case (Cons m ms)
  then show ?case using lejania_mover [of n e m] by force
qed (simp add: en_nido_def lejania_def)

lemma lejania_acerca:
  assumes "lejania n e \<noteq> 0"
  obtains m where "lejania n (mover m e) = lejania n e - 1"
proof -
  let ?m = "if posx e < sint (nest_posx n) then MOVE_RIGHT else if sint (nest_posx n) < posx e then MOVE_LEFT
    else if posy e < sint (nest_posy n) then MOVE_DOWN else MOVE_UP"
  have "lejania n (mover ?m e) = lejania n e - 1"
    using assms by (auto simp: lejania_def mover_def MOVE_defs)
  then show thesis by (rule that)
qed

lemma lejania_reached: "\<exists>ms. en_nido n (fold mover ms e) \<and> int (length ms) = lejania n e"
proof (induction "nat (lejania n e)" arbitrary: e)
  case 0
  then have "en_nido n e" unfolding lejania_def en_nido_def by arith
  moreover have "lejania n e = 0" using 0 by (simp add: lejania_def)
  ultimately show ?case by (intro exI [of _ "[]"]) simp
next
  case (Suc k)
  then obtain m where m: "lejania n (mover m e) = lejania n e - 1" using lejania_acerca [of n e] by fastforce
  then have "k = nat (lejania n (mover m e))" using Suc.hyps(2) by simp
  from Suc.hyps(1) [OF this] obtain ms where "en_nido n (fold mover ms (mover m e))" "int (length ms) = lejania n (mover m e)"
    by blast
  then show ?case using m by (intro exI [of _ "m # ms"]) simp
qed

text \<open>
  C21: When every ready trainer looks for a nest, the planner takes one out of the ready queue that is
  nearest to its nest: no ready trainer, whatever moves it makes, reaches the nest it looks for in
  fewer moves than the chosen one needs.
\<close>

theorem menor_distancia_correct:
  assumes lists: "map_lists L elems" and ok: "colas_ok elems s" and some: "elems (colaListos s) \<noteq> []"
    and e: "\<And>q. q \<in> set (elems (colaListos s)) \<Longrightarrow> ents s q = Some (ent q)"
    and n: "\<And>q. q \<in> set (elems (colaListos s)) \<Longrightarrow>
      \<exists>r. buscarPokenest L (pokenest_buscada (ent q)) s = Some (Some r) \<and> nests s r = Some (nido q)"
  shows "\<exists>p cola. buscarEntrenadorConMenorDistancia L s = Some (Some p, cola)
     \<and> p \<in> set (elems (colaListos s)) \<and> elems cola = remove1 p (elems (colaListos s))
     \<and> (\<exists>ms. en_nido (nido p) (fold mover ms (ent p))
         \<and> (\<forall>q \<in> set (elems (colaListos s)). \<forall>ms'. en_nido (nido q) (fold mover ms' (ent q)) \<longrightarrow> length ms \<le> length ms'))"
proof -
  have "distancia L s q = Some (lejania (nido q) (ent q))" if "q \<in> set (elems (colaListos s))" for q
    using e [OF that] n [OF that] by (auto simp: distancia_def lejania_def abs_minus_commute)
  from map_lists.menor_distancia_picks [OF lists ok some this]
  obtain p cola where p: "buscarEntrenadorConMenorDistancia L s = Some (Some p, cola)"
      "p \<in> set (elems (colaListos s))" "elems cola = remove1 p (elems (colaListos s))"
      "\<forall>q \<in> set (elems (colaListos s)). lejania (nido p) (ent p) \<le> lejania (nido q) (ent q)"
    by blast
  obtain ms where ms: "en_nido (nido p) (fold mover ms (ent p))" "int (length ms) = lejania (nido p) (ent p)"
    using lejania_reached by blast
  have "length ms \<le> length ms'"
    if "q \<in> set (elems (colaListos s))" "en_nido (nido q) (fold mover ms' (ent q))" for q ms'
    using lejania_moves [OF that(2)] p(4) that(1) ms(2) by force
  then show ?thesis using p ms(1) by blast
qed

definition mapa3 :: "ptr list mapa" where
  "mapa3 = (mapa1 (\<lambda>_. []))\<lparr>colaListos := [1, 2], colaBloqueados := [],
     ents := [1 \<mapsto> trainer 4 65 80 [], 2 \<mapsto> (trainer 5 66 81 [])\<lparr>posx := 4\<rparr>]\<rparr>"

lemma mapa3_colas: "colas_ok (\<lambda>l. l) mapa3"
proof -
  have "dom (ents mapa3) = {1, 2}" by (auto simp: mapa3_def)
  then show ?thesis by (simp add: colas_ok_def) (simp add: mapa3_def mapa1_def trainer_def inj_on_def)
qed

lemma mapa3_nests: "buscarPokenest hol_list_more 80 mapa3 = Some (Some 10)"
  "buscarPokenest hol_list_more 81 mapa3 = Some (Some 11)"
  "nests mapa3 10 = Some (nest 80 [])" "nests mapa3 11 = Some (nest 81 [102])"
  "ents mapa3 1 = Some (trainer 4 65 80 [])" "ents mapa3 2 = Some ((trainer 5 66 81 [])\<lparr>posx := 4\<rparr>)"
  by (simp_all add: mapa3_def mapa1_def buscarPokenest_def hol_more_simps nest_def)

lemma menor_distancia_correct_witness:
  "\<exists>p cola. buscarEntrenadorConMenorDistancia hol_list_more mapa3 = Some (Some p, cola) \<and> p = 2 \<and> cola = [1]"
proof -
  have q: "colaListos mapa3 = [1, 2]" by (simp add: mapa3_def)
  define E where "E q = (if q = 1 then trainer 4 65 80 [] else (trainer 5 66 81 [])\<lparr>posx := 4\<rparr>)" for q :: ptr
  define N where "N q = (if q = 1 then nest 80 [] else nest 81 [102])" for q :: ptr
  have e: "ents mapa3 p = Some (E p)" if "p \<in> set (colaListos mapa3)" for p
    using that q mapa3_nests by (auto simp: E_def)
  have n: "\<exists>r. buscarPokenest hol_list_more (pokenest_buscada (E p)) mapa3 = Some (Some r) \<and> nests mapa3 r = Some (N p)"
    if "p \<in> set (colaListos mapa3)" for p
    using that q mapa3_nests by (auto simp: E_def N_def trainer_def)
  obtain p cola ms where r: "buscarEntrenadorConMenorDistancia hol_list_more mapa3 = Some (Some p, cola)" "p \<in> {1, 2}"
      "cola = remove1 p [1, 2]" "en_nido (N p) (fold mover ms (E p))"
      "\<And>ms'. en_nido (N 2) (fold mover ms' (E 2)) \<Longrightarrow> length ms \<le> length ms'"
    using menor_distancia_correct [OF ml mapa3_colas _ e n] q by auto
  obtain ms2 where "en_nido (N 2) (fold mover ms2 (E 2))" "int (length ms2) = lejania (N 2) (E 2)"
    using lejania_reached by blast
  then have "lejania (N p) (E p) \<le> lejania (N 2) (E 2)" using r(5) lejania_moves [OF r(4)] by fastforce
  then have "p = 2" using r(2) by (auto simp: lejania_def E_def N_def trainer_def nest_def)
  then show ?thesis using r by simp
qed

text \<open>
  C22: A trainer that sends moves and closes its connection is served to the end of the stream in one
  burst: it ends where the moves lead, and the burst ends as a disconnection.
\<close>

theorem rafaga_SRDF_walks:
  assumes "ents s p = Some e" and "streams s (ent_id e) = move_requests ms"
  shows "\<exists>s'. rafaga_SRDF L p s = Some (DESCONEXION, s') \<and> ents s' p = Some (fold mover ms e)"
  using assms by (rule rafaga_walks)

lemma rafaga_SRDF_walks_witness:
  "\<exists>s' e'. rafaga_SRDF hol_list_more 1 (mapa1 (\<lambda>_. move_requests [77, 77, 80])) = Some (DESCONEXION, s')
     \<and> ents s' 1 = Some e' \<and> posx e' = 3 \<and> posy e' = 2"
proof -
  have e: "ents (mapa1 (\<lambda>_. move_requests [77, 77, 80])) 1 = Some (trainer 4 65 0 [100, 101])"
    by (simp add: mapa1_def)
  have "streams (mapa1 (\<lambda>_. move_requests [77, 77, 80])) (ent_id (trainer 4 65 0 [100, 101]))
      = move_requests [77, 77, 80]" by (simp add: mapa1_def)
  from rafaga_SRDF_walks [OF e this, of hol_list_more]
  show ?thesis by (auto simp: mover_def MOVE_defs trainer_def)
qed

section \<open>The select loop\<close>

text \<open>
  When a blocked trainer sends anything, the select loop takes it out of the blocked queue, reads
  up to 512 bytes and does nothing with them: the trainer still exists but is in no queue any more,
  so the planner never serves it again.
\<close>

theorem evento_bloqueado_loses:
  assumes lists: "map_lists L elems" and ok: "colas_ok elems s" and b: "b \<in> set (elems (colaBloqueados s))"
    and e: "ents s b = Some e" and data: "streams s (ent_id e) \<noteq> []"
  shows "\<exists>s'. evento_bloqueado k L (ent_id e) s = Some s' \<and> ents s' b = Some e
     \<and> b \<notin> set (elems (colaListos s')) \<and> b \<notin> set (elems (colaBloqueados s'))
     \<and> streams s' (ent_id e) = drop 512 (streams s (ent_id e))"
proof -
  let ?s = "emit [Mutex_lock Deadlock_ejecutando, Mutex_lock Turno_desbloqueo] s"
  obtain cola where cola: "buscarEntrenador L (ent_id e) (colaBloqueados s) ?s = Some (Some b, cola)"
      "elems cola = remove1 b (elems (colaBloqueados s))"
    using map_lists.buscarEntrenador_ok [OF lists, of "colaBloqueados s" ?s b e] ok b e
    by (auto simp: colas_ok_def)
  have "b \<notin> set (elems (colaListos s))" using ok b by (auto simp: colas_ok_def)
  moreover have "b \<notin> set (elems cola)" using ok by (simp add: cola(2) colas_ok_def)
  ultimately show ?thesis
    using cola(1) data e by (simp add: evento_bloqueado_def recv_fd_def emit_def Let_def)
qed

lemma evento_bloqueado_loses_witness:
  "\<exists>s'. evento_bloqueado 9 hol_list_more 5 (mapa1 (\<lambda>_. [14])) = Some s'
     \<and> 2 \<notin> set (colaListos s') \<and> 2 \<notin> set (colaBloqueados s')"
proof -
  have b: "2 \<in> set (colaBloqueados (mapa1 (\<lambda>_. [14])))" "ents (mapa1 (\<lambda>_. [14])) 2 = Some (trainer 5 66 80 [])"
    "streams (mapa1 (\<lambda>_. [14])) (ent_id (trainer 5 66 80 [])) \<noteq> []"
    by (simp_all add: mapa1_def)
  have "ent_id (trainer 5 66 80 []) = 5" by (simp add: trainer_def)
  then show ?thesis using evento_bloqueado_loses [OF ml mapa1_colas b, of 9] by auto
qed

section \<open>comparar_strings\<close>

text \<open>
  The comparison of names is the lexicographic order on signed bytes between names of the same
  length; between names of different length it answers "smaller" both ways, against its description.
\<close>

theorem comparar_strings_order:
  "(length a = length b \<and> a \<noteq> b \<longrightarrow>
      comparar_strings a b = Some (if (a, b) \<in> lexord {(x, y). sint x < sint y} then 1 else 0))
   \<and> (length a \<noteq> length b \<longrightarrow> (\<exists>v w. comparar_strings a b = Some v \<and> comparar_strings b a = Some w \<and> v \<noteq> 0 \<and> w \<noteq> 0))"
  by (auto simp: comparar_strings_def comparar_loop_lexord strcmp_zero)

lemma comparar_strings_order_witness:
  "comparar_strings [80, 49] [80, 50] = Some 1 \<and> (\<exists>v. comparar_strings [80] [49, 50] = Some v \<and> v \<noteq> 0)"
proof -
  have "comparar_strings [80, 49] [80, 50] = Some 1"
    using comparar_strings_order [of "[80, 49]" "[80, 50]"] by simp
  then show ?thesis using comparar_strings_order [of "[80]" "[49, 50]"] by auto
qed

section \<open>The deadlock detector\<close>

text \<open>
  C23: When at least two trainers are there and each asks for one nest, the search of the detector has
  exactly three outcomes. If the first pass serves nobody, all are reported; if it serves everybody,
  nobody is; if it serves some of them, the second pass goes well up to a trainer whose request was
  granted: the flag is set but no column of its row is, and the index that has run off the row reads
  the array of available pokemons past its end.
\<close>

theorem detector_all_asking:
  assumes m: "matrices L copias s = Some d" and rows: "matrizPedidos d = map (pide np) rs"
    and rs: "\<forall>r \<in> set rs. r < np" "2 \<le> length rs"
  shows "(set (reparto (pokemonsDisponibles d) rs) = {False} \<longrightarrow>
      (\<exists>d'. buscar_deadlock (length copias) np d = Some d' \<and> atendido d' = replicate (length rs) False))
   \<and> (set (reparto (pokemonsDisponibles d) rs) = {True} \<longrightarrow>
      (\<exists>d'. buscar_deadlock (length copias) np d = Some d' \<and> atendido d' = replicate (length rs) True))
   \<and> (set (reparto (pokemonsDisponibles d) rs) = {True, False} \<longrightarrow> buscar_deadlock (length copias) np d = None
      \<and> (\<exists>d1 i d2. vuelta (length copias) np d = Some d1 \<and> atendido d1 = reparto (pokemonsDisponibles d) rs
          \<and> \<not> hayDeadlock d1 \<and> hayAlguienParaAtender d1 \<and> i < length rs
          \<and> pasada np [0..<i] (d1\<lparr>hayDeadlock := True\<rparr>) = Some d2
          \<and> tieneUnPedido d2 \<and> (\<forall>j < np. matrizPedidos d2 ! i ! j = 0)))"
proof -
  let ?d = "piden np (pokemonsDisponibles d) (matrizUtilizados d) rs"
  have "d = ?d" "length copias = length rs" using matrices_piden [OF m rows] by blast+
  then have d: "buscar_deadlock (length copias) np d = buscar_deadlock (length rs) np ?d"
    "vuelta (length copias) np d = vuelta (length rs) np ?d" by simp_all
  show ?thesis
    unfolding d using buscar_piden_stuck [OF rs] buscar_piden_all [OF rs] buscar_piden_past_end [OF rs]
    by (intro conjI impI) (assumption | blast | simp)+
qed

lemma detector_all_asking_witness:
  "\<exists>d'. buscar_deadlock 2 2 (piden 2 [0, 0] [[1, 0], [0, 1]] [1, 0]) = Some d' \<and> atendido d' = [False, False]"
  using detector_all_asking [OF mapa2_matrices, of 2 "[1, 0]"]
  by (simp add: piden_def numeral_2_eq_2)

text \<open>
  C24: A single trainer that asks for a pokemon nobody can give is never served and never reported: the
  search goes on for ever. There is an endless sequence of rounds, each of them defined, after each of
  which the condition of the loop holds again and nothing was given to anybody.
\<close>

theorem detector_alone_never_ends:
  assumes m: "matrices L [p] s = Some d" and rows: "matrizPedidos d = [pide np r]"
    and r: "r < np" "pokemonsDisponibles d ! r \<le> 0"
  shows "(\<exists>ronda. ronda 0 = d \<and> (\<forall>k. \<not> hayDeadlock (ronda k) \<and> hayAlguienParaAtender (ronda k)
      \<and> atendido (ronda k) = [False] \<and> pokemonsDisponibles (ronda k) = pokemonsDisponibles d
      \<and> matrizPedidos (ronda k) = matrizPedidos d
      \<and> vuelta (length [p]) np (ronda k) = Some (ronda (Suc k))))
    \<and> buscar_deadlock (length [p]) np d = None"
proof -
  have d: "d = piden np (pokemonsDisponibles d) (matrizUtilizados d) [r]"
    using matrices_piden [OF m, of np "[r]"] rows by simp
  then have "buscar_deadlock 1 np d = buscar_deadlock 1 np (piden np (pokemonsDisponibles d) (matrizUtilizados d) [r])"
    by (rule arg_cong)
  moreover note solo_rondas [OF r, of "matrizUtilizados d", folded d]
  ultimately show ?thesis using buscar_solo [OF r] rows by simp
qed

lemma detector_alone_never_ends_witness:
  "\<exists>d. matrices hol_list_more [1001] mapa2_copied = Some d \<and> buscar_deadlock 1 2 d = None
     \<and> (\<exists>ronda. ronda 0 = d \<and> (\<forall>k. hayAlguienParaAtender (ronda k) \<and> vuelta 1 2 (ronda k) = Some (ronda (Suc k))))"
proof -
  have m: "matrices hol_list_more [1001] mapa2_copied = Some (piden 2 [0, 0] [[0, 1]] [0])"
    by (simp add: matrices_def lista_ptrs_hol contar_pokemons_def mapa2_copied_def piden_def)
      (simp add: mapa2_def sample_simps lista_ptrs_hol pide_def numeral_2_eq_2)
  have "matrizPedidos (piden 2 [0, 0] [[0, 1]] [0]) = [pide 2 0]" "(0 :: nat) < 2"
    "pokemonsDisponibles (piden 2 [0, 0] [[0, 1]] [0]) ! 0 \<le> 0"
    by (simp_all add: piden_def)
  from detector_alone_never_ends [OF m this]
  show ?thesis using m by (intro exI [of _ "piden 2 [0, 0] [[0, 1]] [0]"]) auto
qed

section \<open>The victim\<close>

lemma liberarEntrenador_frees: "liberarEntrenador L p s = Some s' \<Longrightarrow> ents s' p = None"
  by (auto simp: liberarEntrenador_def bind_eq_Some_conv)

lemma liberarRecursos2_frees: "liberarRecursos2 k L p s = Some s' \<Longrightarrow> ents s' p = None"
proof (induction k arbitrary: s)
  case (Suc k)
  then obtain e where e: "ents s p = Some e" by (auto simp: bind_eq_Some_conv)
  obtain x l where x: "list_remove L (pokemons e) 0 = (x, l)" by fastforce
  show ?case
  proof (cases x)
    case None
    then show ?thesis using Suc.prems e x by (simp add: liberarEntrenador_frees)
  next
    case (Some i)
    then obtain s1 where "liberarRecursos2 k L p s1 = Some s'"
      using Suc.prems e x by (auto simp: bind_eq_Some_conv)
    then show ?thesis by (rule Suc.IH)
  qed
qed simp

lemma matarEntrenador_frees: "matarEntrenador k L p s = Some s' \<Longrightarrow> ents s' p = None"
  by (auto simp: matarEntrenador_def bind_eq_Some_conv Let_def split: prod.splits dest!: liberarRecursos2_frees)

lemma liberar_copias_twice: "p \<in> set ps \<Longrightarrow> ents s p = None \<Longrightarrow> liberar_copias ps s = None"
proof (induction ps arbitrary: s)
  case (Cons q ps)
  then show ?case by (cases "q = p") (auto simp: bind_eq_None_conv split: option.splits)
qed simp

lemma mandarAPelear_loser:
  "mandarAPelear L eqi battle p q s = Some (l, s') \<Longrightarrow> l = p \<or> l = q"
  by (auto simp: mandarAPelear_def bind_eq_Some_conv Let_def split: prod.splits if_splits)

lemma pelear_loser: "pelear L eqi battle p ps s = Some (l, s') \<Longrightarrow> l = p \<or> l \<in> set ps"
proof (induction ps arbitrary: p s)
  case (Cons q ps)
  then show ?case by (auto simp: bind_eq_Some_conv split: prod.splits dest!: mandarAPelear_loser)
qed simp

lemma filtrar_subset: "filtrar P xs = Some ys \<Longrightarrow> set ys \<subseteq> set xs"
  by (induction xs arbitrary: ys) (auto simp: bind_eq_Some_conv split: if_splits)

lemma no_atendidos_subset: "set (no_atendidos copias d) \<subseteq> set copias"
  by (auto simp: no_atendidos_def dest: set_zip_leftD)

lemma deadlockeados_subset: "deadlockeados L copias d s = Some ds \<Longrightarrow> set ds \<subseteq> set copias"
  using no_atendidos_subset by (auto simp: deadlockeados_def bind_eq_Some_conv dest!: filtrar_subset)

lemma resolver_kills:
  assumes "todos (estaBloqueado L s) (p # q # ps) = Some True" and "batalla (contarDeadlock (p # q # ps) s) \<noteq> 0"
    and "resolver k L eqi battle (p # q # ps) s = Some s'"
  shows "\<exists>l \<in> set (p # q # ps). ents s' l = None"
proof -
  let ?s = "emit [Mutex_lock Deadlock_ejecutando] (contarDeadlock (p # q # ps) s)"
  obtain l s1 s2 where l: "pelear L eqi battle p (q # ps) ?s = Some (l, s1)" "matarEntrenador k L l s1 = Some s2"
      "s' = emit [Mutex_unlock Deadlock_ejecutando] s2"
    using assms by (auto simp: resolver_def bind_eq_Some_conv Let_def simp del: pelear.simps todos.simps contarDeadlock.simps)
  show ?thesis using pelear_loser [OF l(1)] matarEntrenador_frees [OF l(2)] l(3) by auto
qed

lemma contarDeadlock_fields: "batalla (contarDeadlock ps s) = batalla s"
  by (induction ps arbitrary: s) simp_all

text \<open>
  When the detector finds a deadlock among blocked trainers and battles are on, its round is
  undefined: the victim, a copy, is freed when it is taken apart and freed again with the copies.
\<close>

theorem detector_frees_twice:
  assumes c: "duplicar_lista L s = Some (copias, s1)" and m: "matrices L copias s1 = Some d"
    and d: "buscar_deadlock (length copias) (length (pokemonsDisponibles d)) d = Some d'"
    and ds: "deadlockeados L copias d' s1 = Some (p # q # ps)"
    and blocked: "todos (estaBloqueado L s1) (p # q # ps) = Some True" and on: "batalla s1 \<noteq> 0"
  shows "detectarDeadlock k L eqi battle s = None"
proof (cases "resolver k L eqi battle (p # q # ps) s1")
  case None
  then show ?thesis using c m d ds by (simp add: detectarDeadlock_def del: todos.simps)
next
  case (Some s2)
  obtain l where "l \<in> set (p # q # ps)" "ents s2 l = None"
    using resolver_kills [OF blocked _ Some] on contarDeadlock_fields by metis
  then have "liberar_copias copias s2 = None"
    using deadlockeados_subset [OF ds] by (intro liberar_copias_twice [of l]) auto
  then show ?thesis using c m d ds Some by (simp add: detectarDeadlock_def)
qed

lemma detector_frees_twice_witness:
  "detectarDeadlock 9 hol_list_more (=) (\<lambda>i j. level i < level j) mapa2 = None"
proof -
  have np: "length (pokemonsDisponibles (piden 2 [0, 0] [[1, 0], [0, 1]] [1, 0])) = 2" by (simp add: piden_def)
  obtain d' where d': "buscar_deadlock 2 2 (piden 2 [0, 0] [[1, 0], [0, 1]] [1, 0]) = Some d'" "atendido d' = [False, False]"
    using buscar_piden_stuck [of "[1, 0]" 2 "[0, 0]" "[[1, 0], [0, 1]]"] by (auto simp: numeral_2_eq_2)
  have b: "batalla mapa2_copied \<noteq> 0" by (simp add: mapa2_copied_def mapa2_def)
  have s: "buscar_deadlock (length [1000, 1001 :: ptr])
      (length (pokemonsDisponibles (piden 2 [0, 0] [[1, 0], [0, 1]] [1, 0]))) (piden 2 [0, 0] [[1, 0], [0, 1]] [1, 0])
      = Some d'" using d'(1) np by (simp add: numeral_2_eq_2)
  show ?thesis
    by (rule detector_frees_twice [OF mapa2_copies mapa2_matrices s mapa2_detected [OF d'(2)] mapa2_blocked b])
qed

end
