(* ===== verification/Mapa_Select.thy ===== *)
theory Mapa_Select
  imports Mapa_Planificacion
begin

text \<open>
  The loop over \<^verbatim>\<open>select\<close> of the map server (\<^verbatim>\<open>nivel-test.c\<close>). What \<^verbatim>\<open>select\<close> reports in a round is a
  parameter: the ready sockets and the socket \<^verbatim>\<open>accept\<close> would give. The bound of the loop is read again
  in each step, as the greeting of a new trainer may raise it.
\<close>

partial_function (option) select_loop :: "nat \<Rightarrow> byte \<Rightarrow> ('l, ptr) t_list_more \<Rightarrow> int \<Rightarrow> int set \<Rightarrow> int \<Rightarrow> int \<Rightarrow> 'l mapa \<Rightarrow> 'l mapa option" where
  "select_loop k sizeof_ptr L socket lectura nuevaConexion a s =
     (if a \<le> set_fd_max s then do {
        s \<leftarrow> (if a \<in> lectura then
              if a = socket then nueva_conexion L sizeof_ptr nuevaConexion s else evento_bloqueado k L a s
            else Some s);
        select_loop k sizeof_ptr L socket lectura nuevaConexion (a + 1) s
      } else Some s)"

fun rondas_select :: "nat \<Rightarrow> byte \<Rightarrow> ('l, ptr) t_list_more \<Rightarrow> int \<Rightarrow> (int set \<times> int) list \<Rightarrow> 'l mapa \<Rightarrow> 'l mapa option" where
  "rondas_select k sizeof_ptr L socket [] s = Some s"
| "rondas_select k sizeof_ptr L socket ((lectura, nuevaConexion) # rondas) s = do {
     s \<leftarrow> select_loop k sizeof_ptr L socket lectura nuevaConexion 0 s;
     rondas_select k sizeof_ptr L socket rondas s
   }"

definition manejar_select :: "nat \<Rightarrow> byte \<Rightarrow> ('l, ptr) t_list_more \<Rightarrow> int \<Rightarrow> (int set \<times> int) list \<Rightarrow> 'l mapa \<Rightarrow> 'l mapa option" where
  "manejar_select k sizeof_ptr L socket rondas s =
     rondas_select k sizeof_ptr L socket rondas (emit [Fd_set socket] (s\<lparr>set_fd_max := socket\<rparr>))"

text \<open>A round in which nothing from \<open>a\<close> on is ready changes nothing.\<close>

lemma select_loop_idle:
  assumes "\<And>b. a \<le> b \<Longrightarrow> b \<notin> lectura"
  shows "select_loop k sizeof_ptr L socket lectura nuevaConexion a s = Some s"
  using assms
proof (induction "nat (set_fd_max s + 1 - a)" arbitrary: a)
  case 0
  then show ?case by (subst select_loop.simps) simp
next
  case (Suc n)
  have "select_loop k sizeof_ptr L socket lectura nuevaConexion (a + 1) s = Some s"
    using Suc.hyps(2) Suc.prems by (intro Suc.hyps(1)) auto
  then show ?case using Suc.prems [of a] by (subst select_loop.simps) simp
qed

text \<open>The greeting and the events of one round, when only the socket \<open>a\<close> is ready.\<close>

lemma select_loop_one:
  assumes "0 \<le> a" "a \<le> set_fd_max s"
  shows "select_loop k sizeof_ptr L socket {a} nuevaConexion 0 s
    = (if a = socket then nueva_conexion L sizeof_ptr nuevaConexion s else evento_bloqueado k L a s)"
proof -
  have salta: "0 \<le> b \<Longrightarrow> b \<le> a \<Longrightarrow> select_loop k sizeof_ptr L socket {a} nuevaConexion b s
      = select_loop k sizeof_ptr L socket {a} nuevaConexion a s" for b
  proof (induction "nat (a - b)" arbitrary: b)
    case (Suc n)
    have "select_loop k sizeof_ptr L socket {a} nuevaConexion (b + 1) s = select_loop k sizeof_ptr L socket {a} nuevaConexion a s"
      using Suc.hyps(2) Suc.prems by (intro Suc.hyps(1)) auto
    moreover have "b \<noteq> a" "b \<le> set_fd_max s" using Suc.hyps(2) Suc.prems assms(2) by auto
    ultimately show ?case using select_loop.simps [of k sizeof_ptr L socket "{a}" nuevaConexion b s] by simp
  qed simp
  have "select_loop k sizeof_ptr L socket {a} nuevaConexion (a + 1) = Some"
    by (rule ext, rule select_loop_idle) simp
  then show ?thesis
    unfolding salta [OF order_refl assms(1)]
    using assms(2) select_loop.simps [of k sizeof_ptr L socket "{a}" nuevaConexion a s] by (cases "a = socket") simp_all
qed

end
