(* ===== verification/Mapa_Carga.thy ===== *)
theory Mapa_Carga
  imports Mapa_Requests
begin

text \<open>
  How the map server reads its configuration and its nests (\<^verbatim>\<open>nivel-test.c\<close>): the directory of the
  map has one directory per nest, with a file of metadata and one file per pokemon.

  The file system, the configuration and string functions of the commons library and the factory of
  the battle library are fields of the parameter \<open>E\<close>: \<open>listado\<close> gives the names \<^verbatim>\<open>readdir\<close> returns,
  \<open>config_de\<close> the value of a key of a file; a file or a key that is not there is a null pointer the
  code reads through (\<open>None\<close>), and so is a pokemon the factory does not make.
\<close>

record carga_env =
  pto_montaje :: "byte list"
  listado :: "byte list \<Rightarrow> byte list list option"
  config_de :: "byte list \<Rightarrow> byte list \<Rightarrow> byte list option"
  partir :: "byte list \<Rightarrow> byte list \<Rightarrow> byte list list"
  create_pokemon :: "byte list \<Rightarrow> int \<Rightarrow> (byte list \<times> int) option"

section \<open>Numbers\<close>

text \<open>\<^verbatim>\<open>atoi\<close>: blanks, a sign, digits; \<open>None\<close> when the value does not fit an \<^verbatim>\<open>int\<close>.\<close>

definition digito :: "byte \<Rightarrow> bool" where
  "digito b \<longleftrightarrow> 48 \<le> b \<and> b \<le> 57"

definition blanco :: "byte \<Rightarrow> bool" where
  "blanco b \<longleftrightarrow> b = 32 \<or> 9 \<le> b \<and> b \<le> 13"

definition decimal :: "byte list \<Rightarrow> int" where
  "decimal bs = foldl (\<lambda>n b. 10 * n + (int (unat b) - 48)) 0 (takeWhile digito bs)"

definition en_int :: "int \<Rightarrow> int option" where
  "en_int n = (if - (2 ^ 31) \<le> n \<and> n < 2 ^ 31 then Some n else None)"

definition atoi :: "byte list \<Rightarrow> int option" where
  "atoi bs =
     (let bs = dropWhile blanco bs;
          n = (case bs of [] \<Rightarrow> 0 | b # r \<Rightarrow> if b = 45 then - decimal r else if b = 43 then decimal r else decimal bs)
      in en_int n)"

definition config_int_de :: "carga_env \<Rightarrow> byte list \<Rightarrow> byte list \<Rightarrow> int option" where
  "config_int_de E archivo clave = Option.bind (config_de E archivo clave) atoi"

section \<open>Configuration\<close>

record metadata =
  md_tiempoChequeoDeadlock :: int
  md_batalla :: int
  md_algoritmo :: "byte list"
  md_ip :: "byte list"
  md_puerto :: "byte list"
  md_retardo :: int
  md_quantum :: int

definition leerConfiguracion :: "carga_env \<Rightarrow> byte list \<Rightarrow> metadata option" where
  "leerConfiguracion E ruta = do {
     t \<leftarrow> config_int_de E ruta (ascii ''TiempoChequeoDeadlock'');
     b \<leftarrow> config_int_de E ruta (ascii ''Batalla'');
     al \<leftarrow> config_de E ruta (ascii ''algoritmo'');
     ip \<leftarrow> config_de E ruta (ascii ''IP'');
     pu \<leftarrow> config_de E ruta (ascii ''Puerto'');
     re \<leftarrow> config_int_de E ruta (ascii ''retardo'');
     re \<leftarrow> en_int (re * 1000);
     q \<leftarrow> config_int_de E ruta (ascii ''quantum'');
     Some \<lparr>md_tiempoChequeoDeadlock = t, md_batalla = b, md_algoritmo = al, md_ip = ip, md_puerto = pu,
       md_retardo = re, md_quantum = q\<rparr>
   }"

definition getRutaAbsoluta :: "carga_env \<Rightarrow> byte list \<Rightarrow> byte list" where
  "getRutaAbsoluta E rutaRelativa = pto_montaje E @ rutaRelativa"

definition getRutaMetadata :: "carga_env \<Rightarrow> 'l mapa \<Rightarrow> byte list" where
  "getRutaMetadata E s = getRutaAbsoluta E (ruta_mapa s @ ascii ''/metadata'')"

text \<open>At the start and on \<^verbatim>\<open>SIGUSR1\<close>.\<close>

definition releerConfiguracion :: "carga_env \<Rightarrow> 'l mapa \<Rightarrow> 'l mapa option" where
  "releerConfiguracion E s =
     map_option (\<lambda>m. s\<lparr>algoritmo := md_algoritmo m, quantum := md_quantum m, batalla := md_batalla m\<rparr>)
       (leerConfiguracion E (getRutaMetadata E s))"

section \<open>Nests\<close>

text \<open>The identifier and the position; the rest of the structure is set by the caller.\<close>

definition crearPokenest :: "carga_env \<Rightarrow> byte list \<Rightarrow> (byte \<times> byte \<times> byte) option" where
  "crearPokenest E rutaPokenest = do {
     let meta = rutaPokenest @ ascii ''/metadata'';
     ident \<leftarrow> config_de E meta (ascii ''Identificador'');
     posiciones \<leftarrow> config_de E meta (ascii ''Posicion'');
     case partir E posiciones (ascii '';'') of
       px # py # _ \<Rightarrow> do {
         x \<leftarrow> atoi px;
         y \<leftarrow> atoi py;
         Some (case ident of [] \<Rightarrow> 0 | c # _ \<Rightarrow> c, of_int x, of_int y)
       }
     | _ \<Rightarrow> None
   }"

definition es_directorio :: "byte list \<Rightarrow> bool" where
  "es_directorio d \<longleftrightarrow> d = ascii ''.'' \<or> d = ascii ''..''"

definition malloc_info :: "t_infoPokemon \<Rightarrow> 'l mapa \<Rightarrow> ptr \<times> 'l mapa" where
  "malloc_info x s = (next_ptr s, s\<lparr>next_ptr := Suc (next_ptr s), infos := (infos s)(next_ptr s \<mapsto> x)\<rparr>)"

fun pokemons_loop :: "('l, ptr) t_list_more \<Rightarrow> carga_env \<Rightarrow> byte list \<Rightarrow> byte list \<Rightarrow> byte \<Rightarrow> byte list list \<Rightarrow> 'l \<Rightarrow> 'l mapa
    \<Rightarrow> ('l \<times> 'l mapa) option" where
  "pokemons_loop L E rutaPokemon nombrePokemon pokenest_id [] l s = Some (l, s)"
| "pokemons_loop L E rutaPokemon nombrePokemon pokenest_id (d # ds) l s =
     (if es_directorio d \<or> d = ascii ''metadata'' then pokemons_loop L E rutaPokemon nombrePokemon pokenest_id ds l s
      else do {
        lvl \<leftarrow> config_int_de E (rutaPokemon @ ascii ''/'' @ d) (ascii ''Nivel'');
        (sp, lv) \<leftarrow> create_pokemon E nombrePokemon lvl;
        let (q, s) = malloc_info \<lparr>pk_nombre = d, id_pokenest = pokenest_id, species = sp, level = lv\<rparr> s;
        pokemons_loop L E rutaPokemon nombrePokemon pokenest_id ds (list_add L l q) s
      })"

definition crearPokemons :: "('l, ptr) t_list_more \<Rightarrow> carga_env \<Rightarrow> byte list \<Rightarrow> byte list \<Rightarrow> byte \<Rightarrow> 'l mapa \<Rightarrow> ('l \<times> 'l mapa) option" where
  "crearPokemons L E rutaPokemon nombrePokemon pokenest_id s = do {
     ds \<leftarrow> listado E rutaPokemon;
     pokemons_loop L E rutaPokemon nombrePokemon pokenest_id ds (list_create L) s
   }"

definition cargar_pokenest :: "('l, ptr) t_list_more \<Rightarrow> carga_env \<Rightarrow> byte list \<Rightarrow> byte list \<Rightarrow> 'l mapa \<Rightarrow> 'l mapa option" where
  "cargar_pokenest L E rutaPokenests_absoluta d s = do {
     let rutaPokemon = getRutaPokemon rutaPokenests_absoluta d;
     let p = next_ptr s;
     (c, x, y) \<leftarrow> crearPokenest E rutaPokemon;
     (l, s) \<leftarrow> crearPokemons L E rutaPokemon d c (s\<lparr>next_ptr := Suc p\<rparr>);
     let n = of_nat (list_size L l);
     let s = s\<lparr>nests := (nests s)(p \<mapsto> \<lparr>nest_id = c, nest_posx = x, nest_posy = y, cantidad = n, listaPokemons = l\<rparr>)\<rparr>;
     let s = emit [Mutex_lock Lista_pokenest] s;
     let s = s\<lparr>listaPokenests := list_add L (listaPokenests s) p\<rparr>;
     Some (emit [Mutex_unlock Lista_pokenest, CrearCaja c x y n] s)
   }"

fun pokenests_loop :: "('l, ptr) t_list_more \<Rightarrow> carga_env \<Rightarrow> byte list \<Rightarrow> byte list list \<Rightarrow> 'l mapa \<Rightarrow> 'l mapa option" where
  "pokenests_loop L E ruta [] s = Some s"
| "pokenests_loop L E ruta (d # ds) s =
     (if es_directorio d then pokenests_loop L E ruta ds s
      else do { s \<leftarrow> cargar_pokenest L E ruta d s; pokenests_loop L E ruta ds s })"

definition cargarPokenests :: "('l, ptr) t_list_more \<Rightarrow> carga_env \<Rightarrow> byte list \<Rightarrow> 'l mapa \<Rightarrow> 'l mapa option" where
  "cargarPokenests L E rutaPokenests_relativa s = do {
     ds \<leftarrow> listado E (getRutaAbsoluta E rutaPokenests_relativa);
     pokenests_loop L E (getRutaAbsoluta E rutaPokenests_relativa) ds s
   }"

text \<open>The part of \<^verbatim>\<open>main\<close> before the threads.\<close>

definition mapa_inicio :: "('l, ptr) t_list_more \<Rightarrow> carga_env \<Rightarrow> byte list \<Rightarrow> 'l mapa \<Rightarrow> 'l mapa option" where
  "mapa_inicio L E nombre s = do {
     let s = s\<lparr>nombre_mapa := nombre, ruta_mapa := getRutaMapa nombre, entrenadores := list_create L,
       listaPokenests := list_create L, colaListos := list_create L, colaBloqueados := list_create L\<rparr>;
     s \<leftarrow> releerConfiguracion E s;
     cargarPokenests L E (getRutaPokenests s) s
   }"

section \<open>What the start gives\<close>

text \<open>The addresses in use are below the next one, and every nest is in the list.\<close>

definition cargado :: "('l \<Rightarrow> ptr list) \<Rightarrow> 'l mapa \<Rightarrow> bool" where
  "cargado elems s \<longleftrightarrow> mapa_ok elems s \<and> ents s = Map.empty \<and> dom (nests s) \<union> dom (infos s) \<subseteq> {..<next_ptr s}
     \<and> set (elems (listaPokenests s)) = dom (nests s)"

lemma total_sin_entrenadores: "ents s = Map.empty \<Longrightarrow> total elems s = nests_total elems s"
  by (simp add: total_def ents_total_def)

lemma nests_total_nuevo:
  assumes "finite (dom (nests s))" "nests s p = None"
  shows "nests_total elems (s\<lparr>nests := (nests s)(p \<mapsto> n)\<rparr>) = nests_total elems s + mset (elems (listaPokemons n))"
proof -
  have p: "p \<notin> dom (nests s)" using assms(2) by auto
  have "(\<Sum>q \<in> dom (nests s). nest_mset elems (s\<lparr>nests := (nests s)(p \<mapsto> n)\<rparr>) q) = (\<Sum>q \<in> dom (nests s). nest_mset elems s q)"
    using p by (intro sum.cong) (auto simp: nest_mset_def)
  then show ?thesis
    using assms(1) p by (simp add: nests_total_def nest_mset_def add.commute)
qed

context map_lists
begin

lemma pokemons_loop_run:
  "pokemons_loop L E ruta nom c ds l s = Some (l', s') \<Longrightarrow>
   elems l' = elems l @ [next_ptr s..<next_ptr s'] \<and> next_ptr s \<le> next_ptr s'
   \<and> s' = s\<lparr>next_ptr := next_ptr s', infos := infos s'\<rparr>
   \<and> (\<forall>i. i \<notin> {next_ptr s..<next_ptr s'} \<longrightarrow> infos s' i = infos s i)
   \<and> (\<forall>i \<in> {next_ptr s..<next_ptr s'}. \<exists>x. infos s' i = Some x \<and> id_pokenest x = c)
   \<and> map (\<lambda>i. map_option pk_nombre (infos s' i)) [next_ptr s..<next_ptr s']
       = map Some (filter (\<lambda>d. \<not> (es_directorio d \<or> d = ascii ''metadata'')) ds)"
proof (induction ds arbitrary: l s)
  case (Cons d ds)
  show ?case
  proof (cases "es_directorio d \<or> d = ascii ''metadata''")
    case True
    then show ?thesis using Cons by simp
  next
    case False
    let ?x = "\<lambda>sp lv. \<lparr>pk_nombre = d, id_pokenest = c, species = sp, level = lv\<rparr>"
    obtain sp lv where r: "pokemons_loop L E ruta nom c ds (list_add L l (next_ptr s))
        (s\<lparr>next_ptr := Suc (next_ptr s), infos := (infos s)(next_ptr s \<mapsto> ?x sp lv)\<rparr>) = Some (l', s')"
      using Cons.prems False by (auto simp: bind_eq_Some_conv malloc_info_def)
    note IH = Cons.IH [OF r, simplified]
    have le: "Suc (next_ptr s) \<le> next_ptr s'" and new: "infos s' (next_ptr s) = Some (?x sp lv)"
      using IH by auto
    then have u: "[next_ptr s..<next_ptr s'] = next_ptr s # [Suc (next_ptr s)..<next_ptr s']"
      by (simp add: upt_conv_Cons)
    show ?thesis
      using IH le new False u
      by (auto simp: elems_add)
  qed
qed simp

end

lemma fixed_ok_nuevo:
  assumes s: "fixed_ok elems s" and p: "nests s p = None" and l: "elems l = elems (listaPokenests s) @ [p]"
    and old: "\<And>i. i \<notin> K \<Longrightarrow> h i = infos s i" and new: "\<And>i. i \<in> K \<Longrightarrow> \<exists>x. h i = Some x \<and> id_pokenest x = nest_id n"
    and ids: "\<And>q m. nests s q = Some m \<Longrightarrow> nest_id m \<noteq> nest_id n"
    and names: "\<And>i j. i \<in> K \<Longrightarrow> j \<in> K \<Longrightarrow> i \<noteq> j \<Longrightarrow> map_option pk_nombre (h i) \<noteq> map_option pk_nombre (h j)"
  shows "fixed_ok elems (s\<lparr>infos := h, nests := (nests s)(p \<mapsto> n), listaPokenests := l\<rparr>)"
proof -
  have lista: "set (elems (listaPokenests s)) \<subseteq> dom (nests s)" using s by (simp add: fixed_ok_def)
  have home: "\<exists>q m. q \<in> set (elems (listaPokenests s)) \<and> nests s q = Some m \<and> nest_id m = id_pokenest x \<and> q \<noteq> p"
    if "infos s i = Some x" for i x
    using s that p unfolding fixed_ok_def by (metis option.distinct(1))
  have sep: "id_pokenest x \<noteq> nest_id n" if "infos s i = Some x" for i x
    using home [OF that] ids by metis
  have a: "\<exists>q m. q \<in> set (elems l) \<and> ((nests s)(p \<mapsto> n)) q = Some m \<and> nest_id m = id_pokenest x" if x: "h i = Some x" for i x
  proof (cases "i \<in> K")
    case True
    then have "id_pokenest x = nest_id n" using new [OF True] x by auto
    then show ?thesis using l by (intro exI [of _ p] exI [of _ n]) simp
  next
    case False
    then have "infos s i = Some x" using old x by simp
    then obtain q m where "q \<in> set (elems (listaPokenests s))" "nests s q = Some m" "nest_id m = id_pokenest x" "q \<noteq> p"
      using home by blast
    then show ?thesis using l by (intro exI [of _ q] exI [of _ m]) simp
  qed
  have b: "pk_nombre x \<noteq> pk_nombre y" if "h i = Some x" "h j = Some y" "i \<noteq> j" "id_pokenest x = id_pokenest y" for i j x y
  proof (cases "i \<in> K \<longleftrightarrow> j \<in> K")
    case True
    show ?thesis
    proof (cases "i \<in> K")
      case K: True
      then show ?thesis using names [of i j] that True by auto
    next
      case K: False
      then show ?thesis using s that True old unfolding fixed_ok_def by metis
    qed
  next
    case False
    then show ?thesis using new old sep that by (metis option.inject)
  qed
  show ?thesis
    using lista l a b by (auto simp: fixed_ok_def)
qed

lemma nests_total_infos:
  assumes "mapa_ok elems s" "i \<in># nests_total elems s"
  shows "i \<in> dom (infos s)"
proof -
  have fin: "finite (dom (nests s))" using assms(1) by (simp add: mapa_ok_def)
  obtain p where "p \<in> dom (nests s)" "i \<in># nest_mset elems s p"
    using assms(2) fin by (auto simp: nests_total_def set_mset_sum)
  then obtain n where n: "nests s p = Some n" "i \<in> set (elems (listaPokemons n))"
    by (auto simp: nest_mset_def)
  then have "nest_ok elems s n" using assms(1) by (simp add: mapa_ok_def)
  then show ?thesis
    using n(2) by (auto simp: nest_ok_def)
qed

definition identificador :: "carga_env \<Rightarrow> byte list \<Rightarrow> byte list \<Rightarrow> byte option" where
  "identificador E ruta d = map_option fst (crearPokenest E (getRutaPokemon ruta d))"

text \<open>No two directories of the list have nests with the same identifier.\<close>

definition ids_distintos :: "carga_env \<Rightarrow> byte list \<Rightarrow> byte list list \<Rightarrow> bool" where
  "ids_distintos E ruta ds \<longleftrightarrow>
     (\<forall>d1 \<in> set ds. \<forall>d2 \<in> set ds. d1 \<noteq> d2 \<longrightarrow> identificador E ruta d1 \<noteq> None \<longrightarrow> identificador E ruta d1 \<noteq> identificador E ruta d2)"

definition ids_cargados :: "'l mapa \<Rightarrow> byte set" where
  "ids_cargados s = nest_id ` ran (nests s)"

context map_lists
begin

lemma cargar_pokenest_ok:
  assumes s: "cargado elems s" and run: "cargar_pokenest L E ruta d s = Some s'"
    and c: "crearPokenest E (getRutaPokemon ruta d) = Some (c, x, y)" "c \<notin> ids_cargados s"
    and ds: "\<And>dir ns. listado E dir = Some ns \<Longrightarrow> distinct ns"
  shows "cargado elems s' \<and> ids_cargados s' = insert c (ids_cargados s)
    \<and> colaListos s' = colaListos s \<and> colaBloqueados s' = colaBloqueados s \<and> entrenadores s' = entrenadores s"
proof -
  let ?p = "next_ptr s"
  obtain ns l s1 where ns: "listado E (getRutaPokemon ruta d) = Some ns"
    and r: "pokemons_loop L E (getRutaPokemon ruta d) d c ns (list_create L) (s\<lparr>next_ptr := Suc ?p\<rparr>) = Some (l, s1)"
    and s': "s' = emit [Mutex_lock Lista_pokenest, Mutex_unlock Lista_pokenest, CrearCaja c x y (of_nat (list_size L l))]
      (s1\<lparr>nests := (nests s1)(?p \<mapsto> \<lparr>nest_id = c, nest_posx = x, nest_posy = y, cantidad = of_nat (list_size L l), listaPokemons = l\<rparr>),
          listaPokenests := list_add L (listaPokenests s1) ?p\<rparr>)"
    using run c(1) by (auto simp: cargar_pokenest_def crearPokemons_def bind_eq_Some_conv Let_def emit_def)
  let ?K = "{Suc ?p..<next_ptr s1}"
  let ?n = "\<lparr>nest_id = c, nest_posx = x, nest_posy = y, cantidad = of_nat (list_size L l), listaPokemons = l\<rparr>"
  note R = pokemons_loop_run [OF r, simplified, unfolded elems_create]
  have l: "elems l = [Suc ?p..<next_ptr s1]" and le: "Suc ?p \<le> next_ptr s1"
    and old: "\<And>i. i \<notin> ?K \<Longrightarrow> infos s1 i = infos s i" and new: "\<And>i. i \<in> ?K \<Longrightarrow> \<exists>x. infos s1 i = Some x \<and> id_pokenest x = c"
    and names: "map (\<lambda>i. map_option pk_nombre (infos s1 i)) [Suc ?p..<next_ptr s1]
       = map Some (filter (\<lambda>d. \<not> (es_directorio d \<or> d = ascii ''metadata'')) ns)"
    using R by (auto simp: elems_create)
  have s1: "s1 = s\<lparr>next_ptr := next_ptr s1, infos := infos s1\<rparr>"
    using R by simp
  have ok: "mapa_ok elems s" and noents: "ents s = Map.empty" and lt: "dom (nests s) \<union> dom (infos s) \<subseteq> {..<?p}"
    and lista: "set (elems (listaPokenests s)) = dom (nests s)"
    using s by (simp_all add: cargado_def)
  have lim: "\<not> i < ?p \<Longrightarrow> nests s i = None \<and> infos s i = None" for i
    using lt by (cases "nests s i"; cases "infos s i") (auto simp: subset_eq)
  have fresh: "nests s ?p = None" "\<And>i. i \<in> ?K \<Longrightarrow> infos s i = None"
    using lim by simp_all
  have fin: "finite (dom (nests s))" and nok: "\<And>q m. nests s q = Some m \<Longrightarrow> nest_ok elems s m"
    using ok by (auto simp: mapa_ok_def)
  have dist: "i \<noteq> j \<Longrightarrow> map_option pk_nombre (infos s1 i) \<noteq> map_option pk_nombre (infos s1 j)" if "i \<in> ?K" "j \<in> ?K" for i j
  proof -
    have "distinct (map (\<lambda>i. map_option pk_nombre (infos s1 i)) [Suc ?p..<next_ptr s1])"
      unfolding names using ds [OF ns] by (simp add: distinct_map)
    then show "i \<noteq> j \<Longrightarrow> map_option pk_nombre (infos s1 i) \<noteq> map_option pk_nombre (infos s1 j)"
      using that by (auto simp: distinct_map inj_on_def)
  qed
  have fields: "infos s' = infos s1" "nests s' = (nests s)(?p \<mapsto> ?n)" "listaPokenests s' = list_add L (listaPokenests s) ?p"
      "ents s' = ents s" "next_ptr s' = next_ptr s1" "colaListos s' = colaListos s" "colaBloqueados s' = colaBloqueados s"
      "entrenadores s' = entrenadores s"
    unfolding s' by (subst s1, simp)+
  have "fixed_ok elems (s\<lparr>infos := infos s1, nests := (nests s)(?p \<mapsto> ?n), listaPokenests := list_add L (listaPokenests s) ?p\<rparr>)"
    using ok fresh c(2) dist new old
    by (intro fixed_ok_nuevo [where K = ?K]) (auto simp: mapa_ok_def elems_add ids_cargados_def ran_def)
  then have fixed: "fixed_ok elems s'"
    by (simp add: fixed_ok_def fields)
  have nests_ok: "nest_ok elems s' m" if "nests s' q = Some m" for q m
  proof (cases "q = ?p")
    case True
    then show ?thesis using that l new by (auto simp: fields nest_ok_def size_eq)
  next
    case False
    then have m: "nest_ok elems s m" using that nok by (simp add: fields)
    have "infos s1 i = infos s i" if "i \<in> set (elems (listaPokemons m))" for i
      using m that fresh(2) old by (metis nest_ok_def option.distinct(1))
    then show ?thesis using m by (auto simp: nest_ok_def fields)
  qed
  have "nests_total elems s' = nests_total elems (s\<lparr>nests := (nests s)(?p \<mapsto> ?n)\<rparr>)"
    by (simp add: nests_total_def nest_mset_def fields)
  then have tot: "nests_total elems s' = nests_total elems s + mset [Suc ?p..<next_ptr s1]"
    using nests_total_nuevo [of s ?p elems ?n] fin fresh(1) l by simp
  have "count (nests_total elems s') i \<le> 1" for i
  proof (cases "i \<in> ?K")
    case True
    then have "i \<notin># nests_total elems s" using nests_total_infos [OF ok] fresh(2) by auto
    then show ?thesis using True by (simp add: tot not_in_iff distinct_count_atmost_1 [THEN iffD1, rule_format])
  next
    case False
    then have "count (mset [Suc ?p..<next_ptr s1]) i = 0" by (simp add: count_mset_0_iff)
    moreover have "count (nests_total elems s) i \<le> 1"
      using ok total_sin_entrenadores [OF noents] by (metis mapa_ok_def)
    ultimately show ?thesis by (simp add: tot)
  qed
  then have "mapa_ok elems s'"
    using fixed nests_ok fin noents total_sin_entrenadores [of s' elems] by (simp add: mapa_ok_def fields)
  moreover have "dom (infos s1) \<subseteq> {..<next_ptr s1}"
  proof
    fix i assume "i \<in> dom (infos s1)"
    then show "i \<in> {..<next_ptr s1}"
      using old [of i] lim [of i] le by (cases "i < next_ptr s1") auto
  qed
  ultimately have "cargado elems s'"
    using noents lt lista le by (auto simp: cargado_def fields elems_add)
  moreover have "ids_cargados s' = insert c (ids_cargados s)"
    using fresh(1) by (simp add: ids_cargados_def fields ran_map_upd)
  ultimately show ?thesis
    by (simp add: fields)
qed

lemma pokenests_loop_ok:
  assumes ds: "\<And>dir ns. listado E dir = Some ns \<Longrightarrow> distinct ns"
  shows "pokenests_loop L E ruta ds s = Some s' \<Longrightarrow> cargado elems s \<Longrightarrow> distinct ds \<Longrightarrow> ids_distintos E ruta ds \<Longrightarrow>
    \<forall>d \<in> set ds. identificador E ruta d \<notin> Some ` ids_cargados s \<Longrightarrow>
    cargado elems s' \<and> colaListos s' = colaListos s \<and> colaBloqueados s' = colaBloqueados s \<and> entrenadores s' = entrenadores s"
proof (induction ds arbitrary: s)
  case (Cons d ds)
  have rest: "ids_distintos E ruta ds" "distinct ds" "d \<notin> set ds"
    using Cons.prems(3,4) by (auto simp: ids_distintos_def)
  show ?case
  proof (cases "es_directorio d")
    case True
    then show ?thesis using Cons.IH Cons.prems rest by simp
  next
    case False
    then obtain s1 where s1: "cargar_pokenest L E ruta d s = Some s1" "pokenests_loop L E ruta ds s1 = Some s'"
      using Cons.prems(1) by (auto simp: bind_eq_Some_conv)
    then obtain c x y where c: "crearPokenest E (getRutaPokemon ruta d) = Some (c, x, y)"
      by (auto simp: cargar_pokenest_def bind_eq_Some_conv Let_def)
    then have id: "identificador E ruta d = Some c" by (simp add: identificador_def)
    then have "c \<notin> ids_cargados s" using Cons.prems(5) by auto
    note ok = cargar_pokenest_ok [OF Cons.prems(2) s1(1) c this ds]
    have "identificador E ruta d' \<notin> Some ` ids_cargados s1" if d': "d' \<in> set ds" for d'
    proof -
      have "identificador E ruta d' \<noteq> Some c"
        using Cons.prems(4) d' rest(3) id unfolding ids_distintos_def by (metis list.set_intros(1,2) option.distinct(1))
      then show ?thesis using Cons.prems(5) d' ok by auto
    qed
    then show ?thesis
      using Cons.IH [OF s1(2)] ok rest by simp
  qed
qed simp

end

lemma releerConfiguracion_fields:
  assumes "releerConfiguracion E s = Some s'"
  shows "ents s' = ents s \<and> nests s' = nests s \<and> infos s' = infos s \<and> listaPokenests s' = listaPokenests s
    \<and> colaListos s' = colaListos s \<and> colaBloqueados s' = colaBloqueados s \<and> entrenadores s' = entrenadores s
    \<and> ruta_mapa s' = ruta_mapa s"
  using assms by (auto simp: releerConfiguracion_def)

text \<open>
  C16: when the start of the map server gets to the end of its reading, and the directory of the map has no
  two nests with the same identifier, every nest counts its pokemons, every pokemon is in exactly one nest
  and leads back to it, and no queue holds anybody: the state the requests are served from.
\<close>
theorem mapa_inicio_ok:
  assumes lists: "map_lists L elems" and run: "mapa_inicio L E nombre s = Some s'"
    and vacio: "ents s = Map.empty" "nests s = Map.empty" "infos s = Map.empty"
    and names: "\<forall>dir ns. listado E dir = Some ns \<longrightarrow> distinct ns"
    and ids: "\<forall>ds. listado E (getRutaAbsoluta E (getRutaMapa nombre @ ascii ''/PokeNests'')) = Some ds \<longrightarrow>
      ids_distintos E (getRutaAbsoluta E (getRutaMapa nombre @ ascii ''/PokeNests'')) ds"
  shows "mapa_ok elems s' \<and> ents s' = Map.empty \<and> elems (colaListos s') = [] \<and> elems (colaBloqueados s') = []
    \<and> elems (entrenadores s') = []"
proof -
  have create: "elems (list_create L) = []"
    using lists by (simp add: map_lists_def t_list_more_def t_list_def)
  define s0 where "s0 = s\<lparr>nombre_mapa := nombre, ruta_mapa := getRutaMapa nombre, entrenadores := list_create L,
       listaPokenests := list_create L, colaListos := list_create L, colaBloqueados := list_create L\<rparr>"
  obtain s1 where s1: "releerConfiguracion E s0 = Some s1" "cargarPokenests L E (getRutaPokenests s1) s1 = Some s'"
    using run by (auto simp: mapa_inicio_def s0_def bind_eq_Some_conv)
  note f = releerConfiguracion_fields [OF s1(1)]
  have ruta: "getRutaPokenests s1 = getRutaMapa nombre @ ascii ''/PokeNests''"
    using f by (simp add: getRutaPokenests_def s0_def)
  let ?r = "getRutaAbsoluta E (getRutaMapa nombre @ ascii ''/PokeNests'')"
  obtain ds where ds: "listado E ?r = Some ds" "pokenests_loop L E ?r ds s1 = Some s'"
    using s1(2) by (auto simp: cargarPokenests_def ruta bind_eq_Some_conv)
  have e: "ents s1 = Map.empty" "nests s1 = Map.empty" "infos s1 = Map.empty" "elems (listaPokenests s1) = []"
      "elems (colaListos s1) = []" "elems (colaBloqueados s1) = []" "elems (entrenadores s1) = []"
    using f vacio create by (simp_all add: s0_def)
  then have "cargado elems s1"
    by (simp add: cargado_def mapa_ok_def fixed_ok_def total_def ents_total_def nests_total_def)
  then show ?thesis
    using map_lists.pokenests_loop_ok [OF lists, of E, OF _ ds(2)] names ids ds(1) e
    by (simp add: ids_cargados_def cargado_def)
qed

text \<open>A file system with one nest, of one pokemon, whose files say 5 whatever they are asked.\<close>

definition demo_carga :: carga_env where
  "demo_carga = \<lparr>pto_montaje = [], listado = (\<lambda>dir. Some (if last dir = 115 then [[80]] else [[49]])),
     config_de = (\<lambda>_ _. Some [53]), partir = (\<lambda>_ _. [[49], [50]]), create_pokemon = (\<lambda>n l. Some (n, l))\<rparr>"

definition demo_vacia :: "ptr list mapa" where
  "demo_vacia = \<lparr>entrenadores = [], colaListos = [], colaBloqueados = [], listaPokenests = [], ents = Map.empty,
     nests = Map.empty, infos = Map.empty, next_ptr = 0, streams = (\<lambda>_. []), calls = [], set_fd_max = 0, algoritmo = [],
     quantum = 0, batalla = 0, ruta_mapa = [], nombre_mapa = []\<rparr>"

theorem mapa_inicio_ok_witness:
  "\<exists>s'. mapa_inicio hol_list_more demo_carga [77] demo_vacia = Some s' \<and> mapa_ok (\<lambda>l. l) s'
    \<and> listaPokenests s' = [0] \<and> infos s' 1 \<noteq> None"
proof -
  have run: "\<exists>s'. mapa_inicio hol_list_more demo_carga [77] demo_vacia = Some s' \<and> listaPokenests s' = [0] \<and> infos s' 1 \<noteq> None"
    by (simp add: mapa_inicio_def releerConfiguracion_def leerConfiguracion_def config_int_de_def demo_carga_def demo_vacia_def
        cargarPokenests_def getRutaPokenests_def getRutaAbsoluta_def getRutaMapa_def ascii_def es_directorio_def
        cargar_pokenest_def crearPokenest_def crearPokemons_def getRutaPokemon_def malloc_info_def atoi_def en_int_def decimal_def
        blanco_def digito_def emit_def hol_list_more_def t_list_ops.defs hol_list_def Let_def)
  have ids: "ids_distintos demo_carga r ds" if "listado demo_carga r = Some ds" for r ds
    using that by (auto simp: demo_carga_def ids_distintos_def split: if_splits)
  have lists: "map_lists hol_list_more (\<lambda>l :: ptr list. l)"
    by unfold_locales
  obtain s' where s': "mapa_inicio hol_list_more demo_carga [77] demo_vacia = Some s'" "listaPokenests s' = [0]" "infos s' 1 \<noteq> None"
    using run by blast
  have "distinct ns" if "listado demo_carga dir = Some ns" for dir ns
    using that by (auto simp: demo_carga_def split: if_splits)
  then show ?thesis
    using mapa_inicio_ok [OF lists s'(1)] ids s' by (auto simp: demo_vacia_def)
qed

end
