(* ===== verification/Swap_State.thy ===== *)
theory Swap_State
  imports Prelude
begin

text \<open>
  The data of the swap process (\<^verbatim>\<open>Swap/src/Swap.c\<close>, \<^verbatim>\<open>Librerias/estructuras.h\<close>) and its calls to
  the C library: the bitmap of pages, the partition file with \<^verbatim>\<open>fseek\<close>, \<^verbatim>\<open>fread\<close> and
  \<^verbatim>\<open>fwrite\<close>, and what is sent to the client.

  \<^verbatim>\<open>bitMap\<close> is declared without a length, which reserves one entry. \<open>bitMap s\<close> is the list of
  entries that the memory from \<^verbatim>\<open>bitMap[0]\<close> on holds, up to the end of the addressable data; an
  access past it is undefined (\<open>None\<close>). The two numbers of the configuration are taken to be
  naturals, and \<^verbatim>\<open>malloc\<close> and \<^verbatim>\<open>calloc\<close> to succeed.
\<close>

record BitMap =
  bm_PID :: int
  estado :: int

record OrdenProceso =
  op_PID :: u32
  orden :: u32
  cantPaginas :: u32
  nroPagina :: u32
  contenido :: "byte list"      \<comment> \<open>the \<open>tamPag\<close> bytes the pointer refers to\<close>

record swap =
  bitMap :: "BitMap list"
  archivoSwap :: "byte list"
  tamPag :: nat
  cantPag :: nat
  salida :: "byte list"         \<comment> \<open>what has been sent to the client\<close>

text \<open>
  What the heap holds past the end of two blocks: after the bytes received into \<^verbatim>\<open>aux\<close>, and
  after the \<open>tamPag\<close> bytes of \<^verbatim>\<open>contenido\<close>. The code reads both.
\<close>

record swap_env =
  monton :: "byte list"
  tras_contenido :: "byte list"

definition EXITO_SWAP :: int where "EXITO_SWAP = 5"
definition ERROR_SWAP :: int where "ERROR_SWAP = 6"
definition ID_UMC :: u32 where "ID_UMC = 3"
definition INICIAR :: u32 where "INICIAR = 0"
definition LEER :: u32 where "LEER = 1"
definition ESCRIBIR :: u32 where "ESCRIBIR = 2"
definition FINALIZAR :: u32 where "FINALIZAR = 3"

lemmas orden_defs = INICIAR_def LEER_def ESCRIBIR_def FINALIZAR_def

definition entrada :: "swap \<Rightarrow> nat \<Rightarrow> BitMap option" where
  "entrada s i = (if i < length (bitMap s) then Some (bitMap s ! i) else None)"

definition set_entrada :: "nat \<Rightarrow> BitMap \<Rightarrow> swap \<Rightarrow> swap option" where
  "set_entrada i b s = (if i < length (bitMap s) then Some (s\<lparr>bitMap := (bitMap s)[i := b]\<rparr>) else None)"

definition enviar :: "byte list \<Rightarrow> swap \<Rightarrow> swap" where
  "enviar bs s = s\<lparr>salida := salida s @ bs\<rparr>"

section \<open>The file\<close>

text \<open>
  \<^verbatim>\<open>fread(buf, n, 1, f)\<close> after a seek to \<open>pos\<close>: the bytes the file has are stored in the buffer,
  the rest of the buffer keeps its contents. \<^verbatim>\<open>fwrite\<close> past the end fills the gap with zeros.
\<close>

definition fread_at :: "nat \<Rightarrow> nat \<Rightarrow> byte list \<Rightarrow> byte list \<Rightarrow> byte list" where
  "fread_at pos n f buf = blit buf 0 (take n (drop pos f))"

definition fwrite_at :: "nat \<Rightarrow> byte list \<Rightarrow> byte list \<Rightarrow> byte list" where
  "fwrite_at pos bs f =
     (if bs = [] then f else blit (f @ replicate (pos + length bs - length f) 0) pos bs)"

definition leer_pagina :: "nat \<Rightarrow> byte list \<Rightarrow> swap \<Rightarrow> byte list" where
  "leer_pagina i buf s = fread_at (i * tamPag s) (tamPag s) (archivoSwap s) buf"

definition escribir_pagina :: "nat \<Rightarrow> byte list \<Rightarrow> swap \<Rightarrow> swap" where
  "escribir_pagina i bs s = s\<lparr>archivoSwap := fwrite_at (i * tamPag s) bs (archivoSwap s)\<rparr>"

text \<open>\<^verbatim>\<open>strlen\<close> of a buffer that the heap continues: undefined when no byte of either is 0.\<close>

definition hasta_nul :: "byte list \<Rightarrow> byte list option" where
  "hasta_nul mem = (if 0 \<in> set mem then Some (cstr mem) else None)"

section \<open>Lemmas\<close>

lemma length_fwrite_at: "bs \<noteq> [] \<Longrightarrow> length (fwrite_at pos bs f) = max (length f) (pos + length bs)"
  by (simp add: fwrite_at_def blit_def)

lemma fwrite_at_inside: "pos + length bs \<le> length f \<Longrightarrow> fwrite_at pos bs f = blit f pos bs"
  by (simp add: fwrite_at_def)

lemma length_fwrite_inside [simp]: "pos + length bs \<le> length f \<Longrightarrow> length (fwrite_at pos bs f) = length f"
  by (simp add: fwrite_at_inside length_blit)

lemma fread_at_inside: "pos + n \<le> length f \<Longrightarrow> length buf = n \<Longrightarrow> fread_at pos n f buf = take n (drop pos f)"
  by (simp add: fread_at_def blit_def)

lemma page_inside: "i < n \<Longrightarrow> i * t + t \<le> n * (t :: nat)"
proof -
  assume "i < n"
  then have "Suc i * t \<le> n * t" by (intro mult_le_mono1) simp
  then show ?thesis by (simp add: add.commute)
qed

lemma page_apart: "i \<noteq> j \<Longrightarrow> i * t + t \<le> j * t \<or> j * t + t \<le> i * (t :: nat)"
  using page_inside [of i j t] page_inside [of j i t] by (cases "i < j") auto

end
