(* ===== verification/Swap_Requests.thy ===== *)
theory Swap_Requests
  imports Swap_State
begin

text \<open>
  The operations of \<^verbatim>\<open>Swap.c\<close>: the search for free pages, compaction, the four orders of the UMC,
  the decoding of a request and the service of a connection. Calls to the log and to \<^verbatim>\<open>usleep\<close> are
  left out. A \<^verbatim>\<open>recv\<close> gives the bytes asked for when the stream still has them.
\<close>

section \<open>Free pages\<close>

function espacio_loop :: "int \<Rightarrow> nat \<Rightarrow> nat \<Rightarrow> swap \<Rightarrow> bool option" where
  "espacio_loop paginas i j s =
     (if i < cantPag s \<and> int j \<noteq> paginas then do {
        b \<leftarrow> entrada s i;
        espacio_loop paginas (Suc i) (if estado b = 0 then Suc j else j) s
      } else Some (int j = paginas))"
  by pat_completeness auto

termination espacio_loop
  by (relation "measure (\<lambda>(paginas, i, j, s). cantPag s - i)") auto

definition espacioDisponible :: "int \<Rightarrow> swap \<Rightarrow> bool option" where
  "espacioDisponible paginas s = espacio_loop paginas 0 0 s"

text \<open>\<open>fin\<close> is \<open>None\<close> until it is assigned.\<close>

function contiguo_loop :: "int \<Rightarrow> nat \<Rightarrow> nat \<Rightarrow> nat option \<Rightarrow> swap \<Rightarrow> int option" where
  "contiguo_loop paginas i j fin s =
     (if i < cantPag s \<and> int j \<noteq> paginas then do {
        b \<leftarrow> entrada s i;
        libres \<leftarrow> (if estado b = 0 then map_option (\<lambda>b'. estado b' = 0) (entrada s (Suc i)) else Some False);
        if libres then contiguo_loop paginas (Suc i) (Suc j) (Some i) s
        else contiguo_loop paginas (Suc i) 0 fin s
      } else if int j = paginas then map_option (\<lambda>f. int f - paginas + 1) fin
      else Some (- 1))"
  by pat_completeness auto

termination contiguo_loop
  by (relation "measure (\<lambda>(paginas, i, j, fin, s). cantPag s - i)") auto

definition contiguo :: "int \<Rightarrow> swap \<Rightarrow> int option" where
  "contiguo paginas s = contiguo_loop paginas 0 0 None s"

declare espacio_loop.simps [simp del] contiguo_loop.simps [simp del]

fun asignacion_loop :: "nat \<Rightarrow> int \<Rightarrow> int \<Rightarrow> swap \<Rightarrow> swap option" where
  "asignacion_loop 0 PID i s = Some s"
| "asignacion_loop (Suc k) PID i s = do {
     s \<leftarrow> (if 0 \<le> i then set_entrada (nat i) \<lparr>bm_PID = PID, estado = 1\<rparr> s else None);
     asignacion_loop k PID (i + 1) s
   }"

definition asignacion :: "int \<Rightarrow> int \<Rightarrow> int \<Rightarrow> swap \<Rightarrow> swap option" where
  "asignacion PID paginas inicio s = asignacion_loop (nat paginas) PID inicio s"

section \<open>Compaction\<close>

text \<open>
  The two page buffers live through the whole of \<^verbatim>\<open>compactar\<close>: a read past the end of the file
  leaves in them what an earlier step read.
\<close>

type_synonym compactando = "swap \<times> byte list \<times> byte list"

definition compactar_paso :: "nat \<Rightarrow> compactando \<Rightarrow> compactando option" where
  "compactar_paso i = (\<lambda>(s, archivoAux, archivoAux2). do {
     b \<leftarrow> entrada s i;
     mover \<leftarrow> (if estado b = 0 then map_option (\<lambda>b'. estado b' = 1) (entrada s (i + 1)) else Some False);
     if \<not> mover then Some (s, archivoAux, archivoAux2)
     else do {
       let aux = b;
       let archivoAux = leer_pagina i archivoAux s;
       b' \<leftarrow> entrada s (i + 1);
       s \<leftarrow> set_entrada i b' s;
       let archivoAux2 = leer_pagina (i + 1) archivoAux2 s;
       let s = escribir_pagina i archivoAux2 s;
       s \<leftarrow> set_entrada (i + 1) aux s;
       Some (escribir_pagina (i + 1) archivoAux s, archivoAux, archivoAux2)
     }
   })"

fun compactar_fila :: "nat list \<Rightarrow> compactando \<Rightarrow> compactando option" where
  "compactar_fila [] st = Some st"
| "compactar_fila (i # is) st = do { st \<leftarrow> compactar_paso i st; compactar_fila is st }"

fun compactar_pasadas :: "nat \<Rightarrow> nat \<Rightarrow> compactando \<Rightarrow> compactando option" where
  "compactar_pasadas 0 n st = Some st"
| "compactar_pasadas (Suc j) n st = do { st \<leftarrow> compactar_fila [0..<n - 1] st; compactar_pasadas j n st }"

definition compactar :: "swap \<Rightarrow> swap option" where
  "compactar s = map_option fst (compactar_pasadas (cantPag s) (cantPag s)
     (s, replicate (tamPag s) 0, replicate (tamPag s) 0))"

section \<open>The orders\<close>

text \<open>
  The search for the first page of a process, \<open>lim\<close> being the bound the loop compares with: the
  entry is read before the bound is tested.
\<close>

function buscar_PID :: "nat \<Rightarrow> u32 \<Rightarrow> nat \<Rightarrow> swap \<Rightarrow> nat option" where
  "buscar_PID lim PID i s = do {
     b \<leftarrow> entrada s i;
     if of_cint (bm_PID b) \<noteq> PID \<and> i < lim then buscar_PID lim PID (Suc i) s else Some i
   }"
  by pat_completeness auto

termination buscar_PID
  by (relation "measure (\<lambda>(lim, PID, i, s). lim - i)") (auto simp: entrada_def split: if_splits)

declare buscar_PID.simps [simp del]

text \<open>The page index: an \<^verbatim>\<open>int\<close> plus an unsigned number, stored in an \<^verbatim>\<open>int\<close>; none before the file.\<close>

definition pagina_pedida :: "nat \<Rightarrow> u32 \<Rightarrow> nat option" where
  "pagina_pedida i nro = (let k = to_int (of_nat i + nro) in if 0 \<le> k then Some (nat k) else None)"

definition leer :: "swap_env \<Rightarrow> OrdenProceso \<Rightarrow> swap \<Rightarrow> (OrdenProceso \<times> swap) option" where
  "leer E reciboUMC s = do {
     i \<leftarrow> buscar_PID (tamPag s) (op_PID reciboUMC) 0 s;
     i \<leftarrow> pagina_pedida i (nroPagina reciboUMC);
     let reciboUMC = reciboUMC\<lparr>contenido := leer_pagina i (contenido reciboUMC) s\<rparr>;
     texto \<leftarrow> hasta_nul (contenido reciboUMC @ tras_contenido E);
     Some (reciboUMC, enviar texto s)
   }"

definition escribir :: "swap_env \<Rightarrow> OrdenProceso \<Rightarrow> swap \<Rightarrow> swap option" where
  "escribir E reciboUMC s = do {
     i \<leftarrow> buscar_PID (cantPag s) (op_PID reciboUMC) 0 s;
     b \<leftarrow> entrada s i;
     if of_cint (bm_PID b) = op_PID reciboUMC then do {
       i \<leftarrow> pagina_pedida i (nroPagina reciboUMC);
       texto \<leftarrow> hasta_nul (contenido reciboUMC @ tras_contenido E);
       Some (escribir_pagina i texto s)
     } else Some s
   }"

function liberar_buscar :: "int \<Rightarrow> nat \<Rightarrow> swap \<Rightarrow> nat option" where
  "liberar_buscar PID i s =
     (if i < cantPag s then do {
        b \<leftarrow> entrada s i;
        if bm_PID b \<noteq> PID then liberar_buscar PID (Suc i) s else Some i
      } else Some i)"
  by pat_completeness auto

termination liberar_buscar
  by (relation "measure (\<lambda>(PID, i, s). cantPag s - i)") auto

declare liberar_buscar.simps [simp del]

lemma cantPag_set_entrada: "set_entrada i b s = Some s' \<Longrightarrow> cantPag s' = cantPag s"
  by (auto simp: set_entrada_def split: if_splits)

lemma cantPag_escribir [simp]: "cantPag (escribir_pagina i bs s) = cantPag s"
  by (simp add: escribir_pagina_def)

function liberar_loop :: "int \<Rightarrow> nat \<Rightarrow> swap \<Rightarrow> swap option" where
  "liberar_loop PID i s =
     (if i < cantPag s then do {
        b \<leftarrow> entrada s i;
        if bm_PID b = PID then do {
          s \<leftarrow> set_entrada i \<lparr>bm_PID = - 1, estado = 0\<rparr> s;
          liberar_loop PID (Suc i) (escribir_pagina i (replicate (tamPag s) 0) s)
        } else Some s
      } else Some s)"
  by pat_completeness auto

termination liberar_loop
  by (relation "measure (\<lambda>(PID, i, s). cantPag s - i)") (auto dest: cantPag_set_entrada)

declare liberar_loop.simps [simp del]

definition liberarMemoria :: "int \<Rightarrow> swap \<Rightarrow> swap option" where
  "liberarMemoria PID s = do {
     i \<leftarrow> liberar_buscar PID 0 s;
     s \<leftarrow> liberar_loop PID i s;
     Some (enviar (le32 (of_cint EXITO_SWAP)) s)
   }"

definition iniciar :: "OrdenProceso \<Rightarrow> swap \<Rightarrow> swap option" where
  "iniciar reciboUMC s = (let PID = to_int (op_PID reciboUMC); paginas = to_int (cantPaginas reciboUMC) in do {
     hay \<leftarrow> espacioDisponible paginas s;
     if hay then do {
       inicio \<leftarrow> contiguo paginas s;
       if inicio \<noteq> - 1 then do {
         s \<leftarrow> asignacion PID paginas inicio s;
         Some (enviar (le32 (of_cint EXITO_SWAP)) s)
       } else do {
         s \<leftarrow> compactar s;
         inicio \<leftarrow> contiguo paginas s;
         s \<leftarrow> asignacion PID paginas inicio s;
         Some (enviar (le32 (of_cint EXITO_SWAP)) s)
       }
     } else Some (enviar (le32 (of_cint ERROR_SWAP)) s)
   })"

definition realizarPedidoUMC :: "swap_env \<Rightarrow> OrdenProceso \<Rightarrow> swap \<Rightarrow> (OrdenProceso \<times> swap) option" where
  "realizarPedidoUMC E reciboUMC s =
     (if orden reciboUMC = INICIAR then map_option (Pair reciboUMC) (iniciar reciboUMC s)
      else if orden reciboUMC = LEER then leer E reciboUMC s
      else if orden reciboUMC = ESCRIBIR then map_option (Pair reciboUMC) (escribir E reciboUMC s)
      else if orden reciboUMC = FINALIZAR
      then map_option (Pair reciboUMC) (liberarMemoria (to_int (op_PID reciboUMC)) s)
      else Some (reciboUMC, s))"

section \<open>Requests on the wire\<close>

text \<open>\<open>aux\<close> is the memory from the received block on.\<close>

definition u32_at :: "nat \<Rightarrow> byte list \<Rightarrow> u32 option" where
  "u32_at n aux = (if n + 4 \<le> length aux then Some (un_le32 (take 4 (drop n aux))) else None)"

definition copiarCONTENIDO :: "nat \<Rightarrow> OrdenProceso \<Rightarrow> byte list \<Rightarrow> OrdenProceso option" where
  "copiarCONTENIDO tam reciboUMC aux =
     (if 16 + tam \<le> length aux then Some (reciboUMC\<lparr>contenido := take tam (drop 16 aux)\<rparr>) else None)"

definition copiarNroPAGINA :: "OrdenProceso \<Rightarrow> byte list \<Rightarrow> OrdenProceso option" where
  "copiarNroPAGINA reciboUMC aux = map_option (\<lambda>w. reciboUMC\<lparr>nroPagina := w\<rparr>) (u32_at 12 aux)"

definition copiarCantPaginas :: "OrdenProceso \<Rightarrow> byte list \<Rightarrow> OrdenProceso option" where
  "copiarCantPaginas reciboUMC aux = map_option (\<lambda>w. reciboUMC\<lparr>cantPaginas := w\<rparr>) (u32_at 8 aux)"

definition copiarORDEN :: "OrdenProceso \<Rightarrow> byte list \<Rightarrow> OrdenProceso option" where
  "copiarORDEN reciboUMC aux = map_option (\<lambda>w. reciboUMC\<lparr>orden := w\<rparr>) (u32_at 4 aux)"

definition copiarPID :: "OrdenProceso \<Rightarrow> byte list \<Rightarrow> OrdenProceso option" where
  "copiarPID reciboUMC aux = map_option (\<lambda>w. reciboUMC\<lparr>op_PID := w\<rparr>) (u32_at 0 aux)"

definition copiar :: "nat \<Rightarrow> OrdenProceso \<Rightarrow> byte list \<Rightarrow> OrdenProceso option" where
  "copiar tam reciboUMC aux = do {
     r \<leftarrow> copiarPID reciboUMC aux;
     r \<leftarrow> copiarORDEN r aux;
     r \<leftarrow> copiarCantPaginas r aux;
     r \<leftarrow> copiarNroPAGINA r aux;
     copiarCONTENIDO tam r aux
   }"

text \<open>
  The loop of \<^verbatim>\<open>main\<close>: the size of the next request, then the request. A size that arrives in part
  replaces part of the previous one; an empty request or the end of the stream ends the process.
\<close>

function atender_UMC :: "swap_env \<Rightarrow> u32 \<Rightarrow> OrdenProceso \<Rightarrow> byte list \<Rightarrow> swap \<Rightarrow> swap option" where
  "atender_UMC E tamanioARecibir reciboUMC inp s =
     (let tam = un_le32 (blit (le32 tamanioARecibir) 0 (take 4 inp));
          inp = drop 4 inp;
          recibido = take (unat tam) inp
      in if recibido \<noteq> [] then do {
           reciboUMC \<leftarrow> copiar (tamPag s) reciboUMC (recibido @ monton E);
           (reciboUMC, s) \<leftarrow> realizarPedidoUMC E reciboUMC s;
           atender_UMC E tam reciboUMC (drop (unat tam) inp) s
         } else Some s)"
  by pat_completeness auto

termination atender_UMC
  by (relation "measure (\<lambda>(E, tam, r, inp, s). length inp)") (auto simp: Let_def)

declare atender_UMC.simps [simp del]

text \<open>A client that is not the UMC has its connection closed: the next \<^verbatim>\<open>recv\<close> fails.\<close>

definition handshake_SWAP :: "byte list \<Rightarrow> byte list" where
  "handshake_SWAP inp = (if take 4 inp = le32 ID_UMC then drop 4 inp else [])"

definition inicializarBitMap :: "swap \<Rightarrow> swap option" where
  "inicializarBitMap s = (if cantPag s \<le> length (bitMap s)
     then Some (s\<lparr>bitMap := replicate (cantPag s) \<lparr>bm_PID = - 1, estado = 0\<rparr> @ drop (cantPag s) (bitMap s)\<rparr>)
     else None)"

definition crearYAbrirArchivoSwap :: "nat \<Rightarrow> nat \<Rightarrow> swap \<Rightarrow> swap" where
  "crearYAbrirArchivoSwap cant tam s = s\<lparr>cantPag := cant, tamPag := tam, archivoSwap := [0, 0]\<rparr>"

text \<open>
  \<^verbatim>\<open>main\<close>: the bitmap is initialised before the number of pages is read. \<open>memoria\<close> is what follows
  the one zeroed entry that the declaration of \<^verbatim>\<open>bitMap\<close> reserves.
\<close>

definition swap_main :: "swap_env \<Rightarrow> nat \<Rightarrow> nat \<Rightarrow> BitMap list \<Rightarrow> byte list \<Rightarrow> swap option" where
  "swap_main E cant tam memoria inp = do {
     s \<leftarrow> inicializarBitMap \<lparr>bitMap = \<lparr>bm_PID = 0, estado = 0\<rparr> # memoria, archivoSwap = [], tamPag = 0,
       cantPag = 0, salida = []\<rparr>;
     let s = crearYAbrirArchivoSwap cant tam s;
     atender_UMC E 0 \<lparr>op_PID = 0, orden = 0, cantPaginas = 0, nroPagina = 0, contenido = replicate tam 0\<rparr>
       (handshake_SWAP inp) s
   }"

end
