(* ===== verification/Swap_Compact.thy ===== *)
theory Swap_Compact
  imports Swap_Requests
begin

text \<open>
  Compaction is a bubble sort of the pages on one bit. The list function \<open>burbuja\<close> is one sweep;
  as many sweeps as there are elements give the stable partition. The pages of the partition file
  with their bitmap entries are the list \<open>vista\<close>, on which each step of \<open>compactar\<close> is a step of
  \<open>burbuja\<close>.
\<close>

section \<open>Bubbling on one bit\<close>

fun burbuja :: "('a \<Rightarrow> bool) \<Rightarrow> 'a list \<Rightarrow> 'a list" where
  "burbuja P (x # y # zs) = (if \<not> P x \<and> P y then y # burbuja P (x # zs) else x # burbuja P (y # zs))"
| "burbuja P xs = xs"

text \<open>How many elements without the bit some element with it still has to pass.\<close>

fun huecos :: "('a \<Rightarrow> bool) \<Rightarrow> 'a list \<Rightarrow> nat" where
  "huecos P [] = 0"
| "huecos P (x # xs) = (if \<not> P x \<and> (\<exists>y \<in> set xs. P y) then Suc (huecos P xs) else huecos P xs)"

lemma set_burbuja [simp]: "set (burbuja P xs) = set xs"
  by (induction P xs rule: burbuja.induct) auto

lemma length_burbuja [simp]: "length (burbuja P xs) = length xs"
  by (induction P xs rule: burbuja.induct) auto

lemma filter_burbuja: "filter P (burbuja P xs) = filter P xs" "filter (\<lambda>x. \<not> P x) (burbuja P xs) = filter (\<lambda>x. \<not> P x) xs"
  by (induction P xs rule: burbuja.induct) auto

lemma huecos_none: "\<forall>y \<in> set xs. \<not> P y \<Longrightarrow> huecos P xs = 0"
  by (induction xs) auto

lemma huecos_burbuja: "huecos P (burbuja P xs) = huecos P xs - 1"
proof (induction P xs rule: burbuja.induct)
  case (1 P x y zs)
  then show ?case
    by (cases "\<exists>z \<in> set zs. P z") (auto simp: huecos_none)
qed simp_all

lemma huecos_le: "huecos P xs \<le> length xs"
  by (induction xs) auto

lemma huecos_0: "huecos P xs = 0 \<Longrightarrow> xs = filter P xs @ filter (\<lambda>x. \<not> P x) xs"
proof (induction xs)
  case (Cons x xs)
  show ?case
  proof (cases "P x")
    case True
    then show ?thesis using Cons by simp
  next
    case False
    then have "\<forall>y \<in> set xs. \<not> P y" using Cons(2) by (auto split: if_splits)
    then show ?thesis using False by simp
  qed
qed simp

lemma burbuja_pow:
  "filter P ((burbuja P ^^ k) xs) = filter P xs" "filter (\<lambda>x. \<not> P x) ((burbuja P ^^ k) xs) = filter (\<lambda>x. \<not> P x) xs"
  "huecos P ((burbuja P ^^ k) xs) = huecos P xs - k" "length ((burbuja P ^^ k) xs) = length xs"
  by (induction k) (simp_all add: filter_burbuja huecos_burbuja)

lemma burbuja_partition: "(burbuja P ^^ length xs) xs = filter P xs @ filter (\<lambda>x. \<not> P x) xs"
  using huecos_0 [of P "(burbuja P ^^ length xs) xs"] huecos_le [of P xs] by (simp add: burbuja_pow)

text \<open>One sweep by index.\<close>

definition paso_lista :: "('a \<Rightarrow> bool) \<Rightarrow> nat \<Rightarrow> 'a list \<Rightarrow> 'a list" where
  "paso_lista P i xs = (if \<not> P (xs ! i) \<and> P (xs ! Suc i) then xs[i := xs ! Suc i, Suc i := xs ! i] else xs)"

lemma length_paso_lista [simp]: "length (paso_lista P i xs) = length xs"
  by (simp add: paso_lista_def)

lemma paso_lista_Cons: "paso_lista P (Suc i) (x # xs) = x # paso_lista P i xs"
  by (simp add: paso_lista_def)

lemma fold_paso_Cons: "fold (paso_lista P) (map Suc is) (x # xs) = x # fold (paso_lista P) is xs"
  by (induction "is" arbitrary: xs) (simp_all add: paso_lista_Cons)

lemma fold_paso: "fold (paso_lista P) [0..<length xs - 1] xs = burbuja P xs"
proof (induction P xs rule: burbuja.induct)
  case (1 P x y zs)
  have upt: "[0..<length (x # y # zs) - 1] = 0 # map Suc [0..<length (y # zs) - 1]"
    by (cases zs) (simp_all add: map_Suc_upt upt_conv_Cons del: upt_Suc)
  have first: "paso_lista P 0 (x # y # zs) = (if \<not> P x \<and> P y then y # x # zs else x # y # zs)"
    by (simp add: paso_lista_def)
  show ?case
    unfolding upt using 1 by (simp add: first fold_paso_Cons)
qed simp_all

section \<open>The pages\<close>

definition pagina :: "swap \<Rightarrow> nat \<Rightarrow> byte list" where
  "pagina s i = take (tamPag s) (drop (i * tamPag s) (archivoSwap s))"

definition vista :: "swap \<Rightarrow> (BitMap \<times> byte list) list" where
  "vista s = map (\<lambda>i. (bitMap s ! i, pagina s i)) [0..<cantPag s]"

definition usada :: "BitMap \<times> byte list \<Rightarrow> bool" where
  "usada e \<longleftrightarrow> estado (fst e) = 1"

text \<open>
  The bitmap has room for one entry more than there are pages, the last one reading as free; the
  file covers the partition.
\<close>

definition cabe :: "swap \<Rightarrow> bool" where
  "cabe s \<longleftrightarrow> cantPag s < length (bitMap s) \<and> estado (bitMap s ! cantPag s) = 0
     \<and> (\<forall>i < cantPag s. estado (bitMap s ! i) \<in> {0, 1})
     \<and> cantPag s * tamPag s \<le> length (archivoSwap s)"

definition misma_forma :: "swap \<Rightarrow> swap \<Rightarrow> bool" where
  "misma_forma s s' \<longleftrightarrow> cantPag s' = cantPag s \<and> tamPag s' = tamPag s \<and> salida s' = salida s
     \<and> length (archivoSwap s') = length (archivoSwap s)"

lemma misma_forma_refl [simp]: "misma_forma s s"
  by (simp add: misma_forma_def)

lemma misma_forma_trans: "misma_forma s s' \<Longrightarrow> misma_forma s' s'' \<Longrightarrow> misma_forma s s''"
  by (simp add: misma_forma_def)

lemma length_vista [simp]: "length (vista s) = cantPag s"
  by (simp add: vista_def)

lemma nth_vista [simp]: "i < cantPag s \<Longrightarrow> vista s ! i = (bitMap s ! i, pagina s i)"
  by (simp add: vista_def)

lemma cabe_page: "cabe s \<Longrightarrow> i < cantPag s \<Longrightarrow> i * tamPag s + tamPag s \<le> length (archivoSwap s)"
  using page_inside [of i "cantPag s" "tamPag s"] by (simp add: cabe_def)

lemma length_pagina [simp]: "cabe s \<Longrightarrow> i < cantPag s \<Longrightarrow> length (pagina s i) = tamPag s"
  using cabe_page [of s i] by (simp add: pagina_def)

lemma leer_pagina_inside: "cabe s \<Longrightarrow> i < cantPag s \<Longrightarrow> length buf = tamPag s \<Longrightarrow> leer_pagina i buf s = pagina s i"
  using cabe_page [of s i] by (simp add: leer_pagina_def pagina_def fread_at_inside)

text \<open>Writing inside a page, from its start.\<close>

lemma pagina_escribir:
  assumes "cabe s" "i < cantPag s" "j < cantPag s" "length bs \<le> tamPag s"
  shows "pagina (escribir_pagina i bs s) j = (if j = i then bs @ drop (length bs) (pagina s j) else pagina s j)"
proof -
  let ?t = "tamPag s" and ?f = "archivoSwap s"
  have in_i: "i * ?t + length bs \<le> length ?f" and in_j: "j * ?t + ?t \<le> length ?f"
    using cabe_page [of s] assms by fastforce+
  have f: "archivoSwap (escribir_pagina i bs s) = blit ?f (i * ?t) bs"
    using in_i by (simp add: escribir_pagina_def fwrite_at_inside)
  have p: "pagina (escribir_pagina i bs s) j = take ?t (drop (j * ?t) (blit ?f (i * ?t) bs))"
    unfolding pagina_def f by (simp add: escribir_pagina_def)
  have len: "length (blit ?f (i * ?t) bs) = length ?f" using in_i by (rule length_blit)
  show ?thesis
  proof (rule nth_equalityI)
    show "length (pagina (escribir_pagina i bs s) j)
        = length (if j = i then bs @ drop (length bs) (pagina s j) else pagina s j)"
      using assms in_j by (simp add: p len)
  next
    fix k
    assume "k < length (pagina (escribir_pagina i bs s) j)"
    then have k: "k < ?t" by (simp add: p)
    have "i \<noteq> j \<Longrightarrow> j * ?t + k < i * ?t \<or> i * ?t + length bs \<le> j * ?t + k"
      using page_apart [of i j ?t] k assms(4) by auto
    then show "pagina (escribir_pagina i bs s) j ! k
        = (if j = i then bs @ drop (length bs) (pagina s j) else pagina s j) ! k"
      unfolding p using k in_i in_j len by (auto simp: pagina_def nth_blit nth_append)
  qed
qed

lemma pagina_escribir_full:
  "cabe s \<Longrightarrow> i < cantPag s \<Longrightarrow> j < cantPag s \<Longrightarrow> length bs = tamPag s \<Longrightarrow>
     pagina (escribir_pagina i bs s) j = (if j = i then bs else pagina s j)"
  by (simp add: pagina_escribir)

lemma forma_escribir:
  "cabe s \<Longrightarrow> i < cantPag s \<Longrightarrow> length bs \<le> tamPag s \<Longrightarrow> misma_forma s (escribir_pagina i bs s)"
  using cabe_page [of s i] by (simp add: misma_forma_def escribir_pagina_def)

lemma bitMap_escribir [simp]: "bitMap (escribir_pagina i bs s) = bitMap s"
  "tamPag (escribir_pagina i bs s) = tamPag s" "salida (escribir_pagina i bs s) = salida s"
  by (simp_all add: escribir_pagina_def)

lemma pagina_bitMap [simp]: "pagina (s\<lparr>bitMap := b\<rparr>) = pagina s"
  by (rule ext) (simp add: pagina_def)

lemma cabe_escribir:
  "cabe s \<Longrightarrow> i < cantPag s \<Longrightarrow> length bs \<le> tamPag s \<Longrightarrow> cabe (escribir_pagina i bs s)"
  using forma_escribir [of s i bs] by (simp add: cabe_def misma_forma_def)

section \<open>compactar\<close>

lemma compactar_paso_run:
  assumes ok: "cabe s" and i: "Suc i < cantPag s" and a: "length a = tamPag s" "length a2 = tamPag s"
  shows "\<exists>s' a' a2'. compactar_paso i (s, a, a2) = Some (s', a', a2') \<and> cabe s' \<and> misma_forma s s'
    \<and> length a' = tamPag s \<and> length a2' = tamPag s
    \<and> drop (cantPag s) (bitMap s') = drop (cantPag s) (bitMap s)
    \<and> vista s' = paso_lista usada i (vista s)"
proof -
  let ?b = "bitMap s ! i" and ?b' = "bitMap s ! Suc i"
  have in_range: "i < length (bitMap s)" "Suc i < length (bitMap s)" "i < cantPag s"
    using ok i by (simp_all add: cabe_def)
  have est: "estado ?b \<in> {0, 1}" using ok i by (simp add: cabe_def)
  show ?thesis
  proof (cases "estado ?b = 0 \<and> estado ?b' = 1")
    case False
    then have "compactar_paso i (s, a, a2) = Some (s, a, a2)"
      using in_range by (auto simp: compactar_paso_def entrada_def)
    moreover have "paso_lista usada i (vista s) = vista s"
      using False i est by (auto simp: paso_lista_def usada_def)
    ultimately show ?thesis using ok a by simp
  next
    case True
    define bm where "bm = (bitMap s)[i := ?b', Suc i := ?b]"
    define s1 where "s1 = s\<lparr>bitMap := (bitMap s)[i := ?b']\<rparr>"
    define s2 where "s2 = escribir_pagina i (pagina s (Suc i)) (s\<lparr>bitMap := bm\<rparr>)"
    define s3 where "s3 = escribir_pagina (Suc i) (pagina s i) s2"
    have "leer_pagina (Suc i) a2 s1 = leer_pagina (Suc i) a2 s" by (simp add: s1_def leer_pagina_def)
    then have reads: "leer_pagina i a s = pagina s i" "leer_pagina (Suc i) a2 s1 = pagina s (Suc i)"
      using ok i a by (simp_all add: leer_pagina_inside)
    have run: "compactar_paso i (s, a, a2) = Some (s3, pagina s i, pagina s (Suc i))"
      using True in_range reads(1) reads(2) [unfolded s1_def]
      by (simp add: compactar_paso_def entrada_def set_entrada_def Let_def s3_def s2_def bm_def escribir_pagina_def)
    have ok1: "cabe (s\<lparr>bitMap := bm\<rparr>)"
      using ok i True by (auto simp: cabe_def bm_def nth_list_update)
    have sz: "tamPag s2 = tamPag s" "cantPag s2 = cantPag s" by (simp_all add: s2_def)
    have ok2: "cabe s2" and ok3: "cabe s3"
      using ok1 ok i by (simp_all add: s2_def s3_def cabe_escribir)
    have forma: "misma_forma s s3"
      using forma_escribir [OF ok1, of i "pagina s (Suc i)"] forma_escribir [OF ok2, of "Suc i" "pagina s i"] ok i
      by (simp add: misma_forma_def s2_def s3_def)
    have pag: "pagina s3 j = (if j = i then pagina s (Suc i) else if j = Suc i then pagina s i else pagina s j)"
      if "j < cantPag s" for j
    proof -
      have "pagina s2 j = (if j = i then pagina s (Suc i) else pagina s j)"
        using pagina_escribir_full [OF ok1, of i j "pagina s (Suc i)"] ok i that by (simp add: s2_def)
      then show ?thesis
        using pagina_escribir_full [OF ok2, of "Suc i" j "pagina s i"] ok i that sz by (auto simp: s3_def)
    qed
    have bm: "bitMap s3 = bm" by (simp add: s3_def s2_def)
    have "vista s3 = paso_lista usada i (vista s)"
    proof (rule nth_equalityI)
      show "length (vista s3) = length (paso_lista usada i (vista s))"
        using forma by (simp add: misma_forma_def)
    next
      fix j
      assume "j < length (vista s3)"
      then have j: "j < cantPag s" "j < cantPag s3" using forma by (simp_all add: misma_forma_def)
      show "vista s3 ! j = paso_lista usada i (vista s) ! j"
        using i j True in_range by (auto simp: paso_lista_def usada_def pag bm bm_def nth_list_update)
    qed
    then show ?thesis
      using run ok3 forma ok i by (simp add: bm bm_def drop_update_cancel)
  qed
qed

lemma compactar_fila_run:
  assumes "cabe s" "\<forall>i \<in> set is. Suc i < cantPag s" "length a = tamPag s" "length a2 = tamPag s"
  shows "\<exists>s' a' a2'. compactar_fila is (s, a, a2) = Some (s', a', a2') \<and> cabe s' \<and> misma_forma s s'
    \<and> length a' = tamPag s \<and> length a2' = tamPag s
    \<and> drop (cantPag s) (bitMap s') = drop (cantPag s) (bitMap s)
    \<and> vista s' = fold (paso_lista usada) is (vista s)"
  using assms
proof (induction "is" arbitrary: s a a2)
  case (Cons i "is")
  obtain s1 a1 b1 where s1: "compactar_paso i (s, a, a2) = Some (s1, a1, b1)" "cabe s1" "misma_forma s s1"
      "length a1 = tamPag s1" "length b1 = tamPag s1" "drop (cantPag s) (bitMap s1) = drop (cantPag s) (bitMap s)"
      "vista s1 = paso_lista usada i (vista s)"
    using compactar_paso_run [OF Cons(2), of i a a2] Cons(3-5) by (auto simp: misma_forma_def)
  obtain s' a' b' where s': "compactar_fila is (s1, a1, b1) = Some (s', a', b')" "cabe s'" "misma_forma s1 s'"
      "length a' = tamPag s1" "length b' = tamPag s1" "drop (cantPag s1) (bitMap s') = drop (cantPag s1) (bitMap s1)"
      "vista s' = fold (paso_lista usada) is (vista s1)"
    using Cons(1) [OF s1(2) _ s1(4,5)] Cons(3) s1(3) by (auto simp: misma_forma_def)
  show ?case using s1 s' by (auto simp: misma_forma_def)
qed simp

lemma compactar_pasadas_run:
  assumes "cabe s" "n = cantPag s" "length a = tamPag s" "length a2 = tamPag s"
  shows "\<exists>s' a' a2'. compactar_pasadas k n (s, a, a2) = Some (s', a', a2') \<and> cabe s' \<and> misma_forma s s'
    \<and> drop (cantPag s) (bitMap s') = drop (cantPag s) (bitMap s)
    \<and> vista s' = (burbuja usada ^^ k) (vista s)"
  using assms
proof (induction k arbitrary: s a a2)
  case (Suc k)
  have sweep: "\<forall>i \<in> set [0..<n - 1]. Suc i < cantPag s" using Suc(3) by auto
  obtain s1 a1 b1 where s1: "compactar_fila [0..<n - 1] (s, a, a2) = Some (s1, a1, b1)" "cabe s1" "misma_forma s s1"
      "length a1 = tamPag s1" "length b1 = tamPag s1" "drop (cantPag s) (bitMap s1) = drop (cantPag s) (bitMap s)"
      "vista s1 = burbuja usada (vista s)"
    using compactar_fila_run [OF Suc(2) sweep Suc(4,5)] Suc(3-5) fold_paso [of usada "vista s"]
    by (auto simp: misma_forma_def)
  obtain s' a' b' where s': "compactar_pasadas k n (s1, a1, b1) = Some (s', a', b')" "cabe s'" "misma_forma s1 s'"
      "drop (cantPag s1) (bitMap s') = drop (cantPag s1) (bitMap s1)"
      "vista s' = (burbuja usada ^^ k) (vista s1)"
    using Suc(1) [OF s1(2) _ s1(4,5)] Suc(3) s1(3) by (auto simp: misma_forma_def)
  show ?case using s1 s' by (auto simp: misma_forma_def funpow_swap1)
qed simp

lemma compactar_run:
  assumes "cabe s"
  shows "\<exists>s'. compactar s = Some s' \<and> cabe s' \<and> misma_forma s s'
    \<and> drop (cantPag s) (bitMap s') = drop (cantPag s) (bitMap s)
    \<and> vista s' = filter usada (vista s) @ filter (\<lambda>e. \<not> usada e) (vista s)"
  using compactar_pasadas_run [OF assms refl, of "replicate (tamPag s) 0" "replicate (tamPag s) 0" "cantPag s"]
    burbuja_partition [of "vista s" usada]
  by (auto simp: compactar_def)

end
