(* ===== verification/Swap_Space.thy ===== *)
theory Swap_Space
  imports Swap_Compact
begin

text \<open>
  What the two searches of the bitmap compute: \<open>espacioDisponible\<close> counts the free pages, and
  \<open>contiguo\<close> finds the first run of free entries, one longer than the pages asked for.
\<close>

definition libre :: "swap \<Rightarrow> nat \<Rightarrow> bool" where
  "libre s i \<longleftrightarrow> estado (bitMap s ! i) = 0"

definition libres :: "swap \<Rightarrow> nat" where
  "libres s = length (filter (libre s) [0..<cantPag s])"

text \<open>From \<open>w\<close> on, \<open>p\<close> pages are free and so is the entry that follows them.\<close>

definition ventana :: "nat \<Rightarrow> swap \<Rightarrow> nat \<Rightarrow> bool" where
  "ventana p s w \<longleftrightarrow> (\<forall>k \<le> p. libre s (w + k))"

lemma espacio_loop_run:
  assumes "cabe s" "i \<le> cantPag s" "j = length (filter (libre s) [0..<i])" "j \<le> p"
  shows "espacio_loop (int p) i j s = Some (p \<le> libres s)"
  using assms
proof (induction "int p" i j s rule: espacio_loop.induct)
  case (1 i j s)
  have split: "i < cantPag s \<Longrightarrow> libres s = j + length (filter (libre s) [i..<cantPag s])"
    using 1(4) upt_add_eq_append [of 0 i "cantPag s - i"] by (simp add: libres_def)
  show ?case
  proof (cases "i < cantPag s \<and> j \<noteq> p")
    case True
    then have "entrada s i = Some (bitMap s ! i)" using 1(2) by (simp add: cabe_def entrada_def)
    then show ?thesis
      using 1 True by (subst espacio_loop.simps) (cases "libre s i"; simp add: libre_def)
  next
    case False
    have "(j = p) = (p \<le> libres s)"
    proof (cases "i < cantPag s")
      case True
      then show ?thesis using False split by simp
    next
      case False
      then have "libres s = j" using 1(3,4) by (simp add: libres_def)
      then show ?thesis using 1(5) by auto
    qed
    then show ?thesis using False by (subst espacio_loop.simps) auto
  qed
qed

lemma espacioDisponible_run: "cabe s \<Longrightarrow> espacioDisponible (int p) s = Some (p \<le> libres s)"
  by (simp add: espacioDisponible_def espacio_loop_run)

text \<open>
  The invariant of the loop: the last \<open>j\<close> entries before \<open>i\<close> belong to a run that cannot be
  extended to the left, and no window ends before \<open>i\<close>.
\<close>

definition par :: "swap \<Rightarrow> nat \<Rightarrow> bool" where
  "par s k \<longleftrightarrow> libre s k \<and> libre s (Suc k)"

lemma ventana_par: "0 < p \<Longrightarrow> ventana p s w \<longleftrightarrow> (\<forall>k < p. par s (w + k))"
proof
  assume p: "0 < p" and r: "\<forall>k < p. par s (w + k)"
  show "ventana p s w"
    unfolding ventana_def
  proof (intro allI impI)
    fix k
    assume "k \<le> p"
    show "libre s (w + k)"
    proof (cases "k < p")
      case True
      then show ?thesis using r by (simp add: par_def)
    next
      case False
      have "par s (w + (p - 1))" using r p by (auto simp del: Nat.add_diff_assoc Nat.add_diff_assoc2)
      moreover have "Suc (w + (p - 1)) = w + k" using p False \<open>k \<le> p\<close> by simp
      ultimately show ?thesis by (metis par_def)
    qed
  qed
next
  assume "ventana p s w"
  then have "k \<le> p \<Longrightarrow> libre s (w + k)" for k by (simp add: ventana_def)
  from this [of "Suc _"] this show "\<forall>k < p. par s (w + k)" by (simp add: par_def)
qed

definition primera :: "nat \<Rightarrow> swap \<Rightarrow> int \<Rightarrow> bool" where
  "primera p s r \<longleftrightarrow> (\<exists>w. r = int w \<and> w + p \<le> cantPag s \<and> ventana p s w \<and> (\<forall>w' < w. \<not> ventana p s w'))
     \<or> r = - 1 \<and> (\<forall>w. w + p \<le> cantPag s \<longrightarrow> \<not> ventana p s w)"

definition contando :: "nat \<Rightarrow> swap \<Rightarrow> nat \<Rightarrow> nat \<Rightarrow> nat option \<Rightarrow> bool" where
  "contando p s i j fin \<longleftrightarrow> i \<le> cantPag s \<and> j \<le> i \<and> j \<le> p
     \<and> (\<forall>k. i - j \<le> k \<and> k < i \<longrightarrow> par s k) \<and> (0 < j \<longrightarrow> fin = Some (i - 1))
     \<and> (j < i \<longrightarrow> \<not> par s (i - j - 1)) \<and> (\<forall>w. w + p < i \<longrightarrow> \<not> ventana p s w)"

lemma contando_none:
  assumes "contando p s i j fin" "0 < p" "j < p" "w + p \<le> i"
  shows "\<not> ventana p s w"
proof (cases "w + p < i")
  case False
  then have "j < i" "i - j - 1 = w + (p - j - 1)" "p - j - 1 < p" using assms by auto
  moreover have "\<not> par s (i - j - 1)" using assms(1) \<open>j < i\<close> by (simp add: contando_def)
  ultimately show ?thesis using assms(2) by (metis ventana_par)
qed (use assms in \<open>simp add: contando_def\<close>)

lemma contando_step:
  assumes c: "contando p s i j fin" "0 < p" "j < p" "i < cantPag s"
  shows "par s i \<Longrightarrow> contando p s (Suc i) (Suc j) (Some i)" "\<not> par s i \<Longrightarrow> contando p s (Suc i) 0 fin"
proof -
  have none: "\<forall>w. w + p < Suc i \<longrightarrow> \<not> ventana p s w" using contando_none [OF c(1-3)] by simp
  show "par s i \<Longrightarrow> contando p s (Suc i) (Suc j) (Some i)"
    using c none by (auto simp: contando_def less_Suc_eq)
  show "\<not> par s i \<Longrightarrow> contando p s (Suc i) 0 fin"
    using c none by (auto simp: contando_def)
qed

lemma contiguo_loop_run:
  "cabe s \<Longrightarrow> 0 < p \<Longrightarrow> contando p s i j fin \<Longrightarrow> \<exists>r. contiguo_loop (int p) i j fin s = Some r \<and> primera p s r"
proof (induction "int p" i j fin s rule: contiguo_loop.induct)
  case (1 i j fin s)
  show ?case
  proof (cases "i < cantPag s \<and> j \<noteq> p")
    case True
    then have j: "j < p" and i: "i < cantPag s" using 1(5) by (auto simp: contando_def)
    have e: "entrada s i = Some (bitMap s ! i)" "entrada s (Suc i) = Some (bitMap s ! Suc i)"
      using 1(3) i by (simp_all add: cabe_def entrada_def)
    show ?thesis
    proof (cases "par s i")
      case P: True
      then have "contiguo_loop (int p) i j fin s = contiguo_loop (int p) (Suc i) (Suc j) (Some i) s"
        using True e by (subst contiguo_loop.simps) (simp add: par_def libre_def)
      then show ?thesis
        using 1(1) [of "bitMap s ! i" True] 1(3,4) True e P contando_step(1) [OF 1(5,4) j i P] 
        by (auto simp: par_def libre_def)
    next
      case P: False
      then have "contiguo_loop (int p) i j fin s = contiguo_loop (int p) (Suc i) 0 fin s"
        using True e by (subst contiguo_loop.simps) (auto simp: par_def libre_def)
      then show ?thesis
        using 1(2) [of "bitMap s ! i" False] 1(3,4) True e P contando_step(2) [OF 1(5,4) j i P]
        by (auto simp: par_def libre_def split: if_splits)
    qed
  next
    case False
    show ?thesis
    proof (cases "j = p")
      case True
      then have "fin = Some (i - 1)" "p \<le> i" using 1(4,5) by (auto simp: contando_def)
      then have "contiguo_loop (int p) i j fin s = Some (int (i - p))"
        using True 1(4) by (subst contiguo_loop.simps) auto
      have "\<forall>k < p. par s (i - p + k)"
      proof (intro allI impI)
        fix k
        assume "k < p"
        then show "par s (i - p + k)"
          using 1(5) True \<open>p \<le> i\<close> unfolding contando_def by (auto simp del: add_diff_assoc2 Nat.add_diff_assoc2)
      qed
      then have "ventana p s (i - p)" "i - p + p \<le> cantPag s" "\<forall>w' < i - p. \<not> ventana p s w'"
        using 1(5) True \<open>p \<le> i\<close> by (auto simp: contando_def ventana_par [OF 1(4)])
      then have "primera p s (int (i - p))" unfolding primera_def by blast
      with \<open>contiguo_loop (int p) i j fin s = Some (int (i - p))\<close> show ?thesis by blast
    next
      case J: False
      then have "j < p" "i = cantPag s" using False 1(5) by (auto simp: contando_def)
      then have "contiguo_loop (int p) i j fin s = Some (- 1)" by (subst contiguo_loop.simps) simp
      moreover have "primera p s (- 1)"
        using contando_none [OF 1(5,4) \<open>j < p\<close>] \<open>i = cantPag s\<close> by (simp add: primera_def)
      ultimately show ?thesis by blast
    qed
  qed
qed

lemma contiguo_run: "cabe s \<Longrightarrow> 0 < p \<Longrightarrow> \<exists>r. contiguo (int p) s = Some r \<and> primera p s r"
  unfolding contiguo_def by (rule contiguo_loop_run) (auto simp: contando_def)

end
