(* ===== verification/Swap_Groups.thy ===== *)
theory Swap_Groups
  imports Swap_Space
begin

text \<open>
  The abstract state of the swap: which pages each process has, in order. The entries of one process
  are neighbours in the bitmap (\<open>agrup\<close>), which is what lets \<open>leer\<close>, \<open>escribir\<close> and
  \<open>liberarMemoria\<close> look for the first one only.
\<close>

section \<open>Grouped lists\<close>

fun agrup :: "('a \<Rightarrow> bool) \<Rightarrow> 'a list \<Rightarrow> bool" where
  "agrup P [] = True"
| "agrup P (x # xs) = (agrup P xs \<and> (P x \<and> x \<in> set xs \<longrightarrow> hd xs = x))"

lemma agrup_filter: "agrup P xs \<Longrightarrow> agrup P (filter P xs)"
proof (induction xs)
  case (Cons x xs)
  show ?case
  proof (cases "P x \<and> x \<in> set xs")
    case True
    then have "hd xs = x" "xs \<noteq> []" using Cons(2) by auto
    then have "hd (filter P xs) = x" using True by (cases xs) auto
    then show ?thesis using Cons by simp
  qed (use Cons in auto)
qed simp

lemma agrup_append: "agrup P xs \<Longrightarrow> \<forall>y \<in> set ys. \<not> P y \<Longrightarrow> agrup P (xs @ ys)"
proof (induction xs)
  case Nil
  then show ?case by (induction ys) auto
next
  case (Cons x xs)
  then show ?case by (cases xs) auto
qed

lemma agrup_tail: "agrup P (xs @ ys) \<Longrightarrow> agrup P ys"
  by (induction xs) auto

lemma agrup_split:
  "agrup P xs \<Longrightarrow> P x \<Longrightarrow> \<exists>ys m zs. xs = ys @ replicate m x @ zs \<and> x \<notin> set ys \<and> x \<notin> set zs"
proof (induction xs)
  case (Cons y xs)
  then obtain ys m zs where s: "xs = ys @ replicate m x @ zs" "x \<notin> set ys" "x \<notin> set zs" by auto
  show ?case
  proof (cases "y = x")
    case False
    then show ?thesis using s by (intro exI [of _ "y # ys"] exI [of _ m] exI [of _ zs]) auto
  next
    case True
    show ?thesis
    proof (cases "x \<in> set xs")
      case False
      then show ?thesis using True by (intro exI [of _ "[]"] exI [of _ 1] exI [of _ xs]) auto
    next
      case mem: True
      then have "hd xs = x" using Cons(2,3) True by auto
      then have "ys = []" using s mem by (cases ys) auto
      then show ?thesis using True s by (intro exI [of _ "[]"] exI [of _ "Suc m"] exI [of _ zs]) auto
    qed
  qed
qed auto

lemma agrup_replicate: "agrup P zs \<Longrightarrow> x \<notin> set zs \<Longrightarrow> agrup P (replicate p x @ zs)"
proof (induction p)
  case (Suc p)
  then show ?case by (cases p) auto
qed simp

text \<open>A run without the bit is replaced by a run of a new element.\<close>

lemma agrup_fill:
  "agrup P (ys @ fs @ zs) \<Longrightarrow> \<forall>f \<in> set fs. \<not> P f \<Longrightarrow> x \<notin> set ys \<Longrightarrow> x \<notin> set zs \<Longrightarrow> fs \<noteq> [] \<Longrightarrow>
     agrup P (ys @ replicate p x @ zs)"
proof (induction ys)
  case Nil
  then show ?case using agrup_tail [of P fs zs] by (simp add: agrup_replicate)
next
  case (Cons y ys)
  have "hd (ys @ replicate p x @ zs) = y" if "P y" "y \<in> set ys \<union> set zs"
  proof -
    have h: "hd (ys @ fs @ zs) = y" using Cons(2) that by auto
    then show ?thesis using Cons(3,6) that(1) by (cases ys; cases fs) auto
  qed
  then show ?case using Cons by auto
qed

text \<open>A group loses the bit.\<close>

lemma agrup_clear:
  "agrup P (ys @ replicate m x @ zs) \<Longrightarrow> x \<notin> set ys \<Longrightarrow> x \<notin> set zs \<Longrightarrow> P x \<Longrightarrow> \<not> P f \<Longrightarrow>
     agrup P (ys @ replicate m f @ zs)"
proof (induction ys)
  case Nil
  then have "agrup P zs" using agrup_tail [of P "replicate m x" zs] by simp
  then show ?case using Nil(5) by (induction m) auto
next
  case (Cons y ys)
  have "hd (ys @ replicate m f @ zs) = y" if "P y" "y \<in> set (ys @ replicate m f @ zs)"
  proof -
    have mem: "y \<in> set ys \<union> set zs" using that Cons(6) by (cases m) auto
    then have "hd (ys @ replicate m x @ zs) = y" using Cons(2) that by auto
    then show ?thesis using Cons(3) by (cases ys; cases m) auto
  qed
  then show ?case using Cons by auto
qed

section \<open>The pages of a process\<close>

definition seleccion :: "'a \<Rightarrow> 'a list \<Rightarrow> 'b list \<Rightarrow> 'b list" where
  "seleccion d bs ps = map snd (filter (\<lambda>e. fst e = d) (zip bs ps))"

lemma seleccion_append:
  "length bs = length ps \<Longrightarrow> seleccion d (bs @ bs') (ps @ ps') = seleccion d bs ps @ seleccion d bs' ps'"
  by (simp add: seleccion_def)

lemma seleccion_none: "d \<notin> set bs \<Longrightarrow> seleccion d bs ps = []"
  by (auto simp: seleccion_def filter_empty_conv dest: set_zip_leftD)

lemma seleccion_replicate: "length ps = m \<Longrightarrow> seleccion d (replicate m d) ps = ps"
proof (induction m arbitrary: ps)
  case (Suc m)
  then show ?case by (cases ps) (simp_all add: seleccion_def)
qed (simp add: seleccion_def)

lemma seleccion_other: "k < length bs \<Longrightarrow> bs ! k \<noteq> d \<Longrightarrow> seleccion d bs (ps[k := x]) = seleccion d bs ps"
proof (induction bs arbitrary: k ps)
  case (Cons b bs)
  then show ?case by (cases ps; cases k) (simp_all add: seleccion_def)
qed simp

text \<open>The three pieces of a bitmap in which the entries of a process are neighbours.\<close>

lemma seleccion_cut:
  assumes "length ps = length ys + length xs + length zs"
  shows "seleccion d (ys @ xs @ zs) ps = seleccion d ys (take (length ys) ps)
      @ seleccion d xs (take (length xs) (drop (length ys) ps)) @ seleccion d zs (drop (length ys + length xs) ps)"
proof -
  have q: "ps = take (length ys) ps @ take (length xs) (drop (length ys) ps) @ drop (length ys + length xs) ps"
    by (metis append_take_drop_id drop_drop add.commute)
  have "length ys = length (take (length ys) ps)" "length xs = length (take (length xs) (drop (length ys) ps))"
    using assms by simp_all
  then show ?thesis by (subst q) (simp only: seleccion_append)
qed

lemma seleccion_split:
  "length ps = length ys + m + length zs \<Longrightarrow> d \<notin> set ys \<Longrightarrow> d \<notin> set zs \<Longrightarrow>
     seleccion d (ys @ replicate m d @ zs) ps = take m (drop (length ys) ps)"
  by (simp add: seleccion_cut seleccion_none seleccion_replicate)

lemma seleccion_change:
  "length ps = length ys + length fs + length zs \<Longrightarrow> length fs' = length fs \<Longrightarrow> d \<notin> set fs \<Longrightarrow> d \<notin> set fs' \<Longrightarrow>
     length ps' = length ps \<Longrightarrow> take (length ys) ps' = take (length ys) ps \<Longrightarrow>
     drop (length ys + length fs) ps' = drop (length ys + length fs) ps \<Longrightarrow>
     seleccion d (ys @ fs' @ zs) ps' = seleccion d (ys @ fs @ zs) ps"
  by (simp add: seleccion_cut seleccion_none)

end
