(* ===== verification/Swap_Orders.thy ===== *)
theory Swap_Orders
  imports Swap_Groups
begin

text \<open>
  The invariant of the swap and what each order does to the pages of each process.
\<close>

section \<open>Process numbers\<close>

text \<open>
  A free entry keeps the number 0 of a fresh bitmap or the -1 of a released one; the processes have
  other numbers.
\<close>

definition pid_valido :: "int \<Rightarrow> bool" where
  "pid_valido pid \<longleftrightarrow> pid \<noteq> - 1 \<and> pid \<noteq> 0 \<and> - (2 ^ 31) \<le> pid \<and> pid < 2 ^ 31"

definition propia :: "int \<Rightarrow> BitMap" where
  "propia pid = \<lparr>bm_PID = pid, estado = 1\<rparr>"

lemma propia_simps [simp]: "bm_PID (propia pid) = pid" "estado (propia pid) = 1" "propia p = propia q \<longleftrightarrow> p = q"
  by (simp_all add: propia_def)

lemma of_cint_to_int [simp]: "of_cint (to_int w) = w"
  by (simp add: of_cint_def to_int_def)

lemma to_int_of_cint: "- (2 ^ 31) \<le> i \<Longrightarrow> i < 2 ^ 31 \<Longrightarrow> to_int (of_cint i) = i"
  by (simp add: of_cint_def to_int_def sint_sbintrunc' signed_take_bit_int_eq_self)

lemma of_cint_eq: "- (2 ^ 31) \<le> i \<Longrightarrow> i < 2 ^ 31 \<Longrightarrow> of_cint i = w \<longleftrightarrow> i = to_int w"
  using to_int_of_cint [of i] by auto

section \<open>The invariant\<close>

definition mapa_bits :: "swap \<Rightarrow> BitMap list" where
  "mapa_bits s = take (cantPag s) (bitMap s)"

definition paginas :: "swap \<Rightarrow> byte list list" where
  "paginas s = map (pagina s) [0..<cantPag s]"

definition paginas_de :: "swap \<Rightarrow> int \<Rightarrow> byte list list" where
  "paginas_de s pid = seleccion (propia pid) (mapa_bits s) (paginas s)"

definition swap_ok :: "swap \<Rightarrow> bool" where
  "swap_ok s \<longleftrightarrow> cabe s \<and> agrup (\<lambda>b. estado b = 1) (mapa_bits s)
     \<and> (\<forall>b \<in> set (mapa_bits s). estado b = 1 \<longrightarrow> pid_valido (bm_PID b))
     \<and> (\<forall>i \<le> cantPag s. estado (bitMap s ! i) = 0 \<longrightarrow> bm_PID (bitMap s ! i) \<in> {- 1, 0})"

lemma swap_okD: "swap_ok s \<Longrightarrow> cabe s"
  by (simp add: swap_ok_def)

lemma length_mapa_bits [simp]: "cabe s \<Longrightarrow> length (mapa_bits s) = cantPag s"
  by (simp add: mapa_bits_def cabe_def)

lemma length_paginas [simp]: "length (paginas s) = cantPag s"
  by (simp add: paginas_def)

lemma nth_mapa_bits [simp]: "i < cantPag s \<Longrightarrow> mapa_bits s ! i = bitMap s ! i"
  by (simp add: mapa_bits_def)

lemma nth_paginas [simp]: "i < cantPag s \<Longrightarrow> paginas s ! i = pagina s i"
  by (simp add: paginas_def)

lemma vista_zip: "cabe s \<Longrightarrow> vista s = zip (mapa_bits s) (paginas s)"
  by (rule nth_equalityI) simp_all

lemma estado_mapa_bits: "cabe s \<Longrightarrow> b \<in> set (mapa_bits s) \<Longrightarrow> estado b = 0 \<or> estado b = 1"
  by (auto simp: in_set_conv_nth cabe_def mapa_bits_def)

lemma entrada_propia:
  assumes "swap_ok s" "pid_valido pid" "i \<le> cantPag s"
  shows "bm_PID (bitMap s ! i) = pid \<longleftrightarrow> bitMap s ! i = propia pid"
proof
  assume p: "bm_PID (bitMap s ! i) = pid"
  then have "estado (bitMap s ! i) \<noteq> 0" using assms by (auto simp: swap_ok_def pid_valido_def)
  moreover have "estado (bitMap s ! i) \<in> {0, 1}"
    using assms(1,3) by (cases "i = cantPag s") (auto simp: swap_ok_def cabe_def)
  ultimately show "bitMap s ! i = propia pid" using p by (simp add: propia_def)
qed simp

lemma entrada_u32:
  assumes "swap_ok s" "pid_valido (to_int w)" "i \<le> cantPag s"
  shows "of_cint (bm_PID (bitMap s ! i)) = w \<longleftrightarrow> bitMap s ! i = propia (to_int w)"
proof -
  have "bm_PID (bitMap s ! i) \<in> {- 1, 0} \<or> pid_valido (bm_PID (bitMap s ! i))"
  proof (cases "estado (bitMap s ! i) = 0")
    case True
    then show ?thesis using assms by (simp add: swap_ok_def)
  next
    case False
    then have "i \<noteq> cantPag s" using assms(1) by (auto simp: swap_ok_def cabe_def)
    then have "i < cantPag s" using assms(3) by simp
    moreover have "estado (bitMap s ! i) = 1" using assms(1) False \<open>i < cantPag s\<close> by (auto simp: swap_ok_def cabe_def)
    ultimately have "i < cantPag s" "estado (bitMap s ! i) = 1" by simp_all
    then have "bitMap s ! i \<in> set (mapa_bits s)"
      using assms(1) nth_mem [of i "mapa_bits s"] by (simp add: swap_ok_def)
    then show ?thesis using assms(1) \<open>estado (bitMap s ! i) = 1\<close> by (simp add: swap_ok_def)
  qed
  then have "- (2 ^ 31) \<le> bm_PID (bitMap s ! i)" "bm_PID (bitMap s ! i) < 2 ^ 31"
    by (auto simp: pid_valido_def)
  then show ?thesis using entrada_propia [OF assms] by (simp add: of_cint_eq)
qed

text \<open>Where the pages of a process are.\<close>

definition en_pos :: "swap \<Rightarrow> int \<Rightarrow> nat \<Rightarrow> nat \<Rightarrow> bool" where
  "en_pos s pid i m \<longleftrightarrow> (\<exists>ys zs. mapa_bits s = ys @ replicate m (propia pid) @ zs \<and> length ys = i
     \<and> propia pid \<notin> set ys \<and> propia pid \<notin> set zs)"

lemma en_pos_ex: "swap_ok s \<Longrightarrow> \<exists>i m. en_pos s pid i m"
  using agrup_split [of "\<lambda>b. estado b = 1" "mapa_bits s" "propia pid"] by (auto simp: swap_ok_def en_pos_def)

lemma en_pos_le: "cabe s \<Longrightarrow> en_pos s pid i m \<Longrightarrow> i + m \<le> cantPag s"
  by (auto simp: en_pos_def dest!: arg_cong [of _ _ length])

lemma en_pos_paginas:
  assumes "cabe s" "en_pos s pid i m"
  shows "paginas_de s pid = take m (drop i (paginas s))"
proof -
  obtain ys zs where s: "mapa_bits s = ys @ replicate m (propia pid) @ zs" "length ys = i"
      "propia pid \<notin> set ys" "propia pid \<notin> set zs"
    using assms(2) by (auto simp: en_pos_def)
  have "length (paginas s) = length ys + m + length zs" using length_mapa_bits [OF assms(1)] s(1) by simp
  then show ?thesis unfolding paginas_de_def s(1) using s(2-4) seleccion_split by fastforce
qed

lemma en_pos_length: "cabe s \<Longrightarrow> en_pos s pid i m \<Longrightarrow> length (paginas_de s pid) = m"
  using en_pos_le [of s pid i m] by (simp add: en_pos_paginas)

lemma en_pos_nth:
  assumes "cabe s" "en_pos s pid i m" "k < cantPag s"
  shows "bitMap s ! k = propia pid \<longleftrightarrow> i \<le> k \<and> k < i + m"
proof -
  obtain ys zs where s: "mapa_bits s = ys @ replicate m (propia pid) @ zs" "length ys = i"
      "propia pid \<notin> set ys" "propia pid \<notin> set zs"
    using assms(2) by (auto simp: en_pos_def)
  have len: "k < length ys + m + length zs" using assms(1,3) s by (auto dest: arg_cong [of _ _ length])
  have "mapa_bits s ! k = propia pid \<longleftrightarrow> i \<le> k \<and> k < i + m"
    unfolding s(1) using len s(2-4) by (auto simp: nth_append in_set_conv_nth)
  then show ?thesis using assms(3) by simp
qed

section \<open>Searching a process\<close>

lemma buscar_PID_run:
  assumes "i \<le> k" "k \<le> lim" "k < length (bitMap s)"
    and "\<forall>j. i \<le> j \<and> j < k \<longrightarrow> of_cint (bm_PID (bitMap s ! j)) \<noteq> PID"
    and "k = lim \<or> of_cint (bm_PID (bitMap s ! k)) = PID"
  shows "buscar_PID lim PID i s = Some k"
  using assms
proof (induction "k - i" arbitrary: i)
  case 0
  then show ?case by (subst buscar_PID.simps) (auto simp: entrada_def)
next
  case (Suc d)
  then have "buscar_PID lim PID (Suc i) s = Some k" by simp
  then show ?case using Suc(2-) by (subst buscar_PID.simps) (auto simp: entrada_def)
qed

lemma liberar_buscar_run:
  assumes "i \<le> k" "k \<le> cantPag s" "cantPag s \<le> length (bitMap s)"
    and "\<forall>j. i \<le> j \<and> j < k \<longrightarrow> bm_PID (bitMap s ! j) \<noteq> PID"
    and "k = cantPag s \<or> bm_PID (bitMap s ! k) = PID"
  shows "liberar_buscar PID i s = Some k"
  using assms
proof (induction "k - i" arbitrary: i)
  case 0
  then show ?case by (subst liberar_buscar.simps) (auto simp: entrada_def)
next
  case (Suc d)
  then have "liberar_buscar PID (Suc i) s = Some k" by simp
  then show ?case using Suc(2-) by (subst liberar_buscar.simps) (auto simp: entrada_def)
qed

lemma buscar_en_pos:
  assumes "swap_ok s" "pid_valido (to_int w)" "en_pos s (to_int w) i m" "0 < m" "i \<le> lim"
  shows "buscar_PID lim w 0 s = Some i"
proof -
  note ok = swap_okD [OF assms(1)]
  have i: "i < cantPag s" using en_pos_le [OF ok assms(3)] assms(4) by simp
  have "of_cint (bm_PID (bitMap s ! j)) = w \<longleftrightarrow> i \<le> j \<and> j < i + m" if "j < cantPag s" for j
    using entrada_u32 [OF assms(1,2), of j] en_pos_nth [OF ok assms(3) that] that by simp
  then show ?thesis
    using i ok assms(4,5) by (intro buscar_PID_run) (auto simp: cabe_def)
qed

lemma pagina_pedida_run: "i + unat nro < 2 ^ 31 \<Longrightarrow> pagina_pedida i nro = Some (i + unat nro)"
proof -
  assume a: "i + unat nro < 2 ^ 31"
  have u: "unat (of_nat i + nro) = i + unat nro"
    using a by (simp add: unat_word_ariths unat_of_nat)
  then have "to_int (of_nat i + nro) = int (i + unat nro)" using a by (subst to_int_small) simp_all
  then show ?thesis by (simp add: pagina_pedida_def Let_def del: of_nat_add)
qed

section \<open>leer and escribir\<close>

lemma hasta_nul_run: "hasta_nul (xs @ 0 # ys) = Some (cstr xs)"
  by (cases "0 \<in> set xs")
    (simp_all add: hasta_nul_def cstr_terminated cstr_id, auto simp: cstr_def takeWhile_append)

lemma paginas_nth_de:
  "cabe s \<Longrightarrow> en_pos s pid i m \<Longrightarrow> k < m \<Longrightarrow> paginas_de s pid ! k = pagina s (i + k)"
  using en_pos_le [of s pid i m] by (simp add: en_pos_paginas)

lemma length_pagina_de:
  assumes "swap_ok s" "k < length (paginas_de s pid)"
  shows "length (paginas_de s pid ! k) = tamPag s"
proof -
  note c = swap_okD [OF assms(1)]
  obtain i m where pos: "en_pos s pid i m" using en_pos_ex [OF assms(1)] by blast
  then have "k < m" using assms(2) en_pos_length [OF c pos] by simp
  then show ?thesis using paginas_nth_de [OF c pos] en_pos_le [OF c pos] c by simp
qed

lemma leer_run:
  assumes ok: "swap_ok s" "pid_valido (to_int (op_PID r))" and pos: "en_pos s (to_int (op_PID r)) i m"
    and nro: "unat (nroPagina r) < m" and lim: "i \<le> tamPag s" and bounds: "cantPag s < 2 ^ 31"
    and r: "length (contenido r) = tamPag s" "tras_contenido E = 0 # junk"
  shows "leer E r s = Some (r\<lparr>contenido := paginas_de s (to_int (op_PID r)) ! unat (nroPagina r)\<rparr>,
    enviar (cstr (paginas_de s (to_int (op_PID r)) ! unat (nroPagina r))) s)"
proof -
  let ?k = "i + unat (nroPagina r)"
  note c = swap_okD [OF ok(1)]
  have k: "?k < cantPag s" using en_pos_le [OF c pos] nro by simp
  have "buscar_PID (tamPag s) (op_PID r) 0 s = Some i"
    using buscar_en_pos [OF ok pos _ lim] nro by simp
  moreover have "pagina_pedida i (nroPagina r) = Some ?k" using k bounds by (intro pagina_pedida_run) simp
  moreover have "leer_pagina ?k (contenido r) s = pagina s ?k" using c k r(1) by (rule leer_pagina_inside)
  ultimately show ?thesis
    using paginas_nth_de [OF c pos nro] by (simp add: leer_def r(2) hasta_nul_run)
qed

lemma mapa_bits_escribir [simp]: "mapa_bits (escribir_pagina i bs s) = mapa_bits s"
  by (simp add: mapa_bits_def)

lemma swap_ok_escribir:
  "swap_ok s \<Longrightarrow> i < cantPag s \<Longrightarrow> length bs \<le> tamPag s \<Longrightarrow> swap_ok (escribir_pagina i bs s)"
  by (simp add: swap_ok_def cabe_escribir)

lemma paginas_escribir:
  "cabe s \<Longrightarrow> k < cantPag s \<Longrightarrow> length bs \<le> tamPag s \<Longrightarrow>
     paginas (escribir_pagina k bs s) = (paginas s)[k := bs @ drop (length bs) (pagina s k)]"
  by (rule nth_equalityI) (simp_all add: nth_list_update pagina_escribir)

text \<open>What a write of a string does to a page.\<close>

definition pisar :: "byte list \<Rightarrow> byte list \<Rightarrow> byte list" where
  "pisar texto pag = texto @ drop (length texto) pag"

lemma escribir_run:
  assumes ok: "swap_ok s" "pid_valido (to_int (op_PID r))" and nro: "unat (nroPagina r) < length (paginas_de s (to_int (op_PID r)))"
    and bounds: "cantPag s < 2 ^ 31" and r: "length (contenido r) = tamPag s" "tras_contenido E = 0 # junk"
  shows "\<exists>s'. escribir E r s = Some s' \<and> swap_ok s' \<and> misma_forma s s' \<and> mapa_bits s' = mapa_bits s
    \<and> paginas_de s' (to_int (op_PID r)) = (paginas_de s (to_int (op_PID r)))[unat (nroPagina r) :=
        pisar (cstr (contenido r)) (paginas_de s (to_int (op_PID r)) ! unat (nroPagina r))]
    \<and> (\<forall>q. q \<noteq> to_int (op_PID r) \<longrightarrow> paginas_de s' q = paginas_de s q)"
proof -
  let ?pid = "to_int (op_PID r)" and ?texto = "cstr (contenido r)"
  note c = swap_okD [OF ok(1)]
  obtain i m where pos: "en_pos s ?pid i m" using en_pos_ex [OF ok(1)] by blast
  have m: "unat (nroPagina r) < m" using nro en_pos_length [OF c pos] by simp
  let ?k = "i + unat (nroPagina r)" and ?s = "escribir_pagina (i + unat (nroPagina r)) ?texto s"
  have k: "?k < cantPag s" and i: "i \<le> cantPag s" "i < cantPag s" using en_pos_le [OF c pos] m by simp_all
  have len: "length ?texto \<le> tamPag s" using length_cstr_le [of "contenido r"] r(1) by simp
  have "buscar_PID (cantPag s) (op_PID r) 0 s = Some i"
    using buscar_en_pos [OF ok pos _ i(1)] m by simp
  moreover have "entrada s i = Some (bitMap s ! i)" using c i by (simp add: entrada_def cabe_def)
  moreover have "bitMap s ! i = propia ?pid" using en_pos_nth [OF c pos i(2)] m by simp
  moreover have "pagina_pedida i (nroPagina r) = Some ?k" using k bounds by (intro pagina_pedida_run) simp
  ultimately have run: "escribir E r s = Some ?s"
    by (simp add: escribir_def r(2) hasta_nul_run)
  have pags: "paginas ?s = (paginas s)[?k := pisar ?texto (pagina s ?k)]"
    using c k len by (simp add: paginas_escribir pisar_def)
  have pos': "en_pos ?s ?pid i m" using pos by (simp add: en_pos_def)
  have "paginas_de ?s ?pid = (paginas_de s ?pid)[unat (nroPagina r) := pisar ?texto (paginas_de s ?pid ! unat (nroPagina r))]"
    using m en_pos_le [OF c pos]
    by (simp add: en_pos_paginas [OF c pos] en_pos_paginas [OF swap_okD [OF swap_ok_escribir [OF ok(1) k len]] pos']
        pags drop_update_swap take_update_swap)
  moreover have "paginas_de ?s q = paginas_de s q" if "q \<noteq> ?pid" for q
  proof -
    have "mapa_bits s ! ?k = propia ?pid" using en_pos_nth [OF c pos k] m k by simp
    then show ?thesis using that k c by (simp add: paginas_de_def pags seleccion_other)
  qed
  ultimately show ?thesis
    using run swap_ok_escribir [OF ok(1) k len] forma_escribir [OF c k len] by (intro exI [of _ ?s]) simp
qed

section \<open>liberarMemoria\<close>

definition vacia :: BitMap where
  "vacia = \<lparr>bm_PID = - 1, estado = 0\<rparr>"

lemma vacia_simps [simp]: "bm_PID vacia = - 1" "estado vacia = 0" "vacia \<noteq> propia pid" "propia pid \<noteq> vacia"
  by (simp_all add: vacia_def propia_def)

lemma cabe_update:
  "cabe s \<Longrightarrow> i < cantPag s \<Longrightarrow> estado b \<in> {0, 1} \<Longrightarrow> cabe (s\<lparr>bitMap := (bitMap s)[i := b]\<rparr>)"
  by (auto simp: cabe_def nth_list_update)

lemma liberar_loop_run:
  assumes "cabe s" "k + m \<le> cantPag s" "\<forall>j. k \<le> j \<and> j < k + m \<longrightarrow> bm_PID (bitMap s ! j) = PID"
    and "k + m = cantPag s \<or> bm_PID (bitMap s ! (k + m)) \<noteq> PID"
  shows "\<exists>s'. liberar_loop PID k s = Some s' \<and> cabe s' \<and> misma_forma s s'
    \<and> bitMap s' = take k (bitMap s) @ replicate m vacia @ drop (k + m) (bitMap s)
    \<and> (\<forall>j < cantPag s. pagina s' j = (if k \<le> j \<and> j < k + m then replicate (tamPag s) 0 else pagina s j))"
  using assms
proof (induction m arbitrary: k s)
  case 0
  then have "liberar_loop PID k s = Some s"
    by (subst liberar_loop.simps) (auto simp: entrada_def cabe_def)
  then show ?case using 0 by auto
next
  case (Suc m)
  define s1 where "s1 = s\<lparr>bitMap := (bitMap s)[k := vacia]\<rparr>"
  define s2 where "s2 = escribir_pagina k (replicate (tamPag s) 0) s1"
  have k: "k < cantPag s" "k < length (bitMap s)" using Suc(2,3) by (simp_all add: cabe_def)
  have sz: "cantPag s1 = cantPag s" "tamPag s1 = tamPag s" "cantPag s2 = cantPag s" "tamPag s2 = tamPag s"
    by (simp_all add: s1_def s2_def)
  have c1: "cabe s1" unfolding s1_def using Suc(2) k by (intro cabe_update) simp_all
  have c2: "cabe s2" unfolding s2_def using c1 k sz by (intro cabe_escribir) simp_all
  have f2: "misma_forma s s2"
    using forma_escribir [OF c1, of k "replicate (tamPag s) 0"] k sz by (simp add: s2_def s1_def misma_forma_def)
  have p2: "pagina s2 j = (if j = k then replicate (tamPag s) 0 else pagina s j)" if "j < cantPag s" for j
    using pagina_escribir_full [OF c1, of k j "replicate (tamPag s) 0"] k sz that by (simp add: s2_def s1_def)
  have b2: "bitMap s2 = (bitMap s)[k := vacia]" by (simp add: s2_def s1_def)
  have step: "liberar_loop PID k s = liberar_loop PID (Suc k) s2"
    using k Suc(4) by (subst liberar_loop.simps) (simp add: entrada_def set_entrada_def s1_def s2_def vacia_def)
  have rest: "\<forall>j. Suc k \<le> j \<and> j < Suc k + m \<longrightarrow> bm_PID (bitMap s2 ! j) = PID"
      "Suc k + m = cantPag s2 \<or> bm_PID (bitMap s2 ! (Suc k + m)) \<noteq> PID" "Suc k + m \<le> cantPag s2"
    using Suc(3-5) by (auto simp: b2 sz)
  obtain s' where s': "liberar_loop PID (Suc k) s2 = Some s'" "cabe s'" "misma_forma s2 s'"
      "bitMap s' = take (Suc k) (bitMap s2) @ replicate m vacia @ drop (Suc k + m) (bitMap s2)"
      "\<forall>j < cantPag s2. pagina s' j = (if Suc k \<le> j \<and> j < Suc k + m then replicate (tamPag s2) 0 else pagina s2 j)"
    using Suc(1) [OF c2 rest(3,1,2)] by blast
  have "bitMap s' = take k (bitMap s) @ replicate (Suc m) vacia @ drop (k + Suc m) (bitMap s)"
    using k by (simp add: s'(4) b2 take_Suc_conv_app_nth)
  moreover have "pagina s' j = (if k \<le> j \<and> j < k + Suc m then replicate (tamPag s) 0 else pagina s j)"
    if "j < cantPag s" for j
    using s'(5) that p2 sz by (cases "j = k") auto
  ultimately show ?case
    using step s'(1-3) f2 by (intro exI [of _ s']) (simp add: misma_forma_def)
qed

text \<open>Sending changes nothing else.\<close>

lemma enviar_fields [simp]: "bitMap (enviar bs s) = bitMap s" "cantPag (enviar bs s) = cantPag s"
  "tamPag (enviar bs s) = tamPag s" "archivoSwap (enviar bs s) = archivoSwap s"
  "salida (enviar bs s) = salida s @ bs"
  by (simp_all add: enviar_def)

lemma enviar_simps [simp]: "pagina (enviar bs s) = pagina s" "libre (enviar bs s) = libre s"
  "mapa_bits (enviar bs s) = mapa_bits s" "cabe (enviar bs s) = cabe s"
  by (auto simp: pagina_def libre_def mapa_bits_def cabe_def fun_eq_iff)

lemma enviar_views [simp]: "paginas_de (enviar bs s) = paginas_de s" "libres (enviar bs s) = libres s"
  "swap_ok (enviar bs s) = swap_ok s"
  by (auto simp: paginas_de_def paginas_def libres_def swap_ok_def fun_eq_iff)

text \<open>A stretch of the bitmap and its pages change, the rest stays.\<close>

lemma mapa_bits_map: "cabe s \<Longrightarrow> mapa_bits s = map (\<lambda>i. bitMap s ! i) [0..<cantPag s]"
  by (rule nth_equalityI) simp_all

lemma libres_bits: "cabe s \<Longrightarrow> libres s = length (filter (\<lambda>b. estado b = 0) (mapa_bits s))"
  by (simp add: libres_def mapa_bits_map filter_map o_def libre_def [abs_def])

lemma bits_replace:
  assumes "cabe s" "mapa_bits s = ys @ fs @ zs" "length fs' = length fs" "cantPag s' = cantPag s"
    and "bitMap s' = take (length ys) (bitMap s) @ fs' @ drop (length ys + length fs) (bitMap s)"
  shows "mapa_bits s' = ys @ fs' @ zs"
proof -
  have len: "cantPag s = length ys + length fs + length zs"
    using length_mapa_bits [OF assms(1)] assms(2) by simp
  have "bitMap s = (ys @ fs @ zs) @ drop (cantPag s) (bitMap s)"
    using assms(2) by (metis append_take_drop_id mapa_bits_def)
  then have "bitMap s' = ys @ fs' @ zs @ drop (cantPag s) (bitMap s)"
    using assms(5) len by (metis append.assoc append_eq_append_conv_if append_take_drop_id append_eq_conv_conj length_append)
  then show ?thesis using assms(3,4) len by (simp add: mapa_bits_def)
qed

lemma paginas_de_change:
  assumes "cabe s" "cantPag s' = cantPag s" "mapa_bits s = ys @ fs @ zs" "mapa_bits s' = ys @ fs' @ zs"
    and "length fs' = length fs" "propia q \<notin> set fs" "propia q \<notin> set fs'"
    and "\<forall>j < cantPag s. \<not> (length ys \<le> j \<and> j < length ys + length fs) \<longrightarrow> pagina s' j = pagina s j"
  shows "paginas_de s' q = paginas_de s q"
proof -
  have len: "cantPag s = length ys + length fs + length zs"
    using length_mapa_bits [OF assms(1)] assms(3) by simp
  have "take (length ys) (paginas s') = take (length ys) (paginas s)"
    using assms(2,8) len by (intro nth_equalityI) simp_all
  moreover have "drop (length ys + length fs) (paginas s') = drop (length ys + length fs) (paginas s)"
    using assms(2,8) len by (intro nth_equalityI) simp_all
  ultimately show ?thesis
    unfolding paginas_de_def assms(3,4) using assms(2,5-7) len by (intro seleccion_change) simp_all
qed

lemma liberar_run:
  assumes ok: "swap_ok s" "pid_valido pid"
  shows "\<exists>s'. liberarMemoria pid s = Some s' \<and> swap_ok s' \<and> salida s' = salida s @ le32 (of_cint EXITO_SWAP)
    \<and> cantPag s' = cantPag s \<and> tamPag s' = tamPag s
    \<and> paginas_de s' pid = [] \<and> (\<forall>q. q \<noteq> pid \<longrightarrow> paginas_de s' q = paginas_de s q)
    \<and> libres s' = libres s + length (paginas_de s pid)"
proof -
  note c = swap_okD [OF ok(1)]
  obtain i m where pos: "en_pos s pid i m" and i0: "m = 0 \<longrightarrow> i = cantPag s"
  proof -
    obtain i m where p: "en_pos s pid i m" using en_pos_ex [OF ok(1)] by blast
    show ?thesis
    proof (cases "m = 0")
      case True
      then have "en_pos s pid (cantPag s) 0"
        using p c unfolding en_pos_def by (intro exI [of _ "mapa_bits s"] exI [of _ "[]"]) auto
      then show ?thesis using that by blast
    qed (use p that in blast)
  qed
  obtain ys zs where split: "mapa_bits s = ys @ replicate m (propia pid) @ zs" "length ys = i"
      "propia pid \<notin> set ys" "propia pid \<notin> set zs"
    using pos by (auto simp: en_pos_def)
  have im: "i + m \<le> cantPag s" using en_pos_le [OF c pos] .
  have owner: "bm_PID (bitMap s ! j) = pid \<longleftrightarrow> i \<le> j \<and> j < i + m" if "j < cantPag s" for j
    using entrada_propia [OF ok, of j] en_pos_nth [OF c pos that] that by simp
  have "liberar_buscar pid 0 s = Some i"
    using im i0 owner c by (intro liberar_buscar_run) (auto simp: cabe_def)
  moreover obtain s1 where s1: "liberar_loop pid i s = Some s1" "cabe s1" "misma_forma s s1"
      "bitMap s1 = take i (bitMap s) @ replicate m vacia @ drop (i + m) (bitMap s)"
      "\<forall>j < cantPag s. pagina s1 j = (if i \<le> j \<and> j < i + m then replicate (tamPag s) 0 else pagina s j)"
  proof -
    have "\<forall>j. i \<le> j \<and> j < i + m \<longrightarrow> bm_PID (bitMap s ! j) = pid" using owner im by auto
    moreover have "i + m = cantPag s \<or> bm_PID (bitMap s ! (i + m)) \<noteq> pid"
      using owner [of "i + m"] im by auto
    ultimately show ?thesis using liberar_loop_run [OF c im] that by blast
  qed
  ultimately have run: "liberarMemoria pid s = Some (enviar (le32 (of_cint EXITO_SWAP)) s1)"
    by (simp add: liberarMemoria_def)
  let ?s = "enviar (le32 (of_cint EXITO_SWAP)) s1"
  have sz: "cantPag s1 = cantPag s" "tamPag s1 = tamPag s" "salida s1 = salida s" using s1(3) by (simp_all add: misma_forma_def)
  have bits: "mapa_bits s1 = ys @ replicate m vacia @ zs"
    using bits_replace [OF c split(1), of "replicate m vacia" s1] s1(4) split(2) sz by simp
  have "agrup (\<lambda>b. estado b = 1) (ys @ replicate m (propia pid) @ zs)"
    using ok(1) by (simp add: swap_ok_def flip: split(1))
  then have "agrup (\<lambda>b. estado b = 1) (mapa_bits s1)"
    unfolding bits by (rule agrup_clear) (simp_all add: split(3,4))
  moreover have "\<forall>b \<in> set (mapa_bits s1). estado b = 1 \<longrightarrow> pid_valido (bm_PID b)"
    using ok(1) split(1) by (auto simp: bits swap_ok_def)
  moreover have "\<forall>j \<le> cantPag s. estado (bitMap s1 ! j) = 0 \<longrightarrow> bm_PID (bitMap s1 ! j) \<in> {- 1, 0}"
    using ok(1) im c by (auto simp: s1(4) nth_append swap_ok_def cabe_def)
  ultimately have "swap_ok s1" using s1(2) by (simp add: swap_ok_def sz)
  moreover have "paginas_de s1 q = paginas_de s q" if "q \<noteq> pid" for q
    using c sz(1) split(1) bits by (rule paginas_de_change) (use that s1(5) split(2) in auto)
  moreover have "paginas_de s1 pid = []"
    unfolding paginas_de_def bits using split(3,4) by (intro seleccion_none) simp
  moreover have "libres s1 = libres s + m"
    using c s1(2) by (simp add: libres_bits split(1) bits filter_replicate)
  ultimately show ?thesis
    using run en_pos_length [OF c pos] sz by simp
qed

end
