(* ===== verification/Swap_Iniciar.thy ===== *)
theory Swap_Iniciar
  imports Swap_Orders
begin

text \<open>
  The order that gives pages to a new process: the run of entries is filled directly when there is
  one, and after compaction otherwise.
\<close>

lemma asignacion_loop_run:
  "w + k \<le> length (bitMap s) \<Longrightarrow> asignacion_loop k PID (int w) s
     = Some (s\<lparr>bitMap := take w (bitMap s) @ replicate k (propia PID) @ drop (w + k) (bitMap s)\<rparr>)"
proof (induction k arbitrary: w s)
  case (Suc k)
  let ?s = "s\<lparr>bitMap := (bitMap s)[w := propia PID]\<rparr>"
  have "asignacion_loop (Suc k) PID (int w) s = asignacion_loop k PID (int (Suc w)) ?s"
    using Suc(2) by (simp add: set_entrada_def propia_def add.commute)
  also have "\<dots> = Some (?s\<lparr>bitMap := take (Suc w) (bitMap ?s) @ replicate k (propia PID) @ drop (Suc w + k) (bitMap ?s)\<rparr>)"
    using Suc(2) by (intro Suc(1)) simp
  also have "\<dots> = Some (s\<lparr>bitMap := take w (bitMap s) @ replicate (Suc k) (propia PID) @ drop (w + Suc k) (bitMap s)\<rparr>)"
    using Suc(2) by (simp add: take_Suc_conv_app_nth)
  finally show ?case .
qed simp

lemma paginas_de_none: "swap_ok s \<Longrightarrow> paginas_de s pid = [] \<Longrightarrow> propia pid \<notin> set (mapa_bits s)"
proof -
  assume ok: "swap_ok s" and none: "paginas_de s pid = []"
  obtain i m where pos: "en_pos s pid i m" using en_pos_ex [OF ok] by blast
  then have "m = 0" using en_pos_length [OF swap_okD [OF ok] pos] none by simp
  then show ?thesis using pos by (auto simp: en_pos_def)
qed

lemma asignacion_run:
  assumes ok: "swap_ok s" "pid_valido pid" and new: "paginas_de s pid = []"
    and w: "0 < p" "ventana p s w" "w + p \<le> cantPag s"
  shows "\<exists>s'. asignacion pid (int p) (int w) s = Some s' \<and> swap_ok s' \<and> misma_forma s s'
    \<and> length (paginas_de s' pid) = p \<and> (\<forall>q. q \<noteq> pid \<longrightarrow> paginas_de s' q = paginas_de s q)
    \<and> libres s' + p = libres s"
proof -
  note c = swap_okD [OF ok(1)]
  define s' where "s' = s\<lparr>bitMap := take w (bitMap s) @ replicate p (propia pid) @ drop (w + p) (bitMap s)\<rparr>"
  have run: "asignacion pid (int p) (int w) s = Some s'"
    using c w(3) by (simp add: asignacion_def asignacion_loop_run s'_def cabe_def)
  define ys where "ys = take w (mapa_bits s)"
  define fs where "fs = take p (drop w (mapa_bits s))"
  define zs where "zs = drop (w + p) (mapa_bits s)"
  have split: "mapa_bits s = ys @ fs @ zs"
    unfolding ys_def fs_def zs_def by (metis append_take_drop_id drop_drop add.commute)
  have len: "length ys = w" "length fs = p" using c w(3) by (simp_all add: ys_def fs_def)
  have sz: "cantPag s' = cantPag s" "tamPag s' = tamPag s" "pagina s' = pagina s" by (simp_all add: s'_def)
  have bits: "mapa_bits s' = ys @ replicate p (propia pid) @ zs"
    using bits_replace [OF c split, of "replicate p (propia pid)" s'] len by (simp add: s'_def)
  have free: "\<forall>f \<in> set fs. estado f = 0"
  proof
    fix f
    assume "f \<in> set fs"
    then obtain k where "k < p" "f = fs ! k" by (auto simp: in_set_conv_nth len)
    then show "estado f = 0" using w c by (simp add: fs_def ventana_def libre_def)
  qed
  have fresh: "propia pid \<notin> set (mapa_bits s)" by (rule paginas_de_none [OF ok(1) new])
  have c': "cabe s'"
    unfolding cabe_def
  proof (intro conjI allI impI)
    show "cantPag s' < length (bitMap s')" "cantPag s' * tamPag s' \<le> length (archivoSwap s')"
      using c w(3) by (simp_all add: s'_def cabe_def)
    show "estado (bitMap s' ! cantPag s') = 0" using c w(3) by (auto simp: s'_def cabe_def nth_append)
  next
    fix j
    assume "j < cantPag s'"
    then show "estado (bitMap s' ! j) \<in> {0, 1}" using c w(3) by (auto simp: s'_def cabe_def nth_append)
  qed
  have "agrup (\<lambda>b. estado b = 1) (ys @ fs @ zs)" using ok(1) by (simp add: swap_ok_def flip: split)
  then have "agrup (\<lambda>b. estado b = 1) (mapa_bits s')"
    unfolding bits by (rule agrup_fill) (use free fresh split len w(1) in auto)
  moreover have "\<forall>b \<in> set (mapa_bits s'). estado b = 1 \<longrightarrow> pid_valido (bm_PID b)"
    using ok split by (auto simp: bits swap_ok_def)
  moreover have "\<forall>j \<le> cantPag s. estado (bitMap s' ! j) = 0 \<longrightarrow> bm_PID (bitMap s' ! j) \<in> {- 1, 0}"
    using ok(1) w(3) c by (auto simp: s'_def nth_append swap_ok_def cabe_def)
  ultimately have "swap_ok s'" using c' by (simp add: swap_ok_def sz)
  moreover have "length (paginas_de s' pid) = p"
    unfolding paginas_de_def bits using fresh split len w(3) c
    by (subst seleccion_split) (auto simp: sz dest: arg_cong [of _ _ length])
  moreover have "paginas_de s' q = paginas_de s q" if "q \<noteq> pid" for q
    using c sz(1) split bits by (rule paginas_de_change) (use that free len in \<open>auto simp: sz\<close>)
  moreover have "libres s' + p = libres s"
    using c c' free len by (simp add: libres_bits split bits filter_id_conv)
  ultimately show ?thesis using run by (intro exI [of _ s']) (simp add: misma_forma_def s'_def)
qed

lemma mapa_bits_vista: "cabe s \<Longrightarrow> mapa_bits s = map fst (vista s)"
  by (simp add: vista_zip)

lemma paginas_de_vista: "cabe s \<Longrightarrow> paginas_de s pid = map snd (filter (\<lambda>e. fst e = propia pid) (vista s))"
  by (simp add: paginas_de_def seleccion_def vista_zip)

lemma compactar_keeps:
  assumes ok: "swap_ok s"
  shows "\<exists>s'. compactar s = Some s' \<and> swap_ok s' \<and> misma_forma s s' \<and> paginas_de s' = paginas_de s
    \<and> libres s' = libres s \<and> (\<forall>p. 0 < p \<longrightarrow> p \<le> libres s \<longrightarrow> ventana p s' (cantPag s - libres s))"
proof -
  note c = swap_okD [OF ok]
  obtain s' where s': "compactar s = Some s'" "cabe s'" "misma_forma s s'"
      "drop (cantPag s) (bitMap s') = drop (cantPag s) (bitMap s)"
      "vista s' = filter usada (vista s) @ filter (\<lambda>e. \<not> usada e) (vista s)"
    using compactar_run [OF c] by blast
  have sz: "cantPag s' = cantPag s" using s'(3) by (simp add: misma_forma_def)
  let ?u = "filter (\<lambda>b. estado b = 1) (mapa_bits s)" and ?f = "filter (\<lambda>b. estado b = 0) (mapa_bits s)"
  have neg: "filter (\<lambda>b. estado b \<noteq> 1) (mapa_bits s) = ?f"
    using estado_mapa_bits [OF c] by (intro filter_cong) auto
  have bits: "mapa_bits s' = ?u @ ?f"
    unfolding neg [symmetric] using c s'(2,5) by (simp add: mapa_bits_vista filter_map o_def usada_def [abs_def])
  have rest: "bitMap s' ! cantPag s = bitMap s ! cantPag s"
    using s'(2,4) c sz nth_via_drop [of "cantPag s" "bitMap s"] by (metis cabe_def Cons_nth_drop_Suc list.inject)
  have entry: "bitMap s' ! j \<in> set (mapa_bits s)" if "j < cantPag s" for j
  proof -
    have "set (mapa_bits s') = set (mapa_bits s)" using estado_mapa_bits [OF c] by (auto simp: bits)
    then show ?thesis using that nth_mem [of j "mapa_bits s'"] s'(2) sz by simp
  qed
  have "agrup (\<lambda>b. estado b = 1) (mapa_bits s')"
    unfolding bits using ok by (intro agrup_append agrup_filter) (auto simp: swap_ok_def)
  moreover have "\<forall>b \<in> set (mapa_bits s'). estado b = 1 \<longrightarrow> pid_valido (bm_PID b)"
    using ok by (auto simp: bits swap_ok_def)
  moreover have "estado (bitMap s' ! j) = 0 \<longrightarrow> bm_PID (bitMap s' ! j) \<in> {- 1, 0}" if "j \<le> cantPag s" for j
  proof (cases "j = cantPag s")
    case True
    then show ?thesis using ok rest by (simp add: swap_ok_def)
  next
    case False
    then have "bitMap s' ! j \<in> set (mapa_bits s)" using entry [of j] that by simp
    then obtain k where "k < cantPag s" "bitMap s' ! j = bitMap s ! k"
      using c by (auto simp: in_set_conv_nth)
    then show ?thesis using ok by (simp add: swap_ok_def)
  qed
  ultimately have ok': "swap_ok s'" using s'(2) by (simp add: swap_ok_def sz)
  have "paginas_de s' pid = paginas_de s pid" for pid
  proof -
    have "filter (\<lambda>e. fst e = propia pid) (filter usada (vista s)) = filter (\<lambda>e. fst e = propia pid) (vista s)"
      "filter (\<lambda>e. fst e = propia pid) (filter (\<lambda>e. \<not> usada e) (vista s)) = []"
      by (auto simp: usada_def filter_empty_conv intro: filter_cong)
    then show ?thesis using c s'(2,5) by (simp add: paginas_de_vista)
  qed
  moreover have "libres s' = libres s"
    using c s'(2) by (simp add: libres_bits bits) 
  moreover have "ventana p s' (cantPag s - libres s)" if "0 < p" "p \<le> libres s" for p
    unfolding ventana_def
  proof (intro allI impI)
    fix k
    assume k: "k \<le> p"
    have len: "length ?f = libres s" "length ?u + libres s = cantPag s"
      using c s'(2) length_mapa_bits [OF s'(2)] by (simp_all add: libres_bits bits sz)
    show "libre s' (cantPag s - libres s + k)"
    proof (cases "k < libres s")
      case True
      have "cantPag s - libres s = length ?u" using len by simp
      then have "mapa_bits s' ! (cantPag s - libres s + k) = ?f ! k" by (simp add: bits)
      moreover have "estado (?f ! k) = 0" using nth_mem [of k ?f] True len by simp
      ultimately show ?thesis using len True sz by (simp add: libre_def)
    next
      case False
      then have "cantPag s - libres s + k = cantPag s" using k that len by simp
      then show ?thesis using c rest by (simp add: libre_def cabe_def)
    qed
  qed
  ultimately show ?thesis using s'(1,3) ok' by (intro exI [of _ s']) (simp add: fun_eq_iff)
qed

lemma iniciar_run:
  assumes ok: "swap_ok s" "pid_valido (to_int (op_PID r))" and new: "paginas_de s (to_int (op_PID r)) = []"
    and p: "0 < unat (cantPaginas r)" "unat (cantPaginas r) < 2 ^ 31"
  shows "\<exists>s'. iniciar r s = Some s' \<and> swap_ok s' \<and> cantPag s' = cantPag s \<and> tamPag s' = tamPag s
    \<and> (if unat (cantPaginas r) \<le> libres s
       then salida s' = salida s @ le32 (of_cint EXITO_SWAP) \<and> libres s' + unat (cantPaginas r) = libres s
         \<and> length (paginas_de s' (to_int (op_PID r))) = unat (cantPaginas r)
         \<and> (\<forall>q. q \<noteq> to_int (op_PID r) \<longrightarrow> paginas_de s' q = paginas_de s q)
       else s' = enviar (le32 (of_cint ERROR_SWAP)) s)"
proof -
  let ?pid = "to_int (op_PID r)" and ?p = "unat (cantPaginas r)"
  note c = swap_okD [OF ok(1)]
  have pags: "to_int (cantPaginas r) = int ?p" using p(2) by (rule to_int_small)
  note hay = espacioDisponible_run [OF c, of ?p]
  show ?thesis
  proof (cases "?p \<le> libres s")
    case False
    then show ?thesis using hay pags ok(1) by (simp add: iniciar_def Let_def)
  next
    case room: True
    obtain x where x: "contiguo (int ?p) s = Some x" "primera ?p s x" using contiguo_run [OF c p(1)] by blast
    show ?thesis
    proof (cases "x = - 1")
      case False
      then obtain w where w: "x = int w" "w + ?p \<le> cantPag s" "ventana ?p s w" using x(2) by (auto simp: primera_def)
      show ?thesis
        using asignacion_run [OF ok new p(1) w(3,2)] room hay pags x(1) w(1)
        by (auto simp: iniciar_def Let_def misma_forma_def)
    next
      case True
      obtain s1 where s1: "compactar s = Some s1" "swap_ok s1" "misma_forma s s1" "paginas_de s1 = paginas_de s"
          "libres s1 = libres s" "ventana ?p s1 (cantPag s - libres s)"
        using compactar_keeps [OF ok(1)] p(1) room by blast
      have le: "libres s \<le> cantPag s" using length_filter_le [of "libre s" "[0..<cantPag s]"] by (simp add: libres_def)
      obtain y where y: "contiguo (int ?p) s1 = Some y" "primera ?p s1 y"
        using contiguo_run [OF swap_okD [OF s1(2)] p(1)] by blast
      have fits: "cantPag s - libres s + ?p \<le> cantPag s1" using le room s1(3) by (simp add: misma_forma_def)
      then obtain w where w: "y = int w" "w + ?p \<le> cantPag s1" "ventana ?p s1 w"
        using y(2) s1(6) by (auto simp: primera_def)
      have new1: "paginas_de s1 ?pid = []" using new s1(4) by simp
      show ?thesis
        using asignacion_run [OF s1(2) ok(2) new1 p(1) w(3,2)] room hay pags x(1) True y(1) w(1) s1(1,3-5)
        by (auto simp: iniciar_def Let_def misma_forma_def)
    qed
  qed
qed

end
