(* ===== verification/Swap_Correct.thy ===== *)
theory Swap_Correct
  imports Swap_Iniciar
begin

text \<open>The properties of the swap process, each with an instance on a partition of three pages.\<close>

definition swap1 :: swap where
  "swap1 = \<lparr>bitMap = [vacia, propia 7, vacia, \<lparr>bm_PID = 0, estado = 0\<rparr>],
     archivoSwap = [0, 0, 0, 65, 66, 0, 0, 0, 0], tamPag = 3, cantPag = 3, salida = []\<rparr>"

definition env1 :: swap_env where
  "env1 = \<lparr>monton = [], tras_contenido = [0]\<rparr>"

lemma upt_three: "[0..<3] = [0, 1, 2 :: nat]"
  by (simp add: upt_rec numeral_3_eq_3)

lemma nat_less_3: "(\<forall>i < (3 :: nat). P i) = (P 0 \<and> P 1 \<and> P 2)"
  by (auto simp: numeral_3_eq_3 numeral_2_eq_2 All_less_Suc)

lemma nat_le_3: "(\<forall>i \<le> (3 :: nat). P i) = (P 0 \<and> P 1 \<and> P 2 \<and> P 3)"
  by (auto simp: numeral_3_eq_3 numeral_2_eq_2 All_less_Suc simp flip: less_Suc_eq_le)

lemma mapa_swap1: "mapa_bits swap1 = [vacia, propia 7, vacia]"
  by (simp add: mapa_bits_def swap1_def)

lemma paginas_swap1: "paginas swap1 = [[0, 0, 0], [65, 66, 0], [0, 0, 0]]"
  by (simp add: paginas_def pagina_def swap1_def upt_three)

lemma paginas_de_swap1: "paginas_de swap1 pid = (if pid = 7 then [[65, 66, 0]] else [])"
  by (auto simp: paginas_de_def seleccion_def mapa_swap1 paginas_swap1)

lemma swap1_cabe: "cabe swap1"
  unfolding cabe_def swap1_def by (simp add: nat_less_3)

lemma swap1_ok: "swap_ok swap1"
  unfolding swap_ok_def mapa_swap1
  by (intro conjI swap1_cabe) (simp_all add: swap1_def nat_le_3 pid_valido_def)

lemma swap1_fields [simp]: "cantPag swap1 = 3" "tamPag swap1 = 3" "salida swap1 = []"
  by (simp_all add: swap1_def)

lemma libres_swap1: "libres swap1 = 2"
  using swap_okD [OF swap1_ok] by (simp add: libres_bits mapa_swap1)

lemma to_int_numeral [simp]: "to_int 7 = 7" "to_int 9 = 9"
  by (simp_all add: to_int_def)

text \<open>
  C25: A process that is new to the swap and asks for pages gets them exactly when that many pages
  are free, whether or not they are together; the answer says so, no page of another process is
  lost, moved out of order or altered, and the bitmap stays grouped.
\<close>

theorem swap_iniciar_correct:
  assumes "swap_ok s" "pid_valido (to_int (op_PID r))" "paginas_de s (to_int (op_PID r)) = []"
    and "orden r = INICIAR" "0 < unat (cantPaginas r)" "unat (cantPaginas r) < 2 ^ 31"
  shows "\<exists>s'. realizarPedidoUMC E r s = Some (r, s') \<and> swap_ok s'
    \<and> (if unat (cantPaginas r) \<le> libres s
       then salida s' = salida s @ le32 (of_cint EXITO_SWAP) \<and> libres s' + unat (cantPaginas r) = libres s
         \<and> length (paginas_de s' (to_int (op_PID r))) = unat (cantPaginas r)
         \<and> (\<forall>q. q \<noteq> to_int (op_PID r) \<longrightarrow> paginas_de s' q = paginas_de s q)
       else s' = enviar (le32 (of_cint ERROR_SWAP)) s)"
  using iniciar_run [OF assms(1-3,5,6)] assms(4) by (auto simp: realizarPedidoUMC_def)

lemma swap_iniciar_correct_witness:
  "\<exists>r s'. realizarPedidoUMC env1 \<lparr>op_PID = 9, orden = INICIAR, cantPaginas = 2, nroPagina = 0, contenido = []\<rparr> swap1
       = Some (r, s') \<and> length (paginas_de s' 9) = 2 \<and> paginas_de s' 7 = [[65, 66, 0]]"
  using swap_iniciar_correct [OF swap1_ok, of "\<lparr>op_PID = 9, orden = INICIAR, cantPaginas = 2, nroPagina = 0, contenido = []\<rparr>" env1]
  by (auto simp: pid_valido_def paginas_de_swap1 libres_swap1)

text \<open>
  C26: Compaction is the stable partition of the partition: the used pages first, in their order and
  with their contents, then the free ones; nothing past the last page changes.
\<close>

theorem compactar_correct:
  assumes "cabe s"
  shows "\<exists>s'. compactar s = Some s' \<and> cabe s' \<and> cantPag s' = cantPag s \<and> tamPag s' = tamPag s
    \<and> drop (cantPag s) (bitMap s') = drop (cantPag s) (bitMap s)
    \<and> vista s' = filter usada (vista s) @ filter (\<lambda>e. \<not> usada e) (vista s)"
  using compactar_run [OF assms] by (auto simp: misma_forma_def)

lemma compactar_correct_witness:
  "\<exists>s'. compactar swap1 = Some s' \<and> vista s' = [(propia 7, [65, 66, 0]), (vacia, [0, 0, 0]), (vacia, [0, 0, 0])]"
  using compactar_correct [OF swap1_cabe]
  by (auto simp: vista_zip [OF swap1_cabe] mapa_swap1 paginas_swap1 usada_def)

text \<open>Where the first page of a process must be for a read to find it.\<close>

definition al_alcance :: "swap \<Rightarrow> int \<Rightarrow> bool" where
  "al_alcance s pid \<longleftrightarrow> (\<exists>i \<le> tamPag s. i < cantPag s \<and> bitMap s ! i = propia pid)"

lemma al_alcance_pos:
  assumes "swap_ok s" "al_alcance s pid"
  shows "\<exists>i m. en_pos s pid i m \<and> i \<le> tamPag s"
proof -
  obtain i m where pos: "en_pos s pid i m" using en_pos_ex [OF assms(1)] by blast
  then show ?thesis
    using assms(2) en_pos_nth [OF swap_okD [OF assms(1)] pos] by (fastforce simp: al_alcance_def)
qed

lemma leer_alcance:
  assumes "swap_ok s" "pid_valido (to_int (op_PID r))" "al_alcance s (to_int (op_PID r))"
    and "unat (nroPagina r) < length (paginas_de s (to_int (op_PID r)))" "cantPag s < 2 ^ 31"
    and "length (contenido r) = tamPag s" "tras_contenido E = 0 # junk"
  shows "leer E r s = Some (r\<lparr>contenido := paginas_de s (to_int (op_PID r)) ! unat (nroPagina r)\<rparr>,
    enviar (cstr (paginas_de s (to_int (op_PID r)) ! unat (nroPagina r))) s)"
  using al_alcance_pos [OF assms(1,3)] en_pos_length [OF swap_okD [OF assms(1)]] assms(4)
  by (auto intro!: leer_run [OF assms(1,2) _ _ _ assms(5-7)])

lemma cstr_append: "0 \<notin> set xs \<Longrightarrow> cstr (xs @ ys) = xs @ cstr ys"
  by (induction xs) (auto simp: cstr_def)

text \<open>
  C27: A page that is written and read back gives the string that was written, followed by what the
  old page held after its length up to the next NUL: only \<^verbatim>\<open>strlen\<close> bytes are stored and sent.
\<close>

theorem swap_escribir_leer:
  assumes ok: "swap_ok s" "pid_valido (to_int (op_PID r))" "al_alcance s (to_int (op_PID r))"
    and nro: "unat (nroPagina r) < length (paginas_de s (to_int (op_PID r)))" and bounds: "cantPag s < 2 ^ 31"
    and r: "length (contenido r) = tamPag s" "tras_contenido E = 0 # junk" "orden r = ESCRIBIR"
    and l: "op_PID l = op_PID r" "nroPagina l = nroPagina r" "length (contenido l) = tamPag s" "orden l = LEER"
  shows "\<exists>s1 l'. realizarPedidoUMC E r s = Some (r, s1) \<and> realizarPedidoUMC E l s1 =
      Some (l', enviar (cstr (contenido r) @ cstr (drop (length (cstr (contenido r)))
        (paginas_de s (to_int (op_PID r)) ! unat (nroPagina r)))) s1)"
proof -
  let ?pid = "to_int (op_PID r)" and ?n = "unat (nroPagina r)"
  let ?new = "pisar (cstr (contenido r)) (paginas_de s ?pid ! ?n)"
  obtain s1 where s1: "escribir E r s = Some s1" "swap_ok s1" "misma_forma s s1" "mapa_bits s1 = mapa_bits s"
      "paginas_de s1 ?pid = (paginas_de s ?pid)[?n := ?new]"
    using escribir_run [OF ok(1,2) nro bounds r(1,2)] by blast
  have sz: "cantPag s1 = cantPag s" "tamPag s1 = tamPag s" using s1(3) by (simp_all add: misma_forma_def)
  have "al_alcance s1 ?pid"
    using ok(3) s1(4) by (auto simp: al_alcance_def sz) (metis nth_mapa_bits sz(1))
  then have "leer E l s1 = Some (l\<lparr>contenido := ?new\<rparr>, enviar (cstr ?new) s1)"
    using leer_alcance [OF s1(2), of l E junk] ok(2) nro bounds r(2) l by (simp add: sz s1(5))
  moreover have "cstr ?new = cstr (contenido r) @ cstr (drop (length (cstr (contenido r))) (paginas_de s ?pid ! ?n))"
    unfolding pisar_def by (rule cstr_append) (rule zero_not_in_cstr)
  ultimately show ?thesis using s1(1) r(3) l(4) by (simp add: realizarPedidoUMC_def orden_defs)
qed

definition escribe1 :: OrdenProceso where
  "escribe1 = \<lparr>op_PID = 7, orden = ESCRIBIR, cantPaginas = 0, nroPagina = 0, contenido = [67, 0, 0]\<rparr>"

definition lee1 :: OrdenProceso where
  "lee1 = \<lparr>op_PID = 7, orden = LEER, cantPaginas = 0, nroPagina = 0, contenido = [67, 0, 0]\<rparr>"

lemma alcance_swap1: "al_alcance swap1 7"
  unfolding al_alcance_def by (rule exI [of _ 1]) (simp add: swap1_def)

lemma swap_escribir_leer_witness:
  "\<exists>s1 l'. realizarPedidoUMC env1 escribe1 swap1 = Some (escribe1, s1)
     \<and> realizarPedidoUMC env1 lee1 s1 = Some (l', enviar [67, 66] s1)"
  using swap_escribir_leer [OF swap1_ok, of escribe1 env1 "[]" lee1]
  by (simp add: escribe1_def lee1_def env1_def paginas_de_swap1 alcance_swap1 pid_valido_def cstr_def)

text \<open>
  The search of a read stops at the page whose number is the page size: the pages of a process that
  starts further on are never read, the answer is a page counted from there.
\<close>

lemma leer_ajena:
  assumes "\<forall>j < tamPag s. of_cint (bm_PID (bitMap s ! j)) \<noteq> op_PID r" "cabe s" "cantPag s < 2 ^ 31"
    and "tamPag s + unat (nroPagina r) < cantPag s" "length (contenido r) = tamPag s" "tras_contenido E = 0 # junk"
  shows "leer E r s = Some (r\<lparr>contenido := pagina s (tamPag s + unat (nroPagina r))\<rparr>,
    enviar (cstr (pagina s (tamPag s + unat (nroPagina r)))) s)"
proof -
  have "buscar_PID (tamPag s) (op_PID r) 0 s = Some (tamPag s)"
    using assms(1,2,4) by (intro buscar_PID_run) (auto simp: cabe_def)
  moreover have "pagina_pedida (tamPag s) (nroPagina r) = Some (tamPag s + unat (nroPagina r))"
    using assms(3,4) by (intro pagina_pedida_run) simp
  ultimately show ?thesis
    using assms(2,4,5) by (simp add: leer_def assms(6) hasta_nul_run leer_pagina_inside)
qed

text \<open>
  With the one entry that the declaration of \<^verbatim>\<open>bitMap\<close> reserves, the first request for pages reads
  past it.
\<close>

lemma iniciar_desborda:
  assumes "bitMap s = [\<lparr>bm_PID = 0, estado = 0\<rparr>]" "0 < unat (cantPaginas r)" "unat (cantPaginas r) < 2 ^ 31"
    and "unat (cantPaginas r) \<le> cantPag s"
  shows "iniciar r s = None"
proof -
  have p: "to_int (cantPaginas r) = int (unat (cantPaginas r))" using assms(3) by (rule to_int_small)
  have "contiguo (int (unat (cantPaginas r))) s = None"
    unfolding contiguo_def using assms(1,2,4) by (subst contiguo_loop.simps) (simp add: entrada_def)
  moreover have "espacioDisponible (int (unat (cantPaginas r))) s \<in> {None, Some True}"
  proof (cases "unat (cantPaginas r) = 1")
    case True
    then show ?thesis unfolding espacioDisponible_def using assms(1,4)
      by (subst espacio_loop.simps, subst espacio_loop.simps) (simp add: entrada_def)
  next
    case False
    then show ?thesis unfolding espacioDisponible_def using assms
      by (subst espacio_loop.simps, subst espacio_loop.simps) (auto simp: entrada_def)
  qed
  ultimately show ?thesis by (auto simp: iniciar_def Let_def p)
qed

text \<open>
  The requests the UMC may make for a process: new pages for a new process, pages it has, or its
  end. A read needs the process within reach of the search.
\<close>

definition pedido_ok :: "OrdenProceso \<Rightarrow> swap \<Rightarrow> bool" where
  "pedido_ok r s \<longleftrightarrow> pid_valido (to_int (op_PID r))
     \<and> (orden r = INICIAR \<longrightarrow> paginas_de s (to_int (op_PID r)) = []
          \<and> 0 < unat (cantPaginas r) \<and> unat (cantPaginas r) < 2 ^ 31)
     \<and> (orden r \<in> {LEER, ESCRIBIR} \<longrightarrow> unat (nroPagina r) < length (paginas_de s (to_int (op_PID r))))
     \<and> (orden r = LEER \<longrightarrow> al_alcance s (to_int (op_PID r)))"

text \<open>
  C28: Each of these requests is carried out, keeps the invariant of the swap and touches no page of
  another process: a write replaces the text of one page, a read nothing, and the end of a process
  frees all its pages and only them.
\<close>

theorem swap_aisla:
  assumes ok: "swap_ok s" "pedido_ok r s" and sizes: "cantPag s < 2 ^ 31" "length (contenido r) = tamPag s"
    "tras_contenido E = 0 # junk"
  shows "\<exists>r' s'. realizarPedidoUMC E r s = Some (r', s') \<and> swap_ok s' \<and> length (contenido r') = tamPag s'
    \<and> cantPag s' = cantPag s \<and> tamPag s' = tamPag s
    \<and> (\<forall>q. q \<noteq> to_int (op_PID r) \<longrightarrow> paginas_de s' q = paginas_de s q)
    \<and> (orden r = ESCRIBIR \<longrightarrow> paginas_de s' (to_int (op_PID r)) = (paginas_de s (to_int (op_PID r)))
        [unat (nroPagina r) := pisar (cstr (contenido r)) (paginas_de s (to_int (op_PID r)) ! unat (nroPagina r))])
    \<and> (orden r = LEER \<longrightarrow> paginas_de s' = paginas_de s)
    \<and> (orden r = FINALIZAR \<longrightarrow> paginas_de s' (to_int (op_PID r)) = []
        \<and> libres s' = libres s + length (paginas_de s (to_int (op_PID r))))"
proof -
  let ?pid = "to_int (op_PID r)"
  have pid: "pid_valido ?pid" using ok(2) by (simp add: pedido_ok_def)
  consider "orden r = INICIAR" | "orden r = LEER" | "orden r = ESCRIBIR" | "orden r = FINALIZAR"
    | "orden r \<notin> {INICIAR, LEER, ESCRIBIR, FINALIZAR}" by blast
  then show ?thesis
  proof cases
    case 1
    then show ?thesis
      using iniciar_run [OF ok(1) pid] ok sizes
      by (auto simp: realizarPedidoUMC_def pedido_ok_def orden_defs split: if_splits)
  next
    case 2
    then show ?thesis
      using leer_alcance [OF ok(1) pid _ _ sizes] ok sizes length_pagina_de [OF ok(1)]
      by (auto simp: realizarPedidoUMC_def pedido_ok_def orden_defs)
  next
    case 3
    then show ?thesis
      using escribir_run [OF ok(1) pid _ sizes] ok sizes
      by (auto simp: realizarPedidoUMC_def pedido_ok_def orden_defs misma_forma_def)
  next
    case 4
    then show ?thesis
      using liberar_run [OF ok(1) pid] sizes by (auto simp: realizarPedidoUMC_def orden_defs)
  next
    case 5
    then show ?thesis using ok(1) sizes by (simp add: realizarPedidoUMC_def)
  qed
qed

lemma swap_aisla_witness:
  "\<exists>r' s'. realizarPedidoUMC env1 \<lparr>op_PID = 7, orden = FINALIZAR, cantPaginas = 0, nroPagina = 0, contenido = [0, 0, 0]\<rparr> swap1
     = Some (r', s') \<and> swap_ok s' \<and> libres s' = 3"
  using swap_aisla [OF swap1_ok, of "\<lparr>op_PID = 7, orden = FINALIZAR, cantPaginas = 0, nroPagina = 0, contenido = [0, 0, 0]\<rparr>" env1 "[]"]
  by (auto simp: pedido_ok_def pid_valido_def orden_defs env1_def libres_swap1 paginas_de_swap1)

end
