(* ===== verification/UMC_State.thy ===== *)
theory UMC_State
  imports Commons
begin

text \<open>
  The data of the memory process (\<^verbatim>\<open>umc/estructurasUMC.h\<close>, \<^verbatim>\<open>umc/variablesGlobalesUMC.h\<close>): the
  tables of frames, processes and pages, the TLB, the main memory, the mutexes and the sockets.

  A \<^verbatim>\<open>t_list\<close> is a value of the list library (parameter \<open>L\<close>, theory \<open>Commons\<close>) whose elements are
  addresses of nodes. One thread runs at a time: a \<^verbatim>\<open>lock\<close> of a mutex that is held never returns.
  It gives \<open>None\<close>, and so do a read through a dangling pointer or outside a buffer, a variable read
  before it is set, a loop that never ends and \<^verbatim>\<open>abort\<close>. Numbers of pages, offsets and sizes travel
  as \<^verbatim>\<open>int\<close> in the code and are only compared with, added to and stored as unsigned numbers: they
  are \<open>u32\<close> here.
\<close>

type_synonym nodo = nat

record t_nodo_lista_frames =
  f_id_frame :: u32
  f_pid :: u32                \<comment> \<open>0: free\<close>
  bitReferencia :: byte
  bitModificado :: byte

record t_nodo_lista_paginas =
  p_id_frame :: u32
  nro_pagina :: u32
  status :: char              \<comment> \<open>M: memory, S: swap\<close>

record 'l t_nodo_lista_procesos =
  pr_pid :: u32
  pr_cantPaginas :: byte
  cantFramesAsignados :: byte
  indiceRecorridaClock :: "nat option"     \<comment> \<open>\<open>None\<close>: not assigned yet\<close>
  lista_paginas :: 'l

record t_entrada_TLB =
  e_nro_pagina :: u32
  e_id_frame :: u32
  e_pid :: u32
  ultimo_acceso :: u16

datatype umc_mutex = MutexTLB | MutexMarcos | MutexProcs | MutexSwap | MutexAccesoMem | MutexMP | MutexNucleo

record 'l umc =
  listaDeProcesos :: 'l
  listaDeFrames :: 'l
  tlb :: 'l
  procesos :: "nodo \<Rightarrow> 'l t_nodo_lista_procesos option"
  marcos :: "nodo \<Rightarrow> t_nodo_lista_frames option"
  tabla :: "nodo \<Rightarrow> t_nodo_lista_paginas option"
  entradas :: "nodo \<Rightarrow> t_entrada_TLB option"
  next_nodo :: nodo                       \<comment> \<open>what the next \<^verbatim>\<open>malloc\<close> of a node returns\<close>
  tomados :: "umc_mutex set"
  accesosAMemoria :: u32
  entradasTLB :: u16
  marcos_x_proc :: u32
  tamanioFrame :: u32
  cantidadDeFrames :: u32
  algoritmo_umc :: "byte list"
  memoriaprincipal :: "byte list"
  al_swap :: "byte list"
  del_swap :: "byte list"                 \<comment> \<open>what the swap has sent and was not read\<close>
  al_nucleo :: "byte list"
  al_cpu :: "byte list"

text \<open>What \<^verbatim>\<open>malloc\<close> leaves in a page buffer, in a TLB entry and in an \<^verbatim>\<open>int\<close> nobody sets.\<close>

record umc_env =
  basura_pagina :: "byte list"
  basura_tlb :: "nat \<Rightarrow> t_entrada_TLB"
  basura_int :: u32
  tras_codigo :: "byte list"              \<comment> \<open>the heap after the block a program was received into\<close>

definition INICIALIZAR_PROGRAMA_UMC :: u32 where "INICIALIZAR_PROGRAMA_UMC = 7"
definition FINALIZAR_PROGRAMA_UMC :: u32 where "FINALIZAR_PROGRAMA_UMC = 8"
definition ERROR_OVERFLOW :: u32 where "ERROR_OVERFLOW = 9"
definition PROGRAMA_INICIALIZADO :: u32 where "PROGRAMA_INICIALIZADO = 10"
definition PROGRAMA_NO_INICIALIZADO :: u32 where "PROGRAMA_NO_INICIALIZADO = 11"
definition SOLICITAR_BYTES_UMC :: u32 where "SOLICITAR_BYTES_UMC = 12"
definition ALMACENAR_BYTES_UMC :: u32 where "ALMACENAR_BYTES_UMC = 13"
definition CAMBIO_DE_PROCESO :: u32 where "CAMBIO_DE_PROCESO = 14"
definition OK_SOLICITUD_UMC :: u32 where "OK_SOLICITUD_UMC = 15"
definition OVERFLOW :: int where "OVERFLOW = - 2"

section \<open>Mutexes, sends and nodes\<close>

definition tomar :: "umc_mutex \<Rightarrow> 'l umc \<Rightarrow> 'l umc option" where
  "tomar m s = (if m \<in> tomados s then None else Some (s\<lparr>tomados := insert m (tomados s)\<rparr>))"

text \<open>Unlocking a mutex that is not locked has no effect on the (normal) mutexes of the host.\<close>

definition soltar :: "umc_mutex \<Rightarrow> 'l umc \<Rightarrow> 'l umc" where
  "soltar m s = s\<lparr>tomados := tomados s - {m}\<rparr>"

definition a_cpu :: "byte list \<Rightarrow> 'l umc \<Rightarrow> 'l umc" where
  "a_cpu bs s = s\<lparr>al_cpu := al_cpu s @ bs\<rparr>"

definition a_nucleo :: "byte list \<Rightarrow> 'l umc \<Rightarrow> 'l umc" where
  "a_nucleo bs s = s\<lparr>al_nucleo := al_nucleo s @ bs\<rparr>"

definition a_swap :: "byte list \<Rightarrow> 'l umc \<Rightarrow> 'l umc" where
  "a_swap bs s = s\<lparr>al_swap := al_swap s @ bs\<rparr>"

definition upd_marco :: "nodo \<Rightarrow> (t_nodo_lista_frames \<Rightarrow> t_nodo_lista_frames) \<Rightarrow> 'l umc \<Rightarrow> 'l umc" where
  "upd_marco p f s = s\<lparr>marcos := (marcos s)(p := map_option f (marcos s p))\<rparr>"

definition upd_pagina :: "nodo \<Rightarrow> (t_nodo_lista_paginas \<Rightarrow> t_nodo_lista_paginas) \<Rightarrow> 'l umc \<Rightarrow> 'l umc" where
  "upd_pagina p f s = s\<lparr>tabla := (tabla s)(p := map_option f (tabla s p))\<rparr>"

definition upd_proceso :: "nodo \<Rightarrow> ('l t_nodo_lista_procesos \<Rightarrow> 'l t_nodo_lista_procesos) \<Rightarrow> 'l umc \<Rightarrow> 'l umc" where
  "upd_proceso p f s = s\<lparr>procesos := (procesos s)(p := map_option f (procesos s p))\<rparr>"

definition upd_entrada :: "nodo \<Rightarrow> (t_entrada_TLB \<Rightarrow> t_entrada_TLB) \<Rightarrow> 'l umc \<Rightarrow> 'l umc" where
  "upd_entrada p f s = s\<lparr>entradas := (entradas s)(p := map_option f (entradas s p))\<rparr>"

end
