(* ===== verification/UMC_Memory.thy ===== *)
theory UMC_Memory
  imports UMC_State
begin

text \<open>
  \<^verbatim>\<open>umc/funciones.c\<close>: the searches in the tables of processes, frames and pages, the bits of the
  frames, the accesses to main memory and the TLB.
\<close>

section \<open>Processes and pages\<close>

definition buscar_pid :: "('l, nodo) t_list_more \<Rightarrow> u32 \<Rightarrow> 'l umc \<Rightarrow> (nat \<times> nodo) option option" where
  "buscar_pid L pid s = primero L (listaDeProcesos s) (\<lambda>p. map_option (\<lambda>pr. pr_pid pr = pid) (procesos s p)) 0"

definition encontrarPosicionEnProcesos :: "('l, nodo) t_list_more \<Rightarrow> u32 \<Rightarrow> 'l umc \<Rightarrow> (int \<times> 'l umc) option" where
  "encontrarPosicionEnProcesos L pid s = do {
     s \<leftarrow> tomar MutexProcs s;
     hit \<leftarrow> buscar_pid L pid s;
     Some (case hit of None \<Rightarrow> - 1 | Some (i, _) \<Rightarrow> int i, soltar MutexProcs s)
   }"

text \<open>\<^verbatim>\<open>list_get\<close> with an \<^verbatim>\<open>int\<close> index and an access to what it returns: -1 finds nothing.\<close>

definition proceso_en :: "('l, nodo) t_list_more \<Rightarrow> int \<Rightarrow> 'l umc \<Rightarrow> (nodo \<times> 'l t_nodo_lista_procesos) option" where
  "proceso_en L i s = do {
     p \<leftarrow> (if 0 \<le> i then list_get L (listaDeProcesos s) (nat i) else None);
     pr \<leftarrow> procesos s p;
     Some (p, pr)
   }"

text \<open>The index \<open>j\<close> in the pages is not reset when the search goes on to another process.\<close>

function buscar_en_procesos :: "('l, nodo) t_list_more \<Rightarrow> u32 \<Rightarrow> u32 \<Rightarrow> nat \<Rightarrow> nat \<Rightarrow> 'l umc \<Rightarrow> int option" where
  "buscar_en_procesos L pid numPagina i j s =
     (if i < list_size L (listaDeProcesos s) then do {
        p \<leftarrow> list_get L (listaDeProcesos s) i;
        pr \<leftarrow> procesos s p;
        if pr_pid pr = pid then do {
          hit \<leftarrow> primero L (lista_paginas pr) (\<lambda>q. map_option (\<lambda>pg. nro_pagina pg = numPagina) (tabla s q)) j;
          case hit of
            Some (_, q) \<Rightarrow> do {
              pg \<leftarrow> tabla s q;
              Some (if status pg = CHR ''M'' then to_int (p_id_frame pg) else - 1)
            }
          | None \<Rightarrow> buscar_en_procesos L pid numPagina (Suc i) (max j (list_size L (lista_paginas pr))) s
        } else buscar_en_procesos L pid numPagina (Suc i) j s
      } else Some OVERFLOW)"
  by pat_completeness auto

termination buscar_en_procesos
  by (relation "measure (\<lambda>(L, pid, n, i, j, s). list_size L (listaDeProcesos s) - i)") auto

declare buscar_en_procesos.simps [simp del]

definition buscarEnListaProcesos :: "('l, nodo) t_list_more \<Rightarrow> u32 \<Rightarrow> u32 \<Rightarrow> 'l umc \<Rightarrow> (int \<times> 'l umc) option" where
  "buscarEnListaProcesos L pid numPagina s = do {
     s \<leftarrow> tomar MutexProcs s;
     r \<leftarrow> buscar_en_procesos L pid numPagina 0 0 s;
     Some (r, soltar MutexProcs s)
   }"

section \<open>Frames\<close>

definition marcar_marco :: "('l, nodo) t_list_more \<Rightarrow> (t_nodo_lista_frames \<Rightarrow> t_nodo_lista_frames) \<Rightarrow> u32 \<Rightarrow> 'l umc \<Rightarrow> 'l umc option" where
  "marcar_marco L f id_frame s = do {
     s \<leftarrow> tomar MutexMarcos s;
     hit \<leftarrow> primero L (listaDeFrames s) (\<lambda>p. map_option (\<lambda>m. f_id_frame m = id_frame) (marcos s p)) 0;
     Some (soltar MutexMarcos (case hit of None \<Rightarrow> s | Some (_, p) \<Rightarrow> upd_marco p f s))
   }"

definition actualizarBitReferencia :: "('l, nodo) t_list_more \<Rightarrow> u32 \<Rightarrow> 'l umc \<Rightarrow> 'l umc option" where
  "actualizarBitReferencia L = marcar_marco L (\<lambda>m. m\<lparr>bitReferencia := 1\<rparr>)"

definition actualizarBitModificado :: "('l, nodo) t_list_more \<Rightarrow> u32 \<Rightarrow> 'l umc \<Rightarrow> 'l umc option" where
  "actualizarBitModificado L = marcar_marco L (\<lambda>m. m\<lparr>bitModificado := 1\<rparr>)"

definition flushMemoria :: "('l, nodo) t_list_more \<Rightarrow> 'l umc \<Rightarrow> 'l umc option" where
  "flushMemoria L s = do {
     s \<leftarrow> tomar MutexMarcos s;
     s \<leftarrow> para_cada L (listaDeFrames s)
       (\<lambda>p s. do { m \<leftarrow> marcos s p; Some (upd_marco p (\<lambda>m. m\<lparr>bitModificado := 1\<rparr>) s) }) 0 s;
     Some (soltar MutexMarcos s)
   }"

definition liberarMarcos :: "('l, nodo) t_list_more \<Rightarrow> u32 \<Rightarrow> 'l umc \<Rightarrow> 'l umc option" where
  "liberarMarcos L pid s = do {
     s \<leftarrow> tomar MutexMarcos s;
     s \<leftarrow> para_cada L (listaDeFrames s)
       (\<lambda>p s. do { m \<leftarrow> marcos s p; Some (if f_pid m = pid then upd_marco p (\<lambda>m. m\<lparr>f_pid := 0\<rparr>) s else s) }) 0 s;
     Some (soltar MutexMarcos s)
   }"

definition cantidadFramesDisponibles :: "('l, nodo) t_list_more \<Rightarrow> 'l umc \<Rightarrow> (nat \<times> 'l umc) option" where
  "cantidadFramesDisponibles L s = do {
     s \<leftarrow> tomar MutexMarcos s;
     contador \<leftarrow> para_cada L (listaDeFrames s)
       (\<lambda>p n. do { m \<leftarrow> marcos s p; Some (if f_pid m = 0 then n + 1 else n) }) 0 (0 :: nat);
     Some (contador, soltar MutexMarcos s)
   }"

section \<open>Main memory\<close>

definition posicion :: "u32 \<Rightarrow> u32 \<Rightarrow> 'l umc \<Rightarrow> int" where
  "posicion frame offset s = to_int (frame * tamanioFrame s + offset)"

definition en_memoria :: "int \<Rightarrow> u32 \<Rightarrow> 'l umc \<Rightarrow> bool" where
  "en_memoria pos tamanio s \<longleftrightarrow> 0 \<le> pos \<and> nat pos + unat tamanio \<le> length (memoriaprincipal s)"

text \<open>The second unlock is of \<^verbatim>\<open>mutexMP\<close>: the mutex of the counter stays taken.\<close>

definition lecturaMemoria :: "('l, nodo) t_list_more \<Rightarrow> u32 \<Rightarrow> u32 \<Rightarrow> u32 \<Rightarrow> 'l umc \<Rightarrow> (byte list \<times> 'l umc) option" where
  "lecturaMemoria L frame offset tamanio s = do {
     let pos = posicion frame offset s;
     s \<leftarrow> tomar MutexMP s;
     bytes \<leftarrow> (if en_memoria pos tamanio s then Some (take (unat tamanio) (drop (nat pos) (memoriaprincipal s))) else None);
     let s = soltar MutexMP s;
     s \<leftarrow> tomar MutexAccesoMem s;
     let s = s\<lparr>accesosAMemoria := accesosAMemoria s + 1\<rparr>;
     let s = soltar MutexMP s;
     s \<leftarrow> actualizarBitReferencia L frame s;
     Some (bytes, s)
   }"

definition escrituraMemoria :: "('l, nodo) t_list_more \<Rightarrow> u32 \<Rightarrow> u32 \<Rightarrow> u32 \<Rightarrow> byte list \<Rightarrow> 'l umc \<Rightarrow> 'l umc option" where
  "escrituraMemoria L frame offset tamanio buffer s = do {
     let pos = posicion frame offset s;
     s \<leftarrow> tomar MutexMP s;
     s \<leftarrow> (if en_memoria pos tamanio s \<and> unat tamanio \<le> length buffer
       then Some (s\<lparr>memoriaprincipal := blit (memoriaprincipal s) (nat pos) (take (unat tamanio) buffer)\<rparr>) else None);
     let s = soltar MutexMP s;
     s \<leftarrow> tomar MutexAccesoMem s;
     let s = s\<lparr>accesosAMemoria := accesosAMemoria s + 1\<rparr>;
     let s = soltar MutexAccesoMem s;
     actualizarBitReferencia L frame s
   }"

section \<open>The TLB\<close>

definition buscarenTLB :: "('l, nodo) t_list_more \<Rightarrow> u32 \<Rightarrow> u32 \<Rightarrow> 'l umc \<Rightarrow> (int \<times> 'l umc) option" where
  "buscarenTLB L pid numPag s = do {
     s \<leftarrow> tomar MutexTLB s;
     hit \<leftarrow> primero L (tlb s) (\<lambda>p. map_option (\<lambda>e. e_pid e = pid \<and> e_nro_pagina e = numPag) (entradas s p)) 0;
     nroframe \<leftarrow> (case hit of None \<Rightarrow> Some (- 1) | Some (_, p) \<Rightarrow> map_option (\<lambda>e. to_int (e_id_frame e)) (entradas s p));
     Some (nroframe, soltar MutexTLB s)
   }"

text \<open>The access counter is 32 bits wide, the stamp of an entry 16.\<close>

definition ahora :: "'l umc \<Rightarrow> u16" where
  "ahora s = of_nat (unat (accesosAMemoria s))"

definition actualizarBitUltimoAccesoTLB :: "('l, nodo) t_list_more \<Rightarrow> u32 \<Rightarrow> u32 \<Rightarrow> 'l umc \<Rightarrow> 'l umc option" where
  "actualizarBitUltimoAccesoTLB L pid nroFrame s = do {
     s \<leftarrow> tomar MutexTLB s;
     hit \<leftarrow> primero L (tlb s) (\<lambda>p. map_option (\<lambda>e. e_pid e = pid \<and> e_id_frame e = nroFrame) (entradas s p)) 0;
     s \<leftarrow> (case hit of None \<Rightarrow> Some s | Some (_, p) \<Rightarrow> do {
       s \<leftarrow> tomar MutexAccesoMem s;
       Some (soltar MutexAccesoMem (upd_entrada p (\<lambda>e. e\<lparr>ultimo_acceso := ahora s\<rparr>) s))
     });
     Some (soltar MutexTLB s)
   }"

definition vaciar_entradas :: "('l, nodo) t_list_more \<Rightarrow> (t_entrada_TLB \<Rightarrow> bool) \<Rightarrow> 'l umc \<Rightarrow> 'l umc option" where
  "vaciar_entradas L P s = do {
     s \<leftarrow> tomar MutexTLB s;
     s \<leftarrow> para_cada L (tlb s)
       (\<lambda>p s. do { e \<leftarrow> entradas s p; Some (if P e then upd_entrada p (\<lambda>e. e\<lparr>e_pid := 0\<rparr>) s else s) }) 0 s;
     Some (soltar MutexTLB s)
   }"

definition flushTLB :: "('l, nodo) t_list_more \<Rightarrow> 'l umc \<Rightarrow> 'l umc option" where
  "flushTLB L = vaciar_entradas L (\<lambda>e. True)"

definition limpiarEntradasTLBporFrame :: "('l, nodo) t_list_more \<Rightarrow> u32 \<Rightarrow> 'l umc \<Rightarrow> 'l umc option" where
  "limpiarEntradasTLBporFrame L frame = vaciar_entradas L (\<lambda>e. e_id_frame e = frame)"

definition limpiarEntradasTLB :: "('l, nodo) t_list_more \<Rightarrow> u32 \<Rightarrow> 'l umc \<Rightarrow> 'l umc option" where
  "limpiarEntradasTLB L pid = vaciar_entradas L (\<lambda>e. e_pid e = pid)"

text \<open>The stamps are compared as \<^verbatim>\<open>int\<close>s with the least one seen, at first the counter itself.\<close>

function entrada_mas_antigua :: "('l, nodo) t_list_more \<Rightarrow> nat \<Rightarrow> nat \<Rightarrow> int \<Rightarrow> 'l umc \<Rightarrow> nat option" where
  "entrada_mas_antigua L i j ultimo_acceso_auxiliar s =
     (if i < list_size L (tlb s) then do {
        p \<leftarrow> list_get L (tlb s) i;
        e \<leftarrow> entradas s p;
        if int (unat (ultimo_acceso e)) < ultimo_acceso_auxiliar
        then entrada_mas_antigua L (Suc i) i (int (unat (ultimo_acceso e))) s
        else entrada_mas_antigua L (Suc i) j ultimo_acceso_auxiliar s
      } else Some j)"
  by pat_completeness auto

termination entrada_mas_antigua
  by (relation "measure (\<lambda>(L, i, j, u, s). list_size L (tlb s) - i)") auto

declare entrada_mas_antigua.simps [simp del]

definition buscarEntradaMasAntigua :: "('l, nodo) t_list_more \<Rightarrow> 'l umc \<Rightarrow> (nat \<times> 'l umc) option" where
  "buscarEntradaMasAntigua L s = do {
     s \<leftarrow> tomar MutexAccesoMem s;
     let ultimo = to_int (accesosAMemoria s);
     let s = soltar MutexAccesoMem s;
     j \<leftarrow> entrada_mas_antigua L 0 0 ultimo s;
     Some (j, s)
   }"

definition LRU :: "('l, nodo) t_list_more \<Rightarrow> u32 \<Rightarrow> u32 \<Rightarrow> u32 \<Rightarrow> 'l umc \<Rightarrow> 'l umc option" where
  "LRU L paginaNueva pid frameNuevo s = do {
     (indice_entrada, s) \<leftarrow> buscarEntradaMasAntigua L s;
     p \<leftarrow> list_get L (tlb s) indice_entrada;
     e \<leftarrow> entradas s p;
     Some (upd_entrada p (\<lambda>e. e\<lparr>e_nro_pagina := paginaNueva, e_id_frame := frameNuevo, e_pid := pid,
       ultimo_acceso := ahora s\<rparr>) s)
   }"

definition cargarenTLB :: "('l, nodo) t_list_more \<Rightarrow> u32 \<Rightarrow> u32 \<Rightarrow> u32 \<Rightarrow> 'l umc \<Rightarrow> 'l umc option" where
  "cargarenTLB L pid numPagina nroFrame s = do {
     s \<leftarrow> tomar MutexTLB s;
     hit \<leftarrow> primero L (tlb s) (\<lambda>p. map_option (\<lambda>e. e_pid e = 0) (entradas s p)) 0;
     s \<leftarrow> (case hit of
         Some (_, p) \<Rightarrow> do {
           s \<leftarrow> tomar MutexAccesoMem s;
           Some (soltar MutexAccesoMem (upd_entrada p (\<lambda>e. e\<lparr>e_id_frame := nroFrame, e_nro_pagina := numPagina,
             e_pid := pid, ultimo_acceso := ahora s\<rparr>) s))
         }
       | None \<Rightarrow> LRU L numPagina pid nroFrame s);
     Some (soltar MutexTLB s)
   }"

end
