(* ===== verification/UMC_Replacement.thy ===== *)
theory UMC_Replacement
  imports UMC_Memory Swap_State
begin

text \<open>
  \<^verbatim>\<open>umc/funciones.c\<close>: the messages to the swap, the two clock algorithms, and the load of a page
  into a free frame or into the frame of a victim.
\<close>

section \<open>Messages to the swap\<close>

text \<open>Each message is preceded by its size. A broken connection aborts the process.\<close>

definition mensaje_swap :: "u32 \<Rightarrow> u32 \<Rightarrow> u32 \<Rightarrow> u32 \<Rightarrow> byte list \<Rightarrow> byte list" where
  "mensaje_swap pid ord cant nro bytes = le32 pid @ le32 ord @ le32 cant @ le32 nro @ bytes"

definition enviar_mensaje :: "byte list \<Rightarrow> 'l umc \<Rightarrow> 'l umc" where
  "enviar_mensaje msg s = a_swap msg (a_swap (le32 (of_nat (length msg))) s)"

definition enviarPaginaAlSwap :: "u32 \<Rightarrow> u32 \<Rightarrow> byte list \<Rightarrow> 'l umc \<Rightarrow> 'l umc option" where
  "enviarPaginaAlSwap pid numPag buffer s =
     (if unat (tamanioFrame s) \<le> length buffer
      then Some (enviar_mensaje (mensaje_swap pid ESCRIBIR 0 numPag (take (unat (tamanioFrame s)) buffer)) s)
      else None)"

section \<open>The clock\<close>

definition siguiente :: "('l, nodo) t_list_more \<Rightarrow> nat \<Rightarrow> 'l umc \<Rightarrow> nat" where
  "siguiente L indice s = (if Suc indice = list_size L (listaDeFrames s) then 0 else Suc indice)"

text \<open>The loops go round until they find a frame; past the end of the list they return a variable
  that is not set.\<close>

partial_function (option) mover_loop :: "('l, nodo) t_list_more \<Rightarrow> u32 \<Rightarrow> nat \<Rightarrow> 'l umc \<Rightarrow> nat option" where
  "mover_loop L pid indice s =
     (if indice < list_size L (listaDeFrames s) then do {
        p \<leftarrow> list_get L (listaDeFrames s) indice;
        m \<leftarrow> marcos s p;
        if f_pid m = pid then Some indice else mover_loop L pid (siguiente L indice s) s
      } else None)"

definition moverPunteroProximaPosibleVictima :: "('l, nodo) t_list_more \<Rightarrow> nat \<Rightarrow> u32 \<Rightarrow> 'l umc \<Rightarrow> nat option" where
  "moverPunteroProximaPosibleVictima L indice pid s = mover_loop L pid (siguiente L indice s) s"

definition avanzar_puntero :: "('l, nodo) t_list_more \<Rightarrow> nodo \<Rightarrow> u32 \<Rightarrow> nat \<Rightarrow> 'l umc \<Rightarrow> 'l umc option" where
  "avanzar_puntero L proc pid indice s = do {
     nuevoPuntero \<leftarrow> moverPunteroProximaPosibleVictima L indice pid s;
     Some (upd_proceso proc (\<lambda>pr. pr\<lparr>indiceRecorridaClock := Some nuevoPuntero\<rparr>) s)
   }"

partial_function (option) clock_loop :: "('l, nodo) t_list_more \<Rightarrow> nodo \<Rightarrow> u32 \<Rightarrow> nat \<Rightarrow> 'l umc \<Rightarrow> (nat \<times> 'l umc) option" where
  "clock_loop L proc pid indice s =
     (if indice < list_size L (listaDeFrames s) then do {
        p \<leftarrow> list_get L (listaDeFrames s) indice;
        m \<leftarrow> marcos s p;
        if f_pid m = pid \<and> bitReferencia m = 0 then do {
          s \<leftarrow> avanzar_puntero L proc pid indice s;
          Some (indice, s)
        } else clock_loop L proc pid (siguiente L indice s)
            (if f_pid m = pid \<and> bitReferencia m = 1 then upd_marco p (\<lambda>m. m\<lparr>bitReferencia := 0\<rparr>) s else s)
      } else None)"

definition buscarVictimaClock :: "('l, nodo) t_list_more \<Rightarrow> u32 \<Rightarrow> 'l umc \<Rightarrow> (nat \<times> 'l umc) option" where
  "buscarVictimaClock L pid s = do {
     (i, s) \<leftarrow> encontrarPosicionEnProcesos L pid s;
     s \<leftarrow> tomar MutexProcs s;
     (proc, pr) \<leftarrow> proceso_en L i s;
     let s = soltar MutexProcs s;
     indice \<leftarrow> indiceRecorridaClock pr;
     s \<leftarrow> tomar MutexMarcos s;
     (victima, s) \<leftarrow> clock_loop L proc pid indice s;
     Some (victima, soltar MutexMarcos s)
   }"

partial_function (option) clock_m_loop :: "('l, nodo) t_list_more \<Rightarrow> nodo \<Rightarrow> u32 \<Rightarrow> nat \<Rightarrow> nat \<Rightarrow> bool \<Rightarrow> 'l umc
    \<Rightarrow> (nat \<times> 'l umc) option" where
  "clock_m_loop L proc pid referenciaDeVuelta indice recorrida s =
     (if indice < list_size L (listaDeFrames s) then do {
        p \<leftarrow> list_get L (listaDeFrames s) indice;
        m \<leftarrow> marcos s p;
        let recorrida' = (if siguiente L indice s = referenciaDeVuelta then \<not> recorrida else recorrida);
        if f_pid m = pid \<and> \<not> recorrida then
          if bitReferencia m = 0 \<and> bitModificado m = 0 then do {
            s \<leftarrow> avanzar_puntero L proc pid indice s;
            Some (indice, s)
          } else clock_m_loop L proc pid referenciaDeVuelta (siguiente L indice s) recorrida' s
        else if f_pid m = pid \<and> recorrida then
          if bitReferencia m = 0 \<and> bitModificado m = 1 then do {
            s \<leftarrow> avanzar_puntero L proc pid indice s;
            Some (indice, upd_marco p (\<lambda>m. m\<lparr>bitReferencia := 0\<rparr>) s)
          } else clock_m_loop L proc pid referenciaDeVuelta (siguiente L indice s) recorrida'
              (upd_marco p (\<lambda>m. m\<lparr>bitReferencia := 0\<rparr>) s)
        else clock_m_loop L proc pid referenciaDeVuelta (siguiente L indice s) recorrida' s
      } else None)"

definition buscarVictimaClockModificado :: "('l, nodo) t_list_more \<Rightarrow> u32 \<Rightarrow> 'l umc \<Rightarrow> (nat \<times> 'l umc) option" where
  "buscarVictimaClockModificado L pid s = do {
     (i, s) \<leftarrow> encontrarPosicionEnProcesos L pid s;
     s \<leftarrow> tomar MutexProcs s;
     (proc, pr) \<leftarrow> proceso_en L i s;
     indice \<leftarrow> indiceRecorridaClock pr;
     let s = soltar MutexProcs s;
     s \<leftarrow> tomar MutexMarcos s;
     (victima, s) \<leftarrow> clock_m_loop L proc pid indice indice False s;
     Some (victima, soltar MutexMarcos s)
   }"

section \<open>The page tables\<close>

definition cambiar_pagina :: "('l, nodo) t_list_more \<Rightarrow> (t_nodo_lista_paginas \<Rightarrow> bool)
    \<Rightarrow> (t_nodo_lista_paginas \<Rightarrow> t_nodo_lista_paginas) \<Rightarrow> int \<Rightarrow> 'l umc \<Rightarrow> 'l umc option" where
  "cambiar_pagina L P f indiceproc s = do {
     s \<leftarrow> tomar MutexProcs s;
     (_, pr) \<leftarrow> proceso_en L indiceproc s;
     hit \<leftarrow> primero L (lista_paginas pr) (\<lambda>q. map_option P (tabla s q)) 0;
     Some (soltar MutexProcs (case hit of None \<Rightarrow> s | Some (_, q) \<Rightarrow> upd_pagina q f s))
   }"

definition realizarCambiosEnPaginaVieja :: "('l, nodo) t_list_more \<Rightarrow> u32 \<Rightarrow> int \<Rightarrow> 'l umc \<Rightarrow> 'l umc option" where
  "realizarCambiosEnPaginaVieja L frame =
     cambiar_pagina L (\<lambda>pg. p_id_frame pg = frame) (\<lambda>pg. pg\<lparr>status := CHR ''S''\<rparr>)"

definition realizarCambiosEnPaginaNueva :: "('l, nodo) t_list_more \<Rightarrow> u32 \<Rightarrow> u32 \<Rightarrow> int \<Rightarrow> 'l umc \<Rightarrow> 'l umc option" where
  "realizarCambiosEnPaginaNueva L pagNueva frame =
     cambiar_pagina L (\<lambda>pg. nro_pagina pg = pagNueva) (\<lambda>pg. pg\<lparr>p_id_frame := frame, status := CHR ''M''\<rparr>)"

definition indicarPaginaQueVaAlSwapyEnviar :: "('l, nodo) t_list_more \<Rightarrow> u32 \<Rightarrow> int \<Rightarrow> byte \<Rightarrow> u32 \<Rightarrow> 'l umc \<Rightarrow> 'l umc option" where
  "indicarPaginaQueVaAlSwapyEnviar L id_frame indiceproc bitDeModificado pid s = do {
     s \<leftarrow> tomar MutexProcs s;
     (_, pr) \<leftarrow> proceso_en L indiceproc s;
     hit \<leftarrow> primero L (lista_paginas pr) (\<lambda>q. map_option (\<lambda>pg. p_id_frame pg = id_frame) (tabla s q)) 0;
     let s = soltar MutexProcs (case hit of None \<Rightarrow> s | Some (_, q) \<Rightarrow> upd_pagina q (\<lambda>pg. pg\<lparr>status := CHR ''S''\<rparr>) s);
     if bitDeModificado = 1 then do {
       (buffer, s) \<leftarrow> lecturaMemoria L id_frame 0 (tamanioFrame s) s;
       s \<leftarrow> tomar MutexSwap s;
       q \<leftarrow> visitado L (lista_paginas pr) hit;
       pg \<leftarrow> tabla s q;
       s \<leftarrow> enviarPaginaAlSwap pid (nro_pagina pg) buffer s;
       Some (soltar MutexSwap s)
     } else Some s
   }"

section \<open>Loading a page\<close>

definition CLOCK :: "byte list" where "CLOCK = [67, 76, 79, 67, 75]"
definition CLOCK_M :: "byte list" where "CLOCK_M = CLOCK @ [45, 77]"

text \<open>
  The second comparison lacks its \<^verbatim>\<open>== 0\<close>: any other name than CLOCK-M selects the modified clock, and
  with CLOCK-M no victim is chosen.
\<close>

definition elegir_victima :: "('l, nodo) t_list_more \<Rightarrow> u32 \<Rightarrow> 'l umc \<Rightarrow> (nat \<times> 'l umc) option" where
  "elegir_victima L pid s =
     (if algoritmo_umc s = CLOCK then buscarVictimaClock L pid s
      else if algoritmo_umc s \<noteq> CLOCK_M then buscarVictimaClockModificado L pid s
      else None)"

definition algoritmoDeReemplazo :: "('l, nodo) t_list_more \<Rightarrow> u32 \<Rightarrow> u32 \<Rightarrow> byte list \<Rightarrow> 'l umc \<Rightarrow> (u32 \<times> 'l umc) option" where
  "algoritmoDeReemplazo L pid pagNueva codigo s = do {
     (indiceVictima, s) \<leftarrow> elegir_victima L pid s;
     (indiceproc, s) \<leftarrow> encontrarPosicionEnProcesos L pid s;
     s \<leftarrow> tomar MutexMarcos s;
     p \<leftarrow> list_get L (listaDeFrames s) indiceVictima;
     m \<leftarrow> marcos s p;
     let id_frame = f_id_frame m;
     s \<leftarrow> (if bitModificado m = 1 then do {
         s \<leftarrow> indicarPaginaQueVaAlSwapyEnviar L id_frame indiceproc (bitModificado m) pid s;
         Some (upd_marco p (\<lambda>m. m\<lparr>bitModificado := 0\<rparr>) s)
       } else Some s);
     let s = soltar MutexMarcos s;
     s \<leftarrow> realizarCambiosEnPaginaVieja L id_frame indiceproc s;
     s \<leftarrow> limpiarEntradasTLBporFrame L id_frame s;
     s \<leftarrow> realizarCambiosEnPaginaNueva L pagNueva id_frame indiceproc s;
     s \<leftarrow> escrituraMemoria L id_frame 0 (tamanioFrame s) codigo s;
     Some (id_frame, s)
   }"

text \<open>
  The first search of \<^verbatim>\<open>cargarPaginaenMemoria\<close>: the process (or the last one of the list), the index
  that the code passes on, the number of free frames when it was counted, and whether the process
  may take one more.
\<close>

definition cuota :: "('l, nodo) t_list_more \<Rightarrow> u32 \<Rightarrow> 'l umc \<Rightarrow> ((nodo \<times> int \<times> nat option \<times> bool) \<times> 'l umc) option" where
  "cuota L pid s = do {
     hit \<leftarrow> buscar_pid L pid s;
     proc \<leftarrow> visitado L (listaDeProcesos s) hit;
     pr \<leftarrow> procesos s proc;
     case hit of
       None \<Rightarrow> Some ((proc, int (list_size L (listaDeProcesos s)) - 1, None, False), s)
     | Some (i, _) \<Rightarrow>
         if unat (cantFramesAsignados pr) < unat (marcos_x_proc s) then
           if cantFramesAsignados pr = 0 then do {
             (cantDisponibles, s) \<leftarrow> cantidadFramesDisponibles L s;
             Some ((proc, int i, Some cantDisponibles, True), s)
           } else Some ((proc, int i, None, True), s)
         else Some ((proc, int i, None, False), s)
   }"

text \<open>
  A free frame is taken when there is one. When there is none the code goes on all the same with the
  last frame of the list and the index past it, and sets no frame number for its caller.
\<close>

definition marco_libre :: "('l, nodo) t_list_more \<Rightarrow> u32 \<Rightarrow> u32 \<Rightarrow> int \<Rightarrow> int \<Rightarrow> 'l umc \<Rightarrow> (int \<times> nat \<times> nodo \<times> 'l umc) option" where
  "marco_libre L pid numPag indiceproc id_frame s = do {
     s \<leftarrow> tomar MutexMarcos s;
     hit \<leftarrow> primero L (listaDeFrames s) (\<lambda>p. map_option (\<lambda>m. f_pid m = 0) (marcos s p)) 0;
     p \<leftarrow> visitado L (listaDeFrames s) hit;
     case hit of
       Some (j, _) \<Rightarrow> do {
         let s = upd_marco p (\<lambda>m. m\<lparr>f_pid := pid, bitReferencia := 1, bitModificado := 0\<rparr>) s;
         m \<leftarrow> marcos s p;
         s \<leftarrow> realizarCambiosEnPaginaNueva L numPag (of_nat j) indiceproc s;
         Some (to_int (f_id_frame m), j, p, soltar MutexMarcos s)
       }
     | None \<Rightarrow> Some (id_frame, list_size L (listaDeFrames s), p, soltar MutexMarcos s)
   }"

definition contar_marco :: "nodo \<Rightarrow> nat \<Rightarrow> 'l umc \<Rightarrow> 'l umc option" where
  "contar_marco proc j s = do {
     s \<leftarrow> tomar MutexProcs s;
     let s = upd_proceso proc (\<lambda>pr. pr\<lparr>cantFramesAsignados := cantFramesAsignados pr + 1\<rparr>) s;
     pr \<leftarrow> procesos s proc;
     Some (soltar MutexProcs (if cantFramesAsignados pr = 1
       then upd_proceso proc (\<lambda>pr. pr\<lparr>indiceRecorridaClock := Some j\<rparr>) s else s))
   }"

definition ocupar_marco :: "('l, nodo) t_list_more \<Rightarrow> u32 \<Rightarrow> u32 \<Rightarrow> byte list \<Rightarrow> nodo \<Rightarrow> int \<Rightarrow> int \<Rightarrow> 'l umc \<Rightarrow> (int \<times> 'l umc) option" where
  "ocupar_marco L pid numPag buffer proc indiceproc id_frame s = do {
     (id_frame, j, p, s) \<leftarrow> marco_libre L pid numPag indiceproc id_frame s;
     s \<leftarrow> contar_marco proc j s;
     m \<leftarrow> marcos s p;
     s \<leftarrow> escrituraMemoria L (f_id_frame m) 0 (tamanioFrame s) buffer s;
     Some (id_frame, s)
   }"

text \<open>The result is the value returned and what is left in \<^verbatim>\<open>*id_frame\<close>.\<close>

definition cargarPaginaenMemoria :: "('l, nodo) t_list_more \<Rightarrow> u32 \<Rightarrow> u32 \<Rightarrow> byte list \<Rightarrow> int \<Rightarrow> 'l umc \<Rightarrow> (int \<times> int \<times> 'l umc) option" where
  "cargarPaginaenMemoria L pid numPag buffer id_frame s = do {
     s \<leftarrow> tomar MutexProcs s;
     ((proc, indiceproc, cantDisponibles, permitido), s) \<leftarrow> cuota L pid s;
     let s = soltar MutexProcs s;
     s \<leftarrow> tomar MutexMarcos s;
     pr \<leftarrow> procesos s proc;
     let s = soltar MutexMarcos s;
     sin_lugar \<leftarrow> (if cantFramesAsignados pr = 0 then map_option (\<lambda>c. c = 0) cantDisponibles else Some False);
     if sin_lugar then Some (- 1, id_frame, s)
     else if permitido then do {
       (id_frame, s) \<leftarrow> ocupar_marco L pid numPag buffer proc indiceproc id_frame s;
       Some (1, id_frame, s)
     } else do {
       (id, s) \<leftarrow> algoritmoDeReemplazo L pid numPag buffer s;
       Some (1, to_int id, s)
     }
   }"

end
