(* ===== verification/UMC_Requests.thy ===== *)
theory UMC_Requests
  imports UMC_Replacement
begin

text \<open>
  \<^verbatim>\<open>umc/funciones.c\<close> from \<^verbatim>\<open>inicializarEnSwap\<close> on and the service loops of \<^verbatim>\<open>UMC.c\<close>: the start and
  the end of a program, the reads and writes of the CPUs, and the start-up tables. The dumps to a
  file and the console are left out; \<^verbatim>\<open>usleep\<close> and the log are not modelled.
\<close>

section \<open>The swap\<close>

definition inicializarEnSwap :: "u32 \<Rightarrow> u32 \<Rightarrow> 'l umc \<Rightarrow> (u32 \<times> 'l umc) option" where
  "inicializarEnSwap cantidadPaginasCodigo pid s =
     (let s = enviar_mensaje (mensaje_swap pid INICIAR cantidadPaginasCodigo 0 [0]) s in
      if 4 \<le> length (del_swap s)
      then Some (un_le32 (take 4 (del_swap s)), s\<lparr>del_swap := drop 4 (del_swap s)\<rparr>)
      else None)"

text \<open>What arrives is stored in a fresh buffer of one page, at most a page of it.\<close>

definition pedirAlSwap :: "umc_env \<Rightarrow> u32 \<Rightarrow> u32 \<Rightarrow> 'l umc \<Rightarrow> (byte list \<times> 'l umc) option" where
  "pedirAlSwap E numPagina pid s =
     (let s = enviar_mensaje (mensaje_swap pid LEER 0 numPagina [0]) s;
          recibido = take (unat (tamanioFrame s)) (del_swap s)
      in if recibido = [] then None
         else Some (blit (basura_pagina E) 0 recibido, s\<lparr>del_swap := drop (length recibido) (del_swap s)\<rparr>))"

text \<open>The size left is unsigned: it wraps after the last page. \<open>i\<close> is the page to send.\<close>

fun enviar_codigo_loop :: "nat \<Rightarrow> u32 \<Rightarrow> u32 \<Rightarrow> u32 \<Rightarrow> u32 \<Rightarrow> byte list \<Rightarrow> 'l umc \<Rightarrow> 'l umc option" where
  "enviar_codigo_loop 0 pid i tamanioAMandar punteroPrograma codPrograma s = Some s"
| "enviar_codigo_loop (Suc k) pid i tamanioAMandar punteroPrograma codPrograma s =
     (let tam = (if tamanioAMandar < tamanioFrame s then tamanioAMandar else tamanioFrame s) in
      if unat punteroPrograma + unat tam \<le> length codPrograma
      then enviar_codigo_loop k pid (i + 1) (tamanioAMandar - tamanioFrame s) (punteroPrograma + tamanioFrame s) codPrograma
        (enviar_mensaje (mensaje_swap pid ESCRIBIR 0 i (take (unat tam) (drop (unat punteroPrograma) codPrograma))) s)
      else None)"

text \<open>\<open>codPrograma\<close> is the memory from the received code on.\<close>

definition enviarCodigoAlSwap :: "u32 \<Rightarrow> nat \<Rightarrow> byte list \<Rightarrow> 'l umc \<Rightarrow> 'l umc option" where
  "enviarCodigoAlSwap pid npags codPrograma s =
     (if 0 \<in> set codPrograma
      then enviar_codigo_loop npags pid 0 (of_nat (length (cstr codPrograma))) 0 codPrograma s
      else None)"

definition avisarSwapFinPrograma :: "u32 \<Rightarrow> 'l umc \<Rightarrow> 'l umc" where
  "avisarSwapFinPrograma pid s = enviar_mensaje (le32 pid @ le32 FINALIZAR @ le32 0 @ [0]) s"

section \<open>Start of a program\<close>

definition malloc_nodo :: "'l umc \<Rightarrow> nodo \<times> 'l umc" where
  "malloc_nodo s = (next_nodo s, s\<lparr>next_nodo := Suc (next_nodo s)\<rparr>)"

text \<open>The pages \<open>i, i + 1, \<dots>\<close> of a new process, \<open>k\<close> of them.\<close>

fun crear_paginas :: "('l, nodo) t_list_more \<Rightarrow> nat \<Rightarrow> nat \<Rightarrow> 'l \<Rightarrow> 'l umc \<Rightarrow> 'l \<times> 'l umc" where
  "crear_paginas L 0 i l s = (l, s)"
| "crear_paginas L (Suc k) i l s =
     (let (q, s) = malloc_nodo s;
          s = s\<lparr>tabla := (tabla s)(q \<mapsto> \<lparr>p_id_frame = cantidadDeFrames s + 1, nro_pagina = of_nat i, status = CHR ''S''\<rparr>)\<rparr>
      in crear_paginas L k (Suc i) (list_add L l q) s)"

definition paginas_de_codigo :: "nat \<Rightarrow> nat \<Rightarrow> nat" where
  "paginas_de_codigo largocodigo tam = largocodigo div tam + (if 0 < largocodigo mod tam then 1 else 0)"

text \<open>The number of pages is stored in a byte; the loop that makes them runs to the \<^verbatim>\<open>int\<close>.\<close>

definition registrar_proceso :: "('l, nodo) t_list_more \<Rightarrow> u32 \<Rightarrow> u32 \<Rightarrow> 'l umc \<Rightarrow> 'l umc option" where
  "registrar_proceso L pid npags s = do {
     let (unNodo, s) = malloc_nodo s;
     let (pags, s) = crear_paginas L (nat (to_int npags)) 0 (list_create L) s;
     let s = s\<lparr>procesos := (procesos s)(unNodo \<mapsto> \<lparr>pr_pid = pid, pr_cantPaginas = of_nat (unat npags),
       cantFramesAsignados = 0, indiceRecorridaClock = None, lista_paginas = pags\<rparr>)\<rparr>;
     s \<leftarrow> tomar MutexProcs s;
     Some (soltar MutexProcs (s\<lparr>listaDeProcesos := list_add L (listaDeProcesos s) unNodo\<rparr>))
   }"

text \<open>
  The answer of the swap is compared with 1, which is neither of its two answers. Only the branch
  that refuses the program releases the mutex of the swap.
\<close>

definition inicializarPrograma :: "('l, nodo) t_list_more \<Rightarrow> u32 \<Rightarrow> u32 \<Rightarrow> byte list \<Rightarrow> 'l umc \<Rightarrow> 'l umc option" where
  "inicializarPrograma L pid npags codPrograma s =
     (if 0 \<notin> set codPrograma \<or> tamanioFrame s = 0 then None
      else let largocodigo = length (cstr codPrograma) + 1;
               cantidadPaginasCodigo = paginas_de_codigo largocodigo (unat (tamanioFrame s)) in do {
        s \<leftarrow> tomar MutexSwap s;
        (validacionSwap, s) \<leftarrow> inicializarEnSwap (of_nat cantidadPaginasCodigo) pid s;
        if validacionSwap = 1 then Some (a_nucleo (le32 PROGRAMA_NO_INICIALIZADO) (soltar MutexSwap s))
        else do {
          let s = a_nucleo (le32 PROGRAMA_INICIALIZADO) s;
          s \<leftarrow> enviarCodigoAlSwap pid cantidadPaginasCodigo codPrograma s;
          registrar_proceso L pid npags s
        }
      })"

section \<open>End of a program\<close>

definition avisarNucleoFinProgramaPorOverFlow :: "u32 \<Rightarrow> 'l umc \<Rightarrow> 'l umc" where
  "avisarNucleoFinProgramaPorOverFlow pid s = a_nucleo (le32 pid @ le32 ERROR_OVERFLOW) s"

definition avisarNucleoFinPrograma :: "u32 \<Rightarrow> 'l umc \<Rightarrow> 'l umc" where
  "avisarNucleoFinPrograma pid s = a_nucleo (le32 pid @ le32 FINALIZAR_PROGRAMA_UMC) s"

definition liberarPaginas :: "('l, nodo) t_list_more \<Rightarrow> int \<Rightarrow> 'l umc \<Rightarrow> 'l umc option" where
  "liberarPaginas L indice s = do {
     (p, pr) \<leftarrow> proceso_en L indice s;
     let s = s\<lparr>tabla := (\<lambda>q. if q \<in> set (list_destroy_order L (lista_paginas pr)) then None else tabla s q)\<rparr>;
     Some (upd_proceso p (\<lambda>pr. pr\<lparr>lista_paginas := list_create L\<rparr>) s)
   }"

definition quitar_proceso :: "('l, nodo) t_list_more \<Rightarrow> int \<Rightarrow> 'l umc \<Rightarrow> 'l umc option" where
  "quitar_proceso L indiceProc s = do {
     s \<leftarrow> liberarPaginas L indiceProc s;
     let (quitado, l) = list_remove L (listaDeProcesos s) (nat indiceProc);
     p \<leftarrow> quitado;
     Some (s\<lparr>listaDeProcesos := l, procesos := (procesos s)(p := None)\<rparr>)
   }"

definition limpiar_si_hay_TLB :: "('l, nodo) t_list_more \<Rightarrow> u32 \<Rightarrow> 'l umc \<Rightarrow> 'l umc option" where
  "limpiar_si_hay_TLB L pid s = (if 0 < entradasTLB s then limpiarEntradasTLB L pid s else Some s)"

definition finalizarPrograma :: "('l, nodo) t_list_more \<Rightarrow> u32 \<Rightarrow> 'l umc \<Rightarrow> 'l umc option" where
  "finalizarPrograma L pid s = do {
     (indiceProc, s) \<leftarrow> encontrarPosicionEnProcesos L pid s;
     s \<leftarrow> liberarMarcos L pid s;
     s \<leftarrow> tomar MutexProcs s;
     s \<leftarrow> quitar_proceso L indiceProc s;
     s \<leftarrow> limpiar_si_hay_TLB L pid (soltar MutexProcs s);
     s \<leftarrow> tomar MutexSwap s;
     Some (soltar MutexSwap (avisarSwapFinPrograma pid s))
   }"

definition cambioProceso :: "('l, nodo) t_list_more \<Rightarrow> u32 \<Rightarrow> u32 \<Rightarrow> 'l umc \<Rightarrow> (u32 \<times> 'l umc) option" where
  "cambioProceso L idNuevoPrograma idProcesoActivo s = do {
     s \<leftarrow> limpiar_si_hay_TLB L idProcesoActivo s;
     Some (idNuevoPrograma, s)
   }"

section \<open>Reads and writes\<close>

definition responder_bytes :: "byte list \<Rightarrow> 'l umc \<Rightarrow> 'l umc" where
  "responder_bytes bytes s = a_cpu bytes (a_cpu (le32 OK_SOLICITUD_UMC) s)"

definition solicitarBytes :: "('l, nodo) t_list_more \<Rightarrow> umc_env \<Rightarrow> u32 \<Rightarrow> u32 \<Rightarrow> u32 \<Rightarrow> u32 \<Rightarrow> 'l umc \<Rightarrow> 'l umc option" where
  "solicitarBytes L E numPagina offset tamanio pid s = do {
     (nroframe, s) \<leftarrow> (if 0 < entradasTLB s then buscarenTLB L pid numPagina s else Some (- 1, s));
     if nroframe > - 1 then do {
       (bytes, s) \<leftarrow> lecturaMemoria L (of_cint nroframe) offset tamanio s;
       s \<leftarrow> actualizarBitUltimoAccesoTLB L pid (of_cint nroframe) s;
       Some (responder_bytes bytes s)
     } else do {
       (nroframe, s) \<leftarrow> buscarEnListaProcesos L pid numPagina s;
       if nroframe = OVERFLOW then do {
         s \<leftarrow> finalizarPrograma L pid s;
         Some (a_cpu (le32 ERROR_OVERFLOW) (avisarSwapFinPrograma pid (avisarNucleoFinProgramaPorOverFlow pid s)))
       } else if nroframe > - 1 then do {
         (bytes, s) \<leftarrow> lecturaMemoria L (of_cint nroframe) offset tamanio s;
         s \<leftarrow> (if 0 < entradasTLB s then do {
             s \<leftarrow> cargarenTLB L pid numPagina (of_cint nroframe) s;
             actualizarBitUltimoAccesoTLB L pid (of_cint nroframe) s
           } else Some s);
         Some (responder_bytes bytes s)
       } else do {
         (buffer, s) \<leftarrow> pedirAlSwap E numPagina pid s;
         (validacion, nroframe, s) \<leftarrow> cargarPaginaenMemoria L pid numPagina buffer nroframe s;
         if validacion = - 1 then do {
           let s = a_cpu (le32 0) s;
           s \<leftarrow> tomar MutexSwap s;
           let s = soltar MutexSwap (avisarSwapFinPrograma pid s);
           s \<leftarrow> tomar MutexNucleo s;
           Some (soltar MutexNucleo (avisarNucleoFinPrograma pid s))
         } else do {
           (bytes, s) \<leftarrow> lecturaMemoria L (of_cint nroframe) offset tamanio s;
           Some (responder_bytes bytes s)
         }
       }
     }
   }"

text \<open>\<open>buffer\<close> is what the pointer refers to, if anything.\<close>

definition escribir_desde :: "('l, nodo) t_list_more \<Rightarrow> int \<Rightarrow> u32 \<Rightarrow> u32 \<Rightarrow> byte list option \<Rightarrow> 'l umc \<Rightarrow> 'l umc option" where
  "escribir_desde L nroframe offset tamanio buffer s = do {
     bytes \<leftarrow> buffer;
     escrituraMemoria L (of_cint nroframe) offset tamanio bytes s
   }"

definition almacenarBytesPagina :: "('l, nodo) t_list_more \<Rightarrow> umc_env \<Rightarrow> u32 \<Rightarrow> u32 \<Rightarrow> u32 \<Rightarrow> byte list option \<Rightarrow> u32
    \<Rightarrow> 'l umc \<Rightarrow> 'l umc option" where
  "almacenarBytesPagina L E numPagina offset tamanio buffer pid s = do {
     (nroframe, s) \<leftarrow> (if 0 < entradasTLB s then buscarenTLB L pid numPagina s else Some (- 1, s));
     if nroframe > - 1 then do {
       s \<leftarrow> escribir_desde L nroframe offset tamanio buffer s;
       s \<leftarrow> actualizarBitModificado L (of_cint nroframe) s;
       s \<leftarrow> actualizarBitUltimoAccesoTLB L pid (of_cint nroframe) s;
       Some (a_cpu (le32 OK_SOLICITUD_UMC) s)
     } else do {
       (nroframe, s) \<leftarrow> buscarEnListaProcesos L pid numPagina s;
       if nroframe = OVERFLOW then do {
         s \<leftarrow> finalizarPrograma L pid s;
         s \<leftarrow> tomar MutexNucleo s;
         let s = soltar MutexNucleo (avisarNucleoFinProgramaPorOverFlow pid s);
         s \<leftarrow> tomar MutexSwap s;
         let s = soltar MutexSwap (avisarSwapFinPrograma pid s);
         Some (a_cpu (le32 ERROR_OVERFLOW) s)
       } else if nroframe > - 1 then do {
         s \<leftarrow> (if 0 < entradasTLB s then do {
             s \<leftarrow> cargarenTLB L pid numPagina (of_cint nroframe) s;
             actualizarBitUltimoAccesoTLB L pid (of_cint nroframe) s
           } else Some s);
         s \<leftarrow> escribir_desde L nroframe offset tamanio buffer (a_cpu (le32 OK_SOLICITUD_UMC) s);
         actualizarBitModificado L (of_cint nroframe) s
       } else do {
         (bufferRecibo, s) \<leftarrow> pedirAlSwap E numPagina pid s;
         (validacion, nroframe, s) \<leftarrow> cargarPaginaenMemoria L pid numPagina bufferRecibo nroframe s;
         if validacion = - 1 then do {
           let s = a_cpu (le32 (basura_int E)) s;
           s \<leftarrow> tomar MutexSwap s;
           (nroframe, s) \<leftarrow> buscarEnListaProcesos L pid numPagina s;
           if nroframe = OVERFLOW then do {
             s \<leftarrow> finalizarPrograma L pid s;
             let s = soltar MutexSwap (avisarSwapFinPrograma pid s);
             s \<leftarrow> tomar MutexNucleo s;
             Some (soltar MutexNucleo (avisarNucleoFinPrograma pid s))
           } else escribir_desde L nroframe offset tamanio buffer (a_cpu (le32 OK_SOLICITUD_UMC) s)
         } else Some s
       }
     }
   }"

section \<open>Start-up\<close>

fun inicializarListaFrames :: "('l, nodo) t_list_more \<Rightarrow> nat \<Rightarrow> nat \<Rightarrow> 'l umc \<Rightarrow> 'l umc" where
  "inicializarListaFrames L 0 i s = s"
| "inicializarListaFrames L (Suc k) i s =
     (let (p, s) = malloc_nodo s;
          s = s\<lparr>marcos := (marcos s)(p \<mapsto> \<lparr>f_id_frame = of_nat i, f_pid = 0, bitReferencia = 0, bitModificado = 0\<rparr>)\<rparr>
      in inicializarListaFrames L k (Suc i) (s\<lparr>listaDeFrames := list_add L (listaDeFrames s) p\<rparr>))"

fun inicializarTLB :: "('l, nodo) t_list_more \<Rightarrow> umc_env \<Rightarrow> nat \<Rightarrow> nat \<Rightarrow> 'l umc \<Rightarrow> 'l umc" where
  "inicializarTLB L E 0 j s = s"
| "inicializarTLB L E (Suc k) j s =
     (let (p, s) = malloc_nodo s;
          s = s\<lparr>entradas := (entradas s)(p \<mapsto> (basura_tlb E j)\<lparr>ultimo_acceso := ahora s\<rparr>)\<rparr>
      in inicializarTLB L E k (Suc j) (s\<lparr>tlb := list_add L (tlb s) p\<rparr>))"

text \<open>
  The values of the configuration are the first arguments; \<open>mem\<close> is what \<^verbatim>\<open>malloc\<close> left in the main
  memory.
\<close>

definition inicializarListasYVariables :: "('l, nodo) t_list_more \<Rightarrow> umc_env \<Rightarrow> u16 \<Rightarrow> u32 \<Rightarrow> u32 \<Rightarrow> byte list \<Rightarrow> u32 \<Rightarrow> byte list
    \<Rightarrow> 'l umc \<Rightarrow> 'l umc" where
  "inicializarListasYVariables L E ent tam cant alg porproc mem s =
     (let s = s\<lparr>entradasTLB := ent, tamanioFrame := tam, cantidadDeFrames := cant, algoritmo_umc := alg,
            marcos_x_proc := porproc, listaDeProcesos := list_create L, listaDeFrames := list_create L\<rparr>;
          s = inicializarListaFrames L (unat cant) 0 s;
          s = (if 0 < ent then inicializarTLB L E (unat ent) 0 (s\<lparr>tlb := list_create L\<rparr>) else s)
      in s\<lparr>memoriaprincipal := take (nat (to_int (tam * cant))) mem\<rparr>)"

section \<open>The service loops\<close>

text \<open>
  A word of a request is received with \<^verbatim>\<open>sizeof(sizeof(uint32_t))\<close>, the size \<open>szt\<close> of a
  \<^verbatim>\<open>size_t\<close>: where that is not 4 the word is overrun.
\<close>

definition recv_palabra :: "nat \<Rightarrow> byte list \<Rightarrow> (u32 \<times> byte list) option" where
  "recv_palabra n inp = (if n = 4 \<and> 4 \<le> length inp then Some (un_le32 (take 4 inp), drop 4 inp) else None)"

definition handShake_UMC :: "u32 \<Rightarrow> int" where
  "handShake_UMC cliente = (if unat cliente mod 256 = 0 then 2 else if unat cliente mod 256 = 1 then 1 else 0)"

text \<open>
  One request of a CPU. The value of a write is received as a word and passed on as the pointer to
  the data.
\<close>

definition atender_CPU :: "('l, nodo) t_list_more \<Rightarrow> umc_env \<Rightarrow> nat \<Rightarrow> u32 \<Rightarrow> byte list \<Rightarrow> u32 \<Rightarrow> 'l umc
    \<Rightarrow> (u32 \<times> byte list \<times> 'l umc) option" where
  "atender_CPU L E szt ord inp pid s =
     (if ord = SOLICITAR_BYTES_UMC then do {
        (numpag, inp) \<leftarrow> recv_palabra szt inp;
        (offset, inp) \<leftarrow> recv_palabra szt inp;
        (tamanio, inp) \<leftarrow> recv_palabra szt inp;
        s \<leftarrow> solicitarBytes L E numpag offset tamanio pid s;
        Some (pid, inp, s)
      } else if ord = ALMACENAR_BYTES_UMC then do {
        (numpag, inp) \<leftarrow> recv_palabra szt inp;
        (offset, inp) \<leftarrow> recv_palabra szt inp;
        (tamanio, inp) \<leftarrow> recv_palabra szt inp;
        (valorReal, inp) \<leftarrow> recv_palabra szt inp;
        s \<leftarrow> almacenarBytesPagina L E numpag offset tamanio None pid s;
        Some (pid, inp, s)
      } else if ord = CAMBIO_DE_PROCESO then do {
        (pidNuevo, inp) \<leftarrow> recv_palabra 4 inp;
        (pid, s) \<leftarrow> cambioProceso L pidNuevo pid s;
        Some (pid, inp, s)
      } else Some (pid, inp, s))"

lemma recv_palabra_length: "recv_palabra n inp = Some (w, rest) \<Longrightarrow> length rest < length inp"
  by (auto simp: recv_palabra_def split: if_splits)

lemma atender_CPU_length: "atender_CPU L E szt ord inp pid s = Some (pid', inp', s') \<Longrightarrow> length inp' \<le> length inp"
  by (auto simp: atender_CPU_def bind_eq_Some_conv split: if_splits dest!: recv_palabra_length)

function operaciones_CPU_loop :: "('l, nodo) t_list_more \<Rightarrow> umc_env \<Rightarrow> nat \<Rightarrow> u32 \<Rightarrow> byte list \<Rightarrow> 'l umc \<Rightarrow> 'l umc option" where
  "operaciones_CPU_loop L E szt pid inp s =
     (if inp = [] then Some s
      else do {
        (ord, inp) \<leftarrow> recv_palabra 4 inp;
        (pid, inp, s) \<leftarrow> atender_CPU L E szt ord inp pid s;
        operaciones_CPU_loop L E szt pid inp s
      })"
  by pat_completeness auto

termination operaciones_CPU_loop
  by (relation "measure (\<lambda>(L, E, szt, pid, inp, s). length inp)")
    (auto dest!: recv_palabra_length atender_CPU_length)

declare operaciones_CPU_loop.simps [simp del]

definition operacionesCPU :: "('l, nodo) t_list_more \<Rightarrow> umc_env \<Rightarrow> nat \<Rightarrow> byte list \<Rightarrow> 'l umc \<Rightarrow> 'l umc option" where
  "operacionesCPU L E szt inp s = operaciones_CPU_loop L E szt 0 inp (a_cpu (le32 (tamanioFrame s)) s)"

text \<open>One request of the nucleo; the end of its stream aborts the process, where the run of the model ends.\<close>

definition atender_NUCLEO :: "('l, nodo) t_list_more \<Rightarrow> umc_env \<Rightarrow> u32 \<Rightarrow> byte list \<Rightarrow> 'l umc \<Rightarrow> (byte list \<times> 'l umc) option" where
  "atender_NUCLEO L E numeroOp inp s =
     (if numeroOp = INICIALIZAR_PROGRAMA_UMC then do {
        (pid, inp) \<leftarrow> recv_palabra 4 inp;
        (npags, inp) \<leftarrow> recv_palabra 4 inp;
        (tamanioCodigo, inp) \<leftarrow> recv_palabra 4 inp;
        s \<leftarrow> inicializarPrograma L pid npags (take (unat tamanioCodigo) inp @ tras_codigo E) s;
        Some (drop (unat tamanioCodigo) inp, s)
      } else if numeroOp = FINALIZAR_PROGRAMA_UMC then do {
        (pid, inp) \<leftarrow> recv_palabra 4 inp;
        s \<leftarrow> finalizarPrograma L pid s;
        Some (inp, s)
      } else Some (inp, s))"

lemma atender_NUCLEO_length: "atender_NUCLEO L E numeroOp inp s = Some (inp', s') \<Longrightarrow> length inp' \<le> length inp"
  by (auto simp: atender_NUCLEO_def bind_eq_Some_conv split: if_splits dest!: recv_palabra_length)

function operaciones_NUCLEO_loop :: "('l, nodo) t_list_more \<Rightarrow> umc_env \<Rightarrow> byte list \<Rightarrow> 'l umc \<Rightarrow> 'l umc option" where
  "operaciones_NUCLEO_loop L E inp s =
     (if inp = [] then Some s
      else do {
        (numeroOp, inp) \<leftarrow> recv_palabra 4 inp;
        (inp, s) \<leftarrow> atender_NUCLEO L E numeroOp inp s;
        operaciones_NUCLEO_loop L E inp s
      })"
  by pat_completeness auto

termination operaciones_NUCLEO_loop
  by (relation "measure (\<lambda>(L, E, inp, s). length inp)")
    (auto dest!: recv_palabra_length atender_NUCLEO_length)

declare operaciones_NUCLEO_loop.simps [simp del]

definition operacionesNUCLEO :: "('l, nodo) t_list_more \<Rightarrow> umc_env \<Rightarrow> byte list \<Rightarrow> 'l umc \<Rightarrow> 'l umc option" where
  "operacionesNUCLEO L E inp s = operaciones_NUCLEO_loop L E inp (a_nucleo (le32 (tamanioFrame s)) s)"

end
