(* ===== verification/UMC_Mutex.thy ===== *)
theory UMC_Mutex
  imports UMC_Requests
begin

text \<open>
  Which mutexes the operations leave taken. An operation either leaves them as it found them
  (\<open>respeta\<close>) or, like \<open>lecturaMemoria\<close>, keeps one.
\<close>

definition respeta :: "'l umc \<Rightarrow> 'l umc \<Rightarrow> bool" where
  "respeta s s' \<longleftrightarrow> tomados s \<subseteq> tomados s' \<and> al_cpu s' = al_cpu s"

lemma respeta_refl [simp, intro]: "respeta s s"
  by (simp add: respeta_def)

lemma respeta_trans [trans]: "respeta s t \<Longrightarrow> respeta t u \<Longrightarrow> respeta s u"
  by (auto simp: respeta_def)

text \<open>A mutex taken and released in between.\<close>

lemma respeta_soltar:
  assumes "tomar m s = Some t" "respeta t u"
  shows "respeta s (soltar m u)"
  using assms by (auto simp: respeta_def tomar_def soltar_def split: if_splits)

lemma tomar_respeta: "tomar m s = Some t \<Longrightarrow> respeta s t \<and> m \<in> tomados t \<and> m \<notin> tomados s"
  by (auto simp: tomar_def respeta_def split: if_splits)

lemma respeta_upd [simp]: "respeta s (upd_marco p f s)" "respeta s (upd_pagina p g s)" "respeta s (upd_proceso p h s)"
  "respeta s (upd_entrada p k s)" "respeta s (a_swap bs s)" "respeta s (a_nucleo bs s)" "respeta s (enviar_mensaje bs s)"
  "respeta s (s\<lparr>accesosAMemoria := x\<rparr>)" "respeta s (s\<lparr>memoriaprincipal := y\<rparr>)" "respeta s (s\<lparr>del_swap := z\<rparr>)"
  by (simp_all add: respeta_def upd_marco_def upd_pagina_def upd_proceso_def upd_entrada_def a_swap_def a_nucleo_def
      enviar_mensaje_def)

text \<open>The state inside a loop over a list only changes by \<open>f\<close>.\<close>

lemma para_cada_respeta:
  assumes "para_cada L l f i s = Some s'" "\<And>p t t'. f p t = Some t' \<Longrightarrow> respeta t t'"
  shows "respeta s s'"
  using assms
proof (induction L l f i s rule: para_cada.induct)
  case (1 L l f i s)
  show ?case
  proof (cases "i < list_size L l")
    case True
    then obtain p t where p: "list_get L l i = Some p" "f p s = Some t" "para_cada L l f (Suc i) t = Some s'"
      using 1(2) para_cada.simps [of L l f i s] by (auto simp: bind_eq_Some_conv)
    have "respeta t s'" using 1(1) [OF True p] 1(3) by blast
    then show ?thesis using 1(3) [OF p(2)] respeta_trans by blast
  next
    case False
    then show ?thesis using 1(2) para_cada.simps [of L l f i s] by simp
  qed
qed

lemma con_mutex:
  assumes "Option.bind (tomar m s) (\<lambda>s. Option.bind (f s) (\<lambda>s. Some (soltar m s))) = Some s'"
    and "\<And>t t'. f t = Some t' \<Longrightarrow> respeta t t'"
  shows "respeta s s'"
proof -
  obtain t u where "tomar m s = Some t" "f t = Some u" "s' = soltar m u"
    using assms(1) by (auto simp: bind_eq_Some_conv)
  then show ?thesis using respeta_soltar assms(2) by blast
qed

lemma marcar_marco_respeta: "marcar_marco L f fr s = Some s' \<Longrightarrow> respeta s s'"
  by (auto simp: marcar_marco_def bind_eq_Some_conv split: option.splits intro!: respeta_soltar)

lemma lecturaMemoria_keeps:
  assumes "lecturaMemoria L f off t s = Some (bs, s')"
  shows "respeta s s'" "MutexAccesoMem \<in> tomados s'" "MutexAccesoMem \<notin> tomados s"
proof -
  obtain s1 s2 where r: "tomar MutexMP s = Some s1" "tomar MutexAccesoMem (soltar MutexMP s1) = Some s2"
      "actualizarBitReferencia L f (soltar MutexMP (s2\<lparr>accesosAMemoria := accesosAMemoria s2 + 1\<rparr>)) = Some s'"
    using assms by (auto simp: lecturaMemoria_def bind_eq_Some_conv Let_def split: if_splits)
  have m: "respeta (soltar MutexMP (s2\<lparr>accesosAMemoria := accesosAMemoria s2 + 1\<rparr>)) s'"
    using r(3) by (auto simp: actualizarBitReferencia_def intro: marcar_marco_respeta)
  show "respeta s s'" "MutexAccesoMem \<in> tomados s'" "MutexAccesoMem \<notin> tomados s"
    using r(1,2) m by (auto simp: respeta_def tomar_def soltar_def split: if_splits)
qed

lemma escrituraMemoria_respeta:
  assumes "escrituraMemoria L f off t buf s = Some s'"
  shows "respeta s s'" "MutexAccesoMem \<notin> tomados s"
proof -
  obtain s1 y s3 where r: "tomar MutexMP s = Some s1"
      "tomar MutexAccesoMem (soltar MutexMP (s1\<lparr>memoriaprincipal := y\<rparr>)) = Some s3"
      "actualizarBitReferencia L f (soltar MutexAccesoMem (s3\<lparr>accesosAMemoria := accesosAMemoria s3 + 1\<rparr>)) = Some s'"
    using assms by (auto simp: escrituraMemoria_def bind_eq_Some_conv Let_def split: if_splits)
  note a = respeta_soltar [OF r(1) respeta_upd(9) [of s1 y]] respeta_soltar [OF r(2) respeta_upd(8)]
  have "respeta (soltar MutexAccesoMem (s3\<lparr>accesosAMemoria := accesosAMemoria s3 + 1\<rparr>)) s'"
    using r(3) by (auto simp: actualizarBitReferencia_def intro: marcar_marco_respeta)
  then show "respeta s s'" using a by (blast intro: respeta_trans)
  show "MutexAccesoMem \<notin> tomados s" using r(2) a(1) by (auto simp: respeta_def tomar_def split: if_splits)
qed

lemma encontrarPosicion_respeta: "encontrarPosicionEnProcesos L pid s = Some (i, s') \<Longrightarrow> respeta s s'"
  by (auto simp: encontrarPosicionEnProcesos_def bind_eq_Some_conv intro!: respeta_soltar)

lemma buscarEnLista_respeta: "buscarEnListaProcesos L pid n s = Some (r, s') \<Longrightarrow> respeta s s'"
  by (auto simp: buscarEnListaProcesos_def bind_eq_Some_conv intro!: respeta_soltar)

lemma buscarenTLB_respeta: "buscarenTLB L pid n s = Some (r, s') \<Longrightarrow> respeta s s'"
  by (auto simp: buscarenTLB_def bind_eq_Some_conv intro!: respeta_soltar)

lemma cambiar_pagina_respeta: "cambiar_pagina L P f i s = Some s' \<Longrightarrow> respeta s s'"
  by (auto simp: cambiar_pagina_def bind_eq_Some_conv split: option.splits intro!: respeta_soltar)

lemma vaciar_entradas_respeta: "vaciar_entradas L P s = Some s' \<Longrightarrow> respeta s s'"
  unfolding vaciar_entradas_def
  by (erule con_mutex, erule para_cada_respeta) (auto simp: bind_eq_Some_conv split: if_splits)

lemma liberarMarcos_respeta: "liberarMarcos L pid s = Some s' \<Longrightarrow> respeta s s'"
  unfolding liberarMarcos_def
  by (erule con_mutex, erule para_cada_respeta) (auto simp: bind_eq_Some_conv split: if_splits)

lemma pedirAlSwap_respeta: "pedirAlSwap E n pid s = Some (buf, s') \<Longrightarrow> respeta s s'"
  by (auto simp: pedirAlSwap_def Let_def respeta_def enviar_mensaje_def a_swap_def split: if_splits)

section \<open>The choice of a victim and the load of a page\<close>

lemma avanzar_puntero_respeta: "avanzar_puntero L proc pid i s = Some s' \<Longrightarrow> respeta s s'"
  by (auto simp: avanzar_puntero_def bind_eq_Some_conv)

lemma clock_loop_respeta: "clock_loop L proc pid i s = Some (v, s') \<Longrightarrow> respeta s s'"
proof -
  assume r: "clock_loop L proc pid i s = Some (v, s')"
  have "case x of (v, s') \<Rightarrow> respeta s s'" if "clock_loop L proc pid i s = Some x" for x
    using that
  proof (induction rule: clock_loop.raw_induct [rotated, where P = "\<lambda>L proc pid i s x. case x of (v, s') \<Rightarrow> respeta s s'", consumes 1])
    case (1 clock_loop L proc pid i s x)
    then show ?case
      by (auto simp: bind_eq_Some_conv split: if_splits dest!: avanzar_puntero_respeta)
        (metis (no_types, lifting) case_prodD respeta_trans respeta_upd(1))+
  qed
  then show ?thesis using r by fastforce
qed

lemma clock_m_loop_respeta: "clock_m_loop L proc pid ref i b s = Some (v, s') \<Longrightarrow> respeta s s'"
proof -
  assume r: "clock_m_loop L proc pid ref i b s = Some (v, s')"
  have "case x of (v, s') \<Rightarrow> respeta s s'" if "clock_m_loop L proc pid ref i b s = Some x" for x
    using that
  proof (induction rule: clock_m_loop.raw_induct [rotated, where P = "\<lambda>L proc pid ref i b s x. case x of (v, s') \<Rightarrow> respeta s s'", consumes 1])
    case (1 clock_m_loop L proc pid ref i b s x)
    have IH: "clock_m_loop L proc q r j c t = Some (v, s') \<Longrightarrow> respeta s t \<Longrightarrow> respeta s s'" for q r j c t v s'
      using 1(1) [of L proc q r j c t "(v, s')"] by (auto intro: respeta_trans)
    have fin: "avanzar_puntero L proc q j s = Some t \<Longrightarrow> respeta s (upd_marco p f t)" for q j t p f
      by (blast intro: respeta_trans avanzar_puntero_respeta respeta_upd)
    show ?case
      using 1(2) by (auto simp: bind_eq_Some_conv Let_def split: if_splits intro: IH fin avanzar_puntero_respeta)
  qed
  then show ?thesis using r by fastforce
qed

lemma buscarVictimaClock_respeta: "buscarVictimaClock L pid s = Some (v, s') \<Longrightarrow> respeta s s'"
  unfolding buscarVictimaClock_def
  by (auto simp: bind_eq_Some_conv Let_def dest!: encontrarPosicion_respeta clock_loop_respeta)
    (metis respeta_refl respeta_soltar respeta_trans)

lemma buscarVictimaClockM_respeta: "buscarVictimaClockModificado L pid s = Some (v, s') \<Longrightarrow> respeta s s'"
  unfolding buscarVictimaClockModificado_def
  by (auto simp: bind_eq_Some_conv Let_def dest!: encontrarPosicion_respeta clock_m_loop_respeta)
    (metis respeta_refl respeta_soltar respeta_trans)

lemma elegir_victima_respeta: "elegir_victima L pid s = Some (v, s') \<Longrightarrow> respeta s s'"
  by (auto simp: elegir_victima_def dest: buscarVictimaClock_respeta buscarVictimaClockM_respeta split: if_splits)

text \<open>
  The frame of a modified victim is read while the mutex of the frames is taken, and the read takes
  it again: writing a page back never returns.
\<close>

lemma marcar_marco_tomado: "MutexMarcos \<in> tomados s \<Longrightarrow> marcar_marco L f fr s = None"
  by (simp add: marcar_marco_def tomar_def)

lemma lectura_tomado: "MutexMarcos \<in> tomados s \<Longrightarrow> lecturaMemoria L f off t s = None"
  by (auto simp: lecturaMemoria_def Let_def tomar_def soltar_def actualizarBitReferencia_def marcar_marco_def
      bind_eq_None_conv split: bind_splits if_splits)

lemma indicarPagina_tomado:
  assumes "MutexMarcos \<in> tomados s"
  shows "indicarPaginaQueVaAlSwapyEnviar L fr i 1 pid s = None"
proof -
  have "MutexMarcos \<in> tomados t \<Longrightarrow> lecturaMemoria L fr 0 x t = None" for t :: "'a umc" and x by (rule lectura_tomado)
  moreover have "tomar MutexProcs s = Some t \<Longrightarrow> MutexMarcos \<in> tomados (soltar MutexProcs t)
      \<and> MutexMarcos \<in> tomados (soltar MutexProcs (upd_pagina q g t))" for t q g
    using assms by (auto simp: tomar_def soltar_def upd_pagina_def split: if_splits)
  ultimately show ?thesis
    by (auto simp: indicarPaginaQueVaAlSwapyEnviar_def Let_def split: bind_splits option.splits)
qed

lemma algoritmoDeReemplazo_accede:
  assumes "algoritmoDeReemplazo L pid n buf s = Some (fr, s')"
  shows "respeta s s'" "MutexAccesoMem \<notin> tomados s"
proof -
  obtain v s1 i s2 s3 s4 s5 s6 s7 where r: "elegir_victima L pid s = Some (v, s1)"
      "encontrarPosicionEnProcesos L pid s1 = Some (i, s2)" "tomar MutexMarcos s2 = Some s3" "s4 = s3"
      "realizarCambiosEnPaginaVieja L fr i (soltar MutexMarcos s4) = Some s5"
      "limpiarEntradasTLBporFrame L fr s5 = Some s6" "realizarCambiosEnPaginaNueva L n fr i s6 = Some s7"
      "escrituraMemoria L fr 0 (tamanioFrame s7) buf s7 = Some s'"
    using assms
    by (fastforce simp: algoritmoDeReemplazo_def bind_eq_Some_conv Let_def indicarPagina_tomado dest: tomar_respeta
        split: if_splits)
  have "respeta s s7"
    using elegir_victima_respeta [OF r(1)] encontrarPosicion_respeta [OF r(2)] respeta_soltar [OF r(3), of s3] r(4)
      cambiar_pagina_respeta r(5) vaciar_entradas_respeta r(6) r(7)
    unfolding realizarCambiosEnPaginaVieja_def realizarCambiosEnPaginaNueva_def limpiarEntradasTLBporFrame_def
    by (meson respeta_refl respeta_trans)
  then show "respeta s s'" "MutexAccesoMem \<notin> tomados s"
    using escrituraMemoria_respeta [OF r(8)] by (auto simp: respeta_def)
qed

lemma cantidadFrames_respeta: "cantidadFramesDisponibles L s = Some (c, s') \<Longrightarrow> respeta s s'"
  by (auto simp: cantidadFramesDisponibles_def bind_eq_Some_conv intro!: respeta_soltar)

lemma cuota_respeta: "cuota L pid s = Some (x, s') \<Longrightarrow> respeta s s'"
  by (auto simp: cuota_def bind_eq_Some_conv split: option.splits if_splits dest!: cantidadFrames_respeta)

lemma marco_libre_respeta: "marco_libre L pid n i fr s = Some (g, j, p, s') \<Longrightarrow> respeta s s'"
proof -
  have page: "realizarCambiosEnPaginaNueva L n k i (upd_marco p f t) = Some u \<Longrightarrow> respeta t u" for k p f t u
    unfolding realizarCambiosEnPaginaNueva_def
    by (drule cambiar_pagina_respeta) (rule respeta_trans [OF respeta_upd(1)])
  assume "marco_libre L pid n i fr s = Some (g, j, p, s')"
  then show ?thesis
    by (auto simp: marco_libre_def bind_eq_Some_conv Let_def split: option.splits intro: respeta_soltar)
      (erule respeta_soltar, erule page)
qed

lemma contar_marco_respeta: "contar_marco proc j s = Some s' \<Longrightarrow> respeta s s'"
proof -
  have two: "respeta t (upd_proceso proc f (upd_proceso proc g t))" for t f g
    by (rule respeta_trans [OF respeta_upd(3) respeta_upd(3)])
  assume "contar_marco proc j s = Some s'"
  then show ?thesis
    by (auto simp: contar_marco_def bind_eq_Some_conv Let_def intro: respeta_soltar two split: if_splits)
qed

lemma ocupar_marco_accede:
  assumes "ocupar_marco L pid n buf proc i fr s = Some (g, s')"
  shows "respeta s s'" "MutexAccesoMem \<notin> tomados s"
proof -
  obtain j p s1 s2 m where r: "marco_libre L pid n i fr s = Some (g, j, p, s1)" "contar_marco proc j s1 = Some s2"
      "escrituraMemoria L m 0 (tamanioFrame s2) buf s2 = Some s'"
    using assms by (auto simp: ocupar_marco_def bind_eq_Some_conv)
  have "respeta s s2" using marco_libre_respeta [OF r(1)] contar_marco_respeta [OF r(2)] by (rule respeta_trans)
  then show "respeta s s'" "MutexAccesoMem \<notin> tomados s"
    using escrituraMemoria_respeta [OF r(3)] by (auto simp: respeta_def)
qed

lemma cargarPagina_accede:
  assumes "cargarPaginaenMemoria L pid n buf fr s = Some (v, g, s')"
  shows "respeta s s'" "v = - 1 \<or> MutexAccesoMem \<notin> tomados s"
proof -
  obtain s1 x s2 s3 where r: "tomar MutexProcs s = Some s1" "cuota L pid s1 = Some (x, s2)"
      "tomar MutexMarcos (soltar MutexProcs s2) = Some s3"
      "(v = - 1 \<and> s' = soltar MutexMarcos s3)
       \<or> (\<exists>proc i. ocupar_marco L pid n buf proc i fr (soltar MutexMarcos s3) = Some (g, s'))
       \<or> (\<exists>f. algoritmoDeReemplazo L pid n buf (soltar MutexMarcos s3) = Some (f, s'))"
    using assms by (auto simp: cargarPaginaenMemoria_def bind_eq_Some_conv Let_def split: if_splits; blast)
  have a: "respeta s (soltar MutexMarcos s3)"
    using respeta_soltar [OF r(1) cuota_respeta [OF r(2)]] respeta_soltar [OF r(3) respeta_refl] by (rule respeta_trans)
  show "respeta s s'"
    using r(4) a ocupar_marco_accede(1) algoritmoDeReemplazo_accede(1) by (blast intro: respeta_trans)
  show "v = - 1 \<or> MutexAccesoMem \<notin> tomados s"
    using r(4) a ocupar_marco_accede(2) algoritmoDeReemplazo_accede(2) unfolding respeta_def by blast
qed

lemma finalizarPrograma_respeta:
  assumes "finalizarPrograma L pid s = Some s'"
  shows "respeta s s'" "MutexSwap \<notin> tomados s"
proof -
  obtain i s1 s2 s3 s4 s6 s7 where r: "encontrarPosicionEnProcesos L pid s = Some (i, s1)"
      "liberarMarcos L pid s1 = Some s2" "tomar MutexProcs s2 = Some s3" "quitar_proceso L i s3 = Some s4"
      "limpiar_si_hay_TLB L pid (soltar MutexProcs s4) = Some s6" "tomar MutexSwap s6 = Some s7"
      "s' = soltar MutexSwap (avisarSwapFinPrograma pid s7)"
    using assms by (auto simp: finalizarPrograma_def bind_eq_Some_conv)
  have q: "respeta s3 s4"
    using r(4) by (auto simp: quitar_proceso_def liberarPaginas_def bind_eq_Some_conv Let_def respeta_def upd_proceso_def
        case_prod_unfold)
  have t: "respeta (soltar MutexProcs s4) s6"
    using r(5) vaciar_entradas_respeta by (auto simp: limpiar_si_hay_TLB_def limpiarEntradasTLB_def split: if_splits)
  have a: "respeta s s6"
    using encontrarPosicion_respeta [OF r(1)] liberarMarcos_respeta [OF r(2)] respeta_soltar [OF r(3) q] t
    by (blast intro: respeta_trans)
  have "respeta s6 s'"
    unfolding r(7) avisarSwapFinPrograma_def using respeta_soltar [OF r(6) respeta_upd(7)] .
  then show "respeta s s'" using a by (blast intro: respeta_trans)
  show "MutexSwap \<notin> tomados s" using a r(6) by (auto simp: respeta_def tomar_def split: if_splits)
qed

section \<open>Requests\<close>

lemma a_cpu_simps [simp]: "al_cpu (a_cpu bs s) = al_cpu s @ bs" "tomados (a_cpu bs s) = tomados s"
  by (simp_all add: a_cpu_def)

lemma al_cpu_soltar [simp]: "al_cpu (soltar m s) = al_cpu s" "al_cpu (enviar_mensaje bs s) = al_cpu s"
  "al_cpu (a_nucleo bs s) = al_cpu s"
  by (simp_all add: soltar_def enviar_mensaje_def a_swap_def a_nucleo_def)

lemma al_cpu_tomar: "tomar m s = Some t \<Longrightarrow> al_cpu t = al_cpu s"
  by (auto simp: tomar_def split: if_splits)

lemma le32_eq_iff [simp]: "le32 a = le32 b \<longleftrightarrow> a = b"
  by (metis un_le32_le32)

lemma le32_append_eq: "le32 a @ xs = le32 b @ ys \<longleftrightarrow> a = b \<and> xs = ys"
  by (simp add: append_eq_append_conv)

text \<open>With the mutex of the counter taken, no memory is read: the only answers left are the errors.\<close>

lemma solicitar_tomado:
  assumes taken: "MutexAccesoMem \<in> tomados s" and run: "solicitarBytes L E n off t pid s = Some s'"
  shows "al_cpu s' \<in> {al_cpu s @ le32 ERROR_OVERFLOW, al_cpu s @ le32 0}"
proof -
  have no_read: "lecturaMemoria L fr o' t' u = None" if "respeta s u" for fr o' t' u
    using lecturaMemoria_keeps(3) [of L fr o' t' u] taken that
    by (cases "lecturaMemoria L fr o' t' u") (auto simp: respeta_def)
  obtain fr s1 where s1: "(if 0 < entradasTLB s then buscarenTLB L pid n s else Some (- 1, s)) = Some (fr, s1)"
    using run by (auto simp: solicitarBytes_def bind_eq_Some_conv)
  have r1: "respeta s s1" using s1 buscarenTLB_respeta by (auto split: if_splits)
  have neg: "\<not> fr > - 1" using run s1 no_read [OF r1] by (auto simp: solicitarBytes_def)
  obtain g s2 where s2: "buscarEnListaProcesos L pid n s1 = Some (g, s2)"
    using run s1 neg by (auto simp: solicitarBytes_def bind_eq_Some_conv)
  have r2: "respeta s s2" using r1 buscarEnLista_respeta [OF s2] by (rule respeta_trans)
  show ?thesis
  proof (cases "g = OVERFLOW")
    case True
    then obtain s3 where "finalizarPrograma L pid s2 = Some s3"
        "s' = a_cpu (le32 ERROR_OVERFLOW) (avisarSwapFinPrograma pid (avisarNucleoFinProgramaPorOverFlow pid s3))"
      using run s1 neg s2 by (auto simp: solicitarBytes_def bind_eq_Some_conv)
    then show ?thesis
      using finalizarPrograma_respeta(1) [of L pid s2 s3] r2
      by (auto simp: respeta_def avisarSwapFinPrograma_def avisarNucleoFinProgramaPorOverFlow_def)
  next
    case False
    then have "\<not> g > - 1" using run s1 neg s2 no_read [OF r2] by (auto simp: solicitarBytes_def)
    then obtain buf s3 v h s4 where r: "pedirAlSwap E n pid s2 = Some (buf, s3)"
        "cargarPaginaenMemoria L pid n buf g s3 = Some (v, h, s4)"
      using run s1 neg s2 False by (auto simp: solicitarBytes_def bind_eq_Some_conv)
    have r3: "respeta s s3" using r2 pedirAlSwap_respeta [OF r(1)] by (rule respeta_trans)
    have r4: "respeta s s4" using r3 cargarPagina_accede(1) [OF r(2)] by (rule respeta_trans)
    have "v = - 1" using cargarPagina_accede(2) [OF r(2)] r3 taken by (auto simp: respeta_def)
    then show ?thesis
      using run s1 neg s2 False \<open>\<not> g > - 1\<close> r r4
      by (auto simp: solicitarBytes_def bind_eq_Some_conv Let_def respeta_def avisarSwapFinPrograma_def
          avisarNucleoFinPrograma_def dest!: al_cpu_tomar)
  qed
qed

text \<open>A read that is answered leaves that mutex taken.\<close>

lemma respeta_dos: "tomar m s = Some t \<Longrightarrow> tomar m' t = Some u \<Longrightarrow> respeta s (soltar m (soltar m' (upd_entrada p f u)))"
  using respeta_soltar [OF _ respeta_soltar [OF _ respeta_upd(4)]] .

lemma actualizarBitUltimoAcceso_respeta: "actualizarBitUltimoAccesoTLB L pid fr s = Some s' \<Longrightarrow> respeta s s'"
  by (auto simp: actualizarBitUltimoAccesoTLB_def bind_eq_Some_conv split: option.splits
      intro: respeta_soltar respeta_dos)

lemma cargarenTLB_respeta: "cargarenTLB L pid n fr s = Some s' \<Longrightarrow> respeta s s'"
proof -
  have lru: "LRU L n pid fr t = Some u \<Longrightarrow> respeta t u" for t u
    by (auto simp: LRU_def buscarEntradaMasAntigua_def bind_eq_Some_conv Let_def intro: respeta_soltar respeta_trans [OF _ respeta_upd(4)])
  assume "cargarenTLB L pid n fr s = Some s'"
  then show ?thesis
    by (auto simp: cargarenTLB_def bind_eq_Some_conv split: option.splits
        intro: respeta_soltar lru respeta_dos)
qed

lemma solicitar_respondida:
  assumes run: "solicitarBytes L E n off t pid s = Some s'" and answer: "al_cpu s' = al_cpu s @ le32 OK_SOLICITUD_UMC @ bs"
  shows "MutexAccesoMem \<in> tomados s'"
proof -
  obtain fr s1 where s1: "(if 0 < entradasTLB s then buscarenTLB L pid n s else Some (- 1, s)) = Some (fr, s1)"
    using run by (auto simp: solicitarBytes_def bind_eq_Some_conv)
  have r1: "respeta s s1" using s1 buscarenTLB_respeta by (auto split: if_splits)
  show ?thesis
  proof (cases "fr > - 1")
    case True
    then show ?thesis
      using run s1 lecturaMemoria_keeps(2) actualizarBitUltimoAcceso_respeta
      by (fastforce simp: solicitarBytes_def bind_eq_Some_conv responder_bytes_def respeta_def)
  next
    case neg: False
    obtain g s2 where s2: "buscarEnListaProcesos L pid n s1 = Some (g, s2)"
      using run s1 neg by (auto simp: solicitarBytes_def bind_eq_Some_conv)
    have r2: "respeta s s2" using r1 buscarEnLista_respeta [OF s2] by (rule respeta_trans)
    show ?thesis
    proof (cases "g = OVERFLOW")
      case True
      then obtain s3 where s3: "finalizarPrograma L pid s2 = Some s3"
          "s' = a_cpu (le32 ERROR_OVERFLOW) (avisarSwapFinPrograma pid (avisarNucleoFinProgramaPorOverFlow pid s3))"
        using run s1 neg s2 by (auto simp: solicitarBytes_def bind_eq_Some_conv)
      then have "al_cpu s' = al_cpu s @ le32 ERROR_OVERFLOW"
        using finalizarPrograma_respeta(1) [OF s3(1)] r2
        by (simp add: respeta_def avisarSwapFinPrograma_def avisarNucleoFinProgramaPorOverFlow_def)
      then have "le32 ERROR_OVERFLOW @ [] = le32 OK_SOLICITUD_UMC @ bs" using answer by simp
      then show ?thesis unfolding le32_append_eq by (simp add: ERROR_OVERFLOW_def OK_SOLICITUD_UMC_def)
    next
      case no: False
      show ?thesis
      proof (cases "g > - 1")
        case True
        then show ?thesis
          using run s1 neg s2 no lecturaMemoria_keeps(2) cargarenTLB_respeta actualizarBitUltimoAcceso_respeta
          by (fastforce simp: solicitarBytes_def bind_eq_Some_conv responder_bytes_def respeta_def split: if_splits)
      next
        case False
        then obtain buf s3 v h s4 where r: "pedirAlSwap E n pid s2 = Some (buf, s3)"
            "cargarPaginaenMemoria L pid n buf g s3 = Some (v, h, s4)"
          using run s1 neg s2 no by (auto simp: solicitarBytes_def bind_eq_Some_conv)
        have r4: "respeta s s4"
          using r2 pedirAlSwap_respeta [OF r(1)] cargarPagina_accede(1) [OF r(2)] by (blast intro: respeta_trans)
        have "v \<noteq> - 1"
        proof
          assume "v = - 1"
          then have "al_cpu s' = al_cpu s @ le32 0"
            using run s1 neg s2 no False r r4
            by (auto simp: solicitarBytes_def bind_eq_Some_conv Let_def respeta_def avisarSwapFinPrograma_def
                avisarNucleoFinPrograma_def dest!: al_cpu_tomar)
          then have "le32 0 @ [] = le32 OK_SOLICITUD_UMC @ bs" using answer by simp
          then show False unfolding le32_append_eq by (simp add: OK_SOLICITUD_UMC_def)
        qed
        then show ?thesis
          using run s1 neg s2 no False r lecturaMemoria_keeps(2)
          by (fastforce simp: solicitarBytes_def bind_eq_Some_conv responder_bytes_def)
      qed
    qed
  qed
qed

section \<open>Programs\<close>

lemma swap_tomado:
  assumes "MutexSwap \<in> tomados s"
  shows "inicializarPrograma L pid n cod s = None" "finalizarPrograma L pid s = None"
proof -
  show "inicializarPrograma L pid n cod s = None"
    using assms by (simp add: inicializarPrograma_def Let_def tomar_def)
  show "finalizarPrograma L pid s = None"
    using finalizarPrograma_respeta(2) assms by (cases "finalizarPrograma L pid s") auto
qed

lemma enviar_mensaje_fields [simp]: "tomados (enviar_mensaje bs s) = tomados s" "al_nucleo (enviar_mensaje bs s) = al_nucleo s"
  "del_swap (enviar_mensaje bs s) = del_swap s" "tamanioFrame (enviar_mensaje bs s) = tamanioFrame s"
  "al_swap (enviar_mensaje bs s) = al_swap s @ le32 (of_nat (length bs)) @ bs"
  by (simp_all add: enviar_mensaje_def a_swap_def)

lemma enviar_codigo_fields:
  "enviar_codigo_loop k pid i t p cod s = Some s' \<Longrightarrow> s' = s\<lparr>al_swap := al_swap s'\<rparr>"
proof (induction k arbitrary: i t p s)
  case (Suc k)
  have "enviar_mensaje bs s = s\<lparr>al_swap := al_swap (enviar_mensaje bs s)\<rparr>" for bs
    by (simp add: enviar_mensaje_def a_swap_def)
  then obtain j u q y where "enviar_codigo_loop k pid j u q cod (s\<lparr>al_swap := y\<rparr>) = Some s'"
    using Suc(2) that by (simp add: Let_def split: if_splits)
  then show ?case using Suc(1) by fastforce
qed simp

lemma enviarCodigo_fields:
  assumes "enviarCodigoAlSwap pid k cod s = Some s'"
  shows "tomados s' = tomados s" "al_nucleo s' = al_nucleo s"
proof -
  have "s' = s\<lparr>al_swap := al_swap s'\<rparr>"
    using assms enviar_codigo_fields by (auto simp: enviarCodigoAlSwap_def split: if_splits)
  then show "tomados s' = tomados s" "al_nucleo s' = al_nucleo s"
    by (metis umc.select_convs umc.surjective umc.update_convs)+
qed

lemma crear_paginas_fields:
  "crear_paginas L k i l s = (l', s') \<Longrightarrow> tomados s' = tomados s \<and> al_nucleo s' = al_nucleo s"
  by (induction L k i l s arbitrary: l' s' rule: crear_paginas.induct) (auto simp: malloc_nodo_def Let_def)

lemma bajo_mutex:
  assumes "Option.bind (tomar m (w\<lparr>procesos := x\<rparr>)) (\<lambda>s. Some (soltar m (s\<lparr>listaDeProcesos := f s\<rparr>))) = Some s'"
  shows "tomados s' = tomados w \<and> al_nucleo s' = al_nucleo w"
  using assms by (auto simp: tomar_def soltar_def split: if_splits)

lemma registrar_fields:
  assumes "registrar_proceso L pid n s = Some s'"
  shows "tomados s' = tomados s \<and> al_nucleo s' = al_nucleo s"
proof -
  obtain pags w where c: "crear_paginas L (nat (to_int n)) 0 (list_create L) (s\<lparr>next_nodo := Suc (next_nodo s)\<rparr>) = (pags, w)"
    by fastforce
  have w: "tomados w = tomados s \<and> al_nucleo w = al_nucleo s" by (rule crear_paginas_fields [OF c, simplified])
  have "tomados s' = tomados w \<and> al_nucleo s' = al_nucleo w"
    using assms unfolding registrar_proceso_def malloc_nodo_def Let_def prod.case c by (rule bajo_mutex)
  then show ?thesis using w by simp
qed

lemma inicializar_deja_tomado:
  assumes run: "inicializarPrograma L pid n cod s = Some s1" and ans: "un_le32 (take 4 (del_swap s)) \<noteq> 1"
  shows "al_nucleo s1 = al_nucleo s @ le32 PROGRAMA_INICIALIZADO" "MutexSwap \<in> tomados s1"
proof -
  let ?k = "paginas_de_codigo (length (cstr cod) + 1) (unat (tamanioFrame s))"
  have v: "v = un_le32 (take 4 (del_swap s))" if "tomar MutexSwap s = Some t" "inicializarEnSwap c pid t = Some (v, u)" for t u v c
    using that by (auto simp: inicializarEnSwap_def Let_def tomar_def split: if_splits)
  obtain t u u' v where r: "tomar MutexSwap s = Some t" "inicializarEnSwap (of_nat ?k) pid t = Some (v, u)"
      "enviarCodigoAlSwap pid ?k cod (a_nucleo (le32 PROGRAMA_INICIALIZADO) u) = Some u'"
      "registrar_proceso L pid n u' = Some s1"
    using run ans v by (auto simp: inicializarPrograma_def bind_eq_Some_conv Let_def split: if_splits)
  have u: "tomados u = tomados t" "al_nucleo u = al_nucleo t"
    using r(2) by (auto simp: inicializarEnSwap_def Let_def split: if_splits)
  note enviarCodigo_fields [OF r(3)]
  then show "al_nucleo s1 = al_nucleo s @ le32 PROGRAMA_INICIALIZADO" "MutexSwap \<in> tomados s1"
    using r(1) u registrar_fields [OF r(4)] by (auto simp: tomar_def a_nucleo_def split: if_splits)
qed

end
