(* ===== verification/UMC_Clock.thy ===== *)
theory UMC_Clock
  imports UMC_Mutex
begin

text \<open>
  The clock algorithm against its textbook description: going round the frames from the pointer of
  the process, the victim is its first frame whose reference bit is 0, or its first frame when all
  the bits are 1; the bits of the frames it passed are cleared.
\<close>

locale umc_lists = t_list_more L elems
  for L :: "('l, nodo) t_list_more" and elems :: "'l \<Rightarrow> nodo list"
begin

lemma primero_run:
  assumes "\<forall>p \<in> set (elems l). P p = Some (Q p)"
  shows "primero L l P i = Some (map_option (\<lambda>k. (k, elems l ! k)) (List.find (\<lambda>k. Q (elems l ! k)) [i..<length (elems l)]))"
proof (induction "length (elems l) - i" arbitrary: i)
  case 0
  then show ?case by (subst primero.simps) (simp add: size_eq)
next
  case (Suc d)
  then have i: "i < length (elems l)" by simp
  have "primero L l P (Suc i)
      = Some (map_option (\<lambda>k. (k, elems l ! k)) (List.find (\<lambda>k. Q (elems l ! k)) [Suc i..<length (elems l)]))"
    using Suc by simp
  then show ?case
    using i assms upt_conv_Cons [OF i] by (subst primero.simps) (simp add: size_eq get_eq)
qed

end

interpretation hol_umc: umc_lists hol_list_more "\<lambda>l. l"
  by unfold_locales

section \<open>The ring of frames\<close>

definition ronda :: "nat \<Rightarrow> nat \<Rightarrow> nat list" where
  "ronda k n = map (\<lambda>d. (k + d) mod n) [0..<n]"

definition segunda_oportunidad :: "u32 \<Rightarrow> nat \<Rightarrow> t_nodo_lista_frames list \<Rightarrow> nat option" where
  "segunda_oportunidad pid k ms =
     (case List.find (\<lambda>i. f_pid (ms ! i) = pid \<and> bitReferencia (ms ! i) = 0) (ronda k (length ms)) of
        Some v \<Rightarrow> Some v
      | None \<Rightarrow> List.find (\<lambda>i. f_pid (ms ! i) = pid) (ronda k (length ms)))"

text \<open>The frames passed before the victim, all of them when every bit was set.\<close>

definition pasados :: "u32 \<Rightarrow> nat \<Rightarrow> t_nodo_lista_frames list \<Rightarrow> nat set" where
  "pasados pid k ms = set (takeWhile (\<lambda>i. \<not> (f_pid (ms ! i) = pid \<and> bitReferencia (ms ! i) = 0)) (ronda k (length ms)))"

lemma find_append_none: "List.find P xs = None \<Longrightarrow> List.find P (xs @ ys) = List.find P ys"
  by (induction xs) (auto split: if_splits)

lemma find_first:
  assumes "m < (n :: nat)" "P ((k + m) mod n)" "\<forall>d < m. \<not> P ((k + d) mod n)"
  shows "List.find P (ronda k n) = Some ((k + m) mod n)"
    and "takeWhile (\<lambda>i. \<not> P i) (ronda k n) = map (\<lambda>d. (k + d) mod n) [0..<m]"
proof -
  have v: "ronda k n = map (\<lambda>d. (k + d) mod n) [0..<m] @ map (\<lambda>d. (k + d) mod n) [m..<n]"
    using assms(1) upt_add_eq_append [of 0 m "n - m"] by (simp add: ronda_def)
  have "List.find P (map (\<lambda>d. (k + d) mod n) [0..<m]) = None" using assms(3) by (auto simp: find_None_iff)
  then show "List.find P (ronda k n) = Some ((k + m) mod n)"
    using assms(1,2) by (simp add: v find_append_none upt_conv_Cons)
  show "takeWhile (\<lambda>i. \<not> P i) (ronda k n) = map (\<lambda>d. (k + d) mod n) [0..<m]"
    using assms by (simp add: v takeWhile_append upt_conv_Cons)
qed

lemma ring_surj:
  assumes "k < (n :: nat)" "j < n"
  shows "\<exists>d < n. j = (k + d) mod n"
  using assms by (intro exI [of _ "if k \<le> j then j - k else n + j - k"]) auto

lemma first_in_ring:
  assumes "k < (n :: nat)" "j < n" "P j"
  shows "\<exists>m < n. P ((k + m) mod n) \<and> (\<forall>d < m. \<not> P ((k + d) mod n))"
proof -
  obtain d where "d < n" "P ((k + d) mod n)" using ring_surj [OF assms(1,2)] assms(3) by blast
  then have "\<exists>m. m < n \<and> P ((k + m) mod n)" by blast
  then obtain m where "m < n \<and> P ((k + m) mod n)" "\<forall>d < m. \<not> (d < n \<and> P ((k + d) mod n))"
    using exists_least_iff [of "\<lambda>m. m < n \<and> P ((k + m) mod n)"] by blast
  then show ?thesis by (intro exI [of _ m]) auto
qed

section \<open>The frames of a state\<close>

definition lista_marcos :: "('l \<Rightarrow> nodo list) \<Rightarrow> 'l umc \<Rightarrow> t_nodo_lista_frames list" where
  "lista_marcos elems s = map (\<lambda>p. the (marcos s p)) (elems (listaDeFrames s))"

definition marcos_ok :: "('l \<Rightarrow> nodo list) \<Rightarrow> 'l umc \<Rightarrow> bool" where
  "marcos_ok elems s \<longleftrightarrow> distinct (elems (listaDeFrames s)) \<and> (\<forall>p \<in> set (elems (listaDeFrames s)). marcos s p \<noteq> None)"

definition quitar_R :: "('l \<Rightarrow> nodo list) \<Rightarrow> u32 \<Rightarrow> nat set \<Rightarrow> 'l umc \<Rightarrow> 'l umc" where
  "quitar_R elems pid I s = s\<lparr>marcos := (\<lambda>q. if \<exists>j \<in> I. j < length (elems (listaDeFrames s)) \<and> q = elems (listaDeFrames s) ! j
     then map_option (\<lambda>m. if f_pid m = pid then m\<lparr>bitReferencia := 0\<rparr> else m) (marcos s q) else marcos s q)\<rparr>"

lemma length_lista_marcos [simp]: "length (lista_marcos elems s) = length (elems (listaDeFrames s))"
  by (simp add: lista_marcos_def)

lemma listaDeFrames_quitar_R [simp]: "listaDeFrames (quitar_R elems pid I s) = listaDeFrames s"
  by (simp add: quitar_R_def)

lemma marcos_nth:
  "marcos_ok elems s \<Longrightarrow> i < length (elems (listaDeFrames s)) \<Longrightarrow>
     marcos s (elems (listaDeFrames s) ! i) = Some (lista_marcos elems s ! i)"
  by (auto simp: marcos_ok_def lista_marcos_def)

lemma marcos_ok_quitar_R: "marcos_ok elems s \<Longrightarrow> marcos_ok elems (quitar_R elems pid I s)"
  by (auto simp: marcos_ok_def quitar_R_def)

lemma lista_quitar_R:
  assumes "marcos_ok elems s" "i < length (elems (listaDeFrames s))"
  shows "lista_marcos elems (quitar_R elems pid I s) ! i = (let m = lista_marcos elems s ! i in
    if i \<in> I \<and> f_pid m = pid then m\<lparr>bitReferencia := 0\<rparr> else m)"
proof -
  have "(\<exists>j \<in> I. j < length (elems (listaDeFrames s)) \<and> elems (listaDeFrames s) ! i = elems (listaDeFrames s) ! j) \<longleftrightarrow> i \<in> I"
    using assms by (auto simp: marcos_ok_def nth_eq_iff_index_eq)
  then show ?thesis
    using assms(2) marcos_nth [OF assms] by (cases "marcos s (elems (listaDeFrames s) ! i)")
      (auto simp: lista_marcos_def quitar_R_def Let_def)
qed

lemma quitar_R_empty [simp]: "quitar_R elems pid {} s = s"
  by (simp add: quitar_R_def)

lemma quitar_R_insert:
  assumes "marcos_ok elems s" "i < length (elems (listaDeFrames s))" "i \<notin> I"
    and "bitReferencia (lista_marcos elems s ! i) \<in> {0, 1}"
    and "\<not> (f_pid (lista_marcos elems s ! i) = pid \<and> bitReferencia (lista_marcos elems s ! i) = 0)"
  shows "(if f_pid (lista_marcos elems s ! i) = pid \<and> bitReferencia (lista_marcos elems s ! i) = 1
     then upd_marco (elems (listaDeFrames s) ! i) (\<lambda>m. m\<lparr>bitReferencia := 0\<rparr>) (quitar_R elems pid I s)
     else quitar_R elems pid I s) = quitar_R elems pid (insert i I) s"
proof -
  let ?p = "elems (listaDeFrames s) ! i" and ?m = "lista_marcos elems s ! i"
  have other: "(\<exists>j \<in> I. j < length (elems (listaDeFrames s)) \<and> ?p = elems (listaDeFrames s) ! j) = False"
    using assms(1-3) by (auto simp: marcos_ok_def nth_eq_iff_index_eq)
  have m: "marcos s ?p = Some ?m" by (rule marcos_nth [OF assms(1,2)])
  have "marcos (if f_pid ?m = pid \<and> bitReferencia ?m = 1
      then upd_marco ?p (\<lambda>m. m\<lparr>bitReferencia := 0\<rparr>) (quitar_R elems pid I s) else quitar_R elems pid I s) q
      = marcos (quitar_R elems pid (insert i I) s) q" for q
    using other m assms(2,4,5) by (cases "q = ?p") (auto simp: quitar_R_def upd_marco_def)
  then show ?thesis
    by (auto simp: quitar_R_def upd_marco_def fun_eq_iff)
qed

lemma bits_quitar_R:
  "marcos_ok elems s \<Longrightarrow> i < length (elems (listaDeFrames s)) \<Longrightarrow> bitReferencia (lista_marcos elems s ! i) \<in> {0, 1} \<Longrightarrow>
     bitReferencia (lista_marcos elems (quitar_R elems pid I s) ! i) \<in> {0, 1}"
  by (simp add: lista_quitar_R Let_def)

section \<open>The loops\<close>

context umc_lists
begin

lemma siguiente_mod: "i < length (elems (listaDeFrames s)) \<Longrightarrow> siguiente L i s = Suc i mod length (elems (listaDeFrames s))"
  by (auto simp: siguiente_def size_eq)

lemma mover_loop_run:
  "marcos_ok elems s \<Longrightarrow> length (elems (listaDeFrames s)) = n \<Longrightarrow> i < n \<Longrightarrow>
     \<forall>d < m. f_pid (lista_marcos elems s ! ((i + d) mod n)) \<noteq> pid \<Longrightarrow>
     f_pid (lista_marcos elems s ! ((i + m) mod n)) = pid \<Longrightarrow> mover_loop L pid i s = Some ((i + m) mod n)"
proof (induction m arbitrary: i)
  case 0
  then show ?case
    by (subst mover_loop.simps) (simp add: size_eq get_eq marcos_nth)
next
  case (Suc m)
  have sig: "siguiente L i s = Suc i mod n" using Suc(3,4) by (simp add: siguiente_mod)
  have shift: "(Suc i mod n + d) mod n = (i + Suc d) mod n" for d
    by (simp add: mod_add_left_eq)
  have "f_pid (lista_marcos elems s ! i) \<noteq> pid" using Suc(4) Suc(5) [rule_format, of 0] by simp
  then have "mover_loop L pid i s = mover_loop L pid (Suc i mod n) s"
    using Suc(2-4) sig by (subst mover_loop.simps) (simp add: size_eq get_eq marcos_nth)
  also have "\<dots> = Some ((Suc i mod n + m) mod n)"
  proof (rule Suc(1) [OF Suc(2,3)])
    show "Suc i mod n < n" using Suc(4) by simp
    show "\<forall>d < m. f_pid (lista_marcos elems s ! ((Suc i mod n + d) mod n)) \<noteq> pid"
    proof (intro allI impI)
      fix d
      assume "d < m"
      then show "f_pid (lista_marcos elems s ! ((Suc i mod n + d) mod n)) \<noteq> pid"
        unfolding shift using Suc(5) [rule_format, of "Suc d"] by simp
    qed
    show "f_pid (lista_marcos elems s ! ((Suc i mod n + m) mod n)) = pid" unfolding shift by (rule Suc(6))
  qed
  finally show ?case by (simp add: shift)
qed

lemma clock_paso:
  assumes "marcos_ok elems s" "length (elems (listaDeFrames s)) = n" "i < n"
    and "\<not> (f_pid (lista_marcos elems s ! i) = pid \<and> bitReferencia (lista_marcos elems s ! i) = 0)"
  shows "clock_loop L proc pid i s = clock_loop L proc pid (Suc i mod n)
    (if f_pid (lista_marcos elems s ! i) = pid \<and> bitReferencia (lista_marcos elems s ! i) = 1
     then upd_marco (elems (listaDeFrames s) ! i) (\<lambda>m. m\<lparr>bitReferencia := 0\<rparr>) s else s)"
  using assms by (subst clock_loop.simps) (auto simp: size_eq get_eq marcos_nth siguiente_mod)

lemma clock_pasos:
  assumes ok: "marcos_ok elems s" and n: "length (elems (listaDeFrames s)) = n" "i < n" "m \<le> n"
    and bits: "\<forall>j < n. bitReferencia (lista_marcos elems s ! j) \<in> {0, 1}"
    and busy: "\<forall>d < m. \<not> (f_pid (lista_marcos elems s ! ((i + d) mod n)) = pid
        \<and> bitReferencia (lista_marcos elems s ! ((i + d) mod n)) = 0)"
  shows "clock_loop L proc pid i s
    = clock_loop L proc pid ((i + m) mod n) (quitar_R elems pid (set (map (\<lambda>d. (i + d) mod n) [0..<m])) s)"
  using n(3) busy
proof (induction m)
  case 0
  then show ?case using n(2) by simp
next
  case (Suc m)
  let ?I = "set (map (\<lambda>d. (i + d) mod n) [0..<m])" and ?c = "(i + m) mod n"
  let ?t = "quitar_R elems pid ?I s"
  have c: "?c < n" using n(2) by simp
  have out: "?c \<notin> ?I"
  proof
    assume "?c \<in> ?I"
    then obtain d where d: "d < m" "(i + d) mod n = (i + m) mod n" by auto
    then have "n dvd (i + m) - (i + d)" using mod_eq_dvd_iff_nat [of "i + d" "i + m" n] by simp
    then show False using d(1) Suc(2) nat_dvd_not_less [of "m - d" n] by simp
  qed
  have keep: "lista_marcos elems ?t ! ?c = lista_marcos elems s ! ?c"
    using out c n(1) by (subst lista_quitar_R [OF ok]) (auto simp: Let_def)
  have free: "\<not> (f_pid (lista_marcos elems s ! ?c) = pid \<and> bitReferencia (lista_marcos elems s ! ?c) = 0)"
    using Suc(3) by simp
  have "clock_loop L proc pid i s = clock_loop L proc pid ?c ?t" using Suc by simp
  also have "\<dots> = clock_loop L proc pid (Suc ?c mod n) (quitar_R elems pid (insert ?c ?I) s)"
  proof -
    have here: "\<not> (f_pid (lista_marcos elems ?t ! ?c) = pid \<and> bitReferencia (lista_marcos elems ?t ! ?c) = 0)"
      unfolding keep by (rule free)
    have len: "length (elems (listaDeFrames ?t)) = n" using n(1) by simp
    show ?thesis
      unfolding clock_paso [OF marcos_ok_quitar_R [OF ok] len c here] keep listaDeFrames_quitar_R
      using quitar_R_insert [OF ok _ out _ free] c n(1) bits by simp
  qed
  also have "Suc ?c mod n = (i + Suc m) mod n" by (simp add: mod_Suc_eq)
  also have "insert ?c ?I = set (map (\<lambda>d. (i + d) mod n) [0..<Suc m])" by (simp add: insert_commute)
  finally show ?case .
qed

lemma clock_victima:
  assumes ok: "marcos_ok elems t" and n: "length (elems (listaDeFrames t)) = n" "i < n"
    and here: "f_pid (lista_marcos elems t ! i) = pid" "bitReferencia (lista_marcos elems t ! i) = 0"
  shows "\<exists>w. clock_loop L proc pid i t = Some (i, upd_proceso proc (\<lambda>pr. pr\<lparr>indiceRecorridaClock := Some w\<rparr>) t)
    \<and> List.find (\<lambda>j. f_pid (lista_marcos elems t ! j) = pid) (ronda (Suc i mod n) n) = Some w"
proof -
  let ?P = "\<lambda>j. f_pid (lista_marcos elems t ! j) = pid" and ?k = "Suc i mod n"
  have k: "?k < n" using n(2) by simp
  obtain m where m: "m < n" "?P ((?k + m) mod n)" "\<forall>d < m. \<not> ?P ((?k + d) mod n)"
    using first_in_ring [OF k n(2), of ?P] here(1) by blast
  have "mover_loop L pid ?k t = Some ((?k + m) mod n)"
    using m by (intro mover_loop_run [OF ok n(1) k]) simp_all
  then have "clock_loop L proc pid i t
      = Some (i, upd_proceso proc (\<lambda>pr. pr\<lparr>indiceRecorridaClock := Some ((?k + m) mod n)\<rparr>) t)"
    using here n siguiente_mod [of i t]
    by (subst clock_loop.simps)
      (simp add: size_eq get_eq marcos_nth [OF ok] avanzar_puntero_def moverPunteroProximaPosibleVictima_def)
  then show ?thesis using find_first(1) [of m n ?P ?k] m by blast
qed

lemma quitar_R_none:
  assumes "marcos_ok elems t" "\<forall>i \<in> I. i < length (elems (listaDeFrames t)) \<longrightarrow> f_pid (lista_marcos elems t ! i) \<noteq> pid"
  shows "quitar_R elems pid I t = t"
proof -
  have "marcos (quitar_R elems pid I t) q = marcos t q" for q
    using assms marcos_nth [OF assms(1)] by (auto simp: quitar_R_def)
  then show ?thesis by (simp add: quitar_R_def fun_eq_iff)
qed

lemma tomar_libre: "m \<notin> tomados s \<Longrightarrow> tomar m s = Some (s\<lparr>tomados := insert m (tomados s)\<rparr>)"
  by (simp add: tomar_def)

lemma soltar_tomado: "m \<notin> tomados s \<Longrightarrow> soltar m (s\<lparr>tomados := insert m (tomados s)\<rparr>) = s"
  by (simp add: soltar_def)

lemma vistas_tomados [simp]: "lista_marcos elems (s\<lparr>tomados := T\<rparr>) = lista_marcos elems s"
  "marcos_ok elems (s\<lparr>tomados := T\<rparr>) = marcos_ok elems s" "quitar_R elems pid I (s\<lparr>tomados := T\<rparr>) = (quitar_R elems pid I s)\<lparr>tomados := T\<rparr>"
  by (simp_all add: lista_marcos_def marcos_ok_def quitar_R_def cong: if_cong)

lemma clock_run:
  assumes ok: "marcos_ok elems s" and n: "length (elems (listaDeFrames s)) = n" "k < n"
    and bits: "\<forall>j < n. bitReferencia (lista_marcos elems s ! j) \<in> {0, 1}"
    and some: "\<exists>j < n. f_pid (lista_marcos elems s ! j) = pid"
  shows "\<exists>v w. clock_loop L proc pid k s
      = Some (v, upd_proceso proc (\<lambda>pr. pr\<lparr>indiceRecorridaClock := Some w\<rparr>)
          (quitar_R elems pid (pasados pid k (lista_marcos elems s)) s))
    \<and> segunda_oportunidad pid k (lista_marcos elems s) = Some v
    \<and> List.find (\<lambda>j. f_pid (lista_marcos elems s ! j) = pid) (ronda (Suc v mod n) n) = Some w"
proof -
  let ?ms = "lista_marcos elems s"
  let ?Q = "\<lambda>j. f_pid (?ms ! j) = pid \<and> bitReferencia (?ms ! j) = 0"
  have len: "length ?ms = n" using n(1) by simp
  have same_pid: "f_pid (lista_marcos elems (quitar_R elems pid I s) ! j) = f_pid (?ms ! j)" if "j < n" for I j
    using that n(1) by (simp add: lista_quitar_R [OF ok] Let_def)
  have find_pid: "List.find (\<lambda>j. f_pid (lista_marcos elems (quitar_R elems pid I s) ! j) = pid) (ronda a n)
      = List.find (\<lambda>j. f_pid (?ms ! j) = pid) (ronda a n)" for I a
  proof -
    have "x \<in> set (ronda a n) \<Longrightarrow> x < n" for x using n(2) by (auto simp: ronda_def)
    then show ?thesis by (intro find_cong [OF refl]) (simp add: same_pid)
  qed
  show ?thesis
  proof (cases "\<exists>j < n. ?Q j")
    case True
    then obtain m where m: "m < n" "?Q ((k + m) mod n)" "\<forall>d < m. \<not> ?Q ((k + d) mod n)"
      using first_in_ring [of k n _ ?Q] n(2) by blast
    let ?I = "set (map (\<lambda>d. (k + d) mod n) [0..<m])" and ?c = "(k + m) mod n"
    let ?t = "quitar_R elems pid ?I s"
    have c: "?c < n" using n(2) by simp
    have out: "?c \<notin> ?I" using m(2,3) by auto
    have "clock_loop L proc pid k s = clock_loop L proc pid ?c ?t"
      using m by (intro clock_pasos [OF ok n(1,2) _ bits]) auto
    moreover have "lista_marcos elems ?t ! ?c = ?ms ! ?c"
      using out c n(1) by (subst lista_quitar_R [OF ok]) (auto simp: Let_def)
    ultimately obtain w where w: "clock_loop L proc pid k s = Some (?c, upd_proceso proc (\<lambda>pr. pr\<lparr>indiceRecorridaClock := Some w\<rparr>) ?t)"
        "List.find (\<lambda>j. f_pid (lista_marcos elems ?t ! j) = pid) (ronda (Suc ?c mod n) n) = Some w"
      using clock_victima [OF marcos_ok_quitar_R [OF ok, of pid ?I], where n = n and i = ?c and pid = pid and proc = proc] c n(1) m(2) by auto
    have "pasados pid k ?ms = ?I"
      unfolding pasados_def len using find_first(2) [of m n ?Q k] m by simp
    moreover have "segunda_oportunidad pid k ?ms = Some ?c"
      unfolding segunda_oportunidad_def len using find_first(1) [of m n ?Q k] m by simp
    ultimately show ?thesis using w(1) w(2) [unfolded find_pid] by (intro exI [of _ ?c] exI [of _ w]) simp
  next
    case False
    let ?I = "set (ronda k n)"
    let ?t = "quitar_R elems pid ?I s"
    have ring: "j \<in> ?I" if "j < n" for j using ring_surj [OF n(2) that] by (auto simp: ronda_def image_iff Bex_def)
    have none: "\<forall>d < n. \<not> ?Q ((k + d) mod n)" using False n(2) by simp
    have first: "clock_loop L proc pid k s = clock_loop L proc pid k ?t"
      using clock_pasos [OF ok n(1,2) order_refl bits none, of proc] n(2) by (simp add: ronda_def)
    obtain m where m: "m < n" "f_pid (?ms ! ((k + m) mod n)) = pid" "\<forall>d < m. f_pid (?ms ! ((k + d) mod n)) \<noteq> pid"
      using some first_in_ring [of k n _ "\<lambda>j. f_pid (?ms ! j) = pid"] n(2) by blast
    let ?c = "(k + m) mod n"
    have c: "?c < n" using n(2) by simp
    have bits': "\<forall>j < n. bitReferencia (lista_marcos elems ?t ! j) \<in> {0, 1}"
      using bits bits_quitar_R [OF ok] n(1) by simp
    have "clock_loop L proc pid k ?t = clock_loop L proc pid ?c (quitar_R elems pid (set (map (\<lambda>d. (k + d) mod n) [0..<m])) ?t)"
      using m n(1,2) bits' by (intro clock_pasos [OF marcos_ok_quitar_R [OF ok]]) (auto simp: same_pid)
    also have "quitar_R elems pid (set (map (\<lambda>d. (k + d) mod n) [0..<m])) ?t = ?t"
      using m(3) n(1,2) by (intro quitar_R_none [OF marcos_ok_quitar_R [OF ok]]) (auto simp: same_pid)
    finally have run: "clock_loop L proc pid k s = clock_loop L proc pid ?c ?t" using first by simp
    have "lista_marcos elems ?t ! ?c = (?ms ! ?c)\<lparr>bitReferencia := 0\<rparr>"
      using c n(1) m(2) ring [OF c] by (subst lista_quitar_R [OF ok]) (auto simp: Let_def)
    then obtain w where w: "clock_loop L proc pid k s = Some (?c, upd_proceso proc (\<lambda>pr. pr\<lparr>indiceRecorridaClock := Some w\<rparr>) ?t)"
        "List.find (\<lambda>j. f_pid (lista_marcos elems ?t ! j) = pid) (ronda (Suc ?c mod n) n) = Some w"
      using clock_victima [OF marcos_ok_quitar_R [OF ok, of pid ?I], where n = n and i = ?c and pid = pid and proc = proc] c n(1) m(2) run by auto
    have all: "\<forall>j \<in> ?I. \<not> ?Q j" using none by (auto simp: ronda_def)
    then have "pasados pid k ?ms = ?I"
      unfolding pasados_def len by (subst takeWhile_eq_all_conv [THEN iffD2]) auto
    moreover have "segunda_oportunidad pid k ?ms = Some ?c"
    proof -
      have "List.find ?Q (ronda k n) = None" using all by (auto simp: find_None_iff)
      then show ?thesis
        unfolding segunda_oportunidad_def len using find_first(1) [of m n "\<lambda>j. f_pid (?ms ! j) = pid" k] m by simp
    qed
    ultimately show ?thesis using w(1) w(2) [unfolded find_pid] by (intro exI [of _ ?c] exI [of _ w]) simp
  qed
qed

lemma buscarVictimaClock_run:
  assumes ok: "marcos_ok elems s" and n: "length (elems (listaDeFrames s)) = n" "k < n"
    and bits: "\<forall>j < n. bitReferencia (lista_marcos elems s ! j) \<in> {0, 1}"
    and some: "\<exists>j < n. f_pid (lista_marcos elems s ! j) = pid"
    and free: "MutexProcs \<notin> tomados s" "MutexMarcos \<notin> tomados s"
    and proc: "buscar_pid L pid s = Some (Some (i, p))" "i < length (elems (listaDeProcesos s))" "elems (listaDeProcesos s) ! i = p"
      "procesos s p = Some pr" "indiceRecorridaClock pr = Some k"
  shows "\<exists>v w. buscarVictimaClock L pid s
      = Some (v, upd_proceso p (\<lambda>pr. pr\<lparr>indiceRecorridaClock := Some w\<rparr>)
          (quitar_R elems pid (pasados pid k (lista_marcos elems s)) s))
    \<and> segunda_oportunidad pid k (lista_marcos elems s) = Some v
    \<and> List.find (\<lambda>j. f_pid (lista_marcos elems s ! j) = pid) (ronda (Suc v mod n) n) = Some w"
proof -
  let ?t = "s\<lparr>tomados := insert MutexMarcos (tomados s)\<rparr>"
  obtain v w where r: "clock_loop L p pid k ?t = Some (v, upd_proceso p (\<lambda>pr. pr\<lparr>indiceRecorridaClock := Some w\<rparr>)
          (quitar_R elems pid (pasados pid k (lista_marcos elems s)) ?t))"
      "segunda_oportunidad pid k (lista_marcos elems s) = Some v"
      "List.find (\<lambda>j. f_pid (lista_marcos elems s ! j) = pid) (ronda (Suc v mod n) n) = Some w"
    using clock_run [of ?t n k pid p] ok n bits some by auto
  have "buscar_pid L pid (s\<lparr>tomados := T\<rparr>) = buscar_pid L pid s" for T by (simp add: buscar_pid_def)
  then have pos: "encontrarPosicionEnProcesos L pid s = Some (int i, s)"
    using proc(1) free(1) by (simp add: encontrarPosicionEnProcesos_def tomar_libre soltar_tomado)
  have "proceso_en L (int i) (s\<lparr>tomados := T\<rparr>) = Some (p, pr)" for T
    using proc(2-4) by (simp add: proceso_en_def get_eq)
  then have "buscarVictimaClock L pid s = Some (v, soltar MutexMarcos (upd_proceso p (\<lambda>pr. pr\<lparr>indiceRecorridaClock := Some w\<rparr>)
          (quitar_R elems pid (pasados pid k (lista_marcos elems s)) ?t)))"
    using pos free proc(5) r(1) by (simp add: buscarVictimaClock_def tomar_libre soltar_tomado Let_def)
  moreover have "soltar MutexMarcos (upd_proceso p f (quitar_R elems pid I ?t)) = upd_proceso p f (quitar_R elems pid I s)" for f I
    using free(2) by (simp add: soltar_def upd_proceso_def quitar_R_def cong: if_cong)
  ultimately show ?thesis using r(2,3) by auto
qed

end

end
