(* ===== verification/UMC_Correct.thy ===== *)
theory UMC_Correct
  imports UMC_Clock
begin

text \<open>The properties of the memory process, each with an instance on two frames and one process.\<close>

definition umc1 :: "nodo list umc" where
  "umc1 = \<lparr>listaDeProcesos = [10], listaDeFrames = [0, 1], tlb = [],
     procesos = [10 \<mapsto> \<lparr>pr_pid = 1, pr_cantPaginas = 2, cantFramesAsignados = 1, indiceRecorridaClock = Some 0,
       lista_paginas = [20, 21]\<rparr>],
     marcos = [0 \<mapsto> \<lparr>f_id_frame = 0, f_pid = 1, bitReferencia = 1, bitModificado = 0\<rparr>,
       1 \<mapsto> \<lparr>f_id_frame = 1, f_pid = 0, bitReferencia = 0, bitModificado = 0\<rparr>],
     tabla = [20 \<mapsto> \<lparr>p_id_frame = 0, nro_pagina = 0, status = CHR ''M''\<rparr>,
       21 \<mapsto> \<lparr>p_id_frame = 3, nro_pagina = 1, status = CHR ''S''\<rparr>],
     entradas = Map.empty, next_nodo = 22, tomados = {}, accesosAMemoria = 0, entradasTLB = 0, marcos_x_proc = 2,
     tamanioFrame = 2, cantidadDeFrames = 2, algoritmo_umc = CLOCK, memoriaprincipal = [65, 66, 0, 0],
     al_swap = [], del_swap = [67, 68], al_nucleo = [], al_cpu = []\<rparr>"

definition env_umc :: umc_env where
  "env_umc = \<lparr>basura_pagina = [0, 0], basura_tlb = (\<lambda>_. \<lparr>e_nro_pagina = 0, e_id_frame = 0, e_pid = 0, ultimo_acceso = 0\<rparr>),
     basura_int = 0, tras_codigo = [0]\<rparr>"

lemma hol_ops [simp]: "list_size hol_list_more l = length l"
  "list_get hol_list_more l i = (if i < length l then Some (l ! i) else None)"
  "list_add hol_list_more l x = l @ [x]" "list_create hol_list_more = []"
  by (simp_all add: hol_list_more_def t_list_ops.defs hol_list_def)

lemma to_int_0_1 [simp]: "to_int 0 = 0" "to_int 1 = 1" "to_int 2 = 2"
  by (simp_all add: to_int_def)

lemmas umc_steps = tomar_def soltar_def buscar_pid_def primero.simps buscar_en_procesos.simps Let_def
  actualizarBitReferencia_def marcar_marco_def en_memoria_def posicion_def upd_marco_def upd_proceso_def upd_pagina_def
  a_cpu_def a_swap_def

lemma buscar_umc1: "buscarEnListaProcesos hol_list_more 1 0 umc1 = Some (0, umc1)"
  "buscarEnListaProcesos hol_list_more 1 1 umc1 = Some (- 1, umc1)"
  by (simp_all add: buscarEnListaProcesos_def umc_steps umc1_def)

lemma lectura_umc1:
  "\<exists>s'. lecturaMemoria hol_list_more 0 0 2 umc1 = Some ([65, 66], s') \<and> al_cpu s' = [] \<and> entradasTLB s' = 0"
  by (simp add: lecturaMemoria_def umc_steps umc1_def)

lemma solicitar_umc1:
  "\<exists>s1. solicitarBytes hol_list_more env_umc 0 0 2 1 umc1 = Some s1 \<and> al_cpu s1 = al_cpu umc1 @ le32 OK_SOLICITUD_UMC @ [65, 66]"
proof -
  obtain s' where s': "lecturaMemoria hol_list_more 0 0 2 umc1 = Some ([65, 66], s')" "al_cpu s' = []" "entradasTLB s' = 0"
    using lectura_umc1 by blast
  have "entradasTLB umc1 = 0" "al_cpu umc1 = []" by (simp_all add: umc1_def)
  then show ?thesis
    using buscar_umc1(1) s' by (simp add: solicitarBytes_def OVERFLOW_def of_cint_def responder_bytes_def)
qed

text \<open>
  C29: Once a read of a CPU has been answered, no later read is: the mutex of the access counter is
  never released, so a request returns only if it ends the program or refuses it.
\<close>

theorem umc_una_lectura:
  assumes "solicitarBytes L E n off t pid s = Some s1" "al_cpu s1 = al_cpu s @ le32 OK_SOLICITUD_UMC @ bs"
  shows "\<forall>n' off' t' pid'. case solicitarBytes L E n' off' t' pid' s1 of
      None \<Rightarrow> True
    | Some s2 \<Rightarrow> al_cpu s2 \<in> {al_cpu s1 @ le32 ERROR_OVERFLOW, al_cpu s1 @ le32 0}"
  using solicitar_tomado [OF solicitar_respondida [OF assms]] by (auto split: option.splits)

lemma umc_una_lectura_witness:
  "\<exists>s1. solicitarBytes hol_list_more env_umc 0 0 2 1 umc1 = Some s1
     \<and> (case solicitarBytes hol_list_more env_umc 0 0 2 1 s1 of None \<Rightarrow> True
        | Some s2 \<Rightarrow> al_cpu s2 \<in> {al_cpu s1 @ le32 ERROR_OVERFLOW, al_cpu s1 @ le32 0})"
  using solicitar_umc1 umc_una_lectura by metis

text \<open>
  C30: The start of a program, whatever the swap answers, leaves the mutex of the swap taken: no other
  program is started afterwards, and none can be ended.
\<close>

theorem umc_un_programa:
  assumes "inicializarPrograma L pid n cod s = Some s1" "take 4 (del_swap s) \<in> {le32 (of_cint EXITO_SWAP), le32 (of_cint ERROR_SWAP)}"
  shows "al_nucleo s1 = al_nucleo s @ le32 PROGRAMA_INICIALIZADO \<and> MutexSwap \<in> tomados s1
    \<and> (\<forall>pid' n' cod'. inicializarPrograma L pid' n' cod' s1 = None \<and> finalizarPrograma L pid' s1 = None)"
proof -
  have "un_le32 (take 4 (del_swap s)) \<noteq> 1"
    using assms(2) by (auto simp: EXITO_SWAP_def ERROR_SWAP_def of_cint_def)
  note taken = inicializar_deja_tomado [OF assms(1) this]
  then show ?thesis using swap_tomado by blast
qed

definition umc0 :: "nodo list umc" where
  "umc0 = umc1\<lparr>listaDeProcesos := [], del_swap := le32 5\<rparr>"

lemma inicializar_umc0: "inicializarPrograma hol_list_more 2 1 [65, 66, 67, 0] umc0 \<noteq> None"
proof -
  let ?cod = "[65, 66, 67, 0] :: byte list"
  have code: "cstr ?cod = [65, 66, 67]" "0 \<in> set ?cod" by (simp_all add: cstr_def)
  have pags: "paginas_de_codigo (Suc (Suc (Suc (Suc 0)))) 2 = Suc (Suc 0)" by (simp add: paginas_de_codigo_def)
  have reg: "registrar_proceso hol_list_more 2 1 u \<noteq> None" if "MutexProcs \<notin> tomados u" for u :: "nodo list umc"
    using that crear_paginas_fields [of hol_list_more "nat (to_int 1)" 0 "[]" "u\<lparr>next_nodo := Suc (next_nodo u)\<rparr>"]
    by (auto simp: registrar_proceso_def malloc_nodo_def tomar_def Let_def case_prod_unfold)
  have send: "enviar_codigo_loop (Suc (Suc 0)) 2 0 3 0 ?cod u \<noteq> None" if "tamanioFrame u = 2" for u :: "nodo list umc"
    using that by (simp add: Let_def)
  have flds: "tamanioFrame umc0 = 2" "del_swap umc0 = le32 5" "tomados umc0 = {}"
    by (simp_all add: umc0_def umc1_def)
  obtain u where u: "inicializarEnSwap (of_nat (Suc (Suc 0))) 2 (umc0\<lparr>tomados := {MutexSwap}\<rparr>) = Some (5, u)"
      "tamanioFrame u = 2" "MutexProcs \<notin> tomados u"
    by (simp add: inicializarEnSwap_def Let_def flds)
  let ?u = "a_nucleo (le32 PROGRAMA_INICIALIZADO) u"
  obtain w where w: "enviarCodigoAlSwap 2 (Suc (Suc 0)) ?cod ?u = Some w"
    using send [of ?u] u(2) code by (auto simp: enviarCodigoAlSwap_def a_nucleo_def)
  have "tomados w = tomados ?u" by (rule enviarCodigo_fields [OF w])
  then have "registrar_proceso hol_list_more 2 1 w \<noteq> None" using u(3) by (intro reg) (simp add: a_nucleo_def)
  then show ?thesis
    using u(1) w by (auto simp: inicializarPrograma_def code pags flds tomar_def Let_def)
qed

lemma umc_un_programa_witness:
  "\<exists>s1. inicializarPrograma hol_list_more 2 1 [65, 66, 67, 0] umc0 = Some s1 \<and> al_nucleo s1 = le32 PROGRAMA_INICIALIZADO
     \<and> inicializarPrograma hol_list_more 3 1 [65, 66, 67, 0] s1 = None"
proof -
  obtain s1 where s1: "inicializarPrograma hol_list_more 2 1 [65, 66, 67, 0] umc0 = Some s1"
    using inicializar_umc0 by blast
  have "take 4 (del_swap umc0) \<in> {le32 (of_cint EXITO_SWAP), le32 (of_cint ERROR_SWAP)}" "al_nucleo umc0 = []"
    by (simp_all add: umc0_def umc1_def EXITO_SWAP_def of_cint_def)
  then show ?thesis using umc_un_programa [OF s1] s1 by simp
qed

text \<open>
  C31: \<^verbatim>\<open>buscarVictimaClock\<close> is the clock algorithm with second chance: it always returns, its victim is
  the first frame of the process, going round from its pointer, whose reference bit is 0, or its
  first frame when every bit is 1; the bits of the frames it passed, and only they, are cleared, and
  the pointer moves to the next frame of the process.
\<close>

theorem clock_correct:
  assumes lists: "umc_lists L elems" and ok: "marcos_ok elems s" and n: "length (elems (listaDeFrames s)) = n" "k < n"
    and bits: "\<forall>j < n. bitReferencia (lista_marcos elems s ! j) \<in> {0, 1}"
    and some: "\<exists>j < n. f_pid (lista_marcos elems s ! j) = pid"
    and free: "MutexProcs \<notin> tomados s" "MutexMarcos \<notin> tomados s"
    and proc: "buscar_pid L pid s = Some (Some (i, p))" "i < length (elems (listaDeProcesos s))" "elems (listaDeProcesos s) ! i = p"
      "procesos s p = Some pr" "indiceRecorridaClock pr = Some k"
  shows "\<exists>v w s'. buscarVictimaClock L pid s = Some (v, s')
    \<and> segunda_oportunidad pid k (lista_marcos elems s) = Some v
    \<and> (\<forall>j < n. lista_marcos elems s' ! j = (let m = lista_marcos elems s ! j in
          if j \<in> pasados pid k (lista_marcos elems s) \<and> f_pid m = pid then m\<lparr>bitReferencia := 0\<rparr> else m))
    \<and> List.find (\<lambda>j. f_pid (lista_marcos elems s ! j) = pid) (ronda (Suc v mod n) n) = Some w
    \<and> procesos s' p = Some (pr\<lparr>indiceRecorridaClock := Some w\<rparr>) \<and> tomados s' = tomados s"
proof -
  let ?t = "quitar_R elems pid (pasados pid k (lista_marcos elems s)) s"
  obtain v w where r: "buscarVictimaClock L pid s = Some (v, upd_proceso p (\<lambda>pr. pr\<lparr>indiceRecorridaClock := Some w\<rparr>) ?t)"
      "segunda_oportunidad pid k (lista_marcos elems s) = Some v"
      "List.find (\<lambda>j. f_pid (lista_marcos elems s ! j) = pid) (ronda (Suc v mod n) n) = Some w"
    using umc_lists.buscarVictimaClock_run [OF lists ok n bits some free proc] by blast
  have "lista_marcos elems (upd_proceso p f ?t) = lista_marcos elems ?t" for f
    by (simp add: lista_marcos_def upd_proceso_def)
  then show ?thesis
    using r proc(4) lista_quitar_R [OF ok] n(1)
    by (intro exI [of _ v] exI [of _ w] exI [of _ "upd_proceso p (\<lambda>pr. pr\<lparr>indiceRecorridaClock := Some w\<rparr>) ?t"])
      (simp add: upd_proceso_def quitar_R_def)
qed

lemma umc_hol: "umc_lists hol_list_more (\<lambda>l. l)"
  by unfold_locales

lemma clock_correct_witness:
  "\<exists>v s'. buscarVictimaClock hol_list_more 1 umc1 = Some (v, s') \<and> v = 0 \<and> bitReferencia (lista_marcos (\<lambda>l. l) s' ! 0) = 0"
proof -
  have ms: "lista_marcos (\<lambda>l. l) umc1 = [\<lparr>f_id_frame = 0, f_pid = 1, bitReferencia = 1, bitModificado = 0\<rparr>,
       \<lparr>f_id_frame = 1, f_pid = 0, bitReferencia = 0, bitModificado = 0\<rparr>]"
    by (simp add: lista_marcos_def umc1_def)
  have v: "ronda 0 (Suc (Suc 0)) = [0, 1]" "ronda 0 2 = [0, 1]" by (simp_all add: ronda_def numeral_2_eq_2)
  have two: "(\<forall>j < (2 :: nat). P j) = (P 0 \<and> P 1)" "(\<exists>j < (2 :: nat). P j) = (P 0 \<or> P 1)" for P
    by (auto simp: numeral_2_eq_2 less_Suc_eq)
  have st: "marcos_ok (\<lambda>l. l) umc1" "MutexProcs \<notin> tomados umc1" "MutexMarcos \<notin> tomados umc1" "listaDeProcesos umc1 = [10]"
      "length (listaDeFrames umc1) = 2" "buscar_pid hol_list_more 1 umc1 = Some (Some (0, 10))"
    by (simp_all add: umc1_def marcos_ok_def umc_steps)
  have pr: "procesos umc1 10 = Some \<lparr>pr_pid = 1, pr_cantPaginas = 2, cantFramesAsignados = 1, indiceRecorridaClock = Some 0,
       lista_paginas = [20, 21]\<rparr>"
    by (simp add: umc1_def)
  from clock_correct [OF umc_hol st(1,5) _ _ _ st(2,3,6) _ _ pr, of 0]
  show ?thesis
    by (auto simp: ms v two st segunda_oportunidad_def pasados_def)
qed

end
