(* ===== verification/Entrenador_State.thy ===== *)
theory Entrenador_State
  imports Mapa_State
begin

text \<open>
  The trainer process (\<^verbatim>\<open>entrenador/src\<close>): its structures, the connection to a map, the clock, the
  files. Its headers number the operation codes and the movements as those of the map do, so the
  constants of \<open>Mapa_State\<close> stand for both.

  Trainers' pokemons and maps are behind pointers, in lists of the list library (parameter \<open>L\<close>). The
  process at the other end of the connection, the configuration and string functions of the
  commons library, the clock and what the heap holds are fields of the parameter \<open>E\<close>. \<^verbatim>\<open>game_over\<close>
  ends the process: like undefined behaviour, it is the value \<open>None\<close>.
\<close>

type_synonym coor = "byte \<times> byte"
type_synonym path = "byte list"

record t_pokemon =
  poke_name :: "byte list"
  poke_simbol :: "byte list"
  poke_level :: "int option"              \<comment> \<open>\<open>None\<close>: not set\<close>
  poke_coor :: coor

record 'l t_map =
  map_name :: "byte list"
  map_ip :: "byte list"
  map_port :: "byte list"
  medal_path :: "path option"             \<comment> \<open>\<open>None\<close>: not set\<close>
  pokemon_list :: 'l
  index_current_pokemon :: int

record 'l t_coach =
  coach_name :: "byte list"
  coach_simbol :: "byte list"
  coach_life :: int
  pokenest_time :: int
  coach_coor :: "coor option"             \<comment> \<open>\<open>None\<close>: not set\<close>
  coach_pokemons :: 'l
  travel_sheet :: 'l
  index_current_map :: int
  count_deadlock :: int

text \<open>
  \<open>conecta ip port\<close> is the peer reached there, \<open>atiende\<close> what it sends back for the bytes it gets.
  \<open>tras_mov\<close> is the heap after the one byte a movement is written to, which may be another one in each
  step (it depends on the peer, whose state every request changes), \<open>basura_tamanio\<close> the size byte
  of a message whose size is not set, \<open>hora k\<close> the \<open>k\<close>-th reading of the clock. The configuration
  functions take the contents of the file; \<open>abre\<close> tells whether a file can be opened for writing.
\<close>

record 'p coach_env =
  conecta :: "byte list \<Rightarrow> byte list \<Rightarrow> 'p option"
  atiende :: "byte list \<Rightarrow> 'p \<Rightarrow> byte list \<times> 'p"
  tras_mov :: "'p option \<Rightarrow> byte list"
  basura_tamanio :: byte
  hora :: "nat \<Rightarrow> int"
  string_split :: "byte list \<Rightarrow> byte list \<Rightarrow> byte list list"
  config_string :: "byte list \<Rightarrow> byte list \<Rightarrow> byte list option"
  config_int :: "byte list \<Rightarrow> byte list \<Rightarrow> int option"
  config_array :: "byte list \<Rightarrow> byte list \<Rightarrow> byte list list option"
  abre :: "path \<Rightarrow> bool"

record ('l, 'p) juego =
  coach :: "'l t_coach"
  pokes :: "ptr \<Rightarrow> t_pokemon option"
  hojas :: "ptr \<Rightarrow> 'l t_map option"
  libre :: ptr                            \<comment> \<open>what the next \<^verbatim>\<open>malloc\<close> returns\<close>
  servidor :: "'p option"                 \<comment> \<open>\<open>None\<close>: not connected\<close>
  entrada :: "byte list"                  \<comment> \<open>received and not yet read\<close>
  archivos :: "path \<Rightarrow> byte list option"
  consultas :: nat                        \<comment> \<open>readings of the clock so far\<close>
  death_count :: int
  reintentos :: int

definition upd_coach :: "('l t_coach \<Rightarrow> 'l t_coach) \<Rightarrow> ('l, 'p) juego \<Rightarrow> ('l, 'p) juego" where
  "upd_coach f s = s\<lparr>coach := f (coach s)\<rparr>"

definition upd_poke :: "ptr \<Rightarrow> (t_pokemon \<Rightarrow> t_pokemon) \<Rightarrow> ('l, 'p) juego \<Rightarrow> ('l, 'p) juego" where
  "upd_poke p f s = s\<lparr>pokes := (pokes s)(p := map_option f (pokes s p))\<rparr>"

definition upd_map :: "ptr \<Rightarrow> ('l t_map \<Rightarrow> 'l t_map) \<Rightarrow> ('l, 'p) juego \<Rightarrow> ('l, 'p) juego" where
  "upd_map p f s = s\<lparr>hojas := (hojas s)(p := map_option f (hojas s p))\<rparr>"

definition tiempo :: "'p coach_env \<Rightarrow> ('l, 'p) juego \<Rightarrow> int \<times> ('l, 'p) juego" where
  "tiempo E s = (hora E (consultas s), s\<lparr>consultas := Suc (consultas s)\<rparr>)"

section \<open>Conexion\<close>

definition connection_create_open :: "'p coach_env \<Rightarrow> byte list \<Rightarrow> byte list \<Rightarrow> ('l, 'p) juego \<Rightarrow> ('l, 'p) juego option" where
  "connection_create_open E ip port s =
     map_option (\<lambda>p. s\<lparr>servidor := Some p, entrada := []\<rparr>) (conecta E ip port)"

definition connection_destroy :: "('l, 'p) juego \<Rightarrow> ('l, 'p) juego" where
  "connection_destroy s = s\<lparr>servidor := None, entrada := []\<rparr>"

definition envia_coordenadas :: "byte \<Rightarrow> bool" where
  "envia_coordenadas oc \<longleftrightarrow> oc \<in> {OC_UBICACION_POKENEST, OC_UBICACION_ENTRENADOR}"

definition envia_texto :: "byte \<Rightarrow> bool" where
  "envia_texto oc \<longleftrightarrow> oc \<in> {OC_UBICAR_POKENEST, OC_UBICAR_ENTRENADOR, OC_AVANZAR_POSICION, OC_ATRAPAR_POKEMON,
     OC_OBTENER_MEDALLA, OC_MEDALLA, OC_MENSAJE, OC_POKEMON}"

text \<open>
  \<open>message\<close> is the memory behind the pointer. The size is one byte; for an operation code the
  function does not know it is never set.
\<close>

definition tamanio_mensaje :: "'p coach_env \<Rightarrow> byte \<Rightarrow> byte list \<Rightarrow> byte option" where
  "tamanio_mensaje E oc message =
     (if envia_coordenadas oc then Some 2
      else if envia_texto oc then (if 0 \<in> set message then Some (of_nat (length (cstr message))) else None)
      else Some (basura_tamanio E))"

definition coach_send :: "'p coach_env \<Rightarrow> byte \<Rightarrow> byte list \<Rightarrow> ('l, 'p) juego \<Rightarrow> ('l, 'p) juego option" where
  "coach_send E oc message s = do {
     tam \<leftarrow> tamanio_mensaje E oc message;
     p \<leftarrow> servidor s;
     if length message < unat tam then None
     else let (respuesta, p) = atiende E ([oc, tam] @ take (unat tam) message) p
       in Some (s\<lparr>servidor := Some p, entrada := entrada s @ respuesta\<rparr>)
   }"

definition recibe_coordenadas :: "byte \<Rightarrow> bool" where
  "recibe_coordenadas oc \<longleftrightarrow> oc \<in> {OC_UBICACION_POKENEST, OC_UBICACION_ENTRENADOR}"

definition recibe_texto :: "byte \<Rightarrow> bool" where
  "recibe_texto oc \<longleftrightarrow> oc \<in> {OC_UBICAR_POKENEST, OC_VICTIMA_DEADLOCK, OC_UBICAR_ENTRENADOR, OC_AVANZAR_POSICION,
     OC_CANTIDAD_DEADLOCK, OC_ATRAPAR_POKEMON, OC_OBTENER_MEDALLA, OC_MEDALLA, OC_MENSAJE, OC_GANO_BATALLA,
     OC_PERDIO_BATALLA, OC_POKEMON_BATALLA, OC_POKEMON}"

text \<open>
  The operation code and the message, \<open>None\<close> when the caller's pointer is left as it was. A text ends
  with a NUL at \<^verbatim>\<open>message_size\<close>, behind all its bytes when all of them came. Without an operation
  code, or with an unknown one, the game is over; without a size both variables keep what they had.
\<close>

definition coach_recv :: "('l, 'p) juego \<Rightarrow> ((byte \<times> byte list option) \<times> ('l, 'p) juego) option" where
  "coach_recv s =
     (case entrada s of
        [] \<Rightarrow> None
      | [oc] \<Rightarrow> Some ((oc, None), s\<lparr>entrada := []\<rparr>)
      | oc # tam # resto \<Rightarrow>
          let n = unat tam; m = take n resto; s = s\<lparr>entrada := drop n resto\<rparr> in
          if recibe_coordenadas oc then Some ((oc, if m = [] then None else Some m), s)
          else if recibe_texto oc then
            Some ((oc, if 0 < n \<and> m = [] then None else Some (if length m = n then m @ [0] else m)), s)
          else None)"

text \<open>The coordinates a message holds; \<open>None\<close> past what was received.\<close>

definition coor_de :: "byte list option \<Rightarrow> coor option" where
  "coor_de m = (case m of Some (x # y # _) \<Rightarrow> Some (x, y) | _ \<Rightarrow> None)"

section \<open>Files\<close>

text \<open>\<^verbatim>\<open>copy_file\<close>: blocks of 1000 bytes; a file that cannot be opened ends the process.\<close>

function copy_loop :: "byte list \<Rightarrow> byte list \<Rightarrow> byte list" where
  "copy_loop origen destino =
     (let buffer = take 1000 origen
      in if buffer = [] then destino else copy_loop (drop 1000 origen) (destino @ buffer))"
  by pat_completeness auto

termination copy_loop
  by (relation "measure (\<lambda>(origen, destino). length origen)") auto

declare copy_loop.simps [simp del]

definition copy_file :: "'p coach_env \<Rightarrow> path \<Rightarrow> path \<Rightarrow> ('l, 'p) juego \<Rightarrow> ('l, 'p) juego option" where
  "copy_file E f_origen f_destino s = do {
     contenido \<leftarrow> archivos s f_origen;
     if \<not> abre E f_destino then None
     else Some (s\<lparr>archivos := (archivos s)(f_destino \<mapsto> copy_loop (if f_origen = f_destino then [] else contenido) [])\<rparr>)
   }"

lemma copy_loop_all: "copy_loop origen destino = destino @ origen"
proof (induction origen destino rule: copy_loop.induct)
  case (1 origen destino)
  then show ?case by (subst copy_loop.simps) (auto simp: Let_def)
qed

text \<open>
  \<^verbatim>\<open>deleteDir\<close> removes \<^verbatim>\<open>path\<close> followed by each name of the directory, whether or not \<^verbatim>\<open>path\<close> ends
  with a slash.
\<close>

definition en_directorio :: "path \<Rightarrow> byte list \<Rightarrow> path" where
  "en_directorio path nombre = (if path \<noteq> [] \<and> last path = 47 then path @ nombre else path @ [47] @ nombre)"

definition deleteDir :: "path \<Rightarrow> ('l, 'p) juego \<Rightarrow> ('l, 'p) juego" where
  "deleteDir path s = s\<lparr>archivos := (\<lambda>f.
     let nombre = drop (length path) f in
     if take (length path) f = path \<and> nombre \<noteq> [] \<and> 47 \<notin> set nombre \<and> archivos s (en_directorio path nombre) \<noteq> None
     then None else archivos s f)\<rparr>"

end
