(* ===== verification/Entrenador_Viaje.thy ===== *)
theory Entrenador_Viaje
  imports Entrenador_State
begin

text \<open>
  \<^verbatim>\<open>Entrenador/entrenador.c\<close>, \<^verbatim>\<open>Mapa/mapa.c\<close> and the journey of \<^verbatim>\<open>main.c\<close>: how the trainer walks,
  captures, and goes from map to map.
\<close>

section \<open>Mapa\<close>

definition map_next_pokemon :: "('l, ptr) t_list_more \<Rightarrow> ptr \<Rightarrow> ('l, 'p) juego \<Rightarrow> (ptr option \<times> ('l, 'p) juego) option" where
  "map_next_pokemon L mapa s = do {
     m \<leftarrow> hojas s mapa;
     if int (list_size L (pokemon_list m)) > index_current_pokemon m + 1 then
       Some (list_get L (pokemon_list m) (nat (index_current_pokemon m + 1)),
         upd_map mapa (\<lambda>m. m\<lparr>index_current_pokemon := index_current_pokemon m + 1\<rparr>) s)
     else Some (None, s)
   }"

definition map_is_last_pokemon :: "('l, ptr) t_list_more \<Rightarrow> ptr \<Rightarrow> ('l, 'p) juego \<Rightarrow> bool option" where
  "map_is_last_pokemon L mapa s =
     map_option (\<lambda>m. int (list_size L (pokemon_list m)) = index_current_pokemon m + 1) (hojas s mapa)"

definition map_locate_pokemon :: "'p coach_env \<Rightarrow> ptr \<Rightarrow> ('l, 'p) juego \<Rightarrow> ('l, 'p) juego option" where
  "map_locate_pokemon E pokemon s = do {
     p \<leftarrow> pokes s pokemon;
     s \<leftarrow> coach_send E OC_UBICAR_POKENEST (poke_simbol p @ [0]) s;
     ((_, m), s) \<leftarrow> coach_recv s;
     c \<leftarrow> coor_de m;
     Some (upd_poke pokemon (\<lambda>p. p\<lparr>poke_coor := c\<rparr>) s)
   }"

section \<open>Walking\<close>

definition calcular_movimiento :: "byte \<Rightarrow> coor \<Rightarrow> coor \<Rightarrow> byte" where
  "calcular_movimiento lastMovement coor_entrenador coor_pokemon =
     (let moverHorizontalmente = ((lastMovement = MOVE_UP \<or> lastMovement = MOVE_DOWN) \<and> fst coor_entrenador \<noteq> fst coor_pokemon)
            \<or> snd coor_entrenador = snd coor_pokemon
      in if moverHorizontalmente
         then (if fst coor_entrenador < fst coor_pokemon then MOVE_RIGHT else MOVE_LEFT)
         else (if snd coor_entrenador < snd coor_pokemon then MOVE_DOWN else MOVE_UP))"

definition move_to :: "'p coach_env \<Rightarrow> byte \<Rightarrow> ('l, 'p) juego \<Rightarrow> ('l, 'p) juego option" where
  "move_to E movement s = do {
     s \<leftarrow> coach_send E OC_AVANZAR_POSICION (movement # tras_mov E (servidor s)) s;
     ((_, m), s) \<leftarrow> coach_recv s;
     c \<leftarrow> coor_de m;
     _ \<leftarrow> coach_coor (coach s);
     Some (upd_coach (\<lambda>e. e\<lparr>coach_coor := Some c\<rparr>) s)
   }"

partial_function (option) move_loop :: "'p coach_env \<Rightarrow> ptr \<Rightarrow> byte \<Rightarrow> ('l, 'p) juego \<Rightarrow> ('l, 'p) juego option" where
  "move_loop E pokemon last_movement s = do {
     c \<leftarrow> coach_coor (coach s);
     p \<leftarrow> pokes s pokemon;
     if c = poke_coor p then Some s
     else let last_movement = calcular_movimiento last_movement c (poke_coor p)
       in do {
         s \<leftarrow> move_to E last_movement s;
         move_loop E pokemon last_movement s
       }
   }"

definition coach_move_to_pokemon :: "'p coach_env \<Rightarrow> ptr \<Rightarrow> ('l, 'p) juego \<Rightarrow> ('l, 'p) juego option" where
  "coach_move_to_pokemon E pokemon = move_loop E pokemon MOVE_RIGHT"

section \<open>Capturing\<close>

definition esDeMayorNivel :: "('l, 'p) juego \<Rightarrow> ptr \<Rightarrow> ptr \<Rightarrow> bool option" where
  "esDeMayorNivel s p q = do {
     pokemon1 \<leftarrow> pokes s p;
     pokemon2 \<leftarrow> pokes s q;
     n1 \<leftarrow> poke_level pokemon1;
     n2 \<leftarrow> poke_level pokemon2;
     Some (n1 > n2)
   }"

definition coach_pokemon_battle :: "('l, ptr) t_list_more \<Rightarrow> 'p coach_env \<Rightarrow> ('l, 'p) juego \<Rightarrow> ('l, 'p) juego option" where
  "coach_pokemon_battle L E s = do {
     l \<leftarrow> list_sort L (coach_pokemons (coach s)) (esDeMayorNivel s);
     let s = upd_coach (\<lambda>e. e\<lparr>coach_pokemons := l\<rparr>) s;
     p \<leftarrow> list_get L l 0;
     pokemon \<leftarrow> pokes s p;
     coach_send E OC_POKEMON (poke_name pokemon @ [0]) s
   }"

text \<open>The messages until the pokemon is granted or the trainer is the victim; the last text received.\<close>

partial_function (option) capture_loop :: "('l, ptr) t_list_more \<Rightarrow> 'p coach_env \<Rightarrow> byte list option \<Rightarrow> ('l, 'p) juego
    \<Rightarrow> ((byte \<times> byte list option) \<times> ('l, 'p) juego) option" where
  "capture_loop L E ruta s = do {
     ((operation_code, m), s) \<leftarrow> coach_recv s;
     let ruta = (if m = None then ruta else m);
     s \<leftarrow> (if operation_code = OC_POKEMON_BATALLA then coach_pokemon_battle L E s else Some s);
     let s = (if operation_code = OC_GANO_BATALLA then upd_coach (\<lambda>e. e\<lparr>count_deadlock := count_deadlock e + 1\<rparr>) s else s);
     if operation_code \<noteq> OC_POKEMON \<and> operation_code \<noteq> OC_VICTIMA_DEADLOCK then capture_loop L E ruta s
     else Some ((operation_code, ruta), s)
   }"

definition nombre_de_archivo :: "'p coach_env \<Rightarrow> path \<Rightarrow> byte list option" where
  "nombre_de_archivo E ruta = (let arrayPath = string_split E ruta [47] in if arrayPath = [] then None else Some (last arrayPath))"

definition dir_del_entrenador :: "path \<Rightarrow> ('l, 'p) juego \<Rightarrow> string \<Rightarrow> path" where
  "dir_del_entrenador pathPokedex s d = pathPokedex @ ascii ''Entrenadores/'' @ coach_name (coach s) @ ascii d"

text \<open>The file of the pokemon is copied; its name in the destination and the destination.\<close>

definition copiar_pokemon :: "'p coach_env \<Rightarrow> path \<Rightarrow> byte list option \<Rightarrow> ('l, 'p) juego \<Rightarrow> ((byte list \<times> path) \<times> ('l, 'p) juego) option" where
  "copiar_pokemon E pathPokedex ruta s = do {
     origen \<leftarrow> msg_string ruta;
     nombreArchivo \<leftarrow> nombre_de_archivo E origen;
     let destino = dir_del_entrenador pathPokedex s ''/Dir de Bill/'' @ nombreArchivo;
     s \<leftarrow> copy_file E (pathPokedex @ origen) destino s;
     Some ((nombreArchivo, destino), s)
   }"

text \<open>The difference of the two readings is taken the wrong way round.\<close>

definition coach_capture_pokemon :: "('l, ptr) t_list_more \<Rightarrow> 'p coach_env \<Rightarrow> ptr \<Rightarrow> path \<Rightarrow> byte \<Rightarrow> ('l, 'p) juego
    \<Rightarrow> (byte \<times> ('l, 'p) juego) option" where
  "coach_capture_pokemon L E pokemon pathPokedex oc s = do {
     let (beginTime, s) = tiempo E s;
     p \<leftarrow> pokes s pokemon;
     s \<leftarrow> coach_send E oc (poke_simbol p @ [0]) s;
     ((operation_code, ruta), s) \<leftarrow> capture_loop L E None s;
     let (endTime, s) = tiempo E s;
     let s = upd_coach (\<lambda>e. e\<lparr>pokenest_time := pokenest_time e + (beginTime - endTime)\<rparr>) s;
     if operation_code = OC_VICTIMA_DEADLOCK then Some (operation_code, s)
     else do {
       ((nombreArchivo, destino), s) \<leftarrow> copiar_pokemon E pathPokedex ruta s;
       contenido \<leftarrow> archivos s destino;
       nivel \<leftarrow> config_int E contenido (ascii ''Nivel'');
       let s = upd_poke pokemon (\<lambda>p. p\<lparr>poke_name := nombreArchivo, poke_level := Some nivel\<rparr>) s;
       Some (operation_code, upd_coach (\<lambda>e. e\<lparr>coach_pokemons := list_add L (coach_pokemons e) pokemon\<rparr>) s)
     }
   }"

definition coach_capture_last_pokemon :: "'p coach_env \<Rightarrow> ptr \<Rightarrow> path \<Rightarrow> ('l, 'p) juego \<Rightarrow> (byte \<times> ('l, 'p) juego) option" where
  "coach_capture_last_pokemon E pokemon pathPokedex s = do {
     let (beginTime, s) = tiempo E s;
     p \<leftarrow> pokes s pokemon;
     s \<leftarrow> coach_send E OC_ATRAPAR_ULTIMO_POKEMON (poke_simbol p @ [0]) s;
     ((operation_code, ruta), s) \<leftarrow> coach_recv s;
     let (endTime, s) = tiempo E s;
     let s = upd_coach (\<lambda>e. e\<lparr>pokenest_time := pokenest_time e + (endTime - beginTime)\<rparr>) s;
     if operation_code = OC_VICTIMA_DEADLOCK then Some (operation_code, s)
     else do {
       (_, s) \<leftarrow> copiar_pokemon E pathPokedex ruta s;
       Some (operation_code, s)
     }
   }"

section \<open>A map\<close>

definition coach_connect_to_map :: "'p coach_env \<Rightarrow> ptr \<Rightarrow> ('l, 'p) juego \<Rightarrow> ('l, 'p) juego option" where
  "coach_connect_to_map E mapa s = do {
     m \<leftarrow> hojas s mapa;
     connection_create_open E (map_ip m) (map_port m) s
   }"

definition coach_handshake :: "'p coach_env \<Rightarrow> ptr \<Rightarrow> ('l, 'p) juego \<Rightarrow> ('l, 'p) juego option" where
  "coach_handshake E mapa s = do {
     s \<leftarrow> coach_send E OC_UBICAR_ENTRENADOR (coach_simbol (coach s) @ [0]) s;
     ((_, m), s) \<leftarrow> coach_recv s;
     s \<leftarrow> coach_send E OC_OBTENER_MEDALLA (coach_simbol (coach s) @ [0]) s;
     ((_, ruta), s) \<leftarrow> coach_recv s;
     let s = (if ruta = None then s else upd_map mapa (\<lambda>m. m\<lparr>medal_path := ruta\<rparr>) s);
     s \<leftarrow> coach_send E OC_MENSAJE (coach_name (coach s) @ [0]) s;
     c \<leftarrow> coor_de m;
     Some (upd_coach (\<lambda>e. e\<lparr>coach_coor := Some c\<rparr>) s)
   }"

definition conectar_entrenador_mapa :: "'p coach_env \<Rightarrow> ptr \<Rightarrow> ('l, 'p) juego \<Rightarrow> ('l, 'p) juego option" where
  "conectar_entrenador_mapa E mapa s = do {
     s \<leftarrow> coach_connect_to_map E mapa s;
     coach_handshake E mapa s
   }"

definition desconectar_entrenador_mapa :: "('l, 'p) juego \<Rightarrow> ('l, 'p) juego" where
  "desconectar_entrenador_mapa s = connection_destroy s"

definition coach_medal_copy :: "'p coach_env \<Rightarrow> ptr \<Rightarrow> path \<Rightarrow> ('l, 'p) juego \<Rightarrow> ('l, 'p) juego option" where
  "coach_medal_copy E mapa pathPokedex s = do {
     m \<leftarrow> hojas s mapa;
     origen \<leftarrow> msg_string (medal_path m);
     nombreArchivo \<leftarrow> nombre_de_archivo E origen;
     copy_file E (pathPokedex @ origen) (dir_del_entrenador pathPokedex s ''/medallas/'' @ nombreArchivo) s
   }"

text \<open>The result is \<open>None\<close> for a variable never set: the map had no pokemon to ask for.\<close>

definition capturar_objetivo :: "('l, ptr) t_list_more \<Rightarrow> 'p coach_env \<Rightarrow> ptr \<Rightarrow> path \<Rightarrow> ptr \<Rightarrow> ('l, 'p) juego
    \<Rightarrow> (byte \<times> ('l, 'p) juego) option" where
  "capturar_objetivo L E mapa pathPokedex pokemon s = do {
     s \<leftarrow> map_locate_pokemon E pokemon s;
     s \<leftarrow> coach_move_to_pokemon E pokemon s;
     ultimo \<leftarrow> map_is_last_pokemon L mapa s;
     coach_capture_pokemon L E pokemon pathPokedex (if ultimo then OC_ATRAPAR_ULTIMO_POKEMON else OC_ATRAPAR_POKEMON) s
   }"

partial_function (option) completar_loop :: "('l, ptr) t_list_more \<Rightarrow> 'p coach_env \<Rightarrow> ptr \<Rightarrow> path \<Rightarrow> byte option \<Rightarrow> ('l, 'p) juego
    \<Rightarrow> (byte option \<times> ('l, 'p) juego) option" where
  "completar_loop L E mapa pathPokedex oc s = do {
     (pokemon, s) \<leftarrow> map_next_pokemon L mapa s;
     case pokemon of
       None \<Rightarrow> do {
         s \<leftarrow> coach_medal_copy E mapa pathPokedex s;
         Some (oc, s)
       }
     | Some pokemon \<Rightarrow> do {
         (oc, s) \<leftarrow> capturar_objetivo L E mapa pathPokedex pokemon s;
         if oc = OC_VICTIMA_DEADLOCK then Some (Some oc, s)
         else completar_loop L E mapa pathPokedex (Some oc) s
       }
   }"

definition completar_mapa :: "('l, ptr) t_list_more \<Rightarrow> 'p coach_env \<Rightarrow> ptr \<Rightarrow> path \<Rightarrow> ('l, 'p) juego
    \<Rightarrow> (byte option \<times> ('l, 'p) juego) option" where
  "completar_mapa L E mapa pathPokedex = completar_loop L E mapa pathPokedex None"

section \<open>The journey\<close>

definition coach_next_map :: "('l, ptr) t_list_more \<Rightarrow> ('l, 'p) juego \<Rightarrow> ptr option \<times> ('l, 'p) juego" where
  "coach_next_map L s =
     (let s = upd_coach (\<lambda>e. e\<lparr>index_current_map := index_current_map e + 1\<rparr>) s; e = coach s
      in if int (list_size L (travel_sheet e)) > index_current_map e
         then (list_get L (travel_sheet e) (nat (index_current_map e)), s) else (None, s))"

definition pathDirDeBill :: "path \<Rightarrow> byte list \<Rightarrow> path" where
  "pathDirDeBill pathPokedex nombre = pathPokedex @ ascii ''Entrenadores/'' @ nombre @ ascii ''/Dir de Bill/''"

definition pathMedallas :: "path \<Rightarrow> byte list \<Rightarrow> path" where
  "pathMedallas pathPokedex nombre = pathPokedex @ ascii ''Entrenadores/'' @ nombre @ ascii ''/medallas''"

text \<open>A trainer that died in a deadlock: one life less, and the goals of the map from the start.\<close>

definition morir :: "ptr \<Rightarrow> ('l, 'p) juego \<Rightarrow> ('l, 'p) juego" where
  "morir mapa s =
     (let s = upd_coach (\<lambda>e. e\<lparr>coach_life := coach_life e - 1\<rparr>) s;
          s = s\<lparr>death_count := death_count s + 1\<rparr>;
          s = upd_coach (\<lambda>e. e\<lparr>count_deadlock := count_deadlock e + 1\<rparr>) s
      in upd_map mapa (\<lambda>m. m\<lparr>index_current_pokemon := - 1\<rparr>) s)"

partial_function (option) ruta_loop :: "('l, ptr) t_list_more \<Rightarrow> 'p coach_env \<Rightarrow> path \<Rightarrow> byte list \<Rightarrow> ptr option \<Rightarrow> ('l, 'p) juego
    \<Rightarrow> ('l, 'p) juego option" where
  "ruta_loop L E pathPokedex nombre mapa s =
     (case mapa of None \<Rightarrow> Some s
      | Some m \<Rightarrow> do {
          s \<leftarrow> conectar_entrenador_mapa E m s;
          (oc, s) \<leftarrow> completar_mapa L E m pathPokedex s;
          let s = deleteDir (pathDirDeBill pathPokedex nombre) (desconectar_entrenador_mapa s);
          oc \<leftarrow> oc;
          if oc = OC_VICTIMA_DEADLOCK then
            let s = morir m s in
            if coach_life (coach s) > 0
            then ruta_loop L E pathPokedex nombre (Some m) (deleteDir (pathDirDeBill pathPokedex nombre) s)
            else Some s
          else case coach_next_map L s of (mapa, s) \<Rightarrow> ruta_loop L E pathPokedex nombre mapa s
        })"

definition iniciar_ruta_de_viaje :: "('l, ptr) t_list_more \<Rightarrow> 'p coach_env \<Rightarrow> path \<Rightarrow> byte list \<Rightarrow> ('l, 'p) juego \<Rightarrow> ('l, 'p) juego option" where
  "iniciar_ruta_de_viaje L E pathPokedex nombre s =
     (let e = coach s in
      if index_current_map e < 0 then ruta_loop L E pathPokedex nombre None s
      else ruta_loop L E pathPokedex nombre (list_get L (travel_sheet e) (nat (index_current_map e))) s)"

end
