(* ===== verification/Entrenador_Walk.thy ===== *)
theory Entrenador_Walk
  imports Entrenador_Viaje Mapa_Scheduler
begin

text \<open>
  The walk of a trainer to a nest, against any map that answers a movement with the new position
  (locale \<open>mapa_remoto\<close>), and the model of the map server as such a map.
\<close>

section \<open>Positions\<close>

type_synonym posicion_xy = "int \<times> int"

definition movimientos :: "byte set" where
  "movimientos = {MOVE_UP, MOVE_RIGHT, MOVE_DOWN, MOVE_LEFT}"

fun mover_xy :: "byte \<Rightarrow> posicion_xy \<Rightarrow> posicion_xy" where
  "mover_xy m (x, y) =
     (if m = MOVE_UP then (x, y - 1) else if m = MOVE_DOWN then (x, y + 1)
      else if m = MOVE_RIGHT then (x + 1, y) else if m = MOVE_LEFT then (x - 1, y) else (x, y))"

definition en_bytes :: "posicion_xy \<Rightarrow> coor" where
  "en_bytes xy = (word_of_int (fst xy), word_of_int (snd xy))"

definition en_mapa :: "posicion_xy \<Rightarrow> bool" where
  "en_mapa xy \<longleftrightarrow> 0 \<le> fst xy \<and> fst xy < 256 \<and> 0 \<le> snd xy \<and> snd xy < 256"

definition pasos_hasta :: "posicion_xy \<Rightarrow> coor \<Rightarrow> nat" where
  "pasos_hasta xy c = nat (\<bar>fst xy - uint (fst c)\<bar> + \<bar>snd xy - uint (snd c)\<bar>)"

lemma uint_byte_of_int: "0 \<le> x \<Longrightarrow> x < 256 \<Longrightarrow> uint (word_of_int x :: byte) = x"
  by (simp add: uint_word_of_int take_bit_int_eq_self)

lemma pasos_hasta_0:
  assumes "en_mapa xy"
  shows "pasos_hasta xy c = 0 \<longleftrightarrow> en_bytes xy = c"
proof -
  have "en_bytes xy = c \<longleftrightarrow> fst xy = uint (fst c) \<and> snd xy = uint (snd c)"
    using assms by (cases c) (auto simp: en_bytes_def en_mapa_def uint_byte_of_int)
  then show ?thesis by (auto simp: pasos_hasta_def)
qed

lemma calcular_movimiento_mem: "calcular_movimiento l c d \<in> movimientos"
  by (simp add: calcular_movimiento_def movimientos_def Let_def)

text \<open>Every movement the trainer chooses takes it one step nearer and keeps it on the map.\<close>

lemma calcular_movimiento_acerca:
  assumes m: "en_mapa xy" and lejos: "en_bytes xy \<noteq> d"
  shows "en_mapa (mover_xy (calcular_movimiento l (en_bytes xy) d) xy)
    \<and> pasos_hasta xy d = Suc (pasos_hasta (mover_xy (calcular_movimiento l (en_bytes xy) d) xy) d)"
proof -
  obtain x y a b where xy: "xy = (x, y)" and d: "d = (a, b)" by (cases xy, cases d)
  have r: "0 \<le> x" "x < 256" "0 \<le> y" "y < 256" using m by (simp_all add: en_mapa_def xy)
  have a: "0 \<le> uint a" "uint a < 256" "0 \<le> uint b" "uint b < 256"
    using uint_lt2p [of a] uint_lt2p [of b] by simp_all
  have less: "(word_of_int x :: byte) < a \<longleftrightarrow> x < uint a" "(word_of_int y :: byte) < b \<longleftrightarrow> y < uint b"
    "(word_of_int x :: byte) = a \<longleftrightarrow> x = uint a" "(word_of_int y :: byte) = b \<longleftrightarrow> y = uint b"
    using r by (auto simp: word_less_def uint_byte_of_int)
  have ne: "x \<noteq> uint a \<or> y \<noteq> uint b" using lejos less by (simp add: en_bytes_def xy d)
  define H where "H \<longleftrightarrow> (l = MOVE_UP \<or> l = MOVE_DOWN) \<and> x \<noteq> uint a \<or> y = uint b"
  have H: "H \<Longrightarrow> x \<noteq> uint a" "\<not> H \<Longrightarrow> y \<noteq> uint b" using ne by (auto simp: H_def)
  have calc: "calcular_movimiento l (en_bytes xy) d =
      (if H then if x < uint a then MOVE_RIGHT else MOVE_LEFT else if y < uint b then MOVE_DOWN else MOVE_UP)"
    by (auto simp: calcular_movimiento_def en_bytes_def xy d less H_def Let_def)
  define A B where "A = uint a" and "B = uint b"
  note AB = A_def [symmetric] B_def [symmetric]
  show ?thesis
    unfolding calc AB using r a [unfolded AB] H [unfolded AB]
    by (cases H; cases "x < A"; cases "y < B") (auto simp: xy d en_mapa_def pasos_hasta_def AB MOVE_defs)
qed

section \<open>A map at the other end\<close>

definition mensaje_avanzar :: "'p coach_env \<Rightarrow> 'p \<Rightarrow> byte \<Rightarrow> byte list" where
  "mensaje_avanzar E p m = (let t = cstr (tras_mov E (Some p)) in [OC_AVANZAR_POSICION, of_nat (Suc (length t)), m] @ t)"

text \<open>The byte of a movement is followed by something that ends, within the reach of a size byte.\<close>

definition mov_acotado :: "'p coach_env \<Rightarrow> bool" where
  "mov_acotado E \<longleftrightarrow> (\<forall>p. 0 \<in> set (tras_mov E p) \<and> length (cstr (tras_mov E p)) < 255)"

lemma cstr_cons: "m \<noteq> 0 \<Longrightarrow> cstr (m # bs) = m # cstr bs"
  by (simp add: cstr_def)

lemma take_cstr: "take (length (cstr bs)) bs = cstr bs"
  by (simp add: cstr_def takeWhile_eq_take [symmetric])

lemma send_avanzar:
  assumes "mov_acotado E" "m \<in> movimientos" "servidor s = Some p"
    and "atiende E (mensaje_avanzar E p m) p = (respuesta, p')"
  shows "coach_send E OC_AVANZAR_POSICION (m # tras_mov E (servidor s)) s
    = Some (s\<lparr>servidor := Some p', entrada := entrada s @ respuesta\<rparr>)"
proof -
  let ?t = "cstr (tras_mov E (Some p))"
  have m: "m \<noteq> 0" using assms(2) by (auto simp: movimientos_def MOVE_defs)
  have n: "unat (of_nat (Suc (length ?t)) :: byte) = Suc (length ?t)"
    using assms(1) by (simp add: mov_acotado_def unat_of_nat_byte del: of_nat_Suc)
  have le: "length ?t \<le> length (tras_mov E (Some p))" by (rule length_cstr_le)
  have tam: "tamanio_mensaje E OC_AVANZAR_POSICION (m # tras_mov E (Some p)) = Some (of_nat (Suc (length ?t)))"
    using assms(1) m by (simp add: tamanio_mensaje_def envia_coordenadas_def envia_texto_def OC_defs mov_acotado_def cstr_cons)
  have msg: "[OC_AVANZAR_POSICION, of_nat (Suc (length ?t))] @ take (Suc (length ?t)) (m # tras_mov E (Some p)) = mensaje_avanzar E p m"
    by (simp add: mensaje_avanzar_def take_cstr Let_def del: of_nat_Suc)
  show ?thesis
    using assms(3,4) le msg n by (simp add: coach_send_def tam del: of_nat_Suc)
qed

locale mapa_remoto =
  fixes E :: "'p coach_env" and vale :: "'p \<Rightarrow> bool" and posicion :: "'p \<Rightarrow> posicion_xy"
  assumes acotado: "mov_acotado E"
    and responde: "vale p \<Longrightarrow> m \<in> movimientos \<Longrightarrow>
      \<exists>p'. atiende E (mensaje_avanzar E p m) p
          = ([OC_AVANZAR_POSICION, 2] @ (case en_bytes (mover_xy m (posicion p)) of (x, y) \<Rightarrow> [x, y]), p')
        \<and> vale p' \<and> posicion p' = mover_xy m (posicion p)"
begin

lemma move_to_run:
  assumes "servidor s = Some p" "vale p" "m \<in> movimientos" "entrada s = []" "coach_coor (coach s) \<noteq> None"
  shows "\<exists>p'. move_to E m s = Some (upd_coach (\<lambda>e. e\<lparr>coach_coor := Some (en_bytes (mover_xy m (posicion p)))\<rparr>)
      (s\<lparr>servidor := Some p'\<rparr>))
    \<and> vale p' \<and> posicion p' = mover_xy m (posicion p) \<and> p' = snd (atiende E (mensaje_avanzar E p m) p)"
proof -
  obtain x y where xy: "en_bytes (mover_xy m (posicion p)) = (x, y)" by fastforce
  obtain p' where p': "atiende E (mensaje_avanzar E p m) p = ([OC_AVANZAR_POSICION, 2, x, y], p')"
      "vale p'" "posicion p' = mover_xy m (posicion p)"
    using responde [OF assms(2,3)] xy by auto
  note send_avanzar [OF acotado assms(3,1) p'(1)]
  then show ?thesis
    using p' assms(4,5) xy
    by (auto simp: move_to_def coach_recv_def recibe_coordenadas_def recibe_texto_def OC_defs coor_de_def upd_coach_def)
qed

lemma move_loop_run:
  assumes "servidor s = Some p" "vale p" "entrada s = []" "coach_coor (coach s) = Some (en_bytes (posicion p))"
    and "en_mapa (posicion p)" "pokes s q = Some k"
  shows "\<exists>ms p'. move_loop E q l s = Some (upd_coach (\<lambda>e. e\<lparr>coach_coor := Some (poke_coor k)\<rparr>) (s\<lparr>servidor := Some p'\<rparr>))
    \<and> length ms = pasos_hasta (posicion p) (poke_coor k) \<and> set ms \<subseteq> movimientos
    \<and> p' = fold (\<lambda>m p. snd (atiende E (mensaje_avanzar E p m) p)) ms p
    \<and> vale p' \<and> posicion p' = fold mover_xy ms (posicion p) \<and> en_bytes (posicion p') = poke_coor k \<and> en_mapa (posicion p')"
  using assms
proof (induction "pasos_hasta (posicion p) (poke_coor k)" arbitrary: s p l)
  case 0
  then have eq: "en_bytes (posicion p) = poke_coor k" using pasos_hasta_0 by simp
  have "upd_coach (\<lambda>e. e\<lparr>coach_coor := Some (poke_coor k)\<rparr>) (s\<lparr>servidor := Some p\<rparr>) = s"
    using 0 eq by (simp add: upd_coach_def)
  then show ?case
    using 0 eq move_loop.simps [of E q l s] by (intro exI [of _ "[]"] exI [of _ p]) simp
next
  case (Suc n)
  let ?m = "calcular_movimiento l (en_bytes (posicion p)) (poke_coor k)"
  have lejos: "en_bytes (posicion p) \<noteq> poke_coor k"
    using Suc.hyps(2) pasos_hasta_0 [OF Suc.prems(5)] by (metis nat.distinct(1))
  note near = calcular_movimiento_acerca [OF Suc.prems(5) lejos, of l]
  obtain p1 where p1: "move_to E ?m s = Some (upd_coach (\<lambda>e. e\<lparr>coach_coor := Some (en_bytes (mover_xy ?m (posicion p)))\<rparr>)
      (s\<lparr>servidor := Some p1\<rparr>))" (is "_ = Some ?s1")
    and vp: "vale p1" "posicion p1 = mover_xy ?m (posicion p)" "p1 = snd (atiende E (mensaje_avanzar E p ?m) p)"
    using move_to_run [OF Suc.prems(1,2) calcular_movimiento_mem Suc.prems(3)] Suc.prems(4) by auto
  have s1: "servidor ?s1 = Some p1" "entrada ?s1 = []" "coach_coor (coach ?s1) = Some (en_bytes (posicion p1))"
      "pokes ?s1 q = Some k"
    using Suc.prems(3,6) vp(2) by (simp_all add: upd_coach_def)
  have n: "n = pasos_hasta (posicion p1) (poke_coor k)" using Suc.hyps(2) near vp(2) by simp
  have map1: "en_mapa (posicion p1)" using near vp(2) by simp
  obtain ms p' where r: "move_loop E q ?m ?s1 = Some (upd_coach (\<lambda>e. e\<lparr>coach_coor := Some (poke_coor k)\<rparr>) (?s1\<lparr>servidor := Some p'\<rparr>))"
      "length ms = n" "set ms \<subseteq> movimientos" "p' = fold (\<lambda>m p. snd (atiende E (mensaje_avanzar E p m) p)) ms p1"
      "vale p'" "posicion p' = fold mover_xy ms (posicion p1)" "en_bytes (posicion p') = poke_coor k" "en_mapa (posicion p')"
    using Suc.hyps(1) [OF n s1(1) vp(1) s1(2,3) map1 s1(4), of ?m] n by blast
  have "move_loop E q l s = move_loop E q ?m ?s1"
    using Suc.prems lejos p1 move_loop.simps [of E q l s] by (simp add: Let_def)
  moreover have "upd_coach (\<lambda>e. e\<lparr>coach_coor := Some (poke_coor k)\<rparr>) (?s1\<lparr>servidor := Some p'\<rparr>)
      = upd_coach (\<lambda>e. e\<lparr>coach_coor := Some (poke_coor k)\<rparr>) (s\<lparr>servidor := Some p'\<rparr>)"
    by (simp add: upd_coach_def)
  ultimately show ?case
    using r vp calcular_movimiento_mem Suc.hyps(2)
    by (intro exI [of _ "?m # ms"] exI [of _ p']) auto
qed

lemma coach_llega_run:
  assumes "servidor s = Some p" "vale p" "entrada s = []" "coach_coor (coach s) = Some (en_bytes (posicion p))"
    and "en_mapa (posicion p)" "pokes s q = Some k"
  shows "\<exists>ms p'. coach_move_to_pokemon E q s
      = Some (upd_coach (\<lambda>e. e\<lparr>coach_coor := Some (poke_coor k)\<rparr>) (s\<lparr>servidor := Some p'\<rparr>))
    \<and> length ms = pasos_hasta (posicion p) (poke_coor k) \<and> set ms \<subseteq> movimientos
    \<and> p' = fold (\<lambda>m p. snd (atiende E (mensaje_avanzar E p m) p)) ms p
    \<and> vale p' \<and> posicion p' = fold mover_xy ms (posicion p) \<and> en_bytes (posicion p') = poke_coor k \<and> en_mapa (posicion p')"
  unfolding coach_move_to_pokemon_def by (rule move_loop_run [OF assms])

end

section \<open>The map server as the peer\<close>

text \<open>
  What the map sends to one socket among its calls, and the map as the peer of trainer \<open>q\<close>: the bytes
  arrive at its socket and one request is served.
\<close>

definition enviado_a :: "int \<Rightarrow> map_call list \<Rightarrow> byte list" where
  "enviado_a fd cs = concat (map (\<lambda>c. case c of Send_to f bs \<Rightarrow> if f = fd then bs else [] | _ \<Rightarrow> []) cs)"

definition atiende_mapa :: "('l, ptr) t_list_more \<Rightarrow> ptr \<Rightarrow> byte list \<Rightarrow> 'l mapa \<Rightarrow> byte list \<times> 'l mapa" where
  "atiende_mapa L q bytes s =
     (case ents s q of None \<Rightarrow> ([], s)
      | Some e \<Rightarrow>
          let s1 = s\<lparr>streams := (streams s)(ent_id e := streams s (ent_id e) @ bytes)\<rparr> in
          case atenderSolicitud L q s1 of None \<Rightarrow> ([], s1)
          | Some (_, s2) \<Rightarrow> (enviado_a (ent_id e) (drop (length (calls s1)) (calls s2)), s2))"

definition en_espera :: "ptr \<Rightarrow> 'l mapa \<Rightarrow> bool" where
  "en_espera q s \<longleftrightarrow> (case ents s q of None \<Rightarrow> False | Some e \<Rightarrow> streams s (ent_id e) = [])"

definition posicion_en :: "ptr \<Rightarrow> 'l mapa \<Rightarrow> posicion_xy" where
  "posicion_en q s = (case ents s q of None \<Rightarrow> (0, 0) | Some e \<Rightarrow> (posx e, posy e))"

lemma connection_recv_avanzar:
  assumes "streams s fd = OC_AVANZAR_POSICION # of_nat (Suc (length t)) # m # t" "length t < 255"
  shows "connection_recv fd s = ((3 + int (length t), Some OC_AVANZAR_POSICION, Some (m # t @ [0])), s\<lparr>streams := (streams s)(fd := [])\<rparr>)"
proof -
  have "unat (of_nat (Suc (length t)) :: byte) = Suc (length t)"
    using assms(2) by (simp add: unat_of_nat_byte del: of_nat_Suc)
  then show ?thesis
    using assms(1) by (simp add: connection_recv_def recv_fd_def con_coordenadas_def con_texto_def OC_defs Let_def del: of_nat_Suc)
qed

lemma mover_posicion: "(posx (mover m e), posy (mover m e)) = mover_xy m (posx e, posy e)"
  by (simp add: mover_def)

lemma atiende_mapa_avanzar:
  assumes "en_espera q s" "length (cstr (tras_mov E (Some s))) < 255"
  shows "\<exists>s'. atiende_mapa L q (mensaje_avanzar E s m) s
      = ([OC_AVANZAR_POSICION, 2] @ (case en_bytes (mover_xy m (posicion_en q s)) of (x, y) \<Rightarrow> [x, y]), s')
    \<and> en_espera q s' \<and> posicion_en q s' = mover_xy m (posicion_en q s)"
proof -
  obtain e where e: "ents s q = Some e" "streams s (ent_id e) = []"
    using assms(1) by (auto simp: en_espera_def split: option.splits)
  let ?t = "cstr (tras_mov E (Some s))" and ?e = "mover m e"
  let ?s1 = "s\<lparr>streams := (streams s)(ent_id e := mensaje_avanzar E s m)\<rparr>"
  have st: "streams ?s1 (ent_id e) = OC_AVANZAR_POSICION # of_nat (Suc (length ?t)) # m # ?t"
    by (simp add: mensaje_avanzar_def Let_def)
  let ?cs = "[Send_to (ent_id e) [OC_AVANZAR_POSICION, 2, word_of_int (posx ?e), word_of_int (posy ?e)],
      MoverPersonaje (simbolo e) (posx ?e) (posy ?e)]"
  obtain s' where s': "atenderSolicitud L q ?s1 = Some (TURNO_NORMAL, s')" "ents s' q = Some ?e"
      "streams s' (ent_id e) = []" "calls s' = calls s @ ?cs"
    using connection_recv_avanzar [OF st assms(2)] e(1)
    by (simp add: atenderSolicitud_def responder_def OC_UBICAR_POKENEST_def OC_AVANZAR_POSICION_def
        avanzar_posicion_def msg_char_def Let_def emit_def upd_ent_def)
  have "(posx ?e, posy ?e) = mover_xy m (posicion_en q s)"
    using e(1) by (simp add: posicion_en_def mover_posicion del: mover_xy.simps)
  then have "en_bytes (mover_xy m (posicion_en q s)) = (word_of_int (posx ?e), word_of_int (posy ?e))"
    "posicion_en q s' = mover_xy m (posicion_en q s)"
    using s'(2) by (simp_all add: en_bytes_def posicion_en_def del: mover_xy.simps) (metis fst_conv snd_conv)+
  moreover have "atiende_mapa L q (mensaje_avanzar E s m) s = (enviado_a (ent_id e) ?cs, s')"
    using e s' by (simp add: atiende_mapa_def Let_def)
  ultimately show ?thesis
    using s'(2,3) by (intro exI [of _ s']) (simp add: enviado_a_def en_espera_def)
qed

lemma mapa_es_remoto:
  assumes "mov_acotado E" "atiende E = atiende_mapa L q"
  shows "mapa_remoto E (en_espera q) (posicion_en q)"
  using assms atiende_mapa_avanzar [of q _ E L] by unfold_locales (simp_all add: mov_acotado_def)

interpretation mapa_real: mapa_remoto "E\<lparr>atiende := atiende_mapa L q, tras_mov := \<lambda>p. 0 # t p\<rparr>" "en_espera q" "posicion_en q"
  by (rule mapa_es_remoto [where L=L]) (simp_all add: mov_acotado_def cstr_def)

end
