(* ===== verification/Entrenador_Metadata.thy ===== *)
theory Entrenador_Metadata
  imports Entrenador_Viaje
begin

text \<open>
  How the trainer is made from the configuration files (\<^verbatim>\<open>cargar_metadata\<close>), and what a signal and
  the loss of the last life do (\<^verbatim>\<open>main.c\<close>).
\<close>

definition pokemon_create :: "byte list \<Rightarrow> byte list \<Rightarrow> ('l, 'p) juego \<Rightarrow> ptr \<times> ('l, 'p) juego" where
  "pokemon_create name simbol s =
     (libre s, s\<lparr>libre := Suc (libre s), pokes := (pokes s)(libre s \<mapsto>
        \<lparr>poke_name = name, poke_simbol = simbol, poke_level = None, poke_coor = (0, 0)\<rparr>)\<rparr>)"

definition map_create :: "('l, ptr) t_list_more \<Rightarrow> byte list \<Rightarrow> byte list \<Rightarrow> byte list \<Rightarrow> ('l, 'p) juego \<Rightarrow> ptr \<times> ('l, 'p) juego" where
  "map_create L name ip port s =
     (libre s, s\<lparr>libre := Suc (libre s), hojas := (hojas s)(libre s \<mapsto>
        \<lparr>map_name = name, map_ip = ip, map_port = port, medal_path = None, pokemon_list = list_create L,
         index_current_pokemon = - 1\<rparr>)\<rparr>)"

definition coach_create :: "('l, ptr) t_list_more \<Rightarrow> byte list \<Rightarrow> byte list \<Rightarrow> int \<Rightarrow> 'l t_coach" where
  "coach_create L name simbol vidas =
     \<lparr>coach_name = name, coach_simbol = simbol, coach_life = vidas, pokenest_time = 0, coach_coor = None,
      coach_pokemons = list_create L, travel_sheet = list_create L, index_current_map = - 1, count_deadlock = 0\<rparr>"

text \<open>
  The goals of a map: the flag is set by a goal whose first letter is that of the one before.
\<close>

fun cargar_objetivos :: "('l, ptr) t_list_more \<Rightarrow> ptr \<Rightarrow> byte list list \<Rightarrow> byte \<Rightarrow> bool \<Rightarrow> ('l, 'p) juego \<Rightarrow> bool \<times> ('l, 'p) juego" where
  "cargar_objetivos L mapa [] objAnterior errorObjDelMapa s = (errorObjDelMapa, s)"
| "cargar_objetivos L mapa (obj # objs) objAnterior errorObjDelMapa s =
     (let (p, s) = pokemon_create (ascii ''desconocido'') obj s;
          s = upd_map mapa (\<lambda>m. m\<lparr>pokemon_list := list_add L (pokemon_list m) p\<rparr>) s;
          letra = (case obj of [] \<Rightarrow> 0 | c # _ \<Rightarrow> c)
      in if objAnterior \<noteq> 0 \<and> objAnterior = letra then cargar_objetivos L mapa objs objAnterior True s
         else cargar_objetivos L mapa objs letra errorObjDelMapa s)"

definition leer_config :: "path \<Rightarrow> ('l, 'p) juego \<Rightarrow> byte list option" where
  "leer_config f s = archivos s f"

definition cargar_mapa :: "('l, ptr) t_list_more \<Rightarrow> 'p coach_env \<Rightarrow> path \<Rightarrow> byte list \<Rightarrow> byte list \<Rightarrow> bool \<Rightarrow> ('l, 'p) juego
    \<Rightarrow> (bool \<times> ('l, 'p) juego) option" where
  "cargar_mapa L E pathPokedex configEntrenador nombre errorObjDelMapa s = do {
     configMapa \<leftarrow> leer_config (pathPokedex @ ascii ''Mapas/'' @ nombre @ ascii ''/metadata'') s;
     ip \<leftarrow> config_string E configMapa (ascii ''IP'');
     port \<leftarrow> config_string E configMapa (ascii ''Puerto'');
     objetivosDelMapa \<leftarrow> config_array E configEntrenador (ascii ''obj['' @ nombre @ ascii '']'');
     let (m, s) = map_create L nombre ip port s;
     let (errorObjDelMapa, s) = cargar_objetivos L m objetivosDelMapa 0 errorObjDelMapa s;
     Some (errorObjDelMapa, upd_coach (\<lambda>e. e\<lparr>travel_sheet := list_add L (travel_sheet e) m\<rparr>) s)
   }"

fun cargar_mapas :: "('l, ptr) t_list_more \<Rightarrow> 'p coach_env \<Rightarrow> path \<Rightarrow> byte list \<Rightarrow> byte list list \<Rightarrow> bool \<Rightarrow> ('l, 'p) juego
    \<Rightarrow> (bool \<times> ('l, 'p) juego) option" where
  "cargar_mapas L E pathPokedex configEntrenador [] errorObjDelMapa s = Some (errorObjDelMapa, s)"
| "cargar_mapas L E pathPokedex configEntrenador (nombre # hojaDeViaje) errorObjDelMapa s = do {
     (errorObjDelMapa, s) \<leftarrow> cargar_mapa L E pathPokedex configEntrenador nombre errorObjDelMapa s;
     cargar_mapas L E pathPokedex configEntrenador hojaDeViaje errorObjDelMapa s
   }"

definition cargar_metadata :: "('l, ptr) t_list_more \<Rightarrow> 'p coach_env \<Rightarrow> path \<Rightarrow> byte list \<Rightarrow> ('l, 'p) juego \<Rightarrow> ('l, 'p) juego option" where
  "cargar_metadata L E pathPokedex nombre_entrenador s = do {
     configEntrenador \<leftarrow> leer_config (pathPokedex @ ascii ''Entrenadores/'' @ nombre_entrenador @ ascii ''/metadata'') s;
     simbol \<leftarrow> config_string E configEntrenador (ascii ''simbolo'');
     vidas \<leftarrow> config_int E configEntrenador (ascii ''vidas'');
     let s = s\<lparr>coach := coach_create L nombre_entrenador simbol vidas\<rparr>;
     hojaDeViaje \<leftarrow> config_array E configEntrenador (ascii ''hojaDeViaje'');
     (errorObjDelMapa, s) \<leftarrow> cargar_mapas L E pathPokedex configEntrenador hojaDeViaje False s;
     if errorObjDelMapa then None else Some s
   }"

text \<open>
  The last life: the two directories are emptied, the metadata is read again, the counters of the
  time and of the deadlocks are kept, and the journey starts over.
\<close>

definition zero_lives :: "('l, ptr) t_list_more \<Rightarrow> 'p coach_env \<Rightarrow> path \<Rightarrow> byte list \<Rightarrow> ('l, 'p) juego \<Rightarrow> ('l, 'p) juego option" where
  "zero_lives L E pathPokedex nombre s = do {
     let s = desconectar_entrenador_mapa s;
     let s = s\<lparr>reintentos := reintentos s + 1\<rparr>;
     let s = deleteDir (pathDirDeBill pathPokedex nombre) s;
     let s = deleteDir (pathMedallas pathPokedex nombre) s;
     let aux_countDeadlock = count_deadlock (coach s);
     let aux_pokenestTime = pokenest_time (coach s);
     s \<leftarrow> cargar_metadata L E pathPokedex nombre s;
     let s = upd_coach (\<lambda>e. e\<lparr>count_deadlock := aux_countDeadlock, pokenest_time := aux_pokenestTime\<rparr>) s;
     let (_, s) = coach_next_map L s;
     iniciar_ruta_de_viaje L E pathPokedex nombre s
   }"

datatype senial = SIGTERM | SIGUSR1 | SIGINT

definition signal_handler :: "('l, ptr) t_list_more \<Rightarrow> 'p coach_env \<Rightarrow> path \<Rightarrow> byte list \<Rightarrow> senial \<Rightarrow> ('l, 'p) juego \<Rightarrow> ('l, 'p) juego option" where
  "signal_handler L E pathPokedex nombre senial s =
     (case senial of
        SIGTERM \<Rightarrow> let s = upd_coach (\<lambda>e. e\<lparr>coach_life := coach_life e - 1\<rparr>) s
          in if coach_life (coach s) > 0 then Some s else zero_lives L E pathPokedex nombre s
      | SIGUSR1 \<Rightarrow> Some (upd_coach (\<lambda>e. e\<lparr>coach_life := coach_life e + 1\<rparr>) s)
      | SIGINT \<Rightarrow> None)"

text \<open>From the start of \<^verbatim>\<open>main\<close> to the end of the journey, where \<^verbatim>\<open>game_over\<close> ends the process.\<close>

definition entrenador_main :: "('l, ptr) t_list_more \<Rightarrow> 'p coach_env \<Rightarrow> path \<Rightarrow> byte list \<Rightarrow> ('l, 'p) juego \<Rightarrow> ('l, 'p) juego option" where
  "entrenador_main L E pathPokedex nombre s = do {
     s \<leftarrow> cargar_metadata L E pathPokedex nombre s;
     let (_, s) = coach_next_map L s;
     s \<leftarrow> iniciar_ruta_de_viaje L E pathPokedex nombre s;
     if coach_life (coach s) < 1 then zero_lives L E pathPokedex nombre s else Some s
   }"

end
