(* ===== verification/Entrenador_Correct.thy ===== *)
theory Entrenador_Correct
  imports Entrenador_Walk Entrenador_Metadata Mapa_Sample
begin

text \<open>The properties of the trainer process, each with an instance on the sample map.\<close>

definition env1 :: "ptr list mapa coach_env" where
  "env1 = \<lparr>conecta = (\<lambda>_ _. None), atiende = atiende_mapa hol_list_more 1, tras_mov = (\<lambda>_. [0]), basura_tamanio = 0,
     hora = (\<lambda>k. 10 * int k), string_split = (\<lambda>s d. [s]), config_string = (\<lambda>_ _. None),
     config_int = (\<lambda>_ _. Some 7), config_array = (\<lambda>_ _. None), abre = (\<lambda>_. True)\<rparr>"

definition juego1 :: "(ptr list, ptr list mapa) juego" where
  "juego1 = \<lparr>coach = \<lparr>coach_name = [65], coach_simbol = [65], coach_life = 3, pokenest_time = 0,
       coach_coor = Some (1, 1), coach_pokemons = [], travel_sheet = [], index_current_map = 0, count_deadlock = 0\<rparr>,
     pokes = [7 \<mapsto> \<lparr>poke_name = [], poke_simbol = [81], poke_level = None, poke_coor = (5, 3)\<rparr>],
     hojas = Map.empty, libre = 8, servidor = Some (mapa1 (\<lambda>_. [])), entrada = [], archivos = Map.empty,
     consultas = 0, death_count = 0, reintentos = 0\<rparr>"

text \<open>
  C32: A trainer and the map server together: whatever the heap holds behind the byte of each movement,
  the trainer arrives at the nest, after as many requests as the distance in steps, and the map and
  the trainer agree on where it is.
\<close>

theorem entrenador_llega:
  assumes env: "mov_acotado E" "atiende E = atiende_mapa L q"
    and con: "servidor s = Some m" "entrada s = []" "en_espera q m"
    and pos: "coach_coor (coach s) = Some (en_bytes (posicion_en q m))" "en_mapa (posicion_en q m)"
    and nido: "pokes s k = Some p"
  shows "\<exists>ms m'. coach_move_to_pokemon E k s
      = Some (upd_coach (\<lambda>e. e\<lparr>coach_coor := Some (poke_coor p)\<rparr>) (s\<lparr>servidor := Some m'\<rparr>))
    \<and> length ms = pasos_hasta (posicion_en q m) (poke_coor p)
    \<and> m' = fold (\<lambda>b m. snd (atiende_mapa L q (mensaje_avanzar E m b) m)) ms m
    \<and> en_espera q m' \<and> en_bytes (posicion_en q m') = poke_coor p"
  using mapa_remoto.coach_llega_run [OF mapa_es_remoto [OF env] con(1,3,2) pos nido] env(2) by auto

lemma entrenador_llega_witness:
  "\<exists>(ms :: byte list) m'. coach_move_to_pokemon env1 7 juego1
      = Some (upd_coach (\<lambda>e. e\<lparr>coach_coor := Some (5, 3)\<rparr>) (juego1\<lparr>servidor := Some m'\<rparr>))
    \<and> length ms = 6 \<and> en_bytes (posicion_en 1 m') = (5, 3)"
proof -
  let ?m = "mapa1 (\<lambda>_. [])" and ?p = "\<lparr>poke_name = [], poke_simbol = [81], poke_level = None, poke_coor = (5, 3)\<rparr>"
  have env: "mov_acotado env1" "atiende env1 = atiende_mapa hol_list_more 1"
    by (simp_all add: env1_def mov_acotado_def cstr_def)
  have pos: "posicion_en 1 ?m = (1, 1)" "en_espera 1 ?m" "posicion_en (Suc 0) ?m = (1, 1)"
    by (simp_all add: posicion_en_def en_espera_def mapa1_def trainer_def)
  have st: "servidor juego1 = Some ?m" "entrada juego1 = []" "coach_coor (coach juego1) = Some (en_bytes (posicion_en 1 ?m))"
      "pokes juego1 7 = Some ?p" "en_mapa (posicion_en 1 ?m)" "pasos_hasta (1, 1) (5, 3) = 6"
    by (simp_all add: juego1_def pos en_bytes_def en_mapa_def pasos_hasta_def)
  obtain ms :: "byte list" and m' where r: "coach_move_to_pokemon env1 7 juego1
      = Some (upd_coach (\<lambda>e. e\<lparr>coach_coor := Some (5, 3)\<rparr>) (juego1\<lparr>servidor := Some m'\<rparr>))"
      "length ms = pasos_hasta (posicion_en 1 ?m) (5, 3)" "en_bytes (posicion_en 1 m') = (5, 3)"
    using entrenador_llega [OF env st(1,2) pos(2) st(3,5,4)] unfolding t_pokemon.simps by blast
  show ?thesis
    using r st(6) unfolding pos(1) by (intro exI [of _ ms] exI [of _ m']) simp
qed

section \<open>A capture\<close>

lemma send_simbolo:
  assumes "servidor s = Some m" "0 \<notin> set t" "length t < 256" "envia_texto oc" "\<not> envia_coordenadas oc"
  shows "coach_send E oc (t @ [0]) s = Some (case atiende E ([oc, of_nat (length t)] @ t) m of
      (r, m) \<Rightarrow> s\<lparr>servidor := Some m, entrada := entrada s @ r\<rparr>)"
proof -
  have c: "cstr (t @ [0]) = t" by (rule cstr_terminated [OF assms(2)])
  have n: "unat (of_nat (length t) :: byte) = length t" using assms(3) by (simp add: unat_of_nat_byte)
  show ?thesis using assms by (simp add: coach_send_def tamanio_mensaje_def c n split: prod.splits)
qed

lemma recv_packet:
  assumes "entrada s = packet OC_POKEMON ruta" "ruta \<noteq> []" "length ruta < 256"
  shows "coach_recv s = Some ((OC_POKEMON, Some (ruta @ [0])), s\<lparr>entrada := []\<rparr>)"
proof -
  have n: "unat (of_nat (length ruta) :: byte) = length ruta" using assms(3) by (simp add: unat_of_nat_byte)
  show ?thesis
    using assms by (simp add: coach_recv_def packet_def n recibe_coordenadas_def recibe_texto_def OC_defs Let_def)
qed

text \<open>
  C33: A capture that the map grants copies the file of the pokemon into the trainer's directory
  whole, gives the pokemon its name and the level of that file, adds it to the trainer's, and takes
  the time that passed away from the time spent waiting.
\<close>

theorem coach_captura_correct:
  fixes s :: "('l, 'p) juego"
  assumes con: "servidor s = Some m" "entrada s = []" and poke: "pokes s k = Some p"
    and simbol: "0 \<notin> set (poke_simbol p)" "length (poke_simbol p) < 256"
    and answer: "atiende E ([OC_ATRAPAR_POKEMON, of_nat (length (poke_simbol p))] @ poke_simbol p) m = (packet OC_POKEMON ruta, m')"
    and ruta: "ruta \<noteq> []" "length ruta < 256" "0 \<notin> set ruta" "string_split E ruta [47] \<noteq> []"
    and files: "archivos s (pokedex @ ruta) = Some datos" "pokedex @ ruta \<noteq> destino" "abre E destino" "config_int E datos (ascii ''Nivel'') = Some n"
    and destino: "destino = pathDirDeBill pokedex (coach_name (coach s)) @ last (string_split E ruta [47])"
  shows "\<exists>s'. coach_capture_pokemon L E k pokedex OC_ATRAPAR_POKEMON s = Some (OC_POKEMON, s')
    \<and> archivos s' = (archivos s)(destino \<mapsto> datos)
    \<and> pokes s' = (pokes s)(k \<mapsto> p\<lparr>poke_name := last (string_split E ruta [47]), poke_level := Some n\<rparr>)
    \<and> coach_pokemons (coach s') = list_add L (coach_pokemons (coach s)) k
    \<and> pokenest_time (coach s') = pokenest_time (coach s) - (hora E (Suc (consultas s)) - hora E (consultas s))"
proof -
  let ?s1 = "s\<lparr>consultas := Suc (consultas s)\<rparr>" and ?t = "poke_simbol p"
  let ?s2 = "?s1\<lparr>servidor := Some m', entrada := packet OC_POKEMON ruta\<rparr>"
  have texto: "envia_texto OC_ATRAPAR_POKEMON" "\<not> envia_coordenadas OC_ATRAPAR_POKEMON"
    by (simp_all add: envia_texto_def envia_coordenadas_def OC_defs)
  have send: "coach_send E OC_ATRAPAR_POKEMON (?t @ [0]) ?s1 = Some ?s2"
    using send_simbolo [OF _ simbol texto, of ?s1 m E] con answer by simp
  have recv: "coach_recv ?s2 = Some ((OC_POKEMON, Some (ruta @ [0])), ?s2\<lparr>entrada := []\<rparr>)"
    by (rule recv_packet) (simp_all add: ruta)
  have ocs: "OC_POKEMON \<noteq> OC_POKEMON_BATALLA" "OC_POKEMON \<noteq> OC_GANO_BATALLA" by (simp_all add: OC_defs)
  have loop: "capture_loop L E None ?s2 = Some ((OC_POKEMON, Some (ruta @ [0])), ?s2\<lparr>entrada := []\<rparr>)"
    using capture_loop.simps [of L E None ?s2] by (simp add: recv ocs Let_def)
  have ruta_text: "msg_string (Some (ruta @ [0])) = Some ruta"
    using ruta(3) by (simp add: msg_string_def cstr_terminated)
  have dir: "dir_del_entrenador pokedex u ''/Dir de Bill/'' = pathDirDeBill pokedex (coach_name (coach u))"
    for u :: "('l, 'p) juego"
    by (simp add: dir_del_entrenador_def pathDirDeBill_def)
  have ne: "OC_POKEMON \<noteq> OC_VICTIMA_DEADLOCK" by (simp add: OC_defs)
  show ?thesis
    using send loop ruta_text dir ruta(4) files destino poke ne
    by (simp add: coach_capture_pokemon_def tiempo_def copiar_pokemon_def nombre_de_archivo_def copy_file_def copy_loop_all
        upd_coach_def upd_poke_def Let_def)
qed

definition env2 :: "nat coach_env" where
  "env2 = \<lparr>conecta = (\<lambda>_ _. None), atiende = (\<lambda>_ n. (packet OC_POKEMON [77, 47, 80], Suc n)), tras_mov = (\<lambda>_. [0]), basura_tamanio = 0,
     hora = (\<lambda>k. 10 * int k), string_split = (\<lambda>s d. [[77], [80]]), config_string = (\<lambda>_ _. None),
     config_int = (\<lambda>_ _. Some 7), config_array = (\<lambda>_ _. None), abre = (\<lambda>_. True)\<rparr>"

definition juego2 :: "(ptr list, nat) juego" where
  "juego2 = \<lparr>coach = coach juego1, pokes = pokes juego1, hojas = Map.empty, libre = 8, servidor = Some 0, entrada = [],
     archivos = [[47, 77, 47, 80] \<mapsto> [1, 2, 3]], consultas = 0, death_count = 0, reintentos = 0\<rparr>"

lemma coach_captura_correct_witness:
  "\<exists>s'. coach_capture_pokemon hol_list_more env2 7 [47] OC_ATRAPAR_POKEMON juego2 = Some (OC_POKEMON, s')
    \<and> archivos s' (pathDirDeBill [47] [65] @ [80]) = Some [1, 2, 3]
    \<and> coach_pokemons (coach s') = [7] \<and> pokenest_time (coach s') = - 10"
proof -
  let ?p = "\<lparr>poke_name = [], poke_simbol = [81], poke_level = None, poke_coor = (5, 3)\<rparr>"
  have st: "servidor juego2 = Some 0" "entrada juego2 = []" "pokes juego2 7 = Some ?p" "0 \<notin> set (poke_simbol ?p)"
      "length (poke_simbol ?p) < 256" "coach_name (coach juego2) = [65]" "coach_pokemons (coach juego2) = []"
      "pokenest_time (coach juego2) = 0" "consultas juego2 = 0"
    by (simp_all add: juego2_def juego1_def)
  have env: "atiende env2 ([OC_ATRAPAR_POKEMON, of_nat (length (poke_simbol ?p))] @ poke_simbol ?p) 0
        = (packet OC_POKEMON [77, 47, 80], 1)"
      "string_split env2 [77, 47, 80] [47] = [[77], [80]]" "abre env2 d" "config_int env2 c k = Some 7" "hora env2 j = 10 * int j" for d c k j
    by (simp_all add: env2_def)
  have files: "archivos juego2 ([47] @ [77, 47, 80]) = Some [1, 2, 3]" by (simp add: juego2_def)
  have ne: "[47] @ [77, 47, 80] \<noteq> pathDirDeBill [47] [65] @ [80 :: byte]"
    by (simp add: pathDirDeBill_def ascii_def)
  have split: "string_split env2 [77, 47, 80] [47] \<noteq> []" "last (string_split env2 [77, 47, 80] [47]) = [80]"
    by (simp_all add: env(2))
  have add: "list_add hol_list_more l x = l @ [x]" for l :: "ptr list" and x
    by (simp add: hol_list_more_def t_list_ops.defs hol_list_def)
  obtain s' where "coach_capture_pokemon hol_list_more env2 7 [47] OC_ATRAPAR_POKEMON juego2 = Some (OC_POKEMON, s')"
      "archivos s' = (archivos juego2)(pathDirDeBill [47] [65] @ [80] \<mapsto> [1, 2, 3])"
      "coach_pokemons (coach s') = list_add hol_list_more [] 7" "pokenest_time (coach s') = 0 - (10 - 0)"
    using coach_captura_correct [OF st(1-5) env(1) _ _ _ split(1) files _ env(3,4) refl, where L = hol_list_more] ne
    by (auto simp: split(2) st(6-9) env(5))
  then show ?thesis by (auto simp: add)
qed

end
