(* ===== verification/Ansisop_PCB.thy ===== *)
theory Ansisop_PCB
  imports UMC_State
begin

text \<open>
  What the nucleo and the CPUs of the 2016-1C project share (\<^verbatim>\<open>Librerias/estructuras.h\<close>): the control
  block of a process with its stack of contexts, the numbers of the messages, and the layout in
  which a control block travels. Contexts and variables are behind pointers, in lists of the list
  library (parameter \<open>L\<close>).

  \<^verbatim>\<open>recv\<close> of \<open>n\<close> bytes takes them from a stream that already holds them; when it holds fewer the
  caller waits, or goes on with variables that were never set, and the value is \<open>None\<close>.
\<close>

record t_posMemoria =
  pos_pag :: u32
  pos_offset :: u32

record t_variable =
  var_ID :: byte
  posicionEnMemoria :: t_posMemoria

text \<open>A pointer that was not set is \<open>None\<close>.\<close>

record 'l t_stack =
  cantArgs :: u32
  st_args :: "'l option"
  cantVars :: u32
  st_vars :: "'l option"
  retPos :: u32
  retVar :: t_posMemoria

record 'l t_PCB =
  PID :: u32
  PC :: u32
  paginasCodigo :: u32
  paginasStack :: u32
  cantOperacIO :: u32
  tamanioIndiceDeCodigo :: u32
  indiceDeCodigo :: "(u32 \<times> u32) list"    \<comment> \<open>start and offset of each instruction\<close>
  etiquetas_size :: u32
  etiquetas :: "byte list option"
  SP :: u32
  tamanioIndiceStack :: u32
  indiceDeStack :: "'l option"

record 'l memoria =
  variables :: "nodo \<Rightarrow> t_variable option"
  contextos :: "nodo \<Rightarrow> 'l t_stack option"
  proximo :: nodo

section \<open>Numbers of the messages\<close>

definition ID_NUCLEO :: u32 where "ID_NUCLEO = 0"
definition ID_CPU :: u32 where "ID_CPU = 1"
definition ID_CONSOLA :: u32 where "ID_CONSOLA = 2"

definition INICIALIZAR_ANSISOP :: u32 where "INICIALIZAR_ANSISOP = 0"
definition FINALIZAR_ANSISOP :: u32 where "FINALIZAR_ANSISOP = 1"
definition PASO_QUANTUM :: u32 where "PASO_QUANTUM = 2"
definition FIN_ANSISOP :: u32 where "FIN_ANSISOP = 3"
definition OBTENER_VALOR :: u32 where "OBTENER_VALOR = 4"
definition GRABAR_VALOR :: u32 where "GRABAR_VALOR = 5"
definition ORDEN_WAIT :: u32 where "ORDEN_WAIT = 6"
definition ORDEN_SIGNAL :: u32 where "ORDEN_SIGNAL = 7"
definition ENTRADA_SALIDA :: u32 where "ENTRADA_SALIDA = 8"
definition BLOQUEAR_PCB_SEMAFORO :: u32 where "BLOQUEAR_PCB_SEMAFORO = 9"
definition IMPRIMIR_VALOR :: u32 where "IMPRIMIR_VALOR = 10"
definition IMPRIMIR_TEXTO :: u32 where "IMPRIMIR_TEXTO = 11"
definition FIN_QUANTUM :: u32 where "FIN_QUANTUM = 12"
definition FIN_CPU :: u32 where "FIN_CPU = 13"

definition BLOQUEADO :: u32 where "BLOQUEADO = 0"
definition NO_BLOQUEADO :: u32 where "NO_BLOQUEADO = 1"
definition ENVIO_PCB :: u32 where "ENVIO_PCB = 2"
definition DEVOLVER_PCB :: u32 where "DEVOLVER_PCB = 3"
definition SEGUIR_EJECUTANDO :: u32 where "SEGUIR_EJECUTANDO = 4"
definition VALOR_GLOBAL :: u32 where "VALOR_GLOBAL = 5"
definition PROGRAMA_FINALIZO :: u32 where "PROGRAMA_FINALIZO = 0"

lemmas orden_defs = INICIALIZAR_ANSISOP_def FINALIZAR_ANSISOP_def PASO_QUANTUM_def FIN_ANSISOP_def OBTENER_VALOR_def
  GRABAR_VALOR_def ORDEN_WAIT_def ORDEN_SIGNAL_def ENTRADA_SALIDA_def BLOQUEAR_PCB_SEMAFORO_def IMPRIMIR_VALOR_def
  IMPRIMIR_TEXTO_def FIN_QUANTUM_def FIN_CPU_def

section \<open>Sending a control block\<close>

definition bytes_variable :: "t_variable \<Rightarrow> byte list" where
  "bytes_variable v = [var_ID v] @ le32 (pos_pag (posicionEnMemoria v)) @ le32 (pos_offset (posicionEnMemoria v))"

text \<open>
  The lists are emptied while they are walked: \<^verbatim>\<open>list_remove(l, j)\<close> and \<^verbatim>\<open>j++\<close> skip the element that
  moved to \<open>j\<close>. A context that was removed is not reachable any more.
\<close>

partial_function (option) enviar_variables :: "('l, nodo) t_list_more \<Rightarrow> (nodo \<Rightarrow> t_variable option) \<Rightarrow> nat \<Rightarrow> 'l \<Rightarrow> byte list option" where
  "enviar_variables L vs j l =
     (if j < list_size L l then case list_remove L l j of (q, l') \<Rightarrow> do {
        q \<leftarrow> q;
        v \<leftarrow> vs q;
        resto \<leftarrow> enviar_variables L vs (Suc j) l';
        Some (bytes_variable v @ resto)
      } else Some [])"

definition enviar_lista :: "('l, nodo) t_list_more \<Rightarrow> (nodo \<Rightarrow> t_variable option) \<Rightarrow> u32 \<Rightarrow> 'l option \<Rightarrow> byte list option" where
  "enviar_lista L vs cant l =
     (if 0 < cant then do { l \<leftarrow> l; bs \<leftarrow> enviar_variables L vs 0 l; Some (le32 cant @ bs) } else Some (le32 cant))"

definition enviar_contexto :: "('l, nodo) t_list_more \<Rightarrow> (nodo \<Rightarrow> t_variable option) \<Rightarrow> 'l t_stack \<Rightarrow> byte list option" where
  "enviar_contexto L vs st = do {
     as \<leftarrow> enviar_lista L vs (cantArgs st) (st_args st);
     bs \<leftarrow> enviar_lista L vs (cantVars st) (st_vars st);
     Some (as @ bs @ le32 (retPos st) @ le32 (pos_pag (retVar st)) @ le32 (pos_offset (retVar st)))
   }"

partial_function (option) enviar_contextos :: "('l, nodo) t_list_more \<Rightarrow> ('l, 'z) memoria_scheme \<Rightarrow> nat \<Rightarrow> 'l \<Rightarrow> (byte list \<times> 'l) option" where
  "enviar_contextos L s i l =
     (if i < list_size L l then case list_remove L l i of (q, l') \<Rightarrow> do {
        q \<leftarrow> q;
        st \<leftarrow> contextos s q;
        bs \<leftarrow> enviar_contexto L (variables s) st;
        (resto, l') \<leftarrow> enviar_contextos L s (Suc i) l';
        Some (bs @ resto, l')
      } else Some ([], l))"

definition bytes_instruccion :: "u32 \<times> u32 \<Rightarrow> byte list" where
  "bytes_instruccion io = le32 (fst io) @ le32 (snd io)"

definition codigo_entero :: "'l t_PCB \<Rightarrow> byte list option" where
  "codigo_entero p =
     (if unat (tamanioIndiceDeCodigo p) \<le> length (indiceDeCodigo p)
      then Some (concat (map bytes_instruccion (take (unat (tamanioIndiceDeCodigo p)) (indiceDeCodigo p)))) else None)"

text \<open>Copied as if the size were in bytes.\<close>

definition codigo_cortado :: "'l t_PCB \<Rightarrow> byte list option" where
  "codigo_cortado p =
     (let mem = concat (map bytes_instruccion (indiceDeCodigo p)) in
      if unat (tamanioIndiceDeCodigo p) \<le> length mem then Some (take (unat (tamanioIndiceDeCodigo p)) mem) else None)"

definition bytes_etiquetas :: "'l t_PCB \<Rightarrow> byte list option" where
  "bytes_etiquetas p =
     (if etiquetas_size p = 0 then Some []
      else case etiquetas p of None \<Rightarrow> None
        | Some mem \<Rightarrow> if unat (etiquetas_size p) \<le> length mem then Some (take (unat (etiquetas_size p)) mem) else None)"

text \<open>The fields in the order of all the copies of this code; the block is left with an emptied stack.\<close>

definition enviar_pcb :: "('l, nodo) t_list_more \<Rightarrow> ('l t_PCB \<Rightarrow> byte list option) \<Rightarrow> ('l, 'z) memoria_scheme \<Rightarrow> 'l t_PCB
    \<Rightarrow> (byte list \<times> 'l t_PCB) option" where
  "enviar_pcb L codigo s p = do {
     cod \<leftarrow> codigo p;
     etiq \<leftarrow> bytes_etiquetas p;
     (pila, p') \<leftarrow> (if 0 < tamanioIndiceStack p then do {
         l \<leftarrow> indiceDeStack p;
         (bs, l) \<leftarrow> enviar_contextos L s 0 l;
         Some (bs, p\<lparr>indiceDeStack := Some l\<rparr>)
       } else Some ([], p));
     Some (le32 (PID p) @ le32 (PC p) @ le32 (paginasCodigo p) @ le32 (paginasStack p) @ le32 (cantOperacIO p)
       @ le32 (tamanioIndiceDeCodigo p) @ cod @ le32 (etiquetas_size p) @ etiq @ le32 (SP p) @ le32 (tamanioIndiceStack p) @ pila, p')
   }"

section \<open>Receiving a control block\<close>

definition recibir :: "nat \<Rightarrow> byte list \<Rightarrow> (byte list \<times> byte list) option" where
  "recibir n inp = (if n \<le> length inp then Some (take n inp, drop n inp) else None)"

definition recibir_u32 :: "byte list \<Rightarrow> (u32 \<times> byte list) option" where
  "recibir_u32 inp = (if 4 \<le> length inp then Some (un_le32 (take 4 inp), drop 4 inp) else None)"

fun recibir_codigo :: "nat \<Rightarrow> byte list \<Rightarrow> ((u32 \<times> u32) list \<times> byte list) option" where
  "recibir_codigo 0 inp = Some ([], inp)"
| "recibir_codigo (Suc n) inp = do {
     (start, inp) \<leftarrow> recibir_u32 inp;
     (offset, inp) \<leftarrow> recibir_u32 inp;
     (cod, inp) \<leftarrow> recibir_codigo n inp;
     Some ((start, offset) # cod, inp)
   }"

definition malloc_variable :: "t_variable \<Rightarrow> ('l, 'z) memoria_scheme \<Rightarrow> nodo \<times> ('l, 'z) memoria_scheme" where
  "malloc_variable v s = (proximo s, s\<lparr>variables := (variables s)(proximo s \<mapsto> v), proximo := Suc (proximo s)\<rparr>)"

definition malloc_contexto :: "'l t_stack \<Rightarrow> ('l, 'z) memoria_scheme \<Rightarrow> nodo \<times> ('l, 'z) memoria_scheme" where
  "malloc_contexto st s = (proximo s, s\<lparr>contextos := (contextos s)(proximo s \<mapsto> st), proximo := Suc (proximo s)\<rparr>)"

text \<open>As many variables as announced, each appended to the list.\<close>

fun recibir_variables :: "('l, nodo) t_list_more \<Rightarrow> nat \<Rightarrow> 'l \<Rightarrow> byte list \<Rightarrow> ('l, 'z) memoria_scheme
    \<Rightarrow> ('l \<times> byte list \<times> ('l, 'z) memoria_scheme) option" where
  "recibir_variables L 0 l inp s = Some (l, inp, s)"
| "recibir_variables L (Suc n) l inp s = do {
     (ID, inp) \<leftarrow> recibir 1 inp;
     (pag, inp) \<leftarrow> recibir_u32 inp;
     (offset, inp) \<leftarrow> recibir_u32 inp;
     let (q, s) = malloc_variable \<lparr>var_ID = hd ID, posicionEnMemoria = \<lparr>pos_pag = pag, pos_offset = offset\<rparr>\<rparr> s;
     recibir_variables L n (list_add L l q) inp s
   }"

text \<open>
  Before the arguments, and before the variables, the code receives \<^verbatim>\<open>sizeof(t_list)\<close> bytes through a
  pointer that was not set. \<open>efault\<close> says that the pointer is not mapped: then \<^verbatim>\<open>recv\<close> fails and reads
  nothing; otherwise it overwrites memory (\<open>None\<close>). The variables are appended to the list of the
  arguments, which is not set either when there are none.
\<close>

definition recibir_contexto :: "('l, nodo) t_list_more \<Rightarrow> bool \<Rightarrow> byte list \<Rightarrow> ('l, 'z) memoria_scheme
    \<Rightarrow> (nodo \<times> byte list \<times> ('l, 'z) memoria_scheme) option" where
  "recibir_contexto L efault inp s = do {
     (cantArgs, inp) \<leftarrow> recibir_u32 inp;
     (args, inp, s) \<leftarrow> (if 0 < cantArgs then
         if \<not> efault then None
         else do { (l, inp, s) \<leftarrow> recibir_variables L (unat cantArgs) (list_create L) inp s; Some (Some l, inp, s) }
       else Some (None, inp, s));
     (cantVars, inp) \<leftarrow> recibir_u32 inp;
     (args, vars, inp, s) \<leftarrow> (if 0 < cantVars then
         if \<not> efault then None
         else do { l \<leftarrow> args; (l, inp, s) \<leftarrow> recibir_variables L (unat cantVars) l inp s; Some (Some l, Some (list_create L), inp, s) }
       else Some (args, None, inp, s));
     (retPos, inp) \<leftarrow> recibir_u32 inp;
     (pag, inp) \<leftarrow> recibir_u32 inp;
     (offset, inp) \<leftarrow> recibir_u32 inp;
     let (q, s) = malloc_contexto \<lparr>cantArgs = cantArgs, st_args = args, cantVars = cantVars, st_vars = vars, retPos = retPos,
       retVar = \<lparr>pos_pag = pag, pos_offset = offset\<rparr>\<rparr> s;
     Some (q, inp, s)
   }"

fun recibir_contextos :: "('l, nodo) t_list_more \<Rightarrow> bool \<Rightarrow> nat \<Rightarrow> 'l \<Rightarrow> byte list \<Rightarrow> ('l, 'z) memoria_scheme
    \<Rightarrow> ('l \<times> byte list \<times> ('l, 'z) memoria_scheme) option" where
  "recibir_contextos L efault 0 l inp s = Some (l, inp, s)"
| "recibir_contextos L efault (Suc n) l inp s = do {
     (q, inp, s) \<leftarrow> recibir_contexto L efault inp s;
     recibir_contextos L efault n (list_add L l q) inp s
   }"

text \<open>
  The fields after the size; the block is allocated with that size \<open>tam\<close>, \<open>sizeof_PCB\<close> being what it
  needs.
\<close>

definition recibir_pcb :: "('l, nodo) t_list_more \<Rightarrow> bool \<Rightarrow> nat \<Rightarrow> u32 \<Rightarrow> byte list \<Rightarrow> ('l, 'z) memoria_scheme
    \<Rightarrow> ('l t_PCB \<times> byte list \<times> ('l, 'z) memoria_scheme) option" where
  "recibir_pcb L efault sizeof_PCB tam inp s =
     (if unat tam < sizeof_PCB then None else do {
      (pid, inp) \<leftarrow> recibir_u32 inp;
      (pc, inp) \<leftarrow> recibir_u32 inp;
      (pagc, inp) \<leftarrow> recibir_u32 inp;
      (pags, inp) \<leftarrow> recibir_u32 inp;
      (cant, inp) \<leftarrow> recibir_u32 inp;
      (n, inp) \<leftarrow> recibir_u32 inp;
      (cod, inp) \<leftarrow> recibir_codigo (unat n) inp;
      (esize, inp) \<leftarrow> recibir_u32 inp;
      (etiq, inp) \<leftarrow> recibir (unat esize) inp;
      (sp, inp) \<leftarrow> recibir_u32 inp;
      (k, inp) \<leftarrow> recibir_u32 inp;
      (pila, inp, s) \<leftarrow> (if 0 < k then do {
          (l, inp, s) \<leftarrow> recibir_contextos L efault (unat k) (list_create L) inp s;
          Some (Some l, inp, s)
        } else Some (None, inp, s));
      Some (\<lparr>PID = pid, PC = pc, paginasCodigo = pagc, paginasStack = pags, cantOperacIO = cant, tamanioIndiceDeCodigo = n,
        indiceDeCodigo = cod, etiquetas_size = esize, etiquetas = (if 0 < esize then Some etiq else None), SP = sp,
        tamanioIndiceStack = k, indiceDeStack = pila\<rparr>, inp, s)
    })"

section \<open>What comes through\<close>

text \<open>Whatever the stack is, the block starts with the same six words.\<close>

lemma enviar_pcb_cabeza:
  "enviar_pcb L codigo s p = Some (bs, p') \<Longrightarrow> \<exists>r. bs = le32 (PID p) @ le32 (PC p) @ le32 (paginasCodigo p)
     @ le32 (paginasStack p) @ le32 (cantOperacIO p) @ le32 (tamanioIndiceDeCodigo p) @ r"
  by (auto simp: enviar_pcb_def bind_eq_Some_conv)

lemma le32_not_Nil [simp]: "le32 w \<noteq> []" "[] \<noteq> le32 w"
  by (simp_all add: le32_def)

lemma recibir_u32_le32 [simp]: "recibir_u32 (le32 w @ inp) = Some (w, inp)"
  by (simp add: recibir_u32_def)

lemma recibir_u32_solo [simp]: "recibir_u32 (le32 w) = Some (w, [])"
  using recibir_u32_le32 [of w "[]"] by simp

lemma recibir_append: "length bs = n \<Longrightarrow> recibir n (bs @ inp) = Some (bs, inp)"
  by (simp add: recibir_def)

lemma recibir_codigo_append: "recibir_codigo (length cod) (concat (map bytes_instruccion cod) @ inp) = Some (cod, inp)"
  by (induction cod) (simp_all add: bytes_instruccion_def)

text \<open>A control block as the nucleo makes it: sizes that match, no stack yet.\<close>

definition pcb_nuevo :: "'l t_PCB \<Rightarrow> bool" where
  "pcb_nuevo p \<longleftrightarrow> tamanioIndiceStack p = 0 \<and> unat (tamanioIndiceDeCodigo p) = length (indiceDeCodigo p)
     \<and> (etiquetas_size p = 0 \<or> (\<exists>mem. etiquetas p = Some mem \<and> unat (etiquetas_size p) = length mem))"

text \<open>What of a control block is read: not the pointers that mean nothing.\<close>

definition pcb_visto :: "'l t_PCB \<Rightarrow> 'l t_PCB" where
  "pcb_visto p = p\<lparr>etiquetas := (if etiquetas_size p = 0 then None else etiquetas p),
     indiceDeStack := (if tamanioIndiceStack p = 0 then None else indiceDeStack p)\<rparr>"

lemma enviar_pcb_nuevo:
  assumes "pcb_nuevo p"
  shows "\<exists>etiq. enviar_pcb L codigo_entero s p = Some (le32 (PID p) @ le32 (PC p) @ le32 (paginasCodigo p) @ le32 (paginasStack p)
      @ le32 (cantOperacIO p) @ le32 (tamanioIndiceDeCodigo p) @ concat (map bytes_instruccion (indiceDeCodigo p))
      @ le32 (etiquetas_size p) @ etiq @ le32 (SP p) @ le32 0, p)
    \<and> length etiq = unat (etiquetas_size p) \<and> (etiquetas_size p = 0 \<or> etiquetas p = Some etiq)"
proof (cases "etiquetas_size p = 0")
  case True
  then show ?thesis
    using assms by (intro exI [of _ "[]"]) (simp add: enviar_pcb_def pcb_nuevo_def codigo_entero_def bytes_etiquetas_def)
next
  case False
  then obtain mem where "etiquetas p = Some mem" "unat (etiquetas_size p) = length mem"
    using assms by (auto simp: pcb_nuevo_def)
  then show ?thesis
    using assms False
    by (intro exI [of _ mem]) (simp add: enviar_pcb_def pcb_nuevo_def codigo_entero_def bytes_etiquetas_def)
qed

lemma length_instrucciones [simp]: "length (concat (map bytes_instruccion cod)) = 8 * length cod"
  by (induction cod) (simp_all add: bytes_instruccion_def)

lemma enviar_pcb_nuevo_length:
  assumes "pcb_nuevo p"
  obtains bs where "enviar_pcb L codigo_entero s p = Some (bs, p)"
    "length bs = 36 + 8 * length (indiceDeCodigo p) + unat (etiquetas_size p)"
  using enviar_pcb_nuevo [OF assms, of L s] by (auto simp del: length_concat)

lemma recibir_pcb_nuevo:
  assumes p: "pcb_nuevo p" and e: "enviar_pcb L codigo_entero s p = Some (bs, p')" and tam: "sizeof_PCB \<le> unat tam"
  shows "recibir_pcb L' efault sizeof_PCB tam (bs @ inp) s' = Some (pcb_visto p, inp, s')"
proof -
  obtain etiq where etiq: "bs = le32 (PID p) @ le32 (PC p) @ le32 (paginasCodigo p) @ le32 (paginasStack p)
      @ le32 (cantOperacIO p) @ le32 (tamanioIndiceDeCodigo p) @ concat (map bytes_instruccion (indiceDeCodigo p))
      @ le32 (etiquetas_size p) @ etiq @ le32 (SP p) @ le32 0"
      "length etiq = unat (etiquetas_size p)" "etiquetas_size p = 0 \<or> etiquetas p = Some etiq"
    using enviar_pcb_nuevo [OF p, of L s] e by auto
  have n: "unat (tamanioIndiceDeCodigo p) = length (indiceDeCodigo p)" "tamanioIndiceStack p = 0"
    using p by (simp_all add: pcb_nuevo_def)
  show ?thesis
    using tam etiq(2,3) n
    by (simp add: recibir_pcb_def etiq(1) recibir_codigo_append recibir_append pcb_visto_def)
      (auto simp: unat_eq_0 word_neq_0_conv [symmetric])
qed

text \<open>Receiving touches the lists of contexts and variables, and nothing else of the state.\<close>

definition solo_memoria :: "('l, 'z) memoria_scheme \<Rightarrow> ('l, 'z) memoria_scheme \<Rightarrow> bool" where
  "solo_memoria s s' \<longleftrightarrow> memoria.more s' = memoria.more s"

lemma solo_memoria_trans: "solo_memoria s s' \<Longrightarrow> solo_memoria s' s'' \<Longrightarrow> solo_memoria s s''"
  by (simp add: solo_memoria_def)

lemma recibir_variables_solo: "recibir_variables L n l inp s = Some (l', inp', s') \<Longrightarrow> solo_memoria s s'"
  by (induction L n l inp s rule: recibir_variables.induct)
    (auto simp: bind_eq_Some_conv malloc_variable_def solo_memoria_def Let_def split: prod.splits)

lemma recibir_contexto_solo: "recibir_contexto L efault inp s = Some (q, inp', s') \<Longrightarrow> solo_memoria s s'"
  by (auto simp: recibir_contexto_def bind_eq_Some_conv malloc_contexto_def Let_def solo_memoria_def
      dest!: recibir_variables_solo split: if_splits)

lemma recibir_contextos_solo: "recibir_contextos L efault n l inp s = Some (l', inp', s') \<Longrightarrow> solo_memoria s s'"
proof (induction L efault n l inp s rule: recibir_contextos.induct)
  case (2 L efault n l inp s)
  then obtain q inp1 s1 where "recibir_contexto L efault inp s = Some (q, inp1, s1)"
      "recibir_contextos L efault n (list_add L l q) inp1 s1 = Some (l', inp', s')"
    by (auto simp: bind_eq_Some_conv)
  then show ?case
    using 2(1) recibir_contexto_solo by (metis solo_memoria_trans)
qed (simp add: solo_memoria_def)

lemma recibir_pcb_solo: "recibir_pcb L efault k tam inp s = Some (p, inp', s') \<Longrightarrow> solo_memoria s s'"
  by (auto simp: recibir_pcb_def bind_eq_Some_conv solo_memoria_def dest!: recibir_contextos_solo split: if_splits)

end
