(* ===== verification/Cpu_Funciones.thy ===== *)
theory Cpu_Funciones
  imports Ansisop_PCB
begin

text \<open>
  The CPU process of the 2016-1C project, \<^verbatim>\<open>cpu/funciones.c\<close>: the messages to the nucleo and to the
  memory process, the search of a variable, and the control block it receives and gives back.
\<close>

record 'l cpu = "'l memoria" +
  pcb :: "'l t_PCB option"               \<comment> \<open>\<open>None\<close>: the pointer is NULL\<close>
  sigo_ejecutando :: bool
  fin_cpu :: bool
  tamanioPagina :: u32
  quantum_sleep :: u32
  tamanioHastaAhora :: nat
  flagSaltoLinea :: bool
  a_nucleo_cpu :: "byte list"
  de_nucleo :: "byte list"
  a_umc :: "byte list"
  de_umc :: "byte list"

text \<open>
  What the heap holds in a new buffer and in a new context, whether a pointer that was not set is
  unmapped, and what \<^verbatim>\<open>sizeof(t_PCB)\<close> is; \<open>tras_linea\<close> is what the heap holds behind the bytes of a
  line at the time it is parsed. \<open>buscar_etiqueta\<close> is \<^verbatim>\<open>metadata_buscar_etiqueta\<close> and
  \<open>itoa\<close> the conversion of the commons library.
\<close>

record 'l cpu_env =
  basura_buffer :: "nat \<Rightarrow> byte"
  basura_contexto :: "'l t_stack"
  puntero_no_mapeado :: bool
  sizeof_t_PCB :: nat
  tras_linea :: "'l cpu \<Rightarrow> byte list"
  buscar_etiqueta :: "byte list \<Rightarrow> byte list option \<Rightarrow> u32 \<Rightarrow> u32"
  itoa :: "u32 \<Rightarrow> byte list"

definition al_nucleo_cpu :: "byte list \<Rightarrow> 'l cpu \<Rightarrow> 'l cpu" where
  "al_nucleo_cpu bs s = s\<lparr>a_nucleo_cpu := a_nucleo_cpu s @ bs\<rparr>"

definition a_la_umc :: "byte list \<Rightarrow> 'l cpu \<Rightarrow> 'l cpu" where
  "a_la_umc bs s = s\<lparr>a_umc := a_umc s @ bs\<rparr>"

definition recv_nucleo :: "'l cpu \<Rightarrow> (u32 \<times> 'l cpu) option" where
  "recv_nucleo s = map_option (\<lambda>(w, inp). (w, s\<lparr>de_nucleo := inp\<rparr>)) (recibir_u32 (de_nucleo s))"

definition recv_umc :: "'l cpu \<Rightarrow> (u32 \<times> 'l cpu) option" where
  "recv_umc s = map_option (\<lambda>(w, inp). (w, s\<lparr>de_umc := inp\<rparr>)) (recibir_u32 (de_umc s))"

text \<open>A string the code measures with \<^verbatim>\<open>strlen\<close> travels with its NUL.\<close>

definition con_nul :: "byte list \<Rightarrow> byte list" where
  "con_nul str = str @ [0]"

section \<open>Messages\<close>

definition serializarImprimir :: "u32 \<Rightarrow> byte list \<Rightarrow> u32 \<Rightarrow> byte list option" where
  "serializarImprimir pid textoImprimir longitud =
     (if length textoImprimir < unat longitud then None
      else Some (le32 ID_CPU @ le32 IMPRIMIR_TEXTO @ le32 longitud @ take (unat longitud) textoImprimir @ le32 pid))"

definition enviarImprimir :: "byte list \<Rightarrow> u32 \<Rightarrow> u32 \<Rightarrow> 'l cpu \<Rightarrow> 'l cpu option" where
  "enviarImprimir textoImprimir pid longitud s =
     map_option (\<lambda>buffer. al_nucleo_cpu buffer s) (serializarImprimir pid textoImprimir longitud)"

definition serializarObtenerValor :: "byte list \<Rightarrow> byte list" where
  "serializarObtenerValor variable =
     (let v = con_nul variable in le32 ID_CPU @ le32 OBTENER_VALOR @ le32 (of_nat (length v)) @ v)"

definition solicitarValorVarCompartida :: "byte list \<Rightarrow> 'l cpu \<Rightarrow> (u32 \<times> 'l cpu) option" where
  "solicitarValorVarCompartida variable s = recv_nucleo (al_nucleo_cpu (serializarObtenerValor variable) s)"

definition serializarAsignarValor :: "byte list \<Rightarrow> u32 \<Rightarrow> byte list" where
  "serializarAsignarValor variable valor =
     (let v = con_nul variable in le32 ID_CPU @ le32 GRABAR_VALOR @ le32 (of_nat (length v) + 4) @ le32 valor @ v)"

definition enviarAsignarValor :: "byte list \<Rightarrow> u32 \<Rightarrow> 'l cpu \<Rightarrow> 'l cpu" where
  "enviarAsignarValor variable valor s = al_nucleo_cpu (serializarAsignarValor variable valor) s"

text \<open>A write at the global offset into a buffer of fixed size; past its end it is undefined.\<close>

definition poner :: "nat \<Rightarrow> byte list \<Rightarrow> byte list \<Rightarrow> byte list option" where
  "poner k bs buffer = (if k + length bs \<le> length buffer then Some (blit buffer k bs) else None)"

definition buffer_nuevo :: "'l cpu_env \<Rightarrow> nat \<Rightarrow> byte list" where
  "buffer_nuevo E n = map (basura_buffer E) [0..<n]"

text \<open>
  \<^verbatim>\<open>serializarWait\<close> and \<^verbatim>\<open>serializarEntradaSalida\<close>: the first word goes to the start of the buffer, the
  others to the offset \<^verbatim>\<open>tamanioHastaAhora\<close>, which is advanced.
\<close>

definition serializar_orden :: "u32 \<Rightarrow> byte list \<Rightarrow> byte list \<Rightarrow> 'l cpu \<Rightarrow> (byte list \<times> 'l cpu) option" where
  "serializar_orden ord nombre buffer s = do {
     let v = con_nul nombre;
     let k = tamanioHastaAhora s;
     buffer \<leftarrow> poner 0 (le32 ID_CPU) buffer;
     buffer \<leftarrow> poner (k + 4) (le32 ord) buffer;
     buffer \<leftarrow> poner (k + 8) (le32 (of_nat (length v))) buffer;
     buffer \<leftarrow> poner (k + 12) v buffer;
     Some (buffer, s\<lparr>tamanioHastaAhora := k + 12 + length v\<rparr>)
   }"

definition serializarWait :: "byte list \<Rightarrow> byte list \<Rightarrow> 'l cpu \<Rightarrow> (byte list \<times> 'l cpu) option" where
  "serializarWait = serializar_orden ORDEN_WAIT"

definition serializarEntradaSalida :: "byte list \<Rightarrow> byte list \<Rightarrow> 'l cpu \<Rightarrow> (byte list \<times> 'l cpu) option" where
  "serializarEntradaSalida = serializar_orden ENTRADA_SALIDA"

definition serializarSignal :: "byte list \<Rightarrow> byte list" where
  "serializarSignal nombre = (let v = con_nul nombre in le32 ID_CPU @ le32 ORDEN_SIGNAL @ le32 (of_nat (length v)) @ v)"

section \<open>The control block\<close>

text \<open>
  The block is written from offset 8 on, and then its size at offset 8: over the PID, or over the
  length of the name in a buffer that held one.
\<close>

definition serializarYEnvioPCB :: "('l, nodo) t_list_more \<Rightarrow> u32 \<Rightarrow> 'l cpu \<Rightarrow> 'l cpu option" where
  "serializarYEnvioPCB L accion s = do {
     p \<leftarrow> pcb s;
     (bs, p) \<leftarrow> enviar_pcb L codigo_entero s p;
     let buffer = le32 ID_CPU @ le32 accion @ bs;
     if 60000 < length buffer then None
     else Some (al_nucleo_cpu (blit buffer 8 (le32 (of_nat (length buffer - 8)))) (s\<lparr>pcb := Some p\<rparr>))
   }"

definition agregarPBCYEnviar :: "('l, nodo) t_list_more \<Rightarrow> byte list \<Rightarrow> 'l cpu \<Rightarrow> 'l cpu option" where
  "agregarPBCYEnviar L buffer s = do {
     p \<leftarrow> pcb s;
     (bs, p) \<leftarrow> enviar_pcb L codigo_cortado s p;
     let k = tamanioHastaAhora s;
     buffer' \<leftarrow> poner k bs buffer;
     let n = k + length bs;
     buffer' \<leftarrow> poner 8 (le32 (of_nat n - 8)) buffer';
     Some (al_nucleo_cpu (take n buffer') (s\<lparr>pcb := Some p\<rparr>))
   }"

definition enviarPCBparaNucleo :: "('l, nodo) t_list_more \<Rightarrow> u32 \<Rightarrow> byte list \<Rightarrow> 'l cpu \<Rightarrow> 'l cpu option" where
  "enviarPCBparaNucleo L accion buffer s =
     (if accion \<in> {ENTRADA_SALIDA, BLOQUEAR_PCB_SEMAFORO} then agregarPBCYEnviar L buffer s
      else if accion \<in> {FIN_QUANTUM, FIN_ANSISOP} then serializarYEnvioPCB L accion s
      else Some s)"

definition finAnsisop :: "('l, nodo) t_list_more \<Rightarrow> 'l cpu_env \<Rightarrow> 'l cpu \<Rightarrow> 'l cpu option" where
  "finAnsisop L E s = enviarPCBparaNucleo L FIN_ANSISOP (buffer_nuevo E 60000) s"

definition recibirPCBparaCPU :: "('l, nodo) t_list_more \<Rightarrow> 'l cpu_env \<Rightarrow> 'l cpu \<Rightarrow> 'l cpu option" where
  "recibirPCBparaCPU L E s = do {
     (accion, s) \<leftarrow> recv_nucleo s;
     if accion = ENVIO_PCB then do {
       (qs, s) \<leftarrow> recv_nucleo s;
       let s = s\<lparr>quantum_sleep := qs\<rparr>;
       (tamPCB, s) \<leftarrow> recv_nucleo s;
       (p, inp, s) \<leftarrow> recibir_pcb L (puntero_no_mapeado E) (sizeof_t_PCB E) tamPCB (de_nucleo s) s;
       Some (s\<lparr>pcb := Some p, de_nucleo := inp\<rparr>)
     } else Some s
   }"

section \<open>Semaphores, devices and memory\<close>

definition avisoWait :: "('l, nodo) t_list_more \<Rightarrow> 'l cpu_env \<Rightarrow> byte list \<Rightarrow> 'l cpu \<Rightarrow> 'l cpu option" where
  "avisoWait L E identificador_semaforo s = do {
     let s = s\<lparr>tamanioHastaAhora := 0\<rparr>;
     (buffer, s) \<leftarrow> serializarWait identificador_semaforo (buffer_nuevo E 60000) s;
     let s = al_nucleo_cpu (take (tamanioHastaAhora s) buffer) s;
     (resultado, s) \<leftarrow> recv_nucleo s;
     if resultado = BLOQUEADO then do {
       s \<leftarrow> enviarPCBparaNucleo L BLOQUEAR_PCB_SEMAFORO buffer s;
       Some (s\<lparr>sigo_ejecutando := False\<rparr>)
     } else Some s
   }"

text \<open>
  The buffer is of the size of the message and the offset is not reset; the message built is that of
  a wait, not of a signal.
\<close>

definition avisoSignal :: "'l cpu_env \<Rightarrow> byte list \<Rightarrow> 'l cpu \<Rightarrow> 'l cpu option" where
  "avisoSignal E identificador_semaforo s = do {
     let tamanioAEnviar = 12 + length (con_nul identificador_semaforo);
     (buffer, s) \<leftarrow> serializarWait identificador_semaforo (buffer_nuevo E tamanioAEnviar) s;
     Some (al_nucleo_cpu (take tamanioAEnviar buffer) s)
   }"

definition avisoEntradaSalida :: "('l, nodo) t_list_more \<Rightarrow> 'l cpu_env \<Rightarrow> byte list \<Rightarrow> 'l cpu \<Rightarrow> 'l cpu option" where
  "avisoEntradaSalida L E dispositivo s = do {
     let s = s\<lparr>tamanioHastaAhora := 0\<rparr>;
     (buffer, s) \<leftarrow> serializarEntradaSalida dispositivo (buffer_nuevo E 6000) s;
     enviarPCBparaNucleo L ENTRADA_SALIDA buffer s
   }"

definition buscar_en_lista :: "('l, nodo) t_list_more \<Rightarrow> 'l option \<Rightarrow> byte \<Rightarrow> 'l cpu \<Rightarrow> u32 option" where
  "buscar_en_lista L l ident s = do {
     l \<leftarrow> l;
     hit \<leftarrow> primero L l (\<lambda>q. map_option (\<lambda>v. var_ID v = ident) (variables s q)) 0;
     case hit of None \<Rightarrow> Some (- 1)
     | Some (_, q) \<Rightarrow> map_option (\<lambda>v. pos_pag (posicionEnMemoria v) * tamanioPagina s + pos_offset (posicionEnMemoria v)) (variables s q)
   }"

definition es_argumento :: "byte \<Rightarrow> bool" where
  "es_argumento ident \<longleftrightarrow> 48 \<le> ident \<and> ident \<le> 57"

definition buscarVariable :: "('l, nodo) t_list_more \<Rightarrow> 'l t_stack \<Rightarrow> byte \<Rightarrow> 'l cpu \<Rightarrow> u32 option" where
  "buscarVariable L st ident s =
     buscar_en_lista L (if es_argumento ident then st_args st else st_vars st) ident s"

definition serializarPedidoUMC :: "u32 \<Rightarrow> u32 \<Rightarrow> u32 \<Rightarrow> byte list" where
  "serializarPedidoUMC numPag offset tamanio = le32 SOLICITAR_BYTES_UMC @ le32 numPag @ le32 offset @ le32 tamanio"

text \<open>\<open>None\<close> as the buffer is the NULL that is returned after an overflow.\<close>

definition solicitarBytesUMC :: "('l, nodo) t_list_more \<Rightarrow> 'l cpu_env \<Rightarrow> u32 \<Rightarrow> u32 \<Rightarrow> u32 \<Rightarrow> 'l cpu \<Rightarrow> (byte list option \<times> 'l cpu) option" where
  "solicitarBytesUMC L E numPag offset tamanio s = do {
     let s = a_la_umc (serializarPedidoUMC numPag offset tamanio) s;
     (ord, s) \<leftarrow> recv_umc s;
     if ord = OK_SOLICITUD_UMC then do {
       (linea, inp) \<leftarrow> recibir (unat tamanio) (de_umc s);
       Some (Some linea, s\<lparr>de_umc := inp\<rparr>)
     } else if ord = ERROR_OVERFLOW then do {
       s \<leftarrow> finAnsisop L E s;
       Some (None, s\<lparr>sigo_ejecutando := False\<rparr>)
     } else None
   }"

definition almacenarBytesUMC :: "('l, nodo) t_list_more \<Rightarrow> 'l cpu_env \<Rightarrow> u32 \<Rightarrow> u32 \<Rightarrow> u32 \<Rightarrow> u32 \<Rightarrow> 'l cpu \<Rightarrow> 'l cpu option" where
  "almacenarBytesUMC L E numPag offset tamanio valor s = do {
     let s = a_la_umc (le32 ALMACENAR_BYTES_UMC @ le32 numPag @ le32 offset @ le32 tamanio @ le32 valor) s;
     (ordenRpta, s) \<leftarrow> recv_umc s;
     if ordenRpta = OK_SOLICITUD_UMC then Some s
     else if ordenRpta = ERROR_OVERFLOW then do {
       s \<leftarrow> finAnsisop L E s;
       Some (s\<lparr>sigo_ejecutando := False\<rparr>)
     } else None
   }"

end
