(* ===== verification/Cpu_Primitivas.thy ===== *)
theory Cpu_Primitivas
  imports Cpu_Funciones
begin

text \<open>
  The primitives the parser calls (\<^verbatim>\<open>cpu/primitivas.c\<close>) and the execution of a control block
  (\<^verbatim>\<open>cpu/CPU.c\<close>). The parser is not part of the repository: for a line it calls primitives and
  decides what to call next from what they return. \<open>llamadas\<close> is such a dialogue, and the parameter
  \<open>A\<close> gives the dialogue of each line.
\<close>

section \<open>Primitives\<close>

definition finalizar :: "('l, nodo) t_list_more \<Rightarrow> 'l cpu_env \<Rightarrow> 'l cpu \<Rightarrow> 'l cpu option" where
  "finalizar L E s = map_option (\<lambda>s. s\<lparr>sigo_ejecutando := False\<rparr>) (finAnsisop L E s)"

text \<open>The first variable makes the first context, whose number of variables starts from what the heap held.\<close>

definition primera_variable :: "('l, nodo) t_list_more \<Rightarrow> 'l cpu_env \<Rightarrow> byte \<Rightarrow> 'l t_PCB \<Rightarrow> 'l cpu \<Rightarrow> u32 \<times> 'l cpu" where
  "primera_variable L E ident p s =
     (let (v, s) = malloc_variable \<lparr>var_ID = ident, posicionEnMemoria = \<lparr>pos_pag = paginasCodigo p, pos_offset = 0\<rparr>\<rparr> s;
          st = (basura_contexto E)\<lparr>cantArgs := 0, st_args := None, cantVars := cantVars (basura_contexto E) + 1,
            st_vars := Some (list_add L (list_create L) v)\<rparr>;
          (q, s) = malloc_contexto st s;
          l = list_create L;
          p = p\<lparr>indiceDeStack := Some (list_add L l q), SP := of_nat (list_size L l), tamanioIndiceStack := 1\<rparr>
      in ((paginasCodigo p - 1) * tamanioPagina s, s\<lparr>pcb := Some p\<rparr>))"

definition contar_variables :: "('l, nodo) t_list_more \<Rightarrow> 'l \<Rightarrow> 'l cpu \<Rightarrow> u32 option" where
  "contar_variables L l s =
     para_cada L l (\<lambda>q n. do { st \<leftarrow> contextos s q; Some (n + (cantArgs st + cantVars st)) }) 0 0"

definition otra_variable :: "('l, nodo) t_list_more \<Rightarrow> byte \<Rightarrow> 'l t_PCB \<Rightarrow> 'l cpu \<Rightarrow> (u32 \<times> 'l cpu) option" where
  "otra_variable L ident p s = do {
     l \<leftarrow> indiceDeStack p;
     cantVarsAnt \<leftarrow> contar_variables L l s;
     q \<leftarrow> list_get L l (unat (SP p));
     st \<leftarrow> contextos s q;
     let n = unat cantVarsAnt * 4;
     if tamanioPagina s = 0 then None
     else let pag = of_nat (n div unat (tamanioPagina s)) + paginasCodigo p - 1;
         offset = of_nat (n mod unat (tamanioPagina s));
         (v, s) = malloc_variable \<lparr>var_ID = ident, posicionEnMemoria = \<lparr>pos_pag = pag, pos_offset = offset\<rparr>\<rparr> s
       in do {
         st \<leftarrow> (if es_argumento ident
           then map_option (\<lambda>as. st\<lparr>st_args := Some (list_add L as v)\<rparr>) (st_args st)
           else map_option (\<lambda>vs. st\<lparr>st_vars := Some (list_add L vs v), cantVars := cantVars st + 1\<rparr>) (st_vars st));
         Some (of_nat n + paginasCodigo p - 1, s\<lparr>contextos := (contextos s)(q \<mapsto> st)\<rparr>)
       }
   }"

definition definirVariable :: "('l, nodo) t_list_more \<Rightarrow> 'l cpu_env \<Rightarrow> byte \<Rightarrow> 'l cpu \<Rightarrow> (u32 \<times> 'l cpu) option" where
  "definirVariable L E ident s = do {
     p \<leftarrow> pcb s;
     if tamanioIndiceStack p = 0 then Some (primera_variable L E ident p s) else otra_variable L ident p s
   }"

definition contexto_actual :: "('l, nodo) t_list_more \<Rightarrow> 'l t_PCB \<Rightarrow> 'l cpu \<Rightarrow> 'l t_stack option" where
  "contexto_actual L p s = do { l \<leftarrow> indiceDeStack p; q \<leftarrow> list_get L l (unat (SP p)); contextos s q }"

definition obtenerPosicionVariable :: "('l, nodo) t_list_more \<Rightarrow> byte \<Rightarrow> 'l cpu \<Rightarrow> u32 option" where
  "obtenerPosicionVariable L ident s = do { p \<leftarrow> pcb s; st \<leftarrow> contexto_actual L p s; buscarVariable L st ident s }"

definition en_pagina :: "u32 \<Rightarrow> 'l cpu \<Rightarrow> (u32 \<times> u32) option" where
  "en_pagina direccion s =
     (if tamanioPagina s = 0 then None else Some (direccion div tamanioPagina s, direccion mod tamanioPagina s))"

definition dereferenciar :: "('l, nodo) t_list_more \<Rightarrow> 'l cpu_env \<Rightarrow> u32 \<Rightarrow> 'l cpu \<Rightarrow> (u32 \<times> 'l cpu) option" where
  "dereferenciar L E direccion_variable s = do {
     (pagina, offset) \<leftarrow> en_pagina direccion_variable s;
     (valor, s) \<leftarrow> solicitarBytesUMC L E pagina offset 4 s;
     valor \<leftarrow> valor;
     Some (un_le32 valor, s)
   }"

definition asignar :: "('l, nodo) t_list_more \<Rightarrow> 'l cpu_env \<Rightarrow> u32 \<Rightarrow> u32 \<Rightarrow> 'l cpu \<Rightarrow> 'l cpu option" where
  "asignar L E direccion_variable valor s = do {
     (pagina, offset) \<leftarrow> en_pagina direccion_variable s;
     almacenarBytesUMC L E pagina offset 4 valor s
   }"

definition obtenerValorCompartida :: "byte list \<Rightarrow> 'l cpu \<Rightarrow> (u32 \<times> 'l cpu) option" where
  "obtenerValorCompartida variable s = solicitarValorVarCompartida variable s"

definition asignarValorCompartida :: "byte list \<Rightarrow> u32 \<Rightarrow> 'l cpu \<Rightarrow> u32 \<times> 'l cpu" where
  "asignarValorCompartida variable valor s = (valor, enviarAsignarValor variable valor s)"

definition saltar :: "'l cpu_env \<Rightarrow> byte list \<Rightarrow> 'l t_PCB \<Rightarrow> 'l t_PCB" where
  "saltar E etiqueta p = p\<lparr>PC := buscar_etiqueta E etiqueta (etiquetas p) (etiquetas_size p)\<rparr>"

definition irAlLabel :: "'l cpu_env \<Rightarrow> byte list \<Rightarrow> 'l cpu \<Rightarrow> 'l cpu option" where
  "irAlLabel E etiqueta s = map_option (\<lambda>p. s\<lparr>pcb := Some (saltar E etiqueta p), flagSaltoLinea := True\<rparr>) (pcb s)"

text \<open>The size of the stack index is not touched.\<close>

definition llamarConRetorno :: "('l, nodo) t_list_more \<Rightarrow> 'l cpu_env \<Rightarrow> byte list \<Rightarrow> u32 \<Rightarrow> 'l cpu \<Rightarrow> 'l cpu option" where
  "llamarConRetorno L E etiqueta donde_retornar s = do {
     p \<leftarrow> pcb s;
     (pagina, offset) \<leftarrow> en_pagina donde_retornar s;
     l \<leftarrow> indiceDeStack p;
     let (q, s) = malloc_contexto \<lparr>cantArgs = 0, st_args = Some (list_create L), cantVars = 0, st_vars = Some (list_create L),
       retPos = PC p, retVar = \<lparr>pos_pag = pagina, pos_offset = offset\<rparr>\<rparr> s;
     let p = p\<lparr>indiceDeStack := Some (list_add L l q), SP := of_nat (list_size L l)\<rparr>;
     Some (s\<lparr>pcb := Some (saltar E etiqueta p), flagSaltoLinea := True\<rparr>)
   }"

definition retornar :: "('l, nodo) t_list_more \<Rightarrow> 'l cpu_env \<Rightarrow> u32 \<Rightarrow> 'l cpu \<Rightarrow> 'l cpu option" where
  "retornar L E retorno s = do {
     p \<leftarrow> pcb s;
     l \<leftarrow> indiceDeStack p;
     let (q, l) = list_remove L l (unat (SP p));
     q \<leftarrow> q;
     st \<leftarrow> contextos s q;
     let s = s\<lparr>pcb := Some (p\<lparr>indiceDeStack := Some l, PC := retPos st, SP := SP p - 1\<rparr>)\<rparr>;
     s \<leftarrow> almacenarBytesUMC L E (pos_pag (retVar st)) (pos_offset (retVar st)) 4 retorno s;
     Some (s\<lparr>contextos := (contextos s)(q := None), flagSaltoLinea := True\<rparr>)
   }"

definition imprimirTexto :: "byte list \<Rightarrow> 'l cpu \<Rightarrow> 'l cpu option" where
  "imprimirTexto texto s = do {
     p \<leftarrow> pcb s;
     enviarImprimir (con_nul texto) (PID p) (of_nat (length texto + 1)) s
   }"

definition imprimir :: "'l cpu_env \<Rightarrow> u32 \<Rightarrow> 'l cpu \<Rightarrow> 'l cpu option" where
  "imprimir E valor_mostrar = imprimirTexto (itoa E valor_mostrar)"

definition entradaSalida :: "('l, nodo) t_list_more \<Rightarrow> 'l cpu_env \<Rightarrow> byte list \<Rightarrow> 'l cpu \<Rightarrow> 'l cpu option" where
  "entradaSalida L E dispositivo s = map_option (\<lambda>s. s\<lparr>sigo_ejecutando := False\<rparr>) (avisoEntradaSalida L E dispositivo s)"

section \<open>A line\<close>

datatype llamadas =
    Fin_linea
  | DefinirVariable byte "u32 \<Rightarrow> llamadas"
  | ObtenerPosicionVariable byte "u32 \<Rightarrow> llamadas"
  | Dereferenciar u32 "u32 \<Rightarrow> llamadas"
  | Asignar u32 u32 llamadas
  | ObtenerValorCompartida "byte list" "u32 \<Rightarrow> llamadas"
  | AsignarValorCompartida "byte list" u32 "u32 \<Rightarrow> llamadas"
  | IrAlLabel "byte list" llamadas
  | LlamarConRetorno "byte list" u32 llamadas
  | Retornar u32 llamadas
  | Imprimir u32 llamadas
  | ImprimirTexto "byte list" llamadas
  | EntradaSalida "byte list" llamadas
  | Wait "byte list" llamadas
  | Signal "byte list" llamadas
  | Finalizar llamadas

primrec analizadorLinea :: "('l, nodo) t_list_more \<Rightarrow> 'l cpu_env \<Rightarrow> llamadas \<Rightarrow> 'l cpu \<Rightarrow> 'l cpu option" where
  "analizadorLinea L E Fin_linea s = Some s"
| "analizadorLinea L E (DefinirVariable i k) s = do { (v, s) \<leftarrow> definirVariable L E i s; analizadorLinea L E (k v) s }"
| "analizadorLinea L E (ObtenerPosicionVariable i k) s = do { v \<leftarrow> obtenerPosicionVariable L i s; analizadorLinea L E (k v) s }"
| "analizadorLinea L E (Dereferenciar d k) s = do { (v, s) \<leftarrow> dereferenciar L E d s; analizadorLinea L E (k v) s }"
| "analizadorLinea L E (Asignar d v k) s = do { s \<leftarrow> asignar L E d v s; analizadorLinea L E k s }"
| "analizadorLinea L E (ObtenerValorCompartida x k) s = do { (v, s) \<leftarrow> obtenerValorCompartida x s; analizadorLinea L E (k v) s }"
| "analizadorLinea L E (AsignarValorCompartida x v k) s =
     (case asignarValorCompartida x v s of (v, s) \<Rightarrow> analizadorLinea L E (k v) s)"
| "analizadorLinea L E (IrAlLabel e k) s = do { s \<leftarrow> irAlLabel E e s; analizadorLinea L E k s }"
| "analizadorLinea L E (LlamarConRetorno e d k) s = do { s \<leftarrow> llamarConRetorno L E e d s; analizadorLinea L E k s }"
| "analizadorLinea L E (Retornar v k) s = do { s \<leftarrow> retornar L E v s; analizadorLinea L E k s }"
| "analizadorLinea L E (Imprimir v k) s = do { s \<leftarrow> imprimir E v s; analizadorLinea L E k s }"
| "analizadorLinea L E (ImprimirTexto t k) s = do { s \<leftarrow> imprimirTexto t s; analizadorLinea L E k s }"
| "analizadorLinea L E (EntradaSalida d k) s = do { s \<leftarrow> entradaSalida L E d s; analizadorLinea L E k s }"
| "analizadorLinea L E (Wait x k) s = do { s \<leftarrow> avisoWait L E x s; analizadorLinea L E k s }"
| "analizadorLinea L E (Signal x k) s = do { s \<leftarrow> avisoSignal E x s; analizadorLinea L E k s }"
| "analizadorLinea L E (Finalizar k) s = do { s \<leftarrow> finalizar L E s; analizadorLinea L E k s }"

section \<open>The execution of a control block\<close>

definition instruccion_en :: "u32 \<Rightarrow> 'l t_PCB \<Rightarrow> (u32 \<times> u32) option" where
  "instruccion_en i p = (if unat i < length (indiceDeCodigo p) then Some (indiceDeCodigo p ! unat i) else None)"

definition calcularNumPag :: "'l cpu \<Rightarrow> u32 option" where
  "calcularNumPag s = do {
     p \<leftarrow> pcb s;
     (start, _) \<leftarrow> instruccion_en (PC p) p;
     map_option fst (en_pagina start s)
   }"

definition calcularOffset :: "'l cpu \<Rightarrow> u32 option" where
  "calcularOffset s = do {
     p \<leftarrow> pcb s;
     (start, _) \<leftarrow> instruccion_en (PC p) p;
     map_option snd (en_pagina start s)
   }"

definition notificarNucleoQuantum :: "('l, nodo) t_list_more \<Rightarrow> 'l cpu_env \<Rightarrow> 'l cpu \<Rightarrow> 'l cpu option" where
  "notificarNucleoQuantum L E s = do {
     let s = al_nucleo_cpu (le32 ID_CPU @ le32 PASO_QUANTUM @ le32 0) s;
     (resultado, s) \<leftarrow> recv_nucleo s;
     if resultado = DEVOLVER_PCB then do {
       s \<leftarrow> enviarPCBparaNucleo L FIN_QUANTUM (buffer_nuevo E 60000) s;
       Some (s\<lparr>sigo_ejecutando := False\<rparr>)
     } else if resultado = SEGUIR_EJECUTANDO then Some (s\<lparr>sigo_ejecutando := True\<rparr>)
     else Some s
   }"

text \<open>The line has no NUL of its own: the parser reads on behind it up to the next one.\<close>

definition parsearLinea :: "('l, nodo) t_list_more \<Rightarrow> 'l cpu_env \<Rightarrow> (byte list \<Rightarrow> llamadas) \<Rightarrow> byte list \<Rightarrow> 'l cpu \<Rightarrow> 'l cpu option" where
  "parsearLinea L E A linea s =
     (let leido = linea @ tras_linea E s
      in if 0 \<in> set leido then analizadorLinea L E (A (cstr leido)) s else None)"

lemma parsearLinea_llamadas: "parsearLinea L E A linea s = Some s' \<Longrightarrow> \<exists>k. analizadorLinea L E k s = Some s'"
  by (auto simp: parsearLinea_def Let_def split: if_split_asm)

text \<open>The length of the line is that of the next instruction.\<close>

definition paso_cpu :: "('l, nodo) t_list_more \<Rightarrow> 'l cpu_env \<Rightarrow> (byte list \<Rightarrow> llamadas) \<Rightarrow> 'l cpu \<Rightarrow> 'l cpu option" where
  "paso_cpu L E A s = do {
     numPag \<leftarrow> calcularNumPag s;
     offset \<leftarrow> calcularOffset s;
     p \<leftarrow> pcb s;
     (_, tamanio) \<leftarrow> instruccion_en (PC p + 1) p;
     (linea, s) \<leftarrow> solicitarBytesUMC L E numPag offset tamanio s;
     linea \<leftarrow> linea;
     s \<leftarrow> parsearLinea L E A linea s;
     p \<leftarrow> pcb s;
     let s = (if flagSaltoLinea s then s\<lparr>flagSaltoLinea := False\<rparr> else s\<lparr>pcb := Some (p\<lparr>PC := PC p + 1\<rparr>)\<rparr>);
     notificarNucleoQuantum L E s
   }"

partial_function (option) rafaga_cpu :: "('l, nodo) t_list_more \<Rightarrow> 'l cpu_env \<Rightarrow> (byte list \<Rightarrow> llamadas) \<Rightarrow> 'l cpu \<Rightarrow> 'l cpu option" where
  "rafaga_cpu L E A s =
     (if sigo_ejecutando s then do { s \<leftarrow> paso_cpu L E A s; rafaga_cpu L E A s } else Some s)"

definition enviarCambioProcesoUMC :: "'l cpu \<Rightarrow> 'l cpu option" where
  "enviarCambioProcesoUMC s = do {
     p \<leftarrow> pcb s;
     Some (a_la_umc (le32 CAMBIO_DE_PROCESO @ le32 (PID p)) (s\<lparr>tamanioHastaAhora := 8\<rparr>))
   }"

definition finalizarCPU :: "('l, nodo) t_list_more \<Rightarrow> 'l cpu_env \<Rightarrow> 'l cpu \<Rightarrow> 'l cpu option" where
  "finalizarCPU L E s = do {
     s \<leftarrow> agregarPBCYEnviar L (buffer_nuevo E 60000) (s\<lparr>tamanioHastaAhora := 0\<rparr>);
     Some (al_nucleo_cpu (le32 ID_CPU @ le32 FIN_CPU @ le32 0) (s\<lparr>tamanioHastaAhora := 12\<rparr>))
   }"

text \<open>One round of the outer loop of \<^verbatim>\<open>main\<close>.\<close>

definition vuelta_cpu :: "('l, nodo) t_list_more \<Rightarrow> 'l cpu_env \<Rightarrow> (byte list \<Rightarrow> llamadas) \<Rightarrow> 'l cpu \<Rightarrow> 'l cpu option" where
  "vuelta_cpu L E A s = do {
     s \<leftarrow> recibirPCBparaCPU L E s;
     s \<leftarrow> enviarCambioProcesoUMC s;
     rafaga_cpu L E A s
   }"

partial_function (option) cpu_main :: "('l, nodo) t_list_more \<Rightarrow> 'l cpu_env \<Rightarrow> (byte list \<Rightarrow> llamadas) \<Rightarrow> 'l cpu \<Rightarrow> 'l cpu option" where
  "cpu_main L E A s =
     (if \<not> fin_cpu s then do { s \<leftarrow> vuelta_cpu L E A s; cpu_main L E A s } else finalizarCPU L E s)"

text \<open>The signal that ends a CPU: at once when it runs nothing, after the round otherwise.\<close>

definition atenderSenial :: "'l cpu \<Rightarrow> 'l cpu option" where
  "atenderSenial s = (if \<not> sigo_ejecutando s then None else Some (s\<lparr>fin_cpu := True\<rparr>))"

text \<open>The two connections: the identity is sent, the page size of the memory process is received.\<close>

definition conexionUMC :: "'l cpu \<Rightarrow> 'l cpu option" where
  "conexionUMC s = map_option (\<lambda>(w, s). s\<lparr>tamanioPagina := w\<rparr>) (recv_umc (a_la_umc (le32 ID_CPU) s))"

definition conexionNucleo :: "'l cpu \<Rightarrow> 'l cpu" where
  "conexionNucleo s = (al_nucleo_cpu (le32 ID_CPU) s)\<lparr>sigo_ejecutando := True\<rparr>"

end
