(* ===== verification/Nucleo_State.thy ===== *)
theory Nucleo_State
  imports Ansisop_PCB
begin

text \<open>
  The nucleo of the 2016-1C project (\<^verbatim>\<open>Nucleo/nucleo.c\<close>): its queues, its CPUs, the semaphores and the
  shared variables of the programs.

  A \<^verbatim>\<open>t_queue\<close> is a list of the library that is filled at its end and emptied at its front. The
  dictionary of the shared variables is a parameter \<open>D\<close>. The calls to the semaphores of the host and
  the messages are recorded in order; a mutex is taken and released within each function, so no
  step is seen inside one.
\<close>

record 'l t_semAnsisop =
  nomSem :: "byte list"
  valor :: int
  colSem :: 'l

record 'l t_IO =
  nomIO :: "byte list"
  retardo :: int
  colIO :: 'l
  semIO :: nat

record t_CPU =
  s_cpu :: u32
  q_asoc :: u32
  pcbAsoc :: u32
  estadoPCB :: byte
  estado_cpu :: u32                       \<comment> \<open>0: busy, 1: free\<close>

datatype host_sem = SemReady | SemCpu

datatype llamada = Envia u32 "byte list" | Envia_UMC "byte list" | Post host_sem | Cierra u32

record ('l, 'd) nucleo = "'l memoria" +
  pcbs :: "nodo \<Rightarrow> 'l t_PCB option"
  sems :: "nodo \<Rightarrow> 'l t_semAnsisop option"
  ios :: "nodo \<Rightarrow> 'l t_IO option"
  cpus :: "nodo \<Rightarrow> t_CPU option"
  celdas :: "nodo \<Rightarrow> u32 option"         \<comment> \<open>the words of the shared variables\<close>
  varGlobales :: 'd
  readyPCBs :: 'l
  listaCPUs :: 'l
  lIO :: 'l
  semaforos :: 'l
  quantum_nucleo :: u32
  qSleep :: u32
  stackSize :: u32
  tamPag :: u32
  entrada_de :: "u32 \<Rightarrow> byte list"       \<comment> \<open>what each socket still has to deliver\<close>
  respuesta_umc :: "byte list"
  llamadas_nucleo :: "llamada list"
  sem_ready :: nat
  sem_cpu :: nat
  espera_cpu :: bool                      \<comment> \<open>the planner holds a process and waits for a CPU\<close>

text \<open>The dictionary of the commons library, from names to pointers.\<close>

record 'd t_dictionary =
  dictionary_create :: 'd
  dictionary_put :: "'d \<Rightarrow> byte list \<Rightarrow> nodo \<Rightarrow> 'd"
  dictionary_get :: "'d \<Rightarrow> byte list \<Rightarrow> nodo option"

locale t_dictionary =
  fixes D :: "'d t_dictionary" and contenido :: "'d \<Rightarrow> byte list \<Rightarrow> nodo option"
  assumes get_create: "contenido (dictionary_create D) = Map.empty"
    and get_put: "contenido (dictionary_put D d k v) = (contenido d)(k \<mapsto> v)"
    and get_contenido: "dictionary_get D d = contenido d"
begin

lemmas t_dictionary_laws = get_create get_put get_contenido

lemma get_after_put: "dictionary_get D (dictionary_put D d k v) j = (if j = k then Some v else dictionary_get D d j)"
  by (simp add: t_dictionary_laws)

end

definition hol_dictionary :: "(byte list \<Rightarrow> nodo option) t_dictionary" where
  "hol_dictionary = \<lparr>dictionary_create = Map.empty, dictionary_put = (\<lambda>d k v. d(k \<mapsto> v)), dictionary_get = (\<lambda>d. d)\<rparr>"

interpretation hol_dictionary: t_dictionary hol_dictionary "\<lambda>d. d"
  by unfold_locales (simp_all add: hol_dictionary_def)

text \<open>
  What the heap holds, the size of a \<^verbatim>\<open>t_PCB\<close>, and the parser's \<^verbatim>\<open>metadata_desde_literal\<close>: the first
  instruction, the instructions, and the labels with their size.
\<close>

record nucleo_env =
  no_mapeado :: bool
  sizeof_pcb :: nat
  basura_pid :: u32
  basura_asoc :: u32
  metadata_desde_literal :: "byte list \<Rightarrow> u32 \<times> (u32 \<times> u32) list \<times> u32 \<times> byte list"

definition anota :: "llamada list \<Rightarrow> ('l, 'd) nucleo \<Rightarrow> ('l, 'd) nucleo" where
  "anota cs s = s\<lparr>llamadas_nucleo := llamadas_nucleo s @ cs\<rparr>"

definition envia :: "u32 \<Rightarrow> byte list \<Rightarrow> ('l, 'd) nucleo \<Rightarrow> ('l, 'd) nucleo" where
  "envia fd bs s = anota [Envia fd bs] s"

definition envia_umc :: "byte list \<Rightarrow> ('l, 'd) nucleo \<Rightarrow> ('l, 'd) nucleo" where
  "envia_umc bs s = anota [Envia_UMC bs] s"

definition post :: "host_sem \<Rightarrow> ('l, 'd) nucleo \<Rightarrow> ('l, 'd) nucleo" where
  "post m s = anota [Post m] (case m of SemReady \<Rightarrow> s\<lparr>sem_ready := Suc (sem_ready s)\<rparr> | SemCpu \<Rightarrow> s\<lparr>sem_cpu := Suc (sem_cpu s)\<rparr>)"

definition recv_de :: "u32 \<Rightarrow> nat \<Rightarrow> ('l, 'd) nucleo \<Rightarrow> (byte list \<times> ('l, 'd) nucleo) option" where
  "recv_de fd n s = map_option (\<lambda>(bs, inp). (bs, s\<lparr>entrada_de := (entrada_de s)(fd := inp)\<rparr>)) (recibir n (entrada_de s fd))"

definition recv_u32_de :: "u32 \<Rightarrow> ('l, 'd) nucleo \<Rightarrow> (u32 \<times> ('l, 'd) nucleo) option" where
  "recv_u32_de fd s = map_option (\<lambda>(w, inp). (w, s\<lparr>entrada_de := (entrada_de s)(fd := inp)\<rparr>)) (recibir_u32 (entrada_de s fd))"

text \<open>A name received into a buffer is read up to its NUL.\<close>

definition nombre_en :: "byte list \<Rightarrow> byte list option" where
  "nombre_en bs = (if 0 \<in> set bs then Some (cstr bs) else None)"

definition malloc_pcb :: "'l t_PCB \<Rightarrow> ('l, 'd) nucleo \<Rightarrow> nodo \<times> ('l, 'd) nucleo" where
  "malloc_pcb p s = (proximo s, s\<lparr>pcbs := (pcbs s)(proximo s \<mapsto> p), proximo := Suc (proximo s)\<rparr>)"

definition upd_cpu :: "nodo \<Rightarrow> (t_CPU \<Rightarrow> t_CPU) \<Rightarrow> ('l, 'd) nucleo \<Rightarrow> ('l, 'd) nucleo" where
  "upd_cpu q f s = s\<lparr>cpus := (cpus s)(q := map_option f (cpus s q))\<rparr>"

definition upd_sem :: "nodo \<Rightarrow> ('l t_semAnsisop \<Rightarrow> 'l t_semAnsisop) \<Rightarrow> ('l, 'd) nucleo \<Rightarrow> ('l, 'd) nucleo" where
  "upd_sem q f s = s\<lparr>sems := (sems s)(q := map_option f (sems s q))\<rparr>"

section \<open>Queues\<close>

definition queue_push :: "('l, nodo) t_list_more \<Rightarrow> 'l \<Rightarrow> nodo \<Rightarrow> 'l" where
  "queue_push L q x = list_add L q x"

definition queue_pop :: "('l, nodo) t_list_more \<Rightarrow> 'l \<Rightarrow> nodo option \<times> 'l" where
  "queue_pop L q = list_remove L q 0"

definition push_ready :: "('l, nodo) t_list_more \<Rightarrow> nodo \<Rightarrow> ('l, 'd) nucleo \<Rightarrow> ('l, 'd) nucleo" where
  "push_ready L p s = s\<lparr>readyPCBs := queue_push L (readyPCBs s) p\<rparr>"

section \<open>Control blocks on the wire\<close>

definition serializarPCByEnviar :: "('l, nodo) t_list_more \<Rightarrow> nodo \<Rightarrow> u32 \<Rightarrow> ('l, 'd) nucleo \<Rightarrow> ('l, 'd) nucleo option" where
  "serializarPCByEnviar L q fd s = do {
     p \<leftarrow> pcbs s q;
     (bs, p) \<leftarrow> enviar_pcb L codigo_entero s p;
     if 6000 < 12 + length bs then None
     else Some (envia fd (le32 ENVIO_PCB @ le32 (qSleep s) @ le32 (of_nat (4 + length bs)) @ bs) (s\<lparr>pcbs := (pcbs s)(q \<mapsto> p)\<rparr>))
   }"

definition deserializarPCBTradicional :: "('l, nodo) t_list_more \<Rightarrow> nucleo_env \<Rightarrow> u32 \<Rightarrow> u32 \<Rightarrow> ('l, 'd) nucleo
    \<Rightarrow> (nodo \<times> ('l, 'd) nucleo) option" where
  "deserializarPCBTradicional L E fd tam_pcb s = do {
     (p, inp, s) \<leftarrow> recibir_pcb L (no_mapeado E) (sizeof_pcb E) tam_pcb (entrada_de s fd) s;
     Some (malloc_pcb p (s\<lparr>entrada_de := (entrada_de s)(fd := inp)\<rparr>))
   }"

definition deserializarPCB :: "('l, nodo) t_list_more \<Rightarrow> nucleo_env \<Rightarrow> u32 \<Rightarrow> ('l, 'd) nucleo \<Rightarrow> (nodo \<times> ('l, 'd) nucleo) option" where
  "deserializarPCB L E fd s = do {
     (tam_pcb, s) \<leftarrow> recv_u32_de fd s;
     deserializarPCBTradicional L E fd tam_pcb s
   }"

end
