(* ===== verification/Nucleo_Ordenes.thy ===== *)
theory Nucleo_Ordenes
  imports Nucleo_State
begin

text \<open>
  What the nucleo does with each order of a console and of a CPU (\<^verbatim>\<open>Nucleo/nucleo.c\<close>), from the
  printing to \<^verbatim>\<open>atenderOrdenSegunID\<close>.
\<close>

section \<open>Printing and the quantum\<close>

definition mandarAImprimirTexto :: "u32 \<Rightarrow> u32 \<Rightarrow> ('l, 'd) nucleo \<Rightarrow> ('l, 'd) nucleo option" where
  "mandarAImprimirTexto fd tamanioTexto s = do {
     (texto, s) \<leftarrow> recv_de fd (unat tamanioTexto) s;
     (pID, s) \<leftarrow> recv_u32_de fd s;
     Some (envia pID (le32 tamanioTexto @ texto) s)
   }"

definition mandarAImprimir :: "u32 \<Rightarrow> u32 \<Rightarrow> ('l, 'd) nucleo \<Rightarrow> ('l, 'd) nucleo option" where
  "mandarAImprimir fd pID s = do {
     (valorAImprimir, s) \<leftarrow> recv_u32_de fd s;
     Some (envia pID (le32 IMPRIMIR_VALOR @ le32 valorAImprimir) s)
   }"

definition mandarAready :: "('l, nodo) t_list_more \<Rightarrow> nucleo_env \<Rightarrow> u32 \<Rightarrow> u32 \<Rightarrow> ('l, 'd) nucleo \<Rightarrow> ('l, 'd) nucleo option" where
  "mandarAready L E fd tam_pcb s = do {
     (p, s) \<leftarrow> deserializarPCBTradicional L E fd tam_pcb s;
     Some (push_ready L p s)
   }"

definition cpu_de :: "('l, nodo) t_list_more \<Rightarrow> u32 \<Rightarrow> ('l, 'd) nucleo \<Rightarrow> (nat \<times> nodo) option option" where
  "cpu_de L fd s = primero L (listaCPUs s) (\<lambda>q. map_option (\<lambda>c. s_cpu c = fd) (cpus s q)) 0"

definition actualizarQuantumCPU :: "('l, nodo) t_list_more \<Rightarrow> u32 \<Rightarrow> ('l, 'd) nucleo \<Rightarrow> ('l, 'd) nucleo option" where
  "actualizarQuantumCPU L fd s = do {
     hit \<leftarrow> cpu_de L fd s;
     case hit of None \<Rightarrow> Some s
     | Some (_, q) \<Rightarrow> do {
         let s = upd_cpu q (\<lambda>c. c\<lparr>q_asoc := q_asoc c - 1\<rparr>) s;
         c \<leftarrow> cpus s q;
         Some (envia fd (le32 (if q_asoc c = 0 then DEVOLVER_PCB else SEGUIR_EJECUTANDO)) s)
       }
   }"

text \<open>The value is that of a variable nobody sets when the CPU is not in the list.\<close>

definition actualizarCPUlibre :: "('l, nodo) t_list_more \<Rightarrow> u32 \<Rightarrow> ('l, 'd) nucleo \<Rightarrow> (byte \<times> ('l, 'd) nucleo) option" where
  "actualizarCPUlibre L fd s = do {
     hit \<leftarrow> cpu_de L fd s;
     (_, q) \<leftarrow> hit;
     c \<leftarrow> cpus s q;
     Some (estadoPCB c, upd_cpu q (\<lambda>c. c\<lparr>estado_cpu := 1, estadoPCB := 0, q_asoc := quantum_nucleo s, pcbAsoc := 0\<rparr>) s)
   }"

section \<open>Blocking\<close>

definition sem_llamado :: "('l, nodo) t_list_more \<Rightarrow> byte list \<Rightarrow> ('l, 'd) nucleo \<Rightarrow> (nat \<times> nodo) option option" where
  "sem_llamado L nombre s = primero L (semaforos s) (\<lambda>q. map_option (\<lambda>m. nomSem m = nombre) (sems s q)) 0"

definition obtenerNodoSemaforo :: "('l, nodo) t_list_more \<Rightarrow> byte list \<Rightarrow> ('l, 'd) nucleo \<Rightarrow> nodo option" where
  "obtenerNodoSemaforo L sID s = do {
     hit \<leftarrow> sem_llamado L sID s;
     visitado L (semaforos s) hit
   }"

text \<open>The devices are counted but the list that is searched is that of the semaphores.\<close>

function obtenerNodoIO_loop :: "('l, nodo) t_list_more \<Rightarrow> byte list \<Rightarrow> nat \<Rightarrow> nodo option \<Rightarrow> ('l, 'd) nucleo \<Rightarrow> nodo option" where
  "obtenerNodoIO_loop L sID i iO s =
     (if i < list_size L (lIO s) then do {
        q \<leftarrow> list_get L (semaforos s) i;
        m \<leftarrow> sems s q;
        if nomSem m = sID then Some q else obtenerNodoIO_loop L sID (Suc i) (Some q) s
      } else iO)"
  by pat_completeness auto

termination obtenerNodoIO_loop
  by (relation "measure (\<lambda>(L, sID, i, iO, s). list_size L (lIO s) - i)") auto

declare obtenerNodoIO_loop.simps [simp del]

definition obtenerNodoIO :: "('l, nodo) t_list_more \<Rightarrow> byte list \<Rightarrow> ('l, 'd) nucleo \<Rightarrow> nodo option" where
  "obtenerNodoIO L sID s = obtenerNodoIO_loop L sID 0 None s"

text \<open>The name is received into \<^verbatim>\<open>malloc(sizeof(tambuf))\<close>, four bytes.\<close>

definition recibir_nombre_corto :: "u32 \<Rightarrow> u32 \<Rightarrow> ('l, 'd) nucleo \<Rightarrow> (byte list \<times> ('l, 'd) nucleo) option" where
  "recibir_nombre_corto fd tambuf s = do {
     (bs, s) \<leftarrow> recv_de fd (unat tambuf) s;
     nombre \<leftarrow> (if 4 < length bs then None else nombre_en bs);
     Some (nombre, s)
   }"

definition bloquearPCBaSemaforo :: "('l, nodo) t_list_more \<Rightarrow> nucleo_env \<Rightarrow> u32 \<Rightarrow> u32 \<Rightarrow> ('l, 'd) nucleo \<Rightarrow> ('l, 'd) nucleo option" where
  "bloquearPCBaSemaforo L E fd tambuf s = do {
     (ident, s) \<leftarrow> recibir_nombre_corto fd tambuf s;
     q \<leftarrow> obtenerNodoSemaforo L ident s;
     (p, s) \<leftarrow> deserializarPCB L E fd s;
     _ \<leftarrow> sems s q;
     Some (upd_sem q (\<lambda>m. m\<lparr>colSem := queue_push L (colSem m) p\<rparr>) s)
   }"

text \<open>The node found is a semaphore, which has neither the mutex nor the queue of a device.\<close>

definition bloquearPCBaIO :: "('l, nodo) t_list_more \<Rightarrow> nucleo_env \<Rightarrow> u32 \<Rightarrow> u32 \<Rightarrow> ('l, 'd) nucleo \<Rightarrow> ('l, 'd) nucleo option" where
  "bloquearPCBaIO L E fd tambuf s = do {
     (ident, s) \<leftarrow> recibir_nombre_corto fd tambuf s;
     q \<leftarrow> obtenerNodoIO L ident s;
     (p, s) \<leftarrow> deserializarPCB L E fd s;
     d \<leftarrow> ios s q;
     Some (s\<lparr>ios := (ios s)(q \<mapsto> d\<lparr>colIO := queue_push L (colIO d) p, semIO := Suc (semIO d)\<rparr>)\<rparr>)
   }"

section \<open>Start-up\<close>

text \<open>One word is allocated for all the shared variables, and freed before it is used.\<close>

definition inicializarVarGlobales :: "'d t_dictionary \<Rightarrow> byte list list \<Rightarrow> ('l, 'd) nucleo \<Rightarrow> ('l, 'd) nucleo" where
  "inicializarVarGlobales D varAInsertar s =
     (let q = proximo s;
          s = s\<lparr>proximo := Suc q, celdas := (celdas s)(q \<mapsto> 0), varGlobales := dictionary_create D\<rparr>;
          s = s\<lparr>varGlobales := foldl (\<lambda>d v. dictionary_put D d v q) (varGlobales s) varAInsertar\<rparr>
      in s\<lparr>celdas := (celdas s)(q := None)\<rparr>)"

fun crear_semaforos :: "('l, nodo) t_list_more \<Rightarrow> byte list list \<Rightarrow> int list \<Rightarrow> ('l, 'd) nucleo \<Rightarrow> ('l, 'd) nucleo option" where
  "crear_semaforos L [] vs s = Some s"
| "crear_semaforos L (n # ns) [] s = None"
| "crear_semaforos L (n # ns) (v # vs) s =
     (let q = proximo s;
          s = s\<lparr>proximo := Suc q, sems := (sems s)(q \<mapsto> \<lparr>nomSem = n, valor = v, colSem = list_create L\<rparr>)\<rparr>
      in crear_semaforos L ns vs (s\<lparr>semaforos := list_add L (semaforos s) q\<rparr>))"

definition inicializarSemaforos :: "('l, nodo) t_list_more \<Rightarrow> byte list list \<Rightarrow> int list \<Rightarrow> ('l, 'd) nucleo \<Rightarrow> ('l, 'd) nucleo option" where
  "inicializarSemaforos L ids inits s = crear_semaforos L ids inits (s\<lparr>semaforos := list_create L\<rparr>)"

fun crear_dispositivos :: "('l, nodo) t_list_more \<Rightarrow> byte list list \<Rightarrow> int list \<Rightarrow> ('l, 'd) nucleo \<Rightarrow> ('l, 'd) nucleo option" where
  "crear_dispositivos L [] vs s = Some s"
| "crear_dispositivos L (n # ns) [] s = None"
| "crear_dispositivos L (n # ns) (v # vs) s =
     (let q = proximo s;
          s = s\<lparr>proximo := Suc q, ios := (ios s)(q \<mapsto> \<lparr>nomIO = n, retardo = v, colIO = list_create L, semIO = 0\<rparr>)\<rparr>
      in crear_dispositivos L ns vs (s\<lparr>lIO := list_add L (lIO s) q\<rparr>))"

definition inicializarEntradaSalida :: "('l, nodo) t_list_more \<Rightarrow> byte list list \<Rightarrow> int list \<Rightarrow> ('l, 'd) nucleo \<Rightarrow> ('l, 'd) nucleo option" where
  "inicializarEntradaSalida L ids sleeps s = crear_dispositivos L ids sleeps (s\<lparr>lIO := list_create L\<rparr>)"

record nucleo_config =
  cfg_quantum :: u32
  cfg_quantum_sleep :: u32
  cfg_stack_size :: u32
  cfg_shared_vars :: "byte list list"
  cfg_io_ids :: "byte list list"
  cfg_io_sleep :: "int list"
  cfg_sem_ids :: "byte list list"
  cfg_sem_init :: "int list"

definition inicializarEstructuras :: "('l, nodo) t_list_more \<Rightarrow> 'd t_dictionary \<Rightarrow> nucleo_config \<Rightarrow> ('l, 'd) nucleo \<Rightarrow> ('l, 'd) nucleo option" where
  "inicializarEstructuras L D c s = do {
     let s = s\<lparr>quantum_nucleo := cfg_quantum c, qSleep := cfg_quantum_sleep c, stackSize := cfg_stack_size c\<rparr>;
     let s = inicializarVarGlobales D (cfg_shared_vars c) s;
     s \<leftarrow> inicializarEntradaSalida L (cfg_io_ids c) (cfg_io_sleep c) s;
     s \<leftarrow> inicializarSemaforos L (cfg_sem_ids c) (cfg_sem_init c) s;
     Some (s\<lparr>readyPCBs := list_create L, listaCPUs := list_create L\<rparr>)
   }"

section \<open>A new program\<close>

definition obtenerCantPags :: "byte list \<Rightarrow> ('l, 'd) nucleo \<Rightarrow> u32 option" where
  "obtenerCantPags codigoAnsisop s =
     (let n = length codigoAnsisop + 1; t = unat (tamPag s) in
      if t = 0 then None
      else Some (of_nat (if n mod t = 0 then n div t else n div t + 1)))"

definition solicitarPaginasUMC :: "u32 \<Rightarrow> byte list \<Rightarrow> ('l, 'd) nucleo \<Rightarrow> (u32 \<times> ('l, 'd) nucleo) option" where
  "solicitarPaginasUMC pID programa s = do {
     cantPag \<leftarrow> obtenerCantPags programa s;
     let s = envia_umc (le32 INICIALIZAR_PROGRAMA_UMC @ le32 pID @ le32 cantPag @ le32 (of_nat (length programa + 1)) @ programa @ [0]) s;
     (resultado, inp) \<leftarrow> recibir_u32 (respuesta_umc s);
     Some (resultado, s\<lparr>respuesta_umc := inp\<rparr>)
   }"

definition pcb_inicial :: "nucleo_env \<Rightarrow> u32 \<Rightarrow> u32 \<Rightarrow> u32 \<Rightarrow> byte list \<Rightarrow> 'l t_PCB" where
  "pcb_inicial E pID pags stack codigoAnsisop = (case metadata_desde_literal E codigoAnsisop of (inicio, instrs, esize, etiq) \<Rightarrow>
     \<lparr>PID = pID, PC = inicio, paginasCodigo = pags, paginasStack = stack, cantOperacIO = 0,
      tamanioIndiceDeCodigo = of_nat (length instrs), indiceDeCodigo = instrs, etiquetas_size = esize, etiquetas = Some etiq,
      SP = 0, tamanioIndiceStack = 0, indiceDeStack = None\<rparr>)"

definition inicializarPCB :: "('l, nodo) t_list_more \<Rightarrow> nucleo_env \<Rightarrow> u32 \<Rightarrow> byte list \<Rightarrow> ('l, 'd) nucleo \<Rightarrow> ('l, 'd) nucleo option" where
  "inicializarPCB L E pID codigoAnsisop s = do {
     (resp, s) \<leftarrow> solicitarPaginasUMC pID codigoAnsisop s;
     if resp = PROGRAMA_INICIALIZADO then do {
       pags \<leftarrow> obtenerCantPags codigoAnsisop s;
       let (p, s) = malloc_pcb (pcb_inicial E pID pags (stackSize s) codigoAnsisop) s;
       Some (post SemReady (push_ready L p s))
     } else if resp = PROGRAMA_NO_INICIALIZADO then Some (anota [Envia pID (le32 resp), Cierra pID] s)
     else Some s
   }"

definition inicializarAnsisop :: "('l, nodo) t_list_more \<Rightarrow> nucleo_env \<Rightarrow> u32 \<Rightarrow> u32 \<Rightarrow> ('l, 'd) nucleo \<Rightarrow> ('l, 'd) nucleo option" where
  "inicializarAnsisop L E s_consola cant_leer s = do {
     (bs, s) \<leftarrow> recv_de s_consola (unat cant_leer) s;
     progAnsisop \<leftarrow> nombre_en bs;
     inicializarPCB L E s_consola progAnsisop s
   }"

section \<open>Shared variables and semaphores\<close>

definition obtenerValorGlobal :: "'d t_dictionary \<Rightarrow> u32 \<Rightarrow> u32 \<Rightarrow> ('l, 'd) nucleo \<Rightarrow> ('l, 'd) nucleo option" where
  "obtenerValorGlobal D fd tam_buf s = do {
     (bs, s) \<leftarrow> recv_de fd (unat tam_buf) s;
     varGlob \<leftarrow> nombre_en bs;
     q \<leftarrow> dictionary_get D (varGlobales s) varGlob;
     v \<leftarrow> celdas s q;
     Some (envia fd (le32 VALOR_GLOBAL @ le32 v) s)
   }"

text \<open>The dictionary keeps the address of a local variable, which is gone when the function returns.\<close>

definition grabarValor :: "'d t_dictionary \<Rightarrow> u32 \<Rightarrow> u32 \<Rightarrow> ('l, 'd) nucleo \<Rightarrow> ('l, 'd) nucleo option" where
  "grabarValor D fd tam_buf s = do {
     (v, s) \<leftarrow> recv_u32_de fd s;
     (bs, s) \<leftarrow> recv_de fd (unat (tam_buf - 4)) s;
     varGlob \<leftarrow> nombre_en bs;
     let q = proximo s;
     let s = s\<lparr>proximo := Suc q, celdas := (celdas s)(q \<mapsto> v), varGlobales := dictionary_put D (varGlobales s) varGlob q\<rparr>;
     Some (s\<lparr>celdas := (celdas s)(q := None)\<rparr>)
   }"

definition decrementarSemaforo :: "('l, nodo) t_list_more \<Rightarrow> u32 \<Rightarrow> byte list \<Rightarrow> ('l, 'd) nucleo \<Rightarrow> ('l, 'd) nucleo option" where
  "decrementarSemaforo L fd ident s = do {
     hit \<leftarrow> sem_llamado L ident s;
     case hit of None \<Rightarrow> Some s
     | Some (_, q) \<Rightarrow> do {
         let s = upd_sem q (\<lambda>m. m\<lparr>valor := valor m - 1\<rparr>) s;
         m \<leftarrow> sems s q;
         Some (envia fd (le32 (if valor m < 0 then BLOQUEADO else NO_BLOQUEADO)) s)
       }
   }"

definition aumentarSemaforo :: "('l, nodo) t_list_more \<Rightarrow> byte list \<Rightarrow> ('l, 'd) nucleo \<Rightarrow> ('l, 'd) nucleo option" where
  "aumentarSemaforo L ident s = do {
     hit \<leftarrow> sem_llamado L ident s;
     case hit of None \<Rightarrow> Some s
     | Some (_, q) \<Rightarrow> do {
         let s = upd_sem q (\<lambda>m. m\<lparr>valor := valor m + 1\<rparr>) s;
         m \<leftarrow> sems s q;
         if 0 < list_size L (colSem m) then do {
           let (p, l) = queue_pop L (colSem m);
           p \<leftarrow> p;
           Some (push_ready L p (upd_sem q (\<lambda>m. m\<lparr>colSem := l\<rparr>) s))
         } else Some s
       }
   }"

definition waitSemaforo :: "('l, nodo) t_list_more \<Rightarrow> u32 \<Rightarrow> u32 \<Rightarrow> ('l, 'd) nucleo \<Rightarrow> ('l, 'd) nucleo option" where
  "waitSemaforo L fd tam_buf s = do {
     (bs, s) \<leftarrow> recv_de fd (unat tam_buf) s;
     semID \<leftarrow> nombre_en bs;
     decrementarSemaforo L fd semID s
   }"

definition signalSemaforo :: "('l, nodo) t_list_more \<Rightarrow> u32 \<Rightarrow> u32 \<Rightarrow> ('l, 'd) nucleo \<Rightarrow> ('l, 'd) nucleo option" where
  "signalSemaforo L fd tam_buf s = do {
     (bs, s) \<leftarrow> recv_de fd (unat tam_buf) s;
     semID \<leftarrow> nombre_en bs;
     aumentarSemaforo L semID s
   }"

section \<open>The end of a program\<close>

definition despedir :: "nodo \<Rightarrow> ('l, 'd) nucleo \<Rightarrow> ('l, 'd) nucleo option" where
  "despedir q s = do {
     p \<leftarrow> pcbs s q;
     let s = envia_umc (le32 FINALIZAR_PROGRAMA_UMC @ le32 (PID p)) s;
     let s = anota [Envia (PID p) (le32 PROGRAMA_FINALIZO), Cierra (PID p)] s;
     Some (s\<lparr>pcbs := (pcbs s)(q := None)\<rparr>)
   }"

definition finalizarPCBTradicional :: "('l, nodo) t_list_more \<Rightarrow> nucleo_env \<Rightarrow> u32 \<Rightarrow> u32 \<Rightarrow> ('l, 'd) nucleo \<Rightarrow> ('l, 'd) nucleo option" where
  "finalizarPCBTradicional L E fd tam_pcb s = do {
     (q, s) \<leftarrow> deserializarPCBTradicional L E fd tam_pcb s;
     despedir q s
   }"

definition finalizarPCB :: "('l, nodo) t_list_more \<Rightarrow> nucleo_env \<Rightarrow> u32 \<Rightarrow> ('l, 'd) nucleo \<Rightarrow> ('l, 'd) nucleo option" where
  "finalizarPCB L E fd s = do {
     (q, s) \<leftarrow> deserializarPCB L E fd s;
     despedir q s
   }"

definition eliminarDatosNoRelevantesSem :: "u32 \<Rightarrow> u32 \<Rightarrow> ('l, 'd) nucleo \<Rightarrow> ('l, 'd) nucleo option" where
  "eliminarDatosNoRelevantesSem fd tamanio s = map_option snd (recv_de fd (unat tamanio) s)"

definition eliminarDatosNoRelevantesIO :: "u32 \<Rightarrow> u32 \<Rightarrow> ('l, 'd) nucleo \<Rightarrow> ('l, 'd) nucleo option" where
  "eliminarDatosNoRelevantesIO fd tamanio s = do {
     (_, s) \<leftarrow> recv_de fd (unat tamanio) s;
     (_, s) \<leftarrow> recv_u32_de fd s;
     Some s
   }"

text \<open>The semaphore of the free CPUs is raised, not lowered.\<close>

definition eliminarCPU :: "('l, nodo) t_list_more \<Rightarrow> u32 \<Rightarrow> ('l, 'd) nucleo \<Rightarrow> ('l, 'd) nucleo option" where
  "eliminarCPU L cpuID s = do {
     hit \<leftarrow> cpu_de L cpuID s;
     q \<leftarrow> visitado L (listaCPUs s) hit;
     let s = (case hit of None \<Rightarrow> s | Some (i, _) \<Rightarrow> s\<lparr>listaCPUs := snd (list_remove L (listaCPUs s) i)\<rparr>);
     let s = s\<lparr>cpus := (cpus s)(q := None)\<rparr>;
     Some (post SemCpu (anota [Cierra cpuID] s))
   }"

section \<open>A console that gives up\<close>

text \<open>
  The search of a queue for a process: the elements looked at go to the end. When the process is
  found past the front, the loop that should restore the order does not advance and never ends
  (\<open>None\<close>) unless the queue was exhausted.
\<close>

definition no_termina :: "('l, nodo) t_list_more \<Rightarrow> nat \<Rightarrow> 'l \<Rightarrow> bool" where
  "no_termina L i q \<longleftrightarrow> i \<noteq> 0 \<and> i < list_size L q"

partial_function (option) eliminar_de_ready :: "('l, nodo) t_list_more \<Rightarrow> u32 \<Rightarrow> nat \<Rightarrow> nodo option \<Rightarrow> 'l \<Rightarrow> ('l, 'd) nucleo
    \<Rightarrow> (bool \<times> nodo option \<times> 'l) option" where
  "eliminar_de_ready L pID i ult q s =
     (if i < list_size L q then case queue_pop L q of (x, q) \<Rightarrow> do {
        x \<leftarrow> x;
        p \<leftarrow> pcbs s x;
        if PID p = pID then (if no_termina L i q then None else Some (True, Some x, q))
        else eliminar_de_ready L pID (Suc i) (Some x) (queue_push L q x) s
      } else Some (False, ult, q))"

text \<open>In the queue of a semaphore, or of a device, the search goes on after a hit.\<close>

partial_function (option) eliminar_de_cola :: "('l, nodo) t_list_more \<Rightarrow> u32 \<Rightarrow> nat \<Rightarrow> bool \<Rightarrow> nodo option \<Rightarrow> 'l \<Rightarrow> ('l, 'd) nucleo
    \<Rightarrow> (bool \<times> nodo option \<times> nat \<times> 'l) option" where
  "eliminar_de_cola L pID j acierto ult q s =
     (if j < list_size L q then case queue_pop L q of (x, q) \<Rightarrow> do {
        x \<leftarrow> x;
        p \<leftarrow> pcbs s x;
        if PID p = pID then (if no_termina L j q then None else eliminar_de_cola L pID (Suc j) True (Some x) q s)
        else eliminar_de_cola L pID (Suc j) acierto (Some x) (queue_push L q x) s
      } else Some (acierto, ult, j, q))"

function eliminar_de_sems :: "('l, nodo) t_list_more \<Rightarrow> u32 \<Rightarrow> nat \<Rightarrow> nat \<Rightarrow> nodo option \<Rightarrow> nodo option \<Rightarrow> 'l \<Rightarrow> ('l, 'd) nucleo
    \<Rightarrow> (bool \<times> nodo option \<times> nodo option \<times> ('l, 'd) nucleo) option" where
  "eliminar_de_sems L pID i j ult semAux l s =
     (if i < list_size L l then do {
        q \<leftarrow> list_get L l i;
        m \<leftarrow> sems s q;
        (acierto, ult, j, cola) \<leftarrow> eliminar_de_cola L pID j False ult (colSem m) s;
        let s = upd_sem q (\<lambda>m. m\<lparr>colSem := cola\<rparr>) s;
        if acierto then Some (True, ult, Some q, s) else eliminar_de_sems L pID (Suc i) j ult (Some q) l s
      } else Some (False, ult, semAux, s))"
  by pat_completeness auto

termination eliminar_de_sems
  by (relation "measure (\<lambda>(L, pID, i, j, ult, semAux, l, s). list_size L l - i)") auto

declare eliminar_de_sems.simps [simp del]

text \<open>For a device the bound is the length of its queue but the queue searched is that of the last semaphore.\<close>

partial_function (option) eliminar_en_io :: "('l, nodo) t_list_more \<Rightarrow> u32 \<Rightarrow> nat \<Rightarrow> bool \<Rightarrow> nodo option \<Rightarrow> nodo \<Rightarrow> nodo \<Rightarrow> ('l, 'd) nucleo
    \<Rightarrow> (bool \<times> nodo option \<times> nat \<times> ('l, 'd) nucleo) option" where
  "eliminar_en_io L pID j acierto ult semAux ioAux s = do {
     d \<leftarrow> ios s ioAux;
     if j < list_size L (colIO d) then do {
       m \<leftarrow> sems s semAux;
       case queue_pop L (colSem m) of (x, q) \<Rightarrow> do {
         x \<leftarrow> x;
         p \<leftarrow> pcbs s x;
         if PID p = pID then
           if no_termina L j q \<or> semIO d = 0 then None
           else eliminar_en_io L pID (Suc j) True (Some x) semAux ioAux
             ((upd_sem semAux (\<lambda>m. m\<lparr>colSem := q\<rparr>) s)\<lparr>ios := (ios s)(ioAux \<mapsto> d\<lparr>semIO := semIO d - 1\<rparr>)\<rparr>)
         else eliminar_en_io L pID (Suc j) acierto (Some x) semAux ioAux (upd_sem semAux (\<lambda>m. m\<lparr>colSem := queue_push L q x\<rparr>) s)
       }
     } else Some (acierto, ult, j, s)
   }"

function eliminar_de_ios :: "('l, nodo) t_list_more \<Rightarrow> u32 \<Rightarrow> nat \<Rightarrow> nat \<Rightarrow> nodo option \<Rightarrow> nodo option \<Rightarrow> nodo option \<Rightarrow> 'l \<Rightarrow> ('l, 'd) nucleo
    \<Rightarrow> (nodo option \<times> nodo option \<times> ('l, 'd) nucleo) option" where
  "eliminar_de_ios L pID i j ult semAux ioAux l s =
     (if i < list_size L l then do {
        q \<leftarrow> list_get L l i;
        d \<leftarrow> ios s q;
        (acierto, ult, j, s) \<leftarrow> (if j < list_size L (colIO d) then do { sq \<leftarrow> semAux; eliminar_en_io L pID j False ult sq q s }
          else Some (False, ult, j, s));
        if acierto then Some (ult, Some q, s) else eliminar_de_ios L pID (Suc i) j ult semAux (Some q) l s
      } else Some (ult, ioAux, s))"
  by pat_completeness auto

termination eliminar_de_ios
  by (relation "measure (\<lambda>(L, pID, i, j, ult, semAux, ioAux, l, s). list_size L l - i)") auto

declare eliminar_de_ios.simps [simp del]

definition libera :: "nodo option \<Rightarrow> (nodo \<Rightarrow> 'a option) \<Rightarrow> nodo \<Rightarrow> 'a option" where
  "libera q f = (case q of None \<Rightarrow> f | Some q \<Rightarrow> f(q := None))"

text \<open>
  Whatever the variables \<^verbatim>\<open>pcb\<close>, \<^verbatim>\<open>cpu\<close>, \<^verbatim>\<open>semAux\<close> and \<^verbatim>\<open>ioAux\<close> were left pointing to is freed: the last node
  each search looked at, or the block allocated at the beginning, whose PID was never set.
\<close>

definition buscarPCByEliminar :: "('l, nodo) t_list_more \<Rightarrow> nucleo_env \<Rightarrow> u32 \<Rightarrow> ('l, 'd) nucleo \<Rightarrow> ('l, 'd) nucleo option" where
  "buscarPCByEliminar L E pID s = do {
     hit \<leftarrow> primero L (listaCPUs s) (\<lambda>q. map_option (\<lambda>c. pcbAsoc c = pID) (cpus s q)) 0;
     let cpu = visitado L (listaCPUs s) hit;
     let s = (case hit of None \<Rightarrow> s | Some (_, q) \<Rightarrow> upd_cpu q (\<lambda>c. c\<lparr>estadoPCB := 1\<rparr>) s);
     let acierto = (hit \<noteq> None);
     (acierto, ult, cola) \<leftarrow> (if acierto then Some (True, None, readyPCBs s) else eliminar_de_ready L pID 0 None (readyPCBs s) s);
     let s = s\<lparr>readyPCBs := cola\<rparr>;
     (acierto, ult, semAux, s) \<leftarrow> (if acierto then Some (True, ult, None, s) else eliminar_de_sems L pID 0 0 ult None (semaforos s) s);
     (ult, ioAux, s) \<leftarrow> (if acierto then Some (ult, None, s) else eliminar_de_ios L pID 0 0 ult semAux None (lIO s) s);
     pid \<leftarrow> (case ult of None \<Rightarrow> Some (basura_pid E) | Some x \<Rightarrow> map_option PID (pcbs s x));
     let s = envia_umc (le32 FINALIZAR_PROGRAMA_UMC @ le32 pid) s;
     Some (s\<lparr>pcbs := libera ult (pcbs s), cpus := libera cpu (cpus s), sems := libera semAux (sems s), ios := libera ioAux (ios s)\<rparr>)
   }"

section \<open>The orders\<close>

text \<open>After the three words of the header: who sends, what, and a size.\<close>

definition orden_consola :: "('l, nodo) t_list_more \<Rightarrow> nucleo_env \<Rightarrow> u32 \<Rightarrow> u32 \<Rightarrow> u32 \<Rightarrow> ('l, 'd) nucleo \<Rightarrow> ('l, 'd) nucleo option" where
  "orden_consola L E socket ord tamanio_buffer s =
     (if ord = INICIALIZAR_ANSISOP then inicializarAnsisop L E socket tamanio_buffer s
      else if ord = FINALIZAR_ANSISOP then map_option (anota [Cierra socket]) (buscarPCByEliminar L E socket s)
      else Some s)"

definition orden_cpu :: "('l, nodo) t_list_more \<Rightarrow> 'd t_dictionary \<Rightarrow> nucleo_env \<Rightarrow> u32 \<Rightarrow> u32 \<Rightarrow> u32 \<Rightarrow> ('l, 'd) nucleo \<Rightarrow> ('l, 'd) nucleo option" where
  "orden_cpu L D E socket ord tamanio_buffer s =
     (if ord = OBTENER_VALOR then obtenerValorGlobal D socket tamanio_buffer s
      else if ord = GRABAR_VALOR then grabarValor D socket tamanio_buffer s
      else if ord = ORDEN_WAIT then waitSemaforo L socket tamanio_buffer s
      else if ord = ORDEN_SIGNAL then signalSemaforo L socket tamanio_buffer s
      else if ord = ENTRADA_SALIDA then do {
        (v, s) \<leftarrow> actualizarCPUlibre L socket s;
        if v = 0 then bloquearPCBaIO L E socket tamanio_buffer s
        else do { s \<leftarrow> eliminarDatosNoRelevantesIO socket tamanio_buffer s; finalizarPCB L E socket s }
      }
      else if ord = PASO_QUANTUM then actualizarQuantumCPU L socket s
      else if ord = FIN_ANSISOP then finalizarPCBTradicional L E socket tamanio_buffer s
      else if ord = BLOQUEAR_PCB_SEMAFORO then do {
        (v, s) \<leftarrow> actualizarCPUlibre L socket s;
        if v = 0 then bloquearPCBaSemaforo L E socket tamanio_buffer s
        else do { s \<leftarrow> eliminarDatosNoRelevantesSem socket tamanio_buffer s; finalizarPCB L E socket s }
      }
      else if ord = IMPRIMIR_TEXTO then mandarAImprimirTexto socket tamanio_buffer s
      else if ord = FIN_QUANTUM then do {
        (v, s) \<leftarrow> actualizarCPUlibre L socket s;
        if v = 0 then mandarAready L E socket tamanio_buffer s else finalizarPCBTradicional L E socket tamanio_buffer s
      }
      else if ord = FIN_CPU then eliminarCPU L socket s
      else Some s)"

definition atenderOrdenSegunID :: "('l, nodo) t_list_more \<Rightarrow> 'd t_dictionary \<Rightarrow> nucleo_env \<Rightarrow> u32 \<Rightarrow> u32 \<Rightarrow> u32 \<Rightarrow> u32 \<Rightarrow> ('l, 'd) nucleo
    \<Rightarrow> ('l, 'd) nucleo option" where
  "atenderOrdenSegunID L D E socket ident ord tamanio_buffer s =
     (if ident = ID_CONSOLA then orden_consola L E socket ord tamanio_buffer s
      else if ident = ID_CPU then orden_cpu L D E socket ord tamanio_buffer s
      else Some s)"

end
