(* ===== verification/Nucleo_Planificador.thy ===== *)
theory Nucleo_Planificador
  imports Nucleo_Ordenes
begin

text \<open>
  The threads of the nucleo: the loop over \<^verbatim>\<open>select\<close>, the short-term planner and the managers of the
  devices, as steps of one state. A step that has to wait is not enabled (\<open>None\<close>).
\<close>

definition buscarCPUyAsignar :: "('l, nodo) t_list_more \<Rightarrow> nodo \<Rightarrow> ('l, 'd) nucleo \<Rightarrow> ('l, 'd) nucleo option" where
  "buscarCPUyAsignar L pcb s = do {
     hit \<leftarrow> primero L (listaCPUs s) (\<lambda>q. map_option (\<lambda>c. estado_cpu c = 1) (cpus s q)) 0;
     case hit of None \<Rightarrow> Some s
     | Some (_, q) \<Rightarrow> do {
         p \<leftarrow> pcbs s pcb;
         let s = upd_cpu q (\<lambda>c. c\<lparr>estado_cpu := 0, pcbAsoc := PID p\<rparr>) s;
         c \<leftarrow> cpus s q;
         serializarPCByEnviar L pcb (s_cpu c) s
       }
   }"

definition asignarPCB :: "('l, nodo) t_list_more \<Rightarrow> ('l, 'd) nucleo \<Rightarrow> ('l, 'd) nucleo option" where
  "asignarPCB L s = do {
     let (p, l) = queue_pop L (readyPCBs s);
     p \<leftarrow> p;
     _ \<leftarrow> pcbs s p;
     buscarCPUyAsignar L p (s\<lparr>readyPCBs := l\<rparr>)
   }"

text \<open>\<^verbatim>\<open>PlanifCortoPlazo\<close>: a process that is ready is waited for first, then a CPU.\<close>

definition planif_ready :: "('l, 'd) nucleo \<Rightarrow> ('l, 'd) nucleo option" where
  "planif_ready s =
     (if espera_cpu s \<or> sem_ready s = 0 then None else Some (s\<lparr>sem_ready := sem_ready s - 1, espera_cpu := True\<rparr>))"

definition planif_asigna :: "('l, nodo) t_list_more \<Rightarrow> ('l, 'd) nucleo \<Rightarrow> ('l, 'd) nucleo option" where
  "planif_asigna L s =
     (if \<not> espera_cpu s \<or> sem_cpu s = 0 then None
      else asignarPCB L (s\<lparr>sem_cpu := sem_cpu s - 1, espera_cpu := False\<rparr>))"

definition manejadorIO :: "('l, nodo) t_list_more \<Rightarrow> nodo \<Rightarrow> ('l, 'd) nucleo \<Rightarrow> ('l, 'd) nucleo option" where
  "manejadorIO L q s = do {
     d \<leftarrow> ios s q;
     if semIO d = 0 then None
     else do {
       let (x, l) = queue_pop L (colIO d);
       x \<leftarrow> x;
       p \<leftarrow> pcbs s x;
       let s = s\<lparr>ios := (ios s)(q \<mapsto> d\<lparr>semIO := semIO d - 1, colIO := l\<rparr>), pcbs := (pcbs s)(x \<mapsto> p\<lparr>cantOperacIO := 0\<rparr>)\<rparr>;
       Some (push_ready L x s)
     }
   }"

definition handShake_Nucleo :: "u32 \<Rightarrow> int" where
  "handShake_Nucleo cliente = (if cliente = ID_CONSOLA then 2 else if cliente = ID_CPU then 1 else 0)"

text \<open>An empty stream is a connection that was closed.\<close>

definition handShake :: "u32 \<Rightarrow> ('l, 'd) nucleo \<Rightarrow> (int \<times> ('l, 'd) nucleo) option" where
  "handShake newfd s =
     (if entrada_de s newfd = [] then Some (0, s)
      else map_option (\<lambda>(idCliente, s). (handShake_Nucleo idCliente, s)) (recv_u32_de newfd s))"

definition nueva_conexion_nucleo :: "('l, nodo) t_list_more \<Rightarrow> nucleo_env \<Rightarrow> u32 \<Rightarrow> ('l, 'd) nucleo \<Rightarrow> ('l, 'd) nucleo option" where
  "nueva_conexion_nucleo L E newfd s = do {
     (valHand, s) \<leftarrow> handShake newfd s;
     Some (if valHand = 2 then s
       else if valHand = 1 then
         let q = proximo s;
             s = s\<lparr>proximo := Suc q, cpus := (cpus s)(q \<mapsto> \<lparr>s_cpu = newfd, q_asoc = quantum_nucleo s, pcbAsoc = basura_asoc E,
                   estadoPCB = 0, estado_cpu = 1\<rparr>), listaCPUs := list_add L (listaCPUs s) q\<rparr>
         in post SemCpu s
       else anota [Cierra newfd] s)
   }"

text \<open>The three words a request starts with.\<close>

definition cabecera :: "u32 \<Rightarrow> ('l, 'd) nucleo \<Rightarrow> ((u32 \<times> u32 \<times> u32) \<times> ('l, 'd) nucleo) option" where
  "cabecera fd s = do {
     (ident, s) \<leftarrow> recv_u32_de fd s;
     (ord, s) \<leftarrow> recv_u32_de fd s;
     (tam, s) \<leftarrow> recv_u32_de fd s;
     Some ((ident, ord, tam), s)
   }"

definition datos_de :: "('l, nodo) t_list_more \<Rightarrow> 'd t_dictionary \<Rightarrow> nucleo_env \<Rightarrow> u32 \<Rightarrow> ('l, 'd) nucleo \<Rightarrow> ('l, 'd) nucleo option" where
  "datos_de L D E fd s =
     (if entrada_de s fd = [] then Some (anota [Cierra fd] s)
      else do {
        ((ident, ord, tam), s) \<leftarrow> cabecera fd s;
        atenderOrdenSegunID L D E fd ident ord tam s
      })"

definition cambio_config :: "u32 \<Rightarrow> u32 \<Rightarrow> ('l, 'd) nucleo \<Rightarrow> ('l, 'd) nucleo" where
  "cambio_config q qs s = s\<lparr>quantum_nucleo := q, qSleep := qs\<rparr>"

text \<open>\<open>Llega\<close> and \<open>Llega_UMC\<close> are the network: bytes of a peer arrive.\<close>

datatype evento = Conexion u32 | Datos u32 | Planif_ready | Planif_asigna | Termina_IO nodo | Configuracion u32 u32
  | Llega u32 "byte list" | Llega_UMC "byte list"

fun paso_nucleo :: "('l, nodo) t_list_more \<Rightarrow> 'd t_dictionary \<Rightarrow> nucleo_env \<Rightarrow> evento \<Rightarrow> ('l, 'd) nucleo \<Rightarrow> ('l, 'd) nucleo option" where
  "paso_nucleo L D E (Conexion fd) s = nueva_conexion_nucleo L E fd s"
| "paso_nucleo L D E (Datos fd) s = datos_de L D E fd s"
| "paso_nucleo L D E Planif_ready s = planif_ready s"
| "paso_nucleo L D E Planif_asigna s = planif_asigna L s"
| "paso_nucleo L D E (Termina_IO q) s = manejadorIO L q s"
| "paso_nucleo L D E (Configuracion q qs) s = Some (cambio_config q qs s)"
| "paso_nucleo L D E (Llega fd bs) s = Some (s\<lparr>entrada_de := (entrada_de s)(fd := entrada_de s fd @ bs)\<rparr>)"
| "paso_nucleo L D E (Llega_UMC bs) s = Some (s\<lparr>respuesta_umc := respuesta_umc s @ bs\<rparr>)"

text \<open>
  A run of the nucleo, with the number of processes handed to a CPU, of programs the consoles asked to
  start, and of CPUs that came or said they leave.
\<close>

definition asigna :: "evento \<Rightarrow> nat" where
  "asigna e = (if e = Planif_asigna then 1 else 0)"

definition arranca :: "evento \<Rightarrow> ('l, 'd) nucleo \<Rightarrow> nat" where
  "arranca e s = (case e of
      Datos fd \<Rightarrow> (case cabecera fd s of Some ((ident, ord, _), _) \<Rightarrow> if ident = ID_CONSOLA \<and> ord = INICIALIZAR_ANSISOP then 1 else 0
        | None \<Rightarrow> 0)
    | _ \<Rightarrow> 0)"

definition mueve_cpu :: "evento \<Rightarrow> ('l, 'd) nucleo \<Rightarrow> nat" where
  "mueve_cpu e s = (case e of
      Conexion fd \<Rightarrow> (case recv_u32_de fd s of Some (ident, _) \<Rightarrow> if ident = ID_CPU then 1 else 0 | None \<Rightarrow> 0)
    | Datos fd \<Rightarrow> (case cabecera fd s of Some ((ident, ord, _), _) \<Rightarrow> if ident = ID_CPU \<and> ord = FIN_CPU then 1 else 0
        | None \<Rightarrow> 0)
    | _ \<Rightarrow> 0)"

inductive ejecucion :: "('l, nodo) t_list_more \<Rightarrow> 'd t_dictionary \<Rightarrow> nucleo_env \<Rightarrow> ('l, 'd) nucleo \<Rightarrow> nat \<Rightarrow> nat \<Rightarrow> nat \<Rightarrow> ('l, 'd) nucleo \<Rightarrow> bool"
  for L D E s0 where
  inicio: "ejecucion L D E s0 0 0 0 s0"
| paso: "ejecucion L D E s0 a p c s \<Longrightarrow> paso_nucleo L D E e s = Some s' \<Longrightarrow>
    ejecucion L D E s0 (a + asigna e) (p + arranca e s) (c + mueve_cpu e s) s'"

text \<open>The same run as a function of the events.\<close>

fun pasos_nucleo :: "('l, nodo) t_list_more \<Rightarrow> 'd t_dictionary \<Rightarrow> nucleo_env \<Rightarrow> evento list \<Rightarrow> ('l, 'd) nucleo
    \<Rightarrow> (nat \<times> nat \<times> nat \<times> ('l, 'd) nucleo) option" where
  "pasos_nucleo L D E [] s = Some (0, 0, 0, s)"
| "pasos_nucleo L D E (e # es) s = do {
     s1 \<leftarrow> paso_nucleo L D E e s;
     (a, p, c, s') \<leftarrow> pasos_nucleo L D E es s1;
     Some (asigna e + a, arranca e s + p, mueve_cpu e s + c, s')
   }"

lemma ejecucion_pasos:
  "ejecucion L D E s0 a p c s \<Longrightarrow> pasos_nucleo L D E es s = Some (a', p', c', s') \<Longrightarrow>
   ejecucion L D E s0 (a + a') (p + p') (c + c') s'"
proof (induction es arbitrary: a p c s a' p' c')
  case (Cons e es)
  then obtain s1 a1 p1 c1 where "paso_nucleo L D E e s = Some s1" "pasos_nucleo L D E es s1 = Some (a1, p1, c1, s')"
      "a' = asigna e + a1" "p' = arranca e s + p1" "c' = mueve_cpu e s + c1"
    by (auto simp: bind_eq_Some_conv)
  then show ?case
    using Cons.IH [OF ejecucion.paso [OF Cons.prems(1)]] by (metis add.assoc)
qed simp

section \<open>What most handlers leave alone\<close>

text \<open>The semaphores of the planner, the list of the CPUs and the words of the shared variables.\<close>

definition quieto :: "('l, 'd) nucleo \<Rightarrow> ('l, 'd) nucleo \<Rightarrow> bool" where
  "quieto s s' \<longleftrightarrow> sem_ready s' = sem_ready s \<and> sem_cpu s' = sem_cpu s \<and> espera_cpu s' = espera_cpu s
     \<and> listaCPUs s' = listaCPUs s \<and> celdas s' = celdas s"

lemma quieto_refl [simp]: "quieto s s"
  by (simp add: quieto_def)

lemma quieto_trans: "quieto s s' \<Longrightarrow> quieto s' s'' \<Longrightarrow> quieto s s''"
  by (simp add: quieto_def)

lemma quieto_upd [simp]:
  "quieto s (anota cs s') \<longleftrightarrow> quieto s s'" "quieto (anota cs s) s' \<longleftrightarrow> quieto s s'"
  "quieto s (envia fd bs s') \<longleftrightarrow> quieto s s'" "quieto (envia fd bs s) s' \<longleftrightarrow> quieto s s'"
  "quieto s (envia_umc bs s') \<longleftrightarrow> quieto s s'" "quieto (envia_umc bs s) s' \<longleftrightarrow> quieto s s'"
  "quieto s (upd_cpu q f s') \<longleftrightarrow> quieto s s'" "quieto (upd_cpu q f s) s' \<longleftrightarrow> quieto s s'"
  "quieto s (upd_sem q g s') \<longleftrightarrow> quieto s s'" "quieto (upd_sem q g s) s' \<longleftrightarrow> quieto s s'"
  "quieto s (push_ready L x s') \<longleftrightarrow> quieto s s'" "quieto (push_ready L x s) s' \<longleftrightarrow> quieto s s'"
  "quieto s (s'\<lparr>entrada_de := i\<rparr>) \<longleftrightarrow> quieto s s'" "quieto (s\<lparr>entrada_de := i\<rparr>) s' \<longleftrightarrow> quieto s s'"
  "quieto s (s'\<lparr>respuesta_umc := r\<rparr>) \<longleftrightarrow> quieto s s'" "quieto (s\<lparr>respuesta_umc := r\<rparr>) s' \<longleftrightarrow> quieto s s'"
  "quieto s (s'\<lparr>pcbs := h\<rparr>) \<longleftrightarrow> quieto s s'" "quieto (s\<lparr>pcbs := h\<rparr>) s' \<longleftrightarrow> quieto s s'"
  "quieto s (s'\<lparr>ios := k\<rparr>) \<longleftrightarrow> quieto s s'" "quieto (s\<lparr>ios := k\<rparr>) s' \<longleftrightarrow> quieto s s'"
  "quieto s (s'\<lparr>sems := n\<rparr>) \<longleftrightarrow> quieto s s'" "quieto (s\<lparr>sems := n\<rparr>) s' \<longleftrightarrow> quieto s s'"
  "quieto s (s'\<lparr>readyPCBs := l\<rparr>) \<longleftrightarrow> quieto s s'" "quieto (s\<lparr>readyPCBs := l\<rparr>) s' \<longleftrightarrow> quieto s s'"
  "quieto s (s'\<lparr>cpus := m\<rparr>) \<longleftrightarrow> quieto s s'" "quieto (s\<lparr>cpus := m\<rparr>) s' \<longleftrightarrow> quieto s s'"
  "quieto s (cambio_config b d s') \<longleftrightarrow> quieto s s'" "quieto (cambio_config b d s) s' \<longleftrightarrow> quieto s s'"
  by (simp_all add: quieto_def anota_def envia_def envia_umc_def upd_cpu_def upd_sem_def push_ready_def cambio_config_def)

end
