(* ===== verification/Nucleo_Correct.thy ===== *)
theory Nucleo_Correct
  imports Nucleo_Planificador
begin

text \<open>
  What the nucleo guarantees: which handler wakes the planner up, and so how many times a process can
  be handed to a CPU, what becomes of the shared variables, and what a console that gives up leaves
  behind.
\<close>

section \<open>Handlers that leave the planner's semaphores alone\<close>

lemma recv_de_quieto: "recv_de fd n s = Some (bs, s') \<Longrightarrow> quieto s s'"
  by (auto simp: recv_de_def)

lemma recv_u32_de_quieto: "recv_u32_de fd s = Some (w, s') \<Longrightarrow> quieto s s'"
  by (auto simp: recv_u32_de_def)

lemma solo_memoria_quieto: "solo_memoria s s' \<Longrightarrow> quieto s s'"
  by (cases s; cases s') (simp add: solo_memoria_def quieto_def)

lemma deserializarPCBTradicional_quieto:
  "deserializarPCBTradicional L E fd tam s = Some (q, s') \<Longrightarrow> quieto s s'"
  by (auto simp: deserializarPCBTradicional_def bind_eq_Some_conv malloc_pcb_def quieto_def
      dest!: recibir_pcb_solo solo_memoria_quieto)

lemma deserializarPCB_quieto: "deserializarPCB L E fd s = Some (q, s') \<Longrightarrow> quieto s s'"
  by (auto simp: deserializarPCB_def bind_eq_Some_conv dest!: recv_u32_de_quieto deserializarPCBTradicional_quieto
      intro: quieto_trans)

lemmas recibe_quieto = recv_de_quieto recv_u32_de_quieto deserializarPCBTradicional_quieto deserializarPCB_quieto

lemma recibir_nombre_corto_quieto: "recibir_nombre_corto fd n s = Some (x, s') \<Longrightarrow> quieto s s'"
  by (auto simp: recibir_nombre_corto_def bind_eq_Some_conv dest: recibe_quieto split: if_splits)

lemma mandarAImprimirTexto_quieto: "mandarAImprimirTexto fd n s = Some s' \<Longrightarrow> quieto s s'"
  by (auto simp: mandarAImprimirTexto_def bind_eq_Some_conv intro: quieto_trans dest!: recibe_quieto)

lemma mandarAready_quieto: "mandarAready L E fd n s = Some s' \<Longrightarrow> quieto s s'"
  by (auto simp: mandarAready_def bind_eq_Some_conv dest!: recibe_quieto)

lemma actualizarQuantumCPU_quieto: "actualizarQuantumCPU L fd s = Some s' \<Longrightarrow> quieto s s'"
  by (auto simp: actualizarQuantumCPU_def bind_eq_Some_conv Let_def split: option.splits)

lemma actualizarCPUlibre_quieto: "actualizarCPUlibre L fd s = Some (v, s') \<Longrightarrow> quieto s s'"
  by (auto simp: actualizarCPUlibre_def bind_eq_Some_conv)

lemma bloquearPCBaSemaforo_quieto: "bloquearPCBaSemaforo L E fd n s = Some s' \<Longrightarrow> quieto s s'"
  by (auto simp: bloquearPCBaSemaforo_def bind_eq_Some_conv intro: quieto_trans dest!: recibe_quieto recibir_nombre_corto_quieto)

lemma bloquearPCBaIO_quieto: "bloquearPCBaIO L E fd n s = Some s' \<Longrightarrow> quieto s s'"
  by (auto simp: bloquearPCBaIO_def bind_eq_Some_conv intro: quieto_trans dest!: recibe_quieto recibir_nombre_corto_quieto)

lemma obtenerValorGlobal_quieto: "obtenerValorGlobal D fd n s = Some s' \<Longrightarrow> quieto s s'"
  by (auto simp: obtenerValorGlobal_def bind_eq_Some_conv dest!: recibe_quieto)

lemma grabarValor_pasa:
  "grabarValor D fd n s = Some s' \<Longrightarrow> quieto (s\<lparr>celdas := h\<rparr>) (s'\<lparr>celdas := h\<rparr>) \<and> celdas s' = (celdas s)(proximo s := None)"
  by (auto simp: grabarValor_def bind_eq_Some_conv Let_def quieto_def recv_de_def recv_u32_de_def)

lemma decrementarSemaforo_quieto: "decrementarSemaforo L fd x s = Some s' \<Longrightarrow> quieto s s'"
  by (auto simp: decrementarSemaforo_def bind_eq_Some_conv Let_def split: option.splits)

lemma aumentarSemaforo_quieto: "aumentarSemaforo L x s = Some s' \<Longrightarrow> quieto s s'"
  by (auto simp: aumentarSemaforo_def bind_eq_Some_conv Let_def case_prod_beta split: option.splits if_split_asm)

lemma waitSemaforo_quieto: "waitSemaforo L fd n s = Some s' \<Longrightarrow> quieto s s'"
  by (auto simp: waitSemaforo_def bind_eq_Some_conv dest!: recibe_quieto decrementarSemaforo_quieto intro: quieto_trans)

lemma signalSemaforo_quieto: "signalSemaforo L fd n s = Some s' \<Longrightarrow> quieto s s'"
  by (auto simp: signalSemaforo_def bind_eq_Some_conv dest!: recibe_quieto aumentarSemaforo_quieto intro: quieto_trans)

lemma despedir_quieto: "despedir q s = Some s' \<Longrightarrow> quieto s s'"
  by (auto simp: despedir_def bind_eq_Some_conv Let_def)

lemma finalizarPCBTradicional_quieto: "finalizarPCBTradicional L E fd n s = Some s' \<Longrightarrow> quieto s s'"
  by (auto simp: finalizarPCBTradicional_def bind_eq_Some_conv dest!: recibe_quieto despedir_quieto intro: quieto_trans)

lemma finalizarPCB_quieto: "finalizarPCB L E fd s = Some s' \<Longrightarrow> quieto s s'"
  by (auto simp: finalizarPCB_def bind_eq_Some_conv dest!: recibe_quieto despedir_quieto intro: quieto_trans)

lemma eliminarDatos_quieto:
  "eliminarDatosNoRelevantesSem fd n s = Some s' \<Longrightarrow> quieto s s'"
  "eliminarDatosNoRelevantesIO fd n s = Some s' \<Longrightarrow> quieto s s'"
  by (auto simp: eliminarDatosNoRelevantesSem_def eliminarDatosNoRelevantesIO_def bind_eq_Some_conv
      dest!: recibe_quieto intro: quieto_trans)

lemma eliminar_de_sems_quieto: "eliminar_de_sems L pID i j ult sm l s = Some (b, u, q, s') \<Longrightarrow> quieto s s'"
proof (induction L pID i j ult sm l s rule: eliminar_de_sems.induct)
  case (1 L pID i j ult sm l s)
  show ?case
  proof (cases "i < list_size L l")
    case False
    then show ?thesis using 1(2) by (subst (asm) eliminar_de_sems.simps) simp
  next
    case True
    then obtain x m b1 u1 j1 c where x: "list_get L l i = Some x" "sems s x = Some m"
        "eliminar_de_cola L pID j False ult (colSem m) s = Some (b1, u1, j1, c)"
      and r: "(if b1 then Some (True, u1, Some x, upd_sem x (\<lambda>m. m\<lparr>colSem := c\<rparr>) s)
        else eliminar_de_sems L pID (Suc i) j1 u1 (Some x) l (upd_sem x (\<lambda>m. m\<lparr>colSem := c\<rparr>) s)) = Some (b, u, q, s')"
      using 1(2) by (subst (asm) eliminar_de_sems.simps) (auto simp: bind_eq_Some_conv Let_def)
    then show ?thesis
      using 1(1) [OF True x refl refl refl refl] by (cases b1) auto
  qed
qed

lemma eliminar_en_io_quieto: "eliminar_en_io L pID j b ult q i s = Some r \<Longrightarrow> quieto s (snd (snd (snd r)))"
proof (induction rule: eliminar_en_io.raw_induct [rotated, where P = "\<lambda>L pID j b ult q i s r. quieto s (snd (snd (snd r)))", consumes 1])
  case (1 f L pID j b ult q i s r)
  show ?case
    using 1(2) by (auto simp: bind_eq_Some_conv case_prod_beta split: if_split_asm dest!: 1(1))
qed

lemma eliminar_de_ios_quieto: "eliminar_de_ios L pID i j ult sm ioAux l s = Some (u, q, s') \<Longrightarrow> quieto s s'"
proof (induction L pID i j ult sm ioAux l s rule: eliminar_de_ios.induct)
  case (1 L pID i j ult sm ioAux l s)
  show ?case
  proof (cases "i < list_size L l")
    case False
    then show ?thesis using 1(2) by (subst (asm) eliminar_de_ios.simps) simp
  next
    case True
    then obtain x d b1 u1 j1 s1 where x: "list_get L l i = Some x" "ios s x = Some d"
      and m: "(if j < list_size L (colIO d) then do { sq \<leftarrow> sm; eliminar_en_io L pID j False ult sq x s }
          else Some (False, ult, j, s)) = Some (b1, u1, j1, s1)"
      and r: "(if b1 then Some (u1, Some x, s1) else eliminar_de_ios L pID (Suc i) j1 u1 sm (Some x) l s1) = Some (u, q, s')"
      using 1(2) by (subst (asm) eliminar_de_ios.simps) (auto simp: bind_eq_Some_conv cong: if_cong)
    have "quieto s s1"
      using m by (auto simp: bind_eq_Some_conv split: if_splits dest!: eliminar_en_io_quieto)
    moreover have "quieto s1 s'"
      using 1(1) [OF True x m refl refl refl] r by (cases b1) auto
    ultimately show ?thesis
      by (rule quieto_trans)
  qed
qed

lemma sigue_en_sems_quieto:
  "(if b then Some (b', u, q, s) else eliminar_de_sems L pID i j ult sm l s) = Some (b1, u1, q1, s') \<Longrightarrow> quieto s s'"
  by (auto split: if_split_asm dest!: eliminar_de_sems_quieto)

lemma sigue_en_ios_quieto:
  "(if b then Some (u, q, s) else eliminar_de_ios L pID i j ult sm ioAux l s) = Some (u1, q1, s') \<Longrightarrow> quieto s s'"
  by (auto split: if_split_asm dest!: eliminar_de_ios_quieto)

lemma marca_cpu_quieto: "quieto (case hit of None \<Rightarrow> s | Some (i, q) \<Rightarrow> upd_cpu q f s) s' \<longleftrightarrow> quieto s s'"
  by (auto split: option.split)

lemma buscarPCByEliminar_quieto: "buscarPCByEliminar L E pID s = Some s' \<Longrightarrow> quieto s s'"
  by (clarsimp simp: buscarPCByEliminar_def bind_eq_Some_conv Let_def split del: if_split
      dest!: sigue_en_sems_quieto sigue_en_ios_quieto)
    (metis marca_cpu_quieto quieto_trans)

lemma solicitarPaginasUMC_quieto: "solicitarPaginasUMC pID x s = Some (r, s') \<Longrightarrow> quieto s s'"
  by (auto simp: solicitarPaginasUMC_def bind_eq_Some_conv Let_def)

lemma cabecera_quieto: "cabecera fd s = Some (h, s') \<Longrightarrow> quieto s s'"
  by (auto simp: cabecera_def bind_eq_Some_conv dest!: recibe_quieto intro: quieto_trans)

lemma serializarPCByEnviar_quieto: "serializarPCByEnviar L q fd s = Some s' \<Longrightarrow> quieto s s'"
  by (auto simp: serializarPCByEnviar_def bind_eq_Some_conv split: if_splits)

lemma buscarCPUyAsignar_quieto: "buscarCPUyAsignar L q s = Some s' \<Longrightarrow> quieto s s'"
  by (auto simp: buscarCPUyAsignar_def bind_eq_Some_conv Let_def split: option.splits dest!: serializarPCByEnviar_quieto)

lemma asignarPCB_quieto: "asignarPCB L s = Some s' \<Longrightarrow> quieto s s'"
  by (auto simp: asignarPCB_def bind_eq_Some_conv split: prod.split_asm dest!: buscarCPUyAsignar_quieto)

lemma manejadorIO_quieto: "manejadorIO L q s = Some s' \<Longrightarrow> quieto s s'"
  by (auto simp: manejadorIO_def bind_eq_Some_conv Let_def split: prod.split_asm if_split_asm)

section \<open>Orders and steps\<close>

text \<open>\<open>r\<close> and \<open>c\<close> bound how often the planner is told of a process and of a CPU.\<close>

definition avanza :: "nat \<Rightarrow> nat \<Rightarrow> ('l, 'd) nucleo \<Rightarrow> ('l, 'd) nucleo \<Rightarrow> bool" where
  "avanza r c s s' \<longleftrightarrow> sem_ready s' \<le> sem_ready s + r \<and> sem_cpu s' \<le> sem_cpu s + c \<and> espera_cpu s' = espera_cpu s
     \<and> (celdas s = Map.empty \<longrightarrow> celdas s' = Map.empty)"

lemma quieto_avanza: "quieto s s' \<Longrightarrow> avanza r c s s'"
  by (simp add: quieto_def avanza_def)

lemma quieto_avanza_trans: "quieto s s1 \<Longrightarrow> avanza r c s1 s' \<Longrightarrow> avanza r c s s'"
  by (auto simp: quieto_def avanza_def)

lemma avanza_anota [simp]: "avanza r c s (anota cs s') \<longleftrightarrow> avanza r c s s'"
  by (simp add: avanza_def anota_def)

lemma grabarValor_avanza: "grabarValor D fd n s = Some s' \<Longrightarrow> avanza r c s s'"
  using grabarValor_pasa [of D fd n s s' "celdas s"] by (auto simp: quieto_def avanza_def)

lemma inicializarAnsisop_avanza: "inicializarAnsisop L E fd n s = Some s' \<Longrightarrow> avanza 1 c s s'"
  by (auto simp: inicializarAnsisop_def inicializarPCB_def bind_eq_Some_conv malloc_pcb_def post_def anota_def push_ready_def
      avanza_def quieto_def Let_def split: if_split_asm dest!: recibe_quieto solicitarPaginasUMC_quieto)

lemma eliminarCPU_avanza: "eliminarCPU L fd s = Some s' \<Longrightarrow> avanza r (Suc 0) s s'"
  by (auto simp: eliminarCPU_def bind_eq_Some_conv post_def anota_def avanza_def Let_def split: option.splits)

lemma nueva_conexion_nucleo_avanza:
  assumes "nueva_conexion_nucleo L E fd s = Some s'"
  shows "avanza r (mueve_cpu (Conexion fd) s) s s'"
proof (cases "entrada_de s fd = []")
  case True
  then show ?thesis
    using assms by (auto simp: nueva_conexion_nucleo_def handShake_def quieto_avanza)
next
  case False
  then obtain w s1 where w: "recv_u32_de fd s = Some (w, s1)"
    using assms by (auto simp: nueva_conexion_nucleo_def handShake_def bind_eq_Some_conv)
  then have "quieto s s1" by (rule recv_u32_de_quieto)
  then show ?thesis
    using assms w False
    by (auto simp: nueva_conexion_nucleo_def handShake_def post_def anota_def avanza_def quieto_def mueve_cpu_def Let_def
        handShake_Nucleo_def ID_CPU_def ID_CONSOLA_def split: if_split_asm)
qed

lemma orden_consola_avanza:
  "orden_consola L E fd ord n s = Some s' \<Longrightarrow> avanza (if ord = INICIALIZAR_ANSISOP then 1 else 0) c s s'"
  by (auto simp: orden_consola_def quieto_avanza split: if_split_asm
      dest!: inicializarAnsisop_avanza buscarPCByEliminar_quieto)

lemma libera_y_sigue_quieto:
  assumes "(do { (v, s) \<leftarrow> actualizarCPUlibre L fd s; if v = 0 then f s else g s }) = Some s'"
    and "\<And>s1. f s1 = Some s' \<Longrightarrow> quieto s1 s'" "\<And>s1. g s1 = Some s' \<Longrightarrow> quieto s1 s'"
  shows "quieto s s'"
  using assms by (auto simp: bind_eq_Some_conv split: if_split_asm dest!: actualizarCPUlibre_quieto intro: quieto_trans)

lemma descarta_y_finaliza_quieto:
  "(do { s \<leftarrow> eliminarDatosNoRelevantesIO fd n s; finalizarPCB L E fd s }) = Some s' \<Longrightarrow> quieto s s'"
  "(do { s \<leftarrow> eliminarDatosNoRelevantesSem fd n s; finalizarPCB L E fd s }) = Some s' \<Longrightarrow> quieto s s'"
  by (auto simp: bind_eq_Some_conv dest!: eliminarDatos_quieto finalizarPCB_quieto intro: quieto_trans)

lemmas orden_quieto = obtenerValorGlobal_quieto waitSemaforo_quieto signalSemaforo_quieto actualizarQuantumCPU_quieto
  finalizarPCBTradicional_quieto mandarAImprimirTexto_quieto mandarAready_quieto bloquearPCBaIO_quieto
  bloquearPCBaSemaforo_quieto descarta_y_finaliza_quieto

lemma orden_cpu_avanza:
  assumes "orden_cpu L D E fd ord n s = Some s'"
  shows "avanza r (if ord = FIN_CPU then 1 else 0) s s'"
proof (cases "ord \<in> {GRABAR_VALOR, FIN_CPU}")
  case True
  then show ?thesis
    using assms by (auto simp: orden_cpu_def orden_defs grabarValor_avanza eliminarCPU_avanza)
next
  case False
  then have "quieto s s'"
    using assms unfolding orden_cpu_def
    by (auto simp del: bind_eq_Some_conv split: if_split_asm elim!: libera_y_sigue_quieto dest!: orden_quieto)
  then show ?thesis
    by (rule quieto_avanza)
qed

lemma datos_de_avanza:
  assumes "datos_de L D E fd s = Some s'"
  shows "avanza (arranca (Datos fd) s) (mueve_cpu (Datos fd) s) s s'"
proof (cases "entrada_de s fd = []")
  case True
  then show ?thesis using assms by (auto simp: datos_de_def quieto_avanza)
next
  case False
  then obtain ident ord n s1 where h: "cabecera fd s = Some ((ident, ord, n), s1)"
      "atenderOrdenSegunID L D E fd ident ord n s1 = Some s'"
    using assms by (auto simp: datos_de_def bind_eq_Some_conv)
  have "avanza (if ident = ID_CONSOLA \<and> ord = INICIALIZAR_ANSISOP then 1 else 0) (if ident = ID_CPU \<and> ord = FIN_CPU then 1 else 0) s1 s'"
    using h(2) orden_consola_avanza [of L E fd ord n s1 s' 0] orden_cpu_avanza [of L D E fd ord n s1 s' 0]
    by (auto simp: atenderOrdenSegunID_def ID_CPU_def ID_CONSOLA_def quieto_avanza split: if_split_asm)
  then show ?thesis
    using quieto_avanza_trans [OF cabecera_quieto [OF h(1)]] h(1) by (simp add: arranca_def mueve_cpu_def)
qed

text \<open>Apart from the two steps of the planner.\<close>

lemma paso_nucleo_avanza:
  assumes "paso_nucleo L D E e s = Some s'" "e \<noteq> Planif_ready" "e \<noteq> Planif_asigna"
  shows "avanza (arranca e s) (mueve_cpu e s) s s'"
  using assms by (cases e) (auto simp: nueva_conexion_nucleo_avanza datos_de_avanza quieto_avanza dest!: manejadorIO_quieto)

lemma planif_ready_Some:
  "planif_ready s = Some s' \<longleftrightarrow> \<not> espera_cpu s \<and> 0 < sem_ready s \<and> s' = s\<lparr>sem_ready := sem_ready s - 1, espera_cpu := True\<rparr>"
  by (auto simp: planif_ready_def)

lemma planif_asigna_quieto:
  assumes "planif_asigna L s = Some s'"
  shows "espera_cpu s \<and> 0 < sem_cpu s \<and> quieto (s\<lparr>sem_cpu := sem_cpu s - 1, espera_cpu := False\<rparr>) s'"
  using assms by (auto simp: planif_asigna_def split: if_split_asm dest!: asignarPCB_quieto)

definition en_curso :: "('l, 'd) nucleo \<Rightarrow> nat" where
  "en_curso s = sem_ready s + (if espera_cpu s then 1 else 0)"

lemma ejecucion_cuenta:
  assumes "ejecucion L D E s0 a p c s"
  shows "a + en_curso s \<le> p + en_curso s0 \<and> a + sem_cpu s \<le> c + sem_cpu s0"
  using assms
proof induction
  case inicio
  then show ?case by simp
next
  case (paso a p c s e s')
  consider "e = Planif_ready" | "e = Planif_asigna" | "e \<noteq> Planif_ready" "e \<noteq> Planif_asigna" by blast
  then show ?case
  proof cases
    case 1
    then show ?thesis
      using paso(2,3) by (auto simp: asigna_def planif_ready_Some en_curso_def)
  next
    case 2
    then show ?thesis
      using paso(2,3) planif_asigna_quieto [of L s s'] by (auto simp: asigna_def quieto_def en_curso_def)
  next
    case 3
    then show ?thesis
      using paso_nucleo_avanza [OF paso(2) 3] paso(3) by (auto simp: asigna_def avanza_def en_curso_def)
  qed
qed

lemma ejecucion_sin_celdas:
  "ejecucion L D E s0 a p c s \<Longrightarrow> celdas s0 = Map.empty \<Longrightarrow> celdas s = Map.empty"
proof (induction rule: ejecucion.induct)
  case (paso a p c s e s')
  consider "e = Planif_ready" | "e = Planif_asigna" | "e \<noteq> Planif_ready" "e \<noteq> Planif_asigna" by blast
  then show ?case
    using paso paso_nucleo_avanza [of L D E e s s'] planif_asigna_quieto [of L s s']
    by cases (auto simp: planif_ready_Some quieto_def avanza_def)
qed simp

lemma crear_semaforos_celdas: "crear_semaforos L ns vs s = Some s' \<Longrightarrow> celdas s' = celdas s"
  by (induction L ns vs s rule: crear_semaforos.induct) (simp_all add: Let_def)

lemma crear_dispositivos_celdas: "crear_dispositivos L ns vs s = Some s' \<Longrightarrow> celdas s' = celdas s"
  by (induction L ns vs s rule: crear_dispositivos.induct) (simp_all add: Let_def)

lemma inicializarEstructuras_celdas:
  assumes "inicializarEstructuras L D c s = Some s'" "celdas s = Map.empty"
  shows "celdas s' = Map.empty"
  using assms
  by (auto simp: inicializarEstructuras_def inicializarVarGlobales_def inicializarEntradaSalida_def inicializarSemaforos_def
      bind_eq_Some_conv Let_def dest!: crear_semaforos_celdas crear_dispositivos_celdas)

lemma obtenerValorGlobal_celdas: "celdas s = Map.empty \<Longrightarrow> obtenerValorGlobal D fd n s = None"
proof (cases "obtenerValorGlobal D fd n s")
  case (Some s')
  assume "celdas s = Map.empty"
  then show ?thesis using Some by (auto simp: obtenerValorGlobal_def bind_eq_Some_conv dest!: recv_de_quieto simp: quieto_def)
qed

section \<open>A small run\<close>

text \<open>
  A CPU on socket 5 and a console on socket 6; the program of the console is one instruction and the
  memory process takes it.
\<close>

definition demo_env :: nucleo_env where
  "demo_env = \<lparr>no_mapeado = True, sizeof_pcb = 64, basura_pid = 77, basura_asoc = 99, metadata_desde_literal = (\<lambda>_. (0, [(0, 3)], 0, []))\<rparr>"

definition demo_vacio :: "(nodo list, byte list \<Rightarrow> nodo option) nucleo" where
  "demo_vacio = \<lparr>variables = Map.empty, contextos = Map.empty, proximo = 0, pcbs = Map.empty, sems = Map.empty, ios = Map.empty,
     cpus = Map.empty, celdas = Map.empty, varGlobales = Map.empty, readyPCBs = [], listaCPUs = [], lIO = [], semaforos = [],
     quantum_nucleo = 0, qSleep = 0, stackSize = 0, tamPag = 4, entrada_de = (\<lambda>_. []), respuesta_umc = [],
     llamadas_nucleo = [], sem_ready = 0, sem_cpu = 0, espera_cpu = False\<rparr>"

definition demo_cfg :: nucleo_config where
  "demo_cfg = \<lparr>cfg_quantum = 2, cfg_quantum_sleep = 9, cfg_stack_size = 1, cfg_shared_vars = [[33, 65]], cfg_io_ids = [[68]],
     cfg_io_sleep = [5], cfg_sem_ids = [[83]], cfg_sem_init = [1]\<rparr>"

definition demo_s0 :: "(nodo list, byte list \<Rightarrow> nodo option) nucleo" where
  "demo_s0 = the (inicializarEstructuras hol_list_more hol_dictionary demo_cfg demo_vacio)"

definition demo_eventos :: "evento list" where
  "demo_eventos = [Llega 5 (le32 ID_CPU), Conexion 5, Llega 6 (le32 ID_CONSOLA), Conexion 6,
     Llega 6 (le32 ID_CONSOLA @ le32 INICIALIZAR_ANSISOP @ le32 4 @ [101, 110, 100, 0]), Llega_UMC (le32 PROGRAMA_INICIALIZADO),
     Datos 6, Planif_ready, Planif_asigna]"

lemma demo_inicia: "inicializarEstructuras hol_list_more hol_dictionary demo_cfg demo_vacio = Some demo_s0"
  by (simp add: demo_s0_def inicializarEstructuras_def inicializarEntradaSalida_def inicializarSemaforos_def demo_cfg_def Let_def)

lemmas demo_defs = demo_eventos_def demo_vacio_def demo_env_def nueva_conexion_nucleo_def handShake_def recv_u32_de_def recv_de_def recibir_def
  handShake_Nucleo_def ID_CONSOLA_def ID_CPU_def post_def anota_def asigna_def arranca_def mueve_cpu_def cabecera_def
  datos_de_def atenderOrdenSegunID_def orden_consola_def inicializarAnsisop_def inicializarPCB_def solicitarPaginasUMC_def
  obtenerCantPags_def nombre_en_def cstr_def malloc_pcb_def pcb_inicial_def push_ready_def queue_push_def queue_pop_def
  envia_umc_def planif_ready_def planif_asigna_def asignarPCB_def buscarCPUyAsignar_def serializarPCByEnviar_def upd_cpu_def
  hol_list_more_def t_list_ops.defs hol_list_def INICIALIZAR_ANSISOP_def enviar_pcb_def codigo_entero_def bytes_etiquetas_def
  bytes_instruccion_def envia_def PROGRAMA_INICIALIZADO_def PROGRAMA_NO_INICIALIZADO_def

lemma demo_corre: "\<exists>s. ejecucion hol_list_more hol_dictionary demo_env demo_vacio 1 1 1 s"
proof -
  have "map_option (\<lambda>(a, p, c, _). (a, p, c)) (pasos_nucleo hol_list_more hol_dictionary demo_env demo_eventos demo_vacio)
      = Some (1, 1, 1)"
    by (simp add: demo_defs Let_def primero.simps [of _ _ _ 0])
  then obtain s where "pasos_nucleo hol_list_more hol_dictionary demo_env demo_eventos demo_vacio = Some (1, 1, 1, s)"
    by auto
  then show ?thesis
    using ejecucion_pasos [OF ejecucion.inicio, of hol_list_more hol_dictionary demo_env demo_eventos demo_vacio] by fastforce
qed

section \<open>Searches and queues\<close>

locale nucleo_lists = t_list_more L elems
  for L :: "('l, nodo) t_list_more" and elems :: "'l \<Rightarrow> nodo list"
begin

lemma primero_hasta:
  assumes "elems l = xs @ y # ys" "\<And>x. x \<in> set xs \<Longrightarrow> P x = Some False" "P y \<noteq> Some False"
  shows "i \<le> length xs \<Longrightarrow> primero L l P i = map_option (\<lambda>_. Some (length xs, y)) (P y)"
proof (induction "length xs - i" arbitrary: i)
  case 0
  then show ?case
    using assms(1,3) by (cases "P y") (subst primero.simps, auto simp: size_eq get_eq)+
next
  case (Suc d)
  then have i: "i < length xs" and "primero L l P (Suc i) = map_option (\<lambda>_. Some (length xs, y)) (P y)"
    by simp_all
  moreover have "P (xs ! i) = Some False" using i assms(2) by simp
  ultimately show ?case
    using assms(1) by (subst primero.simps) (simp add: size_eq get_eq nth_append)
qed

lemmas busca = primero_hasta [where i = 0, simplified]

lemma pop_front: "elems q = x # xs \<Longrightarrow> \<exists>q'. queue_pop L q = (Some x, q') \<and> elems q' = xs"
  unfolding queue_pop_def by (rule remove_first_Cons)

lemma push_back: "elems (queue_push L q x) = elems q @ [x]"
  by (simp add: queue_push_def elems_add)

lemma buscarPCByEliminar_cpu:
  assumes "elems (listaCPUs s) = xs @ q # ys" "cpus s q = Some c" "pcbAsoc c = pID"
    and "\<And>x. x \<in> set xs \<Longrightarrow> \<exists>d. cpus s x = Some d \<and> pcbAsoc d \<noteq> pID"
  shows "buscarPCByEliminar L E pID s = Some (envia_umc (le32 FINALIZAR_PROGRAMA_UMC @ le32 (basura_pid E)) s\<lparr>cpus := (cpus s)(q := None)\<rparr>)"
proof -
  have "primero L (listaCPUs s) (\<lambda>q. map_option (\<lambda>c. pcbAsoc c = pID) (cpus s q)) 0 = Some (Some (length xs, q))"
    using assms by (subst busca [OF assms(1)]) fastforce+
  then show ?thesis
    by (simp add: buscarPCByEliminar_def Let_def visitado_def libera_def envia_umc_def anota_def upd_cpu_def)
qed

lemma cpu_de_colgada:
  assumes "elems (listaCPUs s) = xs @ q # ys" "cpus s q = None"
    and "\<And>x. x \<in> set xs \<Longrightarrow> \<exists>d. cpus s x = Some d \<and> s_cpu d \<noteq> fd"
  shows "cpu_de L fd s = None"
  unfolding cpu_de_def using assms by (subst busca [OF assms(1)]) fastforce+

end

interpretation hol_nucleo: nucleo_lists hol_list_more "\<lambda>l. l"
  by unfold_locales

section \<open>Properties\<close>

text \<open>
  C34: in every run of the nucleo, the processes handed to a CPU are at most the programs that consoles
  asked to start, and at most the times a CPU connected or left: a process that comes back at the end of
  its quantum, from a device or from a semaphore does not wake the planner up, and a CPU that becomes
  free is not offered to it.
\<close>
theorem nucleo_despachos:
  assumes "ejecucion L D E s0 a p c s"
  shows "a + en_curso s \<le> p + en_curso s0 \<and> a + sem_cpu s \<le> c + sem_cpu s0"
  using assms by (rule ejecucion_cuenta)

theorem nucleo_despachos_witness:
  "\<exists>s. ejecucion hol_list_more hol_dictionary demo_env demo_vacio 1 1 1 s \<and> 1 + en_curso s \<le> 1 + en_curso demo_vacio"
  using demo_corre nucleo_despachos by fast

text \<open>
  From the start-up of the nucleo on, no CPU can read a shared variable: the only word the variables
  share at the start was freed, and a value that a CPU stores is kept by the address of a variable of a
  function that returned.
\<close>
theorem compartidas_colgadas:
  assumes "inicializarEstructuras L D cfg s00 = Some s0" "celdas s00 = Map.empty" "ejecucion L D E s0 a p c s"
  shows "obtenerValorGlobal D fd n s = None"
  using assms ejecucion_sin_celdas inicializarEstructuras_celdas obtenerValorGlobal_celdas by blast

theorem compartidas_colgadas_witness:
  "obtenerValorGlobal hol_dictionary 5 3 (demo_s0\<lparr>entrada_de := (entrada_de demo_s0)(5 := entrada_de demo_s0 5 @ [33, 65, 0])\<rparr>) = None"
proof -
  have "ejecucion hol_list_more hol_dictionary demo_env demo_s0 (0 + asigna (Llega 5 [33, 65, 0]))
      (0 + arranca (Llega 5 [33, 65, 0]) demo_s0) (0 + mueve_cpu (Llega 5 [33, 65, 0]) demo_s0)
      (demo_s0\<lparr>entrada_de := (entrada_de demo_s0)(5 := entrada_de demo_s0 5 @ [33, 65, 0])\<rparr>)"
    by (rule ejecucion.paso [OF ejecucion.inicio]) simp
  from compartidas_colgadas [OF demo_inicia _ this] show ?thesis
    by (simp add: demo_vacio_def)
qed

text \<open>
  C35: when the console of a program that a CPU is running gives up, the memory process is told to end a
  process whose number was never set, and the structure of the CPU is freed but stays in the list: the
  next message of that CPU, the end of an instruction or of a quantum, reads freed memory.
\<close>
theorem eliminar_en_ejecucion:
  assumes lists: "nucleo_lists L elems" and l: "elems (listaCPUs s) = xs @ q # ys" and q: "cpus s q = Some c" "pcbAsoc c = pid"
    and xs: "\<forall>x \<in> set xs. \<exists>d. cpus s x = Some d \<and> pcbAsoc d \<noteq> pid \<and> s_cpu d \<noteq> s_cpu c"
  shows "\<exists>s'. orden_consola L E pid FINALIZAR_ANSISOP n s = Some s'
    \<and> llamadas_nucleo s' = llamadas_nucleo s @ [Envia_UMC (le32 FINALIZAR_PROGRAMA_UMC @ le32 (basura_pid E)), Cierra pid]
    \<and> q \<in> set (elems (listaCPUs s')) \<and> cpus s' q = None
    \<and> orden_cpu L D E (s_cpu c) PASO_QUANTUM m s' = None \<and> orden_cpu L D E (s_cpu c) FIN_QUANTUM m s' = None"
proof -
  let ?s = "anota [Cierra pid] (envia_umc (le32 FINALIZAR_PROGRAMA_UMC @ le32 (basura_pid E)) s\<lparr>cpus := (cpus s)(q := None)\<rparr>)"
  have run: "orden_consola L E pid FINALIZAR_ANSISOP n s = Some ?s"
    using nucleo_lists.buscarPCByEliminar_cpu [OF lists l q, of E] xs
    by (auto simp: orden_consola_def INICIALIZAR_ANSISOP_def FINALIZAR_ANSISOP_def)
  have "x \<noteq> q" if "x \<in> set xs" for x
    using xs q that by auto
  then have gone: "cpu_de L (s_cpu c) ?s = None"
    using xs l by (intro nucleo_lists.cpu_de_colgada [OF lists, where q = q]) (auto simp: anota_def envia_umc_def)
  have "orden_cpu L D E (s_cpu c) PASO_QUANTUM m ?s = None" "orden_cpu L D E (s_cpu c) FIN_QUANTUM m ?s = None"
    using gone by (simp_all add: orden_cpu_def orden_defs actualizarQuantumCPU_def actualizarCPUlibre_def)
  then show ?thesis
    using run l by (intro exI [of _ ?s]) (simp add: anota_def envia_umc_def)
qed

definition demo_corriendo :: "(nodo list, byte list \<Rightarrow> nodo option) nucleo" where
  "demo_corriendo = demo_vacio\<lparr>listaCPUs := [3], proximo := 4,
     cpus := [3 \<mapsto> \<lparr>s_cpu = 5, q_asoc = 2, pcbAsoc = 6, estadoPCB = 0, estado_cpu = 0\<rparr>]\<rparr>"

theorem eliminar_en_ejecucion_witness:
  "\<exists>s'. orden_consola hol_list_more demo_env 6 FINALIZAR_ANSISOP 0 demo_corriendo = Some s'
    \<and> 3 \<in> set (listaCPUs s') \<and> cpus s' 3 = None \<and> orden_cpu hol_list_more hol_dictionary demo_env 5 PASO_QUANTUM 0 s' = None"
  using eliminar_en_ejecucion [OF hol_nucleo.nucleo_lists_axioms, of demo_corriendo "[]" 3 "[]"
      "\<lparr>s_cpu = 5, q_asoc = 2, pcbAsoc = 6, estadoPCB = 0, estado_cpu = 0\<rparr>" 6 demo_env 0 hol_dictionary 0]
  by (auto simp: demo_corriendo_def)

end
