(* ===== verification/Cpu_Correct.thy ===== *)
theory Cpu_Correct
  imports Cpu_Primitivas Nucleo_Correct
begin

text \<open>
  A CPU and the nucleo together: the control block that is handed to a CPU and the one that comes back,
  what a CPU does with a second control block, and why the primitive signal cannot be executed.
\<close>

section \<open>A control block arrives\<close>

lemma recibirPCBparaCPU_despacho:
  assumes p: "pcb_nuevo p" "enviar_pcb Ln codigo_entero m p = Some (bs, p')"
    and n: "sizeof_t_PCB E \<le> 4 + length bs" "12 + length bs \<le> 6000"
    and t: "de_nucleo t = le32 ENVIO_PCB @ le32 qs @ le32 (of_nat (4 + length bs)) @ bs @ rest"
  shows "recibirPCBparaCPU L E t = Some (t\<lparr>quantum_sleep := qs, pcb := Some (pcb_visto p), de_nucleo := rest\<rparr>)"
proof -
  have "unat (of_nat (4 + length bs) :: u32) = 4 + length bs"
    using n(2) by (simp add: unat_of_nat take_bit_nat_eq_self_iff del: of_nat_add)
  then have tam: "sizeof_t_PCB E \<le> unat (of_nat (4 + length bs) :: u32)"
    using n(1) by simp
  show ?thesis
    using recibir_pcb_nuevo [OF p tam, of L "puntero_no_mapeado E" rest "t\<lparr>quantum_sleep := qs, de_nucleo := bs @ rest\<rparr>"]
    by (simp add: recibirPCBparaCPU_def recv_nucleo_def t)
qed

text \<open>What a CPU keeps through the reception and the run of a block.\<close>

lemma rafaga_cpu_para: "rafaga_cpu L E A s = Some s' \<Longrightarrow> \<not> sigo_ejecutando s'"
proof (induction rule: rafaga_cpu.raw_induct [rotated, where P = "\<lambda>L E A s s'. \<not> sigo_ejecutando s'", consumes 1])
  case (1 f L E A s s')
  show ?case using 1(2) by (auto simp: bind_eq_Some_conv split: if_split_asm dest: 1(1))
qed

lemma rafaga_cpu_parada: "\<not> sigo_ejecutando s \<Longrightarrow> rafaga_cpu L E A s = Some s"
  by (subst rafaga_cpu.simps) simp

lemma vuelta_cpu_para: "vuelta_cpu L E A s = Some s' \<Longrightarrow> \<not> sigo_ejecutando s'"
  by (auto simp: vuelta_cpu_def bind_eq_Some_conv dest: rafaga_cpu_para)

section \<open>The offset of the messages\<close>

definition desplazado :: "'l cpu \<Rightarrow> 'l cpu \<Rightarrow> bool" where
  "desplazado s s' \<longleftrightarrow> (0 < tamanioHastaAhora s \<longrightarrow> 0 < tamanioHastaAhora s')"

lemma desplazado_refl [simp]: "desplazado s s"
  by (simp add: desplazado_def)

lemma desplazado_trans: "desplazado s s' \<Longrightarrow> desplazado s' s'' \<Longrightarrow> desplazado s s''"
  by (simp add: desplazado_def)

lemma desplazado_upd [simp]:
  "desplazado s (s'\<lparr>pcb := p\<rparr>) \<longleftrightarrow> desplazado s s'" "desplazado (s\<lparr>pcb := p\<rparr>) s' \<longleftrightarrow> desplazado s s'"
  "desplazado s (s'\<lparr>sigo_ejecutando := b\<rparr>) \<longleftrightarrow> desplazado s s'"
  "desplazado s (s'\<lparr>flagSaltoLinea := b\<rparr>) \<longleftrightarrow> desplazado s s'"
  "desplazado s (s'\<lparr>contextos := c\<rparr>) \<longleftrightarrow> desplazado s s'"
  "desplazado s (s'\<lparr>variables := v\<rparr>) \<longleftrightarrow> desplazado s s'"
  "desplazado s (s'\<lparr>proximo := n\<rparr>) \<longleftrightarrow> desplazado s s'"
  "desplazado s (s'\<lparr>de_umc := inp\<rparr>) \<longleftrightarrow> desplazado s s'"
  "desplazado s (s'\<lparr>de_nucleo := inp\<rparr>) \<longleftrightarrow> desplazado s s'"
  "desplazado s (al_nucleo_cpu bs s') \<longleftrightarrow> desplazado s s'" "desplazado (al_nucleo_cpu bs s) s' \<longleftrightarrow> desplazado s s'"
  "desplazado s (a_la_umc bs s') \<longleftrightarrow> desplazado s s'" "desplazado (a_la_umc bs s) s' \<longleftrightarrow> desplazado s s'"
  by (simp_all add: desplazado_def al_nucleo_cpu_def a_la_umc_def)

lemma recv_desplazado:
  "recv_nucleo s = Some (w, s') \<Longrightarrow> desplazado s s'" "recv_umc s = Some (w, s') \<Longrightarrow> desplazado s s'"
  by (auto simp: recv_nucleo_def recv_umc_def)

lemma serializar_orden_desplazado: "serializar_orden w x buf s = Some (buf', s') \<Longrightarrow> 0 < tamanioHastaAhora s'"
  by (auto simp: serializar_orden_def bind_eq_Some_conv con_nul_def Let_def)

lemma enviarPCBparaNucleo_desplazado: "enviarPCBparaNucleo L w buf s = Some s' \<Longrightarrow> desplazado s s'"
  by (auto simp: enviarPCBparaNucleo_def agregarPBCYEnviar_def serializarYEnvioPCB_def bind_eq_Some_conv Let_def
      split: if_split_asm)

lemma finAnsisop_desplazado: "finAnsisop L E s = Some s' \<Longrightarrow> desplazado s s'"
  by (auto simp: finAnsisop_def dest: enviarPCBparaNucleo_desplazado)

lemma umc_desplazado:
  "solicitarBytesUMC L E pag off n s = Some (r, s') \<Longrightarrow> desplazado s s'"
  "almacenarBytesUMC L E pag off n v s = Some s' \<Longrightarrow> desplazado s s'"
  by (auto simp: solicitarBytesUMC_def almacenarBytesUMC_def bind_eq_Some_conv Let_def split: if_split_asm
      dest!: recv_desplazado finAnsisop_desplazado intro: desplazado_trans)

lemma notificarNucleoQuantum_desplazado: "notificarNucleoQuantum L E s = Some s' \<Longrightarrow> desplazado s s'"
  by (auto simp: notificarNucleoQuantum_def bind_eq_Some_conv split: if_split_asm
      dest!: recv_desplazado enviarPCBparaNucleo_desplazado intro: desplazado_trans)

section \<open>Every primitive keeps the offset\<close>

lemma definirVariable_desplazado: "definirVariable L E i s = Some (v, s') \<Longrightarrow> desplazado s s'"
  by (auto simp: definirVariable_def primera_variable_def otra_variable_def malloc_variable_def malloc_contexto_def
      bind_eq_Some_conv Let_def split: if_split_asm)

lemma dereferenciar_desplazado: "dereferenciar L E d s = Some (v, s') \<Longrightarrow> desplazado s s'"
  by (auto simp: dereferenciar_def bind_eq_Some_conv dest: umc_desplazado)

lemma asignar_desplazado: "asignar L E d v s = Some s' \<Longrightarrow> desplazado s s'"
  by (auto simp: asignar_def bind_eq_Some_conv dest: umc_desplazado)

lemma compartida_desplazado:
  "obtenerValorCompartida x s = Some (v, s') \<Longrightarrow> desplazado s s'"
  "asignarValorCompartida x v s = (w, s') \<Longrightarrow> desplazado s s'"
  by (auto simp: obtenerValorCompartida_def solicitarValorVarCompartida_def asignarValorCompartida_def enviarAsignarValor_def
      dest: recv_desplazado)

lemma salto_desplazado:
  "irAlLabel E e s = Some s' \<Longrightarrow> desplazado s s'"
  "llamarConRetorno L E e d s = Some s' \<Longrightarrow> desplazado s s'"
  by (auto simp: irAlLabel_def llamarConRetorno_def malloc_contexto_def bind_eq_Some_conv Let_def)

lemma retornar_desplazado: "retornar L E v s = Some s' \<Longrightarrow> desplazado s s'"
  by (auto simp: retornar_def bind_eq_Some_conv case_prod_beta Let_def dest!: umc_desplazado)

lemma imprimir_desplazado:
  "imprimirTexto t s = Some s' \<Longrightarrow> desplazado s s'" "imprimir E v s = Some s' \<Longrightarrow> desplazado s s'"
  by (auto simp: imprimir_def imprimirTexto_def enviarImprimir_def bind_eq_Some_conv)

lemma avisoEntradaSalida_desplazado: "avisoEntradaSalida L E x s = Some s' \<Longrightarrow> desplazado s s'"
  by (auto simp: avisoEntradaSalida_def serializarEntradaSalida_def desplazado_def bind_eq_Some_conv
      dest!: serializar_orden_desplazado enviarPCBparaNucleo_desplazado)

lemma entradaSalida_desplazado: "entradaSalida L E x s = Some s' \<Longrightarrow> desplazado s s'"
  by (auto simp: entradaSalida_def dest: avisoEntradaSalida_desplazado)

lemma avisoWait_desplazado: "avisoWait L E x s = Some s' \<Longrightarrow> desplazado s s'"
proof -
  assume "avisoWait L E x s = Some s'"
  then obtain buf s1 w s2 where 1: "serializarWait x (buffer_nuevo E 60000) (s\<lparr>tamanioHastaAhora := 0\<rparr>) = Some (buf, s1)"
      "recv_nucleo (al_nucleo_cpu (take (tamanioHastaAhora s1) buf) s1) = Some (w, s2)"
    and 2: "(if w = BLOQUEADO then do { s \<leftarrow> enviarPCBparaNucleo L BLOQUEAR_PCB_SEMAFORO buf s2; Some (s\<lparr>sigo_ejecutando := False\<rparr>) }
      else Some s2) = Some s'"
    by (auto simp: avisoWait_def bind_eq_Some_conv Let_def)
  have "0 < tamanioHastaAhora s1" "desplazado s1 s2" "desplazado s2 s'"
    using 1 2 by (auto simp: serializarWait_def bind_eq_Some_conv split: if_split_asm
        dest!: serializar_orden_desplazado recv_desplazado enviarPCBparaNucleo_desplazado)
  then show ?thesis
    by (simp add: desplazado_def)
qed

lemma avisoSignal_desplazado: "avisoSignal E x s = Some s' \<Longrightarrow> desplazado s s'"
  by (auto simp: avisoSignal_def serializarWait_def desplazado_def al_nucleo_cpu_def bind_eq_Some_conv Let_def
      dest!: serializar_orden_desplazado)

lemma finalizar_desplazado: "finalizar L E s = Some s' \<Longrightarrow> desplazado s s'"
  by (auto simp: finalizar_def dest: finAnsisop_desplazado)

lemmas primitiva_desplazado = definirVariable_desplazado dereferenciar_desplazado asignar_desplazado compartida_desplazado
  salto_desplazado retornar_desplazado imprimir_desplazado entradaSalida_desplazado avisoWait_desplazado avisoSignal_desplazado
  finalizar_desplazado

lemma analizadorLinea_desplazado: "analizadorLinea L E k s = Some s' \<Longrightarrow> desplazado s s'"
  by (induction k arbitrary: s)
    (auto simp: bind_eq_Some_conv split: prod.split_asm dest!: primitiva_desplazado intro: desplazado_trans,
      (blast intro: desplazado_trans)+)

text \<open>
  The states of a CPU in which the parser may call a primitive: after the change of process, and then
  after any calls, after the program counter or the flag of the jump changed, and after the answers of
  the memory process and of the nucleo.
\<close>

inductive en_linea :: "('l, nodo) t_list_more \<Rightarrow> 'l cpu_env \<Rightarrow> 'l cpu \<Rightarrow> bool" for L E where
  cambio: "enviarCambioProcesoUMC s = Some s' \<Longrightarrow> en_linea L E s'"
| llamada: "en_linea L E s \<Longrightarrow> analizadorLinea L E k s = Some s' \<Longrightarrow> en_linea L E s'"
| linea: "en_linea L E s \<Longrightarrow> solicitarBytesUMC L E pag off n s = Some (bs, s') \<Longrightarrow> en_linea L E s'"
| avance: "en_linea L E s \<Longrightarrow> en_linea L E (s\<lparr>pcb := p, flagSaltoLinea := b\<rparr>)"
| quantum: "en_linea L E s \<Longrightarrow> notificarNucleoQuantum L E s = Some s' \<Longrightarrow> en_linea L E s'"

lemma en_linea_paso: "en_linea L E s \<Longrightarrow> paso_cpu L E A s = Some s' \<Longrightarrow> en_linea L E s'"
proof -
  assume s: "en_linea L E s" and "paso_cpu L E A s = Some s'"
  then obtain pag off n bs l s1 s2 p where 1: "solicitarBytesUMC L E pag off n s = Some (bs, s1)" "parsearLinea L E A l s1 = Some s2"
    and 2: "notificarNucleoQuantum L E (if flagSaltoLinea s2 then s2\<lparr>flagSaltoLinea := False\<rparr>
      else s2\<lparr>pcb := Some (p\<lparr>PC := PC p + 1\<rparr>)\<rparr>) = Some s'"
    by (auto simp: paso_cpu_def bind_eq_Some_conv Let_def)
  have "en_linea L E s2"
    using s 1(1) parsearLinea_llamadas [OF 1(2)] en_linea.linea en_linea.llamada by blast
  then have "en_linea L E (s2\<lparr>pcb := pcb s2, flagSaltoLinea := False\<rparr>)"
      "en_linea L E (s2\<lparr>pcb := Some (p\<lparr>PC := PC p + 1\<rparr>), flagSaltoLinea := flagSaltoLinea s2\<rparr>)"
    by (rule en_linea.avance)+
  then show ?thesis
    using 2 en_linea.quantum by (auto split: if_split_asm)
qed

lemma en_linea_desplazado: "en_linea L E s \<Longrightarrow> 0 < tamanioHastaAhora s"
  by (induction rule: en_linea.induct)
    (auto simp: enviarCambioProcesoUMC_def a_la_umc_def bind_eq_Some_conv
      dest!: analizadorLinea_desplazado umc_desplazado notificarNucleoQuantum_desplazado simp: desplazado_def)

lemma poner_length: "poner k bs buf = Some buf' \<Longrightarrow> length buf' = length buf \<and> k + length bs \<le> length buf"
  by (auto simp: poner_def length_blit split: if_split_asm)

lemma serializar_orden_cabe:
  "serializar_orden w x buf s = Some r \<Longrightarrow> tamanioHastaAhora s + 12 + length (con_nul x) \<le> length buf"
  by (auto simp: serializar_orden_def bind_eq_Some_conv Let_def dest!: poner_length)

lemma avisoSignal_None: "0 < tamanioHastaAhora s \<Longrightarrow> avisoSignal E x s = None"
  using serializar_orden_cabe [of ORDEN_WAIT x "buffer_nuevo E (12 + length (con_nul x))" s]
  by (cases "serializarWait x (buffer_nuevo E (12 + length (con_nul x))) s")
    (auto simp: avisoSignal_def serializarWait_def buffer_nuevo_def Let_def)

section \<open>Properties\<close>

text \<open>
  C36: when the planner has a process and a CPU it takes the first process of the ready queue and hands it
  to the first free CPU of the list, which becomes busy with it; the CPU that reads the message has the
  same control block and quantum time, and reads no byte more.
\<close>
theorem despacho_correct:
  assumes lists: "nucleo_lists L elems" and p: "elems (readyPCBs s) = x # xs" "pcbs s x = Some p" "pcb_nuevo p"
    and l: "elems (listaCPUs s) = us @ q # vs" and q: "cpus s q = Some c" "estado_cpu c = 1"
    and us: "\<forall>u \<in> set us. \<exists>d. cpus s u = Some d \<and> estado_cpu d \<noteq> 1"
    and sems: "espera_cpu s" "0 < sem_cpu s"
    and n: "8 * length (indiceDeCodigo p) + unat (etiquetas_size p) \<le> 5952"
    and E: "sizeof_t_PCB E \<le> 40 + 8 * length (indiceDeCodigo p) + unat (etiquetas_size p)"
  shows "\<exists>s' bs. planif_asigna L s = Some s' \<and> elems (readyPCBs s') = xs
    \<and> cpus s' q = Some (c\<lparr>estado_cpu := 0, pcbAsoc := PID p\<rparr>)
    \<and> llamadas_nucleo s' = llamadas_nucleo s @ [Envia (s_cpu c) bs]
    \<and> (\<forall>t rest. de_nucleo t = bs @ rest \<longrightarrow>
         recibirPCBparaCPU Lc E t = Some (t\<lparr>quantum_sleep := qSleep s, pcb := Some (pcb_visto p), de_nucleo := rest\<rparr>))"
proof -
  obtain l' where l': "queue_pop L (readyPCBs s) = (Some x, l')" "elems l' = xs"
    using nucleo_lists.pop_front [OF lists p(1)] by auto
  have libre: "primero L (listaCPUs s) (\<lambda>q. map_option (\<lambda>c. estado_cpu c = 1) (cpus s q)) 0 = Some (Some (length us, q))"
    using us q by (subst nucleo_lists.busca [OF lists l]) fastforce+
  let ?s = "upd_cpu q (\<lambda>c. c\<lparr>estado_cpu := 0, pcbAsoc := PID p\<rparr>) (s\<lparr>sem_cpu := sem_cpu s - 1, espera_cpu := False, readyPCBs := l'\<rparr>)"
  obtain bs where bs: "enviar_pcb L codigo_entero ?s p = Some (bs, p)"
      "length bs = 36 + 8 * length (indiceDeCodigo p) + unat (etiquetas_size p)"
    by (rule enviar_pcb_nuevo_length [OF p(3)])
  let ?m = "le32 ENVIO_PCB @ le32 (qSleep s) @ le32 (of_nat (4 + length bs)) @ bs"
  have "planif_asigna L s = Some (envia (s_cpu c) ?m (?s\<lparr>pcbs := (pcbs ?s)(x \<mapsto> p)\<rparr>))"
    using sems l'(1) p(2) libre q(1) n bs
    by (simp add: planif_asigna_def asignarPCB_def buscarCPUyAsignar_def serializarPCByEnviar_def upd_cpu_def)
  moreover have "recibirPCBparaCPU Lc E t = Some (t\<lparr>quantum_sleep := qSleep s, pcb := Some (pcb_visto p), de_nucleo := rest\<rparr>)"
    if "de_nucleo t = ?m @ rest" for t rest
    using recibirPCBparaCPU_despacho [OF p(3) bs(1), where rest = rest] that n E bs(2) by simp
  ultimately show ?thesis
    using l'(2) q(1) by (intro exI [of _ "envia (s_cpu c) ?m (?s\<lparr>pcbs := (pcbs ?s)(x \<mapsto> p)\<rparr>)"] exI [of _ ?m])
      (simp add: envia_def anota_def upd_cpu_def)
qed

definition demo_pcb :: "nodo list t_PCB" where
  "demo_pcb = \<lparr>PID = 6, PC = 0, paginasCodigo = 1, paginasStack = 2, cantOperacIO = 0, tamanioIndiceDeCodigo = 2,
     indiceDeCodigo = [(0, 0), (0, 0)], etiquetas_size = 0, etiquetas = None, SP = 0, tamanioIndiceStack = 0, indiceDeStack = None\<rparr>"

definition demo_cpu_env :: "nodo list cpu_env" where
  "demo_cpu_env = \<lparr>basura_buffer = (\<lambda>_. 0), basura_contexto = \<lparr>cantArgs = 0, st_args = None, cantVars = 0, st_vars = None,
       retPos = 0, retVar = \<lparr>pos_pag = 0, pos_offset = 0\<rparr>\<rparr>,
     puntero_no_mapeado = True, sizeof_t_PCB = 48, tras_linea = (\<lambda>_. [0]), buscar_etiqueta = (\<lambda>_ _ _. 0), itoa = (\<lambda>_. [])\<rparr>"

lemma demo_pcb_nuevo: "pcb_nuevo demo_pcb" "pcb_visto demo_pcb = demo_pcb"
  by (simp_all add: pcb_nuevo_def pcb_visto_def demo_pcb_def)

definition demo_listo :: "(nodo list, byte list \<Rightarrow> nodo option) nucleo" where
  "demo_listo = demo_vacio\<lparr>listaCPUs := [3], readyPCBs := [4], proximo := 5, pcbs := [4 \<mapsto> demo_pcb], qSleep := 9,
     cpus := [3 \<mapsto> \<lparr>s_cpu = 5, q_asoc = 2, pcbAsoc = 0, estadoPCB = 0, estado_cpu = 1\<rparr>], sem_cpu := 1, espera_cpu := True\<rparr>"

theorem despacho_correct_witness:
  "\<exists>s' bs. planif_asigna hol_list_more demo_listo = Some s' \<and> readyPCBs s' = []
    \<and> llamadas_nucleo s' = [Envia 5 bs]
    \<and> (\<forall>t rest. de_nucleo t = bs @ rest \<longrightarrow>
         recibirPCBparaCPU hol_list_more demo_cpu_env t = Some (t\<lparr>quantum_sleep := 9, pcb := Some demo_pcb, de_nucleo := rest\<rparr>))"
proof -
  let ?c = "\<lparr>s_cpu = 5, q_asoc = 2, pcbAsoc = 0, estadoPCB = 0, estado_cpu = 1\<rparr>"
  have n: "8 * length (indiceDeCodigo demo_pcb) + unat (etiquetas_size demo_pcb) \<le> 5952"
      "sizeof_t_PCB demo_cpu_env \<le> 40 + 8 * length (indiceDeCodigo demo_pcb) + unat (etiquetas_size demo_pcb)"
    by (simp_all add: demo_pcb_def demo_cpu_env_def)
  have s: "readyPCBs demo_listo = 4 # []" "pcbs demo_listo 4 = Some demo_pcb" "listaCPUs demo_listo = [] @ 3 # []"
      "cpus demo_listo 3 = Some ?c" "estado_cpu ?c = 1" "\<forall>u \<in> set []. \<exists>d. cpus demo_listo u = Some d \<and> estado_cpu d \<noteq> 1"
      "espera_cpu demo_listo" "0 < sem_cpu demo_listo"
    by (simp_all add: demo_listo_def)
  have "s_cpu ?c = 5" "qSleep demo_listo = 9" "llamadas_nucleo demo_listo = []"
    by (simp_all add: demo_listo_def demo_vacio_def)
  then show ?thesis
    using despacho_correct [OF hol_nucleo.nucleo_lists_axioms s(1,2) demo_pcb_nuevo(1) s(3-8) n, of hol_list_more]
    unfolding demo_pcb_nuevo(2) by auto
qed

text \<open>
  C37: the control block that a CPU gives back at the end of a quantum is not the one it had. Its size is
  written over its PID, so the nucleo, after the three words of the header, reads every word one place
  too early: if it gets to the end of a control block at all, the PID of that block is the program
  counter, and so on.
\<close>
theorem pcb_vuelta:
  assumes p: "pcb s = Some p" and s': "serializarYEnvioPCB L FIN_QUANTUM s = Some s'"
    and t: "entrada_de t fd = drop (length (a_nucleo_cpu s)) (a_nucleo_cpu s') @ rest"
  shows "\<exists>tam t1. cabecera fd t = Some ((ID_CPU, FIN_QUANTUM, tam), t1)
    \<and> (\<forall>x t2. deserializarPCBTradicional Ln E fd tam t1 = Some (x, t2) \<longrightarrow>
        (\<exists>p'. pcbs t2 x = Some p' \<and> PID p' = PC p \<and> PC p' = paginasCodigo p \<and> paginasCodigo p' = paginasStack p
          \<and> paginasStack p' = cantOperacIO p \<and> cantOperacIO p' = tamanioIndiceDeCodigo p))"
proof -
  obtain bs p1 where bs: "enviar_pcb L codigo_entero s p = Some (bs, p1)"
    and a: "a_nucleo_cpu s' = a_nucleo_cpu s @ blit (le32 ID_CPU @ le32 FIN_QUANTUM @ bs) 8
      (le32 (of_nat (length (le32 ID_CPU @ le32 FIN_QUANTUM @ bs) - 8)))"
    using s' p by (auto simp: serializarYEnvioPCB_def bind_eq_Some_conv al_nucleo_cpu_def Let_def split: if_split_asm)
  obtain r where r: "bs = le32 (PID p) @ le32 (PC p) @ le32 (paginasCodigo p)
     @ le32 (paginasStack p) @ le32 (cantOperacIO p) @ le32 (tamanioIndiceDeCodigo p) @ r"
    using enviar_pcb_cabeza [OF bs] by auto
  define tam :: u32 where "tam = of_nat (length bs)"
  let ?in = "le32 (PC p) @ le32 (paginasCodigo p) @ le32 (paginasStack p) @ le32 (cantOperacIO p)
      @ le32 (tamanioIndiceDeCodigo p) @ r @ rest"
  have "entrada_de t fd = le32 ID_CPU @ le32 FIN_QUANTUM @ le32 tam @ ?in"
    using t a by (simp add: r blit_def tam_def)
  then have "cabecera fd t = Some ((ID_CPU, FIN_QUANTUM, tam), t\<lparr>entrada_de := (entrada_de t)(fd := ?in)\<rparr>)"
    by (simp add: cabecera_def recv_u32_de_def)
  moreover have "\<exists>p'. pcbs t2 x = Some p' \<and> PID p' = PC p \<and> PC p' = paginasCodigo p \<and> paginasCodigo p' = paginasStack p
          \<and> paginasStack p' = cantOperacIO p \<and> cantOperacIO p' = tamanioIndiceDeCodigo p"
    if "deserializarPCBTradicional Ln E fd tam (t\<lparr>entrada_de := (entrada_de t)(fd := ?in)\<rparr>) = Some (x, t2)" for x t2
    using that by (auto simp: deserializarPCBTradicional_def recibir_pcb_def malloc_pcb_def bind_eq_Some_conv split: if_split_asm)
  ultimately show ?thesis
    by blast
qed

text \<open>
  C38: from the change of process on, and through every call of a primitive, every line read and every
  notification, the offset of the messages is not 0; so the primitive signal, whose buffer is exactly of
  the size of its message and which does not reset the offset, always writes past the end of that buffer.
\<close>
theorem cpu_signal_desborda:
  assumes "en_linea L E s"
  shows "avisoSignal E x s = None"
  using en_linea_desplazado [OF assms] by (rule avisoSignal_None)

text \<open>
  C39: a CPU runs one control block. When its first round ended, the flag that ends it is never set again:
  the next block that the nucleo hands to it is received and announced to the memory process, and not one
  instruction of it is executed nor any answer sent to the nucleo.
\<close>
theorem cpu_una_rafaga:
  assumes v: "vuelta_cpu L E A s0 = Some s"
    and p: "pcb_nuevo p" "enviar_pcb Ln codigo_entero m p = Some (bs, p')"
    and n: "sizeof_t_PCB E \<le> 4 + length bs" "12 + length bs \<le> 6000"
    and t: "de_nucleo s = le32 ENVIO_PCB @ le32 qs @ le32 (of_nat (4 + length bs)) @ bs @ rest"
  shows "vuelta_cpu L E A s = Some (a_la_umc (le32 CAMBIO_DE_PROCESO @ le32 (PID p))
    (s\<lparr>quantum_sleep := qs, pcb := Some (pcb_visto p), de_nucleo := rest, tamanioHastaAhora := 8\<rparr>))"
  using vuelta_cpu_para [OF v] recibirPCBparaCPU_despacho [OF p n t, of L]
  by (simp add: vuelta_cpu_def enviarCambioProcesoUMC_def rafaga_cpu_parada a_la_umc_def pcb_visto_def)

text \<open>A CPU with one program, of which every line ends it.\<close>

definition demo_cpu :: "nodo list cpu" where
  "demo_cpu = \<lparr>variables = Map.empty, contextos = Map.empty, proximo = 0, pcb = Some demo_pcb, sigo_ejecutando = True,
     fin_cpu = False, tamanioPagina = 4, quantum_sleep = 0, tamanioHastaAhora = 8, flagSaltoLinea = False,
     a_nucleo_cpu = [], de_nucleo = [], a_umc = [], de_umc = []\<rparr>"

theorem cpu_signal_desborda_witness:
  "avisoSignal demo_cpu_env [83] (a_la_umc (le32 CAMBIO_DE_PROCESO @ le32 6) demo_cpu) = None"
proof -
  have "en_linea hol_list_more demo_cpu_env (a_la_umc (le32 CAMBIO_DE_PROCESO @ le32 6) demo_cpu)"
    by (rule en_linea.cambio [of demo_cpu]) (simp add: enviarCambioProcesoUMC_def demo_cpu_def demo_pcb_def a_la_umc_def)
  then show ?thesis
    by (rule cpu_signal_desborda)
qed

definition demo_bytes :: "byte list" where
  "demo_bytes = le32 6 @ le32 0 @ le32 1 @ le32 2 @ le32 0 @ le32 2 @ (le32 0 @ le32 0 @ le32 0 @ le32 0) @ le32 0 @ le32 0 @ le32 0"

lemma demo_enviar: "enviar_pcb hol_list_more codigo_entero s demo_pcb = Some (demo_bytes, demo_pcb)"
  by (simp add: enviar_pcb_def demo_pcb_def codigo_entero_def bytes_etiquetas_def bytes_instruccion_def demo_bytes_def)

lemma demo_bytes_length [simp]: "length demo_bytes = 52"
  by (simp add: demo_bytes_def)

theorem pcb_vuelta_witness:
  "\<exists>s' tam t1 x t2 p'. serializarYEnvioPCB hol_list_more FIN_QUANTUM demo_cpu = Some s'
    \<and> cabecera 5 (demo_vacio\<lparr>entrada_de := (\<lambda>_. a_nucleo_cpu s')\<rparr>) = Some ((ID_CPU, FIN_QUANTUM, tam), t1)
    \<and> deserializarPCBTradicional hol_list_more (demo_env\<lparr>sizeof_pcb := 48\<rparr>) 5 tam t1 = Some (x, t2)
    \<and> pcbs t2 x = Some p' \<and> PID p' = PC demo_pcb \<and> PID p' \<noteq> PID demo_pcb"
proof -
  let ?s' = "al_nucleo_cpu (blit (le32 ID_CPU @ le32 FIN_QUANTUM @ demo_bytes) 8 (le32 52)) demo_cpu"
  let ?in = "le32 0 @ le32 1 @ le32 2 @ le32 0 @ le32 2 @ (le32 0 @ le32 0 @ le32 0 @ le32 0) @ le32 0 @ le32 0 @ le32 0"
  let ?t = "demo_vacio\<lparr>entrada_de := (\<lambda>_. a_nucleo_cpu ?s')\<rparr>"
  have s': "serializarYEnvioPCB hol_list_more FIN_QUANTUM demo_cpu = Some ?s'" and p: "pcb demo_cpu = Some demo_pcb"
    by (simp_all add: serializarYEnvioPCB_def demo_cpu_def demo_enviar Let_def)
  have t: "entrada_de ?t 5 = drop (length (a_nucleo_cpu demo_cpu)) (a_nucleo_cpu ?s') @ []"
    by (simp add: demo_cpu_def)
  have "a_nucleo_cpu ?s' = le32 ID_CPU @ le32 FIN_QUANTUM @ le32 52 @ ?in"
    by (simp add: al_nucleo_cpu_def demo_cpu_def blit_def demo_bytes_def)
  then have c: "cabecera 5 ?t = Some ((ID_CPU, FIN_QUANTUM, 52), ?t\<lparr>entrada_de := (entrada_de ?t)(5 := ?in)\<rparr>)"
    by (simp add: cabecera_def recv_u32_de_def)
  have "\<exists>x t2. deserializarPCBTradicional hol_list_more (demo_env\<lparr>sizeof_pcb := 48\<rparr>) 5 52 (?t\<lparr>entrada_de := (entrada_de ?t)(5 := ?in)\<rparr>) = Some (x, t2)"
    by (simp add: deserializarPCBTradicional_def recibir_pcb_def recibir_def malloc_pcb_def)
  then obtain x t2 where d: "deserializarPCBTradicional hol_list_more (demo_env\<lparr>sizeof_pcb := 48\<rparr>) 5 52
      (?t\<lparr>entrada_de := (entrada_de ?t)(5 := ?in)\<rparr>) = Some (x, t2)"
    by blast
  have "PC demo_pcb \<noteq> PID demo_pcb"
    by (simp add: demo_pcb_def)
  then show ?thesis
    using pcb_vuelta [OF p s' t, of hol_list_more "demo_env\<lparr>sizeof_pcb := 48\<rparr>"] s' c d by fastforce
qed

definition demo_mensaje :: "byte list" where
  "demo_mensaje = le32 ENVIO_PCB @ le32 9 @ le32 (of_nat (4 + length demo_bytes)) @ demo_bytes"

definition demo_linea :: "byte list \<Rightarrow> llamadas" where
  "demo_linea l = Finalizar Fin_linea"

definition demo_cpu_inicio :: "nodo list cpu" where
  "demo_cpu_inicio = demo_cpu\<lparr>de_nucleo := demo_mensaje @ le32 77 @ demo_mensaje, de_umc := le32 OK_SOLICITUD_UMC\<rparr>"

definition demo_cpu_recibido :: "nodo list cpu" where
  "demo_cpu_recibido = demo_cpu_inicio\<lparr>quantum_sleep := 9, pcb := Some demo_pcb, de_nucleo := le32 77 @ demo_mensaje\<rparr>"

definition demo_cpu_cambio :: "nodo list cpu" where
  "demo_cpu_cambio = a_la_umc (le32 CAMBIO_DE_PROCESO @ le32 6) (demo_cpu_recibido\<lparr>tamanioHastaAhora := 8\<rparr>)"

lemma demo_recibe: "recibirPCBparaCPU hol_list_more demo_cpu_env demo_cpu_inicio = Some demo_cpu_recibido"
  using recibirPCBparaCPU_despacho [OF demo_pcb_nuevo(1) demo_enviar, of demo_cpu_env demo_cpu_inicio 9 "le32 77 @ demo_mensaje" hol_list_more]
  by (simp add: demo_pcb_nuevo(2) demo_cpu_env_def demo_cpu_inicio_def demo_cpu_recibido_def demo_mensaje_def)

lemma demo_paso:
  "\<exists>s. paso_cpu hol_list_more demo_cpu_env demo_linea demo_cpu_cambio = Some s \<and> \<not> sigo_ejecutando s \<and> de_nucleo s = demo_mensaje"
proof -
  let ?s = "(al_nucleo_cpu (blit (le32 ID_CPU @ le32 FIN_ANSISOP @ demo_bytes) 8 (le32 52))
    (a_la_umc (serializarPedidoUMC 0 0 0) demo_cpu_cambio\<lparr>de_umc := []\<rparr>))\<lparr>sigo_ejecutando := False\<rparr>"
  have 1: "calcularNumPag demo_cpu_cambio = Some 0" "calcularOffset demo_cpu_cambio = Some 0" "pcb demo_cpu_cambio = Some demo_pcb"
      "instruccion_en (PC demo_pcb + 1) demo_pcb = Some (0, 0)" "flagSaltoLinea ?s = False" "pcb ?s = Some demo_pcb"
    by (simp_all add: calcularNumPag_def calcularOffset_def instruccion_en_def en_pagina_def demo_cpu_cambio_def a_la_umc_def
        al_nucleo_cpu_def demo_cpu_recibido_def demo_cpu_inicio_def demo_cpu_def demo_pcb_def)
  have 2: "solicitarBytesUMC hol_list_more demo_cpu_env 0 0 0 demo_cpu_cambio
      = Some (Some [], a_la_umc (serializarPedidoUMC 0 0 0) demo_cpu_cambio\<lparr>de_umc := []\<rparr>)"
    by (simp add: solicitarBytesUMC_def recv_umc_def recibir_def a_la_umc_def demo_cpu_cambio_def demo_cpu_recibido_def demo_cpu_inicio_def)
  have 3: "analizadorLinea hol_list_more demo_cpu_env (demo_linea []) (a_la_umc (serializarPedidoUMC 0 0 0) demo_cpu_cambio\<lparr>de_umc := []\<rparr>) = Some ?s"
    by (simp add: demo_linea_def finalizar_def finAnsisop_def enviarPCBparaNucleo_def orden_defs serializarYEnvioPCB_def a_la_umc_def
        demo_cpu_cambio_def demo_cpu_recibido_def demo_enviar al_nucleo_cpu_def Let_def demo_cpu_inicio_def demo_cpu_def)
  have 5: "tras_linea demo_cpu_env t = [0]" "cstr [0] = []" for t
    by (simp_all add: demo_cpu_env_def cstr_def)
  have 4: "\<exists>s. notificarNucleoQuantum hol_list_more demo_cpu_env (?s\<lparr>pcb := Some (demo_pcb\<lparr>PC := PC demo_pcb + 1\<rparr>)\<rparr>) = Some s
      \<and> \<not> sigo_ejecutando s \<and> de_nucleo s = demo_mensaje"
    by (simp add: notificarNucleoQuantum_def recv_nucleo_def al_nucleo_cpu_def a_la_umc_def demo_cpu_cambio_def demo_cpu_recibido_def
        DEVOLVER_PCB_def SEGUIR_EJECUTANDO_def Let_def)
  show ?thesis
    unfolding paso_cpu_def using 4 by (simp add: 1 2 3 5 parsearLinea_def Let_def)
qed

lemma demo_vuelta:
  "\<exists>s. vuelta_cpu hol_list_more demo_cpu_env demo_linea demo_cpu_inicio = Some s \<and> de_nucleo s = demo_mensaje"
proof -
  obtain s where s: "paso_cpu hol_list_more demo_cpu_env demo_linea demo_cpu_cambio = Some s" "\<not> sigo_ejecutando s" "de_nucleo s = demo_mensaje"
    using demo_paso by blast
  have "enviarCambioProcesoUMC demo_cpu_recibido = Some demo_cpu_cambio" "sigo_ejecutando demo_cpu_cambio"
    by (simp_all add: enviarCambioProcesoUMC_def demo_cpu_cambio_def a_la_umc_def demo_cpu_recibido_def demo_pcb_def
        demo_cpu_inicio_def demo_cpu_def)
  then have "vuelta_cpu hol_list_more demo_cpu_env demo_linea demo_cpu_inicio = Some s"
    using s rafaga_cpu.simps [of _ _ _ demo_cpu_cambio] by (simp add: vuelta_cpu_def demo_recibe rafaga_cpu_parada)
  then show ?thesis
    using s(3) by blast
qed

theorem cpu_una_rafaga_witness:
  "\<exists>s s'. vuelta_cpu hol_list_more demo_cpu_env demo_linea demo_cpu_inicio = Some s
    \<and> vuelta_cpu hol_list_more demo_cpu_env demo_linea s = Some s'
    \<and> pcb s' = Some demo_pcb \<and> a_nucleo_cpu s' = a_nucleo_cpu s \<and> a_umc s' = a_umc s @ le32 CAMBIO_DE_PROCESO @ le32 6"
proof -
  obtain s where s: "vuelta_cpu hol_list_more demo_cpu_env demo_linea demo_cpu_inicio = Some s" "de_nucleo s = demo_mensaje"
    using demo_vuelta by blast
  have n: "sizeof_t_PCB demo_cpu_env \<le> 4 + length demo_bytes" "12 + length demo_bytes \<le> 6000"
    by (simp_all add: demo_cpu_env_def)
  have t: "de_nucleo s = le32 ENVIO_PCB @ le32 9 @ le32 (of_nat (4 + length demo_bytes)) @ demo_bytes @ []"
    using s(2) by (simp add: demo_mensaje_def)
  show ?thesis
    using cpu_una_rafaga [OF s(1) demo_pcb_nuevo(1) demo_enviar n t] s(1) demo_pcb_nuevo(2)
    by (simp add: a_la_umc_def) (simp add: demo_pcb_def)
qed

end
