(* ===== verification/Consola.thy ===== *)
theory Consola
  imports Cpu_Correct
begin

text \<open>
  The console of a program (\<^verbatim>\<open>consola/consola.c\<close>): it sends the text of the program to the nucleo and
  shows what the nucleo tells it to. What is printed on the terminal for other reasons is left out.
\<close>

record consola =
  a_nucleo_consola :: "byte list"
  c_entrada :: "byte list"
  c_buffer :: "byte list option"          \<comment> \<open>\<open>None\<close>: not allocated, or freed\<close>
  prog_abierto :: bool
  mandoPrograma :: bool
  mostrado :: "byte list list"
  terminada :: bool

definition al_nucleo_consola :: "byte list \<Rightarrow> consola \<Rightarrow> consola" where
  "al_nucleo_consola bs c = c\<lparr>a_nucleo_consola := a_nucleo_consola c @ bs\<rparr>"

definition consola_handshake :: "consola \<Rightarrow> consola" where
  "consola_handshake c = al_nucleo_consola (le32 ID_CONSOLA) c"

text \<open>
  \<open>prog\<close> is the content of the file, \<open>None\<close> when it cannot be opened. Its first 115 bytes are skipped;
  the size of a shorter file wraps around and memory that was never set would be sent (\<open>None\<close>).
\<close>

definition enviarAnsisop :: "byte list option \<Rightarrow> consola \<Rightarrow> consola option" where
  "enviarAnsisop prog c = (case prog of
      None \<Rightarrow> Some (c\<lparr>terminada := True\<rparr>)
    | Some bs \<Rightarrow>
        if length bs < 115 then None
        else let texto = drop 115 bs;
                 mensaje = le32 ID_CONSOLA @ le32 INICIALIZAR_ANSISOP @ le32 (of_nat (length texto)) @ texto
             in Some ((al_nucleo_consola mensaje c)\<lparr>c_buffer := Some mensaje, prog_abierto := True\<rparr>))"

text \<open>
  The thread that reads the terminal. The message is written over the buffer of the other thread and
  another buffer, which was never set (\<open>basura\<close>), is sent.
\<close>

definition mensajeConsola :: "byte list \<Rightarrow> int \<Rightarrow> consola \<Rightarrow> consola option" where
  "mensajeConsola basura finalizar_Programa c =
     (if \<not> mandoPrograma c then Some c
      else if finalizar_Programa = 1 then
        case c_buffer c of None \<Rightarrow> None
        | Some buf \<Rightarrow>
            if length buf < 12 \<or> \<not> prog_abierto c then None
            else Some ((al_nucleo_consola (take 12 basura) c)\<lparr>c_buffer := None, prog_abierto := False\<rparr>)
      else Some c)"

text \<open>
  The loop of \<^verbatim>\<open>main\<close>; its last branch ends the process. The buffer is freed and the file closed on
  the way, which is undefined when the other thread has done it already.
\<close>

function consola_loop :: "consola \<Rightarrow> consola option" where
  "consola_loop c = (case recibir_u32 (c_entrada c) of
      None \<Rightarrow> None
    | Some (ord, inp) \<Rightarrow>
        if ord = IMPRIMIR_VALOR \<or> ord = IMPRIMIR_TEXTO then
          (case recibir_u32 inp of
            None \<Rightarrow> None
          | Some (tamanioARecibir, inp) \<Rightarrow>
              (case recibir (unat tamanioARecibir) inp of
                None \<Rightarrow> None
              | Some (texto, inp) \<Rightarrow>
                  consola_loop (c\<lparr>c_entrada := inp, c_buffer := Some texto, mostrado := mostrado c @ [texto]\<rparr>)))
        else if c_buffer c = None \<or> \<not> prog_abierto c then None
        else Some (c\<lparr>c_entrada := inp, c_buffer := None, prog_abierto := False, terminada := True\<rparr>))"
  by pat_completeness auto

termination consola_loop
  by (relation "measure (\<lambda>c. length (c_entrada c))") (auto simp: recibir_u32_def recibir_def split: if_split_asm)

declare consola_loop.simps [simp del]

definition consola_main :: "byte list option \<Rightarrow> consola \<Rightarrow> consola option" where
  "consola_main prog c = do {
     c \<leftarrow> enviarAnsisop prog (consola_handshake c);
     if terminada c then Some c else consola_loop (c\<lparr>mandoPrograma := True\<rparr>)
   }"

section \<open>Properties\<close>

text \<open>
  C40: a text that a program prints ends its console. The nucleo sends the size and the text without the
  number of the order, so the console takes the size for the order: unless the text, with its NUL, has
  10 or 11 bytes, the console says that the program ended and shows nothing. When its user had asked
  for the end of the program before, the buffer is freed a second time instead.
\<close>
theorem impresion_termina_consola:
  assumes p: "pcb t = Some p" and t': "imprimirTexto x t = Some t'"
    and n: "length x + 1 < 2 ^ 32" "length x + 1 \<noteq> 10" "length x + 1 \<noteq> 11"
    and s: "entrada_de s fd = drop (length (a_nucleo_cpu t)) (a_nucleo_cpu t') @ rest"
  shows "\<exists>s' bs. datos_de L D E fd s = Some s' \<and> entrada_de s' fd = rest
    \<and> llamadas_nucleo s' = llamadas_nucleo s @ [Envia (PID p) bs]
    \<and> (\<forall>c more. c_entrada c = bs @ more \<longrightarrow>
         (if c_buffer c \<noteq> None \<and> prog_abierto c
          then \<exists>c'. consola_loop c = Some c' \<and> terminada c' \<and> mostrado c' = mostrado c
          else consola_loop c = None))"
proof -
  let ?n = "of_nat (length x + 1) :: u32"
  have u: "unat ?n = length x + 1"
    unfolding unat_of_nat by (rule mod_less) (use n(1) in simp)
  have "entrada_de s fd = le32 ID_CPU @ le32 IMPRIMIR_TEXTO @ le32 ?n @ con_nul x @ le32 (PID p) @ rest"
    using t' p u s
    by (auto simp: imprimirTexto_def enviarImprimir_def serializarImprimir_def al_nucleo_cpu_def con_nul_def bind_eq_Some_conv)
  moreover have "recibir (unat ?n) (con_nul x @ y) = Some (con_nul x, y)" for y
    by (rule recibir_append, subst u) (simp add: con_nul_def)
  ultimately have d: "datos_de L D E fd s = Some (envia (PID p) (le32 ?n @ con_nul x) (s\<lparr>entrada_de := (entrada_de s)(fd := rest)\<rparr>))"
    by (simp add: datos_de_def cabecera_def recv_u32_de_def recv_de_def atenderOrdenSegunID_def orden_cpu_def orden_defs ID_CPU_def
        ID_CONSOLA_def mandarAImprimirTexto_def)
  have con: "if c_buffer c \<noteq> None \<and> prog_abierto c
      then \<exists>c'. consola_loop c = Some c' \<and> terminada c' \<and> mostrado c' = mostrado c else consola_loop c = None"
    if "c_entrada c = (le32 ?n @ con_nul x) @ more" for c more
  proof -
    have "?n \<noteq> IMPRIMIR_VALOR" "?n \<noteq> IMPRIMIR_TEXTO"
      using u n(2,3) by (auto simp: orden_defs)
    then show ?thesis
      using that by (simp add: consola_loop.simps [of c])
  qed
  show ?thesis
  proof (intro exI conjI allI impI)
    fix c :: consola and more
    assume "c_entrada c = (le32 ?n @ con_nul x) @ more"
    then show "if c_buffer c \<noteq> None \<and> prog_abierto c
      then \<exists>c'. consola_loop c = Some c' \<and> terminada c' \<and> mostrado c' = mostrado c else consola_loop c = None"
      by (rule con)
  qed (rule d, simp_all add: envia_def anota_def)
qed

theorem impresion_termina_consola_witness:
  "\<exists>t' s' bs. imprimirTexto [72, 105] demo_cpu = Some t'
    \<and> datos_de hol_list_more hol_dictionary demo_env 5 (demo_vacio\<lparr>entrada_de := (\<lambda>_. a_nucleo_cpu t')\<rparr>) = Some s'
    \<and> llamadas_nucleo s' = [Envia 6 bs]
    \<and> (\<forall>c. c_entrada c = bs \<longrightarrow> c_buffer c \<noteq> None \<longrightarrow> prog_abierto c \<longrightarrow>
         (\<exists>c'. consola_loop c = Some c' \<and> terminada c' \<and> mostrado c' = mostrado c))"
proof -
  obtain t' where t': "imprimirTexto [72, 105] demo_cpu = Some t'"
    by (simp add: imprimirTexto_def enviarImprimir_def serializarImprimir_def con_nul_def demo_cpu_def)
  have p: "pcb demo_cpu = Some demo_pcb" "PID demo_pcb = 6"
    by (simp_all add: demo_cpu_def demo_pcb_def)
  have n: "length [72, 105 :: byte] + 1 < 2 ^ 32" "length [72, 105 :: byte] + 1 \<noteq> 10" "length [72, 105 :: byte] + 1 \<noteq> 11"
    by simp_all
  have s: "entrada_de (demo_vacio\<lparr>entrada_de := (\<lambda>_. a_nucleo_cpu t')\<rparr>) 5
      = drop (length (a_nucleo_cpu demo_cpu)) (a_nucleo_cpu t') @ []"
    by (simp add: demo_cpu_def)
  show ?thesis
    using impresion_termina_consola [OF p(1) t' n s, of hol_list_more hol_dictionary demo_env] t'
    by (auto simp: p(2) demo_vacio_def)
qed

end
