(* ===== verification/Spec2Isabelle.thy ===== *)
theory Spec2Isabelle
  imports Pokedex_System Osada_Rename Mapa_Correct Mapa_Detector_Correct Mapa_Select Mapa_Carga Swap_Correct UMC_Correct Entrenador_Correct Consola
begin

text \<open>
  A model of the two systems of this repository, with the theorems that say what they do.

  \<^bold>\<open>The programs.\<close> \<^verbatim>\<open>tp-2016-2c-Stranger-Code\<close> is a game over a network. The server \<^verbatim>\<open>pokedex-server\<close> keeps
  an OSADA disk image (header, bitmap, table of 2048 entries, mapping table, data blocks) and
  serves file requests; \<^verbatim>\<open>pokedex-client\<close> turns the callbacks of FUSE into these requests. A map
  (\<^verbatim>\<open>mapas\<close>) is a server with nests of pokemons: its trainers (\<^verbatim>\<open>entrenador\<close>) connect, walk, capture and
  leave; a planner gives them turns (round robin or shortest distance first) and a detector looks for
  trainers that wait for each other and makes them fight. \<^verbatim>\<open>tp-2016-1c-SO-2016-1C\<close> runs programs of the
  language AnSISOP: a \<^verbatim>\<open>consola\<close> sends a program to the \<^verbatim>\<open>Nucleo\<close>, which plans its control block onto
  the \<^verbatim>\<open>cpu\<close> processes; these execute it over the memory process \<^verbatim>\<open>umc\<close>, whose pages that do not fit in
  its frames are kept by \<^verbatim>\<open>Swap\<close>. The processes only share messages; inside one, threads share the state.

  \<^bold>\<open>How the code is translated.\<close> A struct is a record with its fields, a global state the record of the
  process (\<open>osada\<close>, \<open>mapa\<close>, \<open>juego\<close>, \<open>swap\<close>, \<open>umc\<close>, \<open>nucleo\<close>, \<open>cpu\<close>, \<open>consola\<close>), a pointer to a heap
  structure an address of a partial map of that record. A function is a function of its arguments and
  the state, with the names of the code; \<open>uint32_t\<close> is \<open>u32\<close>, with its wrap-around, a byte is \<open>8 word\<close>, and
  conversions between signed and unsigned are written where the code makes them. A handler
  takes the bytes received and gives the bytes sent, the new state and the rest of the input; the
  calls to locks, semaphores and mutexes are recorded in order in the state, or their values kept
  there where a later step depends on them. Undefined behaviour (a wild pointer, a variable read
  before it is set, a write past a buffer) and a call that never returns are the value \<open>None\<close>, so
  that a result \<open>Some\<close> says that the code returns and does nothing undefined on the way.

  \<^bold>\<open>The theories\<close>, in the order in which they build on each other:

  \<^item> \<open>Prelude\<close>: bytes, words, the little-endian layout, C strings, \<^verbatim>\<open>strtok\<close>, \<^verbatim>\<open>recv\<close> with
    \<^verbatim>\<open>MSG_WAITALL\<close>, \<^verbatim>\<open>memcpy\<close>. \<open>Commons\<close>: lists of the library so-commons.
  \<^item> \<^verbatim>\<open>pokedex-server/osada.h\<close> and \<^verbatim>\<open>pokedex-server.c\<close>: \<open>Osada_Disk\<close> (structures, \<^verbatim>\<open>read_and_set\<close>),
    \<open>Osada_Bitarray\<close>, \<open>Osada_Locks\<close> (what a sequence of lock calls does), \<open>Osada_Blocks\<close> (allocation,
    growth and release of the chain of a file), \<open>Osada_Table\<close> (\<^verbatim>\<open>search_dir\<close>, \<^verbatim>\<open>search_node\<close>,
    \<^verbatim>\<open>get_free_file_block\<close>, \<^verbatim>\<open>create_dir\<close>, \<^verbatim>\<open>create_node\<close>), \<open>Osada_Requests\<close> (\<^verbatim>\<open>osada_mkdir\<close>, \<^verbatim>\<open>osada_readdir\<close>,
    \<^verbatim>\<open>osada_getattr\<close>, \<^verbatim>\<open>osada_mknod\<close>, \<^verbatim>\<open>osada_rmdir\<close>, \<^verbatim>\<open>osada_rename\<close>), \<open>Osada_Files\<close> (\<^verbatim>\<open>osada_write\<close>, \<^verbatim>\<open>osada_read\<close>,
    \<^verbatim>\<open>osada_truncate\<close>, \<^verbatim>\<open>osada_unlink\<close>), \<open>Osada_Server\<close> (\<^verbatim>\<open>process_request\<close>). The other \<open>Osada\<close> theories prove:
    \<open>Osada_Invariant\<close>, \<open>Osada_Contents\<close>, \<open>Osada_View\<close>, \<open>Osada_Effects\<close>, \<open>Osada_Names\<close>, \<open>Osada_Paths\<close>,
    \<open>Osada_Layout\<close>, \<open>Osada_Tree\<close>, \<open>Osada_Sample\<close>, \<open>Osada_Correct\<close>, \<open>Osada_Tree_Correct\<close>, \<open>Osada_Listing\<close>,
    \<open>Osada_Connection\<close>, \<open>Osada_Rename\<close>.
  \<^item> \<^verbatim>\<open>pokedex-client.c\<close>: \<open>Pokedex_Client\<close> (the callbacks \<^verbatim>\<open>pk_*\<close>); \<open>Pokedex_System\<close> runs them against
    \<^verbatim>\<open>process_request\<close>.
  \<^item> \<^verbatim>\<open>mapas\<close>: \<open>Mapa_State\<close> (\<^verbatim>\<open>nivel-test.h\<close>, \<^verbatim>\<open>bibliotecaCharMander.c\<close>), \<open>Mapa_Solicitudes\<close>
    (\<^verbatim>\<open>solicitudes.c\<close>), \<open>Mapa_Planificacion\<close> (\<^verbatim>\<open>planificacion.c\<close> and the trainers' part of \<^verbatim>\<open>nivel-test.c\<close>),
    \<open>Mapa_Deadlock\<close> (\<^verbatim>\<open>deteccionDeadlock.c\<close>), \<open>Mapa_Select\<close> and \<open>Mapa_Carga\<close> (the select loop, the
    configuration and the nests of \<^verbatim>\<open>nivel-test.c\<close>). Proofs: \<open>Mapa_Invariant\<close>, \<open>Mapa_Requests\<close>,
    \<open>Mapa_Liberar\<close>, \<open>Mapa_Capture\<close>, \<open>Mapa_Scheduler\<close>, \<open>Mapa_Detector\<close>, \<open>Mapa_Sample\<close>, \<open>Mapa_Correct\<close>,
    \<open>Mapa_Detector_Correct\<close>.
  \<^item> \<^verbatim>\<open>entrenador/src\<close>: \<open>Entrenador_State\<close> (\<^verbatim>\<open>Conexion/conexion.c\<close>, \<^verbatim>\<open>helper.c\<close>), \<open>Entrenador_Viaje\<close>
    (\<^verbatim>\<open>Entrenador/entrenador.c\<close>, \<^verbatim>\<open>Mapa/mapa.c\<close>, the journey of \<^verbatim>\<open>main.c\<close>), \<open>Entrenador_Metadata\<close> (the
    metadata and the signals of \<^verbatim>\<open>main.c\<close>). Proofs: \<open>Entrenador_Walk\<close>, \<open>Entrenador_Correct\<close>.
  \<^item> \<^verbatim>\<open>Swap/src/Swap.c\<close>: \<open>Swap_State\<close>, \<open>Swap_Requests\<close>; proofs: \<open>Swap_Space\<close>, \<open>Swap_Compact\<close>, \<open>Swap_Groups\<close>,
    \<open>Swap_Iniciar\<close>, \<open>Swap_Orders\<close>, \<open>Swap_Correct\<close>.
  \<^item> \<^verbatim>\<open>umc\<close>: \<open>UMC_State\<close> (\<^verbatim>\<open>estructurasUMC.h\<close>, \<^verbatim>\<open>variablesGlobalesUMC.h\<close>), \<open>UMC_Memory\<close>, \<open>UMC_Replacement\<close>
    and \<open>UMC_Requests\<close> (\<^verbatim>\<open>funciones.c\<close>, and the service loops of \<^verbatim>\<open>UMC.c\<close>); proofs: \<open>UMC_Clock\<close>, \<open>UMC_Mutex\<close>,
    \<open>UMC_Correct\<close>.
  \<^item> \<open>Ansisop_PCB\<close>: the control block and the numbers of the messages (\<^verbatim>\<open>Librerias/estructuras.h\<close>).
    \<^verbatim>\<open>cpu\<close>: \<open>Cpu_Funciones\<close> (\<^verbatim>\<open>funciones.c\<close>), \<open>Cpu_Primitivas\<close> (\<^verbatim>\<open>primitivas.c\<close>, \<^verbatim>\<open>CPU.c\<close>), proofs in
    \<open>Cpu_Correct\<close>. \<^verbatim>\<open>Nucleo/nucleo.c\<close>: \<open>Nucleo_State\<close>, \<open>Nucleo_Ordenes\<close> (the orders of consoles and CPUs),
    \<open>Nucleo_Planificador\<close> (the threads), proofs in \<open>Nucleo_Correct\<close>. \<^verbatim>\<open>consola/consola.c\<close>: \<open>Consola\<close>.

  \<^bold>\<open>What is proved.\<close>

  \<^item> OSADA. \<open>fs_ok\<close> says that every regular file owns a chain of as many blocks as its size needs, that
    chains share no block and that the bitmap marks exactly the blocks in use. Every request keeps it,
    whatever bytes arrive, apart from a write whose end does not fit an \<open>int\<close> (\<open>served_consistent\<close>).
    Each request is described from the bytes received to the bytes sent: response, contents of
    the file, the other files, the account of the blocks and the locks that stay taken. The abstract
    file is a list of bytes (\<open>contents\<close>); write, truncate and read are the obvious functions of it.
    With the client, what was written is read back (\<open>pk_write_then_read\<close>).
  \<^item> The map. \<open>mapa_ok\<close> gives each pokemon one owner and each nest the count of those it has;
    what the server reads at its start has it, and so has every state after a request, a
    burst and the departure of a trainer. Captures and both planners are described on every
    outcome; that the shortest-distance planner picks the nearest trainer is stated over the moves
    that trainers can make. The search of the detector may read past an array, in which case the
    pass is followed up to that read, or go on for ever, in which case its rounds are an endless
    sequence of defined states.
  \<^item> The trainer reaches its nest when the map server is the model of \<^verbatim>\<open>mapas\<close>, and what a granted
    capture leaves behind.
  \<^item> Swap. The state is abstracted to the pages of each process (\<open>Swap_Groups\<close>); each order is a
    function of it, compaction is a stable partition, and no order touches the pages of another process.
  \<^item> UMC. The clock is the second-chance algorithm. What its mutexes allow: one read, one program.
  \<^item> Nucleo and CPU. In every run of the steps of the nucleo (\<open>ejecucion\<close>) the processes handed to a CPU
    are at most the programs asked for. The control block of the dispatched process is read back by the
    CPU as it was sent; on its way back it is not.

  Several theorems state what the code does where it is not what a comment or a name leads to expect;
  they hold of the code as it is, and the definitions follow it.

  \<^bold>\<open>Loops and bounds.\<close> A loop that ends on every state is a function with its measure. A loop that may not
  end is a \<open>partial_function\<close> with the value \<open>None\<close> where it does not, and that it returns is part of
  the theorem. Only \<open>liberarRecursos2\<close>, which recurses through the functions of the planner, takes a
  bound \<open>k\<close> on the depth of its calls: the pokemons of the trainer plus the blocked trainers plus two are
  enough, since each call goes on to the next pokemon or to the next blocked trainer (\<open>liberarRecursos2_correct\<close>).
  \<open>rondas_select\<close> and \<open>ejecucion\<close> run any finite sequence of events.

  \<^bold>\<open>Parameters and interfaces.\<close> Code that is not in the repository is an argument of the definitions
  that use it. The laws that the code relies on are locales: \<open>t_list\<close> and \<open>t_list_more\<close> for lists, \<open>bitarray\<close>
  for the bitmap, \<open>t_dictionary\<close> for the shared variables. \<open>map_lists\<close>, \<open>umc_lists\<close> and \<open>nucleo_lists\<close>
  are the contexts in which the clients of the lists are verified; \<open>mapa_remoto\<close> is what a
  trainer relies on at the other end of its connection. All are interpreted: the libraries on HOL
  lists, on the bytes of a bitmap and on maps, \<open>mapa_remoto\<close> on the model of the map server. The
  battles and the factory of pokemons, the comparison without regard to case, the functions on strings
  and configurations, the file system, the size of a pointer and of \<open>size_t\<close> and what malloc and the stack
  hold before they are written are functions or values of the records of parameters
  (\<open>env\<close>, \<open>coach_env\<close>, \<open>carga_env\<close>, \<open>swap_env\<close>, \<open>umc_env\<close>, \<open>nucleo_env\<close>, \<open>cpu_env\<close>). The parser of AnSISOP is
  the dialogue \<open>llamadas\<close> of the primitives it calls. A peer is the bytes it sends; where both ends are
  in the repository it is the model of the other.

  \<^bold>\<open>Not modelled.\<close> Creating sockets, threads, signals and mapped files, the logs, the curses
  drawing of the map (\<^verbatim>\<open>dibujarNivel.c\<close>), the dumps and the console of the UMC (\<^verbatim>\<open>hexdump.c\<close>), the delays,
  and destructors that only free memory: they are calls to the system with no logic of their own.
  Interleavings inside one function: a function is one step, and its lock calls are what shows of the others
  (the nucleo, whose threads wait for each other, is a relation of steps). The helpers of
  \<^verbatim>\<open>Librerias/sockets.c\<close> and the exercises \<^verbatim>\<open>Primitivas\<close>, \<^verbatim>\<open>UMCconSelect.c\<close>, \<^verbatim>\<open>pruebaHilos\<close>, \<^verbatim>\<open>pruebaParser\<close>,
  \<^verbatim>\<open>test sockets\<close>, \<^verbatim>\<open>Servidor-Basico\<close> and \<^verbatim>\<open>Cliente-Basico\<close>, which no process of the two systems is built
  from.

  \<^bold>\<open>Simplifications.\<close> Numbers from the configuration are taken to be non-negative where the code assumes
  it, and \<^verbatim>\<open>malloc\<close> to succeed; one \<^verbatim>\<open>recv\<close> with \<^verbatim>\<open>MSG_WAITALL\<close> takes a message of any size that its four
  bytes can announce, and the byte added to that size for the NUL is assumed not to wrap. The
  ill-formed calls of the log in \<^verbatim>\<open>pokedex-server.c\<close> and the \<^verbatim>\<open>strlen\<close> of the data in \<^verbatim>\<open>pk_write\<close> have no
  effect on what is sent. The memory from \<^verbatim>\<open>bitMap\<close> of \<^verbatim>\<open>Swap.c\<close> on is a list of entries apart from the other
  globals. The copies the detector makes of the trainers (\<^verbatim>\<open>duplicar_lista\<close>) share their lists of
  pokemons with the originals in the code and have lists of the same value here; the search and the
  choice of the victim only read them.
\<close>

end
